(* ===== verification/Prelude.thy ===== *)
theory Prelude
  imports Main "HOL-Library.Word"
begin

text \<open>
  The vocabulary shared by every component: the C integer types, the error codes, the result
  type of a fallible call and its sequencing, reads from a byte buffer that are undefined
  outside the buffer, and the notion of a call that is free of undefined behaviour.
\<close>

unbundle bit_operations_syntax

subsection \<open>Integer types\<close>

type_synonym u8 = "8 word"
type_synonym u16 = "16 word"
type_synonym u32 = "32 word"
type_synonym u64 = "64 word"

abbreviation SSIZE_MAX :: nat where
  "SSIZE_MAX \<equiv> 9223372036854775807"

abbreviation INT64_MAX :: nat where
  "INT64_MAX \<equiv> 9223372036854775807"

abbreviation MEMORY_MAXIMUM_ALLOCATION_SIZE :: nat where
  "MEMORY_MAXIMUM_ALLOCATION_SIZE \<equiv> 128 * 1024 * 1024"

text \<open>Subtraction of two values of type \<open>size_t\<close> (64 bits, unsigned): it wraps around.\<close>

definition size_sub :: "nat \<Rightarrow> nat \<Rightarrow> nat" where
  "size_sub a b = (if b \<le> a then a - b else a + 2 ^ 64 - b)"

lemma size_sub_le [simp]: "b \<le> a \<Longrightarrow> size_sub a b = a - b"
  by (simp add: size_sub_def)

lemma size_sub_word:
  "a < 2 ^ 64 \<Longrightarrow> b < 2 ^ 64 \<Longrightarrow> size_sub a b = unat (word_of_nat a - word_of_nat b :: u64)"
  by (cases "b \<le> a")
    (simp_all add: size_sub_def unat_sub_if' unat_of_nat word_le_nat_alt)

text \<open>A widening conversion keeps the value; a narrowing one keeps a value that fits.\<close>

lemma unat_ucast_up:
  "LENGTH('a::len) \<le> LENGTH('b::len) \<Longrightarrow> unat (ucast (x :: 'a word) :: 'b word) = unat x"
  unfolding unsigned_ucast_eq
  by (rule take_bit_nat_eq_self) (rule less_le_trans [OF unsigned_less], simp)

lemma unat_ucast_fits:
  "unat (x :: 'a::len word) < 2 ^ LENGTH('b::len) \<Longrightarrow> unat (ucast x :: 'b word) = unat x"
  unfolding unsigned_ucast_eq by (rule take_bit_nat_eq_self)

lemma unat_ucast_ups [simp]:
  "unat (ucast (a :: u8) :: u16) = unat a"
  "unat (ucast (a :: u8) :: u32) = unat a"
  "unat (ucast (a :: u8) :: u64) = unat a"
  "unat (ucast (b :: u16) :: u32) = unat b"
  "unat (ucast (b :: u16) :: u64) = unat b"
  "unat (ucast (c :: u32) :: u64) = unat c"
  by (simp_all add: unat_ucast_up)

lemma unat_bounds:
  "unat (a :: u8) < 256" "unat (b :: u16) < 65536" "unat (c :: u32) < 4294967296"
  "unat (d :: u64) < 18446744073709551616"
  using unsigned_less [of a] unsigned_less [of b] unsigned_less [of c] unsigned_less [of d]
  by simp_all

lemma unat_plus_le: "unat (a + b :: 'a::len word) \<le> unat a + unat b"
  by (simp add: unat_word_ariths)

text \<open>A value below \<open>2 ^ k\<close> has no bit from \<open>k\<close> on.\<close>

lemma not_bit_beyond:
  assumes "unat (x :: 'a::len word) < 2 ^ k" and "k \<le> i"
  shows "\<not> bit x i"
proof -
  have "unat x < 2 ^ i" using assms by (meson less_le_trans one_le_numeral power_increasing)
  then have "\<not> bit (unat x) i" by (simp add: bit_iff_odd)
  then show ?thesis by (simp add: bit_simps)
qed

lemma unat_less_power_iff: "unat (x :: 'a::len word) < 2 ^ k \<longleftrightarrow> take_bit k x = x"
proof
  assume "unat x < 2 ^ k"
  then have "i < k" if "bit x i" for i
    using that not_bit_beyond [of x k i] by (auto simp: not_le [symmetric])
  then show "take_bit k x = x"
    by (intro bit_word_eqI) (auto simp: bit_simps)
next
  assume "take_bit k x = x"
  then have "unat x = take_bit k (unat x)" by (metis unsigned_take_bit_eq)
  then show "unat x < 2 ^ k" by (metis take_bit_nat_less_exp)
qed

text \<open>A value below \<open>2 ^ 31\<close> is the same when it is read as an \<open>int\<close>.\<close>

lemma unat_word_of_nat_16: "n < 65536 \<Longrightarrow> unat (word_of_nat n :: u16) = n"
  by (simp add: unat_of_nat)

lemma word_of_nat_unat_eq: "word_of_nat (unat (w :: 'a::len word)) = w"
  by simp

lemma signed_take_bit_nat: "m < 2 ^ 31 \<Longrightarrow> signed_take_bit 31 (int m) = int m"
  by (rule signed_take_bit_int_eq_self) simp_all

lemma sint_small: "unat (w :: u32) < 2 ^ 31 \<Longrightarrow> sint w = int (unat w)"
  using signed_take_bit_nat [of "unat w"] by (simp add: sint_uint)

subsection \<open>Errors and results\<close>

text \<open>
  The codes that \<open>libcerror_error_set\<close> is called with. A call that fails because a callee
  failed keeps the code of the callee, the one that was set first. \<open>Undefined\<close> is no code
  of the library: it marks a step whose behaviour the C standard does not define, so that its
  absence can be stated and proved.
\<close>

datatype undefined_behaviour =
    Out_Of_Bounds_Read
  | Out_Of_Bounds_Write
  | Shift_Out_Of_Range
  | Uninitialized_Read
  | Null_Dereference
  | Use_After_Free
  | Invalid_Free

datatype error =
    Invalid_Value
  | Value_Already_Set
  | Value_Missing
  | Value_Out_Of_Bounds
  | Value_Exceeds_Maximum
  | Value_Less_Than_Zero
  | Value_Too_Small
  | Value_Too_Large
  | Unsupported_Value
  | Read_Failed
  | Seek_Failed
  | Open_Failed
  | Close_Failed
  | Get_Failed
  | Generic
  | Undefined undefined_behaviour

type_synonym 'a result = "error + 'a"

definition bindE :: "'a result \<Rightarrow> ('a \<Rightarrow> 'b result) \<Rightarrow> 'b result" where
  "bindE m f = (case m of Inl e \<Rightarrow> Inl e | Inr x \<Rightarrow> f x)"

named_theorems result_simps \<open>equations of sequencing and of buffer reads\<close>
named_theorems safe_intros \<open>rules for calls free of undefined behaviour\<close>

lemma bindE_Inr [simp, result_simps]: "bindE (Inr x) f = f x"
  by (simp add: bindE_def)

lemma bindE_Inl [simp, result_simps]: "bindE (Inl e) f = Inl e"
  by (simp add: bindE_def)

lemma bindE_assoc: "bindE (bindE m f) g = bindE m (\<lambda>x. bindE (f x) g)"
  by (cases m) simp_all

lemma bindE_Inr_iff: "bindE m f = Inr y \<longleftrightarrow> (\<exists>x. m = Inr x \<and> f x = Inr y)"
  by (cases m) simp_all

lemma bindE_InrE [elim!]:
  assumes "bindE m f = Inr y"
  obtains x where "m = Inr x" and "f x = Inr y"
  using assms by (auto simp: bindE_Inr_iff)

lemma bindE_cong [fundef_cong]:
  assumes "m = m'" and "\<And>x. m' = Inr x \<Longrightarrow> f x = f' x"
  shows "bindE m f = bindE m' f'"
  using assms by (cases m') simp_all

lemma if_Inl_Inr_iff [simp]:
  "(if P then Inl e else m) = Inr y \<longleftrightarrow> \<not> P \<and> m = Inr y"
  "(if P then m else Inl e) = Inr y \<longleftrightarrow> P \<and> m = Inr y"
  by simp_all

text \<open>A call that reaches no undefined behaviour.\<close>

fun fault_free :: "'a result \<Rightarrow> bool" where
  "fault_free (Inl (Undefined u)) = False"
| "fault_free r = True"

lemma fault_free_Inr [simp, safe_intros]: "fault_free (Inr x)"
  by simp

lemma fault_free_iff: "fault_free m \<longleftrightarrow> (\<forall>u. m \<noteq> Inl (Undefined u))"
  by (cases m rule: fault_free.cases) auto

lemma fault_free_Inl_iff [simp]: "fault_free (Inl e :: 'a result) \<longleftrightarrow> (\<forall>u. e \<noteq> Undefined u)"
  by (cases "Inl e :: 'a result" rule: fault_free.cases) auto

lemma fault_free_bindE [safe_intros]:
  assumes "fault_free m" and "\<And>x. m = Inr x \<Longrightarrow> fault_free (f x)"
  shows "fault_free (bindE m f)"
  using assms by (cases m rule: fault_free.cases) auto

lemma fault_free_bindE_iff:
  "fault_free (bindE m f) \<longleftrightarrow> fault_free m \<and> (\<forall>x. m = Inr x \<longrightarrow> fault_free (f x))"
  by (cases m rule: fault_free.cases) auto

lemma fault_free_if [safe_intros]:
  "(P \<Longrightarrow> fault_free a) \<Longrightarrow> (\<not> P \<Longrightarrow> fault_free b) \<Longrightarrow> fault_free (if P then a else b)"
  by simp

text \<open>A loop over a list of values that stops at the first call that fails.\<close>

fun fold_result :: "('a \<Rightarrow> 's \<Rightarrow> 's result) \<Rightarrow> 'a list \<Rightarrow> 's \<Rightarrow> 's result" where
  "fold_result f [] s = Inr s"
| "fold_result f (x # xs) s = bindE (f x s) (fold_result f xs)"

lemma fold_result_cong [fundef_cong]:
  assumes "xs = xs'" and "s = s'" and "\<And>x s. x \<in> set xs' \<Longrightarrow> f x s = f' x s"
  shows "fold_result f xs s = fold_result f' xs' s'"
  using assms by (induction xs arbitrary: xs' s s') (auto intro!: bindE_cong)

lemma fold_result_append:
  "fold_result f (xs @ ys) s = bindE (fold_result f xs s) (fold_result f ys)"
  by (induction xs arbitrary: s) (auto simp: bindE_def split: sum.splits)

lemma fault_free_fold_result [safe_intros]:
  "(\<And>x s. x \<in> set xs \<Longrightarrow> fault_free (f x s)) \<Longrightarrow> fault_free (fold_result f xs s)"
  by (induction xs arbitrary: s) (auto intro!: fault_free_bindE)

lemma fold_result_Inr:
  "(\<And>x s. x \<in> set xs \<Longrightarrow> f x s = Inr (g x s)) \<Longrightarrow> fold_result f xs s = Inr (fold g xs s)"
  by (induction xs arbitrary: s) simp_all

lemma fold_result_invariant:
  assumes "fold_result f xs s = Inr s'" and "I s"
    and "\<And>x s s'. x \<in> set xs \<Longrightarrow> f x s = Inr s' \<Longrightarrow> I s \<Longrightarrow> I s'"
  shows "I s'"
  using assms by (induction xs arbitrary: s) auto

subsection \<open>Allocation of a structure\<close>

text \<open>
  Every \<open>_initialize\<close> function takes the address of a pointer, refuses a pointer that is not
  NULL and otherwise stores a structure cleared to zero. The model takes the old value of the
  pointer; the branches for a failed \<open>malloc\<close> or \<open>memset\<close> are left out.
\<close>

definition allocate_structure :: "'a option \<Rightarrow> 'a \<Rightarrow> 'a result" where
  "allocate_structure p zero = (case p of Some _ \<Rightarrow> Inl Value_Already_Set | None \<Rightarrow> Inr zero)"

lemma allocate_structure_simps [simp]:
  "allocate_structure None z = Inr z"
  "allocate_structure (Some v) z = Inl Value_Already_Set"
  by (simp_all add: allocate_structure_def)

subsection \<open>Reads from a buffer\<close>

text \<open>
  \<open>get_bytes data off n\<close> is the \<open>n\<close> bytes at offset \<open>off\<close>; reading past the end of the buffer
  is undefined behaviour in C and is reported as such.
\<close>

definition get_bytes :: "u8 list \<Rightarrow> nat \<Rightarrow> nat \<Rightarrow> u8 list result" where
  "get_bytes data off n =
     (if off + n \<le> length data then Inr (take n (drop off data))
      else Inl (Undefined Out_Of_Bounds_Read))"

lemma get_bytes_Inr_iff:
  "get_bytes data off n = Inr bs \<longleftrightarrow> off + n \<le> length data \<and> bs = take n (drop off data)"
  by (auto simp: get_bytes_def)

lemma get_bytes_ok [simp, result_simps]:
  "off + n \<le> length data \<Longrightarrow> get_bytes data off n = Inr (take n (drop off data))"
  by (simp add: get_bytes_def)

lemma get_bytes_length: "get_bytes data off n = Inr bs \<Longrightarrow> length bs = n"
  by (auto simp: get_bytes_Inr_iff)

lemma fault_free_get_bytes [simp]: "fault_free (get_bytes data off n) \<longleftrightarrow> off + n \<le> length data"
  by (simp add: get_bytes_def)

lemma take_drop_take:
  "off + n \<le> k \<Longrightarrow> take n (drop off (take k xs)) = take n (drop off xs)"
  by (simp add: drop_take min_def)

lemma get_bytes_take:
  "off + n \<le> k \<Longrightarrow> k \<le> length xs \<Longrightarrow> get_bytes (take k xs) off n = get_bytes xs off n"
  by (simp add: get_bytes_def take_drop_take)

lemma get_bytes_drop:
  "k \<le> length xs \<Longrightarrow> get_bytes (drop k xs) off n = get_bytes xs (k + off) n"
  by (auto simp: get_bytes_def drop_drop add.commute add.left_commute)

lemma get_bytes_append:
  "off + n \<le> length xs \<Longrightarrow> get_bytes (xs @ ys) off n = get_bytes xs off n"
  by (simp add: get_bytes_def)

subsection \<open>Lists\<close>

lemma take_drop_middle:
  "length p = off \<Longrightarrow> length q = n \<Longrightarrow> take n (drop off (p @ q @ r)) = q"
  by simp

lemma take_eq_append_drop: "take n xs = ys \<Longrightarrow> xs = ys @ drop n xs"
  by (metis append_take_drop_id)

lemma length_le_ex_prefix:
  assumes "\<exists>ys. xs' = xs @ ys" shows "length xs \<le> length xs'"
  using assms by auto

subsection \<open>Conversion of names\<close>

text \<open>
  \<open>convert\<close> stands for the function of the Unicode library that makes a string of a given size, or
  computes its size, from the bytes of a name; it fails when there is no name.
\<close>

definition convert_name :: "(u8 list \<Rightarrow> 'r result) \<Rightarrow> u8 list option \<Rightarrow> 'r result" where
  "convert_name convert name =
     (case name of None \<Rightarrow> Inl Get_Failed | Some bytes \<Rightarrow>
        (case convert bytes of Inl e \<Rightarrow> Inl Get_Failed | Inr r \<Rightarrow> Inr r))"

end
