(* ===== verification/Byte_Stream.thy ===== *)
theory Byte_Stream
  imports Prelude
begin

text \<open>
  The macros of \<open>common/byte_stream.h\<close>: an unsigned integer is assembled from bytes, most
  significant byte first, by shifting and or-ing, and taken apart by shifting and masking.
  The two directions are inverse to each other.
\<close>

subsection \<open>Assembling and taking apart\<close>

definition be_word :: "u8 list \<Rightarrow> 'a::len word" where
  "be_word bs = foldl (\<lambda>value b. push_bit 8 value OR ucast b) 0 bs"

text \<open>The mask \<open>0xff\<close> of the macros is \<open>mask 8\<close>.\<close>

definition be_bytes :: "nat \<Rightarrow> 'a::len word \<Rightarrow> u8 list" where
  "be_bytes n value = map (\<lambda>i. ucast (drop_bit (8 * (n - 1 - i)) value AND mask 8)) [0..<n]"

definition byte_stream_copy_to_uint16_big_endian :: "u8 list \<Rightarrow> nat \<Rightarrow> u16 result" where
  "byte_stream_copy_to_uint16_big_endian data off =
     bindE (get_bytes data off 2) (\<lambda>bs. Inr (be_word bs))"

definition byte_stream_copy_to_uint32_big_endian :: "u8 list \<Rightarrow> nat \<Rightarrow> u32 result" where
  "byte_stream_copy_to_uint32_big_endian data off =
     bindE (get_bytes data off 4) (\<lambda>bs. Inr (be_word bs))"

definition byte_stream_copy_to_uint64_big_endian :: "u8 list \<Rightarrow> nat \<Rightarrow> u64 result" where
  "byte_stream_copy_to_uint64_big_endian data off =
     bindE (get_bytes data off 8) (\<lambda>bs. Inr (be_word bs))"

definition byte_stream_copy_from_uint16_big_endian :: "u16 \<Rightarrow> u8 list" where
  "byte_stream_copy_from_uint16_big_endian value = be_bytes 2 value"

definition byte_stream_copy_from_uint32_big_endian :: "u32 \<Rightarrow> u8 list" where
  "byte_stream_copy_from_uint32_big_endian value = be_bytes 4 value"

definition byte_stream_copy_from_uint64_big_endian :: "u64 \<Rightarrow> u8 list" where
  "byte_stream_copy_from_uint64_big_endian value = be_bytes 8 value"

text \<open>A single byte, the plain array access \<open>data[off]\<close> of the code.\<close>

definition get_byte :: "u8 list \<Rightarrow> nat \<Rightarrow> u8 result" where
  "get_byte data off =
     (if off < length data then Inr (data ! off) else Inl (Undefined Out_Of_Bounds_Read))"

lemmas be_reads =
  byte_stream_copy_to_uint16_big_endian_def
  byte_stream_copy_to_uint32_big_endian_def
  byte_stream_copy_to_uint64_big_endian_def

subsection \<open>The bits of an assembled word\<close>

lemma be_word_Nil [simp]: "be_word [] = 0"
  by (simp add: be_word_def)

lemma be_word_snoc [simp]: "be_word (bs @ [b]) = push_bit 8 (be_word bs) OR ucast b"
  by (simp add: be_word_def)

lemma bit_be_word:
  "bit (be_word bs :: 'a::len word) i \<longleftrightarrow>
     i < LENGTH('a) \<and> i div 8 < length bs \<and> bit (bs ! (length bs - 1 - i div 8)) (i mod 8)"
proof (induction bs arbitrary: i rule: rev_induct)
  case Nil
  then show ?case by simp
next
  case (snoc b bs)
  show ?case
  proof (cases "i < 8")
    case True
    then show ?thesis
      by (auto simp: bit_simps nth_append)
  next
    case False
    then have q: "(i - 8) div 8 = i div 8 - 1" "(i - 8) mod 8 = i mod 8" "1 \<le> i div 8"
      by (simp_all add: le_div_geq le_mod_geq)
    have "bit b i \<Longrightarrow> i < 8" using bit_imp_le_length [of b i] by simp
    with False have "bit (be_word (bs @ [b]) :: 'a word) i \<longleftrightarrow>
        i < LENGTH('a) \<and> bit (be_word bs :: 'a word) (i - 8)"
      by (auto simp: bit_simps)
    also have "\<dots> \<longleftrightarrow> i < LENGTH('a) \<and> i div 8 - 1 < length bs \<and>
        bit (bs ! (length bs - 1 - (i div 8 - 1))) (i mod 8)"
      using snoc.IH [of "i - 8"] q by auto
    also have "\<dots> \<longleftrightarrow> i < LENGTH('a) \<and> i div 8 < length (bs @ [b]) \<and>
        bit ((bs @ [b]) ! (length (bs @ [b]) - 1 - i div 8)) (i mod 8)"
      using q(3) by (auto simp: nth_append)
    finally show ?thesis .
  qed
qed

lemma length_be_bytes [simp]: "length (be_bytes n w) = n"
  by (simp add: be_bytes_def)

lemma bit_be_bytes_nth:
  fixes w :: "'a::len word"
  assumes "i < n" and "j < 8"
  shows "bit (be_bytes n w ! i) j \<longleftrightarrow> bit w (8 * (n - 1 - i) + j)"
proof -
  let ?k = "8 * (n - 1 - i)"
  have "be_bytes n w ! i = ucast (drop_bit ?k w AND mask 8)"
    using assms by (simp add: be_bytes_def)
  then have "bit (be_bytes n w ! i) j \<longleftrightarrow> bit w (?k + j) \<and> j < LENGTH('a)"
    using assms by (simp add: bit_simps)
  moreover have "bit w (?k + j) \<Longrightarrow> ?k + j < LENGTH('a)"
    by (rule bit_imp_le_length)
  ultimately show ?thesis by linarith
qed

lemma be_word_be_bytes:
  fixes w :: "'a::len word"
  assumes "LENGTH('a) = 8 * n"
  shows "be_word (be_bytes n w) = w"
proof (rule bit_word_eqI)
  fix i assume "i < LENGTH('a)"
  with assms have d: "i div 8 < n" by auto
  then have "n - 1 - (n - 1 - i div 8) = i div 8" by auto
  with d \<open>i < LENGTH('a)\<close> show "bit (be_word (be_bytes n w) :: 'a word) i \<longleftrightarrow> bit w i"
    by (simp add: bit_be_word bit_be_bytes_nth)
qed

lemma be_bytes_be_word:
  assumes "LENGTH('a::len) = 8 * n" and "length bs = n"
  shows "be_bytes n (be_word bs :: 'a word) = bs"
proof (rule nth_equalityI)
  show "length (be_bytes n (be_word bs :: 'a word)) = length bs" using assms by simp
next
  fix i assume "i < length (be_bytes n (be_word bs :: 'a word))"
  then have i: "i < n" by simp
  show "be_bytes n (be_word bs :: 'a word) ! i = bs ! i"
  proof (rule bit_word_eqI)
    fix j assume "j < LENGTH(8)"
    then have j: "j < 8" by simp
    have "8 * (n - 1 - i) + j < 8 * n" and "(8 * (n - 1 - i) + j) div 8 = n - 1 - i"
      and "(8 * (n - 1 - i) + j) mod 8 = j"
      using i j by auto
    with i j assms show "bit (be_bytes n (be_word bs :: 'a word) ! i) j = bit (bs ! i) j"
      by (simp add: bit_be_bytes_nth bit_be_word)
  qed
qed

subsection \<open>Reads that stay inside the buffer\<close>

lemma be_reads_ok [simp, result_simps]:
  "off + 2 \<le> length data \<Longrightarrow>
     byte_stream_copy_to_uint16_big_endian data off = Inr (be_word (take 2 (drop off data)))"
  "off + 4 \<le> length data \<Longrightarrow>
     byte_stream_copy_to_uint32_big_endian data off = Inr (be_word (take 4 (drop off data)))"
  "off + 8 \<le> length data \<Longrightarrow>
     byte_stream_copy_to_uint64_big_endian data off = Inr (be_word (take 8 (drop off data)))"
  by (simp_all add: be_reads)

lemma get_byte_ok [simp, result_simps]: "off < length data \<Longrightarrow> get_byte data off = Inr (data ! off)"
  by (simp add: get_byte_def)

lemma be_reads_Inr_iff:
  "byte_stream_copy_to_uint16_big_endian data off = Inr v16 \<longleftrightarrow>
     off + 2 \<le> length data \<and> v16 = be_word (take 2 (drop off data))"
  "byte_stream_copy_to_uint32_big_endian data off = Inr v32 \<longleftrightarrow>
     off + 4 \<le> length data \<and> v32 = be_word (take 4 (drop off data))"
  "byte_stream_copy_to_uint64_big_endian data off = Inr v64 \<longleftrightarrow>
     off + 8 \<le> length data \<and> v64 = be_word (take 8 (drop off data))"
  "get_byte data off = Inr v8 \<longleftrightarrow> off < length data \<and> v8 = data ! off"
  by (auto simp: be_reads get_byte_def get_bytes_def)

lemma fault_free_reads [simp]:
  "fault_free (byte_stream_copy_to_uint16_big_endian data off) \<longleftrightarrow> off + 2 \<le> length data"
  "fault_free (byte_stream_copy_to_uint32_big_endian data off) \<longleftrightarrow> off + 4 \<le> length data"
  "fault_free (byte_stream_copy_to_uint64_big_endian data off) \<longleftrightarrow> off + 8 \<le> length data"
  "fault_free (get_byte data off) \<longleftrightarrow> off < length data"
  by (simp_all add: be_reads get_byte_def get_bytes_def)

lemma reads_take:
  "off + 2 \<le> k \<Longrightarrow> k \<le> length d \<Longrightarrow>
     byte_stream_copy_to_uint16_big_endian (take k d) off = byte_stream_copy_to_uint16_big_endian d off"
  "off + 4 \<le> k \<Longrightarrow> k \<le> length d \<Longrightarrow>
     byte_stream_copy_to_uint32_big_endian (take k d) off = byte_stream_copy_to_uint32_big_endian d off"
  "off + 8 \<le> k \<Longrightarrow> k \<le> length d \<Longrightarrow>
     byte_stream_copy_to_uint64_big_endian (take k d) off = byte_stream_copy_to_uint64_big_endian d off"
  "off < k \<Longrightarrow> k \<le> length d \<Longrightarrow> get_byte (take k d) off = get_byte d off"
  by (simp_all add: byte_stream_copy_to_uint16_big_endian_def byte_stream_copy_to_uint32_big_endian_def
      byte_stream_copy_to_uint64_big_endian_def get_bytes_take get_byte_def
    del: get_bytes_ok)

subsection \<open>Round trip\<close>

text \<open>
  An integer that was written with one of the \<open>copy_from\<close> macros, at any place of a buffer,
  is read back unchanged with the \<open>copy_to\<close> macro of the same width; and the bytes that a
  \<open>copy_to\<close> macro reads are those that the \<open>copy_from\<close> macro writes for the value.
\<close>

theorem byte_stream_roundtrip:
  "byte_stream_copy_to_uint16_big_endian (xs @ byte_stream_copy_from_uint16_big_endian a @ ys) (length xs) = Inr a \<and>
   byte_stream_copy_to_uint32_big_endian (xs @ byte_stream_copy_from_uint32_big_endian b @ ys) (length xs) = Inr b \<and>
   byte_stream_copy_to_uint64_big_endian (xs @ byte_stream_copy_from_uint64_big_endian c @ ys) (length xs) = Inr c \<and>
   byte_stream_copy_from_uint16_big_endian (be_word [p, q]) = [p, q] \<and>
   byte_stream_copy_from_uint32_big_endian (be_word [p, q, r, s]) = [p, q, r, s] \<and>
   byte_stream_copy_from_uint64_big_endian (be_word [p, q, r, s, t, u, v, w]) = [p, q, r, s, t, u, v, w]"
  by (simp add: byte_stream_copy_from_uint16_big_endian_def byte_stream_copy_from_uint32_big_endian_def
      byte_stream_copy_from_uint64_big_endian_def be_word_be_bytes be_bytes_be_word)

subsection \<open>The contract of a structure reader\<close>

text \<open>
  Every \<open>_read_data\<close> function of the library takes a buffer with its size and refuses a buffer
  shorter than the on-disk structure. The locale states what its callers rely on: no read
  outside the buffer whatever the bytes are, and no influence of the bytes after the structure.
\<close>

locale structure_reader =
  fixes reader :: "u8 list \<Rightarrow> 'a result"
    and structure_size :: nat
  assumes reader_fault_free: "fault_free (reader data)"
    and reader_short: "length data < structure_size \<Longrightarrow> reader data = Inl Value_Out_Of_Bounds"
    and reader_take: "structure_size \<le> length data \<Longrightarrow> length data \<le> SSIZE_MAX \<Longrightarrow>
      reader (take structure_size data) = reader data"
begin

lemma reader_Inr_size: "reader data = Inr x \<Longrightarrow> structure_size \<le> length data"
  using reader_short [of data] by (cases "length data < structure_size") auto

lemma reader_append:
  "length header = structure_size \<Longrightarrow> length (header @ rest) \<le> SSIZE_MAX \<Longrightarrow>
     reader (header @ rest) = reader header"
  using reader_take [of "header @ rest"] by simp

lemma reader_agree:
  assumes "structure_size \<le> length d" "length d \<le> SSIZE_MAX"
    and "structure_size \<le> length d'" "length d' \<le> SSIZE_MAX"
    and "take structure_size d = take structure_size d'"
  shows "reader d = reader d'"
  using assms reader_take [of d] reader_take [of d'] by simp

text \<open>The record with index \<open>i\<close> of an array of structures that lies inside the buffer.\<close>

lemma reader_record_fault_free:
  assumes "i < length data div structure_size"
  shows "fault_free (bindE (get_bytes data (i * structure_size) structure_size) reader)"
proof -
  have "(i + 1) * structure_size \<le> length data"
    using assms by (metis Suc_eq_plus1 Suc_leI div_times_less_eq_dividend le_trans mult_le_mono1)
  then show ?thesis by (simp add: reader_fault_free)
qed

end

end
