(* ===== verification/IO_Handle.thy ===== *)
theory IO_Handle
  imports Byte_Stream
begin

text \<open>
  The IO handle (\<open>libfsxfs_io_handle.c\<close>), the values of the superblock that every other
  component needs, the reads from the file (the \<open>libbfio\<close> handle, a parameter of the model) and
  the translation of a file system block number into a file offset, which the extent B+ tree,
  the data stream, the directory and the attributes all compute in the same way.
\<close>

subsection \<open>The IO handle\<close>

record io_handle =
  io_format_version :: int
  io_secondary_feature_flags :: u32
  io_block_size :: u32
  io_allocation_group_size :: u32
  io_inode_size :: u16
  io_directory_block_size :: u32
  io_number_of_relative_block_number_bits :: u8
  io_number_of_relative_inode_number_bits :: u8
  io_abort :: int

definition io_handle_zero :: io_handle where
  "io_handle_zero =
     \<lparr> io_format_version = 0, io_secondary_feature_flags = 0, io_block_size = 0,
       io_allocation_group_size = 0, io_inode_size = 0, io_directory_block_size = 0,
       io_number_of_relative_block_number_bits = 0,
       io_number_of_relative_inode_number_bits = 0, io_abort = 0 \<rparr>"

definition libfsxfs_io_handle_initialize :: "io_handle option \<Rightarrow> io_handle result" where
  "libfsxfs_io_handle_initialize pointer = allocate_structure pointer io_handle_zero"

definition libfsxfs_io_handle_clear :: "io_handle \<Rightarrow> io_handle" where
  "libfsxfs_io_handle_clear io = io_handle_zero"

subsection \<open>Reads from the file\<close>

text \<open>
  \<open>file off n\<close> stands for \<open>libbfio_handle_read_buffer_at_offset\<close>: \<open>None\<close> is its error return,
  \<open>Some bs\<close> the bytes that it read, at most \<open>n\<close>. All callers ask for an exact number of bytes.
\<close>

type_synonym file_io = "u64 \<Rightarrow> nat \<Rightarrow> u8 list option"

definition read_buffer_at_offset :: "file_io \<Rightarrow> u64 \<Rightarrow> nat \<Rightarrow> u8 list result" where
  "read_buffer_at_offset file off n =
     (case file off n of
        None \<Rightarrow> Inl Read_Failed
      | Some bs \<Rightarrow> if length bs = n then Inr bs else Inl Read_Failed)"

lemma read_buffer_Inr_iff:
  "read_buffer_at_offset file off n = Inr bs \<longleftrightarrow> file off n = Some bs \<and> length bs = n"
  by (auto simp: read_buffer_at_offset_def split: option.splits if_splits)

lemma read_buffer_fault_free [simp, safe_intros]: "fault_free (read_buffer_at_offset file off n)"
  by (simp add: read_buffer_at_offset_def split: option.splits)

lemma read_buffer_Inl: "read_buffer_at_offset file off n = Inl e \<Longrightarrow> e = Read_Failed"
  by (auto simp: read_buffer_at_offset_def split: option.splits if_splits)

subsection \<open>File system block numbers\<close>

text \<open>
  \<open>(int) ( block_number >> bits )\<close> keeps the low 32 bits of the shifted number, as a signed
  value. \<open>( 1 << bits ) - 1\<close> is computed in \<open>int\<close>: with 31 or more bits the shift is undefined.
\<close>

definition allocation_group_index :: "io_handle \<Rightarrow> u64 \<Rightarrow> u32" where
  "allocation_group_index io block_number =
     ucast (drop_bit (unat (io_number_of_relative_block_number_bits io)) block_number)"

definition relative_block_number :: "io_handle \<Rightarrow> u64 \<Rightarrow> u64 result" where
  "relative_block_number io block_number =
     (if 31 \<le> unat (io_number_of_relative_block_number_bits io)
      then Inl (Undefined Shift_Out_Of_Range)
      else Inr (block_number AND
        scast (push_bit (unat (io_number_of_relative_block_number_bits io)) 1 - 1 :: u32)))"

definition block_number_to_block :: "io_handle \<Rightarrow> u64 \<Rightarrow> u64 result" where
  "block_number_to_block io block_number =
     bindE (relative_block_number io block_number) (\<lambda>relative.
     Inr (scast (allocation_group_index io block_number) * ucast (io_allocation_group_size io)
          + relative))"

definition block_number_to_offset :: "io_handle \<Rightarrow> u64 \<Rightarrow> u64 result" where
  "block_number_to_offset io block_number =
     bindE (block_number_to_block io block_number) (\<lambda>block.
     Inr (block * ucast (io_block_size io)))"

text \<open>The values that a supported superblock puts into the handle.\<close>

definition io_valid :: "io_handle \<Rightarrow> bool" where
  "io_valid io \<longleftrightarrow>
     (io_format_version io = 4 \<or> io_format_version io = 5) \<and>
     512 \<le> unat (io_block_size io) \<and> unat (io_block_size io) \<le> 65536 \<and>
     5 \<le> unat (io_allocation_group_size io) \<and> unat (io_allocation_group_size io) < 2 ^ 31 \<and>
     1 \<le> unat (io_number_of_relative_block_number_bits io) \<and>
     unat (io_number_of_relative_block_number_bits io) \<le> 30 \<and>
     unat (io_number_of_relative_block_number_bits io)
       < unat (io_number_of_relative_inode_number_bits io) \<and>
     unat (io_number_of_relative_inode_number_bits io) < 32 \<and>
     256 \<le> unat (io_inode_size io) \<and> unat (io_inode_size io) \<le> 2048 \<and>
     512 \<le> unat (io_directory_block_size io)"

lemma io_validD:
  assumes "io_valid io"
  shows "unat (io_number_of_relative_block_number_bits io) < 31"
    and "io_block_size io \<noteq> 0" and "io_allocation_group_size io \<noteq> 0" and "io_inode_size io \<noteq> 0"
    and "unat (io_block_size io) \<le> 65536"
    and "io_directory_block_size io \<noteq> 0"
  using assms by (auto simp: io_valid_def)

lemma push_bit_minus_1: "(push_bit n 1 - 1 :: 'a::len word) = mask n"
  by (simp add: mask_eq_exp_minus_1)

lemma scast_mask: "n < 31 \<Longrightarrow> (scast (mask n :: u32) :: u64) = mask n"
  by (rule bit_word_eqI) (auto simp: bit_simps min_def)

lemma relative_block_number_valid:
  assumes "unat (io_number_of_relative_block_number_bits io) < 31"
  shows "relative_block_number io b =
    Inr (take_bit (unat (io_number_of_relative_block_number_bits io)) b)"
  unfolding relative_block_number_def push_bit_minus_1
  using assms by (simp add: scast_mask take_bit_eq_mask)

lemma fault_free_block_number_to_offset:
  "fault_free (block_number_to_offset io b) \<longleftrightarrow>
     unat (io_number_of_relative_block_number_bits io) < 31"
  by (auto simp: block_number_to_offset_def block_number_to_block_def relative_block_number_def
      fault_free_bindE_iff)

subsection \<open>The offset as a number\<close>

text \<open>
  For an allocation group index that fits an \<open>int\<close> the translation is the documented one:
  the high bits select the allocation group, the low bits the block in it, and the product with
  the block size does not wrap around while the file is smaller than \<open>2 ^ 64\<close> bytes.
\<close>

definition block_number_group :: "io_handle \<Rightarrow> u64 \<Rightarrow> nat" where
  "block_number_group io b = unat b div 2 ^ unat (io_number_of_relative_block_number_bits io)"

definition block_number_relative :: "io_handle \<Rightarrow> u64 \<Rightarrow> nat" where
  "block_number_relative io b = unat b mod 2 ^ unat (io_number_of_relative_block_number_bits io)"

lemma scast_ucast_small:
  fixes x :: u64
  assumes "unat x < 2 ^ 31"
  shows "(scast (ucast x :: u32) :: u64) = x"
proof (rule bit_word_eqI)
  fix i assume "i < LENGTH(64)"
  have "\<not> bit x k" if "31 \<le> k" for k
  proof -
    have "unat x < 2 ^ k" using assms that by (meson le_trans less_le_trans one_le_numeral power_increasing)
    then have "\<not> bit (unat x) k" by (simp add: bit_iff_odd)
    then show ?thesis by (simp add: bit_simps)
  qed
  then show "bit (scast (ucast x :: u32) :: u64) i = bit x i"
    by (cases "i < 31") (auto simp: bit_simps min_def \<open>i < LENGTH(64)\<close>)
qed

lemma block_number_to_block_nat:
  assumes bits: "unat (io_number_of_relative_block_number_bits io) < 31"
    and grp: "block_number_group io b < 2 ^ 31"
  shows "\<exists>w. block_number_to_block io b = Inr w \<and>
    unat w = block_number_group io b * unat (io_allocation_group_size io) + block_number_relative io b"
proof -
  let ?n = "unat (io_number_of_relative_block_number_bits io)"
  let ?w = "scast (allocation_group_index io b) * ucast (io_allocation_group_size io) + take_bit ?n b :: u64"
  have d: "unat (drop_bit ?n b) = block_number_group io b"
    unfolding block_number_group_def unat_drop_bit_eq by (simp add: drop_bit_eq_div)
  then have i: "scast (allocation_group_index io b) = drop_bit ?n b"
    using scast_ucast_small [of "drop_bit ?n b"] grp by (simp add: allocation_group_index_def)
  have t: "unat (take_bit ?n b) = block_number_relative io b"
    unfolding block_number_relative_def unsigned_take_bit_eq by (simp add: take_bit_eq_mod)
  have a: "unat (ucast (io_allocation_group_size io) :: u64) = unat (io_allocation_group_size io)"
    by simp
  have "block_number_relative io b < 2 ^ ?n"
    by (simp add: block_number_relative_def)
  then have r: "block_number_relative io b < 2 ^ 31"
    using bits by (meson less_imp_le_nat less_le_trans one_le_numeral power_increasing)
  have s: "unat (io_allocation_group_size io) < 2 ^ 32"
    using unsigned_less [of "io_allocation_group_size io"] by simp
  have "block_number_group io b * unat (io_allocation_group_size io) \<le> (2 ^ 31 - 1) * (2 ^ 32 - 1)"
    using grp s by (intro mult_le_mono) simp_all
  with r have "block_number_group io b * unat (io_allocation_group_size io)
      + block_number_relative io b < 2 ^ 64" by simp
  then have "unat ?w = block_number_group io b * unat (io_allocation_group_size io) + block_number_relative io b"
    by (simp add: unat_word_ariths i d t a)
  then show ?thesis
    using bits by (simp add: block_number_to_block_def relative_block_number_valid)
qed


text \<open>
  With less than 31 bits for the relative block number, and an allocation group index that is
  an \<open>int\<close>, a file system block number is translated to the file offset
  (group * group size + relative block) * block size, as long as that is less than \<open>2 ^ 64\<close>; and
  two block numbers whose relative part lies inside a group are translated to the same offset
  only when they are equal.
\<close>

theorem block_number_translation:
  assumes bits: "unat (io_number_of_relative_block_number_bits io) < 31" and nz: "io_block_size io \<noteq> 0"
    and grp: "block_number_group io b < 2 ^ 31" "block_number_group io b' < 2 ^ 31"
    and rel: "block_number_relative io b < unat (io_allocation_group_size io)"
      "block_number_relative io b' < unat (io_allocation_group_size io)"
    and fits: "(block_number_group io b * unat (io_allocation_group_size io)
        + block_number_relative io b) * unat (io_block_size io) < 2 ^ 64"
      "(block_number_group io b' * unat (io_allocation_group_size io)
        + block_number_relative io b') * unat (io_block_size io) < 2 ^ 64"
  shows "(\<exists>off. block_number_to_offset io b = Inr off \<and>
      unat off = (block_number_group io b * unat (io_allocation_group_size io)
        + block_number_relative io b) * unat (io_block_size io)) \<and>
    (block_number_to_offset io b = block_number_to_offset io b' \<longleftrightarrow> b = b')"
proof -
  let ?ag = "unat (io_allocation_group_size io)"
  have off: "\<exists>off. block_number_to_offset io c = Inr off \<and>
      unat off = (block_number_group io c * ?ag + block_number_relative io c) * unat (io_block_size io)"
    if "block_number_group io c < 2 ^ 31"
      "(block_number_group io c * ?ag + block_number_relative io c) * unat (io_block_size io) < 2 ^ 64"
    for c
    using block_number_to_block_nat [OF bits that(1)] that(2)
    by (auto simp: block_number_to_offset_def unat_word_ariths)
  have "b = b'" if "block_number_to_offset io b = block_number_to_offset io b'"
  proof -
    have "(block_number_group io b * ?ag + block_number_relative io b) * unat (io_block_size io) =
        (block_number_group io b' * ?ag + block_number_relative io b') * unat (io_block_size io)"
      using off [OF grp(1) fits(1)] off [OF grp(2) fits(2)] that by auto
    then have e: "block_number_group io b * ?ag + block_number_relative io b =
        block_number_group io b' * ?ag + block_number_relative io b'"
      using nz by (simp add: unat_eq_0)
    then have g: "block_number_group io b = block_number_group io b'"
      using rel by (metis div_mult_self3 div_less add_0_right add.commute less_nat_zero_code)
    with e have "block_number_relative io b = block_number_relative io b'" by simp
    with g have "unat b = unat b'"
      unfolding block_number_group_def block_number_relative_def by (metis div_mult_mod_eq)
    then show ?thesis by (simp add: word_unat_eq_iff)
  qed
  then show ?thesis using off [OF grp(1) fits(1)] by auto
qed

lemma block_number_translation_witness:
  fixes io :: io_handle
  defines "io \<equiv> io_handle_zero\<lparr> io_block_size := 4096, io_allocation_group_size := 1000,
    io_number_of_relative_block_number_bits := 10 \<rparr>"
  shows "(\<exists>off. block_number_to_offset io 0x802 = Inr off \<and> unat off = 2002 * 4096) \<and>
    block_number_to_offset io 0x802 \<noteq> block_number_to_offset io 0x402"
proof -
  have "(\<exists>off. block_number_to_offset io 0x802 = Inr off \<and>
      unat off = (block_number_group io 0x802 * unat (io_allocation_group_size io)
        + block_number_relative io 0x802) * unat (io_block_size io)) \<and>
    (block_number_to_offset io 0x802 = block_number_to_offset io 0x402 \<longleftrightarrow> (0x802 :: u64) = 0x402)"
    by (rule block_number_translation)
      (simp_all add: io_def io_handle_zero_def block_number_group_def block_number_relative_def)
  then show ?thesis
    by (simp add: io_def io_handle_zero_def block_number_group_def block_number_relative_def)
qed

end
