(* ===== verification/Superblock.thy ===== *)
theory Superblock
  imports IO_Handle
begin

text \<open>
  The superblock (\<open>libfsxfs_superblock.c\<close>): reading its fields from the first 208 bytes of a
  sector, the checks that decide whether the file system is supported, and the values that
  \<open>libfsxfs_internal_volume_open_read\<close> copies from it into the IO handle.
\<close>

subsection \<open>Data\<close>

record superblock =
  sb_block_size :: u32
  sb_number_of_blocks :: u64
  sb_journal_block_number :: u64
  sb_root_directory_inode_number :: u64
  sb_allocation_group_size :: u32
  sb_number_of_allocation_groups :: u32
  sb_format_version :: u8
  sb_feature_flags :: u16
  sb_sector_size :: u16
  sb_inode_size :: u16
  sb_directory_block_size :: u32
  sb_volume_label :: "u8 list"
  sb_secondary_feature_flags :: u32
  sb_number_of_relative_block_number_bits :: u8
  sb_number_of_relative_inode_number_bits :: u8

definition superblock_zero :: superblock where
  "superblock_zero =
     \<lparr> sb_block_size = 0, sb_number_of_blocks = 0, sb_journal_block_number = 0,
       sb_root_directory_inode_number = 0, sb_allocation_group_size = 0,
       sb_number_of_allocation_groups = 0, sb_format_version = 0, sb_feature_flags = 0,
       sb_sector_size = 0, sb_inode_size = 0, sb_directory_block_size = 0,
       sb_volume_label = replicate 12 0, sb_secondary_feature_flags = 0,
       sb_number_of_relative_block_number_bits = 0,
       sb_number_of_relative_inode_number_bits = 0 \<rparr>"

definition libfsxfs_superblock_initialize :: "superblock option \<Rightarrow> superblock result" where
  "libfsxfs_superblock_initialize pointer = allocate_structure pointer superblock_zero"

definition fsxfs_superblock_signature :: "u8 list" where
  "fsxfs_superblock_signature = [0x58, 0x46, 0x53, 0x42]"

text \<open>\<open>sizeof( fsxfs_superblock_t )\<close>\<close>

definition sizeof_fsxfs_superblock :: nat where
  "sizeof_fsxfs_superblock = 208"

subsection \<open>Reading the fields\<close>

text \<open>
  The first half of \<open>libfsxfs_superblock_read_data\<close>: the size and the signature are checked and
  the fields are copied. The second component is the local variable
  \<open>number_of_inodes_per_block\<close>.
\<close>

definition superblock_read_fields :: "superblock \<Rightarrow> u8 list \<Rightarrow> (superblock \<times> u16) result" where
  "superblock_read_fields sb data =
     (if length data < sizeof_fsxfs_superblock \<or> length data > SSIZE_MAX
      then Inl Value_Out_Of_Bounds else
      bindE (get_bytes data 0 4) (\<lambda>signature.
      if signature \<noteq> fsxfs_superblock_signature then Inl Unsupported_Value else
      bindE (byte_stream_copy_to_uint32_big_endian data 4) (\<lambda>block_size.
      bindE (byte_stream_copy_to_uint64_big_endian data 8) (\<lambda>number_of_blocks.
      bindE (byte_stream_copy_to_uint64_big_endian data 48) (\<lambda>journal_block_number.
      bindE (byte_stream_copy_to_uint64_big_endian data 56) (\<lambda>root_directory_inode_number.
      bindE (byte_stream_copy_to_uint32_big_endian data 84) (\<lambda>allocation_group_size.
      bindE (byte_stream_copy_to_uint32_big_endian data 88) (\<lambda>number_of_allocation_groups.
      bindE (byte_stream_copy_to_uint16_big_endian data 100) (\<lambda>version_and_feature_flags.
      bindE (byte_stream_copy_to_uint16_big_endian data 102) (\<lambda>sector_size.
      bindE (byte_stream_copy_to_uint16_big_endian data 104) (\<lambda>inode_size.
      bindE (byte_stream_copy_to_uint16_big_endian data 106) (\<lambda>number_of_inodes_per_block.
      bindE (get_bytes data 108 12) (\<lambda>volume_label.
      bindE (byte_stream_copy_to_uint32_big_endian data 200) (\<lambda>secondary_feature_flags.
      Inr (sb\<lparr> sb_block_size := block_size,
               sb_number_of_blocks := number_of_blocks,
               sb_journal_block_number := journal_block_number,
               sb_root_directory_inode_number := root_directory_inode_number,
               sb_allocation_group_size := allocation_group_size,
               sb_number_of_allocation_groups := number_of_allocation_groups,
               sb_format_version := ucast (version_and_feature_flags AND 0x000f),
               sb_feature_flags := version_and_feature_flags AND 0xfff0,
               sb_sector_size := sector_size,
               sb_inode_size := inode_size,
               sb_volume_label := volume_label,
               sb_secondary_feature_flags := secondary_feature_flags \<rparr>,
           number_of_inodes_per_block)))))))))))))))"

subsection \<open>Checking the fields\<close>

definition supported_feature_flags :: u32 where
  "supported_feature_flags =
     0x0010 OR 0x0020 OR 0x0080 OR 0x0400 OR 0x0800 OR 0x1000 OR 0x2000 OR 0x4000 OR 0x8000"

definition superblock_check_format :: "superblock \<Rightarrow> superblock result" where
  "superblock_check_format sb =
     (if sb_format_version sb \<noteq> 4 \<and> sb_format_version sb \<noteq> 5 then Inl Unsupported_Value else
      if ucast (sb_feature_flags sb) AND NOT supported_feature_flags \<noteq> 0
      then Inl Unsupported_Value else
      if sb_block_size sb < 512 \<or> sb_block_size sb > 65536 then Inl Unsupported_Value else
      if sb_sector_size sb \<noteq> 512 \<and> sb_sector_size sb \<noteq> 1024 \<and> sb_sector_size sb \<noteq> 2048 \<and>
         sb_sector_size sb \<noteq> 4096 \<and> sb_sector_size sb \<noteq> 8192 \<and> sb_sector_size sb \<noteq> 16384
      then Inl Unsupported_Value else
      if sb_inode_size sb < 256 \<or> sb_inode_size sb > 2048 then Inl Unsupported_Value else
      Inr sb)"

definition superblock_read_directory_block_size ::
    "superblock \<Rightarrow> u8 list \<Rightarrow> superblock result" where
  "superblock_read_directory_block_size sb data =
     bindE (get_byte data 192) (\<lambda>directory_block_size_log2.
     if directory_block_size_log2 = 0
     then Inr (sb\<lparr> sb_directory_block_size := sb_block_size sb \<rparr>)
     else if directory_block_size_log2 \<ge> 32 then Inl Unsupported_Value
     else let directory_block_size = push_bit (unat directory_block_size_log2) 1 in
       if directory_block_size > 0xffffffff div sb_block_size sb then Inl Unsupported_Value
       else Inr (sb\<lparr> sb_directory_block_size := directory_block_size * sb_block_size sb \<rparr>))"

definition superblock_read_allocation_group_bits ::
    "superblock \<Rightarrow> u16 \<Rightarrow> u8 list \<Rightarrow> superblock result" where
  "superblock_read_allocation_group_bits sb number_of_inodes_per_block data =
     (if sb_allocation_group_size sb < 5 \<or> sb_allocation_group_size sb > 0x7fffffff
      then Inl Unsupported_Value else
      bindE (get_byte data 124) (\<lambda>allocation_group_size_log2.
      if allocation_group_size_log2 = 0 \<or> allocation_group_size_log2 > 31
      then Inl Unsupported_Value else
      bindE (get_byte data 123) (\<lambda>number_of_inodes_per_block_log2.
      if number_of_inodes_per_block_log2 = 0 \<or>
         uint number_of_inodes_per_block_log2 > 32 - uint allocation_group_size_log2
      then Inl Unsupported_Value else
      let number_of_relative_inode_number_bits =
            allocation_group_size_log2 + number_of_inodes_per_block_log2 in
      if number_of_relative_inode_number_bits = 0 \<or> number_of_relative_inode_number_bits \<ge> 32
      then Inl Unsupported_Value else
      if (push_bit (unat number_of_inodes_per_block_log2) 1 :: u64) \<noteq> ucast number_of_inodes_per_block
      then Inl Unsupported_Value else
      Inr (sb\<lparr> sb_number_of_relative_block_number_bits := allocation_group_size_log2,
               sb_number_of_relative_inode_number_bits :=
                 number_of_relative_inode_number_bits \<rparr>))))"

definition libfsxfs_superblock_read_data :: "superblock \<Rightarrow> u8 list \<Rightarrow> superblock result" where
  "libfsxfs_superblock_read_data sb data =
     bindE (superblock_read_fields sb data) (\<lambda>(sb, number_of_inodes_per_block).
     bindE (superblock_check_format sb) (\<lambda>sb.
     bindE (superblock_read_directory_block_size sb data) (\<lambda>sb.
     superblock_read_allocation_group_bits sb number_of_inodes_per_block data)))"

definition libfsxfs_superblock_read_file_io_handle ::
    "superblock \<Rightarrow> file_io \<Rightarrow> u64 \<Rightarrow> superblock result" where
  "libfsxfs_superblock_read_file_io_handle sb file file_offset =
     bindE (read_buffer_at_offset file file_offset 512) (\<lambda>data.
     libfsxfs_superblock_read_data sb data)"

text \<open>The assignments to the IO handle in \<open>libfsxfs_internal_volume_open_read\<close>.\<close>

definition io_handle_set_superblock :: "io_handle \<Rightarrow> superblock \<Rightarrow> io_handle" where
  "io_handle_set_superblock io sb =
     io\<lparr> io_format_version := uint (sb_format_version sb),
         io_secondary_feature_flags := sb_secondary_feature_flags sb,
         io_block_size := sb_block_size sb,
         io_allocation_group_size := sb_allocation_group_size sb,
         io_inode_size := sb_inode_size sb,
         io_directory_block_size := sb_directory_block_size sb,
         io_number_of_relative_block_number_bits := sb_number_of_relative_block_number_bits sb,
         io_number_of_relative_inode_number_bits := sb_number_of_relative_inode_number_bits sb \<rparr>"

lemmas superblock_defs =
  superblock_read_fields_def superblock_check_format_def
  superblock_read_directory_block_size_def superblock_read_allocation_group_bits_def
  libfsxfs_superblock_read_data_def sizeof_fsxfs_superblock_def

subsection \<open>The volume label\<close>

definition libfsxfs_superblock_get_utf8_volume_label_size ::
    "(u8 list \<Rightarrow> nat result) \<Rightarrow> superblock \<Rightarrow> nat result" where
  "libfsxfs_superblock_get_utf8_volume_label_size convert sb =
     convert_name convert (Some (sb_volume_label sb))"

definition libfsxfs_superblock_get_utf8_volume_label ::
    "(nat \<Rightarrow> u8 list \<Rightarrow> u8 list result) \<Rightarrow> superblock \<Rightarrow> nat \<Rightarrow> u8 list result" where
  "libfsxfs_superblock_get_utf8_volume_label convert sb utf8_string_size =
     convert_name (convert utf8_string_size) (Some (sb_volume_label sb))"

definition libfsxfs_superblock_get_utf16_volume_label_size ::
    "(u8 list \<Rightarrow> nat result) \<Rightarrow> superblock \<Rightarrow> nat result" where
  "libfsxfs_superblock_get_utf16_volume_label_size convert sb =
     convert_name convert (Some (sb_volume_label sb))"

definition libfsxfs_superblock_get_utf16_volume_label ::
    "(nat \<Rightarrow> u8 list \<Rightarrow> u16 list result) \<Rightarrow> superblock \<Rightarrow> nat \<Rightarrow> u16 list result" where
  "libfsxfs_superblock_get_utf16_volume_label convert sb utf16_string_size =
     convert_name (convert utf16_string_size) (Some (sb_volume_label sb))"

subsection \<open>The reader contract\<close>

lemma superblock_read_fields_fault_free: "fault_free (superblock_read_fields sb data)"
proof (cases "length data < 208 \<or> length data > SSIZE_MAX")
  case True
  then show ?thesis by (simp add: superblock_read_fields_def sizeof_fsxfs_superblock_def)
next
  case False
  then show ?thesis
    by (simp add: superblock_read_fields_def sizeof_fsxfs_superblock_def)
qed

lemma superblock_read_fields_size:
  "superblock_read_fields sb data = Inr r \<Longrightarrow> 208 \<le> length data \<and> length data \<le> SSIZE_MAX"
  by (simp add: superblock_read_fields_def sizeof_fsxfs_superblock_def split: if_splits)

lemma superblock_checks_fault_free:
  "fault_free (superblock_check_format sb)"
  "208 \<le> length data \<Longrightarrow> fault_free (superblock_read_directory_block_size sb data)"
  "208 \<le> length data \<Longrightarrow> fault_free (superblock_read_allocation_group_bits sb n data)"
  by (simp_all add: superblock_check_format_def superblock_read_directory_block_size_def
      superblock_read_allocation_group_bits_def Let_def)

lemma superblock_read_fault_free: "fault_free (libfsxfs_superblock_read_data sb data)"
  unfolding libfsxfs_superblock_read_data_def
  by (auto intro!: fault_free_bindE superblock_read_fields_fault_free superblock_checks_fault_free
      dest: superblock_read_fields_size)

lemma superblock_read_fields_take:
  assumes "208 \<le> length data" and "length data \<le> SSIZE_MAX"
  shows "superblock_read_fields sb (take 208 data) = superblock_read_fields sb data"
  using assms by (simp add: superblock_read_fields_def sizeof_fsxfs_superblock_def take_drop_take)

lemma superblock_read_take:
  assumes "208 \<le> length data" and "length data \<le> SSIZE_MAX"
  shows "libfsxfs_superblock_read_data sb (take 208 data) = libfsxfs_superblock_read_data sb data"
proof -
  have "superblock_read_directory_block_size sb' (take 208 data) =
      superblock_read_directory_block_size sb' data" for sb'
    using assms by (simp add: superblock_read_directory_block_size_def)
  moreover have "superblock_read_allocation_group_bits sb' n (take 208 data) =
      superblock_read_allocation_group_bits sb' n data" for sb' n
    using assms by (simp add: superblock_read_allocation_group_bits_def)
  ultimately show ?thesis
    using assms by (simp add: libfsxfs_superblock_read_data_def superblock_read_fields_take)
qed

interpretation superblock_reader:
  structure_reader "libfsxfs_superblock_read_data sb" sizeof_fsxfs_superblock for sb
proof
  show "fault_free (libfsxfs_superblock_read_data sb data)" for data
    by (rule superblock_read_fault_free)
  show "length data < sizeof_fsxfs_superblock \<Longrightarrow>
      libfsxfs_superblock_read_data sb data = Inl Value_Out_Of_Bounds" for data
    by (simp add: superblock_defs)
  show "sizeof_fsxfs_superblock \<le> length data \<Longrightarrow> length data \<le> SSIZE_MAX \<Longrightarrow>
      libfsxfs_superblock_read_data sb (take sizeof_fsxfs_superblock data) =
      libfsxfs_superblock_read_data sb data" for data
    by (simp add: sizeof_fsxfs_superblock_def superblock_read_take)
qed

subsection \<open>The file systems that are supported\<close>

definition superblock_supported :: "superblock \<Rightarrow> bool" where
  "superblock_supported sb \<longleftrightarrow>
     (sb_format_version sb = 4 \<or> sb_format_version sb = 5) \<and>
     ucast (sb_feature_flags sb) AND NOT supported_feature_flags = 0 \<and>
     512 \<le> unat (sb_block_size sb) \<and> unat (sb_block_size sb) \<le> 65536 \<and>
     sb_sector_size sb \<in> {512, 1024, 2048, 4096, 8192, 16384} \<and>
     256 \<le> unat (sb_inode_size sb) \<and> unat (sb_inode_size sb) \<le> 2048 \<and>
     (\<exists>k<32. unat (sb_directory_block_size sb) = 2 ^ k * unat (sb_block_size sb)) \<and>
     5 \<le> unat (sb_allocation_group_size sb) \<and> unat (sb_allocation_group_size sb) < 2 ^ 31 \<and>
     1 \<le> unat (sb_number_of_relative_block_number_bits sb) \<and>
     unat (sb_number_of_relative_block_number_bits sb)
       < unat (sb_number_of_relative_inode_number_bits sb) \<and>
     unat (sb_number_of_relative_inode_number_bits sb) < 32 \<and>
     unat (sb_number_of_relative_inode_number_bits sb)
       < unat (sb_number_of_relative_block_number_bits sb) + 16 \<and>
     length (sb_volume_label sb) = 12"

lemma unat_push_bit_1: "k < LENGTH('a) \<Longrightarrow> unat (push_bit k 1 :: 'a::len word) = 2 ^ k"
  unfolding unsigned_push_bit_eq by (simp add: push_bit_eq_mult take_bit_nat_eq_self)

lemma directory_block_size_product:
  fixes bs :: u32
  assumes "k < 32" and "bs \<noteq> 0"
  shows "(push_bit k 1 \<le> 0xffffffff div bs) \<longleftrightarrow> 2 ^ k * unat bs < 2 ^ 32"
    and "2 ^ k * unat bs < 2 ^ 32 \<Longrightarrow> unat (push_bit k 1 * bs) = 2 ^ k * unat bs"
proof -
  have k: "unat (push_bit k 1 :: u32) = 2 ^ k" by (rule unat_push_bit_1) (simp add: assms)
  have "0 < unat bs" using assms by (simp add: unat_gt_0)
  then have "(2 ^ k \<le> 4294967295 div unat bs) \<longleftrightarrow> 2 ^ k * unat bs \<le> 4294967295"
    by (simp add: less_eq_div_iff_mult_less_eq)
  then show "(push_bit k 1 \<le> 0xffffffff div bs) \<longleftrightarrow> 2 ^ k * unat bs < 2 ^ 32"
    by (simp only: word_le_nat_alt unat_div_distrib k) auto
  show "2 ^ k * unat bs < 2 ^ 32 \<Longrightarrow> unat (push_bit k 1 * bs) = 2 ^ k * unat bs"
    by (simp only: unat_word_ariths k) simp
qed

lemma superblock_read_fields_label:
  "superblock_read_fields sb data = Inr (sb', n) \<Longrightarrow> length (sb_volume_label sb') = 12"
  by (simp add: superblock_read_fields_def sizeof_fsxfs_superblock_def split: if_splits) auto

lemma superblock_check_format_Inr:
  "superblock_check_format sb = Inr sb' \<Longrightarrow>
     sb' = sb \<and> (sb_format_version sb = 4 \<or> sb_format_version sb = 5) \<and>
     ucast (sb_feature_flags sb) AND NOT supported_feature_flags = 0 \<and>
     512 \<le> unat (sb_block_size sb) \<and> unat (sb_block_size sb) \<le> 65536 \<and>
     sb_sector_size sb \<in> {512, 1024, 2048, 4096, 8192, 16384} \<and>
     256 \<le> unat (sb_inode_size sb) \<and> unat (sb_inode_size sb) \<le> 2048"
  by (auto simp: superblock_check_format_def word_less_nat_alt not_less split: if_splits)

lemma superblock_read_directory_block_size_Inr:
  assumes r: "superblock_read_directory_block_size sb data = Inr sb'" and nz: "sb_block_size sb \<noteq> 0"
  shows "\<exists>k<32. sb' = sb\<lparr> sb_directory_block_size := sb_directory_block_size sb' \<rparr> \<and>
    unat (sb_directory_block_size sb') = 2 ^ k * unat (sb_block_size sb)"
proof -
  from r obtain l where l: "get_byte data 192 = Inr l"
    unfolding superblock_read_directory_block_size_def by auto
  show ?thesis
  proof (cases "l = 0")
    case True
    with r l have "sb' = sb\<lparr> sb_directory_block_size := sb_block_size sb \<rparr>"
      by (simp add: superblock_read_directory_block_size_def)
    then show ?thesis by (intro exI [of _ 0]) simp
  next
    case False
    with r l have b: "l < 32" and c: "push_bit (unat l) 1 \<le> 0xffffffff div sb_block_size sb"
      and e: "sb' = sb\<lparr> sb_directory_block_size := push_bit (unat l) 1 * sb_block_size sb \<rparr>"
      by (simp_all add: superblock_read_directory_block_size_def Let_def not_less not_le split: if_splits)
    from b have k: "unat l < 32" by (simp add: word_less_nat_alt)
    with c nz e show ?thesis
      using directory_block_size_product [OF k nz] by (intro exI [of _ "unat l"]) simp
  qed
qed

lemma superblock_read_allocation_group_bits_Inr:
  assumes r: "superblock_read_allocation_group_bits sb n data = Inr sb'"
  shows "sb' = sb\<lparr> sb_number_of_relative_block_number_bits := sb_number_of_relative_block_number_bits sb',
      sb_number_of_relative_inode_number_bits := sb_number_of_relative_inode_number_bits sb' \<rparr> \<and>
    5 \<le> unat (sb_allocation_group_size sb) \<and> unat (sb_allocation_group_size sb) < 2 ^ 31 \<and>
    1 \<le> unat (sb_number_of_relative_block_number_bits sb') \<and>
    unat (sb_number_of_relative_block_number_bits sb') < unat (sb_number_of_relative_inode_number_bits sb') \<and>
    unat (sb_number_of_relative_inode_number_bits sb') < 32 \<and>
    unat (sb_number_of_relative_inode_number_bits sb')
      < unat (sb_number_of_relative_block_number_bits sb') + 16"
proof -
  from r have sz: "5 \<le> sb_allocation_group_size sb" "sb_allocation_group_size sb \<le> 0x7fffffff"
    by (simp_all add: superblock_read_allocation_group_bits_def not_less split: if_splits)
  from r sz obtain a where a: "get_byte data 124 = Inr a" "a \<noteq> 0" "a \<le> 31"
    by (auto simp: superblock_read_allocation_group_bits_def not_less split: if_splits)
  with r sz obtain l where l: "get_byte data 123 = Inr l" "l \<noteq> 0" "uint l \<le> 32 - uint a"
    by (auto simp: superblock_read_allocation_group_bits_def not_less split: if_splits)
  with r sz a have b: "a + l < 32" and p: "(push_bit (unat l) 1 :: u64) = ucast n"
    and e: "sb' = sb\<lparr> sb_number_of_relative_block_number_bits := a, sb_number_of_relative_inode_number_bits := a + l \<rparr>"
    by (simp_all add: superblock_read_allocation_group_bits_def Let_def not_less not_le split: if_splits)
  have "unat a \<le> 31" "0 < unat a" "0 < unat l"
    using a l by (simp_all add: word_le_nat_alt unat_gt_0)
  moreover have "int (unat l) \<le> 32 - int (unat a)" using l(3) by (simp only: uint_nat)
  ultimately have "unat l + unat a \<le> 32" by linarith
  then have s: "unat (a + l) = unat a + unat l"
    by (simp add: unat_word_ariths)
  have "unat l < 64" using \<open>unat l + unat a \<le> 32\<close> by simp
  then have "2 ^ unat l = unat n"
    using unat_push_bit_1 [of "unat l", where 'a = 64] by (simp only: p) simp
  then have "(2::nat) ^ unat l < 2 ^ 16" using unat_bounds(2) [of n] by simp
  then have "unat l < 16" by (rule power_less_imp_less_exp [rotated]) simp
  have "5 \<le> unat (sb_allocation_group_size sb)" "unat (sb_allocation_group_size sb) < 2 ^ 31"
    using sz by (simp_all add: word_le_nat_alt)
  then show ?thesis
    using e s b \<open>0 < unat a\<close> \<open>0 < unat l\<close> \<open>unat l < 16\<close> by (simp add: word_less_nat_alt)
qed

lemma superblock_read_supported:
  assumes "libfsxfs_superblock_read_data sb data = Inr sb'"
  shows "superblock_supported sb'"
proof -
  from assms obtain sb1 n sb2 sb3 where r:
      "superblock_read_fields sb data = Inr (sb1, n)" "superblock_check_format sb1 = Inr sb2"
      "superblock_read_directory_block_size sb2 data = Inr sb3"
      "superblock_read_allocation_group_bits sb3 n data = Inr sb'"
    unfolding libfsxfs_superblock_read_data_def by auto
  note f = superblock_check_format_Inr [OF r(2)]
  then have "sb_block_size sb2 \<noteq> 0" by auto
  from superblock_read_directory_block_size_Inr [OF r(3) this]
  obtain k d where k: "k < (32::nat)" "sb3 = sb1\<lparr> sb_directory_block_size := d \<rparr>"
      "unat d = 2 ^ k * unat (sb_block_size sb1)"
    using f by auto
  from superblock_read_allocation_group_bits_Inr [OF r(4)] obtain a i where
      "sb' = sb3\<lparr> sb_number_of_relative_block_number_bits := a, sb_number_of_relative_inode_number_bits := i \<rparr>"
      "5 \<le> unat (sb_allocation_group_size sb3)" "unat (sb_allocation_group_size sb3) < 2 ^ 31"
      "1 \<le> unat a" "unat a < unat i" "unat i < 32" "unat i < unat a + 16"
    by blast
  then show ?thesis
    using f k superblock_read_fields_label [OF r(1)] unfolding superblock_supported_def by auto
qed

subsection \<open>Writing a superblock\<close>

text \<open>
  The on-disk form of a superblock, after the table of the format documentation. The fields
  that the reader does not look at are zero; \<open>k\<close> is the logarithm of the directory block size.
\<close>

definition superblock_bytes :: "superblock \<Rightarrow> nat \<Rightarrow> u8 list" where
  "superblock_bytes sb k =
     fsxfs_superblock_signature @ be_bytes 4 (sb_block_size sb) @
     be_bytes 8 (sb_number_of_blocks sb) @ replicate 32 0 @
     be_bytes 8 (sb_journal_block_number sb) @ be_bytes 8 (sb_root_directory_inode_number sb) @
     replicate 20 0 @ be_bytes 4 (sb_allocation_group_size sb) @
     be_bytes 4 (sb_number_of_allocation_groups sb) @ replicate 8 0 @
     be_bytes 2 (ucast (sb_format_version sb) OR sb_feature_flags sb) @
     be_bytes 2 (sb_sector_size sb) @ be_bytes 2 (sb_inode_size sb) @
     be_bytes 2 (push_bit (unat (sb_number_of_relative_inode_number_bits sb
       - sb_number_of_relative_block_number_bits sb)) 1 :: u16) @
     sb_volume_label sb @ [0, 0, 0,
       sb_number_of_relative_inode_number_bits sb - sb_number_of_relative_block_number_bits sb,
       sb_number_of_relative_block_number_bits sb] @ replicate 67 0 @ [word_of_nat k] @
     replicate 7 0 @ be_bytes 4 (sb_secondary_feature_flags sb) @ replicate 4 0"

lemma length_superblock_bytes:
  "length (sb_volume_label sb) = 12 \<Longrightarrow> length (superblock_bytes sb k) = 208"
  by (simp add: superblock_bytes_def fsxfs_superblock_signature_def)

lemma ucast_and_not_ucast:
  fixes F M :: u16
  assumes "ucast F AND NOT (ucast M) = (0 :: u32)"
  shows "F AND M = F"
proof (rule bit_word_eqI)
  fix i assume i: "i < LENGTH(16)"
  have "\<not> bit (ucast F AND NOT (ucast M) :: u32) i" by (simp add: assms)
  then show "bit (F AND M) i = bit F i" using i by (auto simp: bit_simps)
qed

lemma superblock_version_and_flags:
  assumes "sb_format_version sb = 4 \<or> sb_format_version sb = 5"
    and "ucast (sb_feature_flags sb) AND NOT supported_feature_flags = 0"
  shows "ucast ((ucast (sb_format_version sb) OR sb_feature_flags sb) AND 0x000f) = sb_format_version sb"
    and "(ucast (sb_format_version sb) OR sb_feature_flags sb) AND 0xfff0 = sb_feature_flags sb"
proof -
  let ?F = "sb_feature_flags sb" and ?M = "0xfcb0 :: u16"
  have "supported_feature_flags = ucast ?M"
    by (simp add: supported_feature_flags_def)
  with assms(2) have F: "?F AND ?M = ?F"
    by (intro ucast_and_not_ucast) simp
  have low: "?F AND 0xf = 0" and high: "?F AND 0xfff0 = ?F"
  proof -
    have "?F AND 0xf = ?F AND (?M AND 0xf)" by (simp only: and.assoc [symmetric] F)
    then show "?F AND 0xf = 0" by simp
    have "?F AND 0xfff0 = ?F AND (?M AND 0xfff0)" by (simp only: and.assoc [symmetric] F)
    then show "?F AND 0xfff0 = ?F" using F by simp
  qed
  show "ucast ((ucast (sb_format_version sb) OR sb_feature_flags sb) AND 0x000f) = sb_format_version sb"
    using assms(1) low by (auto simp: bit.conj_disj_distrib2)
  show "(ucast (sb_format_version sb) OR sb_feature_flags sb) AND 0xfff0 = sb_feature_flags sb"
    using assms(1) high by (auto simp: bit.conj_disj_distrib2)
qed

lemma superblock_read_fields_bytes:
  assumes "length (sb_volume_label sb) = 12"
    and "sb_format_version sb = 4 \<or> sb_format_version sb = 5"
    and "ucast (sb_feature_flags sb) AND NOT supported_feature_flags = 0"
  shows "superblock_read_fields old (superblock_bytes sb k) =
    Inr (sb\<lparr> sb_directory_block_size := sb_directory_block_size old,
             sb_number_of_relative_block_number_bits := sb_number_of_relative_block_number_bits old,
             sb_number_of_relative_inode_number_bits := sb_number_of_relative_inode_number_bits old \<rparr>,
         push_bit (unat (sb_number_of_relative_inode_number_bits sb
           - sb_number_of_relative_block_number_bits sb)) 1)"
  unfolding superblock_read_fields_def sizeof_fsxfs_superblock_def length_superblock_bytes [OF assms(1)]
  apply (simp add: length_superblock_bytes [OF assms(1)])
  apply (simp add: superblock_bytes_def fsxfs_superblock_signature_def assms(1) be_word_be_bytes
      superblock_version_and_flags [OF assms(2,3)])
  done

lemma superblock_check_format_supported:
  "superblock_supported sb \<Longrightarrow> superblock_check_format sb = Inr sb"
  by (auto simp: superblock_supported_def superblock_check_format_def word_less_nat_alt not_less)

lemma superblock_bytes_log2:
  assumes "length (sb_volume_label sb) = 12"
  shows "get_byte (superblock_bytes sb k) 192 = Inr (word_of_nat k)"
    and "get_byte (superblock_bytes sb k) 124 = Inr (sb_number_of_relative_block_number_bits sb)"
    and "get_byte (superblock_bytes sb k) 123 =
      Inr (sb_number_of_relative_inode_number_bits sb - sb_number_of_relative_block_number_bits sb)"
  using assms
  by (simp_all add: get_byte_def length_superblock_bytes)
    (simp_all add: superblock_bytes_def fsxfs_superblock_signature_def nth_append)

lemma superblock_read_directory_block_size_bytes:
  assumes "length (sb_volume_label s) = 12" and "k < 32" and "sb_block_size sb \<noteq> 0"
    and "unat d = 2 ^ k * unat (sb_block_size sb)"
  shows "superblock_read_directory_block_size sb (superblock_bytes s k) =
    Inr (sb\<lparr> sb_directory_block_size := d \<rparr>)"
proof (cases "k = 0")
  case True
  with assms have "d = sb_block_size sb" by (simp add: word_unat_eq_iff)
  with True assms(1) show ?thesis
    by (simp add: superblock_read_directory_block_size_def superblock_bytes_log2)
next
  case False
  have u: "unat (word_of_nat k :: u8) = k" using assms(2) by (simp add: unat_of_nat)
  then have "(word_of_nat k :: u8) \<noteq> 0" "(word_of_nat k :: u8) < 32"
    using False assms(2) by (auto simp: word_less_nat_alt unat_eq_0 [symmetric])
  moreover have lt: "2 ^ k * unat (sb_block_size sb) < 2 ^ 32"
    using assms(4) unat_bounds(3) [of d] by simp
  moreover have "d = push_bit k 1 * sb_block_size sb"
    using directory_block_size_product(2) [OF assms(2,3) lt] assms(4) by (simp only: word_unat_eq_iff)
  ultimately show ?thesis
    using assms(1) directory_block_size_product(1) [OF assms(2,3)]
    by (simp add: superblock_read_directory_block_size_def superblock_bytes_log2 Let_def not_le not_less u)
qed

lemma superblock_read_allocation_group_bits_bytes:
  assumes s: "superblock_supported s" and "sb_allocation_group_size sb = sb_allocation_group_size s"
  shows "superblock_read_allocation_group_bits sb
      (push_bit (unat (sb_number_of_relative_inode_number_bits s
        - sb_number_of_relative_block_number_bits s)) 1) (superblock_bytes s k) =
    Inr (sb\<lparr> sb_number_of_relative_block_number_bits := sb_number_of_relative_block_number_bits s,
             sb_number_of_relative_inode_number_bits := sb_number_of_relative_inode_number_bits s \<rparr>)"
proof -
  define a where "a = sb_number_of_relative_block_number_bits s"
  define i where "i = sb_number_of_relative_inode_number_bits s"
  have b: "1 \<le> unat a" "unat a < unat i" "unat i < 32" "unat i < unat a + 16"
    and label: "length (sb_volume_label s) = 12"
    and g: "5 \<le> unat (sb_allocation_group_size s)" "unat (sb_allocation_group_size s) < 2 ^ 31"
    using s by (simp_all add: superblock_supported_def a_def i_def)
  have d: "unat (i - a) = unat i - unat a"
    using b by (simp add: unat_sub_if' )
  define m where "m = unat i - unat a"
  have m: "m < 16" "0 < m" using b by (auto simp: m_def)
  have p: "unat (push_bit m 1 :: u16) = 2 ^ m" "unat (push_bit m 1 :: u64) = 2 ^ m"
    by (rule unat_push_bit_1, use m in simp)+
  have "ucast (push_bit m 1 :: u16) = (push_bit m 1 :: u64)"
    by (simp only: word_unat_eq_iff unat_ucast_ups p)
  moreover have "\<not> uint (i - a) > 32 - uint a"
    using b d by (simp only: uint_nat)
  moreover have "a \<noteq> 0" "\<not> a > 31" "i - a \<noteq> 0" "a + (i - a) = i" "i \<noteq> 0" "\<not> i \<ge> 32"
    using b by (auto simp: word_less_nat_alt word_le_nat_alt)
  moreover have "\<not> sb_allocation_group_size sb < 5" "\<not> sb_allocation_group_size sb > 0x7fffffff"
    using g assms(2) by (simp_all add: word_less_nat_alt)
  ultimately show ?thesis
    using superblock_bytes_log2 [OF label, of k]
    by (simp add: superblock_read_allocation_group_bits_def Let_def d m_def
        a_def [symmetric] i_def [symmetric] not_le del: push_bit_of_1 not_less)
qed

lemma superblock_read_bytes:
  assumes s: "superblock_supported sb" and k: "k < 32"
    and d: "unat (sb_directory_block_size sb) = 2 ^ k * unat (sb_block_size sb)"
  shows "libfsxfs_superblock_read_data old (superblock_bytes sb k) = Inr sb"
proof -
  have l: "length (sb_volume_label sb) = 12" and v: "sb_format_version sb = 4 \<or> sb_format_version sb = 5"
    and f: "ucast (sb_feature_flags sb) AND NOT supported_feature_flags = 0"
    and n: "sb_block_size sb \<noteq> 0"
    using s by (auto simp: superblock_supported_def)
  let ?b = "\<lambda>d. sb\<lparr> sb_directory_block_size := d,
    sb_number_of_relative_block_number_bits := sb_number_of_relative_block_number_bits old,
    sb_number_of_relative_inode_number_bits := sb_number_of_relative_inode_number_bits old \<rparr>"
  have c: "superblock_check_format (?b x) = Inr (?b x)" for x
    using superblock_check_format_supported [OF s] by (simp add: superblock_check_format_def split: if_splits)
  have "superblock_read_directory_block_size (?b x) (superblock_bytes sb k) =
      Inr (?b (sb_directory_block_size sb))" for x
    using superblock_read_directory_block_size_bytes [OF l k, of "?b x"] n d by simp
  then show ?thesis
    using superblock_read_allocation_group_bits_bytes [OF s, of "?b (sb_directory_block_size sb)"]
    by (simp only: libfsxfs_superblock_read_data_def superblock_read_fields_bytes [OF l v f] c
        bindE_Inr case_prod_conv) simp
qed


subsection \<open>Properties\<close>

text \<open>
  Reading a superblock never reads outside the 512 bytes of the sector and never shifts out of
  range, whatever the file contains.
\<close>

lemma superblock_memory_safe:
  "fault_free (libfsxfs_superblock_read_file_io_handle sb fio off)"
  unfolding libfsxfs_superblock_read_file_io_handle_def
  by (intro safe_intros superblock_read_fault_free)

lemma superblock_read_io_valid:
  assumes "libfsxfs_superblock_read_data old data = Inr sb"
  shows "io_valid (io_handle_set_superblock io sb)"
proof -
  note s = superblock_read_supported [OF assms]
  have "512 \<le> unat (sb_directory_block_size sb)"
  proof -
    obtain k where "unat (sb_directory_block_size sb) = 2 ^ k * unat (sb_block_size sb)"
      using s by (auto simp: superblock_supported_def)
    moreover have "unat (sb_block_size sb) \<le> 2 ^ k * unat (sb_block_size sb)" by simp
    ultimately show ?thesis using s unfolding superblock_supported_def by linarith
  qed
  moreover have "uint (sb_format_version sb) = 4 \<or> uint (sb_format_version sb) = 5"
    using s by (auto simp: superblock_supported_def)
  ultimately show ?thesis
    using s by (simp add: io_valid_def io_handle_set_superblock_def superblock_supported_def)
qed

text \<open>
  C4: A superblock that is accepted is a supported one, and the IO handle that is filled from it
  is valid: block size and inode size are in their ranges and the block number bits are less
  than 31, so that no translation of a block number shifts out of range.
\<close>

theorem superblock_accepted_valid:
  assumes "libfsxfs_superblock_read_data old data = Inr sb"
  shows "superblock_supported sb \<and> io_valid (io_handle_set_superblock io sb) \<and>
    fault_free (block_number_to_offset (io_handle_set_superblock io sb) b)"
  using superblock_read_supported [OF assms] superblock_read_io_valid [OF assms, of io]
  by (simp add: fault_free_block_number_to_offset io_validD)

definition example_superblock :: superblock where
  "example_superblock = superblock_zero
     \<lparr> sb_block_size := 4096, sb_number_of_blocks := 1024, sb_root_directory_inode_number := 64,
       sb_allocation_group_size := 1024, sb_number_of_allocation_groups := 1,
       sb_format_version := 5, sb_feature_flags := 0xb4a0, sb_sector_size := 512,
       sb_inode_size := 512, sb_directory_block_size := 4096,
       sb_number_of_relative_block_number_bits := 10,
       sb_number_of_relative_inode_number_bits := 13 \<rparr>"

lemma example_superblock_supported: "superblock_supported example_superblock"
proof -
  have "\<exists>k<32. 4096 = 2 ^ k * (4096 :: nat)" by (intro exI [of _ 0]) simp
  then show ?thesis
    by (simp add: superblock_supported_def example_superblock_def superblock_zero_def
        supported_feature_flags_def)
qed

text \<open>
  C34: A supported superblock that is written to its on-disk form is read back unchanged, whatever
  the structure contained that it is read into.
\<close>

theorem superblock_roundtrip:
  assumes "superblock_supported sb" and "k < 32"
    and "unat (sb_directory_block_size sb) = 2 ^ k * unat (sb_block_size sb)"
  shows "libfsxfs_superblock_read_data old (superblock_bytes sb k) = Inr sb"
  using assms by (rule superblock_read_bytes)

lemma superblock_roundtrip_witness:
  "libfsxfs_superblock_read_data superblock_zero (superblock_bytes example_superblock 0) =
     Inr example_superblock"
  by (rule superblock_roundtrip [OF example_superblock_supported])
    (simp_all add: example_superblock_def)

lemma superblock_accepted_valid_witness:
  "io_valid (io_handle_set_superblock io_handle_zero example_superblock)"
proof -
  have "libfsxfs_superblock_read_data superblock_zero (superblock_bytes example_superblock 0) =
      Inr example_superblock"
    by (rule superblock_read_bytes [OF example_superblock_supported])
      (simp_all add: example_superblock_def)
  from superblock_accepted_valid [OF this] show ?thesis by blast
qed

end
