(* ===== verification/Btree_Block.thy ===== *)
theory Btree_Block
  imports IO_Handle
begin

text \<open>
  B+ tree blocks (\<open>libfsxfs_btree_header.c\<close>, \<open>libfsxfs_btree_block.c\<close>): the header that the
  inode and the extent B+ trees share, and the division of a block into header and records. The
  size of the header depends on the format version and on the size of a block number.
\<close>

subsection \<open>The header\<close>

record btree_header =
  bh_signature :: "u8 list"
  bh_level :: u16
  bh_number_of_records :: u16

definition btree_header_zero :: btree_header where
  "btree_header_zero = \<lparr> bh_signature = replicate 4 0, bh_level = 0, bh_number_of_records = 0 \<rparr>"

definition libfsxfs_btree_header_initialize :: "btree_header option \<Rightarrow> btree_header result" where
  "libfsxfs_btree_header_initialize pointer = allocate_structure pointer btree_header_zero"

definition btree_header_data_size :: "io_handle \<Rightarrow> nat \<Rightarrow> nat" where
  "btree_header_data_size io block_number_data_size =
     (if io_format_version io = 5
      then (if block_number_data_size = 8 then 72 else 56)
      else (if block_number_data_size = 8 then 24 else 16))"

definition libfsxfs_btree_header_read_data ::
    "btree_header \<Rightarrow> io_handle \<Rightarrow> u8 list \<Rightarrow> nat \<Rightarrow> btree_header result" where
  "libfsxfs_btree_header_read_data header io data block_number_data_size =
     (if block_number_data_size \<noteq> 4 \<and> block_number_data_size \<noteq> 8 then Inl Unsupported_Value else
      if length data < btree_header_data_size io block_number_data_size \<or> length data > SSIZE_MAX
      then Inl Value_Out_Of_Bounds else
      bindE (get_bytes data 0 4) (\<lambda>signature.
      bindE (byte_stream_copy_to_uint16_big_endian data 4) (\<lambda>level.
      bindE (byte_stream_copy_to_uint16_big_endian data 6) (\<lambda>number_of_records.
      Inr (header\<lparr> bh_signature := signature, bh_level := level,
                   bh_number_of_records := number_of_records \<rparr>)))))"

subsection \<open>The block\<close>

text \<open>
  \<open>bb_data\<close> is the buffer that the block owns; its contents are not defined until the block
  has been read, here it is empty until then. \<open>bb_records_data\<close> stands for the pointer into a
  buffer together with the size.
\<close>

record btree_block =
  bb_data :: "u8 list"
  bb_data_size :: nat
  bb_block_number_data_size :: nat
  bb_header :: "btree_header option"
  bb_records_data :: "u8 list"

definition libfsxfs_btree_block_initialize ::
    "btree_block option \<Rightarrow> nat \<Rightarrow> nat \<Rightarrow> btree_block result" where
  "libfsxfs_btree_block_initialize pointer block_size block_number_data_size =
     (case pointer of
        Some _ \<Rightarrow> Inl Value_Already_Set
      | None \<Rightarrow>
          if block_size = 0 \<or> block_size > MEMORY_MAXIMUM_ALLOCATION_SIZE
          then Inl Value_Out_Of_Bounds
          else Inr \<lparr> bb_data = [], bb_data_size = block_size,
                     bb_block_number_data_size = block_number_data_size,
                     bb_header = None, bb_records_data = [] \<rparr>)"

definition libfsxfs_btree_block_read_data ::
    "btree_block \<Rightarrow> io_handle \<Rightarrow> u8 list \<Rightarrow> btree_block result" where
  "libfsxfs_btree_block_read_data block io data =
     (if bb_header block \<noteq> None then Inl Value_Already_Set else
      let header_data_size =
        (if io_format_version io = 5
         then (if bb_block_number_data_size block = 8 then 72 else 56)
         else (if bb_block_number_data_size block = 8 then 24 else 16)) in
      if length data < header_data_size \<or> length data > SSIZE_MAX
      then Inl Value_Out_Of_Bounds else
      bindE (libfsxfs_btree_header_initialize (bb_header block)) (\<lambda>header.
      bindE (get_bytes data 0 header_data_size) (\<lambda>header_data.
      bindE (libfsxfs_btree_header_read_data header io header_data
               (bb_block_number_data_size block)) (\<lambda>header.
      Inr (block\<lparr> bb_header := Some header,
                  bb_records_data := drop header_data_size data \<rparr>)))))"

definition libfsxfs_btree_block_read_file_io_handle ::
    "btree_block \<Rightarrow> io_handle \<Rightarrow> file_io \<Rightarrow> u64 \<Rightarrow> btree_block result" where
  "libfsxfs_btree_block_read_file_io_handle block io file file_offset =
     (if bb_header block \<noteq> None then Inl Value_Already_Set else
      bindE (read_buffer_at_offset file file_offset (bb_data_size block)) (\<lambda>data.
      libfsxfs_btree_block_read_data (block\<lparr> bb_data := data \<rparr>) io data))"

text \<open>The calls that both B+ trees make to get at a node: create a block and read it.\<close>

definition read_btree_node ::
    "io_handle \<Rightarrow> file_io \<Rightarrow> nat \<Rightarrow> u64 \<Rightarrow> (btree_header \<times> u8 list) result" where
  "read_btree_node io file block_number_data_size file_offset =
     bindE (libfsxfs_btree_block_initialize None (unat (io_block_size io)) block_number_data_size)
       (\<lambda>block.
     bindE (libfsxfs_btree_block_read_file_io_handle block io file file_offset) (\<lambda>block.
     case bb_header block of
       None \<Rightarrow> Inl Value_Missing
     | Some header \<Rightarrow> Inr (header, bb_records_data block)))"

subsection \<open>The reader contract\<close>

lemma btree_header_data_size_cases:
  "btree_header_data_size io n \<in> {16, 24, 56, 72}"
  by (simp add: btree_header_data_size_def)

lemma btree_header_data_size_ge: "16 \<le> btree_header_data_size io n"
  by (simp add: btree_header_data_size_def)

lemma btree_block_header_size:
  "(if io_format_version io = 5 then (if n = 8 then 72 else 56)
    else (if n = 8 then 24 else 16)) = btree_header_data_size io n"
  by (simp add: btree_header_data_size_def)

interpretation btree_header_reader:
  structure_reader "\<lambda>data. libfsxfs_btree_header_read_data header io data 4"
    "btree_header_data_size io 4" for header io
  by unfold_locales
    (use btree_header_data_size_ge [of io 4] in
      \<open>auto simp: libfsxfs_btree_header_read_data_def take_drop_take\<close>)

interpretation btree_header_reader_64bit:
  structure_reader "\<lambda>data. libfsxfs_btree_header_read_data header io data 8"
    "btree_header_data_size io 8" for header io
  by unfold_locales
    (use btree_header_data_size_ge [of io 8] in
      \<open>auto simp: libfsxfs_btree_header_read_data_def take_drop_take\<close>)

lemma btree_header_read_fault_free [safe_intros]:
  "fault_free (libfsxfs_btree_header_read_data header io data n)"
  using btree_header_reader.reader_fault_free [of header io data]
    btree_header_reader_64bit.reader_fault_free [of header io data]
  by (cases "n = 4 \<or> n = 8") (auto simp: libfsxfs_btree_header_read_data_def)

lemma btree_block_read_fault_free [safe_intros]:
  "fault_free (libfsxfs_btree_block_read_data block io data)"
  by (auto simp: libfsxfs_btree_block_read_data_def Let_def btree_block_header_size
      libfsxfs_btree_header_initialize_def allocate_structure_def not_less
      intro!: safe_intros split: option.splits)

lemma read_btree_node_fault_free [safe_intros]:
  "fault_free (read_btree_node io file n off)"
  unfolding read_btree_node_def libfsxfs_btree_block_read_file_io_handle_def
    libfsxfs_btree_block_initialize_def
  by (auto intro!: safe_intros split: option.splits)

subsection \<open>What a node contains\<close>

text \<open>
  A node is read exactly when the file has the whole block and the block is large enough for
  the header: then header and records are the two parts of the block.
\<close>

definition btree_header_of :: "u8 list \<Rightarrow> btree_header" where
  "btree_header_of data =
     \<lparr> bh_signature = take 4 data, bh_level = be_word (take 2 (drop 4 data)),
       bh_number_of_records = be_word (take 2 (drop 6 data)) \<rparr>"

lemma read_btree_node_Inr_iff:
  assumes "n = 4 \<or> n = 8"
  shows "read_btree_node io file n off = Inr (header, records) \<longleftrightarrow>
    (\<exists>data. file off (unat (io_block_size io)) = Some data \<and>
       length data = unat (io_block_size io) \<and>
       0 < length data \<and> length data \<le> MEMORY_MAXIMUM_ALLOCATION_SIZE \<and>
       btree_header_data_size io n \<le> length data \<and>
       header = btree_header_of data \<and> records = drop (btree_header_data_size io n) data)"
    (is "?L \<longleftrightarrow> ?R")
proof -
  let ?h = "btree_header_data_size io n"
  have h: "16 \<le> ?h" by (rule btree_header_data_size_ge)
  have rd: "libfsxfs_btree_block_read_data block io data =
      Inr (block\<lparr> bb_header := Some (btree_header_of data), bb_records_data := drop ?h data \<rparr>)"
    if "bb_header block = None" "bb_block_number_data_size block = n"
      "?h \<le> length data" "length data \<le> MEMORY_MAXIMUM_ALLOCATION_SIZE" for block data
    using that assms h
    by (auto simp: libfsxfs_btree_block_read_data_def Let_def btree_block_header_size
        libfsxfs_btree_header_initialize_def libfsxfs_btree_header_read_data_def
        btree_header_of_def btree_header_zero_def take_drop_take not_less min_absorb1)
  have small: "\<exists>e. libfsxfs_btree_block_read_data block io data = Inl e"
    if "bb_block_number_data_size block = n" "length data < ?h" for block data
    using that by (simp add: libfsxfs_btree_block_read_data_def Let_def btree_block_header_size)
  show ?thesis
  proof (cases "file off (unat (io_block_size io))")
    case None
    then show ?thesis
      by (auto simp: read_btree_node_def libfsxfs_btree_block_read_file_io_handle_def
          libfsxfs_btree_block_initialize_def read_buffer_at_offset_def split: if_splits)
  next
    case (Some data)
    show ?thesis
    proof (cases "?h \<le> length data")
      case True
      with Some show ?thesis
        by (auto simp: read_btree_node_def libfsxfs_btree_block_read_file_io_handle_def
            libfsxfs_btree_block_initialize_def read_buffer_at_offset_def rd split: if_splits)
    next
      case False
      then obtain e where "libfsxfs_btree_block_read_data
          \<lparr> bb_data = data, bb_data_size = length data, bb_block_number_data_size = n,
            bb_header = None, bb_records_data = [] \<rparr> io data = Inl e"
        using small by force
      with Some False show ?thesis
        by (auto simp: read_btree_node_def libfsxfs_btree_block_read_file_io_handle_def
            libfsxfs_btree_block_initialize_def read_buffer_at_offset_def split: if_splits)
    qed
  qed
qed

lemma read_btree_node_size:
  "n = 4 \<or> n = 8 \<Longrightarrow> read_btree_node io file n off = Inr (header, records) \<Longrightarrow>
     length records \<le> MEMORY_MAXIMUM_ALLOCATION_SIZE"
  by (auto simp: read_btree_node_Inr_iff)

end
