(* ===== verification/Inode_Btree.thy ===== *)
theory Inode_Btree
  imports Btree_Block
begin

text \<open>
  The inode information of an allocation group (\<open>libfsxfs_inode_information.c\<close>), the records of
  an inode B+ tree (\<open>libfsxfs_inode_btree_record.c\<close>) and the lookup of an inode number
  (\<open>libfsxfs_inode_btree.c\<close>). The lookup is shown to decide membership in the tree that the
  blocks of the file represent.
\<close>

subsection \<open>Inode information\<close>

record inode_information =
  ii_inode_btree_root_block_number :: u32
  ii_inode_btree_depth :: u32
  ii_last_allocated_chunk :: u32

definition inode_information_zero :: inode_information where
  "inode_information_zero =
     \<lparr> ii_inode_btree_root_block_number = 0, ii_inode_btree_depth = 0,
       ii_last_allocated_chunk = 0 \<rparr>"

definition libfsxfs_inode_information_initialize ::
    "inode_information option \<Rightarrow> inode_information result" where
  "libfsxfs_inode_information_initialize pointer =
     allocate_structure pointer inode_information_zero"

definition inode_information_data_size :: "io_handle \<Rightarrow> nat" where
  "inode_information_data_size io = (if io_format_version io \<ge> 5 then 80 else 40)"

definition libfsxfs_inode_information_read_data ::
    "inode_information \<Rightarrow> io_handle \<Rightarrow> u8 list \<Rightarrow> inode_information result" where
  "libfsxfs_inode_information_read_data information io data =
     (if length data < inode_information_data_size io \<or> length data > SSIZE_MAX
      then Inl Value_Out_Of_Bounds else
      bindE (get_bytes data 0 4) (\<lambda>signature.
      if signature \<noteq> [0x58, 0x41, 0x47, 0x49] then Inl Unsupported_Value else
      bindE (byte_stream_copy_to_uint32_big_endian data 4) (\<lambda>format_version.
      bindE (byte_stream_copy_to_uint32_big_endian data 20) (\<lambda>root_block_number.
      bindE (byte_stream_copy_to_uint32_big_endian data 24) (\<lambda>depth.
      bindE (byte_stream_copy_to_uint32_big_endian data 32) (\<lambda>last_allocated_chunk.
      if format_version \<noteq> 1 then Inl Unsupported_Value else
      Inr (information\<lparr> ii_inode_btree_root_block_number := root_block_number,
                        ii_inode_btree_depth := depth,
                        ii_last_allocated_chunk := last_allocated_chunk \<rparr>)))))))"

definition libfsxfs_inode_information_read_file_io_handle ::
    "inode_information \<Rightarrow> io_handle \<Rightarrow> file_io \<Rightarrow> u64 \<Rightarrow> inode_information result" where
  "libfsxfs_inode_information_read_file_io_handle information io file file_offset =
     bindE (read_buffer_at_offset file file_offset 512) (\<lambda>data.
     libfsxfs_inode_information_read_data information io data)"

interpretation inode_information_reader:
  structure_reader "libfsxfs_inode_information_read_data information io"
    "inode_information_data_size io" for information io
  by unfold_locales
    (auto simp: libfsxfs_inode_information_read_data_def inode_information_data_size_def
      take_drop_take split: if_splits)

lemma inode_information_read_file_fault_free [safe_intros]:
  "fault_free (libfsxfs_inode_information_read_file_io_handle information io file off)"
  unfolding libfsxfs_inode_information_read_file_io_handle_def
  by (intro safe_intros inode_information_reader.reader_fault_free)

subsection \<open>Inode B+ tree records\<close>

record inode_btree_record =
  ibr_inode_number :: u32
  ibr_number_of_unused_inodes :: u32
  ibr_chunk_allocation_bitmap :: u64

definition inode_btree_record_zero :: inode_btree_record where
  "inode_btree_record_zero =
     \<lparr> ibr_inode_number = 0, ibr_number_of_unused_inodes = 0, ibr_chunk_allocation_bitmap = 0 \<rparr>"

definition libfsxfs_inode_btree_record_initialize ::
    "inode_btree_record option \<Rightarrow> inode_btree_record result" where
  "libfsxfs_inode_btree_record_initialize pointer =
     allocate_structure pointer inode_btree_record_zero"

definition sizeof_fsxfs_inode_btree_record :: nat where
  "sizeof_fsxfs_inode_btree_record = 16"

definition libfsxfs_inode_btree_record_read_data ::
    "inode_btree_record \<Rightarrow> u8 list \<Rightarrow> inode_btree_record result" where
  "libfsxfs_inode_btree_record_read_data btree_record data =
     (if length data < sizeof_fsxfs_inode_btree_record \<or> length data > SSIZE_MAX
      then Inl Value_Out_Of_Bounds else
      bindE (byte_stream_copy_to_uint32_big_endian data 0) (\<lambda>inode_number.
      bindE (byte_stream_copy_to_uint32_big_endian data 4) (\<lambda>number_of_unused_inodes.
      bindE (byte_stream_copy_to_uint64_big_endian data 8) (\<lambda>chunk_allocation_bitmap.
      Inr (btree_record\<lparr> ibr_inode_number := inode_number,
                   ibr_number_of_unused_inodes := number_of_unused_inodes,
                   ibr_chunk_allocation_bitmap := chunk_allocation_bitmap \<rparr>)))))"

interpretation inode_btree_record_reader:
  structure_reader "libfsxfs_inode_btree_record_read_data btree_record"
    sizeof_fsxfs_inode_btree_record for btree_record
  by unfold_locales
    (auto simp: libfsxfs_inode_btree_record_read_data_def sizeof_fsxfs_inode_btree_record_def
      drop_take)

text \<open>The on-disk form of a record.\<close>

definition inode_btree_record_bytes :: "inode_btree_record \<Rightarrow> u8 list" where
  "inode_btree_record_bytes btree_record =
     be_bytes 4 (ibr_inode_number btree_record) @ be_bytes 4 (ibr_number_of_unused_inodes btree_record) @
     be_bytes 8 (ibr_chunk_allocation_bitmap btree_record)"

lemma inode_btree_record_read_bytes:
  "libfsxfs_inode_btree_record_read_data old (inode_btree_record_bytes btree_record) = Inr btree_record"
  by (simp add: libfsxfs_inode_btree_record_read_data_def sizeof_fsxfs_inode_btree_record_def
      inode_btree_record_bytes_def be_word_be_bytes)

subsection \<open>The lookup\<close>

abbreviation LIBFSXFS_MAXIMUM_RECURSION_DEPTH :: int where
  "LIBFSXFS_MAXIMUM_RECURSION_DEPTH \<equiv> 256"

text \<open>
  The inode B+ tree of the code holds only the array of inode information, one entry per
  allocation group, in the order in which they were appended.
\<close>

record inode_btree =
  ib_inode_information_array :: "inode_information list"

definition libfsxfs_inode_btree_initialize :: "inode_btree option \<Rightarrow> inode_btree result" where
  "libfsxfs_inode_btree_initialize pointer =
     allocate_structure pointer \<lparr> ib_inode_information_array = [] \<rparr>"

definition libfsxfs_inode_btree_read_inode_information ::
    "inode_btree \<Rightarrow> io_handle \<Rightarrow> file_io \<Rightarrow> u64 \<Rightarrow> inode_btree result" where
  "libfsxfs_inode_btree_read_inode_information tree io file file_offset =
     bindE (libfsxfs_inode_information_initialize None) (\<lambda>information.
     bindE (libfsxfs_inode_information_read_file_io_handle information io file file_offset)
       (\<lambda>information.
     Inr (tree\<lparr> ib_inode_information_array :=
       ib_inode_information_array tree @ [information] \<rparr>)))"

text \<open>
  The loop over the keys of a branch node: the index of the first key above the inode number,
  or the number of records.
\<close>

function branch_node_record_index :: "u8 list \<Rightarrow> nat \<Rightarrow> u64 \<Rightarrow> nat \<Rightarrow> nat \<Rightarrow> nat result" where
  "branch_node_record_index records_data number_of_records relative_inode_number
     records_data_offset record_index =
     (if record_index < number_of_records then
        bindE (byte_stream_copy_to_uint32_big_endian records_data records_data_offset)
          (\<lambda>relative_key_inode_number.
        if relative_inode_number < ucast relative_key_inode_number then Inr record_index
        else branch_node_record_index records_data number_of_records relative_inode_number
               (records_data_offset + 4) (record_index + 1))
      else Inr record_index)"
  by pat_completeness auto
termination
  by (relation "measure (\<lambda>(_, number_of_records, _, _, record_index).
        number_of_records - record_index)") auto

declare branch_node_record_index.simps [simp del]

text \<open>
  The loop over the records of a leaf node. The sum \<open>inode_number + 64\<close> is computed in 32 bits;
  the bitmap of the record is not looked at.
\<close>

function leaf_node_search :: "u8 list \<Rightarrow> nat \<Rightarrow> u64 \<Rightarrow> nat \<Rightarrow> nat \<Rightarrow> bool result" where
  "leaf_node_search records_data number_of_records inode_number records_data_offset record_index =
     (if record_index < number_of_records then
        bindE (libfsxfs_inode_btree_record_initialize None) (\<lambda>btree_record.
        bindE (get_bytes records_data records_data_offset 16) (\<lambda>record_data.
        bindE (libfsxfs_inode_btree_record_read_data btree_record record_data) (\<lambda>btree_record.
        if ucast (ibr_inode_number btree_record) \<le> inode_number \<and>
           inode_number < ucast (ibr_inode_number btree_record + 64)
        then Inr True
        else leaf_node_search records_data number_of_records inode_number
               (records_data_offset + 16) (record_index + 1))))
      else Inr False)"
  by pat_completeness auto
termination
  by (relation "measure (\<lambda>(_, number_of_records, _, _, record_index).
        number_of_records - record_index)") auto

declare leaf_node_search.simps [simp del]

definition libfsxfs_inode_btree_get_inode_from_leaf_node ::
    "u16 \<Rightarrow> u8 list \<Rightarrow> u64 \<Rightarrow> bool result" where
  "libfsxfs_inode_btree_get_inode_from_leaf_node number_of_records records_data inode_number =
     (if records_data = [] \<or> length records_data > SSIZE_MAX then Inl Value_Out_Of_Bounds else
      if unat number_of_records > length records_data div 16 then Inl Value_Out_Of_Bounds else
      leaf_node_search records_data (unat number_of_records) inode_number 0 0)"

text \<open>
  \<open>INT64_MAX / block_size\<close> is a division in \<open>int64_t\<close>, the comparisons with it are made in
  \<open>uint64_t\<close>.
\<close>

definition inode_btree_block_offset :: "io_handle \<Rightarrow> u64 \<Rightarrow> u64 \<Rightarrow> u64 result" where
  "inode_btree_block_offset io allocation_group_block_number node_block_number =
     (if io_block_size io = 0 then Inl Value_Out_Of_Bounds else
      let maximum = (0x7fffffffffffffff :: u64) div ucast (io_block_size io) in
      if allocation_group_block_number > maximum then Inl Value_Out_Of_Bounds else
      if node_block_number > maximum - allocation_group_block_number
      then Inl Value_Out_Of_Bounds else
      Inr ((allocation_group_block_number + node_block_number) * ucast (io_block_size io)))"

function libfsxfs_inode_btree_get_inode_from_node ::
    "io_handle \<Rightarrow> file_io \<Rightarrow> u64 \<Rightarrow> u64 \<Rightarrow> u64 \<Rightarrow> int \<Rightarrow> bool result"
  and libfsxfs_inode_btree_get_inode_from_branch_node ::
    "io_handle \<Rightarrow> file_io \<Rightarrow> u64 \<Rightarrow> u16 \<Rightarrow> u8 list \<Rightarrow> u64 \<Rightarrow> int \<Rightarrow> bool result" where
  "libfsxfs_inode_btree_get_inode_from_node io file allocation_group_block_number
     node_block_number relative_inode_number recursion_depth =
     bindE (inode_btree_block_offset io allocation_group_block_number node_block_number)
       (\<lambda>btree_block_offset.
     bindE (read_btree_node io file 4 btree_block_offset) (\<lambda>(header, records_data).
     if bh_signature header \<noteq>
        (if io_format_version io = 5 then [0x49, 0x41, 0x42, 0x33] else [0x49, 0x41, 0x42, 0x54])
     then Inl Unsupported_Value else
     if bh_level header = 0
     then libfsxfs_inode_btree_get_inode_from_leaf_node (bh_number_of_records header)
            records_data relative_inode_number
     else libfsxfs_inode_btree_get_inode_from_branch_node io file allocation_group_block_number
            (bh_number_of_records header) records_data relative_inode_number recursion_depth))"
| "libfsxfs_inode_btree_get_inode_from_branch_node io file allocation_group_block_number
     number_of_records records_data relative_inode_number recursion_depth =
     (if records_data = [] \<or> length records_data > SSIZE_MAX then Inl Value_Out_Of_Bounds else
      if recursion_depth < 0 \<or> recursion_depth > LIBFSXFS_MAXIMUM_RECURSION_DEPTH
      then Inl Value_Out_Of_Bounds else
      let number_of_key_value_pairs = length records_data div 8 in
      if unat number_of_records > number_of_key_value_pairs then Inl Value_Out_Of_Bounds else
      bindE (branch_node_record_index records_data (unat number_of_records)
               relative_inode_number 0 0) (\<lambda>record_index.
      if 0 < record_index \<and> record_index \<le> unat number_of_records then
        bindE (byte_stream_copy_to_uint32_big_endian records_data
                 ((number_of_key_value_pairs + record_index - 1) * 4))
          (\<lambda>relative_sub_block_number.
        libfsxfs_inode_btree_get_inode_from_node io file allocation_group_block_number
          (ucast relative_sub_block_number) relative_inode_number (recursion_depth + 1))
      else Inr False))"
  by pat_completeness auto
termination
  by (relation "measure (\<lambda>call. case call of
         Inl (_, _, _, _, _, recursion_depth) \<Rightarrow> 2 * nat (300 - recursion_depth) + 1
       | Inr (_, _, _, _, _, _, recursion_depth) \<Rightarrow> 2 * nat (300 - recursion_depth))") auto

declare libfsxfs_inode_btree_get_inode_from_node.simps [simp del]
declare libfsxfs_inode_btree_get_inode_from_branch_node.simps [simp del]

text \<open>
  The absolute inode number is divided into the index of the allocation group, cut down to an
  \<open>int\<close>, and the number relative to the group. The shifts are undefined for 64 bits or more.
\<close>

definition libfsxfs_inode_btree_get_inode_by_number ::
    "inode_btree \<Rightarrow> io_handle \<Rightarrow> file_io \<Rightarrow> u64 \<Rightarrow> u64 option result" where
  "libfsxfs_inode_btree_get_inode_by_number tree io file absolute_inode_number =
     (if io_allocation_group_size io = 0 then Inl Value_Out_Of_Bounds else
      if io_block_size io = 0 then Inl Value_Out_Of_Bounds else
      let bits = unat (io_number_of_relative_inode_number_bits io) in
      if 64 \<le> bits then Inl (Undefined Shift_Out_Of_Range) else
      let group_index = (ucast (drop_bit bits absolute_inode_number) :: u32);
          relative_inode_number = absolute_inode_number AND (push_bit bits 1 - 1) in
      if sint group_index < 0 \<or>
         int (length (ib_inode_information_array tree)) \<le> sint group_index
      then Inl Get_Failed else
      let information = ib_inode_information_array tree ! nat (sint group_index);
          allocation_group_block_number =
            scast group_index * ucast (io_allocation_group_size io) in
      bindE (libfsxfs_inode_btree_get_inode_from_node io file allocation_group_block_number
               (ucast (ii_inode_btree_root_block_number information)) relative_inode_number 0)
        (\<lambda>found.
      if found
      then Inr (Some (allocation_group_block_number * ucast (io_block_size io)
                      + relative_inode_number * ucast (io_inode_size io)))
      else Inr None))"


subsection \<open>What the loops compute\<close>

text \<open>The key with index \<open>j\<close> of a branch node and the first inode number of record \<open>j\<close> of a leaf.\<close>

definition branch_key :: "u8 list \<Rightarrow> nat \<Rightarrow> u32" where
  "branch_key records_data j = be_word (take 4 (drop (4 * j) records_data))"

definition leaf_chunk :: "u8 list \<Rightarrow> nat \<Rightarrow> u32" where
  "leaf_chunk records_data j = be_word (take 4 (drop (16 * j) records_data))"

lemma branch_node_record_index_eq:
  assumes "4 * n \<le> length data" and "i \<le> n"
  shows "branch_node_record_index data n r (4 * i) i =
    Inr (i + length (takeWhile (\<lambda>j. ucast (branch_key data j) \<le> r) [i..<n]))"
  using assms
proof (induction "n - i" arbitrary: i)
  case 0
  then show ?case by (subst branch_node_record_index.simps) simp
next
  case (Suc k)
  then have "4 * i + 4 \<le> length data" "i < n" by auto
  moreover have "branch_node_record_index data n r (4 * i + 4) (Suc i) =
      Inr (Suc i + length (takeWhile (\<lambda>j. ucast (branch_key data j) \<le> r) [Suc i..<n]))"
    using Suc.hyps(1) [of "Suc i"] Suc.hyps(2) Suc.prems \<open>i < n\<close> by (simp add: algebra_simps)
  ultimately show ?case
    by (subst branch_node_record_index.simps)
      (simp add: upt_rec [of i] branch_key_def not_less)
qed

lemma leaf_node_search_eq:
  assumes "16 * n \<le> length data" and "i \<le> n"
  shows "leaf_node_search data n r (16 * i) i =
    Inr (\<exists>j \<in> {i..<n}. ucast (leaf_chunk data j) \<le> r \<and> r < ucast (leaf_chunk data j + 64))"
  using assms
proof (induction "n - i" arbitrary: i)
  case 0
  then show ?case by (subst leaf_node_search.simps) auto
next
  case (Suc k)
  then have b: "16 * i + 16 \<le> length data" "i < n" by auto
  then have c: "{i..<n} = insert i {Suc i..<n}" by auto
  have d: "take 4 (take 16 (drop (16 * i) data)) = take 4 (drop (16 * i) data)" by simp
  have "leaf_node_search data n r (16 * i + 16) (Suc i) =
      Inr (\<exists>j \<in> {Suc i..<n}. ucast (leaf_chunk data j) \<le> r \<and> r < ucast (leaf_chunk data j + 64))"
    using Suc.hyps(1) [of "Suc i"] Suc.hyps(2) Suc.prems b by (simp add: algebra_simps)
  with b show ?case
    by (subst leaf_node_search.simps)
      (auto simp: c libfsxfs_inode_btree_record_initialize_def sizeof_fsxfs_inode_btree_record_def
        libfsxfs_inode_btree_record_read_data_def leaf_chunk_def inode_btree_record_zero_def)
qed

subsection \<open>Memory safety\<close>

lemma inode_btree_leaf_node_fault_free [safe_intros]:
  "fault_free (libfsxfs_inode_btree_get_inode_from_leaf_node n data r)"
  using leaf_node_search_eq [of "unat n" data 0 r]
  by (auto simp: libfsxfs_inode_btree_get_inode_from_leaf_node_def)

lemma inode_btree_block_offset_fault_free [safe_intros]:
  "fault_free (inode_btree_block_offset io ab blk)"
  by (simp add: inode_btree_block_offset_def Let_def)

lemma length_takeWhile_upt: "length (takeWhile P [0..<n]) \<le> n"
  using length_takeWhile_le [of P "[0..<n]"] by simp

lemma branch_pointer_bound:
  fixes size m :: nat
  assumes "m \<le> size div 8" and "0 < m"
  shows "(size div 8 + m - Suc 0) * 4 + 4 \<le> size"
proof -
  have "(size div 8 + m - Suc 0) * 4 + 4 = (size div 8 + m) * 4" using assms by (simp add: algebra_simps)
  also have "\<dots> \<le> size div 8 * 8" using assms by simp
  also have "\<dots> \<le> size" by simp
  finally show ?thesis .
qed

lemma inode_btree_nodes_fault_free:
  "fault_free (libfsxfs_inode_btree_get_inode_from_node io file ab blk r d)"
  "fault_free (libfsxfs_inode_btree_get_inode_from_branch_node io file ab n data r d)"
proof (induction io "file" ab blk r d and io "file" ab n data r d rule:
    libfsxfs_inode_btree_get_inode_from_node_libfsxfs_inode_btree_get_inode_from_branch_node.induct)
  case (1 io "file" ab blk r d)
  then show ?case
    by (subst libfsxfs_inode_btree_get_inode_from_node.simps)
      (auto intro!: safe_intros split: prod.splits)
next
  case (2 io "file" ab n data r d)
  let ?l = "length (takeWhile (\<lambda>j. ucast (branch_key data j) \<le> r) [0..<unat n])"
  show ?case
  proof (cases "unat n \<le> length data div 8")
    case True
    then have e: "branch_node_record_index data (unat n) r 0 0 = Inr ?l"
      using branch_node_record_index_eq [of "unat n" data 0 r] by simp
    show ?thesis
      using True length_takeWhile_upt [of "\<lambda>j. ucast (branch_key data j) \<le> r" "unat n"]
      by (subst libfsxfs_inode_btree_get_inode_from_branch_node.simps)
        (auto intro!: safe_intros branch_pointer_bound 2 [OF _ _ refl] simp: Let_def e)
  next
    case False
    then show ?thesis
      by (subst libfsxfs_inode_btree_get_inode_from_branch_node.simps) (simp add: Let_def)
  qed
qed

lemma get_inode_by_number_fault_free:
  "unat (io_number_of_relative_inode_number_bits io) < 64 \<Longrightarrow>
     fault_free (libfsxfs_inode_btree_get_inode_by_number tree io file n)"
  unfolding libfsxfs_inode_btree_get_inode_by_number_def Let_def
  by (auto intro!: safe_intros inode_btree_nodes_fault_free)


subsection \<open>The tree on disk\<close>

text \<open>
  An abstract inode B+ tree: chunks of 64 inodes in the leaves, keys and subtrees in the
  branches. \<open>tree_member\<close> is the set of inode numbers that the tree stands for.
\<close>

datatype inode_tree =
    Chunks "u32 list"
  | Branch "(u32 \<times> inode_tree) list"

fun tree_member :: "inode_tree \<Rightarrow> nat \<Rightarrow> bool" where
  "tree_member (Chunks chunks) r = (\<exists>c \<in> set chunks. unat c \<le> r \<and> r < unat c + 64)"
| "tree_member (Branch entries) r = (\<exists>e \<in> set entries. tree_member (snd e) r)"

fun tree_height :: "inode_tree \<Rightarrow> nat" where
  "tree_height (Chunks chunks) = 0"
| "tree_height (Branch entries) = Suc (Max (insert 0 (set (map (tree_height \<circ> snd) entries))))"

text \<open>The keys are sorted and delimit the chunks of the subtrees.\<close>

fun tree_sorted :: "nat \<Rightarrow> nat \<Rightarrow> inode_tree \<Rightarrow> bool"
  and entries_sorted :: "nat \<Rightarrow> nat \<Rightarrow> (u32 \<times> inode_tree) list \<Rightarrow> bool" where
  "tree_sorted lo hi (Chunks chunks) = (\<forall>c \<in> set chunks. lo \<le> unat c \<and> unat c + 64 \<le> hi)"
| "tree_sorted lo hi (Branch entries) = entries_sorted lo hi entries"
| "entries_sorted lo hi [] = (lo \<le> hi)"
| "entries_sorted lo hi [(key, t)] = (lo \<le> unat key \<and> unat key \<le> hi \<and> tree_sorted (unat key) hi t)"
| "entries_sorted lo hi ((key, t) # (key', t') # entries) =
     (lo \<le> unat key \<and> unat key \<le> unat key' \<and> tree_sorted (unat key) (unat key') t \<and>
      entries_sorted (unat key') hi ((key', t') # entries))"

lemma tree_member_bounds:
  "tree_sorted lo hi t \<Longrightarrow> tree_member t r \<Longrightarrow> lo \<le> r \<and> r < hi"
  "entries_sorted lo hi entries \<Longrightarrow>
     lo \<le> hi \<and> (\<forall>e \<in> set entries. tree_member (snd e) r \<longrightarrow> lo \<le> r \<and> r < hi)"
  by (induction lo hi t and lo hi entries rule: tree_sorted_entries_sorted.induct) fastforce+

text \<open>In a sorted branch only the subtree before the first larger key can have the number.\<close>

lemma entries_select:
  "entries_sorted lo hi entries \<Longrightarrow>
     (\<exists>e \<in> set entries. tree_member (snd e) r) \<longleftrightarrow>
     (let m = length (takeWhile (\<lambda>e. unat (fst e) \<le> r) entries) in
       0 < m \<and> tree_member (snd (entries ! (m - 1))) r)"
proof (induction entries arbitrary: lo)
  case Nil
  then show ?case by simp
next
  case (Cons e entries)
  obtain key t where e: "e = (key, t)" by force
  show ?case
  proof (cases entries)
    case Nil
    with Cons.prems e show ?thesis
      using tree_member_bounds(1) [of "unat key" hi t r] by auto
  next
    case (Cons e' rest)
    obtain key' t' where e': "e' = (key', t')" by force
    from Cons.prems Cons e e' have s: "unat key \<le> unat key'" "tree_sorted (unat key) (unat key') t"
        "entries_sorted (unat key') hi entries"
      by auto
    note IH = Cons.IH [OF s(3)]
    show ?thesis
    proof (cases "unat key' \<le> r")
      case True
      with tree_member_bounds(1) [OF s(2), of r] have "\<not> tree_member t r" by auto
      with True IH s(1) e e' Cons show ?thesis by (simp add: Let_def)
    next
      case False
      with tree_member_bounds(2) [OF s(3), of r]
      have n: "\<forall>e \<in> set entries. \<not> tree_member (snd e) r" by auto
      show ?thesis
      proof (cases "unat key \<le> r")
        case True
        with False n e e' Cons show ?thesis by (auto simp: Let_def)
      next
        case k: False
        with tree_member_bounds(1) [OF s(2), of r] have "\<not> tree_member t r" by auto
        with k n e show ?thesis by auto
      qed
    qed
  qed
qed


text \<open>
  The bytes of the block of a node: block \<open>ab + blk\<close> of the file, which has to start at most
  \<open>INT64_MAX\<close> bytes into the file, has the size of a block and starts with the signature of the
  format version.
\<close>

definition inode_btree_signature :: "io_handle \<Rightarrow> u8 list" where
  "inode_btree_signature io =
     (if io_format_version io = 5 then [0x49, 0x41, 0x42, 0x33] else [0x49, 0x41, 0x42, 0x54])"

definition inode_node_block :: "io_handle \<Rightarrow> file_io \<Rightarrow> nat \<Rightarrow> nat \<Rightarrow> u8 list \<Rightarrow> bool" where
  "inode_node_block io file ab blk data \<longleftrightarrow>
     (ab + blk) * unat (io_block_size io) \<le> INT64_MAX \<and>
     file (word_of_nat ((ab + blk) * unat (io_block_size io))) (unat (io_block_size io)) = Some data \<and>
     length data = unat (io_block_size io) \<and> length data \<le> MEMORY_MAXIMUM_ALLOCATION_SIZE \<and>
     btree_header_data_size io 4 < length data \<and> take 4 data = inode_btree_signature io"

definition node_level :: "u8 list \<Rightarrow> u16" where
  "node_level data = be_word (take 2 (drop 4 data))"

definition node_count :: "u8 list \<Rightarrow> nat" where
  "node_count data = unat (be_word (take 2 (drop 6 data)) :: u16)"

text \<open>
  The blocks of the file that hold a tree. The pointers of a branch follow the room for the
  keys, which takes half of the records data.
\<close>

inductive disk_tree :: "io_handle \<Rightarrow> file_io \<Rightarrow> nat \<Rightarrow> nat \<Rightarrow> inode_tree \<Rightarrow> bool"
  for io :: io_handle and file_io :: file_io and ab :: nat where
  disk_leaf:
    "inode_node_block io file_io ab blk data \<Longrightarrow> node_level data = 0 \<Longrightarrow>
     records = drop (btree_header_data_size io 4) data \<Longrightarrow>
     node_count data \<le> length records div 16 \<Longrightarrow>
     chunks = map (leaf_chunk records) [0..<node_count data] \<Longrightarrow>
     disk_tree io file_io ab blk (Chunks chunks)"
| disk_branch:
    "inode_node_block io file_io ab blk data \<Longrightarrow> node_level data \<noteq> 0 \<Longrightarrow>
     records = drop (btree_header_data_size io 4) data \<Longrightarrow>
     length entries = node_count data \<Longrightarrow> length entries \<le> length records div 8 \<Longrightarrow>
     map fst entries = map (branch_key records) [0..<node_count data] \<Longrightarrow>
     (\<And>j. j < length entries \<Longrightarrow>
       disk_tree io file_io ab (unat (branch_key records (length records div 8 + j))) (snd (entries ! j))) \<Longrightarrow>
     disk_tree io file_io ab blk (Branch entries)"

lemma inode_btree_block_offset_eq:
  assumes "io_block_size io \<noteq> 0"
    and le: "(unat ab + unat blk) * unat (io_block_size io) \<le> INT64_MAX"
  shows "inode_btree_block_offset io ab blk =
    Inr (word_of_nat ((unat ab + unat blk) * unat (io_block_size io)))"
proof -
  let ?bs = "unat (io_block_size io)"
  let ?max = "(0x7fffffffffffffff :: u64) div ucast (io_block_size io)"
  have bs: "0 < ?bs" using assms by (simp add: unat_gt_0)
  have m: "unat ?max = INT64_MAX div ?bs" by (simp add: unat_div_distrib)
  have s: "unat ab + unat blk \<le> INT64_MAX div ?bs"
    using le bs by (simp add: less_eq_div_iff_mult_less_eq)
  then have a: "ab \<le> ?max" by (simp only: word_le_nat_alt m)
  then have "unat (?max - ab) = INT64_MAX div ?bs - unat ab"
    by (simp only: unat_sub m)
  with s have b: "blk \<le> ?max - ab" by (simp only: word_le_nat_alt)
  have "(ab + blk) * ucast (io_block_size io) = word_of_nat ((unat ab + unat blk) * ?bs)"
    by simp
  then show ?thesis
    using a b assms by (simp add: inode_btree_block_offset_def Let_def not_less)
qed

lemma inode_node_block_read:
  assumes "inode_node_block io file (unat ab) (unat blk) data"
  shows "bindE (inode_btree_block_offset io ab blk) (\<lambda>off. read_btree_node io file 4 off) =
    Inr (btree_header_of data, drop (btree_header_data_size io 4) data)"
proof -
  have "io_block_size io \<noteq> 0" using assms by (auto simp: inode_node_block_def)
  then show ?thesis
    using assms by (auto simp: inode_node_block_def inode_btree_block_offset_eq read_btree_node_Inr_iff)
qed

lemma get_inode_from_node_block:
  assumes b: "inode_node_block io file (unat ab) (unat blk) data"
  shows "libfsxfs_inode_btree_get_inode_from_node io file ab blk r d =
    (if node_level data = 0
     then libfsxfs_inode_btree_get_inode_from_leaf_node (be_word (take 2 (drop 6 data)))
            (drop (btree_header_data_size io 4) data) r
     else libfsxfs_inode_btree_get_inode_from_branch_node io file ab (be_word (take 2 (drop 6 data)))
            (drop (btree_header_data_size io 4) data) r d)"
  using b
  by (subst libfsxfs_inode_btree_get_inode_from_node.simps,
      subst bindE_assoc [symmetric], subst inode_node_block_read [OF b])
    (simp add: btree_header_of_def inode_node_block_def inode_btree_signature_def node_level_def)


lemma leaf_chunks_member:
  assumes "tree_sorted lo hi (Chunks (map (leaf_chunk records) [0..<n]))" and "hi < 2 ^ 32"
  shows "(\<exists>j \<in> {0..<n}. ucast (leaf_chunk records j) \<le> r \<and> r < ucast (leaf_chunk records j + 64)) \<longleftrightarrow>
    tree_member (Chunks (map (leaf_chunk records) [0..<n])) (unat (r :: u64))"
proof -
  have "unat (c + 64) = unat c + 64" if "unat c + 64 \<le> hi" for c :: u32
    using that assms(2) by (simp add: unat_word_ariths)
  then have "ucast c \<le> r \<and> r < ucast (c + 64) \<longleftrightarrow> unat c \<le> unat r \<and> unat r < unat c + 64"
    if "unat c + 64 \<le> hi" for c :: u32
    using that by (simp add: word_le_nat_alt word_less_nat_alt)
  then show ?thesis using assms(1) by auto
qed

lemma entries_sorted_subtree:
  "entries_sorted lo hi entries \<Longrightarrow> e \<in> set entries \<Longrightarrow>
     \<exists>lo' hi'. hi' \<le> hi \<and> tree_sorted lo' hi' (snd e)"
proof (induction entries arbitrary: lo)
  case (Cons a entries)
  obtain key t where a: "a = (key, t)" by force
  show ?case
  proof (cases entries)
    case (Cons b rest)
    obtain key' t' where b: "b = (key', t')" by force
    with Cons.prems a Cons have s: "tree_sorted (unat key) (unat key') t" "entries_sorted (unat key') hi entries"
      by auto
    have "unat key' \<le> hi" using tree_member_bounds(2) [OF s(2)] by blast
    with s(1) have "\<exists>lo' hi'. hi' \<le> hi \<and> tree_sorted lo' hi' (snd a)" using a by auto
    with Cons.prems(2) Cons.IH [OF s(2)] show ?thesis by auto
  qed (use Cons.prems a in auto)
qed simp

lemma tree_height_subtree:
  "e \<in> set entries \<Longrightarrow> tree_height (snd e) < tree_height (Branch entries)"
  by (auto simp: less_Suc_eq_le intro: Max_ge)

lemma get_inode_from_branch_node_eq:
  assumes "0 \<le> d" "d \<le> 256" and "records \<noteq> []" "length records \<le> SSIZE_MAX"
    and n: "unat n = length entries" "length entries \<le> length records div 8"
    and keys: "map fst entries = map (branch_key records) [0..<length entries]"
    and m: "m = length (takeWhile (\<lambda>e. unat (fst e) \<le> unat r) entries)"
  shows "libfsxfs_inode_btree_get_inode_from_branch_node io file ab n records r d =
    (if 0 < m then libfsxfs_inode_btree_get_inode_from_node io file ab
       (ucast (branch_key records (length records div 8 + (m - 1)))) r (d + 1)
     else Inr False)"
proof -
  have "takeWhile (\<lambda>k. unat k \<le> unat r) (map fst entries) =
      map (branch_key records) (takeWhile (\<lambda>j. ucast (branch_key records j) \<le> r) [0..<length entries])"
    by (simp add: keys takeWhile_map comp_def word_le_nat_alt)
  then have e: "length (takeWhile (\<lambda>j. ucast (branch_key records j) \<le> r) [0..<length entries]) = m"
    using m by (metis (no_types, lifting) comp_apply length_map takeWhile_cong takeWhile_map)
  have i: "branch_node_record_index records (length entries) r 0 0 = Inr m"
    using branch_node_record_index_eq [of "unat n" records 0 r] n e by simp
  have "m \<le> unat n" using m n length_takeWhile_le by metis
  moreover have "(length records div 8 + m - 1) * 4 = 4 * (length records div 8 + (m - 1))" if "0 < m"
    using that by simp
  ultimately show ?thesis
    using assms(1-4) n branch_pointer_bound [of m "length records"]
    by (subst libfsxfs_inode_btree_get_inode_from_branch_node.simps)
      (auto simp: Let_def i branch_key_def mult.commute [of 4])
qed

theorem inode_btree_lookup:
  assumes "disk_tree io file (unat ab) (unat blk) t"
    and "tree_sorted lo hi t" and "hi < 2 ^ 32"
    and "0 \<le> d" and "d + int (tree_height t) \<le> 257"
  shows "libfsxfs_inode_btree_get_inode_from_node io file ab blk r d = Inr (tree_member t (unat r))"
  using assms
proof (induction "unat blk" t arbitrary: blk lo hi d rule: disk_tree.induct)
  case (disk_leaf data records chunks)
  have "records \<noteq> []" "length records \<le> SSIZE_MAX"
    using disk_leaf(1,3) by (auto simp: inode_node_block_def)
  with disk_leaf leaf_chunks_member [of lo hi records "node_count data" r]
  show ?case
    by (simp add: get_inode_from_node_block leaf_node_search_eq [of _ _ 0, simplified] node_count_def
        libfsxfs_inode_btree_get_inode_from_leaf_node_def atLeast0LessThan)
next
  case (disk_branch data records entries)
  define m where "m = length (takeWhile (\<lambda>e. unat (fst e) \<le> unat r) entries)"
  have r: "records \<noteq> []" "length records \<le> SSIZE_MAX"
    using disk_branch(1,3) by (auto simp: inode_node_block_def)
  have n: "unat (be_word (take 2 (drop 6 data)) :: u16) = length entries"
    using disk_branch(4) by (simp add: node_count_def)
  have s: "entries_sorted lo hi entries" using disk_branch.prems(1) by simp
  have d: "0 \<le> d" "d \<le> 256" using disk_branch.prems by auto
  have eq: "libfsxfs_inode_btree_get_inode_from_node io file ab blk r d =
      (if 0 < m then libfsxfs_inode_btree_get_inode_from_node io file ab
         (ucast (branch_key records (length records div 8 + (m - 1)))) r (d + 1)
       else Inr False)"
    using disk_branch(1-3)
      get_inode_from_branch_node_eq [OF d r n disk_branch(5), of m r io "file" ab] disk_branch(4,6) m_def
    by (simp add: get_inode_from_node_block)
  show ?case
  proof (cases "0 < m")
    case False
    with eq entries_select [OF s, of "unat r"] show ?thesis by (simp add: m_def)
  next
    case True
    have "m \<le> length entries" by (simp add: m_def length_takeWhile_le)
    with True have m: "m - 1 < length entries" by simp
    then have e: "entries ! (m - 1) \<in> set entries" by simp
    from entries_sorted_subtree [OF s e] obtain lo' hi' where
      s': "hi' \<le> hi" "tree_sorted lo' hi' (snd (entries ! (m - 1)))" by blast
    have "libfsxfs_inode_btree_get_inode_from_node io file ab
        (ucast (branch_key records (length records div 8 + (m - 1)))) r (d + 1) =
        Inr (tree_member (snd (entries ! (m - 1))) (unat r))"
      using disk_branch.prems s' tree_height_subtree [OF e]
      by (intro disk_branch(8) [OF m _ s'(2)]) auto
    with eq True entries_select [OF s, of "unat r"] show ?thesis by (simp add: m_def)
  qed
qed


subsection \<open>Lookup by absolute inode number\<close>

text \<open>
  C2: Looking up an absolute inode number agrees with the tree of its allocation group: when the
  blocks of the file below the root block of the group hold a sorted tree of at most 257 levels
  of branches, the answer is the file offset of the inode (group, block size and inode size
  multiplied out) if the tree has the relative number and none otherwise. No error is reported.
\<close>

theorem inode_by_number_correct:
  fixes io :: io_handle and n :: u64
  defines "bits \<equiv> unat (io_number_of_relative_inode_number_bits io)"
  defines "grp \<equiv> unat n div 2 ^ bits" and "rel \<equiv> unat n mod 2 ^ bits"
  defines "block \<equiv> grp * unat (io_allocation_group_size io)"
  assumes io: "bits < 32" "io_allocation_group_size io \<noteq> 0"
    and g: "grp < length (ib_inode_information_array tree)" "length (ib_inode_information_array tree) < 2 ^ 31"
    and d: "disk_tree io fio block
      (unat (ii_inode_btree_root_block_number (ib_inode_information_array tree ! grp))) t"
    and t: "tree_sorted lo hi t" "hi < 2 ^ 32" "tree_height t \<le> 257"
  shows "libfsxfs_inode_btree_get_inode_by_number tree io fio n =
    Inr (if tree_member t rel
         then Some (word_of_nat (block * unat (io_block_size io) + rel * unat (io_inode_size io)))
         else None)"
proof -
  have gd: "unat (drop_bit bits n) = grp"
    unfolding grp_def unat_drop_bit_eq by (simp add: drop_bit_eq_div)
  have g31: "grp < 2 ^ 31" using g by simp
  have sg: "(scast (ucast (drop_bit bits n) :: u32) :: u64) = drop_bit bits n"
    using scast_ucast_small gd g31 by simp
  have ug: "unat (ucast (drop_bit bits n) :: u32) = grp"
    using gd g31 by (subst unat_ucast_fits) simp_all
  then have ig: "sint (ucast (drop_bit bits n) :: u32) = int grp"
    using sint_small [of "ucast (drop_bit bits n)"] g31 by (simp only: ug)
  have "grp * unat (io_allocation_group_size io) \<le> (2 ^ 31 - 1) * (2 ^ 32 - 1)"
    using g31 unat_bounds(3) [of "io_allocation_group_size io"] by (intro mult_le_mono) simp_all
  then have ab: "unat (drop_bit bits n * ucast (io_allocation_group_size io) :: u64) = block"
    by (simp add: unat_word_ariths gd block_def)
  have abw: "drop_bit bits n * ucast (io_allocation_group_size io) = (word_of_nat block :: u64)"
    by (metis ab word_of_nat_unat_eq)
  have mask: "n AND (push_bit bits 1 - 1) = take_bit bits n"
    by (simp only: push_bit_minus_1 take_bit_eq_mask)
  have rel: "unat (take_bit bits n) = rel"
    unfolding rel_def unsigned_take_bit_eq by (simp add: take_bit_eq_mod)
  have bs: "io_block_size io \<noteq> 0"
    using d by (cases rule: disk_tree.cases) (auto simp: inode_node_block_def)
  let ?root = "ii_inode_btree_root_block_number (ib_inode_information_array tree ! grp)"
  have "libfsxfs_inode_btree_get_inode_from_node io fio
      (drop_bit bits n * ucast (io_allocation_group_size io)) (ucast ?root) (take_bit bits n) 0 =
      Inr (tree_member t (unat (take_bit bits n)))"
    by (rule inode_btree_lookup [OF _ t(1,2)]) (use d t(3) ab in simp_all)
  moreover have tb: "take_bit bits n = word_of_nat rel"
    by (metis rel word_of_nat_unat_eq)
  moreover have "unat (word_of_nat rel :: u64) = rel"
    using rel by (simp only: tb)
  ultimately show ?thesis
    using io g bs
    by (simp only: libfsxfs_inode_btree_get_inode_by_number_def Let_def bits_def [symmetric] sg ig mask)
      (simp add: rel abw)
qed


text \<open>A file of blocks of 32 bytes: a branch with one key in block 1, a leaf in block 2.\<close>

definition example_inode_io :: io_handle where
  "example_inode_io = io_handle_zero
     \<lparr> io_format_version := 4, io_block_size := 32, io_allocation_group_size := 8,
       io_inode_size := 256, io_number_of_relative_inode_number_bits := 7 \<rparr>"

definition example_branch_block :: "u8 list" where
  "example_branch_block =
     [0x49, 0x41, 0x42, 0x54, 0, 1, 0, 1, 0, 0, 0, 0, 0, 0, 0, 0,
      0, 0, 0, 0x40, 0, 0, 0, 0, 0, 0, 0, 2, 0, 0, 0, 0]"

definition example_leaf_block :: "u8 list" where
  "example_leaf_block =
     [0x49, 0x41, 0x42, 0x54, 0, 0, 0, 1, 0, 0, 0, 0, 0, 0, 0, 0,
      0, 0, 0, 0x40, 0, 0, 0, 0, 0, 0, 0, 0, 0, 0, 0, 0]"

definition example_inode_file :: file_io where
  "example_inode_file off n =
     (if off = 32 \<and> n = 32 then Some example_branch_block
      else if off = 64 \<and> n = 32 then Some example_leaf_block else None)"

definition example_inode_tree :: inode_tree where
  "example_inode_tree = Branch [(0x40, Chunks [0x40])]"

definition example_inode_btree :: inode_btree where
  "example_inode_btree =
     \<lparr> ib_inode_information_array =
         [\<lparr> ii_inode_btree_root_block_number = 1, ii_inode_btree_depth = 2,
            ii_last_allocated_chunk = 0x40 \<rparr>] \<rparr>"

lemmas example_inode_defs =
  example_inode_io_def example_branch_block_def example_leaf_block_def example_inode_file_def
  inode_node_block_def inode_btree_signature_def io_handle_zero_def btree_header_data_size_def
  node_level_def node_count_def branch_key_def leaf_chunk_def be_word_def

lemma example_disk_tree: "disk_tree example_inode_io example_inode_file 0 1 example_inode_tree"
proof -
  have leaf: "disk_tree example_inode_io example_inode_file 0 2 (Chunks [0x40])"
    by (rule disk_leaf [where data = example_leaf_block, OF _ _ refl])
      (simp_all add: example_inode_defs)
  show ?thesis
    unfolding example_inode_tree_def
    by (rule disk_branch [where data = example_branch_block, OF _ _ refl])
      (use leaf in \<open>simp_all add: example_inode_defs\<close>)
qed

lemma inode_by_number_correct_witness:
  "libfsxfs_inode_btree_get_inode_by_number example_inode_btree example_inode_io
     example_inode_file 0x41 = Inr (Some (0x41 * 256))"
proof -
  have "tree_member example_inode_tree 65" "tree_sorted 0 1000 example_inode_tree"
      "tree_height example_inode_tree \<le> 257"
    by (simp_all add: example_inode_tree_def)
  then show ?thesis
    using inode_by_number_correct [where io = example_inode_io and n = "0x41"
        and tree = example_inode_btree and fio = example_inode_file
        and t = example_inode_tree and lo = 0 and hi = 1000] example_disk_tree
    by (simp add: example_inode_btree_def example_inode_io_def io_handle_zero_def)
qed

text \<open>
  A branch node all of whose pointers lead back to the node itself does not make the lookup
  run forever: the recursion depth grows until it is refused and the lookup fails.
\<close>

theorem inode_btree_cycle_refused:
  assumes "inode_node_block io fio (unat ab) (unat blk) data" and "node_level data \<noteq> 0"
    and "records = drop (btree_header_data_size io 4) data"
    and "0 < node_count data" "node_count data \<le> length records div 8"
    and "\<forall>j < node_count data. branch_key records (length records div 8 + j) = ucast blk"
    and "ucast (ucast blk :: u32) = blk"
    and "unat (branch_key records 0) \<le> unat r" and "0 \<le> d"
  shows "libfsxfs_inode_btree_get_inode_from_node io fio ab blk r d = Inl Value_Out_Of_Bounds"
  using assms(9)
proof (induction "nat (257 - d)" arbitrary: d)
  case 0
  have "records \<noteq> []" "length records \<le> SSIZE_MAX"
    using assms(1,3) by (auto simp: inode_node_block_def)
  then show ?case
    using 0 assms(1-3)
    by (simp add: get_inode_from_node_block libfsxfs_inode_btree_get_inode_from_branch_node.simps)
next
  case (Suc k)
  let ?entries = "map (\<lambda>j. (branch_key records j, Chunks [])) [0..<node_count data]"
  define m where "m = length (takeWhile (\<lambda>e. unat (fst e) \<le> unat r) ?entries)"
  have r: "records \<noteq> []" "length records \<le> SSIZE_MAX"
    using assms(1,3) by (auto simp: inode_node_block_def)
  have "0 < m"
    using assms(4,8) by (simp add: m_def upt_conv_Cons)
  moreover have "m \<le> node_count data"
    using length_takeWhile_le [of _ ?entries] by (simp add: m_def)
  ultimately have key: "branch_key records (length records div 8 + (m - 1)) = ucast blk"
    using assms(6) [rule_format, of "m - 1"] by simp
  have "libfsxfs_inode_btree_get_inode_from_branch_node io fio ab (be_word (take 2 (drop 6 data))) records r d =
      libfsxfs_inode_btree_get_inode_from_node io fio ab blk r (d + 1)"
    using get_inode_from_branch_node_eq [OF Suc.prems _ r _ _ _ m_def, of "be_word (take 2 (drop 6 data))" io fio ab]
      assms(5,7) Suc.hyps(2) key \<open>0 < m\<close>
    by (simp add: node_count_def [symmetric] comp_def)
  then have "libfsxfs_inode_btree_get_inode_from_node io fio ab blk r d =
      libfsxfs_inode_btree_get_inode_from_node io fio ab blk r (d + 1)"
    using assms(2,3) by (subst get_inode_from_node_block [OF assms(1)]) simp
  with Suc show ?case by simp
qed

lemma inode_btree_cycle_refused_witness:
  "libfsxfs_inode_btree_get_inode_from_node example_inode_io
     (\<lambda>off n. if off = 64 \<and> n = 32 then Some example_branch_block else None) 0 2 0x41 0 =
   Inl Value_Out_Of_Bounds"
  by (rule inode_btree_cycle_refused [where data = example_branch_block, OF _ _ refl])
    (simp_all add: example_inode_defs)

end
