(* ===== verification/Directory_Table.thy ===== *)
theory Directory_Table
  imports IO_Handle
begin

text \<open>
  Directory entries (\<open>libfsxfs_directory_entry.c\<close>) and the short form directory that is stored
  inside an inode (\<open>libfsxfs_directory_table_header.c\<close>, \<open>libfsxfs_directory_table.c\<close>).
\<close>

subsection \<open>Directory entries\<close>

text \<open>
  \<open>de_name\<close> is the part of the array \<open>name[ 255 ]\<close> that is in use.
\<close>

record directory_entry =
  de_inode_number :: u64
  de_name :: "u8 list"
  de_name_size :: u8

definition directory_entry_zero :: directory_entry where
  "directory_entry_zero = \<lparr> de_inode_number = 0, de_name = [], de_name_size = 0 \<rparr>"

definition libfsxfs_directory_entry_initialize ::
    "directory_entry option \<Rightarrow> directory_entry result" where
  "libfsxfs_directory_entry_initialize pointer = allocate_structure pointer directory_entry_zero"

definition libfsxfs_directory_entry_clone ::
    "directory_entry option \<Rightarrow> directory_entry option \<Rightarrow> directory_entry option result" where
  "libfsxfs_directory_entry_clone destination source =
     (if destination \<noteq> None then Inl Value_Already_Set else Inr source)"

definition libfsxfs_directory_entry_get_inode_number :: "directory_entry \<Rightarrow> u64" where
  "libfsxfs_directory_entry_get_inode_number entry = de_inode_number entry"

definition directory_entry_name_bytes :: "directory_entry \<Rightarrow> u8 list" where
  "directory_entry_name_bytes entry = take (unat (de_name_size entry)) (de_name entry)"

definition libfsxfs_directory_entry_get_utf8_name_size ::
    "(u8 list \<Rightarrow> nat result) \<Rightarrow> directory_entry \<Rightarrow> nat result" where
  "libfsxfs_directory_entry_get_utf8_name_size convert entry =
     convert_name convert (Some (directory_entry_name_bytes entry))"

definition libfsxfs_directory_entry_get_utf8_name ::
    "(nat \<Rightarrow> u8 list \<Rightarrow> u8 list result) \<Rightarrow> directory_entry \<Rightarrow> nat \<Rightarrow> u8 list result" where
  "libfsxfs_directory_entry_get_utf8_name convert entry utf8_string_size =
     convert_name (convert utf8_string_size) (Some (directory_entry_name_bytes entry))"

definition libfsxfs_directory_entry_get_utf16_name_size ::
    "(u8 list \<Rightarrow> nat result) \<Rightarrow> directory_entry \<Rightarrow> nat result" where
  "libfsxfs_directory_entry_get_utf16_name_size convert entry =
     convert_name convert (Some (directory_entry_name_bytes entry))"

definition libfsxfs_directory_entry_get_utf16_name ::
    "(nat \<Rightarrow> u8 list \<Rightarrow> u16 list result) \<Rightarrow> directory_entry \<Rightarrow> nat \<Rightarrow> u16 list result" where
  "libfsxfs_directory_entry_get_utf16_name convert entry utf16_string_size =
     convert_name (convert utf16_string_size) (Some (directory_entry_name_bytes entry))"

text \<open>
  The comparison of a string with an UTF-8 stream is a function of the Unicode library: the
  model takes it as a parameter. It fails on a malformed string or name.
\<close>

datatype comparison = Compare_Less | Compare_Equal | Compare_Greater | Compare_Error

type_synonym 'a name_compare = "'a list \<Rightarrow> u8 list \<Rightarrow> comparison"

definition libfsxfs_directory_entry_compare_with_utf8_string ::
    "u8 name_compare \<Rightarrow> directory_entry \<Rightarrow> u8 list \<Rightarrow> comparison result" where
  "libfsxfs_directory_entry_compare_with_utf8_string compare entry utf8_string =
     (case compare utf8_string (take (unat (de_name_size entry)) (de_name entry)) of
        Compare_Error \<Rightarrow> Inl Generic
      | c \<Rightarrow> Inr c)"

definition libfsxfs_directory_entry_compare_with_utf16_string ::
    "u16 name_compare \<Rightarrow> directory_entry \<Rightarrow> u16 list \<Rightarrow> comparison result" where
  "libfsxfs_directory_entry_compare_with_utf16_string compare entry utf16_string =
     (case compare utf16_string (take (unat (de_name_size entry)) (de_name entry)) of
        Compare_Error \<Rightarrow> Inl Generic
      | c \<Rightarrow> Inr c)"

text \<open>The entries have a byte for the file type in version 5 or with the feature flag.\<close>

definition has_file_type :: "io_handle \<Rightarrow> bool" where
  "has_file_type io \<longleftrightarrow>
     io_format_version io = 5 \<or> io_secondary_feature_flags io AND 0x00000200 \<noteq> 0"

subsection \<open>The header\<close>

record directory_table_header =
  dth_number_of_entries :: u8
  dth_inode_number_data_size :: u8
  dth_parent_inode_number :: u64

definition directory_table_header_zero :: directory_table_header where
  "directory_table_header_zero =
     \<lparr> dth_number_of_entries = 0, dth_inode_number_data_size = 0, dth_parent_inode_number = 0 \<rparr>"

definition libfsxfs_directory_table_header_initialize ::
    "directory_table_header option \<Rightarrow> directory_table_header result" where
  "libfsxfs_directory_table_header_initialize pointer =
     allocate_structure pointer directory_table_header_zero"

definition libfsxfs_directory_table_header_read_data ::
    "directory_table_header \<Rightarrow> u8 list \<Rightarrow> directory_table_header result" where
  "libfsxfs_directory_table_header_read_data header data =
     (if length data < 2 \<or> length data > SSIZE_MAX then Inl Value_Out_Of_Bounds else
      bindE (get_byte data 0) (\<lambda>number_of_32bit_entries.
      bindE (get_byte data 1) (\<lambda>number_of_64bit_entries.
      if number_of_32bit_entries \<noteq> 0 \<and> number_of_64bit_entries \<noteq> 0 then Inl Unsupported_Value else
      if length data < (if number_of_64bit_entries = 0 then 6 else 10)
      then Inl Value_Out_Of_Bounds else
      if number_of_64bit_entries = 0 then
        bindE (byte_stream_copy_to_uint32_big_endian data 2) (\<lambda>parent_inode_number.
        Inr (header\<lparr> dth_number_of_entries := number_of_32bit_entries,
                     dth_inode_number_data_size := 4,
                     dth_parent_inode_number := ucast parent_inode_number \<rparr>))
      else
        bindE (byte_stream_copy_to_uint64_big_endian data 2) (\<lambda>parent_inode_number.
        Inr (header\<lparr> dth_number_of_entries := number_of_64bit_entries,
                     dth_inode_number_data_size := 8,
                     dth_parent_inode_number := parent_inode_number \<rparr>)))))"

subsection \<open>The table\<close>

record directory_table =
  dt_header :: "directory_table_header option"

definition libfsxfs_directory_table_initialize ::
    "directory_table option \<Rightarrow> directory_table result" where
  "libfsxfs_directory_table_initialize pointer =
     allocate_structure pointer \<lparr> dt_header = None \<rparr>"

function directory_table_read_entries ::
    "io_handle \<Rightarrow> u8 list \<Rightarrow> u8 \<Rightarrow> nat \<Rightarrow> directory_entry list \<Rightarrow> nat \<Rightarrow> nat
      \<Rightarrow> directory_entry list result" where
  "directory_table_read_entries io data inode_number_data_size number_of_entries entries_array
     data_offset directory_entry_index =
     (if directory_entry_index < number_of_entries then
        if size_sub (length data) data_offset < 1 then Inl Value_Out_Of_Bounds else
        bindE (get_byte data data_offset) (\<lambda>name_size.
        let entry_data_size = 3 + unat name_size + (if has_file_type io then 1 else 0)
                                + unat inode_number_data_size in
        if entry_data_size > size_sub (length data) data_offset then Inl Value_Out_Of_Bounds else
        let data_offset = data_offset + 1 + 2 in
        bindE (libfsxfs_directory_entry_initialize None) (\<lambda>directory_entry.
        bindE (get_bytes data data_offset (unat name_size)) (\<lambda>name.
        let data_offset = data_offset + unat name_size + (if has_file_type io then 1 else 0) in
        bindE (if inode_number_data_size = 4
               then bindE (byte_stream_copy_to_uint32_big_endian data data_offset)
                      (\<lambda>inode_number. Inr (ucast inode_number, data_offset + 4))
               else bindE (byte_stream_copy_to_uint64_big_endian data data_offset)
                      (\<lambda>inode_number. Inr (inode_number, data_offset + 8)))
          (\<lambda>(inode_number, data_offset).
        directory_table_read_entries io data inode_number_data_size number_of_entries
          (entries_array @ [directory_entry\<lparr> de_name := name, de_name_size := name_size,
                                            de_inode_number := inode_number \<rparr>])
          data_offset (directory_entry_index + 1)))))
      else Inr entries_array)"
  by pat_completeness auto
termination
  by (relation "measure (\<lambda>(_, _, _, number_of_entries, _, _, directory_entry_index).
        number_of_entries - directory_entry_index)") auto

declare directory_table_read_entries.simps [simp del]

definition libfsxfs_directory_table_read_data ::
    "directory_table \<Rightarrow> io_handle \<Rightarrow> u8 list \<Rightarrow> directory_entry list
      \<Rightarrow> (directory_table \<times> directory_entry list) result" where
  "libfsxfs_directory_table_read_data table io data entries_array =
     (if dt_header table \<noteq> None then Inl Value_Already_Set else
      if length data < 2 \<or> length data > SSIZE_MAX then Inl Value_Out_Of_Bounds else
      bindE (libfsxfs_directory_table_header_initialize (dt_header table)) (\<lambda>header.
      bindE (libfsxfs_directory_table_header_read_data header data) (\<lambda>header.
      bindE (directory_table_read_entries io data (dth_inode_number_data_size header)
               (unat (dth_number_of_entries header)) entries_array
               (if dth_inode_number_data_size header = 4 then 6 else 10) 0) (\<lambda>entries_array.
      Inr (table\<lparr> dt_header := Some header \<rparr>, entries_array)))))"

subsection \<open>Memory safety\<close>

lemma directory_table_header_fault_free [safe_intros]:
  "fault_free (libfsxfs_directory_table_header_read_data header data)"
  by (auto simp: libfsxfs_directory_table_header_read_data_def not_less intro!: safe_intros)

lemma directory_table_header_Inr:
  "libfsxfs_directory_table_header_read_data header data = Inr header' \<Longrightarrow>
     (dth_inode_number_data_size header' = 4 \<and> 6 \<le> length data) \<or>
     (dth_inode_number_data_size header' = 8 \<and> 10 \<le> length data)"
  by (auto simp: libfsxfs_directory_table_header_read_data_def not_less split: if_splits)

lemma directory_table_read_entries_fault_free:
  assumes "s = 4 \<or> s = 8" and "off \<le> length data"
  shows "fault_free (directory_table_read_entries io data s n xs off i)"
  using assms(2)
proof (induction "n - i" arbitrary: i xs off)
  case 0
  then show ?case by (subst directory_table_read_entries.simps) simp
next
  case (Suc k)
  then show ?case
    using assms(1)
    by (subst directory_table_read_entries.simps)
      (auto simp: Let_def libfsxfs_directory_entry_initialize_def not_less intro!: safe_intros)
qed


subsection \<open>Writing a table\<close>

text \<open>
  The on-disk form of a table: an entry has two bytes (\<open>tag\<close>) and a byte for the file type that
  the reader skips. A wide table has 8 bytes for each inode number, a narrow one 4.
\<close>

type_synonym table_item = "u16 \<times> u8 \<times> directory_entry"

definition table_item_bytes :: "bool \<Rightarrow> bool \<Rightarrow> table_item \<Rightarrow> u8 list" where
  "table_item_bytes file_type wide item =
     (case item of (tag, ty, e) \<Rightarrow>
        [de_name_size e] @ be_bytes 2 tag @ de_name e @ (if file_type then [ty] else []) @
        (if wide then be_bytes 8 (de_inode_number e)
         else be_bytes 4 (ucast (de_inode_number e) :: u32)))"

definition directory_table_bytes :: "bool \<Rightarrow> bool \<Rightarrow> u64 \<Rightarrow> table_item list \<Rightarrow> u8 list" where
  "directory_table_bytes file_type wide parent items =
     (if wide then [0, word_of_nat (length items)] @ be_bytes 8 parent
      else [word_of_nat (length items), 0] @ be_bytes 4 (ucast parent :: u32)) @
     concat (map (table_item_bytes file_type wide) items)"

definition table_item_fits :: "bool \<Rightarrow> table_item \<Rightarrow> bool" where
  "table_item_fits wide item \<longleftrightarrow>
     (case item of (tag, ty, e) \<Rightarrow>
        length (de_name e) = unat (de_name_size e) \<and> (wide \<or> unat (de_inode_number e) < 2 ^ 32))"

definition item_entry :: "table_item \<Rightarrow> directory_entry" where
  "item_entry item = snd (snd item)"

lemma ucast_narrow: "unat (x :: u64) < 2 ^ 32 \<Longrightarrow> ucast (ucast x :: u32) = x"
  by (simp add: word_unat_eq_iff unat_ucast_fits)

lemma length_table_item_bytes:
  "table_item_fits wide item \<Longrightarrow> length (table_item_bytes file_type wide item) =
     3 + unat (de_name_size (item_entry item)) + (if file_type then 1 else 0) + (if wide then 8 else 4)"
  by (auto simp: table_item_bytes_def table_item_fits_def item_entry_def split: prod.splits)

lemma directory_table_read_item:
  assumes fits: "table_item_fits wide item" and ft: "has_file_type io = ft"
    and len: "length (pre @ table_item_bytes ft wide item @ rest) \<le> SSIZE_MAX" and i: "i < n"
  shows "directory_table_read_entries io (pre @ table_item_bytes ft wide item @ rest)
      (if wide then 8 else 4) n xs (length pre) i =
    directory_table_read_entries io (pre @ table_item_bytes ft wide item @ rest)
      (if wide then 8 else 4) n (xs @ [item_entry item])
      (length (pre @ table_item_bytes ft wide item)) (i + 1)"
proof -
  obtain tag ty e where item: "item = (tag, ty, e)" by (cases item)
  let ?d = "pre @ table_item_bytes ft wide item @ rest"
  let ?o = "length pre + 3 + unat (de_name_size e) + (if ft then 1 else 0)"
  have nl: "length (de_name e) = unat (de_name_size e)"
    and small: "\<not> wide \<Longrightarrow> unat (de_inode_number e) < 2 ^ 32"
    using fits by (auto simp: item table_item_fits_def)
  have l: "length ?d = length pre + 3 + unat (de_name_size e) + (if ft then 1 else 0)
      + (if wide then 8 else 4) + length rest"
    using length_table_item_bytes [OF fits, of ft] by (simp add: item item_entry_def)
  have size: "?d ! length pre = de_name_size e"
    by (simp add: item table_item_bytes_def nth_append)
  have name: "take (unat (de_name_size e)) (drop (length pre + 3) ?d) = de_name e"
    by (simp add: item table_item_bytes_def nl)
  let ?p = "pre @ [de_name_size e] @ be_bytes 2 tag @ de_name e @ (if ft then [ty] else [])"
  have p: "length ?p = ?o" by (simp add: nl)
  have d: "?d = ?p @ (if wide then be_bytes 8 (de_inode_number e)
      else be_bytes 4 (ucast (de_inode_number e) :: u32)) @ rest"
    by (simp add: item table_item_bytes_def)
  have wide: "take 8 (drop ?o ?d) = be_bytes 8 (de_inode_number e)" if wide
    unfolding d by (rule take_drop_middle [OF p, THEN trans]) (use that in simp_all)
  have narrow: "take 4 (drop ?o ?d) = be_bytes 4 (ucast (de_inode_number e) :: u32)" if "\<not> wide"
    unfolding d by (rule take_drop_middle [OF p, THEN trans]) (use that in simp_all)
  have end_: "length (pre @ table_item_bytes ft wide item) = ?o + (if wide then 8 else 4)"
    using length_table_item_bytes [OF fits, of ft] by (simp add: item item_entry_def)
  have entry: "directory_entry_zero\<lparr> de_name := de_name e, de_name_size := de_name_size e,
      de_inode_number := de_inode_number e \<rparr> = e"
    by (simp add: directory_entry_zero_def)
  show ?thesis
    unfolding end_
    using l size name wide narrow i ft small
    by (subst directory_table_read_entries.simps)
      (auto simp: Let_def libfsxfs_directory_entry_initialize_def be_word_be_bytes entry item
        item_entry_def ucast_narrow add.assoc simp del: append_assoc;
        simp only: add.left_commute add.commute)
qed


lemma directory_table_read_items:
  assumes "\<forall>item \<in> set items. table_item_fits wide item" and "has_file_type io = ft"
    and "length (pre @ concat (map (table_item_bytes ft wide) items)) \<le> SSIZE_MAX"
  shows "directory_table_read_entries io (pre @ concat (map (table_item_bytes ft wide) items))
      (if wide then 8 else 4) (i + length items) xs (length pre) i = Inr (xs @ map item_entry items)"
  using assms
proof (induction items arbitrary: pre xs i)
  case Nil
  then show ?case by (subst directory_table_read_entries.simps) simp
next
  case (Cons item items)
  have "directory_table_read_entries io
      ((pre @ table_item_bytes ft wide item) @ concat (map (table_item_bytes ft wide) items))
      (if wide then 8 else 4) (i + 1 + length items) (xs @ [item_entry item])
      (length (pre @ table_item_bytes ft wide item)) (i + 1) =
      Inr ((xs @ [item_entry item]) @ map item_entry items)"
    by (rule Cons.IH) (use Cons.prems in simp_all)
  then show ?case
    using directory_table_read_item [of wide item io ft pre "concat (map (table_item_bytes ft wide) items)"
        i "i + length (item # items)" xs] Cons.prems
    by simp
qed

lemma directory_table_header_bytes:
  assumes "length items < 256" and "wide \<Longrightarrow> items \<noteq> []" and "wide \<or> unat parent < 2 ^ 32"
    and "length (directory_table_bytes ft wide parent items) \<le> SSIZE_MAX"
  shows "libfsxfs_directory_table_header_read_data header (directory_table_bytes ft wide parent items) =
    Inr \<lparr> dth_number_of_entries = word_of_nat (length items),
          dth_inode_number_data_size = (if wide then 8 else 4), dth_parent_inode_number = parent \<rparr>"
proof -
  have u: "unat (word_of_nat (length items) :: u8) = length items"
    using assms(1) by (simp add: unat_of_nat)
  then have "items \<noteq> [] \<Longrightarrow> (word_of_nat (length items) :: u8) \<noteq> 0"
    by (metis length_0_conv unat_0)
  then show ?thesis
    using assms
    by (auto simp: libfsxfs_directory_table_header_read_data_def directory_table_bytes_def
        be_word_be_bytes ucast_narrow)
qed

text \<open>
  A short form directory that is written to its on-disk form is read back: the entries are
  appended to the array in order, with their names and inode numbers, for narrow and wide
  inode numbers, and with or without the byte for the file type.
\<close>

theorem directory_table_roundtrip:
  assumes "length items < 256" and "wide \<longrightarrow> items \<noteq> []" and "wide \<or> unat parent < 2 ^ 32"
    and "\<forall>item \<in> set items. table_item_fits wide item"
    and "length (directory_table_bytes (has_file_type io) wide parent items) \<le> SSIZE_MAX"
  shows "libfsxfs_directory_table_read_data \<lparr> dt_header = None \<rparr> io
      (directory_table_bytes (has_file_type io) wide parent items) entries =
    Inr (\<lparr> dt_header = Some
             \<lparr> dth_number_of_entries = word_of_nat (length items),
               dth_inode_number_data_size = (if wide then 8 else 4),
               dth_parent_inode_number = parent \<rparr> \<rparr>,
         entries @ map item_entry items)"
proof -
  let ?d = "directory_table_bytes (has_file_type io) wide parent items"
  let ?h = "if wide then [0, word_of_nat (length items)] @ be_bytes 8 parent
      else [word_of_nat (length items), 0] @ be_bytes 4 (ucast parent :: u32)"
  have d: "?d = ?h @ concat (map (table_item_bytes (has_file_type io) wide) items)"
    by (simp add: directory_table_bytes_def)
  have h: "length ?h = (if wide then 10 else 6)" by simp
  have u: "unat (word_of_nat (length items) :: u8) = length items"
    using assms(1) by (simp add: unat_of_nat)
  have s: "unat (if wide then 8 else 4 :: u8) = (if wide then 8 else 4)" by simp
  have "directory_table_read_entries io ?d (if wide then 8 else 4) (0 + length items) entries
      (length ?h) 0 = Inr (entries @ map item_entry items)"
    unfolding d by (rule directory_table_read_items [OF assms(4) refl]) (use assms(5) d in simp)
  moreover have "libfsxfs_directory_table_header_read_data header ?d = Inr
      \<lparr> dth_number_of_entries = word_of_nat (length items),
        dth_inode_number_data_size = (if wide then 8 else 4), dth_parent_inode_number = parent \<rparr>" for header
    by (rule directory_table_header_bytes) (use assms in auto)
  moreover have "2 \<le> length ?d" unfolding d by (simp split: if_splits)
  ultimately show ?thesis
    using assms(5) h u
    by (simp add: libfsxfs_directory_table_read_data_def libfsxfs_directory_table_header_initialize_def
        not_less split: if_splits)
qed


lemma directory_table_roundtrip_witness:
  "libfsxfs_directory_table_read_data \<lparr> dt_header = None \<rparr>
     (io_handle_zero\<lparr> io_format_version := 5 \<rparr>)
     (directory_table_bytes True False 64 [(0x60, 1,
        \<lparr> de_inode_number = 99, de_name = [0x61, 0x62], de_name_size = 2 \<rparr>)]) [] =
   Inr (\<lparr> dt_header = Some
            \<lparr> dth_number_of_entries = 1, dth_inode_number_data_size = 4,
              dth_parent_inode_number = 64 \<rparr> \<rparr>,
        [\<lparr> de_inode_number = 99, de_name = [0x61, 0x62], de_name_size = 2 \<rparr>])"
  using directory_table_roundtrip [of "[(0x60, 1,
      \<lparr> de_inode_number = 99, de_name = [0x61, 0x62], de_name_size = 2 \<rparr>)]" False 64
      "io_handle_zero\<lparr> io_format_version := 5 \<rparr>" "[]"]
  by (simp add: has_file_type_def table_item_fits_def item_entry_def directory_table_bytes_def
      table_item_bytes_def)

lemma directory_table_read_fault_free [safe_intros]:
  "fault_free (libfsxfs_directory_table_read_data table io data entries)"
  unfolding libfsxfs_directory_table_read_data_def
  by (intro safe_intros)
    (auto simp: libfsxfs_directory_table_header_initialize_def allocate_structure_def
      dest!: directory_table_header_Inr intro!: directory_table_read_entries_fault_free
      split: option.splits)

end
