(* ===== verification/Block_Directory.thy ===== *)
theory Block_Directory
  imports Directory_Table
begin

text \<open>
  Directories in blocks (\<open>libfsxfs_block_directory_header.c\<close>, \<open>libfsxfs_block_directory_footer.c\<close>,
  \<open>libfsxfs_block_directory.c\<close>): a header, entries and free regions, and in a directory of a
  single block the hash values and a footer at the end.
\<close>

subsection \<open>Header and footer\<close>

record block_directory_header =
  bdh_format_version :: u8
  bdh_has_footer :: u8

definition block_directory_header_zero :: block_directory_header where
  "block_directory_header_zero = \<lparr> bdh_format_version = 0, bdh_has_footer = 0 \<rparr>"

definition libfsxfs_block_directory_header_initialize ::
    "block_directory_header option \<Rightarrow> block_directory_header result" where
  "libfsxfs_block_directory_header_initialize pointer =
     allocate_structure pointer block_directory_header_zero"

text \<open>The signatures \<open>XD2B\<close>, \<open>XD2D\<close>, \<open>XDB3\<close> and \<open>XDD3\<close>.\<close>

definition libfsxfs_block_directory_header_read_data ::
    "block_directory_header \<Rightarrow> u8 list \<Rightarrow> block_directory_header result" where
  "libfsxfs_block_directory_header_read_data header data =
     (if length data < 4 \<or> length data > SSIZE_MAX then Inl Value_Out_Of_Bounds else
      bindE (get_bytes data 0 4) (\<lambda>signature.
      let (header, format_version, header_data_size) =
        (if signature = [0x58, 0x44, 0x32, 0x42]
         then (header\<lparr> bdh_has_footer := 1 \<rparr>, 2, 16)
         else if signature = [0x58, 0x44, 0x32, 0x44] then (header, 2, 16)
         else if signature = [0x58, 0x44, 0x42, 0x33]
         then (header\<lparr> bdh_has_footer := 1 \<rparr>, 3, 64)
         else if signature = [0x58, 0x44, 0x44, 0x33] then (header, 3, 64)
         else (header, 0, length data)) in
      if length data < header_data_size then Inl Value_Out_Of_Bounds else
      if format_version \<noteq> 2 \<and> format_version \<noteq> 3 then Inl Unsupported_Value else
      Inr (header\<lparr> bdh_format_version := format_version \<rparr>)))"

record block_directory_footer =
  bdf_number_of_entries :: u32

definition libfsxfs_block_directory_footer_initialize ::
    "block_directory_footer option \<Rightarrow> block_directory_footer result" where
  "libfsxfs_block_directory_footer_initialize pointer =
     allocate_structure pointer \<lparr> bdf_number_of_entries = 0 \<rparr>"

definition libfsxfs_block_directory_footer_read_data ::
    "block_directory_footer \<Rightarrow> u8 list \<Rightarrow> block_directory_footer result" where
  "libfsxfs_block_directory_footer_read_data footer data =
     (if length data < 8 \<or> length data > SSIZE_MAX then Inl Value_Out_Of_Bounds else
      bindE (byte_stream_copy_to_uint32_big_endian data 0) (\<lambda>number_of_entries.
      Inr (footer\<lparr> bdf_number_of_entries := number_of_entries \<rparr>)))"

interpretation block_directory_footer_reader:
  structure_reader "libfsxfs_block_directory_footer_read_data footer" 8 for footer
  by unfold_locales (auto simp: libfsxfs_block_directory_footer_read_data_def)

subsection \<open>The block\<close>

record block_directory =
  bd_data :: "u8 list"
  bd_data_size :: nat
  bd_header :: "block_directory_header option"
  bd_footer :: "block_directory_footer option"

definition libfsxfs_block_directory_initialize ::
    "block_directory option \<Rightarrow> nat \<Rightarrow> block_directory result" where
  "libfsxfs_block_directory_initialize pointer block_size =
     (case pointer of
        Some _ \<Rightarrow> Inl Value_Already_Set
      | None \<Rightarrow>
          if block_size = 0 \<or> block_size > MEMORY_MAXIMUM_ALLOCATION_SIZE
          then Inl Value_Out_Of_Bounds
          else Inr \<lparr> bd_data = [], bd_data_size = block_size, bd_header = None,
                     bd_footer = None \<rparr>)"

definition padding_size :: "nat \<Rightarrow> nat" where
  "padding_size entry_data_size = (if entry_data_size mod 8 = 0 then 0 else 8 - entry_data_size mod 8)"

text \<open>
  The loop over entries and free regions. A free region starts with \<open>0xffff\<close> and its size, which
  is at least 4 but may lead past the end; the entries for the directory itself and for its
  parent are left out.
\<close>

function block_directory_read_entries ::
    "io_handle \<Rightarrow> u8 list \<Rightarrow> nat \<Rightarrow> directory_entry list \<Rightarrow> nat \<Rightarrow> directory_entry list result" where
  "block_directory_read_entries io data entries_data_end_offset entries_array data_offset =
     (if data_offset < entries_data_end_offset then
        if entries_data_end_offset - data_offset < 4 then Inl Value_Out_Of_Bounds else
        bindE (byte_stream_copy_to_uint16_big_endian data data_offset) (\<lambda>free_tag.
        if free_tag = 0xffff then
          bindE (byte_stream_copy_to_uint16_big_endian data (data_offset + 2)) (\<lambda>entry_data_size.
          if unat entry_data_size < 4 then Inl Value_Out_Of_Bounds else
          block_directory_read_entries io data entries_data_end_offset entries_array
            (data_offset + unat entry_data_size))
        else
          if entries_data_end_offset - data_offset < 9 then Inl Value_Out_Of_Bounds else
          bindE (get_byte data (data_offset + 8)) (\<lambda>name_size.
          let entry_data_size = 9 + unat name_size + 2 + (if has_file_type io then 1 else 0);
              alignment_padding_size = padding_size entry_data_size;
              entry_data_size = entry_data_size + alignment_padding_size in
          if entry_data_size < 6 \<or> entry_data_size > entries_data_end_offset - data_offset
          then Inl Value_Out_Of_Bounds else
          bindE (byte_stream_copy_to_uint64_big_endian data data_offset) (\<lambda>inode_number.
          let name_offset = data_offset + 9 in
          bindE (get_bytes data name_offset (unat name_size)) (\<lambda>name.
          let entries_array =
            (if name = [0x2e] \<or> name = [0x2e, 0x2e] then entries_array
             else entries_array @ [\<lparr> de_inode_number = inode_number, de_name = name,
                                     de_name_size = name_size \<rparr>]) in
          block_directory_read_entries io data entries_data_end_offset entries_array
            (name_offset + unat name_size + (if has_file_type io then 1 else 0)
             + alignment_padding_size + 2)))))
      else Inr entries_array)"
  by pat_completeness auto
termination
  by (relation "measure (\<lambda>(_, _, entries_data_end_offset, _, data_offset).
        entries_data_end_offset - data_offset)") auto

declare block_directory_read_entries.simps [simp del]

definition libfsxfs_block_directory_read_data ::
    "block_directory \<Rightarrow> io_handle \<Rightarrow> u8 list \<Rightarrow> directory_entry list
      \<Rightarrow> (block_directory \<times> directory_entry list) result" where
  "libfsxfs_block_directory_read_data directory io data entries_array =
     (if bd_header directory \<noteq> None then Inl Value_Already_Set else
      if bd_footer directory \<noteq> None then Inl Value_Already_Set else
      if length data < 8 \<or> length data > SSIZE_MAX then Inl Value_Out_Of_Bounds else
      bindE (libfsxfs_block_directory_header_initialize (bd_header directory)) (\<lambda>header.
      bindE (libfsxfs_block_directory_header_read_data header data) (\<lambda>header.
      bindE
        (if bdh_has_footer header \<noteq> 0 then
           bindE (libfsxfs_block_directory_footer_initialize (bd_footer directory)) (\<lambda>footer.
           bindE (get_bytes data (length data - 8) 8) (\<lambda>footer_data.
           bindE (libfsxfs_block_directory_footer_read_data footer footer_data) (\<lambda>footer.
           if unat (bdf_number_of_entries footer) > (length data - 0 - 8) div 8
           then Inl Value_Out_Of_Bounds
           else Inr (Some footer,
                     length data - (8 + unat (bdf_number_of_entries footer) * 8)))))
         else Inr (None, length data)) (\<lambda>(footer, entries_data_end_offset).
      bindE (block_directory_read_entries io data entries_data_end_offset entries_array
               (if bdh_format_version header = 3 then 64 else 16)) (\<lambda>entries_array.
      Inr (directory\<lparr> bd_header := Some header, bd_footer := footer \<rparr>, entries_array))))))"

definition libfsxfs_block_directory_read_file_io_handle ::
    "block_directory \<Rightarrow> io_handle \<Rightarrow> file_io \<Rightarrow> u64 \<Rightarrow> directory_entry list
      \<Rightarrow> (block_directory \<times> directory_entry list) result" where
  "libfsxfs_block_directory_read_file_io_handle directory io file file_offset entries_array =
     (if bd_header directory \<noteq> None then Inl Value_Already_Set else
      bindE (read_buffer_at_offset file file_offset (bd_data_size directory)) (\<lambda>data.
      libfsxfs_block_directory_read_data (directory\<lparr> bd_data := data \<rparr>) io data entries_array))"


subsection \<open>Memory safety\<close>

lemma block_directory_header_fault_free [safe_intros]:
  "fault_free (libfsxfs_block_directory_header_read_data header data)"
  by (simp add: libfsxfs_block_directory_header_read_data_def Let_def not_less split: prod.splits)

lemma block_directory_read_entries_fault_free:
  "e \<le> length data \<Longrightarrow> fault_free (block_directory_read_entries io data e xs off)"
proof (induction "e - off" arbitrary: xs off rule: less_induct)
  case less
  have IH: "fault_free (block_directory_read_entries io data e ys off')" if "off < e" "off < off'" for ys off'
    by (rule less.hyps) (use less.prems that in simp_all)
  show ?case
    unfolding block_directory_read_entries.simps [of io data e xs off] Let_def
    by (intro safe_intros IH) (use less.prems in auto)
qed

lemma block_directory_entries_end_fault_free:
  assumes "8 \<le> length data"
  shows "fault_free
    (if has_footer \<noteq> (0 :: u8) then
       bindE (libfsxfs_block_directory_footer_initialize p) (\<lambda>footer.
       bindE (get_bytes data (length data - 8) 8) (\<lambda>footer_data.
       bindE (libfsxfs_block_directory_footer_read_data footer footer_data) (\<lambda>footer.
       if unat (bdf_number_of_entries footer) > (length data - 0 - 8) div 8
       then Inl Value_Out_Of_Bounds
       else Inr (Some footer, length data - (8 + unat (bdf_number_of_entries footer) * 8)))))
     else Inr (None, length data))"
  unfolding libfsxfs_block_directory_footer_initialize_def allocate_structure_def
  using assms
  by (intro safe_intros block_directory_footer_reader.reader_fault_free)
    (auto split: option.splits)

lemma block_directory_read_fault_free [safe_intros]:
  "fault_free (libfsxfs_block_directory_read_data directory io data xs)"
proof (cases "bd_header directory = None \<and> bd_footer directory = None \<and>
    8 \<le> length data \<and> length data \<le> SSIZE_MAX")
  case False
  then show ?thesis by (auto simp: libfsxfs_block_directory_read_data_def)
next
  case True
  then show ?thesis
    unfolding libfsxfs_block_directory_read_data_def
    by (simp only: simp_thms if_False not_less,
        auto intro!: fault_free_bindE block_directory_header_fault_free
          block_directory_entries_end_fault_free block_directory_read_entries_fault_free
        simp: libfsxfs_block_directory_header_initialize_def simp del: One_nat_def
        split: if_splits)
qed

lemma block_directory_read_file_fault_free [safe_intros]:
  "fault_free (libfsxfs_block_directory_read_file_io_handle directory io file off xs)"
  unfolding libfsxfs_block_directory_read_file_io_handle_def
  by (intro safe_intros) simp


subsection \<open>Writing a block\<close>

text \<open>
  The contents of a block: free regions with their size, and entries with the byte for the file
  type and the tag that the reader skips. An entry is padded to a multiple of 8 bytes.
\<close>

datatype block_item =
    Free_Region nat
  | Used_Entry u8 u16 directory_entry

definition entry_padding :: "bool \<Rightarrow> directory_entry \<Rightarrow> nat" where
  "entry_padding file_type e =
     (8 - (9 + unat (de_name_size e) + 2 + (if file_type then 1 else 0)) mod 8) mod 8"

lemma entry_padding_size:
  "entry_padding file_type e = padding_size (9 + unat (de_name_size e) + 2 + (if file_type then 1 else 0))"
  unfolding entry_padding_def padding_size_def by (rule if_split [THEN iffD2]) simp

fun block_item_bytes :: "bool \<Rightarrow> block_item \<Rightarrow> u8 list" where
  "block_item_bytes file_type (Free_Region n) =
     [0xff, 0xff] @ be_bytes 2 (word_of_nat n :: u16) @ replicate (n - 4) 0"
| "block_item_bytes file_type (Used_Entry ty tag e) =
     be_bytes 8 (de_inode_number e) @ [de_name_size e] @ de_name e @
     (if file_type then [ty] else []) @ replicate (entry_padding file_type e) 0 @ be_bytes 2 tag"

fun block_item_fits :: "block_item \<Rightarrow> bool" where
  "block_item_fits (Free_Region n) = (4 \<le> n \<and> n < 65536)"
| "block_item_fits (Used_Entry ty tag e) =
     (length (de_name e) = unat (de_name_size e) \<and>
      (be_word (take 2 (be_bytes 8 (de_inode_number e))) :: u16) \<noteq> 0xffff)"

definition is_dot_entry :: "directory_entry \<Rightarrow> bool" where
  "is_dot_entry e \<longleftrightarrow> de_name e = [0x2e] \<or> de_name e = [0x2e, 0x2e]"

fun block_item_entries :: "block_item \<Rightarrow> directory_entry list" where
  "block_item_entries (Free_Region n) = []"
| "block_item_entries (Used_Entry ty tag e) = (if is_dot_entry e then [] else [e])"

lemma block_item_bytes_nonempty: "block_item_bytes ft item \<noteq> []"
  by (cases item) simp_all

lemma block_directory_read_free:
  assumes n: "4 \<le> n" "n < 65536" and d: "data = pre @ block_item_bytes ft (Free_Region n) @ rest"
    and e: "length pre + n \<le> e" "e \<le> length data"
  shows "block_directory_read_entries io data e xs (length pre) =
    block_directory_read_entries io data e xs (length pre + n)"
proof -
  have a: "take 2 (drop (length pre) data) = [0xff, 0xff]"
    unfolding d by simp
  have b: "take 2 (drop (length pre + 2) data) = be_bytes 2 (word_of_nat n :: u16)"
    unfolding d by simp
  have w: "be_word [0xff, 0xff] = (0xffff :: u16)" by (simp add: be_word_def)
  have u: "unat (word_of_nat n :: u16) = n" using n by (simp add: unat_of_nat)
  have "length pre + 4 \<le> length data" "length pre < e" "4 \<le> e - length pre" "\<not> n < 4"
    using n e by auto
  then show ?thesis
    by (subst block_directory_read_entries.simps) (simp add: a b w be_word_be_bytes u n del: add_2_eq_Suc')
qed

lemma length_used_entry:
  "length (de_name e) = unat (de_name_size e) \<Longrightarrow>
     length (block_item_bytes ft (Used_Entry ty tag e)) =
       9 + unat (de_name_size e) + 2 + (if ft then 1 else 0) + entry_padding ft e"
  by simp

lemma block_directory_read_used:
  assumes f: "block_item_fits (Used_Entry ty tag de)" and ft: "has_file_type io = ft"
    and d: "data = pre @ block_item_bytes ft (Used_Entry ty tag de) @ rest"
    and e: "length pre + length (block_item_bytes ft (Used_Entry ty tag de)) \<le> e" "e \<le> length data"
  shows "block_directory_read_entries io data e xs (length pre) =
    block_directory_read_entries io data e (xs @ block_item_entries (Used_Entry ty tag de))
      (length pre + length (block_item_bytes ft (Used_Entry ty tag de)))"
proof -
  have n: "length (de_name de) = unat (de_name_size de)" using f by simp
  define z where "z = unat (de_name_size de)"
  have l: "length (block_item_bytes ft (Used_Entry ty tag de)) =
      9 + z + 2 + (if ft then 1 else 0) + entry_padding ft de"
    using length_used_entry [OF n] by (simp add: z_def)
  have a: "take 2 (drop (length pre) data) = take 2 (be_bytes 8 (de_inode_number de))"
    unfolding d by simp
  have b: "take 8 (drop (length pre) data) = be_bytes 8 (de_inode_number de)"
    unfolding d by simp
  have c: "data ! (length pre + 8) = de_name_size de"
    unfolding d by (simp add: nth_append)
  have g: "take z (drop (length pre + 9) data) = de_name de"
    unfolding d by (simp add: n z_def)
  have tag: "(be_word (take 2 (be_bytes 8 (de_inode_number de))) :: u16) \<noteq> 0xffff" using f by simp
  have ent: "\<lparr> de_inode_number = de_inode_number de, de_name = de_name de, de_name_size = de_name_size de \<rparr> = de"
    by simp
  have next_: "length pre + 9 + z + (if ft then 1 else 0) + entry_padding ft de + 2 =
      length pre + length (block_item_bytes ft (Used_Entry ty tag de))"
    using l by simp
  have bounds: "length pre < e" "\<not> e - length pre < 4" "\<not> e - length pre < 9"
    "length pre + 8 \<le> length data" "length pre + 8 < length data" "length pre + 9 + z \<le> length data"
    "\<not> (9 + z + 2 + (if ft then 1 else 0) + entry_padding ft de > e - length pre)"
    using e l by auto
  show ?thesis
    unfolding next_ [symmetric]
    using bounds tag
    by (subst block_directory_read_entries.simps)
      (simp add: Let_def a b c g entry_padding_size z_def [symmetric] ft be_word_be_bytes is_dot_entry_def ent)
qed


lemma length_free_region:
  "block_item_fits (Free_Region n) \<Longrightarrow> length (block_item_bytes ft (Free_Region n)) = n"
  by simp arith

lemma block_directory_read_item:
  assumes f: "block_item_fits item" and ft: "has_file_type io = ft"
    and d: "data = pre @ block_item_bytes ft item @ rest"
    and e: "length pre + length (block_item_bytes ft item) \<le> e" "e \<le> length data"
  shows "block_directory_read_entries io data e xs (length pre) =
    block_directory_read_entries io data e (xs @ block_item_entries item)
      (length (pre @ block_item_bytes ft item))"
proof (cases item)
  case (Free_Region n)
  have l: "length (block_item_bytes ft item) = n"
    using length_free_region f Free_Region by metis
  have n: "4 \<le> n" "n < 65536" using f Free_Region by simp_all
  have "block_directory_read_entries io data e xs (length pre) =
      block_directory_read_entries io data e xs (length pre + n)"
    by (rule block_directory_read_free [OF n d [unfolded Free_Region] _ e(2)]) (use e(1) l in simp)
  with Free_Region l show ?thesis by simp
next
  case (Used_Entry ty tag de)
  then show ?thesis
    using block_directory_read_used [of ty tag de io ft data pre rest e xs] f ft d e
    by (simp del: block_item_bytes.simps block_item_fits.simps block_item_entries.simps)
qed

lemma block_directory_read_items:
  assumes "\<forall>item \<in> set items. block_item_fits item" and "has_file_type io = ft"
    and "e = length (pre @ concat (map (block_item_bytes ft) items))"
  shows "block_directory_read_entries io (pre @ concat (map (block_item_bytes ft) items) @ rest) e
      xs (length pre) = Inr (xs @ concat (map block_item_entries items))"
  using assms
proof (induction items arbitrary: pre xs)
  case Nil
  then show ?case by (subst block_directory_read_entries.simps) simp
next
  case (Cons item items)
  let ?d = "pre @ concat (map (block_item_bytes ft) (item # items)) @ rest"
  have "block_directory_read_entries io
      ((pre @ block_item_bytes ft item) @ concat (map (block_item_bytes ft) items) @ rest) e
      (xs @ block_item_entries item) (length (pre @ block_item_bytes ft item)) =
      Inr ((xs @ block_item_entries item) @ concat (map block_item_entries items))"
    by (rule Cons.IH) (use Cons.prems in simp_all)
  moreover have "block_directory_read_entries io ?d e xs (length pre) =
      block_directory_read_entries io ?d e (xs @ block_item_entries item)
        (length (pre @ block_item_bytes ft item))"
    by (rule block_directory_read_item) (use Cons.prems in simp_all)
  ultimately show ?case by simp
qed

text \<open>
  The whole block: the header of version 2 or 3, the items and, with a footer, the hash values
  and the number of hash values with the number of unused ones.
\<close>

definition block_directory_bytes ::
    "bool \<Rightarrow> bool \<Rightarrow> bool \<Rightarrow> u8 list \<Rightarrow> block_item list \<Rightarrow> u8 list \<Rightarrow> u32 \<Rightarrow> u8 list" where
  "block_directory_bytes version3 footer file_type header_rest items hashes unused =
     (if version3 then (if footer then [0x58, 0x44, 0x42, 0x33] else [0x58, 0x44, 0x44, 0x33])
      else (if footer then [0x58, 0x44, 0x32, 0x42] else [0x58, 0x44, 0x32, 0x44])) @
     header_rest @ concat (map (block_item_bytes file_type) items) @
     (if footer then hashes @ be_bytes 4 (word_of_nat (length hashes div 8) :: u32) @ be_bytes 4 unused
      else [])"

lemma block_directory_read_parts:
  assumes head: "libfsxfs_block_directory_header_read_data block_directory_header_zero D =
      Inr \<lparr> bdh_format_version = (if version3 then 3 else 2), bdh_has_footer = (if footer then 1 else 0) \<rparr>"
    and size: "8 \<le> length D" "length D \<le> SSIZE_MAX" and n: "unat (word_of_nat n :: u32) = n"
    and foot: "footer \<Longrightarrow> take 4 (drop (length D - 8) D) = be_bytes 4 (word_of_nat n :: u32) \<and>
      n \<le> (length D - 0 - 8) div 8 \<and> length D - (8 + n * 8) = E"
    and no_foot: "\<not> footer \<Longrightarrow> length D = E"
    and items: "block_directory_read_entries io D E entries (if version3 then 64 else 16) = Inr entries'"
  shows "\<exists>directory. libfsxfs_block_directory_read_data
      \<lparr> bd_data = [], bd_data_size = 0, bd_header = None, bd_footer = None \<rparr> io D entries = Inr (directory, entries')"
proof (cases footer)
  case True
  note f = foot [OF True]
  have "libfsxfs_block_directory_footer_read_data f (take 8 (drop (length D - 8) D)) =
      Inr \<lparr> bdf_number_of_entries = word_of_nat n \<rparr>" for f
    using f size
    by (simp add: libfsxfs_block_directory_footer_read_data_def be_word_be_bytes)
  then show ?thesis
    using True size head items f
    by (cases version3) (simp_all add: libfsxfs_block_directory_read_data_def libfsxfs_block_directory_header_initialize_def
        libfsxfs_block_directory_footer_initialize_def n not_less del: drop_drop take_drop)
next
  case False
  then show ?thesis
    using size head items no_foot [OF False]
    by (cases version3) (simp_all add: libfsxfs_block_directory_read_data_def
        libfsxfs_block_directory_header_initialize_def not_less)
qed

text \<open>
  C9: A directory block that is written to its on-disk form, in either version, with or without
  a footer, is read back: the entries are appended in order, without those for the
  directory itself and its parent, and free regions and hash values are skipped.
\<close>

theorem block_directory_roundtrip:
  assumes "\<forall>item \<in> set items. block_item_fits item"
    and "length header_rest = (if version3 then 60 else 12)"
    and "8 dvd length hashes" and "length hashes < 2 ^ 32"
    and "length (block_directory_bytes version3 footer (has_file_type io) header_rest items hashes unused)
      \<le> SSIZE_MAX"
  shows "\<exists>directory. libfsxfs_block_directory_read_data
      \<lparr> bd_data = [], bd_data_size = 0, bd_header = None, bd_footer = None \<rparr> io
      (block_directory_bytes version3 footer (has_file_type io) header_rest items hashes unused) entries =
    Inr (directory, entries @ concat (map block_item_entries items))"
proof -
  let ?ft = "has_file_type io"
  let ?d = "block_directory_bytes version3 footer ?ft header_rest items hashes unused"
  let ?s = "if version3 then (if footer then [0x58, 0x44, 0x42, 0x33] else [0x58, 0x44, 0x44, 0x33])
      else (if footer then [0x58, 0x44, 0x32, 0x42] else [0x58, 0x44, 0x32, 0x44]) :: u8 list"
  let ?c = "concat (map (block_item_bytes ?ft) items)"
  let ?n = "length hashes div 8"
  let ?t = "if footer then hashes @ be_bytes 4 (word_of_nat ?n :: u32) @ be_bytes 4 unused else []"
  let ?e = "length ((?s @ header_rest) @ ?c)"
  have d: "?d = (?s @ header_rest) @ ?c @ ?t" by (simp add: block_directory_bytes_def)
  have h: "length (?s @ header_rest) = (if version3 then 64 else 16)" using assms(2) by simp
  have "?n < 2 ^ 32" using assms(4) by simp
  then have n: "unat (word_of_nat ?n :: u32) = ?n" by (simp add: unat_of_nat)
  have l: "length ?d = ?e + (if footer then length hashes + 8 else 0)" unfolding d by simp
  have n8: "?n * 8 = length hashes" using assms(3) by simp
  have items: "block_directory_read_entries io ?d ?e entries (if version3 then 64 else 16) =
      Inr (entries @ concat (map block_item_entries items))"
    using block_directory_read_items [OF assms(1) refl refl, of io "?s @ header_rest" ?t entries]
    unfolding d h by simp
  have sig: "take 4 ?d = ?s" unfolding d by simp
  have size: "8 \<le> length ?d" using l h by (simp split: if_splits)
  have head: "libfsxfs_block_directory_header_read_data block_directory_header_zero ?d =
      Inr \<lparr> bdh_format_version = (if version3 then 3 else 2), bdh_has_footer = (if footer then 1 else 0) \<rparr>"
    using sig l h assms(5) size
    by (auto simp: libfsxfs_block_directory_header_read_data_def Let_def block_directory_header_zero_def)
  have foot: "take 4 (drop (length ?d - 8) ?d) = be_bytes 4 (word_of_nat ?n :: u32)" if footer
    using that unfolding d by simp
  have bound: "?n \<le> (length ?d - 0 - 8) div 8" if footer
  proof -
    have "length ?d - 0 - 8 = ?e + length hashes" using l that by simp
    then show ?thesis by (simp add: div_le_mono)
  qed
  have e: "length ?d - (8 + ?n * 8) = ?e" if footer using l that n8 by simp
  show ?thesis
    by (rule block_directory_read_parts [OF head size assms(5) n _ _ items]) (use foot bound e l in simp_all)
qed


lemma block_directory_roundtrip_witness:
  "\<exists>directory. libfsxfs_block_directory_read_data
      \<lparr> bd_data = [], bd_data_size = 0, bd_header = None, bd_footer = None \<rparr>
      (io_handle_zero\<lparr> io_format_version := 4 \<rparr>)
      (block_directory_bytes False True False (replicate 12 0)
        [Used_Entry 0 16 \<lparr> de_inode_number = 64, de_name = [0x2e], de_name_size = 1 \<rparr>,
         Used_Entry 0 32 \<lparr> de_inode_number = 99, de_name = [0x61, 0x62], de_name_size = 2 \<rparr>,
         Free_Region 8] (replicate 16 0) 0) [] =
    Inr (directory, [\<lparr> de_inode_number = 99, de_name = [0x61, 0x62], de_name_size = 2 \<rparr>])"
proof -
  have b: "be_bytes 8 (64 :: u64) = [0, 0, 0, 0, 0, 0, 0, 64]" "be_bytes 8 (99 :: u64) = [0, 0, 0, 0, 0, 0, 0, 99]"
    by (simp_all add: be_bytes_def upt_rec mask_eq_exp_minus_1)
  show ?thesis
    using block_directory_roundtrip [of
        "[Used_Entry 0 16 \<lparr> de_inode_number = 64, de_name = [0x2e], de_name_size = 1 \<rparr>,
          Used_Entry 0 32 \<lparr> de_inode_number = 99, de_name = [0x61, 0x62], de_name_size = 2 \<rparr>,
          Free_Region 8]"
        "replicate 12 0" False "replicate 16 0" True "io_handle_zero\<lparr> io_format_version := 4 \<rparr>" 0 "[]"]
    by (simp add: b be_word_def has_file_type_def io_handle_zero_def is_dot_entry_def
        block_directory_bytes_def entry_padding_def padding_size_def)
qed

end
