(* ===== verification/Extent.thy ===== *)
theory Extent
  imports IO_Handle
begin

text \<open>
  Extents (\<open>libfsxfs_extent.c\<close>), arrays of extents (\<open>libfsxfs_extents.c\<close>) and the extent list of an
  inode (\<open>libfsxfs_extent_list.c\<close>): decoding of the packed 128-bit form, and the sparse extents
  that the readers put into the holes so that the extents cover the whole file.
\<close>

subsection \<open>A single extent\<close>

record extent =
  ex_logical_block_number :: u64
  ex_physical_block_number :: u64
  ex_number_of_blocks :: u32
  ex_range_flags :: u32

definition extent_zero :: extent where
  "extent_zero =
     \<lparr> ex_logical_block_number = 0, ex_physical_block_number = 0, ex_number_of_blocks = 0,
       ex_range_flags = 0 \<rparr>"

definition libfsxfs_extent_initialize :: "extent option \<Rightarrow> extent result" where
  "libfsxfs_extent_initialize pointer = allocate_structure pointer extent_zero"

definition LIBFSXFS_EXTENT_FLAG_IS_SPARSE :: u32 where
  "LIBFSXFS_EXTENT_FLAG_IS_SPARSE = 0x00000001"

text \<open>The assignments of the code to the two halves, in the order of the code.\<close>

definition extent_unpack :: "extent \<Rightarrow> u64 \<Rightarrow> u64 \<Rightarrow> extent" where
  "extent_unpack extent value_128bit_upper value_128bit_lower =
     (let number_of_blocks = (ucast (value_128bit_lower AND 0x1fffff) :: u32);
          value_128bit_lower = drop_bit 21 value_128bit_lower;
          physical_block_number = value_128bit_lower OR (value_128bit_upper AND 0x1ff);
          value_128bit_upper = drop_bit 9 value_128bit_upper;
          logical_block_number = value_128bit_upper AND 0x3fffffffffffff;
          value_128bit_upper = drop_bit 54 value_128bit_upper in
      extent\<lparr> ex_number_of_blocks := number_of_blocks,
              ex_physical_block_number := physical_block_number,
              ex_logical_block_number := logical_block_number,
              ex_range_flags :=
                (if value_128bit_upper = 0 then 0 else LIBFSXFS_EXTENT_FLAG_IS_SPARSE) \<rparr>)"

definition libfsxfs_extent_read_data :: "extent \<Rightarrow> u8 list \<Rightarrow> extent result" where
  "libfsxfs_extent_read_data extent data =
     (if length data < 16 \<or> length data > SSIZE_MAX then Inl Value_Out_Of_Bounds else
      bindE (byte_stream_copy_to_uint64_big_endian data 0) (\<lambda>value_128bit_upper.
      bindE (byte_stream_copy_to_uint64_big_endian data 8) (\<lambda>value_128bit_lower.
      Inr (extent_unpack extent value_128bit_upper value_128bit_lower))))"

interpretation extent_reader: structure_reader "libfsxfs_extent_read_data extent" 16 for extent
  by unfold_locales (auto simp: libfsxfs_extent_read_data_def drop_take)

definition libfsxfs_extent_get_values ::
    "extent \<Rightarrow> io_handle \<Rightarrow> (u64 \<times> u64 \<times> u32) result" where
  "libfsxfs_extent_get_values extent io =
     (if io_block_size io = 0 then Inl Value_Out_Of_Bounds else
      if ex_physical_block_number extent > 0x7fffffffffffffff div ucast (io_block_size io)
      then Inl Value_Out_Of_Bounds else
      if ucast (ex_number_of_blocks extent) >
         (0xffffffffffffffff :: u64) div ucast (io_block_size io)
      then Inl Value_Out_Of_Bounds else
      Inr (ex_physical_block_number extent * ucast (io_block_size io),
           ucast (ex_number_of_blocks extent) * ucast (io_block_size io),
           ex_range_flags extent))"

subsection \<open>Arrays of extents\<close>

definition libfsxfs_extents_get_last_extent :: "extent list \<Rightarrow> extent option" where
  "libfsxfs_extents_get_last_extent extents_array =
     (if length extents_array = 0 then None else Some (extents_array ! (length extents_array - 1)))"

definition extent_end :: "extent \<Rightarrow> u64" where
  "extent_end extent = ex_logical_block_number extent + ucast (ex_number_of_blocks extent)"

definition next_logical_block_number :: "extent list \<Rightarrow> u64" where
  "next_logical_block_number extents_array =
     (case libfsxfs_extents_get_last_extent extents_array of
        None \<Rightarrow> 0
      | Some last_extent \<Rightarrow> extent_end last_extent)"

text \<open>
  The sparse extent of a hole: the 64-bit difference of the logical block numbers is cut down
  to the 32 bits of the number of blocks.
\<close>

definition sparse_extent :: "u64 \<Rightarrow> u64 \<Rightarrow> extent" where
  "sparse_extent logical_block_number number_of_blocks =
     extent_zero\<lparr> ex_logical_block_number := logical_block_number,
                  ex_number_of_blocks := ucast number_of_blocks,
                  ex_range_flags := LIBFSXFS_EXTENT_FLAG_IS_SPARSE \<rparr>"

function extents_read_loop ::
    "extent list \<Rightarrow> nat \<Rightarrow> u8 list \<Rightarrow> bool \<Rightarrow> u64 \<Rightarrow> nat \<Rightarrow> nat \<Rightarrow> extent list result" where
  "extents_read_loop extents_array number_of_extents data add_sparse_extents
     logical_block_number data_offset extent_index =
     (if extent_index < number_of_extents then
        bindE (libfsxfs_extent_initialize None) (\<lambda>extent.
        bindE (get_bytes data data_offset 16) (\<lambda>extent_data.
        bindE (libfsxfs_extent_read_data extent extent_data) (\<lambda>extent.
        extents_read_loop
          ((if add_sparse_extents \<and> ex_logical_block_number extent > logical_block_number
            then extents_array @ [sparse_extent logical_block_number
                   (ex_logical_block_number extent - logical_block_number)]
            else extents_array) @ [extent])
          number_of_extents data add_sparse_extents (extent_end extent)
          (data_offset + 16) (extent_index + 1))))
      else Inr extents_array)"
  by pat_completeness auto
termination
  by (relation "measure (\<lambda>(_, number_of_extents, _, _, _, _, extent_index).
        number_of_extents - extent_index)") auto

declare extents_read_loop.simps [simp del]

definition libfsxfs_extents_read_data ::
    "extent list \<Rightarrow> u32 \<Rightarrow> u8 list \<Rightarrow> bool \<Rightarrow> extent list result" where
  "libfsxfs_extents_read_data extents_array number_of_extents data add_sparse_extents =
     (if data = [] \<or> length data > SSIZE_MAX then Inl Value_Out_Of_Bounds else
      if unat number_of_extents > length data div 16 then Inl Value_Out_Of_Bounds else
      extents_read_loop extents_array (unat number_of_extents) data add_sparse_extents
        (next_logical_block_number extents_array) 0 0)"

subsection \<open>The extent list\<close>

text \<open>
  After the last extent: the hole up to \<open>number_of_blocks\<close> becomes a sparse extent of its own or,
  when the last extent is sparse, is added to it, in place. The same code ends the extent
  list and the root of the extent B+ tree.
\<close>

definition extents_add_final_sparse :: "extent list \<Rightarrow> u64 \<Rightarrow> bool \<Rightarrow> extent list" where
  "extents_add_final_sparse extents_array number_of_blocks add_sparse_extents =
     (let logical_block_number = next_logical_block_number extents_array in
      if add_sparse_extents \<and> logical_block_number < number_of_blocks then
        let extents_array =
              (case libfsxfs_extents_get_last_extent extents_array of
                 None \<Rightarrow> extents_array @ [sparse_extent logical_block_number 0]
               | Some last_extent \<Rightarrow>
                   if ex_range_flags last_extent AND LIBFSXFS_EXTENT_FLAG_IS_SPARSE = 0
                   then extents_array @ [sparse_extent logical_block_number 0]
                   else extents_array) in
        extents_array[length extents_array - 1 :=
          (extents_array ! (length extents_array - 1))\<lparr> ex_number_of_blocks :=
             ucast (ucast (ex_number_of_blocks (extents_array ! (length extents_array - 1)))
                    + (number_of_blocks - logical_block_number)) \<rparr>]
      else extents_array)"

definition libfsxfs_extent_list_read_data ::
    "extent list \<Rightarrow> u64 \<Rightarrow> u32 \<Rightarrow> u8 list \<Rightarrow> bool \<Rightarrow> extent list result" where
  "libfsxfs_extent_list_read_data extents_array number_of_blocks number_of_extents data
     add_sparse_extents =
     bindE (libfsxfs_extents_read_data extents_array number_of_extents data add_sparse_extents)
       (\<lambda>extents_array.
     Inr (extents_add_final_sparse extents_array number_of_blocks add_sparse_extents))"

subsection \<open>What the readers compute\<close>

definition extent_at :: "u8 list \<Rightarrow> nat \<Rightarrow> extent" where
  "extent_at data i =
     extent_unpack extent_zero (be_word (take 8 (drop (16 * i) data)))
       (be_word (take 8 (drop (16 * i + 8) data)))"

fun fill_holes :: "u64 \<Rightarrow> extent list \<Rightarrow> extent list" where
  "fill_holes logical_block_number [] = []"
| "fill_holes logical_block_number (e # es) =
     (if ex_logical_block_number e > logical_block_number
      then [sparse_extent logical_block_number (ex_logical_block_number e - logical_block_number)]
      else []) @ e # fill_holes (extent_end e) es"

lemma extents_read_loop_eq:
  assumes "16 * n \<le> length data" and "i \<le> n"
  shows "extents_read_loop xs n data sparse s (16 * i) i =
    Inr (xs @ (if sparse then fill_holes s (map (extent_at data) [i..<n])
               else map (extent_at data) [i..<n]))"
  using assms
proof (induction "n - i" arbitrary: i xs s)
  case 0
  then show ?case by (subst extents_read_loop.simps) simp
next
  case (Suc k)
  then have i: "i < n" "16 * i + 16 \<le> length data" by auto
  note IH = Suc.hyps(1) [of "Suc i"]
  have "extents_read_loop ys n data sparse e (16 * i + 16) (Suc i) =
      Inr (ys @ (if sparse then fill_holes e (map (extent_at data) [Suc i..<n])
                 else map (extent_at data) [Suc i..<n]))" for ys e
    using IH Suc.hyps(2) Suc.prems i by (simp add: algebra_simps)
  moreover have "libfsxfs_extent_read_data extent_zero (take 16 (drop (16 * i) data)) =
      Inr (extent_at data i)"
    using i by (simp add: libfsxfs_extent_read_data_def extent_at_def drop_take add.commute)
  ultimately show ?case
    using i by (subst extents_read_loop.simps)
      (simp add: libfsxfs_extent_initialize_def upt_rec [of i])
qed

lemma extents_read_data_eq:
  "libfsxfs_extents_read_data xs n data sparse =
    (if data = [] \<or> length data > SSIZE_MAX \<or> unat n > length data div 16
     then Inl Value_Out_Of_Bounds
     else Inr (xs @ (if sparse
       then fill_holes (next_logical_block_number xs) (map (extent_at data) [0..<unat n])
       else map (extent_at data) [0..<unat n])))"
  using extents_read_loop_eq [of "unat n" data 0 xs sparse "next_logical_block_number xs"]
  by (auto simp: libfsxfs_extents_read_data_def not_less)

lemma extents_read_fault_free [safe_intros]:
  "fault_free (libfsxfs_extents_read_data xs n data sparse)"
  by (simp add: extents_read_data_eq)

lemma extent_list_read_fault_free [safe_intros]:
  "fault_free (libfsxfs_extent_list_read_data xs blocks n data sparse)"
  unfolding libfsxfs_extent_list_read_data_def by (auto intro!: safe_intros)


subsection \<open>The packed form\<close>

text \<open>
  The on-disk form after the documentation: 1 bit for the state, 54 bits for the logical block
  number, 52 bits for the physical block number and 21 bits for the number of blocks.
\<close>

definition extent_packable :: "extent \<Rightarrow> bool" where
  "extent_packable e \<longleftrightarrow>
     unat (ex_logical_block_number e) < 2 ^ 54 \<and> unat (ex_physical_block_number e) < 2 ^ 52 \<and>
     unat (ex_number_of_blocks e) < 2 ^ 21 \<and>
     (ex_range_flags e = 0 \<or> ex_range_flags e = LIBFSXFS_EXTENT_FLAG_IS_SPARSE)"

definition extent_bytes :: "extent \<Rightarrow> u8 list" where
  "extent_bytes e =
     be_bytes 8 (push_bit 63 (ucast (ex_range_flags e)) OR push_bit 9 (ex_logical_block_number e)
       OR drop_bit 43 (ex_physical_block_number e)) @
     be_bytes 8 (push_bit 21 (ex_physical_block_number e) OR ucast (ex_number_of_blocks e) :: u64)"

lemma extent_masks:
  "(0x1fffff :: u64) = mask 21" "(0x1ff :: u64) = mask 9" "(0x3fffffffffffff :: u64) = mask 54"
  by (simp_all add: mask_eq_exp_minus_1)

lemma extent_unpack_packed:
  fixes L P F :: u64 and N :: u32
  assumes "unat L < 2 ^ 54" "unat P < 2 ^ 52" "unat N < 2 ^ 21" "F = 0 \<or> F = 1"
  defines "up \<equiv> push_bit 63 F OR push_bit 9 L OR drop_bit 43 P"
    and "lo \<equiv> push_bit 21 P OR ucast N"
  shows "ucast (lo AND 0x1fffff) = N"
    and "drop_bit 9 up AND 0x3fffffffffffff = L"
    and "drop_bit 54 (drop_bit 9 up) = F"
    and "drop_bit 21 lo OR (up AND 0x1ff) = take_bit 43 P OR drop_bit 43 P"
proof -
  note b = not_bit_beyond [OF assms(1)] not_bit_beyond [OF assms(2)] not_bit_beyond [OF assms(3)]
  have f: "\<not> bit F i" if "0 < i" for i
    using assms(4) that by (auto simp: bit_1_iff)
  show "ucast (lo AND 0x1fffff) = N"
  proof (rule bit_word_eqI)
    fix i assume "i < LENGTH(32)"
    then show "bit (ucast (lo AND 0x1fffff) :: u32) i = bit N i"
      using b(3) [of i] by (cases "i < 21") (auto simp: extent_masks lo_def bit_simps)
  qed
  show "drop_bit 9 up AND 0x3fffffffffffff = L"
  proof (rule bit_word_eqI)
    fix i assume i: "i < LENGTH(64)"
    then show "bit (drop_bit 9 up AND 0x3fffffffffffff) i = bit L i"
      using b(1) [of i] b(2) [of "43 + (9 + i)"]
      by (cases "i < 54") (auto simp: extent_masks up_def bit_simps)
  qed
  show "drop_bit 54 (drop_bit 9 up) = F"
  proof (rule bit_word_eqI)
    fix i assume i: "i < LENGTH(64)"
    then show "bit (drop_bit 54 (drop_bit 9 up)) i = bit F i"
      using f [of i] b(1) [of "i + 54"] b(2) [of "i + 106"]
      by (cases "i = 0") (auto simp: up_def bit_simps add.commute)
  qed
  show "drop_bit 21 lo OR (up AND 0x1ff) = take_bit 43 P OR drop_bit 43 P"
  proof (rule bit_word_eqI)
    fix i assume i: "i < LENGTH(64)"
    then show "bit (drop_bit 21 lo OR (up AND 0x1ff)) i = bit (take_bit 43 P OR drop_bit 43 P) i"
      using b(3) [of "21 + i"] b(2) [of "43 + i"]
      by (auto simp: extent_masks up_def lo_def bit_simps not_less)
  qed
qed

lemma extent_read_bytes:
  assumes "extent_packable e"
  shows "libfsxfs_extent_read_data old (extent_bytes e) =
    Inr (e\<lparr> ex_physical_block_number :=
      take_bit 43 (ex_physical_block_number e) OR drop_bit 43 (ex_physical_block_number e) \<rparr>)"
proof -
  have s: "unat (ex_logical_block_number e) < 2 ^ 54" "unat (ex_physical_block_number e) < 2 ^ 52"
      "unat (ex_number_of_blocks e) < 2 ^ 21"
    and f: "ex_range_flags e = 0 \<or> ex_range_flags e = 1"
    using assms by (auto simp: extent_packable_def LIBFSXFS_EXTENT_FLAG_IS_SPARSE_def)
  then have "(ucast (ex_range_flags e) :: u64) = 0 \<or> (ucast (ex_range_flags e) :: u64) = 1" by auto
  note u = extent_unpack_packed [OF s this]
  have z: "(ucast (ex_range_flags e) :: u64) = 0 \<longleftrightarrow> ex_range_flags e = 0" using f by auto
  have "extent_unpack old
      (push_bit 63 (ucast (ex_range_flags e)) OR push_bit 9 (ex_logical_block_number e)
        OR drop_bit 43 (ex_physical_block_number e))
      (push_bit 21 (ex_physical_block_number e) OR ucast (ex_number_of_blocks e)) =
    e\<lparr> ex_physical_block_number :=
      take_bit 43 (ex_physical_block_number e) OR drop_bit 43 (ex_physical_block_number e) \<rparr>"
    using f unfolding extent_unpack_def Let_def u z LIBFSXFS_EXTENT_FLAG_IS_SPARSE_def by auto
  then show ?thesis
    by (simp add: libfsxfs_extent_read_data_def extent_bytes_def be_word_be_bytes)
qed


lemma folded_block_number_iff:
  fixes P :: u64
  shows "take_bit 43 P OR drop_bit 43 P = P \<longleftrightarrow> unat P < 2 ^ 43"
proof
  assume e: "take_bit 43 P OR drop_bit 43 P = P"
  have "\<not> bit P i" if "43 \<le> i" for i
    using that
  proof (induction "64 - i" arbitrary: i rule: less_induct)
    case less
    have "bit P i \<longleftrightarrow> bit (take_bit 43 P OR drop_bit 43 P) i" by (simp add: e)
    also have "\<dots> \<longleftrightarrow> bit P (43 + i)" using less.prems by (auto simp: bit_simps)
    finally have "bit P i \<longleftrightarrow> bit P (43 + i)" .
    moreover have "\<not> bit P (43 + i)" using less.prems bit_imp_le_length [of P "43 + i"] by auto
    ultimately show ?case by simp
  qed
  then have "i < 43" if "bit P i" for i using that by (meson not_le)
  then have "take_bit 43 P = P"
    by (intro bit_word_eqI) (auto simp: bit_simps)
  then show "unat P < 2 ^ 43" by (simp only: unat_less_power_iff)
next
  assume P: "unat P < 2 ^ 43"
  then have "drop_bit 43 P = 0"
    using not_bit_beyond [of P 43] by (intro bit_word_eqI) (auto simp: bit_simps)
  moreover have "take_bit 43 P = P" using P by (simp only: unat_less_power_iff)
  ultimately show "take_bit 43 P OR drop_bit 43 P = P" by simp
qed

text \<open>
  C37: Decoding the packed form of an extent gives the extent back exactly when its physical
  block number is below \<open>2 ^ 43\<close>: the nine high bits of the physical block number are or-ed into
  its low bits without being shifted to their place.
\<close>

theorem extent_roundtrip_iff:
  assumes "extent_packable e"
  shows "libfsxfs_extent_read_data old (extent_bytes e) = Inr e \<longleftrightarrow>
    unat (ex_physical_block_number e) < 2 ^ 43"
proof -
  have "e\<lparr> ex_physical_block_number := x \<rparr> = e \<longleftrightarrow> x = ex_physical_block_number e" for x
    by (cases e) simp
  then show ?thesis
    by (simp only: extent_read_bytes [OF assms] sum.inject folded_block_number_iff)
qed

lemma extent_roundtrip_iff_witness:
  "libfsxfs_extent_read_data extent_zero (extent_bytes
     \<lparr> ex_logical_block_number = 7, ex_physical_block_number = 1000, ex_number_of_blocks = 3,
       ex_range_flags = 1 \<rparr>) =
   Inr \<lparr> ex_logical_block_number = 7, ex_physical_block_number = 1000, ex_number_of_blocks = 3,
       ex_range_flags = 1 \<rparr> \<and>
   libfsxfs_extent_read_data extent_zero (extent_bytes
     \<lparr> ex_logical_block_number = 7, ex_physical_block_number = 2 ^ 43, ex_number_of_blocks = 3,
       ex_range_flags = 1 \<rparr>) \<noteq>
   Inr \<lparr> ex_logical_block_number = 7, ex_physical_block_number = 2 ^ 43, ex_number_of_blocks = 3,
       ex_range_flags = 1 \<rparr>"
  by (subst (1 2) extent_roundtrip_iff)
    (simp_all add: extent_packable_def LIBFSXFS_EXTENT_FLAG_IS_SPARSE_def)

subsection \<open>No holes are left\<close>

text \<open>Extents that follow each other without overlap, and extents that leave no block out.\<close>

fun extents_ascending :: "nat \<Rightarrow> extent list \<Rightarrow> nat \<Rightarrow> bool" where
  "extents_ascending s [] e = (s \<le> e)"
| "extents_ascending s (x # xs) e =
     (s \<le> unat (ex_logical_block_number x) \<and>
      extents_ascending (unat (ex_logical_block_number x) + unat (ex_number_of_blocks x)) xs e)"

fun extents_cover :: "nat \<Rightarrow> extent list \<Rightarrow> nat \<Rightarrow> bool" where
  "extents_cover s [] e = (s = e)"
| "extents_cover s (x # xs) e =
     (s = unat (ex_logical_block_number x) \<and>
      extents_cover (s + unat (ex_number_of_blocks x)) xs e)"

definition extent_is_sparse :: "extent \<Rightarrow> bool" where
  "extent_is_sparse e \<longleftrightarrow> ex_range_flags e AND LIBFSXFS_EXTENT_FLAG_IS_SPARSE \<noteq> 0"

lemma extents_ascending_le: "extents_ascending s xs e \<Longrightarrow> s \<le> e"
  by (induction xs arbitrary: s) fastforce+

lemma unat_extent_end:
  "unat (ex_logical_block_number x) + unat (ex_number_of_blocks x) < 2 ^ 64 \<Longrightarrow>
     unat (extent_end x) = unat (ex_logical_block_number x) + unat (ex_number_of_blocks x)"
  by (simp add: extent_end_def unat_word_ariths)

lemma sparse_extent_simps [simp]:
  "ex_logical_block_number (sparse_extent s n) = s"
  "ex_number_of_blocks (sparse_extent s n) = ucast n"
  "extent_is_sparse (sparse_extent s n)"
  by (simp_all add: sparse_extent_def extent_is_sparse_def LIBFSXFS_EXTENT_FLAG_IS_SPARSE_def)

lemma extents_cover_append:
  "extents_cover s (xs @ ys) e \<longleftrightarrow> (\<exists>m. extents_cover s xs m \<and> extents_cover m ys e)"
  by (induction xs arbitrary: s) auto

lemma fill_holes_cover:
  assumes "extents_ascending (unat s) xs e" and "e < 2 ^ 32"
  shows "\<exists>m. extents_cover (unat s) (fill_holes s xs) m \<and> m \<le> e \<and>
    (fill_holes s xs = [] \<longrightarrow> m = unat s)"
  using assms(1)
proof (induction xs arbitrary: s)
  case Nil
  then show ?case by simp
next
  case (Cons x xs)
  let ?l = "ex_logical_block_number x"
  have a: "extents_ascending (unat ?l + unat (ex_number_of_blocks x)) xs e" and l: "unat s \<le> unat ?l"
    using Cons.prems by auto
  then have le: "unat ?l + unat (ex_number_of_blocks x) \<le> e" by (rule_tac extents_ascending_le)
  then have en: "unat (extent_end x) = unat ?l + unat (ex_number_of_blocks x)"
    using assms(2) by (intro unat_extent_end) simp
  then obtain m where m: "extents_cover (unat (extent_end x)) (fill_holes (extent_end x) xs) m" "m \<le> e"
    using Cons.IH [of "extent_end x"] a by auto
  have "unat (ucast (?l - s) :: u32) = unat ?l - unat s"
    using l le assms(2) by (subst unat_ucast_fits) (simp_all add: unat_sub word_le_nat_alt)
  with m en l show ?case
    by (intro exI [of _ m]) (auto simp: word_less_nat_alt)
qed

lemma fill_holes_non_sparse:
  "filter (\<lambda>x. \<not> extent_is_sparse x) (fill_holes s xs) = filter (\<lambda>x. \<not> extent_is_sparse x) xs"
  by (induction xs arbitrary: s) simp_all


lemma next_logical_block_number_snoc [simp]:
  "next_logical_block_number (xs @ [x]) = extent_end x"
  "next_logical_block_number [] = 0"
  by (simp_all add: next_logical_block_number_def libfsxfs_extents_get_last_extent_def)

lemma extents_cover_end:
  "extents_cover (unat s) xs m \<Longrightarrow> xs \<noteq> [] \<Longrightarrow> m < 2 ^ 64 \<Longrightarrow>
     unat (next_logical_block_number xs) = m"
  by (induction xs rule: rev_induct) (auto simp: extents_cover_append unat_extent_end)

lemma final_sparse_snoc:
  "extents_add_final_sparse (xs @ [x]) n sparse =
    (if sparse \<and> extent_end x < n then
       if extent_is_sparse x
       then xs @ [x\<lparr> ex_number_of_blocks := ucast (ucast (ex_number_of_blocks x) + (n - extent_end x)) \<rparr>]
       else xs @ [x, sparse_extent (extent_end x) (n - extent_end x)]
     else xs @ [x])"
proof -
  have "xs @ [x, y] = (xs @ [x]) @ [y]" for y by simp
  moreover have "length xs = length (xs @ [x]) - 1" by simp
  ultimately show ?thesis
    by (auto simp: extents_add_final_sparse_def Let_def libfsxfs_extents_get_last_extent_def
        extent_is_sparse_def sparse_extent_def nth_append list_update_append)
qed

lemma final_sparse_Nil:
  "extents_add_final_sparse [] n sparse = (if sparse \<and> 0 < n then [sparse_extent 0 n] else [])"
  by (simp add: extents_add_final_sparse_def Let_def libfsxfs_extents_get_last_extent_def
      sparse_extent_def)

lemma extents_add_final_sparse_cover:
  assumes c: "extents_cover 0 xs m" and m: "m \<le> unat n" and n: "unat n < 2 ^ 32"
  shows "extents_cover 0 (extents_add_final_sparse xs n True) (unat n)"
    and "filter (\<lambda>x. \<not> extent_is_sparse x) (extents_add_final_sparse xs n True) =
      filter (\<lambda>x. \<not> extent_is_sparse x) xs"
proof -
  have small: "unat (ucast (w :: u64) :: u32) = unat w" if "unat w \<le> unat n" for w
    using that n by (subst unat_ucast_fits) simp_all
  have goal: "extents_cover 0 (extents_add_final_sparse xs n True) (unat n) \<and>
    filter (\<lambda>x. \<not> extent_is_sparse x) (extents_add_final_sparse xs n True) =
      filter (\<lambda>x. \<not> extent_is_sparse x) xs"
  proof (cases xs rule: rev_cases)
    case Nil
    with c show ?thesis using small [of n]
      by (auto simp: final_sparse_Nil word_gt_0 unat_eq_0)
  next
    case (snoc ys x)
    then obtain k where k: "extents_cover 0 ys k" "k = unat (ex_logical_block_number x)"
        "m = k + unat (ex_number_of_blocks x)"
      using c by (auto simp: extents_cover_append)
    then have e: "unat (extent_end x) = m" using m n by (simp add: unat_extent_end)
    have s: "extent_is_sparse (x\<lparr> ex_number_of_blocks := b \<rparr>) = extent_is_sparse x" for b
      by (simp add: extent_is_sparse_def)
    show ?thesis
    proof (cases "extent_end x < n")
      case True
      then have d: "unat (n - extent_end x) = unat n - m"
        using unat_sub [OF less_imp_le [OF True]] e by simp
      then have "unat (ucast (ex_number_of_blocks x) + (n - extent_end x)) = unat n - k"
        using k m n by (simp add: unat_word_ariths)
      then have "unat (ucast (ucast (ex_number_of_blocks x) + (n - extent_end x)) :: u32) = unat n - k"
        by (subst small) simp_all
      with True snoc k m e d s show ?thesis
        by (auto simp: final_sparse_snoc extents_cover_append small)
    next
      case False
      then have "unat n = m" using e m by (simp add: word_less_nat_alt)
      with False snoc c show ?thesis by (simp add: final_sparse_snoc)
    qed
  qed
  then show "extents_cover 0 (extents_add_final_sparse xs n True) (unat n)"
    and "filter (\<lambda>x. \<not> extent_is_sparse x) (extents_add_final_sparse xs n True) =
      filter (\<lambda>x. \<not> extent_is_sparse x) xs"
    by simp_all
qed

text \<open>
  C5: When the extents of an inode are sorted, do not overlap and end inside the file, and the
  file has less than \<open>2 ^ 32\<close> blocks, the list that is read with sparse extents covers the blocks
  of the file from 0 to \<open>number_of_blocks\<close> without a hole or an overlap, and its extents that
  are not sparse are those of the inode, in order.
\<close>

theorem extent_list_covers_file:
  assumes "data \<noteq> []" "length data \<le> SSIZE_MAX" "unat n \<le> length data div 16"
    and "extents_ascending 0 (map (extent_at data) [0..<unat n]) (unat blocks)"
    and "unat blocks < 2 ^ 32"
  shows "\<exists>es. libfsxfs_extent_list_read_data [] blocks n data True = Inr es \<and>
    extents_cover 0 es (unat blocks) \<and>
    filter (\<lambda>x. \<not> extent_is_sparse x) es =
      filter (\<lambda>x. \<not> extent_is_sparse x) (map (extent_at data) [0..<unat n])"
proof -
  let ?xs = "fill_holes 0 (map (extent_at data) [0..<unat n])"
  obtain m where m: "extents_cover 0 ?xs m" "m \<le> unat blocks"
    using fill_holes_cover [of 0 _ "unat blocks"] assms(4,5) by auto
  have "libfsxfs_extent_list_read_data [] blocks n data True =
      Inr (extents_add_final_sparse ?xs blocks True)"
    using assms(1-3) by (simp add: libfsxfs_extent_list_read_data_def extents_read_data_eq)
  then show ?thesis
    using extents_add_final_sparse_cover [OF m assms(5)] fill_holes_non_sparse by auto
qed


text \<open>Three blocks of data at logical block 2 of a file of 8 blocks.\<close>

definition example_extent_data :: "u8 list" where
  "example_extent_data = [0, 0, 0, 0, 0, 0, 4, 0, 0, 0, 0, 0, 1, 0x40, 0, 3]"

lemma extent_list_covers_file_witness:
  "\<exists>es. libfsxfs_extent_list_read_data [] 8 1 example_extent_data True = Inr es \<and>
     extents_cover 0 es 8 \<and>
     filter (\<lambda>x. \<not> extent_is_sparse x) es =
       [\<lparr> ex_logical_block_number = 2, ex_physical_block_number = 10, ex_number_of_blocks = 3,
          ex_range_flags = 0 \<rparr>]"
proof -
  have e: "extent_at example_extent_data 0 =
      \<lparr> ex_logical_block_number = 2, ex_physical_block_number = 10, ex_number_of_blocks = 3,
        ex_range_flags = 0 \<rparr>"
    by (simp add: extent_at_def example_extent_data_def be_word_def extent_unpack_def extent_zero_def)
  show ?thesis
    using extent_list_covers_file [of example_extent_data 1 8] e
    by (simp add: example_extent_data_def extent_is_sparse_def LIBFSXFS_EXTENT_FLAG_IS_SPARSE_def)
qed

text \<open>
  The number of blocks of a hole is cut down to 32 bits: an extent list without extents for a
  file of \<open>2 ^ 32\<close> blocks gets a sparse extent of no blocks.
\<close>

lemma extent_list_hole_truncated:
  "libfsxfs_extent_list_read_data [] (2 ^ 32) 0 [0] True = Inr [sparse_extent 0 0]"
  by (simp add: libfsxfs_extent_list_read_data_def extents_read_data_eq final_sparse_Nil sparse_extent_def)

end
