(* ===== verification/Extent_Btree.thy ===== *)
theory Extent_Btree
  imports Extent Btree_Block
begin

text \<open>
  The extent B+ tree of an inode (\<open>libfsxfs_extent_btree.c\<close>): the root node is stored in the
  inode, the other nodes in blocks of the file, and the extents are collected from the leaves.
\<close>

subsection \<open>The operations\<close>

record extent_btree =
  eb_maximum_depth :: u32

definition libfsxfs_extent_btree_initialize :: "extent_btree option \<Rightarrow> extent_btree result" where
  "libfsxfs_extent_btree_initialize pointer =
     allocate_structure pointer \<lparr> eb_maximum_depth = 0 \<rparr>"

definition extent_btree_signature :: "io_handle \<Rightarrow> u8 list" where
  "extent_btree_signature io =
     (if io_format_version io = 5 then [0x42, 0x4d, 0x41, 0x33] else [0x42, 0x4d, 0x41, 0x50])"

function libfsxfs_extent_btree_get_extents_from_node ::
    "extent_btree \<Rightarrow> io_handle \<Rightarrow> file_io \<Rightarrow> u64 \<Rightarrow> extent list \<Rightarrow> bool \<Rightarrow> int \<Rightarrow> extent list result"
  and libfsxfs_extent_btree_get_extents_from_branch_node ::
    "extent_btree \<Rightarrow> io_handle \<Rightarrow> file_io \<Rightarrow> u16 \<Rightarrow> u8 list \<Rightarrow> extent list \<Rightarrow> bool \<Rightarrow> int
      \<Rightarrow> extent list result" where
  "libfsxfs_extent_btree_get_extents_from_node tree io file block_number extents_array
     add_sparse_extents recursion_depth =
     (if io_allocation_group_size io = 0 then Inl Value_Out_Of_Bounds else
      if io_block_size io = 0 then Inl Value_Out_Of_Bounds else
      bindE (block_number_to_offset io block_number) (\<lambda>btree_block_offset.
      bindE (read_btree_node io file 8 btree_block_offset) (\<lambda>(header, records_data).
      if bh_signature header \<noteq> extent_btree_signature io then Inl Unsupported_Value else
      if ucast (bh_level header) > eb_maximum_depth tree then Inl Unsupported_Value else
      if bh_level header = 0
      then libfsxfs_extents_read_data extents_array (ucast (bh_number_of_records header))
             records_data add_sparse_extents
      else libfsxfs_extent_btree_get_extents_from_branch_node tree io file
             (bh_number_of_records header) records_data extents_array add_sparse_extents
             recursion_depth)))"
| "libfsxfs_extent_btree_get_extents_from_branch_node tree io file number_of_records
     records_data extents_array add_sparse_extents recursion_depth =
     (if records_data = [] \<or> length records_data > SSIZE_MAX then Inl Value_Out_Of_Bounds else
      if recursion_depth < 0 \<or> recursion_depth > 256 then Inl Value_Out_Of_Bounds else
      if unat number_of_records > length records_data div 16 then Inl Value_Out_Of_Bounds else
      fold_result (\<lambda>record_index extents_array.
          bindE (byte_stream_copy_to_uint64_big_endian records_data
                   (length records_data div 16 * 8 + 8 * record_index)) (\<lambda>sub_block_number.
          libfsxfs_extent_btree_get_extents_from_node tree io file sub_block_number
            extents_array add_sparse_extents (recursion_depth + 1)))
        [0..<unat number_of_records] extents_array)"
  by pat_completeness auto
termination
  by (relation "measure (\<lambda>call. case call of
         Inl (_, _, _, _, _, _, recursion_depth) \<Rightarrow> 2 * nat (300 - recursion_depth) + 1
       | Inr (_, _, _, _, _, _, _, recursion_depth) \<Rightarrow> 2 * nat (300 - recursion_depth))") auto

declare libfsxfs_extent_btree_get_extents_from_node.simps [simp del]
declare libfsxfs_extent_btree_get_extents_from_branch_node.simps [simp del]

definition libfsxfs_extent_btree_get_extents_from_root_node ::
    "extent_btree \<Rightarrow> io_handle \<Rightarrow> file_io \<Rightarrow> u64 \<Rightarrow> u8 list \<Rightarrow> extent list \<Rightarrow> bool
      \<Rightarrow> extent list result" where
  "libfsxfs_extent_btree_get_extents_from_root_node tree io file number_of_blocks data
     extents_array add_sparse_extents =
     (if length data < 4 \<or> length data > SSIZE_MAX then Inl Value_Out_Of_Bounds else
      bindE (byte_stream_copy_to_uint16_big_endian data 0) (\<lambda>level.
      bindE (byte_stream_copy_to_uint16_big_endian data 2) (\<lambda>number_of_records.
      if level = 0 then Inl Unsupported_Value else
      bindE (libfsxfs_extent_btree_get_extents_from_branch_node tree io file number_of_records
               (drop 4 data) extents_array add_sparse_extents 0) (\<lambda>extents_array.
      Inr (extents_add_final_sparse extents_array number_of_blocks add_sparse_extents)))))"

subsection \<open>Memory safety\<close>

lemma extent_branch_pointer_bound:
  fixes size m :: nat
  assumes "m < n" "n \<le> size div 16"
  shows "size div 16 * 8 + 8 * m + 8 \<le> size"
proof -
  have "size div 16 * 8 + 8 * m + 8 \<le> size div 16 * 16" using assms by simp
  also have "\<dots> \<le> size" by simp
  finally show ?thesis .
qed

lemma extent_btree_nodes_fault_free:
  "unat (io_number_of_relative_block_number_bits io) < 31 \<Longrightarrow>
     fault_free (libfsxfs_extent_btree_get_extents_from_node tree io file blk xs sparse d)"
  "unat (io_number_of_relative_block_number_bits io) < 31 \<Longrightarrow>
     fault_free (libfsxfs_extent_btree_get_extents_from_branch_node tree io file n data xs sparse d)"
proof (induction tree io "file" blk xs sparse d and tree io "file" n data xs sparse d rule:
    libfsxfs_extent_btree_get_extents_from_node_libfsxfs_extent_btree_get_extents_from_branch_node.induct)
  case (1 tree io "file" blk xs sparse d)
  then show ?case
    by (subst libfsxfs_extent_btree_get_extents_from_node.simps)
      (auto intro!: safe_intros simp: fault_free_block_number_to_offset split: prod.splits)
next
  case (2 tree io "file" n data xs sparse d)
  then show ?case
    by (subst libfsxfs_extent_btree_get_extents_from_branch_node.simps)
      (auto intro!: safe_intros extent_branch_pointer_bound simp: not_less)
qed

lemma extent_btree_root_fault_free [safe_intros]:
  "unat (io_number_of_relative_block_number_bits io) < 31 \<Longrightarrow>
     fault_free (libfsxfs_extent_btree_get_extents_from_root_node tree io file blocks data xs sparse)"
  unfolding libfsxfs_extent_btree_get_extents_from_root_node_def
  by (auto intro!: safe_intros extent_btree_nodes_fault_free)


subsection \<open>The tree on disk\<close>

text \<open>
  The blocks of the file that hold the extents \<open>xs\<close>, in the order of the leaves, with at most
  \<open>h\<close> levels of branch nodes above the leaves. A level above \<open>maximum_depth\<close> is not accepted.
\<close>

definition extent_node_block :: "io_handle \<Rightarrow> file_io \<Rightarrow> u64 \<Rightarrow> u8 list \<Rightarrow> bool" where
  "extent_node_block io file blk data \<longleftrightarrow>
     io_allocation_group_size io \<noteq> 0 \<and>
     (\<exists>off. block_number_to_offset io blk = Inr off \<and>
            file off (unat (io_block_size io)) = Some data) \<and>
     length data = unat (io_block_size io) \<and> length data \<le> MEMORY_MAXIMUM_ALLOCATION_SIZE \<and>
     btree_header_data_size io 8 < length data \<and> take 4 data = extent_btree_signature io"

definition extent_node_level :: "u8 list \<Rightarrow> u16" where
  "extent_node_level data = be_word (take 2 (drop 4 data))"

definition extent_node_count :: "u8 list \<Rightarrow> nat" where
  "extent_node_count data = unat (be_word (take 2 (drop 6 data)) :: u16)"

definition extent_pointer :: "u8 list \<Rightarrow> nat \<Rightarrow> u64" where
  "extent_pointer records j = be_word (take 8 (drop (length records div 16 * 8 + 8 * j) records))"

inductive disk_extents :: "extent_btree \<Rightarrow> io_handle \<Rightarrow> file_io \<Rightarrow> nat \<Rightarrow> u64 \<Rightarrow> extent list \<Rightarrow> bool"
  for tree :: extent_btree and io :: io_handle and file_io :: file_io where
  disk_extents_leaf:
    "extent_node_block io file_io blk data \<Longrightarrow> extent_node_level data = 0 \<Longrightarrow>
     records = drop (btree_header_data_size io 8) data \<Longrightarrow>
     extent_node_count data \<le> length records div 16 \<Longrightarrow>
     xs = map (extent_at records) [0..<extent_node_count data] \<Longrightarrow>
     disk_extents tree io file_io h blk xs"
| disk_extents_branch:
    "extent_node_block io file_io blk data \<Longrightarrow> extent_node_level data \<noteq> 0 \<Longrightarrow>
     ucast (extent_node_level data) \<le> eb_maximum_depth tree \<Longrightarrow>
     records = drop (btree_header_data_size io 8) data \<Longrightarrow>
     length parts = extent_node_count data \<Longrightarrow> length parts \<le> length records div 16 \<Longrightarrow>
     (\<And>j. j < length parts \<Longrightarrow>
        disk_extents tree io file_io h (extent_pointer records j) (parts ! j)) \<Longrightarrow>
     xs = concat parts \<Longrightarrow> disk_extents tree io file_io (Suc h) blk xs"

text \<open>What a reader adds to the extents that it has: it continues where the last one ends.\<close>

definition add_extents :: "bool \<Rightarrow> extent list \<Rightarrow> extent list \<Rightarrow> extent list" where
  "add_extents sparse xs ys =
     xs @ (if sparse then fill_holes (next_logical_block_number xs) ys else ys)"

lemma next_logical_block_number_append:
  "next_logical_block_number (xs @ ys) =
    (if ys = [] then next_logical_block_number xs else next_logical_block_number ys)"
  by (cases ys rule: rev_cases) (simp_all add: append_assoc [symmetric] del: append_assoc)

lemma fill_holes_append:
  "fill_holes s (ys @ zs) =
    fill_holes s ys @ fill_holes (if ys = [] then s else extent_end (last ys)) zs"
  by (induction ys arbitrary: s) auto

lemma next_fill_holes:
  "ys \<noteq> [] \<Longrightarrow> next_logical_block_number (fill_holes s ys) = extent_end (last ys)"
proof (induction ys arbitrary: s)
  case (Cons y ys)
  show ?case
  proof (cases "ys = []")
    case True
    then show ?thesis
      using next_logical_block_number_snoc(1) [of "[sparse_extent s (ex_logical_block_number y - s)]" y]
        next_logical_block_number_snoc(1) [of "[]" y] by simp
  next
    case False
    with Cons.IH [OF False, of "extent_end y"] have "fill_holes (extent_end y) ys \<noteq> []"
      by (cases ys) auto
    with False Cons.IH [OF False, of "extent_end y"] show ?thesis
      by (simp add: next_logical_block_number_append
          next_logical_block_number_append [of "[y]", simplified]
          next_logical_block_number_append [of "[a, b]" for a b, simplified])
  qed
qed simp

lemma fill_holes_eq_Nil [simp]: "fill_holes s ys = [] \<longleftrightarrow> ys = []"
  by (cases ys) simp_all

lemma add_extents_append:
  "add_extents sparse (add_extents sparse xs ys) zs = add_extents sparse xs (ys @ zs)"
  by (auto simp: add_extents_def fill_holes_append next_logical_block_number_append next_fill_holes)

lemma add_extents_Nil [simp]: "add_extents sparse xs [] = xs"
  by (simp add: add_extents_def)

lemma extents_read_data_add:
  "data \<noteq> [] \<Longrightarrow> length data \<le> SSIZE_MAX \<Longrightarrow> unat n \<le> length data div 16 \<Longrightarrow>
     libfsxfs_extents_read_data xs n data sparse =
       Inr (add_extents sparse xs (map (extent_at data) [0..<unat n]))"
  by (simp add: extents_read_data_eq add_extents_def)

lemma extent_node_block_read:
  assumes b: "extent_node_block io file blk data"
  shows "libfsxfs_extent_btree_get_extents_from_node tree io file blk xs sparse d =
    (if ucast (extent_node_level data) > eb_maximum_depth tree then Inl Unsupported_Value
     else if extent_node_level data = 0
     then libfsxfs_extents_read_data xs (ucast (be_word (take 2 (drop 6 data)) :: u16))
            (drop (btree_header_data_size io 8) data) sparse
     else libfsxfs_extent_btree_get_extents_from_branch_node tree io file
            (be_word (take 2 (drop 6 data))) (drop (btree_header_data_size io 8) data) xs sparse d)"
proof -
  obtain off where off: "block_number_to_offset io blk = Inr off"
      "file off (unat (io_block_size io)) = Some data"
    using b by (auto simp: extent_node_block_def)
  have "io_block_size io \<noteq> 0" using b by (auto simp: extent_node_block_def)
  moreover have "read_btree_node io file 8 off =
      Inr (btree_header_of data, drop (btree_header_data_size io 8) data)"
    using b off by (auto simp: read_btree_node_Inr_iff extent_node_block_def)
  ultimately show ?thesis
    using b off
    by (subst libfsxfs_extent_btree_get_extents_from_node.simps)
      (simp add: extent_node_block_def btree_header_of_def extent_node_level_def)
qed


lemma fold_result_add_extents:
  assumes "\<And>j ys. j < length parts \<Longrightarrow> f j ys = Inr (add_extents sparse ys (parts ! j))"
  shows "fold_result f [0..<length parts] xs = Inr (add_extents sparse xs (concat parts))"
  using assms
proof (induction parts arbitrary: xs rule: rev_induct)
  case (snoc part parts)
  then have "fold_result f [0..<length parts] xs = Inr (add_extents sparse xs (concat parts))"
    by (simp add: nth_append)
  with snoc.prems [of "length parts"] show ?case
    by (simp add: fold_result_append add_extents_append)
qed simp

lemma extents_from_node:
  assumes "disk_extents tree io file h blk ys"
    and "0 \<le> d" and "d + int h \<le> 257"
  shows "libfsxfs_extent_btree_get_extents_from_node tree io file blk xs sparse d =
    Inr (add_extents sparse xs ys)"
  using assms
proof (induction h blk ys arbitrary: xs d rule: disk_extents.induct)
  case (disk_extents_leaf blk data records zs h)
  have "records \<noteq> []" "length records \<le> SSIZE_MAX"
    using disk_extents_leaf(1,3) by (auto simp: extent_node_block_def)
  with disk_extents_leaf show ?case
    by (simp add: extent_node_block_read extents_read_data_add extent_node_count_def)
next
  case (disk_extents_branch blk data records parts h zs)
  have r: "records \<noteq> []" "length records \<le> SSIZE_MAX"
    using disk_extents_branch(1,4) by (auto simp: extent_node_block_def)
  have n: "unat (be_word (take 2 (drop 6 data)) :: u16) = length parts"
    using disk_extents_branch(5) by (simp add: extent_node_count_def)
  have d: "\<not> d < 0" "\<not> d > 256" using disk_extents_branch.prems by auto
  have "bindE (byte_stream_copy_to_uint64_big_endian records (length records div 16 * 8 + 8 * j))
      (\<lambda>b. libfsxfs_extent_btree_get_extents_from_node tree io file b ws sparse (d + 1)) =
      Inr (add_extents sparse ws (parts ! j))" if "j < length parts" for j ws
    using extent_branch_pointer_bound [OF that disk_extents_branch(6)]
      disk_extents_branch.IH [OF that, of "d + 1" ws] disk_extents_branch.prems
    by (simp add: extent_pointer_def)
  then have "fold_result (\<lambda>j ws. bindE (byte_stream_copy_to_uint64_big_endian records
        (length records div 16 * 8 + 8 * j))
      (\<lambda>b. libfsxfs_extent_btree_get_extents_from_node tree io file b ws sparse (d + 1)))
      [0..<length parts] xs = Inr (add_extents sparse xs (concat parts))"
    by (rule fold_result_add_extents)
  with r n d disk_extents_branch.hyps show ?case
    by (simp add: extent_node_block_read
        libfsxfs_extent_btree_get_extents_from_branch_node.simps not_less)
qed

lemma extents_from_root:
  assumes "4 < length data" "length data \<le> SSIZE_MAX"
    and level: "be_word (take 2 data) \<noteq> (0 :: u16)"
    and n: "length parts = unat (be_word (take 2 (drop 2 data)) :: u16)"
      "length parts \<le> length (drop 4 data) div 16"
    and parts: "\<And>j. j < length parts \<Longrightarrow>
      disk_extents tree io fio h (extent_pointer (drop 4 data) j) (parts ! j)"
    and h: "h \<le> 256"
  shows "libfsxfs_extent_btree_get_extents_from_root_node tree io fio blocks data xs sparse =
    Inr (extents_add_final_sparse (add_extents sparse xs (concat parts)) blocks sparse)"
proof -
  let ?r = "drop 4 data"
  have "bindE (byte_stream_copy_to_uint64_big_endian ?r (length ?r div 16 * 8 + 8 * j))
      (\<lambda>b. libfsxfs_extent_btree_get_extents_from_node tree io fio b ws sparse 1) =
      Inr (add_extents sparse ws (parts ! j))" if "j < length parts" for j ws
    using extent_branch_pointer_bound [OF that n(2)] extents_from_node [OF parts [OF that], of 1 ws sparse] h
    by (simp add: extent_pointer_def)
  then have "fold_result (\<lambda>j ws. bindE (byte_stream_copy_to_uint64_big_endian ?r
        (length ?r div 16 * 8 + 8 * j))
      (\<lambda>b. libfsxfs_extent_btree_get_extents_from_node tree io fio b ws sparse 1))
      [0..<length parts] xs = Inr (add_extents sparse xs (concat parts))"
    by (rule fold_result_add_extents)
  with assms(1,2) level n show ?thesis
    by (simp add: libfsxfs_extent_btree_get_extents_from_root_node_def
        libfsxfs_extent_btree_get_extents_from_branch_node.simps not_less)
qed


subsection \<open>Properties\<close>

text \<open>
  C35: Reading the extents through the root node of an extent B+ tree collects the extents of
  the leaves that the blocks of the file hold, in order; when they are sorted and do not
  overlap, the list that is read with sparse extents covers the file without a hole.
\<close>

theorem extent_btree_covers_file:
  fixes data :: "u8 list"
  defines "records \<equiv> drop 4 data"
  assumes "4 < length data" "length data \<le> SSIZE_MAX"
    and "be_word (take 2 data) \<noteq> (0 :: u16)"
    and "length parts = unat (be_word (take 2 (drop 2 data)) :: u16)"
      "length parts \<le> length records div 16"
    and "\<forall>j < length parts. disk_extents tree io fio h (extent_pointer records j) (parts ! j)"
    and "h \<le> 256"
    and "extents_ascending 0 (concat parts) (unat blocks)" "unat blocks < 2 ^ 32"
  shows "\<exists>es. libfsxfs_extent_btree_get_extents_from_root_node tree io fio blocks data [] True = Inr es \<and>
    extents_cover 0 es (unat blocks) \<and>
    filter (\<lambda>x. \<not> extent_is_sparse x) es = filter (\<lambda>x. \<not> extent_is_sparse x) (concat parts)"
proof -
  let ?xs = "fill_holes 0 (concat parts)"
  obtain m where m: "extents_cover 0 ?xs m" "m \<le> unat blocks"
    using fill_holes_cover [of 0 _ "unat blocks"] assms(9,10) by auto
  have "libfsxfs_extent_btree_get_extents_from_root_node tree io fio blocks data [] True =
      Inr (extents_add_final_sparse ?xs blocks True)"
    using extents_from_root [where data = data and parts = parts and sparse = True and xs = "[]"
        and blocks = blocks and tree = tree and io = io and fio = fio and h = h] assms
    by (simp add: add_extents_def records_def)
  then show ?thesis
    using extents_add_final_sparse_cover [OF m assms(10)] fill_holes_non_sparse by auto
qed

text \<open>A root with one record and a leaf block of 40 bytes with one extent.\<close>

definition example_extent_io :: io_handle where
  "example_extent_io = io_handle_zero
     \<lparr> io_format_version := 4, io_block_size := 40, io_allocation_group_size := 8,
       io_number_of_relative_block_number_bits := 3 \<rparr>"

definition example_extent_root :: "u8 list" where
  "example_extent_root = [0, 1, 0, 1] @ [0, 0, 0, 0, 0, 0, 0, 2] @ [0, 0, 0, 0, 0, 0, 0, 5]"

definition example_extent_node :: "u16 \<Rightarrow> u8 list" where
  "example_extent_node level =
     [0x42, 0x4d, 0x41, 0x50] @ be_bytes 2 level @ [0, 1] @ replicate 16 0 @ example_extent_data"

definition example_extent_file :: "u16 \<Rightarrow> file_io" where
  "example_extent_file level off n =
     (if off = 200 \<and> n = 40 then Some (example_extent_node level) else None)"

lemmas example_extent_defs =
  example_extent_io_def example_extent_file_def io_handle_zero_def btree_header_data_size_def
  extent_node_block_def block_number_to_offset_def block_number_to_block_def
  relative_block_number_def allocation_group_index_def

lemma example_extent_node_block:
  "extent_node_block example_extent_io (example_extent_file level) 5 (example_extent_node level)"
  "extent_node_level (example_extent_node level) = level"
  "extent_node_count (example_extent_node level) = 1"
  by (simp_all add: example_extent_defs example_extent_node_def example_extent_data_def
      extent_btree_signature_def extent_node_level_def extent_node_count_def be_word_be_bytes)
    (simp add: be_word_def)

lemma example_extent_records:
  "drop (btree_header_data_size example_extent_io 8) (example_extent_node level) = example_extent_data"
  by (simp add: example_extent_node_def example_extent_io_def io_handle_zero_def
      btree_header_data_size_def)

lemma example_disk_extents:
  "disk_extents tree example_extent_io (example_extent_file 0) 0 5 [extent_at example_extent_data 0]"
  by (rule disk_extents_leaf [OF example_extent_node_block(1)])
    (simp_all only: example_extent_node_block example_extent_records,
      simp_all add: example_extent_data_def)

lemma example_extent_root_simps:
  "length example_extent_root = 20"
  "be_word (take 2 example_extent_root) = (1 :: u16)"
  "be_word (take 2 (drop 2 example_extent_root)) = (1 :: u16)"
  "extent_pointer (drop 4 example_extent_root) 0 = 5"
  by (simp_all add: example_extent_root_def be_word_def extent_pointer_def)

lemma extent_btree_covers_file_witness:
  "\<exists>es. libfsxfs_extent_btree_get_extents_from_root_node \<lparr> eb_maximum_depth = 0 \<rparr> example_extent_io
       (example_extent_file 0) 8 example_extent_root [] True = Inr es \<and>
     extents_cover 0 es 8 \<and>
     filter (\<lambda>x. \<not> extent_is_sparse x) es =
       [\<lparr> ex_logical_block_number = 2, ex_physical_block_number = 10, ex_number_of_blocks = 3,
          ex_range_flags = 0 \<rparr>]"
proof -
  have e: "extent_at example_extent_data 0 =
      \<lparr> ex_logical_block_number = 2, ex_physical_block_number = 10, ex_number_of_blocks = 3,
        ex_range_flags = 0 \<rparr>"
    by (simp add: extent_at_def example_extent_data_def be_word_def extent_unpack_def extent_zero_def)
  show ?thesis
    using extent_btree_covers_file [where data = example_extent_root
        and parts = "[[extent_at example_extent_data 0]]" and tree = "\<lparr> eb_maximum_depth = 0 \<rparr>"
        and io = example_extent_io and fio = "example_extent_file 0" and h = 0 and blocks = 8]
      example_disk_extents
    by (simp add: example_extent_root_simps e extent_is_sparse_def LIBFSXFS_EXTENT_FLAG_IS_SPARSE_def)
qed

text \<open>
  The maximum depth of an extent B+ tree is never set to anything but the 0 that the
  structure is initialized with, and so every block of the tree that is not a leaf is refused:
  only trees whose root points to leaves can be read.
\<close>

theorem extent_btree_inner_node_refused:
  assumes "libfsxfs_extent_btree_initialize None = Inr tree"
    and "extent_node_block io fio blk data" and "extent_node_level data \<noteq> 0"
  shows "libfsxfs_extent_btree_get_extents_from_node tree io fio blk xs sparse d = Inl Unsupported_Value"
proof -
  have "eb_maximum_depth tree = 0"
    using assms(1) by (auto simp: libfsxfs_extent_btree_initialize_def)
  moreover have "(ucast (extent_node_level data) :: u32) > 0"
    using assms(3) by (simp add: word_less_nat_alt unat_gt_0)
  ultimately show ?thesis by (simp add: extent_node_block_read [OF assms(2)])
qed

lemma extent_btree_inner_node_refused_witness:
  "libfsxfs_extent_btree_get_extents_from_node \<lparr> eb_maximum_depth = 0 \<rparr> example_extent_io
     (example_extent_file 1) 5 [] True 1 = Inl Unsupported_Value"
  by (rule extent_btree_inner_node_refused [OF _ example_extent_node_block(1)])
    (simp_all add: libfsxfs_extent_btree_initialize_def example_extent_node_block)

end
