(* ===== verification/Inode.thy ===== *)
theory Inode
  imports Extent_Btree
begin

text \<open>
  Inodes (\<open>libfsxfs_inode.c\<close>): the fields of the inode core in its three format versions, the
  division of the rest of the inode into data fork and attributes fork, and the contents of
  the forks: a device number, inline data, a list of extents or the root of an extent B+ tree.
\<close>

subsection \<open>Data\<close>

text \<open>
  The times are 64-bit words; \<open>in_access_time\<close> is a \<open>uint64_t\<close> in the code, the others are
  \<open>int64_t\<close>. A pointer into the data of the inode is the rest of the data from there on, an
  array that may be NULL is an option.
\<close>

record inode =
  in_data :: "u8 list"
  in_data_size :: nat
  in_format_version :: u8
  in_file_mode :: u16
  in_owner_identifier :: u32
  in_group_identifier :: u32
  in_number_of_links :: u32
  in_access_time :: u64
  in_modification_time :: u64
  in_inode_change_time :: u64
  in_creation_time :: u64
  in_size :: u64
  in_fork_type :: u8
  in_device_identifier :: u32
  in_inline_data :: "u8 list option"
  in_number_of_data_extents :: u32
  in_data_extents_array :: "extent list option"
  in_data_fork_offset :: u16
  in_data_fork_size :: u16
  in_attributes_fork_type :: u8
  in_inline_attributes_data :: "u8 list option"
  in_number_of_attributes_extents :: u32
  in_attributes_extents_array :: "extent list option"
  in_attributes_fork_offset :: u16
  in_attributes_fork_size :: u16

definition inode_zero :: inode where
  "inode_zero =
     \<lparr> in_data = [], in_data_size = 0, in_format_version = 0, in_file_mode = 0,
       in_owner_identifier = 0, in_group_identifier = 0, in_number_of_links = 0,
       in_access_time = 0, in_modification_time = 0, in_inode_change_time = 0,
       in_creation_time = 0, in_size = 0, in_fork_type = 0, in_device_identifier = 0,
       in_inline_data = None, in_number_of_data_extents = 0, in_data_extents_array = None,
       in_data_fork_offset = 0, in_data_fork_size = 0, in_attributes_fork_type = 0,
       in_inline_attributes_data = None, in_number_of_attributes_extents = 0,
       in_attributes_extents_array = None, in_attributes_fork_offset = 0,
       in_attributes_fork_size = 0 \<rparr>"

definition libfsxfs_inode_initialize :: "inode option \<Rightarrow> nat \<Rightarrow> inode result" where
  "libfsxfs_inode_initialize pointer inode_size =
     (case pointer of
        Some _ \<Rightarrow> Inl Value_Already_Set
      | None \<Rightarrow>
          if inode_size \<noteq> 256 \<and> inode_size \<noteq> 512 \<and> inode_size \<noteq> 1024 \<and> inode_size \<noteq> 2048
          then Inl Value_Out_Of_Bounds
          else Inr (inode_zero\<lparr> in_data_size := inode_size \<rparr>))"

abbreviation (input) LIBFSXFS_FORK_TYPE_DEVICE :: u8 where "LIBFSXFS_FORK_TYPE_DEVICE \<equiv> 0"
abbreviation (input) LIBFSXFS_FORK_TYPE_INLINE_DATA :: u8 where "LIBFSXFS_FORK_TYPE_INLINE_DATA \<equiv> 1"
abbreviation (input) LIBFSXFS_FORK_TYPE_EXTENTS :: u8 where "LIBFSXFS_FORK_TYPE_EXTENTS \<equiv> 2"
abbreviation (input) LIBFSXFS_FORK_TYPE_BTREE :: u8 where "LIBFSXFS_FORK_TYPE_BTREE \<equiv> 3"
abbreviation (input) LIBFSXFS_FILE_TYPE_DIRECTORY :: u16 where "LIBFSXFS_FILE_TYPE_DIRECTORY \<equiv> 0x4000"

subsection \<open>Timestamps\<close>

text \<open>
  Seconds are a signed 32-bit value, nanoseconds an unsigned one. The nanoseconds are added when
  the product of the seconds is greater than zero and subtracted otherwise; for the access time,
  which is unsigned, the comparison is an unsigned one.
\<close>

definition inode_signed_time :: "u32 \<Rightarrow> u32 \<Rightarrow> u64" where
  "inode_signed_time seconds nano_seconds =
     (let time = scast seconds * 1000000000 in
      if sint time > 0 then time + ucast nano_seconds else time - ucast nano_seconds)"

definition inode_unsigned_time :: "u32 \<Rightarrow> u32 \<Rightarrow> u64" where
  "inode_unsigned_time seconds nano_seconds =
     (let time = scast seconds * 1000000000 in
      if time > 0 then time + ucast nano_seconds else time - ucast nano_seconds)"

subsection \<open>The inode core\<close>

definition inode_core_size :: "u8 list \<Rightarrow> nat result" where
  "inode_core_size data =
     (if length data < 100 \<or> length data > SSIZE_MAX then Inl Value_Out_Of_Bounds else
      bindE (get_byte data 4) (\<lambda>format_version.
      if format_version = 3
      then (if length data < 176 then Inl Value_Out_Of_Bounds else Inr 176)
      else Inr 100))"

definition inode_read_core :: "inode \<Rightarrow> u8 list \<Rightarrow> inode result" where
  "inode_read_core inode data =
     bindE (get_bytes data 0 2) (\<lambda>signature.
     if signature \<noteq> [0x49, 0x4e] then Inl Unsupported_Value else
     bindE (get_byte data 4) (\<lambda>format_version.
     bindE (byte_stream_copy_to_uint16_big_endian data 2) (\<lambda>file_mode.
     bindE (get_byte data 5) (\<lambda>fork_type.
     bindE (if format_version = 1
            then bindE (byte_stream_copy_to_uint16_big_endian data 6) (\<lambda>n. Inr (ucast n))
            else byte_stream_copy_to_uint32_big_endian data 16) (\<lambda>number_of_links.
     bindE (byte_stream_copy_to_uint32_big_endian data 8) (\<lambda>owner_identifier.
     bindE (byte_stream_copy_to_uint32_big_endian data 12) (\<lambda>group_identifier.
     bindE (byte_stream_copy_to_uint32_big_endian data 32) (\<lambda>access_time.
     bindE (byte_stream_copy_to_uint32_big_endian data 36) (\<lambda>access_time_nano_seconds.
     bindE (byte_stream_copy_to_uint32_big_endian data 40) (\<lambda>modification_time.
     bindE (byte_stream_copy_to_uint32_big_endian data 44) (\<lambda>modification_time_nano_seconds.
     bindE (byte_stream_copy_to_uint32_big_endian data 48) (\<lambda>inode_change_time.
     bindE (byte_stream_copy_to_uint32_big_endian data 52) (\<lambda>inode_change_time_nano_seconds.
     bindE (byte_stream_copy_to_uint64_big_endian data 56) (\<lambda>size.
     bindE (byte_stream_copy_to_uint32_big_endian data 76) (\<lambda>number_of_data_extents.
     bindE (byte_stream_copy_to_uint16_big_endian data 80) (\<lambda>number_of_attributes_extents.
     bindE (get_byte data 82) (\<lambda>attributes_fork_offset.
     bindE (get_byte data 83) (\<lambda>attributes_fork_type.
     Inr (inode\<lparr>
       in_file_mode := file_mode, in_fork_type := fork_type,
       in_format_version := format_version, in_number_of_links := number_of_links,
       in_owner_identifier := owner_identifier, in_group_identifier := group_identifier,
       in_access_time := inode_unsigned_time access_time access_time_nano_seconds,
       in_modification_time := inode_signed_time modification_time modification_time_nano_seconds,
       in_inode_change_time := inode_signed_time inode_change_time inode_change_time_nano_seconds,
       in_size := size, in_number_of_data_extents := number_of_data_extents,
       in_number_of_attributes_extents := ucast number_of_attributes_extents,
       in_attributes_fork_offset := ucast attributes_fork_offset * 8,
       in_attributes_fork_type := attributes_fork_type \<rparr>)))))))))))))))))))"

definition inode_read_creation_time :: "inode \<Rightarrow> u8 list \<Rightarrow> inode result" where
  "inode_read_creation_time inode data =
     (if in_format_version inode \<noteq> 1 \<and> in_format_version inode \<noteq> 2 \<and>
         in_format_version inode \<noteq> 3 then Inl Unsupported_Value else
      if in_format_version inode = 3 then
        bindE (byte_stream_copy_to_uint32_big_endian data 144) (\<lambda>creation_time.
        bindE (byte_stream_copy_to_uint32_big_endian data 148) (\<lambda>creation_time_nano_seconds.
        Inr (inode\<lparr> in_creation_time :=
          inode_signed_time creation_time creation_time_nano_seconds \<rparr>)))
      else Inr inode)"

text \<open>
  The attributes fork starts \<open>attributes_fork_offset\<close> bytes after the inode core and reaches to
  the end of the inode; the data fork lies between the core and the attributes fork. The
  sizes are computed as \<open>size_t\<close> and cut down to 16 bits.
\<close>

definition inode_set_forks :: "inode \<Rightarrow> nat \<Rightarrow> nat \<Rightarrow> inode result" where
  "inode_set_forks inode data_size inode_data_size =
     (let data_fork_size = data_size - inode_data_size in
      bindE
        (if unat (in_attributes_fork_offset inode) > 0 then
           if unat (in_attributes_fork_offset inode) \<ge> data_fork_size then Inl Value_Out_Of_Bounds
           else let attributes_fork_offset =
                  in_attributes_fork_offset inode + word_of_nat inode_data_size in
             Inr (inode\<lparr> in_attributes_fork_offset := attributes_fork_offset,
                         in_attributes_fork_size :=
                           word_of_nat (size_sub data_size (unat attributes_fork_offset)) \<rparr>,
                  unat (in_attributes_fork_offset inode))
         else Inr (inode, data_fork_size)) (\<lambda>(inode, data_fork_size).
      let inode = inode\<lparr> in_data_fork_offset := word_of_nat inode_data_size,
                         in_data_fork_size := word_of_nat data_fork_size \<rparr> in
      if in_fork_type inode = LIBFSXFS_FORK_TYPE_INLINE_DATA \<and>
         in_size inode > ucast (in_data_fork_size inode)
      then Inl Value_Out_Of_Bounds
      else Inr inode))"

definition libfsxfs_inode_read_data :: "inode \<Rightarrow> u8 list \<Rightarrow> inode result" where
  "libfsxfs_inode_read_data inode data =
     bindE (inode_core_size data) (\<lambda>inode_data_size.
     bindE (inode_read_core inode data) (\<lambda>inode.
     bindE (inode_read_creation_time inode data) (\<lambda>inode.
     inode_set_forks inode (length data) inode_data_size)))"

subsection \<open>The forks\<close>

definition number_of_blocks_of :: "io_handle \<Rightarrow> u64 \<Rightarrow> u64" where
  "number_of_blocks_of io data_size =
     (let number_of_blocks = data_size div ucast (io_block_size io) in
      if data_size mod ucast (io_block_size io) \<noteq> 0 then number_of_blocks + 1 else number_of_blocks)"

definition inode_read_data_fork :: "inode \<Rightarrow> io_handle \<Rightarrow> file_io \<Rightarrow> inode result" where
  "inode_read_data_fork inode io file =
     (let number_of_blocks = number_of_blocks_of io (in_size inode);
          add_sparse_extents = (in_file_mode inode AND 0xf000 \<noteq> LIBFSXFS_FILE_TYPE_DIRECTORY);
          offset = unat (in_data_fork_offset inode);
          size = unat (in_data_fork_size inode) in
      if in_fork_type inode = LIBFSXFS_FORK_TYPE_DEVICE then
        bindE (byte_stream_copy_to_uint32_big_endian (in_data inode) offset) (\<lambda>device_identifier.
        Inr (inode\<lparr> in_device_identifier := device_identifier \<rparr>))
      else if in_fork_type inode = LIBFSXFS_FORK_TYPE_INLINE_DATA then
        Inr (inode\<lparr> in_inline_data := Some (drop offset (in_data inode)) \<rparr>)
      else if in_fork_type inode = LIBFSXFS_FORK_TYPE_EXTENTS then
        bindE (allocate_structure (in_data_extents_array inode) []) (\<lambda>extents_array.
        bindE (get_bytes (in_data inode) offset size) (\<lambda>fork_data.
        bindE (libfsxfs_extent_list_read_data extents_array number_of_blocks
                 (in_number_of_data_extents inode) fork_data add_sparse_extents) (\<lambda>extents_array.
        Inr (inode\<lparr> in_data_extents_array := Some extents_array \<rparr>))))
      else if in_fork_type inode = LIBFSXFS_FORK_TYPE_BTREE then
        bindE (allocate_structure (in_data_extents_array inode) []) (\<lambda>extents_array.
        bindE (libfsxfs_extent_btree_initialize None) (\<lambda>extent_btree.
        bindE (get_bytes (in_data inode) offset size) (\<lambda>fork_data.
        bindE (libfsxfs_extent_btree_get_extents_from_root_node extent_btree io file
                 number_of_blocks fork_data extents_array add_sparse_extents) (\<lambda>extents_array.
        Inr (inode\<lparr> in_data_extents_array := Some extents_array \<rparr>)))))
      else Inr inode)"

definition inode_read_attributes_fork :: "inode \<Rightarrow> io_handle \<Rightarrow> file_io \<Rightarrow> inode result" where
  "inode_read_attributes_fork inode io file =
     (let number_of_blocks = number_of_blocks_of io (ucast (in_attributes_fork_size inode));
          offset = unat (in_attributes_fork_offset inode);
          size = unat (in_attributes_fork_size inode) in
      if \<not> in_attributes_fork_size inode > 0 then Inr inode
      else if in_attributes_fork_type inode = LIBFSXFS_FORK_TYPE_INLINE_DATA then
        Inr (inode\<lparr> in_inline_attributes_data := Some (drop offset (in_data inode)) \<rparr>)
      else if in_attributes_fork_type inode = LIBFSXFS_FORK_TYPE_EXTENTS \<and>
              in_number_of_attributes_extents inode > 0 then
        bindE (allocate_structure (in_attributes_extents_array inode) []) (\<lambda>extents_array.
        bindE (get_bytes (in_data inode) offset size) (\<lambda>fork_data.
        bindE (libfsxfs_extent_list_read_data extents_array number_of_blocks
                 (in_number_of_attributes_extents inode) fork_data False) (\<lambda>extents_array.
        Inr (inode\<lparr> in_attributes_extents_array := Some extents_array \<rparr>))))
      else if in_attributes_fork_type inode = LIBFSXFS_FORK_TYPE_BTREE then
        bindE (allocate_structure (in_attributes_extents_array inode) []) (\<lambda>extents_array.
        bindE (libfsxfs_extent_btree_initialize None) (\<lambda>extent_btree.
        bindE (get_bytes (in_data inode) offset size) (\<lambda>fork_data.
        bindE (libfsxfs_extent_btree_get_extents_from_root_node extent_btree io file
                 number_of_blocks fork_data extents_array False) (\<lambda>extents_array.
        Inr (inode\<lparr> in_attributes_extents_array := Some extents_array \<rparr>)))))
      else Inr inode)"

definition libfsxfs_inode_read_file_io_handle ::
    "inode \<Rightarrow> io_handle \<Rightarrow> file_io \<Rightarrow> u64 \<Rightarrow> inode result" where
  "libfsxfs_inode_read_file_io_handle inode io file file_offset =
     (if io_block_size io = 0 then Inl Value_Out_Of_Bounds else
      bindE (read_buffer_at_offset file file_offset (in_data_size inode)) (\<lambda>data.
      bindE (libfsxfs_inode_read_data (inode\<lparr> in_data := data \<rparr>) data) (\<lambda>inode.
      bindE (inode_read_data_fork inode io file) (\<lambda>inode.
      inode_read_attributes_fork inode io file))))"


subsection \<open>Retrieving values\<close>

text \<open>
  The getters return whether the inode has the value (1 or 0 in the code) with it, and the
  errors of an index outside an array or of an array that is not there.
\<close>

definition libfsxfs_inode_get_creation_time :: "inode \<Rightarrow> u64 option" where
  "libfsxfs_inode_get_creation_time inode =
     (if in_format_version inode = 3 then Some (in_creation_time inode) else None)"

definition libfsxfs_inode_get_modification_time :: "inode \<Rightarrow> u64" where
  "libfsxfs_inode_get_modification_time inode = in_modification_time inode"

definition libfsxfs_inode_get_access_time :: "inode \<Rightarrow> u64" where
  "libfsxfs_inode_get_access_time inode = in_access_time inode"

definition libfsxfs_inode_get_inode_change_time :: "inode \<Rightarrow> u64" where
  "libfsxfs_inode_get_inode_change_time inode = in_inode_change_time inode"

definition libfsxfs_inode_get_owner_identifier :: "inode \<Rightarrow> u32" where
  "libfsxfs_inode_get_owner_identifier inode = in_owner_identifier inode"

definition libfsxfs_inode_get_group_identifier :: "inode \<Rightarrow> u32" where
  "libfsxfs_inode_get_group_identifier inode = in_group_identifier inode"

definition libfsxfs_inode_get_file_mode :: "inode \<Rightarrow> u16" where
  "libfsxfs_inode_get_file_mode inode = in_file_mode inode"

definition libfsxfs_inode_get_number_of_links :: "inode \<Rightarrow> u32" where
  "libfsxfs_inode_get_number_of_links inode = in_number_of_links inode"

definition libfsxfs_inode_get_data_size :: "inode \<Rightarrow> u64" where
  "libfsxfs_inode_get_data_size inode = in_size inode"

definition libfsxfs_inode_get_device_identifier :: "inode \<Rightarrow> u32 option" where
  "libfsxfs_inode_get_device_identifier inode =
     (if in_fork_type inode = LIBFSXFS_FORK_TYPE_DEVICE
      then Some (in_device_identifier inode) else None)"

definition libfsxfs_inode_get_device_number :: "inode \<Rightarrow> (u32 \<times> u32) option" where
  "libfsxfs_inode_get_device_number inode =
     (if in_fork_type inode = LIBFSXFS_FORK_TYPE_DEVICE
      then Some (drop_bit 18 (in_device_identifier inode), in_device_identifier inode AND 0x0003ffff)
      else None)"

definition array_get_number_of_entries :: "'a list option \<Rightarrow> nat result" where
  "array_get_number_of_entries array =
     (case array of None \<Rightarrow> Inl Get_Failed | Some entries \<Rightarrow> Inr (length entries))"

definition array_get_entry_by_index :: "'a list option \<Rightarrow> int \<Rightarrow> 'a result" where
  "array_get_entry_by_index array index =
     (case array of
        None \<Rightarrow> Inl Get_Failed
      | Some entries \<Rightarrow>
          if index < 0 \<or> int (length entries) \<le> index then Inl Get_Failed
          else Inr (entries ! nat index))"

definition libfsxfs_inode_get_number_of_data_extents :: "inode \<Rightarrow> nat result" where
  "libfsxfs_inode_get_number_of_data_extents inode =
     array_get_number_of_entries (in_data_extents_array inode)"

definition libfsxfs_inode_get_data_extent_by_index :: "inode \<Rightarrow> int \<Rightarrow> extent result" where
  "libfsxfs_inode_get_data_extent_by_index inode extent_index =
     array_get_entry_by_index (in_data_extents_array inode) extent_index"

definition libfsxfs_inode_get_number_of_attributes_extents :: "inode \<Rightarrow> nat result" where
  "libfsxfs_inode_get_number_of_attributes_extents inode =
     array_get_number_of_entries (in_attributes_extents_array inode)"

definition libfsxfs_inode_get_attributes_extent_by_index :: "inode \<Rightarrow> int \<Rightarrow> extent result" where
  "libfsxfs_inode_get_attributes_extent_by_index inode extent_index =
     array_get_entry_by_index (in_attributes_extents_array inode) extent_index"

subsection \<open>The layout of an inode that was read\<close>

text \<open>
  The forks lie inside the inode: the core comes first, the data fork follows it and, when there
  is an attributes fork, ends where the attributes fork starts, which reaches to the end.
\<close>

definition inode_layout :: "nat \<Rightarrow> inode \<Rightarrow> bool" where
  "inode_layout data_size inode \<longleftrightarrow>
     in_format_version inode \<in> {1, 2, 3} \<and>
     unat (in_data_fork_offset inode) = (if in_format_version inode = 3 then 176 else 100) \<and>
     unat (in_data_fork_offset inode) + unat (in_data_fork_size inode) \<le> data_size \<and>
     (0 < unat (in_attributes_fork_size inode) \<longrightarrow>
        unat (in_data_fork_offset inode) + unat (in_data_fork_size inode) =
          unat (in_attributes_fork_offset inode) \<and>
        unat (in_attributes_fork_offset inode) + unat (in_attributes_fork_size inode) = data_size) \<and>
     (in_fork_type inode = LIBFSXFS_FORK_TYPE_INLINE_DATA \<longrightarrow>
        unat (in_size inode) \<le> unat (in_data_fork_size inode))"

lemma inode_core_size_Inr:
  "inode_core_size data = Inr n \<Longrightarrow>
     100 \<le> length data \<and> length data \<le> SSIZE_MAX \<and> n = (if data ! 4 = 3 then 176 else 100) \<and> n \<le> length data"
  by (auto simp: inode_core_size_def not_less split: if_splits)

lemma inode_read_core_ok:
  assumes "100 \<le> length data" and "take 2 data = [0x49, 0x4e]"
  shows "\<exists>inode'. inode_read_core inode data = Inr inode'"
  using assms by (simp add: inode_read_core_def)

lemma inode_read_core_Inr:
  assumes "inode_read_core inode data = Inr inode'" and "100 \<le> length data"
  shows "take 2 data = [0x49, 0x4e]" "in_format_version inode' = data ! 4"
    "in_attributes_fork_offset inode' = ucast (data ! 82) * 8"
    "in_attributes_fork_size inode' = in_attributes_fork_size inode"
    "in_data inode' = in_data inode"
    "in_data_extents_array inode' = in_data_extents_array inode"
    "in_attributes_extents_array inode' = in_attributes_extents_array inode"
proof -
  have s: "take 2 data = [0x49, 0x4e]"
    using assms by (rule_tac ccontr) (simp add: inode_read_core_def)
  then show "take 2 data = [0x49, 0x4e]" .
  have "in_format_version inode' = data ! 4 \<and>
    in_attributes_fork_offset inode' = ucast (data ! 82) * 8 \<and>
    in_attributes_fork_size inode' = in_attributes_fork_size inode \<and>
    in_data inode' = in_data inode \<and>
    in_data_extents_array inode' = in_data_extents_array inode \<and>
    in_attributes_extents_array inode' = in_attributes_extents_array inode"
    using assms s by (auto simp: inode_read_core_def)
  then show "in_format_version inode' = data ! 4"
    "in_attributes_fork_offset inode' = ucast (data ! 82) * 8"
    "in_attributes_fork_size inode' = in_attributes_fork_size inode"
    "in_data inode' = in_data inode"
    "in_data_extents_array inode' = in_data_extents_array inode"
    "in_attributes_extents_array inode' = in_attributes_extents_array inode"
    by simp_all
qed

lemma inode_set_forks_layout:
  assumes r: "inode_set_forks inode n m = Inr inode'"
    and v: "in_format_version inode \<in> {1, 2, 3}"
    and m: "m = (if in_format_version inode = 3 then 176 else 100)" "m \<le> n" "n < 65536"
    and o: "unat (in_attributes_fork_offset inode) \<le> 2040"
    and z: "in_attributes_fork_size inode = 0"
  shows "inode_layout n inode'"
proof -
  have m': "m < 65536" "unat (word_of_nat m :: u16) = m" using m by (auto simp: unat_of_nat)
  show ?thesis
  proof (cases "in_attributes_fork_offset inode = 0")
    case True
    have "unat (word_of_nat (n - m) :: u16) = n - m"
      by (rule unat_word_of_nat_16) (use m(3) in simp)
    with r True z v m m' show ?thesis
      by (auto simp: inode_set_forks_def Let_def inode_layout_def not_less word_le_nat_alt
          simp del: of_nat_diff)
  next
    case False
    let ?a = "unat (in_attributes_fork_offset inode)"
    have a: "0 < ?a" using False by (simp add: unat_gt_0)
    with r have lt: "?a < n - m" by (auto simp: inode_set_forks_def not_less split: if_splits)
    have s: "unat (in_attributes_fork_offset inode + word_of_nat m) = ?a + m"
      using o m m' by (simp add: unat_word_ariths)
    have "unat (word_of_nat (n - (?a + m)) :: u16) = n - (?a + m)"
      by (rule unat_word_of_nat_16) (use m(3) in simp)
    moreover have "(word_of_nat ?a :: u16) = in_attributes_fork_offset inode" by simp
    ultimately show ?thesis
      using r a lt s v m m'
      by (auto simp: inode_set_forks_def Let_def inode_layout_def not_less word_le_nat_alt
          simp del: of_nat_diff)
  qed
qed


lemma inode_read_creation_time_Inr:
  assumes "inode_read_creation_time inode data = Inr inode'"
  shows "in_format_version inode \<in> {1, 2, 3}"
    and "\<exists>t. inode' = inode\<lparr> in_creation_time := t \<rparr>"
proof -
  show "in_format_version inode \<in> {1, 2, 3}"
    using assms by (auto simp: inode_read_creation_time_def split: if_splits)
  show "\<exists>t. inode' = inode\<lparr> in_creation_time := t \<rparr>"
    using assms
    by (auto simp: inode_read_creation_time_def intro: exI [of _ "in_creation_time inode'"]
        split: if_splits)
qed

lemma unat_attributes_fork_offset: "unat (ucast (b :: u8) * 8 :: u16) \<le> 2040"
proof -
  have "unat (ucast b * 8 :: u16) = unat b * 8" using unat_bounds(1) [of b] by (simp add: unat_word_ariths)
  then show ?thesis using unat_bounds(1) [of b] by simp
qed

lemma inode_read_data_steps:
  assumes "libfsxfs_inode_read_data inode data = Inr inode'"
  obtains c k where "100 \<le> length data" "in_format_version k = data ! 4"
    "in_format_version k \<in> {1, 2, 3}" "c = (if in_format_version k = 3 then 176 else 100)"
    "c \<le> length data" "unat (in_attributes_fork_offset k) \<le> 2040"
    "in_attributes_fork_size k = in_attributes_fork_size inode" "in_data k = in_data inode"
    "in_data_extents_array k = in_data_extents_array inode"
    "in_attributes_extents_array k = in_attributes_extents_array inode"
    "inode_set_forks k (length data) c = Inr inode'"
proof -
  from assms obtain c i j where s: "inode_core_size data = Inr c" "inode_read_core inode data = Inr i"
      "inode_read_creation_time i data = Inr j" "inode_set_forks j (length data) c = Inr inode'"
    unfolding libfsxfs_inode_read_data_def by auto
  note c = inode_core_size_Inr [OF s(1)]
  note i = inode_read_core_Inr [OF s(2)]
  from inode_read_creation_time_Inr [OF s(3)] obtain t where
    v: "in_format_version i \<in> {1, 2, 3}" and j: "j = i\<lparr> in_creation_time := t \<rparr>" by blast
  show ?thesis
    by (rule that [of j c]) (use s(4) c i v j unat_attributes_fork_offset in simp_all)
qed

lemma inode_read_data_layout:
  assumes "libfsxfs_inode_read_data inode data = Inr inode'"
    and "in_attributes_fork_size inode = 0" and "length data < 65536"
  shows "inode_layout (length data) inode'"
  using assms(1)
proof (rule inode_read_data_steps)
  fix c k
  assume k: "in_format_version k \<in> {1, 2, 3}" "c = (if in_format_version k = 3 then 176 else 100)"
    "c \<le> length data" "unat (in_attributes_fork_offset k) \<le> 2040"
    "in_attributes_fork_size k = in_attributes_fork_size inode"
    "inode_set_forks k (length data) c = Inr inode'"
  show "inode_layout (length data) inode'"
    by (rule inode_set_forks_layout [OF k(6,1,2,3) assms(3) k(4)]) (use k assms(2) in simp)
qed

lemma inode_set_forks_same:
  assumes "inode_set_forks inode n m = Inr inode'"
  shows "in_data inode' = in_data inode"
    "in_data_extents_array inode' = in_data_extents_array inode"
    "in_attributes_extents_array inode' = in_attributes_extents_array inode"
  using assms by (auto simp: inode_set_forks_def Let_def split: if_splits)

subsection \<open>Memory safety\<close>

lemma inode_core_size_fault_free [safe_intros]: "fault_free (inode_core_size data)"
  by (auto simp: inode_core_size_def not_less)

lemma inode_read_core_fault_free: "100 \<le> length data \<Longrightarrow> fault_free (inode_read_core inode data)"
  by (simp add: inode_read_core_def)

lemma inode_read_creation_time_fault_free:
  "(in_format_version inode = 3 \<Longrightarrow> 176 \<le> length data) \<Longrightarrow>
     fault_free (inode_read_creation_time inode data)"
  by (cases "in_format_version inode = 3") (simp_all add: inode_read_creation_time_def)

lemma inode_set_forks_fault_free [safe_intros]: "fault_free (inode_set_forks inode n m)"
  by (auto simp: inode_set_forks_def Let_def intro!: safe_intros split: prod.splits)

lemma inode_read_data_fault_free: "fault_free (libfsxfs_inode_read_data inode data)"
  unfolding libfsxfs_inode_read_data_def
proof (intro safe_intros)
  fix c assume "inode_core_size data = Inr c"
  then have c: "100 \<le> length data" "c = (if data ! 4 = 3 then 176 else 100)" "c \<le> length data"
    using inode_core_size_Inr by auto
  then show "fault_free (inode_read_core inode data)" by (simp add: inode_read_core_fault_free)
  fix i assume "inode_read_core inode data = Inr i"
  with c inode_read_core_Inr(2) [OF this] show "fault_free (inode_read_creation_time i data)"
    by (intro inode_read_creation_time_fault_free) (auto split: if_splits)
qed


lemma inode_layout_update [simp]:
  "inode_layout n (inode\<lparr> in_device_identifier := d \<rparr>) = inode_layout n inode"
  "inode_layout n (inode\<lparr> in_inline_data := i \<rparr>) = inode_layout n inode"
  "inode_layout n (inode\<lparr> in_data_extents_array := a \<rparr>) = inode_layout n inode"
  by (simp_all add: inode_layout_def)

lemma allocate_structure_fault_free [safe_intros]: "fault_free (allocate_structure p z)"
  by (cases p) simp_all

lemma extent_btree_initialize_fault_free [safe_intros]:
  "fault_free (libfsxfs_extent_btree_initialize p)"
  unfolding libfsxfs_extent_btree_initialize_def by (rule safe_intros)

lemma inode_layout_bounds:
  assumes "inode_layout n inode"
  shows "unat (in_data_fork_offset inode) + unat (in_data_fork_size inode) \<le> n"
    and "unat (in_data_fork_offset inode) \<le> 176"
    and "in_attributes_fork_size inode > 0 \<Longrightarrow>
      unat (in_attributes_fork_offset inode) + unat (in_attributes_fork_size inode) \<le> n"
  using assms by (simp_all add: inode_layout_def word_gt_0 unat_gt_0)

lemma inode_read_data_fork_fault_free:
  assumes "inode_layout (length (in_data inode)) inode" and "256 \<le> length (in_data inode)"
    and "unat (io_number_of_relative_block_number_bits io) < 31"
  shows "fault_free (inode_read_data_fork inode io file)"
  unfolding inode_read_data_fork_def Let_def
  by (intro safe_intros assms)
    (use inode_layout_bounds(1,2) [OF assms(1)] assms(2) in simp_all)

lemma inode_read_attributes_fork_fault_free:
  assumes "inode_layout (length (in_data inode)) inode"
    and "unat (io_number_of_relative_block_number_bits io) < 31"
  shows "fault_free (inode_read_attributes_fork inode io file)"
  unfolding inode_read_attributes_fork_def Let_def
  by (intro safe_intros assms)
    (use inode_layout_bounds(3) [OF assms(1)] in simp_all)

lemma inode_read_data_fork_layout:
  assumes "inode_read_data_fork inode io file = Inr inode'"
  shows "inode_layout n inode' = inode_layout n inode \<and> in_data inode' = in_data inode"
proof -
  have "inode' = inode \<or> (\<exists>d. inode' = inode\<lparr> in_device_identifier := d \<rparr>) \<or>
      (\<exists>i. inode' = inode\<lparr> in_inline_data := i \<rparr>) \<or>
      (\<exists>a. inode' = inode\<lparr> in_data_extents_array := a \<rparr>)"
    using assms unfolding inode_read_data_fork_def Let_def by (auto split: if_splits)
  then show ?thesis by auto
qed

lemma inode_read_data_same:
  assumes "libfsxfs_inode_read_data inode data = Inr inode'"
  shows "in_data inode' = in_data inode"
    "in_data_extents_array inode' = in_data_extents_array inode"
    "in_attributes_extents_array inode' = in_attributes_extents_array inode"
  using assms by (auto elim!: inode_read_data_steps dest: inode_set_forks_same)

subsection \<open>Properties\<close>

lemma inode_read_fault_free:
  assumes "libfsxfs_inode_initialize None inode_size = Inr inode"
    and "unat (io_number_of_relative_block_number_bits io) < 31"
  shows "fault_free (libfsxfs_inode_read_file_io_handle inode io fio off)"
proof -
  have i: "in_data_size inode \<in> {256, 512, 1024, 2048}" "in_attributes_fork_size inode = 0"
    using assms(1) by (auto simp: libfsxfs_inode_initialize_def inode_zero_def split: if_splits)
  show ?thesis
    unfolding libfsxfs_inode_read_file_io_handle_def
  proof (intro safe_intros)
    fix data assume "read_buffer_at_offset fio off (in_data_size inode) = Inr data"
    then have l: "length data \<in> {256, 512, 1024, 2048}" using i(1) by (simp add: read_buffer_Inr_iff)
    show "fault_free (libfsxfs_inode_read_data (inode\<lparr> in_data := data \<rparr>) data)"
      by (rule inode_read_data_fault_free)
    fix j assume j: "libfsxfs_inode_read_data (inode\<lparr> in_data := data \<rparr>) data = Inr j"
    have d: "in_data j = data" using inode_read_data_same(1) [OF j] by simp
    have lay: "inode_layout (length data) j"
      by (rule inode_read_data_layout [OF j]) (use i(2) l in auto)
    with d l assms(2) show "fault_free (inode_read_data_fork j io fio)"
      by (intro inode_read_data_fork_fault_free) auto
    fix k assume "inode_read_data_fork j io fio = Inr k"
    with d lay assms(2) show "fault_free (inode_read_attributes_fork k io fio)"
      by (intro inode_read_attributes_fork_fault_free) (simp_all add: inode_read_data_fork_layout)
  qed simp
qed

text \<open>The inline data of an inode that was read has at least the size of the inode.\<close>

lemma inode_read_attributes_fork_same:
  "inode_read_attributes_fork inode io fio = Inr inode' \<Longrightarrow>
     in_fork_type inode' = in_fork_type inode \<and> in_inline_data inode' = in_inline_data inode \<and>
     in_size inode' = in_size inode \<and> in_file_mode inode' = in_file_mode inode \<and>
     in_data_extents_array inode' = in_data_extents_array inode"
  by (auto simp: inode_read_attributes_fork_def Let_def split: if_splits)

definition inode_inline_ok :: "inode \<Rightarrow> bool" where
  "inode_inline_ok inode \<longleftrightarrow>
     (case in_inline_data inode of
        None \<Rightarrow> True
      | Some d \<Rightarrow> in_fork_type inode = LIBFSXFS_FORK_TYPE_INLINE_DATA \<longrightarrow> unat (in_size inode) \<le> length d)"

lemma inode_read_data_fork_inline:
  assumes "inode_read_data_fork inode io fio = Inr inode'" and "inode_layout (length (in_data inode)) inode"
    and "in_inline_data inode = None"
  shows "inode_inline_ok inode'"
  using assms by (auto simp: inode_read_data_fork_def inode_inline_ok_def inode_layout_def Let_def split: if_splits)

lemma inode_read_data_inline: "libfsxfs_inode_read_data inode data = Inr inode' \<Longrightarrow>
    in_inline_data inode' = in_inline_data inode"
  by (auto simp: libfsxfs_inode_read_data_def inode_read_core_def inode_read_creation_time_def
      inode_set_forks_def Let_def split: if_splits)

lemma inode_read_inline_ok:
  assumes "libfsxfs_inode_initialize None inode_size = Inr inode"
    and "libfsxfs_inode_read_file_io_handle inode io fio off = Inr inode'"
  shows "inode_inline_ok inode'"
proof -
  have i: "in_data_size inode \<in> {256, 512, 1024, 2048}" "in_attributes_fork_size inode = 0"
    "in_inline_data inode = None"
    using assms(1) by (auto simp: libfsxfs_inode_initialize_def inode_zero_def split: if_splits)
  obtain data j k where data: "read_buffer_at_offset fio off (in_data_size inode) = Inr data"
    and j: "libfsxfs_inode_read_data (inode\<lparr> in_data := data \<rparr>) data = Inr j"
    and k: "inode_read_data_fork j io fio = Inr k" "inode_read_attributes_fork k io fio = Inr inode'"
    using assms(2) by (auto simp: libfsxfs_inode_read_file_io_handle_def split: if_splits)
  have l: "length data \<in> {256, 512, 1024, 2048}" using i(1) data by (simp add: read_buffer_Inr_iff)
  have d: "in_data j = data" using inode_read_data_same(1) [OF j] by simp
  have "inode_layout (length data) j"
    by (rule inode_read_data_layout [OF j]) (use i(2) l in auto)
  then have "inode_inline_ok k"
    using inode_read_data_fork_inline [OF k(1)] d inode_read_data_inline [OF j] i(3) by simp
  then show ?thesis
    using inode_read_attributes_fork_same [OF k(2)] by (auto simp: inode_inline_ok_def split: option.splits)
qed

text \<open>The inline data of the attributes of an inode that was read is the whole attributes fork.\<close>

definition inode_inline_attributes_ok :: "inode \<Rightarrow> bool" where
  "inode_inline_attributes_ok inode \<longleftrightarrow>
     (\<forall>d. in_inline_attributes_data inode = Some d \<longrightarrow> unat (in_attributes_fork_size inode) \<le> length d)"

lemma inode_read_data_attributes: "libfsxfs_inode_read_data inode data = Inr inode' \<Longrightarrow>
    in_inline_attributes_data inode' = in_inline_attributes_data inode"
  by (auto simp: libfsxfs_inode_read_data_def inode_read_core_def inode_read_creation_time_def
      inode_set_forks_def Let_def split: if_splits)

lemma inode_read_data_fork_attributes: "inode_read_data_fork inode io fio = Inr inode' \<Longrightarrow>
    in_inline_attributes_data inode' = in_inline_attributes_data inode"
  by (auto simp: inode_read_data_fork_def Let_def split: if_splits)

lemma inode_read_attributes_fork_inline:
  assumes "inode_read_attributes_fork inode io fio = Inr inode'" and "inode_layout (length (in_data inode)) inode"
    and "in_inline_attributes_data inode = None"
  shows "inode_inline_attributes_ok inode'"
  using assms
  by (auto simp: inode_read_attributes_fork_def inode_inline_attributes_ok_def inode_layout_def word_less_nat_alt Let_def
      split: if_splits)

lemma inode_read_inline_attributes_ok:
  assumes "libfsxfs_inode_initialize None inode_size = Inr inode"
    and "libfsxfs_inode_read_file_io_handle inode io fio off = Inr inode'"
  shows "inode_inline_attributes_ok inode'"
proof -
  have i: "in_data_size inode \<in> {256, 512, 1024, 2048}" "in_attributes_fork_size inode = 0"
    "in_inline_attributes_data inode = None"
    using assms(1) by (auto simp: libfsxfs_inode_initialize_def inode_zero_def split: if_splits)
  obtain data j k where data: "read_buffer_at_offset fio off (in_data_size inode) = Inr data"
    and j: "libfsxfs_inode_read_data (inode\<lparr> in_data := data \<rparr>) data = Inr j"
    and k: "inode_read_data_fork j io fio = Inr k" "inode_read_attributes_fork k io fio = Inr inode'"
    using assms(2) by (auto simp: libfsxfs_inode_read_file_io_handle_def split: if_splits)
  have l: "length data \<in> {256, 512, 1024, 2048}" using i(1) data by (simp add: read_buffer_Inr_iff)
  have d: "in_data j = data" using inode_read_data_same(1) [OF j] by simp
  have "inode_layout (length data) j"
    by (rule inode_read_data_layout [OF j]) (use i(2) l in auto)
  then have "inode_layout (length (in_data k)) k" "in_inline_attributes_data k = None"
    using inode_read_data_fork_layout [OF k(1)] d inode_read_data_fork_attributes [OF k(1)] inode_read_data_attributes [OF j] i(3)
    by simp_all
  then show ?thesis by (rule inode_read_attributes_fork_inline [OF k(2)])
qed

text \<open>
  Whatever bytes a file holds, reading an inode from it never reads outside the inode and
  never shifts out of range, for the inode sizes that the code allocates and a file system whose
  relative block numbers have less than 31 bits.
\<close>

theorem inode_read_memory_safe:
  assumes "libfsxfs_inode_initialize None inode_size = Inr inode"
    and "unat (io_number_of_relative_block_number_bits io) < 31"
  shows "fault_free (libfsxfs_inode_read_file_io_handle inode io fio off)"
  by (rule inode_read_fault_free [OF assms])

lemma inode_read_memory_safe_witness:
  "fault_free (libfsxfs_inode_read_file_io_handle (inode_zero\<lparr> in_data_size := 256 \<rparr>)
     (io_handle_zero\<lparr> io_block_size := 4096, io_number_of_relative_block_number_bits := 16 \<rparr>)
     (\<lambda>off n. Some (replicate n 0xff)) 0)"
  by (rule inode_read_memory_safe [where inode_size = 256])
    (simp_all add: libfsxfs_inode_initialize_def)

text \<open>
  C36: The forks of an inode that was read lie inside it and do not overlap: the data fork
  follows the core, the attributes fork follows the data fork and ends the inode, and inline
  data is not larger than the data fork.
\<close>

theorem inode_forks_inside:
  assumes "libfsxfs_inode_read_data inode data = Inr inode'"
    and "in_attributes_fork_size inode = 0" and "length data < 65536"
  shows "inode_layout (length data) inode'"
  using assms by (rule inode_read_data_layout)


text \<open>An inode of 256 bytes in format version 2 with 8 * 8 bytes of inline data fork.\<close>

definition example_inode_data :: "u8 list" where
  "example_inode_data =
     [0x49, 0x4e, 0x81, 0xa4, 2, 1] @ replicate 50 0 @ [0, 0, 0, 0, 0, 0, 0, 5] @ replicate 18 0 @ [8, 1] @
     replicate 16 0 @ replicate 156 0"

lemma inode_forks_inside_witness:
  "\<exists>inode. libfsxfs_inode_read_data inode_zero example_inode_data = Inr inode \<and>
     inode_layout 256 inode"
proof -
  have l: "length example_inode_data = 256" by (simp add: example_inode_data_def)
  have "\<exists>inode. libfsxfs_inode_read_data inode_zero example_inode_data = Inr inode"
    by (simp add: example_inode_data_def libfsxfs_inode_read_data_def inode_core_size_def
        inode_read_core_def inode_read_creation_time_def inode_set_forks_def be_word_def
        inode_zero_def inode_signed_time_def inode_unsigned_time_def nth_append Let_def)
  then obtain inode where r: "libfsxfs_inode_read_data inode_zero example_inode_data = Inr inode" ..
  have "inode_layout 256 inode"
    using inode_forks_inside [OF r] l by (simp add: inode_zero_def)
  with r show ?thesis by blast
qed

lemma sint_word_of_int_64:
  "- 9223372036854775808 \<le> k \<Longrightarrow> k < 9223372036854775808 \<Longrightarrow> sint (word_of_int k :: u64) = k"
  using signed_take_bit_int_eq_self [of 63 k] by (simp add: signed_of_int)

lemma seconds_product: "scast (s :: u32) * 1000000000 = (word_of_int (sint s * 1000000000) :: u64)"
  by (simp add: of_int_mult)

lemma sint_u32_bounds: "- (2 ^ 31) \<le> sint (s :: u32)" "sint (s :: u32) < 2 ^ 31"
  using sint_greater_eq [of s] sint_less [of s] by simp_all

text \<open>
  A timestamp after the epoch is the number of nanoseconds of its seconds and nanoseconds.
  Up to the epoch the modification, inode change and creation times are the seconds less the
  nanoseconds, while an access time before the epoch has the nanoseconds added.
\<close>

theorem inode_time_values:
  shows "sint (inode_signed_time s ns) =
      (if 0 < sint s then sint s * 1000000000 + uint ns else sint s * 1000000000 - uint ns) \<and>
    sint (inode_unsigned_time s ns) =
      (if sint s \<noteq> 0 then sint s * 1000000000 + uint ns else - uint ns)"
proof -
  let ?t = "sint s * 1000000000" and ?n = "uint ns"
  have n: "0 \<le> ?n" "?n < 4294967296" using uint_lt2p [of ns] by simp_all
  have t: "- 2147483648000000000 \<le> ?t" "?t \<le> 2147483648000000000"
    using sint_u32_bounds [of s] by simp_all
  have p: "sint (word_of_int ?t :: u64) = ?t" "sint (word_of_int (?t + ?n) :: u64) = ?t + ?n"
    "sint (word_of_int (?t - ?n) :: u64) = ?t - ?n"
    by (rule sint_word_of_int_64; use n t in linarith)+
  have u: "(ucast ns :: u64) = word_of_int ?n" by simp
  have z: "(word_of_int ?t :: u64) = 0 \<longleftrightarrow> sint s = 0"
  proof
    assume "(word_of_int ?t :: u64) = 0"
    then have "?t = 0" using p(1) by (metis signed_0)
    then show "sint s = 0" by simp
  qed simp
  have "sint (inode_signed_time s ns) = (if 0 < ?t then ?t + ?n else ?t - ?n)"
    by (simp only: inode_signed_time_def Let_def seconds_product p u of_int_add [symmetric]
        of_int_diff [symmetric] if_distrib [of sint] p)
  moreover have "sint (inode_unsigned_time s ns) = (if sint s \<noteq> 0 then ?t + ?n else ?t - ?n)"
    by (simp only: inode_unsigned_time_def Let_def seconds_product word_gt_0 z eq_commute [of 0] u of_int_add [symmetric]
        of_int_diff [symmetric] if_distrib [of sint] p)
  ultimately show ?thesis by (auto simp: zero_less_mult_iff)
qed

end
