(* ===== verification/Directory.thy ===== *)
theory Directory
  imports Block_Directory Inode
begin

text \<open>
  Directories (\<open>libfsxfs_directory.c\<close>): the entries of a directory inode, from the table in the
  inode or from the blocks of its extents, and the lookup of an entry by name.
\<close>

subsection \<open>The operations\<close>

record directory =
  dir_entries_array :: "directory_entry list"

definition libfsxfs_directory_initialize :: "directory option \<Rightarrow> directory result" where
  "libfsxfs_directory_initialize pointer = allocate_structure pointer \<lparr> dir_entries_array = [] \<rparr>"

text \<open>
  The loop over the blocks of an extent. The remaining size is unsigned: it wraps around when it is
  less than the directory block size, and then the loop only ends with an error or never. A
  loop that does not end has the value \<open>None\<close>.
\<close>

partial_function (option) directory_read_blocks ::
    "io_handle \<Rightarrow> file_io \<Rightarrow> directory_entry list \<Rightarrow> u64 \<Rightarrow> u64 \<Rightarrow> directory_entry list result option" where
  "directory_read_blocks io file entries_array block_directory_offset extent_size =
     (if extent_size > 0 then
        (case bindE (libfsxfs_block_directory_initialize None (unat (io_block_size io)))
                (\<lambda>block_directory.
              libfsxfs_block_directory_read_file_io_handle block_directory io file
                block_directory_offset entries_array) of
           Inl e \<Rightarrow> Some (Inl e)
         | Inr r \<Rightarrow> directory_read_blocks io file (snd r)
             (block_directory_offset + ucast (io_directory_block_size io))
             (extent_size - ucast (io_directory_block_size io)))
      else Some (Inr entries_array))"

abbreviation (input) LIBFSXFS_DIRECTORY_LEAF_OFFSET :: u64 where
  "LIBFSXFS_DIRECTORY_LEAF_OFFSET \<equiv> 0x800000000"

fun directory_read_extents ::
    "io_handle \<Rightarrow> file_io \<Rightarrow> extent list \<Rightarrow> directory_entry list \<Rightarrow> directory_entry list result option" where
  "directory_read_extents io file [] entries_array = Some (Inr entries_array)"
| "directory_read_extents io file (extent # extents) entries_array =
     (if ex_logical_block_number extent > 0x7fffffffffffffff div ucast (io_block_size io)
      then Some (Inl Value_Out_Of_Bounds) else
      if ex_logical_block_number extent * ucast (io_block_size io) \<ge> LIBFSXFS_DIRECTORY_LEAF_OFFSET
      then Some (Inr entries_array) else
      case block_number_to_offset io (ex_physical_block_number extent) of
        Inl e \<Rightarrow> Some (Inl e)
      | Inr block_directory_offset \<Rightarrow>
          (case directory_read_blocks io file entries_array block_directory_offset
                  (ucast (ex_number_of_blocks extent) * ucast (io_block_size io)) of
             None \<Rightarrow> None
           | Some (Inl e) \<Rightarrow> Some (Inl e)
           | Some (Inr entries_array) \<Rightarrow> directory_read_extents io file extents entries_array))"

definition libfsxfs_directory_read_file_io_handle ::
    "directory \<Rightarrow> io_handle \<Rightarrow> file_io \<Rightarrow> inode \<Rightarrow> directory result option" where
  "libfsxfs_directory_read_file_io_handle directory io file inode =
     (if io_allocation_group_size io = 0 then Some (Inl Value_Out_Of_Bounds) else
      if io_block_size io = 0 then Some (Inl Value_Out_Of_Bounds) else
      if in_file_mode inode AND 0xf000 \<noteq> 0x4000 then Some (Inr directory) else
      if in_fork_type inode \<noteq> 1 \<and> in_fork_type inode \<noteq> 2 \<and> in_fork_type inode \<noteq> 3
      then Some (Inl Unsupported_Value) else
      if in_fork_type inode = 1 then Some (
        bindE (libfsxfs_directory_table_initialize None) (\<lambda>directory_table.
        case in_inline_data inode of
          None \<Rightarrow> Inl Invalid_Value
        | Some inline_data \<Rightarrow>
            bindE (get_bytes inline_data 0 (unat (in_size inode))) (\<lambda>data.
            bindE (libfsxfs_directory_table_read_data directory_table io data
                     (dir_entries_array directory)) (\<lambda>(directory_table, entries_array).
            Inr (directory\<lparr> dir_entries_array := entries_array \<rparr>)))))
      else
        case in_data_extents_array inode of
          None \<Rightarrow> Some (Inl Get_Failed)
        | Some extents \<Rightarrow>
            (case directory_read_extents io file extents (dir_entries_array directory) of
               None \<Rightarrow> None
             | Some (Inl e) \<Rightarrow> Some (Inl e)
             | Some (Inr entries_array) \<Rightarrow>
                 Some (Inr (directory\<lparr> dir_entries_array := entries_array \<rparr>))))"

definition libfsxfs_directory_get_number_of_entries :: "directory \<Rightarrow> nat result" where
  "libfsxfs_directory_get_number_of_entries directory =
     array_get_number_of_entries (Some (dir_entries_array directory))"

definition libfsxfs_directory_get_entry_by_index :: "directory \<Rightarrow> int \<Rightarrow> directory_entry result" where
  "libfsxfs_directory_get_entry_by_index directory entry_index =
     array_get_entry_by_index (Some (dir_entries_array directory)) entry_index"

text \<open>The loops over the entries; \<open>None\<close> stands for the return value 0, no such entry.\<close>

fun directory_find_utf8 ::
    "u8 name_compare \<Rightarrow> directory_entry list \<Rightarrow> u8 list \<Rightarrow> directory_entry option result" where
  "directory_find_utf8 compare [] utf8_string = Inr None"
| "directory_find_utf8 compare (entry # entries) utf8_string =
     bindE (libfsxfs_directory_entry_compare_with_utf8_string compare entry utf8_string) (\<lambda>result.
     if result = Compare_Equal then Inr (Some entry)
     else directory_find_utf8 compare entries utf8_string)"

definition libfsxfs_directory_get_entry_by_utf8_name ::
    "u8 name_compare \<Rightarrow> directory \<Rightarrow> u8 list \<Rightarrow> directory_entry option result" where
  "libfsxfs_directory_get_entry_by_utf8_name compare directory utf8_string =
     directory_find_utf8 compare (dir_entries_array directory) utf8_string"

fun directory_find_utf16 ::
    "u16 name_compare \<Rightarrow> directory_entry list \<Rightarrow> u16 list \<Rightarrow> directory_entry option result" where
  "directory_find_utf16 compare [] utf16_string = Inr None"
| "directory_find_utf16 compare (entry # entries) utf16_string =
     bindE (libfsxfs_directory_entry_compare_with_utf16_string compare entry utf16_string) (\<lambda>result.
     if result = Compare_Equal then Inr (Some entry)
     else directory_find_utf16 compare entries utf16_string)"

definition libfsxfs_directory_get_entry_by_utf16_name ::
    "u16 name_compare \<Rightarrow> directory \<Rightarrow> u16 list \<Rightarrow> directory_entry option result" where
  "libfsxfs_directory_get_entry_by_utf16_name compare directory utf16_string =
     directory_find_utf16 compare (dir_entries_array directory) utf16_string"

subsection \<open>The loop over the blocks\<close>

lemma block_directory_initialize_fault_free [safe_intros]:
  "fault_free (libfsxfs_block_directory_initialize p n)"
  by (simp add: libfsxfs_block_directory_initialize_def split: option.splits)

text \<open>One block: what the body of the loop does to the entries.\<close>

definition read_directory_block ::
    "io_handle \<Rightarrow> file_io \<Rightarrow> directory_entry list \<Rightarrow> u64 \<Rightarrow> directory_entry list result" where
  "read_directory_block io file entries off =
     bindE (libfsxfs_block_directory_initialize None (unat (io_block_size io))) (\<lambda>b.
     bindE (libfsxfs_block_directory_read_file_io_handle b io file off entries) (\<lambda>r. Inr (snd r)))"

lemma read_directory_block_fault_free [safe_intros]:
  "fault_free (read_directory_block io file entries off)"
  unfolding read_directory_block_def by (intro safe_intros)

lemma directory_read_blocks_step:
  "directory_read_blocks io file entries off n =
    (if n > 0 then
       (case read_directory_block io file entries off of
          Inl e \<Rightarrow> Some (Inl e)
        | Inr es \<Rightarrow> directory_read_blocks io file es (off + ucast (io_directory_block_size io))
            (n - ucast (io_directory_block_size io)))
     else Some (Inr entries))"
  by (subst directory_read_blocks.simps)
    (auto simp: read_directory_block_def bindE_def split: sum.splits)

lemma directory_read_blocks_fault_free:
  assumes "directory_read_blocks io file entries off n = Some r"
  shows "fault_free r"
proof (rule directory_read_blocks.raw_induct [where P = "\<lambda>_ _ _ _ _ r. fault_free r", OF _ assms])
  fix rec :: "io_handle \<Rightarrow> file_io \<Rightarrow> directory_entry list \<Rightarrow> u64 \<Rightarrow> u64 \<Rightarrow> directory_entry list result option"
    and io' "file'" entries' off' n' r'
  let ?m = "bindE (libfsxfs_block_directory_initialize None (unat (io_block_size io')))
      (\<lambda>b. libfsxfs_block_directory_read_file_io_handle b io' file' off' entries')"
  assume "\<And>io file es off n r. rec io file es off n = Some r \<Longrightarrow> fault_free r"
    and "(if n' > 0 then case ?m of Inl e \<Rightarrow> Some (Inl e)
      | Inr r \<Rightarrow> rec io' file' (snd r) (off' + ucast (io_directory_block_size io'))
          (n' - ucast (io_directory_block_size io'))
      else Some (Inr entries')) = Some r'"
  moreover have "fault_free ?m" by (intro safe_intros)
  ultimately show "fault_free r'" by (auto split: if_splits sum.splits)
qed

lemma directory_read_extents_fault_free:
  assumes "unat (io_number_of_relative_block_number_bits io) < 31"
  shows "directory_read_extents io file extents entries = Some r \<Longrightarrow> fault_free r"
proof (induction extents arbitrary: entries)
  case (Cons e extents)
  have "fault_free (block_number_to_offset io (ex_physical_block_number e))"
    using assms by (simp add: fault_free_block_number_to_offset)
  with Cons show ?case
    by (auto split: if_splits sum.splits option.splits dest: directory_read_blocks_fault_free)
qed auto


lemma directory_read_fault_free:
  assumes bits: "unat (io_number_of_relative_block_number_bits io) < 31"
    and inl: "\<And>d. in_inline_data inode = Some d \<Longrightarrow> in_fork_type inode = 1 \<Longrightarrow> unat (in_size inode) \<le> length d"
    and r: "libfsxfs_directory_read_file_io_handle directory io file inode = Some r"
  shows "fault_free r"
proof (cases "in_fork_type inode = 1")
  case True
  have "fault_free (bindE (libfsxfs_directory_table_initialize None) (\<lambda>directory_table.
      case in_inline_data inode of
        None \<Rightarrow> Inl Invalid_Value
      | Some inline_data \<Rightarrow>
          bindE (get_bytes inline_data 0 (unat (in_size inode))) (\<lambda>data.
          bindE (libfsxfs_directory_table_read_data directory_table io data
                   (dir_entries_array directory)) (\<lambda>(directory_table, entries_array).
          Inr (directory\<lparr> dir_entries_array := entries_array \<rparr>)))))"
    unfolding libfsxfs_directory_table_initialize_def
    by (cases "in_inline_data inode") (auto intro!: safe_intros inl True split: prod.splits)
  with r True show ?thesis
    by (auto simp: libfsxfs_directory_read_file_io_handle_def split: if_splits)
next
  case False
  with r show ?thesis
    using directory_read_extents_fault_free [OF bits, of "file"]
    by (fastforce simp: libfsxfs_directory_read_file_io_handle_def split: if_splits option.splits sum.splits)
qed

text \<open>
  When the size of an extent is a multiple of the directory block size the loop over its
  blocks ends, whatever the blocks contain: it reads one block for each directory block of the
  extent, unless one of them cannot be read.
\<close>

theorem directory_read_blocks_returns:
  assumes "unat n = k * unat (io_directory_block_size io)" and "io_directory_block_size io \<noteq> 0"
  shows "directory_read_blocks io fio entries off n =
    Some (fold_result (\<lambda>i es. read_directory_block io fio es
      (off + word_of_nat i * ucast (io_directory_block_size io))) [0..<k] entries)"
  using assms(1)
proof (induction k arbitrary: entries off n)
  case 0
  then show ?case by (subst directory_read_blocks_step) (simp add: unat_eq_0)
next
  case (Suc k)
  let ?s = "ucast (io_directory_block_size io) :: u64"
  have s: "0 < unat (io_directory_block_size io)" using assms(2) by (simp add: unat_gt_0)
  then have n: "n > 0" using Suc.prems by (simp add: word_gt_0 unat_eq_0 [symmetric] del: unat_eq_0)
  have "unat (n - ?s) = k * unat (io_directory_block_size io)"
    using Suc.prems by (subst unat_sub) (simp_all add: word_le_nat_alt)
  note IH = Suc.IH [OF this]
  have sh: "fold_result (\<lambda>i es. read_directory_block io fio es (off + word_of_nat i * ?s)) [Suc 0..<Suc k] es =
      fold_result (\<lambda>i es. read_directory_block io fio es (off + ?s + word_of_nat i * ?s)) [0..<k] es" for es
  proof -
    have "[Suc 0..<Suc k] = map Suc [0..<k]" by (simp only: map_Suc_upt)
    moreover have "fold_result f (map Suc xs) es = fold_result (\<lambda>i. f (Suc i)) xs es"
      for f :: "nat \<Rightarrow> directory_entry list \<Rightarrow> directory_entry list result" and xs es
      by (induction xs arbitrary: es) (auto simp: bindE_def split: sum.splits)
    ultimately show ?thesis by (simp add: algebra_simps del: upt_Suc)
  qed
  show ?case
    using n IH
    by (subst directory_read_blocks_step, subst upt_conv_Cons)
      (simp_all add: sh bindE_def del: upt_Suc split: sum.splits)
qed


lemma directory_read_blocks_returns_witness:
  "\<exists>r. directory_read_blocks (io_handle_zero\<lparr> io_block_size := 512, io_directory_block_size := 512 \<rparr>)
     (\<lambda>off n. None) [] 4096 1024 = Some r"
  using directory_read_blocks_returns [of 1024 2
      "io_handle_zero\<lparr> io_block_size := 512, io_directory_block_size := 512 \<rparr>" "\<lambda>off n. None" "[]" 4096]
  by simp

lemma dvd_unat_minus_size:
  fixes size :: u32 and n :: u64
  assumes "unat size = 2 ^ m" and "2 ^ m dvd unat (n - ucast size)"
  shows "2 ^ m dvd unat n"
proof -
  have lt: "(2 :: nat) ^ m < 2 ^ 32" using assms(1) unat_bounds(3) [of size] by simp
  have "m < 32" by (rule power_less_imp_less_exp [OF _ lt]) simp
  then have "(2 :: nat) ^ m dvd 2 ^ 64" by (intro le_imp_power_dvd) simp
  moreover have "unat n = unat (n - ucast size + ucast size)" by simp
  moreover have "unat (n - ucast size + ucast size) = (unat (n - ucast size) + 2 ^ m) mod 2 ^ 64"
    by (simp only: unat_word_ariths) (simp add: assms(1))
  ultimately show ?thesis using assms(2) by (metis dvd_add dvd_mod dvd_refl)
qed

text \<open>
  When the directory block size is a power of two and the size of an extent is not a multiple
  of it, the loop over its blocks never ends successfully: the remaining size wraps around
  and misses zero, so that the loop ends with an error or not at all.
\<close>

theorem directory_read_blocks_never_succeeds:
  assumes "unat (io_directory_block_size io) = 2 ^ m" and "\<not> 2 ^ m dvd unat n"
  shows "directory_read_blocks io fio entries off n \<noteq> Some (Inr es)"
proof
  assume r: "directory_read_blocks io fio entries off n = Some (Inr es)"
  have "unat (io_directory_block_size io) = 2 ^ m \<longrightarrow>
      (Inr es :: directory_entry list result) = Inr es \<longrightarrow> 2 ^ m dvd unat n"
  proof (rule directory_read_blocks.raw_induct [where P = "\<lambda>io _ _ _ n r.
        unat (io_directory_block_size io) = 2 ^ m \<longrightarrow> r = Inr es \<longrightarrow> 2 ^ m dvd unat n", OF _ r])
    fix rec :: "io_handle \<Rightarrow> file_io \<Rightarrow> directory_entry list \<Rightarrow> u64 \<Rightarrow> u64 \<Rightarrow> directory_entry list result option"
      and io' fio' entries' off' n' r'
    let ?m = "bindE (libfsxfs_block_directory_initialize None (unat (io_block_size io')))
        (\<lambda>b. libfsxfs_block_directory_read_file_io_handle b io' fio' off' entries')"
    let ?s = "ucast (io_directory_block_size io') :: u64"
    assume IH: "\<And>io file xs off n r. rec io file xs off n = Some r \<Longrightarrow>
        unat (io_directory_block_size io) = 2 ^ m \<longrightarrow> r = Inr es \<longrightarrow> 2 ^ m dvd unat n"
      and step: "(if n' > 0 then case ?m of Inl e \<Rightarrow> Some (Inl e)
        | Inr r \<Rightarrow> rec io' fio' (snd r) (off' + ?s) (n' - ?s)
        else Some (Inr entries')) = Some r'"
    show "unat (io_directory_block_size io') = 2 ^ m \<longrightarrow> r' = Inr es \<longrightarrow> 2 ^ m dvd unat n'"
    proof (intro impI)
      assume s: "unat (io_directory_block_size io') = 2 ^ m" and r': "r' = Inr es"
      show "2 ^ m dvd unat n'"
      proof (cases "n' > 0")
        case False
        then show ?thesis by (simp add: word_gt_0)
      next
        case True
        with step r' obtain x where "rec io' fio' x (off' + ?s) (n' - ?s) = Some (Inr es)"
          by (auto split: sum.splits)
        from IH [OF this] s have "2 ^ m dvd unat (n' - ?s)" by simp
        then show ?thesis by (rule dvd_unat_minus_size [OF s])
      qed
    qed
  qed
  with assms show False by simp
qed

lemma directory_read_blocks_never_succeeds_witness:
  "directory_read_blocks (io_handle_zero\<lparr> io_block_size := 512, io_directory_block_size := 1024 \<rparr>)
     (\<lambda>off n. Some (replicate n 0)) [] 4096 512 \<noteq> Some (Inr [])"
proof (rule directory_read_blocks_never_succeeds [where m = 10])
  show "\<not> (2 :: nat) ^ 10 dvd unat (512 :: u64)" by simp
qed simp

text \<open>
  With a comparison that is equality of the bytes of the names, the lookup of a name in a
  directory returns the first entry with that name and none when there is no such entry.
\<close>

theorem directory_lookup_first:
  assumes "\<And>s t. compare s t = Compare_Equal \<longleftrightarrow> s = t" and "\<And>s t. compare s t \<noteq> Compare_Error"
  shows "libfsxfs_directory_get_entry_by_utf8_name compare directory name =
    Inr (find (\<lambda>e. take (unat (de_name_size e)) (de_name e) = name) (dir_entries_array directory))"
proof -
  have c: "libfsxfs_directory_entry_compare_with_utf8_string compare e name =
      Inr (compare name (take (unat (de_name_size e)) (de_name e)))" for e
    using assms(2) [of name "take (unat (de_name_size e)) (de_name e)"]
    by (simp add: libfsxfs_directory_entry_compare_with_utf8_string_def split: comparison.splits)
  have "directory_find_utf8 compare es name =
      Inr (find (\<lambda>e. take (unat (de_name_size e)) (de_name e) = name) es)" for es
    by (induction es) (auto simp: c assms(1))
  then show ?thesis by (simp add: libfsxfs_directory_get_entry_by_utf8_name_def)
qed

lemma directory_lookup_first_witness:
  "libfsxfs_directory_get_entry_by_utf8_name
     (\<lambda>s t. if s = t then Compare_Equal else Compare_Less)
     \<lparr> dir_entries_array =
         [\<lparr> de_inode_number = 1, de_name = [0x61], de_name_size = 1 \<rparr>,
          \<lparr> de_inode_number = 2, de_name = [0x62], de_name_size = 1 \<rparr>] \<rparr> [0x62] =
   Inr (Some \<lparr> de_inode_number = 2, de_name = [0x62], de_name_size = 1 \<rparr>)"
  by (subst directory_lookup_first) (simp_all)

end
