(* ===== verification/File_System.thy ===== *)
theory File_System
  imports Inode_Btree Directory
begin

text \<open>
  The file system (\<open>libfsxfs_file_system.c\<close>): the inode of an inode number, and the lookup of a
  path from the root directory on.
\<close>

subsection \<open>Inodes by number\<close>

record file_system =
  fs_inode_btree :: inode_btree
  fs_root_directory_inode_number :: u64

definition libfsxfs_file_system_initialize ::
    "file_system option \<Rightarrow> u64 \<Rightarrow> file_system result" where
  "libfsxfs_file_system_initialize pointer root_directory_inode_number =
     (case pointer of Some _ \<Rightarrow> Inl Value_Already_Set | None \<Rightarrow>
      bindE (libfsxfs_inode_btree_initialize None) (\<lambda>inode_btree.
      Inr \<lparr> fs_inode_btree = inode_btree,
            fs_root_directory_inode_number = root_directory_inode_number \<rparr>))"

text \<open>The function returns 1 also when the inode information could not be read.\<close>

definition libfsxfs_file_system_read_inode_information ::
    "file_system \<Rightarrow> io_handle \<Rightarrow> file_io \<Rightarrow> u64 \<Rightarrow> file_system result" where
  "libfsxfs_file_system_read_inode_information fs io fio file_offset =
     (case libfsxfs_inode_btree_read_inode_information (fs_inode_btree fs) io fio file_offset of
        Inl (Undefined u) \<Rightarrow> Inl (Undefined u)
      | Inl e \<Rightarrow> Inr fs
      | Inr inode_btree \<Rightarrow> Inr (fs\<lparr> fs_inode_btree := inode_btree \<rparr>))"

text \<open>\<open>None\<close> stands for the return value 0, there is no such inode.\<close>

definition libfsxfs_file_system_get_inode_by_number ::
    "file_system \<Rightarrow> io_handle \<Rightarrow> file_io \<Rightarrow> u64 \<Rightarrow> inode option result" where
  "libfsxfs_file_system_get_inode_by_number fs io fio inode_number =
     (if io_inode_size io = 0 then Inl Value_Out_Of_Bounds else
      if inode_number = 0 \<or> inode_number > 0xffffffff then Inl Value_Out_Of_Bounds else
      bindE (libfsxfs_inode_btree_get_inode_by_number (fs_inode_btree fs) io fio inode_number)
        (\<lambda>file_offset.
      case file_offset of
        None \<Rightarrow> Inr None
      | Some file_offset \<Rightarrow>
          bindE (libfsxfs_inode_initialize None (unat (io_inode_size io))) (\<lambda>inode.
          bindE (libfsxfs_inode_read_file_io_handle inode io fio file_offset) (\<lambda>inode.
          Inr (Some inode)))))"

text \<open>The callers take any return value other than 1 for a failure.\<close>

definition get_existing_inode :: "file_system \<Rightarrow> io_handle \<Rightarrow> file_io \<Rightarrow> u64 \<Rightarrow> inode result" where
  "get_existing_inode fs io fio inode_number =
     bindE (libfsxfs_file_system_get_inode_by_number fs io fio inode_number) (\<lambda>inode.
     case inode of None \<Rightarrow> Inl Get_Failed | Some inode \<Rightarrow> Inr inode)"

subsection \<open>Paths\<close>

text \<open>
  \<open>copy string index\<close> stands for \<open>libuna_unicode_character_copy_from_utf8\<close> or \<open>_utf16\<close>: the
  character at an index of the string and the index behind it. The two functions of the code for
  UTF-8 and UTF-16 paths are the same but for the type of the units and the functions they call.
\<close>

type_synonym 'a unicode_copy = "'a list \<Rightarrow> nat \<Rightarrow> (u32 \<times> nat) result"

abbreviation (input) LIBFSXFS_SEPARATOR :: "'a::len word" where
  "LIBFSXFS_SEPARATOR \<equiv> 0x2f"

text \<open>
  The loop over the characters of a segment: the index behind the segment and its separator,
  and the number of units that are not part of the segment.
\<close>

partial_function (option) path_segment_loop ::
    "'a unicode_copy \<Rightarrow> 'a list \<Rightarrow> nat \<Rightarrow> nat \<Rightarrow> (nat \<times> nat) result option" where
  "path_segment_loop copy string string_index segment_length =
     (if string_index < length string then
        (case copy string string_index of
           Inl e \<Rightarrow> Some (Inl e)
         | Inr r \<Rightarrow>
             if fst r = LIBFSXFS_SEPARATOR \<or> fst r = 0
             then Some (Inr (snd r, segment_length + 1))
             else path_segment_loop copy string (snd r) segment_length)
      else Some (Inr (string_index, segment_length)))"

text \<open>The segment is passed on as a pointer into the string and a length.\<close>

definition get_units :: "'a list \<Rightarrow> nat \<Rightarrow> nat \<Rightarrow> 'a list result" where
  "get_units string off n =
     (if off + n \<le> length string then Inr (take n (drop off string))
      else Inl (Undefined Out_Of_Bounds_Read))"

text \<open>
  One turn of the loop over the segments: the directory of an inode is read, the entry of the
  segment is looked up and its inode is read. The result is \<open>None\<close> inside when there is no such
  entry, and otherwise the index behind the segment, the entry and its inode.
\<close>

definition path_directory ::
    "io_handle \<Rightarrow> file_io \<Rightarrow> inode \<Rightarrow> directory result option" where
  "path_directory io fio inode =
     (case libfsxfs_directory_initialize None of
        Inl e \<Rightarrow> Some (Inl e)
      | Inr directory \<Rightarrow> libfsxfs_directory_read_file_io_handle directory io fio inode)"

definition path_entry ::
    "(directory \<Rightarrow> 'a list \<Rightarrow> directory_entry option result) \<Rightarrow> file_system \<Rightarrow> io_handle \<Rightarrow> file_io
      \<Rightarrow> directory \<Rightarrow> 'a list \<Rightarrow> nat \<Rightarrow> nat \<Rightarrow> (directory_entry \<times> inode) option result" where
  "path_entry get_entry fs io fio directory string segment_index segment_length =
     bindE (if segment_length = 0 then Inr None
            else bindE (get_units string segment_index segment_length) (get_entry directory)) (\<lambda>entry.
     case entry of
       None \<Rightarrow> Inr None
     | Some entry \<Rightarrow>
         bindE (get_existing_inode fs io fio (de_inode_number entry)) (\<lambda>inode.
         Inr (Some (entry, inode))))"

definition path_step ::
    "(directory \<Rightarrow> 'a list \<Rightarrow> directory_entry option result) \<Rightarrow> 'a unicode_copy \<Rightarrow> file_system
      \<Rightarrow> io_handle \<Rightarrow> file_io \<Rightarrow> 'a list \<Rightarrow> nat \<Rightarrow> inode
      \<Rightarrow> (nat \<times> directory_entry \<times> inode) option result option" where
  "path_step get_entry copy fs io fio string string_index inode =
     (case path_directory io fio inode of
        None \<Rightarrow> None
      | Some (Inl e) \<Rightarrow> Some (Inl e)
      | Some (Inr directory) \<Rightarrow>
          (case path_segment_loop copy string string_index string_index of
             None \<Rightarrow> None
           | Some (Inl e) \<Rightarrow> Some (Inl e)
           | Some (Inr (end_index, segment_length)) \<Rightarrow>
               Some (bindE (path_entry get_entry fs io fio directory string string_index
                              (size_sub end_index segment_length)) (\<lambda>found.
                 Inr (case found of None \<Rightarrow> None | Some (entry, inode) \<Rightarrow> Some (end_index, entry, inode))))))"

type_synonym path_result = "(u64 \<times> inode \<times> directory_entry option) option result option"

partial_function (option) path_loop ::
    "(directory \<Rightarrow> 'a list \<Rightarrow> directory_entry option result) \<Rightarrow> 'a unicode_copy \<Rightarrow> file_system
      \<Rightarrow> io_handle \<Rightarrow> file_io \<Rightarrow> 'a list \<Rightarrow> nat \<Rightarrow> u64 \<Rightarrow> inode \<Rightarrow> directory_entry option \<Rightarrow> path_result" where
  "path_loop get_entry copy fs io fio string string_index inode_number inode directory_entry =
     (if string_index < length string then
        (case path_step get_entry copy fs io fio string string_index inode of
           None \<Rightarrow> None
         | Some s \<Rightarrow>
             (case s of
                Inl e \<Rightarrow> Some (Inl e)
              | Inr r \<Rightarrow>
                  (case r of
                     None \<Rightarrow> Some (Inr None)
                   | Some t \<Rightarrow>
                       path_loop get_entry copy fs io fio string (fst t)
                         (de_inode_number (fst (snd t))) (snd (snd t)) (Some (fst (snd t))))))
      else Some (Inr (Some (inode_number, inode, directory_entry))))"

definition get_directory_entry_by_path ::
    "(directory \<Rightarrow> 'a::len word list \<Rightarrow> directory_entry option result) \<Rightarrow> 'a word unicode_copy
      \<Rightarrow> file_system \<Rightarrow> io_handle \<Rightarrow> file_io \<Rightarrow> 'a word list \<Rightarrow> path_result" where
  "get_directory_entry_by_path get_entry copy fs io fio string =
     (if length string > SSIZE_MAX then Some (Inl Value_Exceeds_Maximum) else
      let string_index = (if length string > 0 \<and> string ! 0 = LIBFSXFS_SEPARATOR then 1 else 0) in
      (case get_existing_inode fs io fio (fs_root_directory_inode_number fs) of
         Inl e \<Rightarrow> Some (Inl e)
       | Inr inode \<Rightarrow>
           (case (if length string = 0 \<or> length string = 1
                  then Some (Inr (Some (fs_root_directory_inode_number fs, inode, None)))
                  else path_loop get_entry copy fs io fio string string_index
                         (fs_root_directory_inode_number fs) inode None) of
              None \<Rightarrow> None
            | Some r \<Rightarrow>
                Some (bindE r (\<lambda>found.
                case found of
                  None \<Rightarrow> Inr None
                | Some (inode_number, inode, safe_directory_entry) \<Rightarrow>
                    bindE (libfsxfs_directory_entry_clone None safe_directory_entry) (\<lambda>directory_entry.
                    Inr (Some (inode_number, inode, directory_entry))))))))"

definition libfsxfs_file_system_get_directory_entry_by_utf8_path ::
    "u8 name_compare \<Rightarrow> u8 unicode_copy \<Rightarrow> file_system \<Rightarrow> io_handle \<Rightarrow> file_io \<Rightarrow> u8 list \<Rightarrow> path_result" where
  "libfsxfs_file_system_get_directory_entry_by_utf8_path compare copy fs io fio utf8_string =
     get_directory_entry_by_path (libfsxfs_directory_get_entry_by_utf8_name compare) copy fs io fio
       utf8_string"

definition libfsxfs_file_system_get_directory_entry_by_utf16_path ::
    "u16 name_compare \<Rightarrow> u16 unicode_copy \<Rightarrow> file_system \<Rightarrow> io_handle \<Rightarrow> file_io \<Rightarrow> u16 list \<Rightarrow> path_result" where
  "libfsxfs_file_system_get_directory_entry_by_utf16_path compare copy fs io fio utf16_string =
     get_directory_entry_by_path (libfsxfs_directory_get_entry_by_utf16_name compare) copy fs io fio
       utf16_string"

subsection \<open>The lookup of a path as a walk\<close>

text \<open>
  The lookup that is meant: name by name from an inode on, the directory of the inode, its entry
  of that name and the inode of the entry.
\<close>

definition walk_entry ::
    "(directory \<Rightarrow> 'a list \<Rightarrow> directory_entry option result) \<Rightarrow> file_system \<Rightarrow> io_handle \<Rightarrow> file_io
      \<Rightarrow> directory \<Rightarrow> 'a list \<Rightarrow> (directory_entry \<times> inode) option result" where
  "walk_entry get_entry fs io fio directory name =
     bindE (get_entry directory name) (\<lambda>entry.
     case entry of
       None \<Rightarrow> Inr None
     | Some entry \<Rightarrow>
         bindE (get_existing_inode fs io fio (de_inode_number entry)) (\<lambda>inode.
         Inr (Some (entry, inode))))"

fun path_walk ::
    "(directory \<Rightarrow> 'a list \<Rightarrow> directory_entry option result) \<Rightarrow> file_system \<Rightarrow> io_handle \<Rightarrow> file_io
      \<Rightarrow> 'a list list \<Rightarrow> u64 \<Rightarrow> inode \<Rightarrow> directory_entry option \<Rightarrow> path_result" where
  "path_walk get_entry fs io fio [] n inode entry = Some (Inr (Some (n, inode, entry)))"
| "path_walk get_entry fs io fio (name # names) n inode entry =
     (case path_directory io fio inode of
        None \<Rightarrow> None
      | Some (Inl e) \<Rightarrow> Some (Inl e)
      | Some (Inr directory) \<Rightarrow>
          (case walk_entry get_entry fs io fio directory name of
             Inl e \<Rightarrow> Some (Inl e)
           | Inr None \<Rightarrow> Some (Inr None)
           | Inr (Some (entry, inode)) \<Rightarrow>
               path_walk get_entry fs io fio names (de_inode_number entry) inode (Some entry)))"

text \<open>
  What the Unicode library is relied on for: at the start of an encoded character it delivers
  that character and the index behind it. The separator is encoded as itself.
\<close>

definition unicode_decodes ::
    "'a::len word unicode_copy \<Rightarrow> (u32 \<Rightarrow> 'a word list) \<Rightarrow> (u32 \<Rightarrow> bool) \<Rightarrow> bool" where
  "unicode_decodes copy encode valid \<longleftrightarrow>
     (\<forall>pre c rest. valid c \<longrightarrow> encode c \<noteq> [] \<and>
        copy (pre @ encode c @ rest) (length pre) = Inr (c, length pre + length (encode c))) \<and>
     valid LIBFSXFS_SEPARATOR \<and> encode LIBFSXFS_SEPARATOR = [LIBFSXFS_SEPARATOR]"

definition encode_name :: "(u32 \<Rightarrow> 'a list) \<Rightarrow> u32 list \<Rightarrow> 'a list" where
  "encode_name encode cs = concat (map encode cs)"

definition name_valid :: "(u32 \<Rightarrow> bool) \<Rightarrow> u32 list \<Rightarrow> bool" where
  "name_valid valid cs \<longleftrightarrow>
     cs \<noteq> [] \<and> (\<forall>c \<in> set cs. valid c \<and> c \<noteq> 0 \<and> c \<noteq> LIBFSXFS_SEPARATOR)"

text \<open>
  The comparison of names is relied on for the strings that encode characters, \<open>encoded_name\<close>: it does
  not fail, it is equality, and the end of string character that the second string may have is ignored.
\<close>

definition encoded_name :: "(u32 \<Rightarrow> 'a list) \<Rightarrow> (u32 \<Rightarrow> bool) \<Rightarrow> 'a list \<Rightarrow> bool" where
  "encoded_name encode valid s \<longleftrightarrow> (\<exists>cs. (\<forall>c \<in> set cs. valid c \<and> c \<noteq> 0) \<and> s = encode_name encode cs)"

definition compares_names :: "u8 name_compare \<Rightarrow> (u8 list \<Rightarrow> bool) \<Rightarrow> bool" where
  "compares_names compare encoded \<longleftrightarrow>
     (\<forall>s t. encoded s \<and> encoded t \<longrightarrow>
        compare s t \<noteq> Compare_Error \<and> (compare s t = Compare_Equal \<longleftrightarrow> s = t) \<and>
        compare s (t @ [0]) \<noteq> Compare_Error \<and> (compare s (t @ [0]) = Compare_Equal \<longleftrightarrow> s = t))"

lemma encoded_nameI: "name_valid valid cs \<Longrightarrow> encoded_name encode valid (encode_name encode cs)"
  by (auto simp: encoded_name_def name_valid_def)

fun join_names :: "'a::len word list list \<Rightarrow> 'a word list" where
  "join_names [] = []"
| "join_names [name] = name"
| "join_names (name # names) = name @ LIBFSXFS_SEPARATOR # join_names names"

lemma unicode_decodesD:
  assumes "unicode_decodes copy encode valid"
  shows "valid c \<Longrightarrow> encode c \<noteq> []"
    and "valid c \<Longrightarrow> copy (pre @ encode c @ rest) (length pre) = Inr (c, length pre + length (encode c))"
    and "copy (pre @ LIBFSXFS_SEPARATOR # rest) (length pre) = Inr (LIBFSXFS_SEPARATOR, length pre + 1)"
proof -
  have d: "\<And>pre c rest. valid c \<Longrightarrow> encode c \<noteq> [] \<and>
      copy (pre @ encode c @ rest) (length pre) = Inr (c, length pre + length (encode c))"
    "valid LIBFSXFS_SEPARATOR" "encode LIBFSXFS_SEPARATOR = [LIBFSXFS_SEPARATOR]"
    using assms by (simp_all add: unicode_decodes_def)
  show "valid c \<Longrightarrow> encode c \<noteq> []"
    "valid c \<Longrightarrow> copy (pre @ encode c @ rest) (length pre) = Inr (c, length pre + length (encode c))"
    using d(1) by blast+
  show "copy (pre @ LIBFSXFS_SEPARATOR # rest) (length pre) = Inr (LIBFSXFS_SEPARATOR, length pre + 1)"
    using d(1) [OF d(2), of pre rest] d(3) by simp
qed

text \<open>The loop over the characters passes a name.\<close>

lemma path_segment_loop_name:
  assumes dec: "unicode_decodes copy encode valid"
    and "\<forall>c \<in> set cs. valid c \<and> c \<noteq> 0 \<and> c \<noteq> LIBFSXFS_SEPARATOR"
  shows "path_segment_loop copy (pre @ encode_name encode cs @ rest) (length pre) n =
    path_segment_loop copy (pre @ encode_name encode cs @ rest) (length pre + length (encode_name encode cs)) n"
  using assms(2)
proof (induction cs arbitrary: pre)
  case Nil
  then show ?case by (simp add: encode_name_def)
next
  case (Cons c cs)
  let ?s = "pre @ encode c @ encode_name encode cs @ rest"
  have v: "valid c" "c \<noteq> 0" "c \<noteq> LIBFSXFS_SEPARATOR" using Cons.prems by auto
  note d = unicode_decodesD [OF dec]
  have "path_segment_loop copy ?s (length pre) n = path_segment_loop copy ?s (length pre + length (encode c)) n"
    using d(1,2) [OF v(1)] v(2,3) by (subst path_segment_loop.simps) simp
  with Cons.IH [of "pre @ encode c"] Cons.prems show ?case by (simp add: encode_name_def add.assoc)
qed

lemma path_segment_loop_segment:
  assumes dec: "unicode_decodes copy encode valid" and name: "name_valid valid cs"
    and rest: "rest = [] \<or> hd rest = LIBFSXFS_SEPARATOR"
  shows "path_segment_loop copy (pre @ encode_name encode cs @ rest) (length pre) n =
    Some (Inr (length pre + length (encode_name encode cs) + (if rest = [] then 0 else 1),
      n + (if rest = [] then 0 else 1)))"
proof -
  let ?p = "pre @ encode_name encode cs"
  have "path_segment_loop copy (?p @ rest) (length ?p) n =
      Some (Inr (length ?p + (if rest = [] then 0 else 1), n + (if rest = [] then 0 else 1)))"
    using rest unicode_decodesD(3) [OF dec, of ?p "tl rest"]
    by (subst path_segment_loop.simps, cases rest) auto
  then show ?thesis
    using path_segment_loop_name [OF dec, of cs pre rest n] name by (simp add: name_valid_def)
qed

lemma encode_name_nonempty:
  "unicode_decodes copy encode valid \<Longrightarrow> name_valid valid cs \<Longrightarrow> encode_name encode cs \<noteq> []"
  by (cases cs) (auto simp: name_valid_def encode_name_def dest: unicode_decodesD(1))

text \<open>One turn of the loop at the start of a name.\<close>

lemma path_step_name:
  assumes "unicode_decodes copy encode valid" and "name_valid valid cs"
    and "rest = [] \<or> hd rest = LIBFSXFS_SEPARATOR"
  shows "path_step get_entry copy fs io fio (pre @ encode_name encode cs @ rest) (length pre) inode =
    (case path_directory io fio inode of
       None \<Rightarrow> None
     | Some (Inl e) \<Rightarrow> Some (Inl e)
     | Some (Inr directory) \<Rightarrow>
         Some (bindE (walk_entry get_entry fs io fio directory (encode_name encode cs)) (\<lambda>found.
           Inr (case found of None \<Rightarrow> None | Some (entry, inode) \<Rightarrow>
             Some (length pre + length (encode_name encode cs) + (if rest = [] then 0 else 1), entry, inode)))))"
proof -
  let ?name = "encode_name encode cs" and ?k = "if rest = [] then 0 else 1 :: nat"
  let ?s = "pre @ ?name @ rest"
  define e where "e = length pre + length ?name + ?k"
  define k where "k = length pre + ?k"
  have seg: "path_segment_loop copy ?s (length pre) (length pre) = Some (Inr (e, k))"
    unfolding e_def k_def by (rule path_segment_loop_segment [OF assms])
  have size: "size_sub e k = length ?name" by (simp add: e_def k_def)
  have entry: "path_entry get_entry fs io fio directory ?s (length pre) (length ?name) =
      walk_entry get_entry fs io fio directory ?name" for directory
    using encode_name_nonempty [OF assms(1,2)] by (simp add: path_entry_def walk_entry_def get_units_def)
  show ?thesis
    unfolding path_step_def seg e_def [symmetric]
    by (simp add: size entry split: option.splits sum.splits)
qed

lemma path_loop_walk:
  assumes dec: "unicode_decodes copy encode valid" and "names \<noteq> []"
    and "\<forall>cs \<in> set names. name_valid valid cs" and trail: "trail = [] \<or> trail = [LIBFSXFS_SEPARATOR]"
  shows "path_loop get_entry copy fs io fio (pre @ join_names (map (encode_name encode) names) @ trail)
      (length pre) n inode entry =
    path_walk get_entry fs io fio (map (encode_name encode) names) n inode entry"
  using assms(2,3)
proof (induction names arbitrary: pre n inode entry)
  case Nil
  then show ?case by simp
next
  case (Cons cs names)
  let ?name = "encode_name encode cs"
  let ?rest = "if names = [] then trail else LIBFSXFS_SEPARATOR # join_names (map (encode_name encode) names) @ trail"
  let ?s = "pre @ ?name @ ?rest"
  have s: "pre @ join_names (map (encode_name encode) (cs # names)) @ trail = ?s"
    by (cases names) simp_all
  have v: "name_valid valid cs" using Cons.prems by simp
  then have ne: "?name \<noteq> []" by (rule encode_name_nonempty [OF dec])
  have step: "path_step get_entry copy fs io fio ?s (length pre) inode =
    (case path_directory io fio inode of
       None \<Rightarrow> None
     | Some (Inl e) \<Rightarrow> Some (Inl e)
     | Some (Inr directory) \<Rightarrow>
         Some (bindE (walk_entry get_entry fs io fio directory ?name) (\<lambda>found.
           Inr (case found of None \<Rightarrow> None | Some (entry, inode) \<Rightarrow>
             Some (length pre + length ?name + (if ?rest = [] then 0 else 1), entry, inode)))))"
    by (rule path_step_name [OF dec v]) (use trail in auto)
  have rec: "path_loop get_entry copy fs io fio ?s (length pre + length ?name + (if ?rest = [] then 0 else 1)) n' inode' entry' =
    path_walk get_entry fs io fio (map (encode_name encode) names) n' inode' entry'" for n' inode' entry'
  proof (cases "names = []")
    case True
    then show ?thesis using trail by (subst path_loop.simps) auto
  next
    case False
    then show ?thesis
      using Cons.IH [of "pre @ ?name @ [LIBFSXFS_SEPARATOR]" n' inode' entry'] Cons.prems by (simp add: add.assoc)
  qed
  show ?case
    unfolding s
    using ne rec
    by (subst path_loop.simps)
      (auto simp: step bindE_def split: option.splits sum.splits simp del: path_loop.simps)
qed

text \<open>The clone of the entry is the entry.\<close>

lemma path_result_clone:
  "bindE r (\<lambda>found. case found of None \<Rightarrow> Inr None
     | Some (inode_number, inode, safe_directory_entry) \<Rightarrow>
         bindE (libfsxfs_directory_entry_clone None safe_directory_entry) (\<lambda>directory_entry.
         Inr (Some (inode_number, inode, directory_entry)))) =
   (r :: (u64 \<times> inode \<times> directory_entry option) option result)"
  by (cases r) (auto simp: libfsxfs_directory_entry_clone_def split: option.splits)

lemma get_directory_entry_by_path_walk:
  assumes dec: "unicode_decodes copy encode valid" and ne: "names \<noteq> []"
    and names: "\<forall>cs \<in> set names. name_valid valid cs"
    and lead: "lead = [] \<or> lead = [LIBFSXFS_SEPARATOR]"
    and trail: "trail = [] \<or> trail = [LIBFSXFS_SEPARATOR]"
    and path: "path = lead @ join_names (map (encode_name encode) names) @ trail"
    and len: "2 \<le> length path" "length path \<le> SSIZE_MAX"
  shows "get_directory_entry_by_path get_entry copy fs io fio path =
    (case get_existing_inode fs io fio (fs_root_directory_inode_number fs) of
       Inl e \<Rightarrow> Some (Inl e)
     | Inr inode \<Rightarrow>
         path_walk get_entry fs io fio (map (encode_name encode) names)
           (fs_root_directory_inode_number fs) inode None)"
proof -
  let ?j = "join_names (map (encode_name encode) names)"
  obtain cs names' where n: "names = cs # names'" using ne by (cases names) auto
  obtain c cs' where c: "cs = c # cs'" "valid c" "c \<noteq> LIBFSXFS_SEPARATOR"
    using names n by (cases cs) (auto simp: name_valid_def)
  have j: "?j = encode c @ drop (length (encode c)) ?j"
    by (cases names') (simp_all add: n c(1) encode_name_def)
  have e: "encode c \<noteq> []" by (rule unicode_decodesD(1) [OF dec c(2)])
  have "encode c ! 0 \<noteq> LIBFSXFS_SEPARATOR"
  proof
    assume "encode c ! 0 = LIBFSXFS_SEPARATOR"
    with e have "encode c = LIBFSXFS_SEPARATOR # tl (encode c)" by (cases "encode c") auto
    then have "copy (encode c) 0 = Inr (LIBFSXFS_SEPARATOR, 1)"
      using unicode_decodesD(3) [OF dec, of "[]" "tl (encode c)"] by simp
    with unicode_decodesD(2) [OF dec c(2), of "[]" "[]"] c(3) show False by simp
  qed
  then have "path ! 0 = LIBFSXFS_SEPARATOR \<longleftrightarrow> lead \<noteq> []"
    using lead e by (subst path, subst j) (auto simp: nth_append)
  then have "(if length path > 0 \<and> path ! 0 = LIBFSXFS_SEPARATOR then 1 else 0) = length lead"
    using lead len(1) by auto
  moreover have "path_loop get_entry copy fs io fio path (length lead) n inode None =
      path_walk get_entry fs io fio (map (encode_name encode) names) n inode None" for n inode
    unfolding path by (rule path_loop_walk [OF dec ne names trail])
  ultimately show ?thesis
    using len by (auto simp: get_directory_entry_by_path_def path_result_clone Let_def split: option.splits sum.splits)
qed

text \<open>
  C7: The lookup of a path is the walk along its names from the root directory: for names of
  valid characters without separator, with or without a separator in front of the first and
  behind the last, the names are cut out of the path as they were put in, and the result (the
  entry and inode of the last name, no entry, an error, or no return) is that of the walk.
\<close>

theorem path_lookup_walks:
  assumes "unicode_decodes copy encode valid" and "names \<noteq> []" and "\<forall>cs \<in> set names. name_valid valid cs"
    and "lead = [] \<or> lead = [LIBFSXFS_SEPARATOR]" and "trail = [] \<or> trail = [LIBFSXFS_SEPARATOR]"
    and "path = lead @ join_names (map (encode_name encode) names) @ trail"
    and "2 \<le> length path" and "length path \<le> SSIZE_MAX"
  shows "libfsxfs_file_system_get_directory_entry_by_utf8_path compare copy fs io fio path =
    (case get_existing_inode fs io fio (fs_root_directory_inode_number fs) of
       Inl e \<Rightarrow> Some (Inl e)
     | Inr inode \<Rightarrow>
         path_walk (libfsxfs_directory_get_entry_by_utf8_name compare) fs io fio
           (map (encode_name encode) names) (fs_root_directory_inode_number fs) inode None)"
  unfolding libfsxfs_file_system_get_directory_entry_by_utf8_path_def
  by (rule get_directory_entry_by_path_walk [OF assms])

text \<open>
  A path of one unit that is not the separator, such as the name of a file of one
  character, is not looked up: the answer is the root directory, whatever the unit is.
\<close>

theorem path_of_one_unit_is_root:
  assumes "get_existing_inode fs io fio (fs_root_directory_inode_number fs) = Inr inode"
  shows "libfsxfs_file_system_get_directory_entry_by_utf8_path compare copy fs io fio [unit] =
      Some (Inr (Some (fs_root_directory_inode_number fs, inode, None)))"
  using assms
  by (simp add: libfsxfs_file_system_get_directory_entry_by_utf8_path_def get_directory_entry_by_path_def
      libfsxfs_directory_entry_clone_def Let_def)

subsection \<open>Memory safety of the lookup\<close>

lemma get_inode_by_number_safe [safe_intros]:
  assumes "io_valid io"
  shows "fault_free (libfsxfs_file_system_get_inode_by_number fs io fio n)"
  unfolding libfsxfs_file_system_get_inode_by_number_def
proof (intro safe_intros)
  show "fault_free (libfsxfs_inode_btree_get_inode_by_number (fs_inode_btree fs) io fio n)"
    using assms by (intro get_inode_by_number_fault_free) (simp add: io_valid_def)
  fix off
  show "fault_free (case off of None \<Rightarrow> Inr None
      | Some file_offset \<Rightarrow>
          bindE (libfsxfs_inode_initialize None (unat (io_inode_size io))) (\<lambda>inode.
          bindE (libfsxfs_inode_read_file_io_handle inode io fio file_offset) (\<lambda>inode. Inr (Some inode))))"
    using io_validD(1) [OF assms]
    by (cases off) (auto intro!: safe_intros inode_read_fault_free simp: libfsxfs_inode_initialize_def)
qed simp_all

lemma get_existing_inode_safe [safe_intros]:
  "io_valid io \<Longrightarrow> fault_free (get_existing_inode fs io fio n)"
  unfolding get_existing_inode_def
  by (intro safe_intros) (auto split: option.splits)

lemma get_existing_inode_inline_ok:
  "get_existing_inode fs io fio n = Inr inode \<Longrightarrow> inode_inline_ok inode"
  by (auto simp: get_existing_inode_def libfsxfs_file_system_get_inode_by_number_def
      split: if_splits option.splits intro: inode_read_inline_ok)

lemma get_existing_inode_inline_attributes_ok:
  "get_existing_inode fs io fio n = Inr inode \<Longrightarrow> inode_inline_attributes_ok inode"
  by (auto simp: get_existing_inode_def libfsxfs_file_system_get_inode_by_number_def
      split: if_splits option.splits intro: inode_read_inline_attributes_ok)

lemma path_directory_safe:
  assumes "io_valid io" and "inode_inline_ok inode" and "path_directory io fio inode = Some r"
  shows "fault_free r"
proof -
  have "libfsxfs_directory_read_file_io_handle \<lparr> dir_entries_array = [] \<rparr> io fio inode = Some r"
    using assms(3) by (simp add: path_directory_def libfsxfs_directory_initialize_def)
  from directory_read_fault_free [OF io_validD(1) [OF assms(1)] _ this] show ?thesis
    using assms(2) by (fastforce simp: inode_inline_ok_def)
qed

text \<open>The library delivers an index behind the character that is inside the string.\<close>

definition unicode_advances :: "'a unicode_copy \<Rightarrow> bool" where
  "unicode_advances copy \<longleftrightarrow>
     (\<forall>s i. fault_free (copy s i) \<and> (\<forall>c j. i < length s \<longrightarrow> copy s i = Inr (c, j) \<longrightarrow> i < j \<and> j \<le> length s))"

lemma path_segment_loop_result:
  assumes "unicode_advances copy"
  shows "i \<le> length s \<Longrightarrow> n \<le> i \<Longrightarrow> \<exists>r. path_segment_loop copy s i n = Some r \<and> fault_free r \<and>
    (\<forall>e k. r = Inr (e, k) \<longrightarrow> n \<le> k \<and> k \<le> e \<and> e \<le> length s)"
proof (induction "length s - i" arbitrary: i rule: less_induct)
  case less
  show ?case
  proof (cases "i < length s")
    case False
    then show ?thesis using less.prems by (subst path_segment_loop.simps) simp
  next
    case True
    have c: "fault_free (copy s i)" "\<And>c j. copy s i = Inr (c, j) \<Longrightarrow> i < j \<and> j \<le> length s"
      using assms True unfolding unicode_advances_def by blast+
    show ?thesis
    proof (cases "copy s i")
      case (Inl e)
      then show ?thesis using True c(1) by (subst path_segment_loop.simps) simp
    next
      case (Inr r)
      obtain u j where r: "r = (u, j)" by (cases r)
      have j: "i < j" "j \<le> length s" using c(2) Inr r by auto
      then have "length s - j < length s - i" using True by simp
      from less.hyps [OF this j(2)] show ?thesis
        using True Inr r j less.prems by (subst path_segment_loop.simps) auto
    qed
  qed
qed

lemma path_entry_safe:
  assumes "io_valid io" and "\<And>d n. fault_free (get_entry d n)" and "off + n \<le> length s"
  shows "fault_free (path_entry get_entry fs io fio directory s off n)"
  unfolding path_entry_def
  using assms by (intro safe_intros) (auto simp: get_units_def intro!: safe_intros split: option.splits)

lemma path_step_safe:
  assumes "io_valid io" and "unicode_advances copy" and "\<And>d n. fault_free (get_entry d n)"
    and "inode_inline_ok inode" and "i \<le> length s"
    and "path_step get_entry copy fs io fio s i inode = Some r"
  shows "fault_free r" and "r = Inr (Some (e, entry, inode')) \<Longrightarrow> e \<le> length s \<and> inode_inline_ok inode'"
proof -
  obtain q where q: "path_segment_loop copy s i i = Some q" "fault_free q"
    "\<And>e k. q = Inr (e, k) \<Longrightarrow> i \<le> k \<and> k \<le> e \<and> e \<le> length s"
    using path_segment_loop_result [OF assms(2,5), of i] by auto
  show "fault_free r"
    using assms(6) q path_directory_safe [OF assms(1,4), of fio]
    by (auto simp: path_step_def split: option.splits sum.splits
        intro!: fault_free_bindE path_entry_safe [OF assms(1,3)])
  show "r = Inr (Some (e, entry, inode')) \<Longrightarrow> e \<le> length s \<and> inode_inline_ok inode'"
    using assms(6) q(1,3)
    by (auto simp: path_step_def path_entry_def split: option.splits sum.splits if_splits
        dest: get_existing_inode_inline_ok)
qed

lemma path_loop_safe:
  assumes "path_loop get_entry copy fs io fio s i n inode entry = Some r"
    and "io_valid io" and "unicode_advances copy" and "\<forall>d n. fault_free (get_entry d n)"
    and "inode_inline_ok inode" and "i \<le> length s"
  shows "fault_free r"
proof -
  have "io_valid io \<longrightarrow> unicode_advances copy \<longrightarrow> (\<forall>d n. fault_free (get_entry d n)) \<longrightarrow>
      inode_inline_ok inode \<longrightarrow> i \<le> length s \<longrightarrow> fault_free r"
  proof (rule path_loop.raw_induct [where P = "\<lambda>get_entry copy fs io fio s i n inode entry r.
        io_valid io \<longrightarrow> unicode_advances copy \<longrightarrow> (\<forall>d n. fault_free (get_entry d n)) \<longrightarrow>
        inode_inline_ok inode \<longrightarrow> i \<le> length s \<longrightarrow> fault_free r", OF _ assms(1)], intro impI)
    fix rec and get_entry :: "directory \<Rightarrow> 'a list \<Rightarrow> directory_entry option result"
      and copy fs io fio s i n inode entry r
    assume IH: "\<And>get_entry copy fs io fio s i n inode entry r.
        rec get_entry copy fs io fio s i n inode entry = Some r \<Longrightarrow>
        io_valid io \<longrightarrow> unicode_advances copy \<longrightarrow> (\<forall>d n. fault_free (get_entry d n)) \<longrightarrow>
        inode_inline_ok inode \<longrightarrow> i \<le> length s \<longrightarrow> fault_free r"
      and r: "(if i < length s then case path_step get_entry copy fs io fio s i inode of
          None \<Rightarrow> None
        | Some s' \<Rightarrow> (case s' of Inl e \<Rightarrow> Some (Inl e)
            | Inr r \<Rightarrow> (case r of None \<Rightarrow> Some (Inr None)
                | Some t \<Rightarrow> rec get_entry copy fs io fio s (fst t) (de_inode_number (fst (snd t)))
                    (snd (snd t)) (Some (fst (snd t)))))
        else Some (Inr (Some (n, inode, entry)))) = Some r"
      and h: "io_valid io" "unicode_advances copy" "\<forall>d n. fault_free (get_entry d n)"
        "inode_inline_ok inode" "i \<le> length s"
    show "fault_free r"
    proof (cases "i < length s")
      case False
      with r show ?thesis by auto
    next
      case True
      with r obtain q where q: "path_step get_entry copy fs io fio s i inode = Some q"
        by (cases "path_step get_entry copy fs io fio s i inode") auto
      note safe = path_step_safe [OF h(1,2) spec [OF spec [OF h(3)]] h(4,5) q]
      show ?thesis
      proof (cases q)
        case (Inl e)
        with r True q safe(1) show ?thesis by auto
      next
        case (Inr t)
        show ?thesis
        proof (cases t)
          case None
          with r True q Inr show ?thesis by auto
        next
          case (Some u)
          obtain e entry' inode' where u: "u = (e, entry', inode')" by (cases u)
          have "rec get_entry copy fs io fio s e (de_inode_number entry') inode' (Some entry') = Some r"
            using r True q Inr Some u by simp
          from IH [OF this] show ?thesis using h safe(2) Inr Some u by blast
        qed
      qed
    qed
  qed
  with assms show ?thesis by blast
qed

text \<open>
  What the walk needs of the lookup of a name in a directory, for the strings of both encodings:
  it is free of undefined behaviour. Then so is the lookup of a path, and what it ends with is the
  inode of the number that it ends with.
\<close>

locale directory_lookup =
  fixes get_entry :: "directory \<Rightarrow> 'a::len word list \<Rightarrow> directory_entry option result"
  assumes lookup_safe: "fault_free (get_entry directory name)"
begin

lemma by_path_safe:
  assumes "io_valid io" and "unicode_advances copy"
    and "get_directory_entry_by_path get_entry copy fs io fio path = Some r"
  shows "fault_free r"
proof -
  have loop: "fault_free q" if "path_loop get_entry copy fs io fio path i n inode None = Some q"
      "get_existing_inode fs io fio m = Inr inode" "i \<le> length path" for q i n m inode
    using path_loop_safe [OF that(1) assms(1,2) _ get_existing_inode_inline_ok [OF that(2)] that(3)] lookup_safe
    by blast
  have root: "fault_free (get_existing_inode fs io fio (fs_root_directory_inode_number fs))"
    by (rule get_existing_inode_safe [OF assms(1)])
  show ?thesis
    using assms(3) root
    unfolding get_directory_entry_by_path_def Let_def
    by (cases path)
      (auto split: if_splits sum.splits option.splits simp: Suc_le_eq path_result_clone intro: loop)
qed

end

lemma directory_find_safe:
  "fault_free (directory_find_utf8 compare8 es name8)" "fault_free (directory_find_utf16 compare16 es name16)"
proof -
  show "fault_free (directory_find_utf8 compare8 es name8)"
    by (induction es)
      (auto intro!: safe_intros simp: libfsxfs_directory_entry_compare_with_utf8_string_def split: comparison.splits)
  show "fault_free (directory_find_utf16 compare16 es name16)"
    by (induction es)
      (auto intro!: safe_intros simp: libfsxfs_directory_entry_compare_with_utf16_string_def split: comparison.splits)
qed

interpretation utf8_lookup: directory_lookup "libfsxfs_directory_get_entry_by_utf8_name compare" for compare
  by unfold_locales (simp add: libfsxfs_directory_get_entry_by_utf8_name_def directory_find_safe)

interpretation utf16_lookup: directory_lookup "libfsxfs_directory_get_entry_by_utf16_name compare" for compare
  by unfold_locales (simp add: libfsxfs_directory_get_entry_by_utf16_name_def directory_find_safe)

text \<open>
  The lookup of a path, in either encoding, never reads outside of a block, an inode or the path
  and never shifts out of range, whatever the file system and the path contain, once the values
  of the superblock were accepted.
\<close>

theorem path_lookup_memory_safe:
  assumes "io_valid io" and "unicode_advances copy8" and "unicode_advances copy16"
  shows "(\<forall>r. libfsxfs_file_system_get_directory_entry_by_utf8_path compare8 copy8 fs io fio path8 = Some r \<longrightarrow>
      fault_free r) \<and>
    (\<forall>r. libfsxfs_file_system_get_directory_entry_by_utf16_path compare16 copy16 fs io fio path16 = Some r \<longrightarrow>
      fault_free r)"
  unfolding libfsxfs_file_system_get_directory_entry_by_utf8_path_def
    libfsxfs_file_system_get_directory_entry_by_utf16_path_def
  using utf8_lookup.by_path_safe [OF assms(1,2)] utf16_lookup.by_path_safe [OF assms(1,3)] by blast

subsection \<open>An example\<close>

text \<open>
  The leaf of the inode B+ tree example as the whole tree, with inodes behind it: inode 0x41 is a
  directory with the one entry \<open>a\<close>, the inode 0x42, which is a file.
\<close>

definition example_directory_inode :: "u8 list" where
  "example_directory_inode =
     [0x49, 0x4e, 0x41, 0xed, 2, 1] @ replicate 50 0 @ [0, 0, 0, 0, 0, 0, 0, 14] @ replicate 18 0 @ [0, 1] @
     replicate 16 0 @ [1, 0, 0, 0, 0, 0x41] @ [1, 0, 0, 0x61, 0, 0, 0, 0x42] @ replicate 142 0"

definition example_path_file :: file_io where
  "example_path_file off n =
     (if off = 0x41 * 256 \<and> n = 256 then Some example_directory_inode
      else if off = 0x42 * 256 \<and> n = 256 then Some example_inode_data
      else example_inode_file off n)"

definition example_file_system :: file_system where
  "example_file_system =
     \<lparr> fs_inode_btree = \<lparr> ib_inode_information_array =
         [\<lparr> ii_inode_btree_root_block_number = 2, ii_inode_btree_depth = 1,
            ii_last_allocated_chunk = 0x40 \<rparr>] \<rparr>,
       fs_root_directory_inode_number = 0x41 \<rparr>"

definition example_path_io :: io_handle where
  "example_path_io = example_inode_io\<lparr> io_number_of_relative_block_number_bits := 6 \<rparr>"

definition example_copy :: "u8 unicode_copy" where
  "example_copy s i = (if s ! i < 0x80 then Inr (ucast (s ! i), i + 1) else Inl Generic)"

definition without_end :: "u8 list \<Rightarrow> u8 list" where
  "without_end s = (if s \<noteq> [] \<and> last s = 0 then butlast s else s)"

definition example_compare :: "u8 name_compare" where
  "example_compare s t = (if s = without_end t then Compare_Equal else Compare_Less)"

lemma example_compare_names:
  assumes "\<And>s. encoded s \<Longrightarrow> 0 \<notin> set s"
  shows "compares_names example_compare encoded"
proof -
  have "\<not> (t \<noteq> [] \<and> last t = 0)" if "encoded t" for t
    using assms [OF that] last_in_set by metis
  then have "without_end t = t" if "encoded t" for t
    using that by (fastforce simp: without_end_def)
  then show ?thesis by (auto simp: compares_names_def example_compare_def) (simp_all add: without_end_def)
qed

abbreviation (input) equal_compare :: "'a::len word list \<Rightarrow> 'a word list \<Rightarrow> comparison" where
  "equal_compare s t \<equiv> (if s = t then Compare_Equal else Compare_Less)"

text \<open>A file with the leaf of the tree, and with an inode at its place.\<close>

lemma example_inode_offset:
  assumes "n = 0x41 \<or> n = 0x42" and leaf: "fio 64 32 = Some example_leaf_block"
  shows "libfsxfs_inode_btree_get_inode_by_number (fs_inode_btree example_file_system) example_path_io
    fio n = Inr (Some (n * 256))"
proof -
  have "disk_tree example_path_io fio 0 2 (Chunks [0x40])"
    by (rule disk_leaf [where data = example_leaf_block, OF _ _ refl])
      (simp_all add: example_inode_defs example_path_io_def leaf [unfolded example_leaf_block_def])
  then have "libfsxfs_inode_btree_get_inode_from_node example_path_io fio 0 2 n 0 =
      Inr (tree_member (Chunks [0x40]) (unat n))"
    using inode_btree_lookup [of example_path_io fio 0 2 "Chunks [0x40]" 0 1000 0 n] by simp
  then show ?thesis
    using assms(1)
    by (auto simp: libfsxfs_inode_btree_get_inode_by_number_def example_file_system_def
        example_path_io_def example_inode_io_def io_handle_zero_def Let_def)
qed

text \<open>An inode that holds its data and its attributes in line.\<close>

lemma inline_inode_exists:
  assumes offset: "libfsxfs_inode_btree_get_inode_by_number (fs_inode_btree fs) io fio n = Inr (Some off)"
    and n: "n \<noteq> 0" "n \<le> 0xffffffff" and io: "io_inode_size io = 256" "io_block_size io \<noteq> 0"
    and d: "fio off 256 = Some d" "length d = 256"
    and j: "libfsxfs_inode_read_data (inode_zero\<lparr> in_data_size := 256, in_data := d \<rparr>) d = Inr j"
    and t: "in_fork_type j = 1" "in_attributes_fork_type j = 1"
  shows "\<exists>inode. get_existing_inode fs io fio n = Inr inode \<and>
    in_file_mode inode = in_file_mode j \<and> in_fork_type inode = 1 \<and> in_size inode = in_size j \<and>
    in_inline_data inode = Some (drop (unat (in_data_fork_offset j)) (in_data j)) \<and>
    in_attributes_fork_type inode = 1 \<and> in_attributes_fork_size inode = in_attributes_fork_size j \<and>
    (in_attributes_fork_size j > 0 \<longrightarrow>
       in_inline_attributes_data inode = Some (drop (unat (in_attributes_fork_offset j)) (in_data j)))"
proof -
  have f: "read_buffer_at_offset fio off 256 = Inr d"
    using d by (auto simp: read_buffer_at_offset_def)
  have i: "libfsxfs_inode_initialize None 256 = Inr (inode_zero\<lparr> in_data_size := 256 \<rparr>)"
    by (simp add: libfsxfs_inode_initialize_def)
  have r: "\<exists>inode. libfsxfs_inode_read_file_io_handle (inode_zero\<lparr> in_data_size := 256 \<rparr>) io fio off = Inr inode \<and>
    in_file_mode inode = in_file_mode j \<and> in_fork_type inode = 1 \<and> in_size inode = in_size j \<and>
    in_inline_data inode = Some (drop (unat (in_data_fork_offset j)) (in_data j)) \<and>
    in_attributes_fork_type inode = 1 \<and> in_attributes_fork_size inode = in_attributes_fork_size j \<and>
    (in_attributes_fork_size j > 0 \<longrightarrow>
       in_inline_attributes_data inode = Some (drop (unat (in_attributes_fork_offset j)) (in_data j)))"
    using f j t by (simp add: libfsxfs_inode_read_file_io_handle_def io inode_read_data_fork_def
        inode_read_attributes_fork_def Let_def)
  show ?thesis
    using n r by (auto simp: get_existing_inode_def libfsxfs_file_system_get_inode_by_number_def offset io i)
qed

lemma example_stored_inode:
  assumes n: "n = 0x41 \<or> n = 0x42" and leaf: "fio 64 32 = Some example_leaf_block"
    and d: "fio (n * 256) 256 = Some d" "length d = 256"
    and j: "libfsxfs_inode_read_data (inode_zero\<lparr> in_data_size := 256, in_data := d \<rparr>) d = Inr j"
    and t: "in_fork_type j = 1" "in_attributes_fork_type j = 1"
  shows "\<exists>inode. get_existing_inode example_file_system example_path_io fio n = Inr inode \<and>
    in_file_mode inode = in_file_mode j \<and> in_fork_type inode = 1 \<and> in_size inode = in_size j \<and>
    in_inline_data inode = Some (drop (unat (in_data_fork_offset j)) (in_data j)) \<and>
    in_attributes_fork_type inode = 1 \<and> in_attributes_fork_size inode = in_attributes_fork_size j \<and>
    (in_attributes_fork_size j > 0 \<longrightarrow>
       in_inline_attributes_data inode = Some (drop (unat (in_attributes_fork_offset j)) (in_data j)))"
  by (rule inline_inode_exists [where fio = fio, OF example_inode_offset [where fio = fio, OF n leaf] _ _ _ _ d j t])
    (use n in \<open>auto simp: example_path_io_def example_inode_io_def\<close>)

lemma example_existing_inode:
  assumes n: "n = 0x41 \<or> n = 0x42"
    and d: "d = (if n = 0x41 then example_directory_inode else example_inode_data)" "length d = 256"
    and j: "libfsxfs_inode_read_data (inode_zero\<lparr> in_data_size := 256, in_data := d \<rparr>) d = Inr j"
    and t: "in_fork_type j = 1" "in_attributes_fork_type j = 1"
  shows "\<exists>inode. get_existing_inode example_file_system example_path_io example_path_file n = Inr inode \<and>
    in_file_mode inode = in_file_mode j \<and> in_fork_type inode = 1 \<and> in_size inode = in_size j \<and>
    in_inline_data inode = Some (drop (unat (in_data_fork_offset j)) (in_data j))"
proof -
  have "example_path_file 64 32 = Some example_leaf_block" "example_path_file (n * 256) 256 = Some d"
    using n d(1) by (auto simp: example_path_file_def example_inode_file_def)
  from example_stored_inode [where fio = example_path_file, OF n this d(2) j t] show ?thesis by blast
qed

lemma example_root_inode:
  "\<exists>inode. get_existing_inode example_file_system example_path_io example_path_file 0x41 = Inr inode \<and>
     in_file_mode inode = 0x41ed \<and> in_fork_type inode = 1 \<and> in_size inode = 14 \<and>
     in_inline_data inode = Some (drop 100 example_directory_inode)"
proof -
  have l: "length example_directory_inode = 256" by (simp add: example_directory_inode_def)
  have "\<exists>j. libfsxfs_inode_read_data (inode_zero\<lparr> in_data_size := 256, in_data := example_directory_inode \<rparr>)
        example_directory_inode = Inr j \<and> in_attributes_fork_type j = 1 \<and>
     in_data j = example_directory_inode \<and> in_file_mode j = 0x41ed \<and> in_fork_type j = 1 \<and>
     in_size j = 14 \<and> in_data_fork_offset j = 100"
    by (simp add: example_directory_inode_def libfsxfs_inode_read_data_def inode_core_size_def
        inode_read_core_def inode_read_creation_time_def inode_set_forks_def be_word_def
        inode_zero_def inode_signed_time_def inode_unsigned_time_def nth_append Let_def)
  then obtain j where j: "libfsxfs_inode_read_data (inode_zero\<lparr> in_data_size := 256, in_data := example_directory_inode \<rparr>)
        example_directory_inode = Inr j" "in_attributes_fork_type j = 1"
     "in_data j = example_directory_inode" "in_file_mode j = 0x41ed" "in_fork_type j = 1"
     "in_size j = 14" "in_data_fork_offset j = 100"
    by blast
  then show ?thesis using example_existing_inode [of "0x41" _ j, OF _ refl] l by simp
qed

lemma example_file_inode:
  "\<exists>inode. get_existing_inode example_file_system example_path_io example_path_file 0x42 = Inr inode"
proof -
  have l: "length example_inode_data = 256" by (simp add: example_inode_data_def)
  have "\<exists>j. libfsxfs_inode_read_data (inode_zero\<lparr> in_data_size := 256, in_data := example_inode_data \<rparr>)
        example_inode_data = Inr j \<and> in_attributes_fork_type j = 1 \<and> in_fork_type j = 1"
    by (simp add: example_inode_data_def libfsxfs_inode_read_data_def inode_core_size_def
        inode_read_core_def inode_read_creation_time_def inode_set_forks_def be_word_def
        inode_zero_def inode_signed_time_def inode_unsigned_time_def nth_append Let_def)
  then show ?thesis using example_existing_inode [of "0x42", OF _ refl] l by auto
qed

lemma example_root_directory:
  assumes "get_existing_inode example_file_system example_path_io example_path_file 0x41 = Inr inode"
  shows "path_directory example_path_io example_path_file inode =
    Some (Inr \<lparr> dir_entries_array = [\<lparr> de_inode_number = 0x42, de_name = [0x61], de_name_size = 1 \<rparr>] \<rparr>)"
proof -
  have i: "in_file_mode inode = 0x41ed" "in_fork_type inode = 1" "in_size inode = 14"
    "in_inline_data inode = Some (drop 100 example_directory_inode)"
    using example_root_inode assms by auto
  have io: "io_allocation_group_size example_path_io = 8" "io_block_size example_path_io = 32"
    "\<not> has_file_type example_path_io"
    by (simp_all add: example_path_io_def example_inode_io_def io_handle_zero_def has_file_type_def)
  have d: "get_bytes (drop 100 example_directory_inode) 0 14 =
      Inr [1, 0, 0, 0, 0, 0x41, 1, 0, 0, 0x61, 0, 0, 0, 0x42]"
    by (simp add: get_bytes_def example_directory_inode_def)
  show ?thesis
    by (simp add: path_directory_def libfsxfs_directory_initialize_def libfsxfs_directory_read_file_io_handle_def
        io i d libfsxfs_directory_table_initialize_def libfsxfs_directory_table_read_data_def
        libfsxfs_directory_table_header_initialize_def libfsxfs_directory_table_header_read_data_def
        directory_table_header_zero_def directory_table_read_entries.simps Let_def be_word_def
        libfsxfs_directory_entry_initialize_def directory_entry_zero_def)
qed

lemma example_copy_decodes: "unicode_decodes example_copy (\<lambda>c. [ucast c]) (\<lambda>c. c < 0x80)"
proof -
  have "(ucast c :: u8) < 0x80" "ucast (ucast c :: u8) = c" if "c < 0x80" for c :: u32
  proof -
    have "unat c < 128" using that by (simp add: word_less_nat_alt)
    then have "unat (ucast c :: u8) = unat c" by (intro unat_ucast_fits) simp
    with \<open>unat c < 128\<close> show "(ucast c :: u8) < 0x80" "ucast (ucast c :: u8) = c"
      by (simp_all add: word_less_nat_alt word_unat_eq_iff del: unsigned_ucast_eq)
  qed
  then show ?thesis by (simp add: unicode_decodes_def example_copy_def)
qed

lemma path_lookup_walks_witness:
  "\<exists>inode. libfsxfs_file_system_get_directory_entry_by_utf8_path equal_compare example_copy
      example_file_system example_path_io example_path_file [0x2f, 0x61] =
    Some (Inr (Some (0x42, inode, Some \<lparr> de_inode_number = 0x42, de_name = [0x61], de_name_size = 1 \<rparr>)))"
proof -
  obtain root where root: "get_existing_inode example_file_system example_path_io example_path_file 0x41 = Inr root"
    using example_root_inode by blast
  obtain inode where inode: "get_existing_inode example_file_system example_path_io example_path_file 0x42 = Inr inode"
    using example_file_inode by blast
  have "name_valid (\<lambda>c. c < 0x80) [0x61 :: u32]" by (simp add: name_valid_def)
  then have "libfsxfs_file_system_get_directory_entry_by_utf8_path equal_compare example_copy
      example_file_system example_path_io example_path_file [0x2f, 0x61] =
    (case get_existing_inode example_file_system example_path_io example_path_file
            (fs_root_directory_inode_number example_file_system) of
       Inl e \<Rightarrow> Some (Inl e)
     | Inr inode \<Rightarrow>
         path_walk (libfsxfs_directory_get_entry_by_utf8_name equal_compare) example_file_system
           example_path_io example_path_file (map (encode_name (\<lambda>c. [ucast c])) [[0x61]])
           (fs_root_directory_inode_number example_file_system) inode None)"
    by (intro path_lookup_walks [OF example_copy_decodes, where lead = "[LIBFSXFS_SEPARATOR]" and trail = "[]"])
      (simp_all add: encode_name_def)
  then show ?thesis
    using root inode example_root_directory [OF root]
    by (simp add: example_file_system_def encode_name_def walk_entry_def
        libfsxfs_directory_get_entry_by_utf8_name_def libfsxfs_directory_entry_compare_with_utf8_string_def)
qed

lemma path_of_one_unit_is_root_witness:
  "\<exists>inode. libfsxfs_file_system_get_directory_entry_by_utf8_path equal_compare example_copy
      example_file_system example_path_io example_path_file [0x7a] = Some (Inr (Some (0x41, inode, None)))"
proof -
  obtain root where "get_existing_inode example_file_system example_path_io example_path_file
      (fs_root_directory_inode_number example_file_system) = Inr root"
    using example_root_inode by (auto simp: example_file_system_def)
  from path_of_one_unit_is_root [OF this, of equal_compare example_copy "0x7a"] show ?thesis
    by (simp add: example_file_system_def)
qed

lemma path_lookup_memory_safe_witness:
  fixes io
  defines "io \<equiv> \<lparr> io_format_version = 5, io_secondary_feature_flags = 0, io_block_size = 4096,
    io_allocation_group_size = 1000, io_inode_size = 512, io_directory_block_size = 4096,
    io_number_of_relative_block_number_bits = 10, io_number_of_relative_inode_number_bits = 13,
    io_abort = 0 \<rparr>"
  shows "\<exists>r. libfsxfs_file_system_get_directory_entry_by_utf8_path equal_compare example_copy
      example_file_system io (\<lambda>off n. Some (replicate n 0xff)) [0x2f] = Some r \<and> fault_free r"
proof -
  have io: "io_valid io" by (simp add: io_def io_valid_def)
  have adv: "unicode_advances example_copy" by (simp add: unicode_advances_def example_copy_def)
  obtain r where r: "libfsxfs_file_system_get_directory_entry_by_utf8_path equal_compare example_copy
      example_file_system io (\<lambda>off n. Some (replicate n 0xff)) [0x2f] = Some r"
    by (cases "get_existing_inode example_file_system io (\<lambda>off n. Some (replicate n 0xff))
          (fs_root_directory_inode_number example_file_system)")
      (simp_all add: libfsxfs_file_system_get_directory_entry_by_utf8_path_def get_directory_entry_by_path_def)
  have adv16: "unicode_advances (\<lambda>(s :: u16 list) i. Inr (ucast (s ! i), i + 1))" by (simp add: unicode_advances_def)
  from path_lookup_memory_safe [OF io adv adv16] r show ?thesis by blast
qed

end
