(* ===== verification/Volume.thy ===== *)
theory Volume
  imports Superblock File_System
begin

text \<open>
  The volume (\<open>libfsxfs_volume.c\<close>): opening reads the superblock and the inode information of
  every allocation group, closing gives everything up; between the two the volume answers the
  lookups of files by inode number and by path.
\<close>

subsection \<open>The state\<close>

text \<open>
  The file is opened, closed and read by the \<open>libbfio\<close> library, a parameter: \<open>'h\<close> is the type of
  its handles, and \<open>is_open\<close> is \<open>None\<close> for the error return -1.
\<close>

record 'h libbfio =
  libbfio_handle_is_open :: "'h \<Rightarrow> bool option"
  libbfio_handle_open :: "'h \<Rightarrow> 'h option"
  libbfio_handle_close :: "'h \<Rightarrow> bool"
  libbfio_handle_read :: "'h \<Rightarrow> file_io"

record 'h volume =
  vol_superblock :: "superblock option"
  vol_file_system :: "file_system option"
  vol_io_handle :: io_handle
  vol_file_io_handle :: "'h option"
  vol_file_io_handle_created_in_library :: bool
  vol_file_io_handle_opened_in_library :: bool

definition volume_zero :: "'h volume" where
  "volume_zero =
     \<lparr> vol_superblock = None, vol_file_system = None, vol_io_handle = io_handle_zero,
       vol_file_io_handle = None, vol_file_io_handle_created_in_library = False,
       vol_file_io_handle_opened_in_library = False \<rparr>"

definition libfsxfs_volume_initialize :: "'h volume option \<Rightarrow> 'h volume result" where
  "libfsxfs_volume_initialize pointer = allocate_structure pointer volume_zero"

definition libfsxfs_volume_signal_abort :: "'h volume \<Rightarrow> 'h volume" where
  "libfsxfs_volume_signal_abort volume =
     volume\<lparr> vol_io_handle := (vol_io_handle volume)\<lparr> io_abort := 1 \<rparr> \<rparr>"

subsection \<open>Opening\<close>

text \<open>
  The body of the loop over the allocation groups. Only the first superblock is kept. The volume
  is part of the result also when the call fails.
\<close>

definition volume_keep_superblock :: "'h volume \<Rightarrow> superblock \<Rightarrow> 'h volume \<times> superblock" where
  "volume_keep_superblock volume superblock =
     (case vol_superblock volume of
        None \<Rightarrow>
          (volume\<lparr> vol_superblock := Some superblock,
                   vol_io_handle := io_handle_set_superblock (vol_io_handle volume) superblock \<rparr>,
           superblock)
      | Some first \<Rightarrow> (volume, first))"

definition volume_read_allocation_group ::
    "file_io \<Rightarrow> 'h volume \<Rightarrow> u64 \<Rightarrow> 'h volume \<times> u64 result" where
  "volume_read_allocation_group fio volume superblock_offset =
     (case bindE (libfsxfs_superblock_initialize None) (\<lambda>superblock.
             libfsxfs_superblock_read_file_io_handle superblock fio superblock_offset) of
        Inl e \<Rightarrow> (volume, Inl e)
      | Inr superblock \<Rightarrow>
          let (volume, first) = volume_keep_superblock volume superblock;
              inode_information_offset = superblock_offset + 2 * ucast (sb_sector_size first) in
          (case (case vol_file_system volume of
                   None \<Rightarrow> libfsxfs_file_system_initialize None (sb_root_directory_inode_number first)
                 | Some fs \<Rightarrow> Inr fs) of
             Inl e \<Rightarrow> (volume, Inl e)
           | Inr fs \<Rightarrow>
               (case libfsxfs_file_system_read_inode_information fs (vol_io_handle volume) fio
                       inode_information_offset of
                  Inl e \<Rightarrow> (volume\<lparr> vol_file_system := Some fs \<rparr>, Inl e)
                | Inr fs \<Rightarrow>
                    let volume = volume\<lparr> vol_file_system := Some fs \<rparr>;
                        allocation_group_size = ucast (io_allocation_group_size (vol_io_handle volume))
                          * ucast (io_block_size (vol_io_handle volume)) in
                    if allocation_group_size = 0 \<or>
                       sint superblock_offset > sint (0x7fffffffffffffff - allocation_group_size)
                    then (volume, Inl Value_Out_Of_Bounds)
                    else (volume, Inr (superblock_offset + allocation_group_size)))))"

definition volume_number_of_allocation_groups :: "'h volume \<Rightarrow> nat" where
  "volume_number_of_allocation_groups volume =
     (case vol_superblock volume of None \<Rightarrow> 0 | Some sb \<Rightarrow> unat (sb_number_of_allocation_groups sb))"

lemma volume_keep_superblock_Some:
  "volume_keep_superblock volume superblock = (volume', first) \<Longrightarrow> vol_superblock volume' = Some first"
  "vol_superblock volume = Some sb \<Longrightarrow> volume_keep_superblock volume superblock = (volume, sb)"
  by (auto simp: volume_keep_superblock_def split: option.splits)

lemma volume_read_allocation_group_superblock:
  "volume_read_allocation_group fio volume off = (volume', r) \<Longrightarrow>
     vol_superblock volume = Some sb \<Longrightarrow> vol_superblock volume' = Some sb"
  by (auto simp: volume_read_allocation_group_def Let_def volume_keep_superblock_Some(2)
      split: sum.split_asm option.split_asm if_split_asm)

lemma volume_read_allocation_group_Inr:
  "volume_read_allocation_group fio volume off = (volume', Inr off') \<Longrightarrow>
     vol_superblock volume' \<noteq> None \<and> vol_file_system volume' \<noteq> None"
  by (auto simp: volume_read_allocation_group_def Let_def dest: volume_keep_superblock_Some(1)
      split: sum.split_asm option.split_asm if_split_asm prod.split_asm)

function volume_read_allocation_groups ::
    "file_io \<Rightarrow> 'h volume \<Rightarrow> u64 \<Rightarrow> nat \<Rightarrow> 'h volume \<times> nat result" where
  "volume_read_allocation_groups fio volume superblock_offset group_index =
     (case volume_read_allocation_group fio volume superblock_offset of
        (volume, Inl e) \<Rightarrow> (volume, Inl e)
      | (volume, Inr superblock_offset) \<Rightarrow>
          let group_index = group_index + 1 in
          if group_index < volume_number_of_allocation_groups volume
          then volume_read_allocation_groups fio volume superblock_offset group_index
          else (volume, Inr group_index))"
  by pat_completeness auto
termination
proof (relation "measures [\<lambda>(fio, v, off, i). if vol_superblock v = None then 1 else 0,
      \<lambda>(fio, v, off, i). volume_number_of_allocation_groups v - i]", goal_cases)
  case (2 fio v off p v' r off' i)
  then show ?case
    using volume_read_allocation_group_superblock [of fio v off v' "Inr off'"]
      volume_read_allocation_group_Inr [of fio v off v' off']
    by (auto simp: volume_number_of_allocation_groups_def)
qed simp

declare volume_read_allocation_groups.simps [simp del]

definition volume_discard :: "'h volume \<Rightarrow> 'h volume" where
  "volume_discard volume = volume\<lparr> vol_file_system := None, vol_superblock := None \<rparr>"

definition libfsxfs_internal_volume_open_read ::
    "'h volume \<Rightarrow> file_io \<Rightarrow> 'h volume \<times> unit result" where
  "libfsxfs_internal_volume_open_read volume fio =
     (if vol_superblock volume \<noteq> None then (volume, Inl Value_Already_Set) else
      if vol_file_system volume \<noteq> None then (volume, Inl Value_Already_Set) else
      (case volume_read_allocation_groups fio volume 0 0 of
         (volume, Inl e) \<Rightarrow> (volume_discard volume, Inl e)
       | (volume, Inr group_index) \<Rightarrow>
           if group_index \<noteq> volume_number_of_allocation_groups volume
           then (volume_discard volume, Inl Value_Out_Of_Bounds)
           else (volume, Inr ())))"

text \<open>The access flags are 1 to read and 2 to write. The result has the handle as it is left.\<close>

definition libfsxfs_volume_open_file_io_handle ::
    "'h libbfio \<Rightarrow> 'h volume \<Rightarrow> 'h \<Rightarrow> u32 \<Rightarrow> 'h volume \<times> unit result" where
  "libfsxfs_volume_open_file_io_handle lib volume file_io_handle access_flags =
     (if vol_file_io_handle volume \<noteq> None then (volume, Inl Value_Already_Set) else
      if access_flags AND 1 = 0 \<and> access_flags AND 2 = 0 then (volume, Inl Unsupported_Value) else
      if access_flags AND 2 \<noteq> 0 then (volume, Inl Unsupported_Value) else
      (case libbfio_handle_is_open lib file_io_handle of
         None \<Rightarrow> (volume, Inl Open_Failed)
       | Some is_open \<Rightarrow>
           (case (if is_open then Some file_io_handle else libbfio_handle_open lib file_io_handle) of
              None \<Rightarrow> (volume, Inl Open_Failed)
            | Some file_io_handle \<Rightarrow>
                (case libfsxfs_internal_volume_open_read volume (libbfio_handle_read lib file_io_handle) of
                   (volume, Inl e) \<Rightarrow> (volume, Inl e)
                 | (volume, Inr _) \<Rightarrow>
                     (volume\<lparr> vol_file_io_handle := Some file_io_handle,
                              vol_file_io_handle_opened_in_library := \<not> is_open \<rparr>, Inr ())))))"

text \<open>
  \<open>create filename\<close> stands for \<open>libbfio_file_initialize\<close> and \<open>libbfio_file_set_name\<close>; the code
  has the same function for wide file names.
\<close>

definition libfsxfs_volume_open ::
    "'h libbfio \<Rightarrow> ('f \<Rightarrow> 'h result) \<Rightarrow> 'h volume \<Rightarrow> 'f \<Rightarrow> u32 \<Rightarrow> 'h volume \<times> unit result" where
  "libfsxfs_volume_open lib create volume filename access_flags =
     (if access_flags AND 1 = 0 \<and> access_flags AND 2 = 0 then (volume, Inl Unsupported_Value) else
      if access_flags AND 2 \<noteq> 0 then (volume, Inl Unsupported_Value) else
      (case create filename of
         Inl e \<Rightarrow> (volume, Inl e)
       | Inr file_io_handle \<Rightarrow>
           (case libfsxfs_volume_open_file_io_handle lib volume file_io_handle access_flags of
              (volume, Inl e) \<Rightarrow> (volume, Inl e)
            | (volume, Inr _) \<Rightarrow>
                (volume\<lparr> vol_file_io_handle_created_in_library := True \<rparr>, Inr ()))))"

subsection \<open>Closing\<close>

definition libfsxfs_volume_close :: "'h libbfio \<Rightarrow> 'h volume \<Rightarrow> 'h volume \<times> unit result" where
  "libfsxfs_volume_close lib volume =
     (case vol_file_io_handle volume of
        None \<Rightarrow> (volume, Inl Value_Missing)
      | Some file_io_handle \<Rightarrow>
          let closed = (if vol_file_io_handle_opened_in_library volume
                then libbfio_handle_close lib file_io_handle else True) in
          (volume\<lparr> vol_file_io_handle_opened_in_library := False,
                   vol_file_io_handle_created_in_library := False, vol_file_io_handle := None,
                   vol_io_handle := libfsxfs_io_handle_clear (vol_io_handle volume),
                   vol_superblock := None, vol_file_system := None \<rparr>,
           if closed then Inr () else Inl Close_Failed))"

text \<open>Freeing a volume closes it first when it is open.\<close>

definition libfsxfs_volume_free :: "'h libbfio \<Rightarrow> 'h volume option \<Rightarrow> unit result" where
  "libfsxfs_volume_free lib volume =
     (case volume of
        None \<Rightarrow> Inr ()
      | Some volume \<Rightarrow>
          if vol_file_io_handle volume \<noteq> None then snd (libfsxfs_volume_close lib volume) else Inr ())"

subsection \<open>The states of a volume\<close>

text \<open>
  A loaded volume has a supported superblock, a file system with the root directory of that
  superblock, and an IO handle with its values.
\<close>

definition volume_loaded :: "'h volume \<Rightarrow> bool" where
  "volume_loaded volume \<longleftrightarrow>
     (\<exists>sb fs. vol_superblock volume = Some sb \<and> vol_file_system volume = Some fs \<and>
        superblock_supported sb \<and> io_valid (vol_io_handle volume) \<and>
        vol_io_handle volume = io_handle_set_superblock (vol_io_handle volume) sb \<and>
        fs_root_directory_inode_number fs = sb_root_directory_inode_number sb)"

definition volume_empty :: "'h volume \<Rightarrow> bool" where
  "volume_empty volume \<longleftrightarrow> vol_superblock volume = None \<and> vol_file_system volume = None"

lemma io_handle_set_superblock_idem [simp]:
  "io_handle_set_superblock (io_handle_set_superblock io sb) sb = io_handle_set_superblock io sb"
  by (simp add: io_handle_set_superblock_def)

lemma read_inode_information_root:
  "libfsxfs_file_system_read_inode_information fs io fio off = Inr fs' \<Longrightarrow>
     fs_root_directory_inode_number fs' = fs_root_directory_inode_number fs"
  by (auto simp: libfsxfs_file_system_read_inode_information_def split: sum.splits error.splits)

lemma file_system_initialize_Inr:
  "libfsxfs_file_system_initialize None n = Inr \<lparr> fs_inode_btree = \<lparr> ib_inode_information_array = [] \<rparr>,
     fs_root_directory_inode_number = n \<rparr>"
  by (simp add: libfsxfs_file_system_initialize_def libfsxfs_inode_btree_initialize_def)

lemma superblock_read_file_Inr:
  assumes "bindE (libfsxfs_superblock_initialize None) (\<lambda>sb. libfsxfs_superblock_read_file_io_handle sb fio off) = Inr sb"
  shows "superblock_supported sb" and "io_valid (io_handle_set_superblock io sb)"
  using assms superblock_read_supported superblock_read_io_valid
  by (auto simp: libfsxfs_superblock_read_file_io_handle_def)

lemma volume_read_allocation_group_handle:
  "volume_read_allocation_group fio volume off = (volume', r) \<Longrightarrow>
     vol_file_io_handle volume' = vol_file_io_handle volume"
  by (auto simp: volume_read_allocation_group_def volume_keep_superblock_def Let_def
      split: sum.split_asm option.split_asm if_split_asm)

text \<open>What a successful turn of the loop does.\<close>

lemma volume_read_allocation_group_loaded:
  assumes r: "volume_read_allocation_group fio volume off = (volume', Inr off')"
    and v: "volume_empty volume \<or> volume_loaded volume"
  shows "volume_loaded volume'"
proof -
  obtain sb where sb: "bindE (libfsxfs_superblock_initialize None) (\<lambda>sb.
      libfsxfs_superblock_read_file_io_handle sb fio off) = Inr sb"
    using r by (auto simp: volume_read_allocation_group_def split: sum.splits)
  show ?thesis
  proof (cases "volume_empty volume")
    case True
    then show ?thesis
      using r sb superblock_read_file_Inr [OF sb]
      by (auto simp: volume_read_allocation_group_def volume_keep_superblock_def volume_empty_def Let_def
          volume_loaded_def file_system_initialize_Inr dest!: read_inode_information_root
          split: sum.split_asm if_split_asm)
  next
    case False
    with v show ?thesis
      using r sb
      by (auto simp: volume_read_allocation_group_def volume_keep_superblock_def Let_def
          volume_loaded_def dest!: read_inode_information_root split: sum.split_asm if_split_asm)
  qed
qed

lemma volume_read_allocation_groups_loaded:
  "volume_read_allocation_groups fio volume off i = (volume', r) \<Longrightarrow>
     volume_empty volume \<or> volume_loaded volume \<Longrightarrow>
     vol_file_io_handle volume' = vol_file_io_handle volume \<and> (\<forall>n. r = Inr n \<longrightarrow> volume_loaded volume')"
proof (induction fio volume off i arbitrary: volume' r rule: volume_read_allocation_groups.induct)
  case (1 fio volume off i)
  obtain w q where w: "volume_read_allocation_group fio volume off = (w, q)" by fastforce
  show ?case
  proof (cases q)
    case (Inl e)
    with w 1(2) volume_read_allocation_group_handle [OF w] show ?thesis
      by (auto simp: volume_read_allocation_groups.simps [of fio volume])
  next
    case (Inr off')
    have l: "volume_loaded w" using volume_read_allocation_group_loaded w Inr 1(3) by blast
    note h = volume_read_allocation_group_handle [OF w]
    show ?thesis
    proof (cases "i + 1 < volume_number_of_allocation_groups w")
      case True
      then have "volume_read_allocation_groups fio w off' (i + 1) = (volume', r)"
        using 1(2) w Inr by (simp add: volume_read_allocation_groups.simps [of fio volume])
      from 1(1) [OF w [symmetric] Inr refl True this] l h show ?thesis by simp
    next
      case False
      with 1(2) w Inr l h show ?thesis
        by (auto simp: volume_read_allocation_groups.simps [of fio volume])
    qed
  qed
qed

text \<open>
  The steps of a volume are the calls that change it, with any arguments and any outcome; a
  volume is reached from a new one by such steps.
\<close>

inductive volume_step :: "'h libbfio \<Rightarrow> ('f \<Rightarrow> 'h result) \<Rightarrow> 'h volume \<Rightarrow> 'h volume \<Rightarrow> bool" for lib create where
  open_handle: "libfsxfs_volume_open_file_io_handle lib v h flags = (v', r) \<Longrightarrow> volume_step lib create v v'"
| open_file: "libfsxfs_volume_open lib create v filename flags = (v', r) \<Longrightarrow> volume_step lib create v v'"
| close: "libfsxfs_volume_close lib v = (v', r) \<Longrightarrow> volume_step lib create v v'"
| signal_abort: "volume_step lib create v (libfsxfs_volume_signal_abort v)"

inductive volume_reachable :: "'h libbfio \<Rightarrow> ('f \<Rightarrow> 'h result) \<Rightarrow> 'h volume \<Rightarrow> bool" for lib create where
  start: "libfsxfs_volume_initialize None = Inr v \<Longrightarrow> volume_reachable lib create v"
| step: "volume_reachable lib create v \<Longrightarrow> volume_step lib create v v' \<Longrightarrow> volume_reachable lib create v'"

text \<open>A volume is open or closed, nothing in between: with a file it is loaded, without it is empty.\<close>

definition volume_consistent :: "'h volume \<Rightarrow> bool" where
  "volume_consistent volume \<longleftrightarrow>
     (if vol_file_io_handle volume = None then volume_empty volume else volume_loaded volume)"

lemma volume_open_read_consistent:
  assumes "libfsxfs_internal_volume_open_read volume fio = (volume', r)" and "volume_empty volume"
  shows "vol_file_io_handle volume' = vol_file_io_handle volume"
    and "r = Inr () \<Longrightarrow> volume_loaded volume'" and "r = Inl e \<Longrightarrow> volume_empty volume'"
proof -
  obtain w q where w: "volume_read_allocation_groups fio volume 0 0 = (w, q)" by fastforce
  note l = volume_read_allocation_groups_loaded [OF w disjI1 [OF assms(2)]]
  have v: "vol_superblock volume = None" "vol_file_system volume = None"
    using assms(2) by (simp_all add: volume_empty_def)
  show "vol_file_io_handle volume' = vol_file_io_handle volume"
    and "r = Inr () \<Longrightarrow> volume_loaded volume'" and "r = Inl e \<Longrightarrow> volume_empty volume'"
    using assms(1) v w l
    by (auto simp: libfsxfs_internal_volume_open_read_def volume_discard_def volume_empty_def
        split: sum.split_asm if_split_asm)
qed

lemma volume_open_handle_consistent:
  assumes "libfsxfs_volume_open_file_io_handle lib volume h flags = (volume', r)" and "volume_consistent volume"
  shows "volume_consistent volume'" and "r = Inr () \<Longrightarrow> vol_file_io_handle volume' \<noteq> None"
proof -
  have "volume_consistent volume' \<and> (r = Inr () \<longrightarrow> vol_file_io_handle volume' \<noteq> None)"
  proof (cases "vol_file_io_handle volume = None")
    case True
    then have e: "volume_empty volume" using assms(2) by (simp add: volume_consistent_def)
    show ?thesis
      using assms(1) True e volume_open_read_consistent [OF _ e]
      by (fastforce simp: libfsxfs_volume_open_file_io_handle_def volume_consistent_def volume_loaded_def
          volume_empty_def split: if_split_asm option.split_asm prod.split_asm sum.split_asm)
  next
    case False
    with assms show ?thesis by (auto simp: libfsxfs_volume_open_file_io_handle_def)
  qed
  then show "volume_consistent volume'" "r = Inr () \<Longrightarrow> vol_file_io_handle volume' \<noteq> None" by simp_all
qed

lemma volume_opened_loaded:
  assumes "libfsxfs_volume_open_file_io_handle lib volume_zero h flags = (volume', Inr ())"
  shows "vol_file_io_handle volume' \<noteq> None" and "volume_loaded volume'"
  using volume_open_handle_consistent [OF assms]
  by (auto simp: volume_consistent_def volume_empty_def volume_zero_def)

lemma volume_open_consistent:
  assumes "libfsxfs_volume_open lib create volume filename flags = (volume', r)" and "volume_consistent volume"
  shows "volume_consistent volume'"
proof -
  have "volume_consistent (w\<lparr> vol_file_io_handle_created_in_library := True \<rparr>)" if "volume_consistent w" for w :: "'a volume"
    using that by (auto simp: volume_consistent_def volume_loaded_def volume_empty_def split: if_splits)
  then show ?thesis
    using assms volume_open_handle_consistent(1)
    by (fastforce simp: libfsxfs_volume_open_def split: if_split_asm sum.split_asm prod.split_asm)
qed

lemma volume_loaded_abort:
  assumes "volume_loaded v"
  shows "volume_loaded (libfsxfs_volume_signal_abort v)"
proof -
  have a: "io_handle_set_superblock (io\<lparr> io_abort := 1 \<rparr>) sb = (io_handle_set_superblock io sb)\<lparr> io_abort := 1 \<rparr>"
    for io sb by (simp add: io_handle_set_superblock_def)
  have b: "io_valid (io\<lparr> io_abort := 1 \<rparr>) = io_valid io" for io by (simp add: io_valid_def)
  show ?thesis using assms by (auto simp: volume_loaded_def libfsxfs_volume_signal_abort_def a b)
qed

lemma volume_step_consistent:
  assumes "volume_step lib create v v'" and "volume_consistent v"
  shows "volume_consistent v'"
  using assms(1)
proof cases
  case (close r)
  then show ?thesis
    using assms(2)
    by (auto simp: libfsxfs_volume_close_def volume_consistent_def volume_empty_def Let_def split: option.splits)
next
  case signal_abort
  then show ?thesis
    using assms(2) volume_loaded_abort [of v]
    by (auto simp: volume_consistent_def volume_empty_def libfsxfs_volume_signal_abort_def split: if_splits)
next
  case (open_handle h flags r)
  then show ?thesis using assms(2) by (rule volume_open_handle_consistent(1))
next
  case (open_file filename flags r)
  then show ?thesis using assms(2) by (rule volume_open_consistent)
qed

lemma volume_reachable_consistent: "volume_reachable lib create v \<Longrightarrow> volume_consistent v"
proof (induction rule: volume_reachable.induct)
  case (start v)
  then show ?case
    by (auto simp: libfsxfs_volume_initialize_def volume_zero_def volume_consistent_def volume_empty_def)
next
  case (step v v')
  then show ?case by (blast intro: volume_step_consistent)
qed

text \<open>
  C6: However a volume was opened, closed and opened again, with success or not, it is either
  open, with a supported superblock, a valid IO handle that has its values and the file system of
  its root directory, or closed, without superblock and file system.
\<close>

theorem volume_open_or_closed:
  assumes "volume_reachable lib create v"
  shows "if vol_file_io_handle v = None then vol_superblock v = None \<and> vol_file_system v = None
    else volume_loaded v"
  using volume_reachable_consistent [OF assms]
  by (auto simp: volume_consistent_def volume_empty_def split: if_splits)

text \<open>A file with the example superblock; the library is a handle that is always open.\<close>

definition example_volume_file :: file_io where
  "example_volume_file off n =
     (if off = 0 \<and> n = 512 then Some (superblock_bytes example_superblock 0 @ replicate 304 0) else None)"

definition example_libbfio :: "unit libbfio" where
  "example_libbfio =
     \<lparr> libbfio_handle_is_open = (\<lambda>h. Some True), libbfio_handle_open = Some,
       libbfio_handle_close = (\<lambda>h. True), libbfio_handle_read = (\<lambda>h. example_volume_file) \<rparr>"

definition example_volume :: "'h volume" where
  "example_volume = volume_zero
     \<lparr> vol_superblock := Some example_superblock,
       vol_file_system := Some \<lparr> fs_inode_btree = \<lparr> ib_inode_information_array = [] \<rparr>,
         fs_root_directory_inode_number = 64 \<rparr>,
       vol_io_handle := io_handle_set_superblock io_handle_zero example_superblock \<rparr>"

definition superblock_sector :: "superblock \<Rightarrow> u8 list" where
  "superblock_sector sb = superblock_bytes sb 0 @ replicate 304 0"

lemma superblock_sector_read:
  assumes "superblock_supported sb" and "sb_directory_block_size sb = sb_block_size sb"
    and "fio off 512 = Some (superblock_sector sb)"
  shows "bindE (libfsxfs_superblock_initialize None) (\<lambda>sb. libfsxfs_superblock_read_file_io_handle sb fio off) = Inr sb"
proof -
  have len: "length (superblock_bytes sb 0) = 208"
    using assms(1) by (intro length_superblock_bytes) (simp add: superblock_supported_def)
  have "libfsxfs_superblock_read_data superblock_zero (superblock_bytes sb 0) = Inr sb"
    by (rule superblock_read_bytes [OF assms(1)]) (simp_all add: assms(2))
  then have "libfsxfs_superblock_read_data superblock_zero (superblock_sector sb) = Inr sb"
    unfolding superblock_sector_def
    by (subst superblock_reader.reader_append) (simp_all add: sizeof_fsxfs_superblock_def len)
  then show ?thesis
    using assms(3) len
    by (simp add: libfsxfs_superblock_initialize_def libfsxfs_superblock_read_file_io_handle_def
        read_buffer_at_offset_def superblock_sector_def)
qed

lemma example_volume_open_read:
  assumes "fio 0 512 = Some (superblock_sector example_superblock)" and "read_buffer_at_offset fio 1024 512 = Inl Read_Failed"
  shows "libfsxfs_internal_volume_open_read volume_zero fio = (example_volume :: 'h volume, Inr ())"
proof -
  have sb: "bindE (libfsxfs_superblock_initialize None) (\<lambda>sb. libfsxfs_superblock_read_file_io_handle sb fio 0) =
      Inr example_superblock"
    by (rule superblock_sector_read [OF example_superblock_supported]) (simp_all add: assms(1), simp add: example_superblock_def)
  have s: "sb_sector_size example_superblock = 512" "sb_root_directory_inode_number example_superblock = 64"
    "sb_number_of_allocation_groups example_superblock = 1"
    "io_block_size (io_handle_set_superblock io_handle_zero example_superblock) = 4096"
    "io_allocation_group_size (io_handle_set_superblock io_handle_zero example_superblock) = 1024"
    by (simp_all add: example_superblock_def io_handle_set_superblock_def)
  have i: "libfsxfs_file_system_read_inode_information fs io fio 1024 = Inr fs" for fs io
    using assms(2)
    by (simp add: libfsxfs_file_system_read_inode_information_def libfsxfs_inode_btree_read_inode_information_def
        libfsxfs_inode_information_initialize_def libfsxfs_inode_information_read_file_io_handle_def)
  have "volume_read_allocation_group fio volume_zero 0 = (example_volume :: 'h volume, Inr (1024 * 4096))"
    unfolding volume_read_allocation_group_def sb
    by (simp add: volume_keep_superblock_def volume_zero_def Let_def s i file_system_initialize_Inr example_volume_def)
  then have "volume_read_allocation_groups fio volume_zero 0 0 = (example_volume :: 'h volume, Inr 1)"
    by (simp add: volume_read_allocation_groups.simps volume_number_of_allocation_groups_def example_volume_def s)
  then show ?thesis
    by (simp add: libfsxfs_internal_volume_open_read_def volume_number_of_allocation_groups_def example_volume_def s
        volume_zero_def)
qed

lemma example_volume_open:
  "libfsxfs_volume_open_file_io_handle example_libbfio volume_zero () 1 =
     (example_volume\<lparr> vol_file_io_handle := Some () \<rparr>, Inr ())"
proof -
  have "libfsxfs_internal_volume_open_read volume_zero example_volume_file = (example_volume :: unit volume, Inr ())"
    by (rule example_volume_open_read) (simp_all add: example_volume_file_def superblock_sector_def read_buffer_at_offset_def)
  then show ?thesis
    by (simp add: libfsxfs_volume_open_file_io_handle_def example_libbfio_def volume_zero_def example_volume_def)
qed

lemma example_volume_reachable:
  "volume_reachable example_libbfio (\<lambda>f :: unit. Inr ()) (example_volume\<lparr> vol_file_io_handle := Some () \<rparr>)"
  by (rule volume_reachable.step [OF volume_reachable.start volume_step.open_handle [OF example_volume_open]])
    (simp add: libfsxfs_volume_initialize_def)

lemma volume_open_or_closed_witness:
  "volume_loaded (example_volume\<lparr> vol_file_io_handle := Some () \<rparr>)"
  using volume_open_or_closed [OF example_volume_reachable] by simp

text \<open>
  Closing an open volume leaves it as it was when it was new, whatever happened to it before,
  also the signal to abort; so opening it again has the result of opening a new volume.
\<close>

theorem volume_close_restores:
  assumes "vol_file_io_handle v \<noteq> None" and "libfsxfs_volume_close lib v = (v', r)"
  shows "libfsxfs_volume_initialize None = Inr v' \<and>
    libfsxfs_volume_open_file_io_handle lib' v' h flags = libfsxfs_volume_open_file_io_handle lib' volume_zero h flags"
proof -
  have "v' = volume_zero"
    using assms by (cases v) (auto simp: libfsxfs_volume_close_def Let_def volume_zero_def libfsxfs_io_handle_clear_def)
  then show ?thesis by (simp add: libfsxfs_volume_initialize_def)
qed

lemma volume_close_restores_witness:
  "libfsxfs_volume_initialize None =
     Inr (fst (libfsxfs_volume_close example_libbfio (example_volume\<lparr> vol_file_io_handle := Some () \<rparr>)))"
  using volume_close_restores [of "example_volume\<lparr> vol_file_io_handle := Some () \<rparr>" example_libbfio]
  by (cases "libfsxfs_volume_close example_libbfio (example_volume\<lparr> vol_file_io_handle := Some () \<rparr>)") simp

subsection \<open>The inode information of the allocation groups\<close>

text \<open>The inode information of allocation group \<open>j\<close>: a list of one, or empty when it cannot be read.\<close>

definition group_inode_information :: "io_handle \<Rightarrow> superblock \<Rightarrow> file_io \<Rightarrow> u64 \<Rightarrow> inode_information list" where
  "group_inode_information io sb fio superblock_offset =
     (case bindE (libfsxfs_inode_information_initialize None) (\<lambda>information.
             libfsxfs_inode_information_read_file_io_handle information io fio
               (superblock_offset + 2 * ucast (sb_sector_size sb))) of
        Inl e \<Rightarrow> []
      | Inr information \<Rightarrow> [information])"

definition allocation_group_bytes :: "io_handle \<Rightarrow> u64" where
  "allocation_group_bytes io = ucast (io_allocation_group_size io) * ucast (io_block_size io)"

definition file_system_add :: "file_system \<Rightarrow> inode_information list \<Rightarrow> file_system" where
  "file_system_add fs xs =
     fs\<lparr> fs_inode_btree := \<lparr> ib_inode_information_array =
       ib_inode_information_array (fs_inode_btree fs) @ xs \<rparr> \<rparr>"

lemma file_system_add_add: "file_system_add (file_system_add fs xs) ys = file_system_add fs (xs @ ys)"
  by (simp add: file_system_add_def)

lemma read_inode_information_add:
  "libfsxfs_file_system_read_inode_information fs io fio (off + 2 * ucast (sb_sector_size sb)) =
     Inr (file_system_add fs (group_inode_information io sb fio off))"
proof -
  have "fault_free (bindE (libfsxfs_inode_information_initialize None) (\<lambda>information.
      libfsxfs_inode_information_read_file_io_handle information io fio (off + 2 * ucast (sb_sector_size sb))))"
    by (intro safe_intros) (simp add: libfsxfs_inode_information_initialize_def)
  then show ?thesis
    by (auto simp: libfsxfs_file_system_read_inode_information_def file_system_add_def
        libfsxfs_inode_btree_read_inode_information_def group_inode_information_def bindE_def
        split: sum.splits error.splits)
qed

lemma volume_read_allocation_group_add:
  assumes "vol_superblock v = Some sb" and "vol_file_system v = Some fs"
    and "volume_read_allocation_group fio v off = (v', Inr off')"
  shows "v' = v\<lparr> vol_file_system := Some (file_system_add fs (group_inode_information (vol_io_handle v) sb fio off)) \<rparr> \<and>
    off' = off + allocation_group_bytes (vol_io_handle v)"
  using assms(3)
  by (auto simp: volume_read_allocation_group_def volume_keep_superblock_Some(2) [OF assms(1)] assms(2)
      read_inode_information_add allocation_group_bytes_def Let_def split: sum.split_asm if_split_asm)

lemma volume_read_allocation_groups_add:
  assumes "vol_superblock v = Some sb" and "vol_file_system v = Some fs"
    and "volume_read_allocation_groups fio v off i = (v', Inr n)"
  shows "v' = v\<lparr> vol_file_system := Some (file_system_add fs
      (concat (map (\<lambda>j. group_inode_information (vol_io_handle v) sb fio
        (off + word_of_nat j * allocation_group_bytes (vol_io_handle v))) [0..<n - i]))) \<rparr> \<and> i < n"
  using assms
proof (induction fio v off i arbitrary: v' fs rule: volume_read_allocation_groups.induct)
  case (1 fio v off i)
  let ?io = "vol_io_handle v" and ?size = "allocation_group_bytes (vol_io_handle v)"
  obtain w off' where w: "volume_read_allocation_group fio v off = (w, Inr off')"
    using 1(4) by (auto simp: volume_read_allocation_groups.simps [of fio v] split: prod.splits sum.splits)
  have w': "w = v\<lparr> vol_file_system := Some (file_system_add fs (group_inode_information ?io sb fio off)) \<rparr>"
    "off' = off + ?size"
    using volume_read_allocation_group_add [OF 1(2,3) w] by simp_all
  show ?case
  proof (cases "i + 1 < volume_number_of_allocation_groups w")
    case True
    have "volume_read_allocation_groups fio w off' (i + 1) = (v', Inr n)"
      using 1(4) w True by (simp add: volume_read_allocation_groups.simps [of fio v])
    note IH = 1(1) [OF w [symmetric] refl refl True _ _ this]
    have v': "v' = w\<lparr> vol_file_system := Some (file_system_add (file_system_add fs (group_inode_information ?io sb fio off))
      (concat (map (\<lambda>j. group_inode_information ?io sb fio (off' + word_of_nat j * ?size)) [0..<n - (i + 1)]))) \<rparr>"
      and n: "i + 1 < n"
      using IH 1(2) w'(1) by simp_all
    have sh: "concat (map (\<lambda>j. group_inode_information ?io sb fio (off + word_of_nat j * ?size)) [0..<n - i]) =
      group_inode_information ?io sb fio off @
      concat (map (\<lambda>j. group_inode_information ?io sb fio (off' + word_of_nat j * ?size)) [0..<n - (i + 1)])"
    proof -
      have "[0..<n - i] = 0 # map Suc [0..<n - (i + 1)]"
        using n by (simp add: map_Suc_upt upt_conv_Cons Suc_diff_Suc)
      then show ?thesis by (simp add: w'(2) comp_def algebra_simps)
    qed
    show ?thesis unfolding sh using v' w'(1) n by (simp add: file_system_add_add)
  next
    case False
    then have "v' = w" "n = i + 1"
      using 1(4) w by (simp_all add: volume_read_allocation_groups.simps [of fio v])
    with w' show ?thesis by simp
  qed
qed

lemma volume_read_allocation_group_first:
  assumes "volume_empty v" and "bindE (libfsxfs_superblock_initialize None) (\<lambda>sb.
      libfsxfs_superblock_read_file_io_handle sb fio off) = Inr sb"
  shows "volume_read_allocation_group fio v off = volume_read_allocation_group fio
    (v\<lparr> vol_superblock := Some sb, vol_io_handle := io_handle_set_superblock (vol_io_handle v) sb,
       vol_file_system := Some \<lparr> fs_inode_btree = \<lparr> ib_inode_information_array = [] \<rparr>,
         fs_root_directory_inode_number = sb_root_directory_inode_number sb \<rparr> \<rparr>) off"
  using assms(1)
  by (simp add: volume_read_allocation_group_def assms(2) volume_keep_superblock_def volume_empty_def
      file_system_initialize_Inr read_inode_information_add Let_def)

lemma volume_open_read_information:
  assumes "libfsxfs_internal_volume_open_read v fio = (v', Inr ())"
  shows "\<exists>sb fs. vol_superblock v' = Some sb \<and> vol_file_system v' = Some fs \<and>
    ib_inode_information_array (fs_inode_btree fs) =
      concat (map (\<lambda>j. group_inode_information (vol_io_handle v') sb fio
        (word_of_nat j * allocation_group_bytes (vol_io_handle v'))) [0..<unat (sb_number_of_allocation_groups sb)])"
proof -
  have e: "volume_empty v"
    using assms by (auto simp: libfsxfs_internal_volume_open_read_def volume_empty_def split: if_splits)
  obtain n where n: "volume_read_allocation_groups fio v 0 0 = (v', Inr n)" "n = volume_number_of_allocation_groups v'"
    using assms e
    by (auto simp: libfsxfs_internal_volume_open_read_def volume_empty_def split: if_splits prod.splits sum.splits)
  then obtain sb where sb: "bindE (libfsxfs_superblock_initialize None) (\<lambda>sb.
      libfsxfs_superblock_read_file_io_handle sb fio 0) = Inr sb"
    by (auto simp: volume_read_allocation_groups.simps [of fio v] volume_read_allocation_group_def
        split: sum.splits)
  let ?fs = "\<lparr> fs_inode_btree = \<lparr> ib_inode_information_array = [] \<rparr>,
      fs_root_directory_inode_number = sb_root_directory_inode_number sb \<rparr>"
  let ?v = "v\<lparr> vol_superblock := Some sb, vol_io_handle := io_handle_set_superblock (vol_io_handle v) sb,
      vol_file_system := Some ?fs \<rparr>"
  have "volume_read_allocation_groups fio ?v 0 0 = (v', Inr n)"
    using n(1) volume_read_allocation_group_first [OF e sb]
    by (simp add: volume_read_allocation_groups.simps [of fio v] volume_read_allocation_groups.simps [of fio ?v])
  from volume_read_allocation_groups_add [OF _ _ this, of sb ?fs]
  have v': "v' = ?v\<lparr> vol_file_system := Some (file_system_add ?fs
      (concat (map (\<lambda>j. group_inode_information (vol_io_handle ?v) sb fio
        (word_of_nat j * allocation_group_bytes (vol_io_handle ?v))) [0..<n]))) \<rparr>"
    by simp
  then have "vol_superblock v' = Some sb" by simp
  with n(2) have n': "n = unat (sb_number_of_allocation_groups sb)"
    by (simp add: volume_number_of_allocation_groups_def)
  show ?thesis unfolding v' n' by (simp add: file_system_add_def)
qed

definition group_readable :: "'h volume \<Rightarrow> file_io \<Rightarrow> nat \<Rightarrow> bool" where
  "group_readable v fio j \<longleftrightarrow> (\<exists>sb. vol_superblock v = Some sb \<and>
     group_inode_information (vol_io_handle v) sb fio (word_of_nat j * allocation_group_bytes (vol_io_handle v)) \<noteq> [])"

lemma concat_singletons_nth:
  assumes "\<And>i. length (f i) \<le> 1" and "j < n" and "f j = [x]"
  shows "concat (map f [0..<n]) ! card {i. i < j \<and> f i \<noteq> []} = x"
proof -
  have l: "length (concat (map f [0..<m])) = card {i. i < m \<and> f i \<noteq> []}" for m
  proof (induction m)
    case (Suc m)
    have "{i. i < Suc m \<and> f i \<noteq> []} = (if f m = [] then {} else {m}) \<union> {i. i < m \<and> f i \<noteq> []}"
      by (auto simp: less_Suc_eq)
    moreover have "length (f m) = (if f m = [] then 0 else 1)"
      using assms(1) [of m] by (cases "f m") auto
    ultimately show ?case using Suc by simp
  qed simp
  have "[0..<n] = [0..<j] @ j # [Suc j..<n]"
    using assms(2) upt_add_eq_append [of 0 j "n - j"] upt_conv_Cons [of j n] by simp
  then show ?thesis using assms(3) by (simp add: l [symmetric] nth_append)
qed

lemma card_prefix_eq_iff: "card {i :: nat. i < j \<and> P i} = j \<longleftrightarrow> (\<forall>i < j. P i)"
proof
  assume c: "card {i. i < j \<and> P i} = j"
  have "{i. i < j \<and> P i} = {..<j}"
    by (rule card_subset_eq) (use c in auto)
  then show "\<forall>i < j. P i" by auto
next
  assume "\<forall>i < j. P i"
  then have "{i. i < j \<and> P i} = {..<j}" by auto
  then show "card {i. i < j \<and> P i} = j" by simp
qed

text \<open>
  After opening, the inode information of an allocation group that could be read is at the
  index that is the number of the groups before it that could be read: a group that cannot be
  read is passed over without an error, and the information of every later group is found under
  the index of another group, where the lookup of inodes does not look for it.
\<close>

theorem volume_open_shifts_information:
  assumes "libfsxfs_internal_volume_open_read v fio = (v', Inr ())"
    and "vol_superblock v' = Some sb" and "vol_file_system v' = Some fs"
    and "j < unat (sb_number_of_allocation_groups sb)"
    and "group_inode_information (vol_io_handle v') sb fio
      (word_of_nat j * allocation_group_bytes (vol_io_handle v')) = [information]"
  shows "ib_inode_information_array (fs_inode_btree fs) ! card {i. i < j \<and> group_readable v' fio i} = information \<and>
    (card {i. i < j \<and> group_readable v' fio i} = j \<longleftrightarrow> (\<forall>i < j. group_readable v' fio i))"
proof -
  let ?f = "\<lambda>i. group_inode_information (vol_io_handle v') sb fio (word_of_nat i * allocation_group_bytes (vol_io_handle v'))"
  have l: "length (?f i) \<le> 1" for i by (auto simp: group_inode_information_def split: sum.splits)
  have "ib_inode_information_array (fs_inode_btree fs) = concat (map ?f [0..<unat (sb_number_of_allocation_groups sb)])"
    using volume_open_read_information [OF assms(1)] assms(2,3) by auto
  moreover have "group_readable v' fio i \<longleftrightarrow> ?f i \<noteq> []" for i
    using assms(2) by (simp add: group_readable_def)
  ultimately show ?thesis
    using concat_singletons_nth [of ?f, OF l assms(4,5)] card_prefix_eq_iff [of j "group_readable v' fio"]
    by simp
qed

text \<open>Two allocation groups, the inode information of the first of which is missing.\<close>

definition example_two_groups :: superblock where
  "example_two_groups = example_superblock\<lparr> sb_number_of_allocation_groups := 2, sb_number_of_blocks := 2048 \<rparr>"

definition example_information_bytes :: "u8 list" where
  "example_information_bytes =
     [0x58, 0x41, 0x47, 0x49, 0, 0, 0, 1, 0, 0, 0, 1, 0, 0, 4, 0, 0, 0, 0, 64, 0, 0, 0, 3, 0, 0, 0, 1] @ replicate 484 0"

definition example_two_groups_file :: file_io where
  "example_two_groups_file off n =
     (if n \<noteq> 512 then None else if off = 0 \<or> off = 0x400000 then Some (superblock_sector example_two_groups) else
      if off = 0x400400 then Some example_information_bytes else None)"

definition example_two_groups_volume :: "unit volume" where
  "example_two_groups_volume = volume_zero
     \<lparr> vol_superblock := Some example_two_groups,
       vol_file_system := Some \<lparr> fs_inode_btree = \<lparr> ib_inode_information_array =
           [\<lparr> ii_inode_btree_root_block_number = 3, ii_inode_btree_depth = 1, ii_last_allocated_chunk = 0 \<rparr>] \<rparr>,
         fs_root_directory_inode_number = 64 \<rparr>,
       vol_io_handle := io_handle_set_superblock io_handle_zero example_two_groups \<rparr>"

lemma example_two_groups_supported: "superblock_supported example_two_groups"
  using example_superblock_supported by (simp add: superblock_supported_def example_two_groups_def example_superblock_def)

lemma example_information_read:
  "libfsxfs_inode_information_read_file_io_handle inode_information_zero
     (io_handle_set_superblock io_handle_zero example_two_groups) example_two_groups_file 0x400400 =
     Inr \<lparr> ii_inode_btree_root_block_number = 3, ii_inode_btree_depth = 1, ii_last_allocated_chunk = 0 \<rparr>"
proof -
  have b: "byte_stream_copy_to_uint32_big_endian example_information_bytes 4 = Inr 1"
    "byte_stream_copy_to_uint32_big_endian example_information_bytes 20 = Inr 3"
    "byte_stream_copy_to_uint32_big_endian example_information_bytes 24 = Inr 1"
    "byte_stream_copy_to_uint32_big_endian example_information_bytes 32 = Inr 0"
    "get_bytes example_information_bytes 0 4 = Inr [0x58, 0x41, 0x47, 0x49]"
    by (simp_all add: example_information_bytes_def) code_simp+
  have "length example_information_bytes = 512" by (simp add: example_information_bytes_def)
  then show ?thesis
    by (simp add: libfsxfs_inode_information_read_file_io_handle_def read_buffer_at_offset_def
        example_two_groups_file_def libfsxfs_inode_information_read_data_def b inode_information_zero_def
        inode_information_data_size_def io_handle_set_superblock_def example_two_groups_def example_superblock_def)
qed

lemma example_two_groups_information:
  "group_inode_information io example_two_groups example_two_groups_file 0 = []"
  "group_inode_information (io_handle_set_superblock io_handle_zero example_two_groups)
     example_two_groups example_two_groups_file 0x400000 =
     [\<lparr> ii_inode_btree_root_block_number = 3, ii_inode_btree_depth = 1, ii_last_allocated_chunk = 0 \<rparr>]"
proof -
  have sz: "sb_sector_size example_two_groups = 512"
    by (simp add: example_two_groups_def example_superblock_def)
  show "group_inode_information io example_two_groups example_two_groups_file 0 = []"
    by (simp add: group_inode_information_def libfsxfs_inode_information_initialize_def sz
      libfsxfs_inode_information_read_file_io_handle_def read_buffer_at_offset_def example_two_groups_file_def)
  show "group_inode_information (io_handle_set_superblock io_handle_zero example_two_groups)
     example_two_groups example_two_groups_file 0x400000 =
     [\<lparr> ii_inode_btree_root_block_number = 3, ii_inode_btree_depth = 1, ii_last_allocated_chunk = 0 \<rparr>]"
    by (simp add: group_inode_information_def libfsxfs_inode_information_initialize_def sz example_information_read)
qed

lemma example_two_groups_open:
  "libfsxfs_internal_volume_open_read volume_zero example_two_groups_file = (example_two_groups_volume, Inr ())"
proof -
  have s: "sb_sector_size example_two_groups = 512" "sb_root_directory_inode_number example_two_groups = 64"
    "sb_number_of_allocation_groups example_two_groups = 2"
    "io_block_size (io_handle_set_superblock io_handle_zero example_two_groups) = 4096"
    "io_allocation_group_size (io_handle_set_superblock io_handle_zero example_two_groups) = 1024"
    by (simp_all add: example_two_groups_def example_superblock_def io_handle_set_superblock_def)
  have sb: "bindE (libfsxfs_superblock_initialize None) (\<lambda>sb.
      libfsxfs_superblock_read_file_io_handle sb example_two_groups_file off) = Inr example_two_groups"
    if "off = 0 \<or> off = 0x400000" for off
    by (rule superblock_sector_read [OF example_two_groups_supported])
      (use that in \<open>auto simp: example_two_groups_def example_superblock_def example_two_groups_file_def superblock_sector_def\<close>)
  have i: "libfsxfs_file_system_read_inode_information fs io example_two_groups_file 1024 =
      Inr (file_system_add fs (group_inode_information io example_two_groups example_two_groups_file 0))"
    "libfsxfs_file_system_read_inode_information fs io example_two_groups_file 0x400400 =
      Inr (file_system_add fs (group_inode_information io example_two_groups example_two_groups_file 0x400000))" for fs io
    using read_inode_information_add [where off = 0 and fio = example_two_groups_file and sb = example_two_groups]
      read_inode_information_add [where off = "0x400000" and fio = example_two_groups_file and sb = example_two_groups]
    by (simp_all add: s)
  let ?v = "(volume_zero :: unit volume)\<lparr> vol_superblock := Some example_two_groups,
      vol_file_system := Some \<lparr> fs_inode_btree = \<lparr> ib_inode_information_array = [] \<rparr>,
        fs_root_directory_inode_number = 64 \<rparr>,
      vol_io_handle := io_handle_set_superblock io_handle_zero example_two_groups \<rparr>"
  have "volume_read_allocation_group example_two_groups_file volume_zero 0 = (?v, Inr 0x400000)"
    unfolding volume_read_allocation_group_def sb [OF disjI1 [OF refl]]
    by (simp add: volume_keep_superblock_def volume_zero_def Let_def s i file_system_initialize_Inr
        example_two_groups_information file_system_add_def)
  moreover have "volume_read_allocation_group example_two_groups_file ?v 0x400000 = (example_two_groups_volume, Inr 0x800000)"
    unfolding volume_read_allocation_group_def sb [OF disjI2 [OF refl]]
    by (simp add: volume_keep_superblock_def volume_zero_def Let_def s i
        example_two_groups_information file_system_add_def example_two_groups_volume_def)
  ultimately have "volume_read_allocation_groups example_two_groups_file volume_zero 0 0 = (example_two_groups_volume, Inr 2)"
    by (simp add: volume_read_allocation_groups.simps volume_number_of_allocation_groups_def
        example_two_groups_volume_def s)
  then show ?thesis
    by (simp add: volume_zero_def libfsxfs_internal_volume_open_read_def
        volume_number_of_allocation_groups_def example_two_groups_volume_def s)
qed

lemma volume_open_shifts_information_witness:
  "\<exists>fs. vol_file_system example_two_groups_volume = Some fs \<and>
     ib_inode_information_array (fs_inode_btree fs) ! 0 =
       \<lparr> ii_inode_btree_root_block_number = 3, ii_inode_btree_depth = 1, ii_last_allocated_chunk = 0 \<rparr>"
proof -
  let ?v = example_two_groups_volume and ?fio = example_two_groups_file
  have s: "vol_superblock ?v = Some example_two_groups" "sb_number_of_allocation_groups example_two_groups = 2"
    "vol_io_handle ?v = io_handle_set_superblock io_handle_zero example_two_groups"
    "allocation_group_bytes (io_handle_set_superblock io_handle_zero example_two_groups) = 0x400000"
    by (simp_all add: example_two_groups_volume_def example_two_groups_def example_superblock_def
        io_handle_set_superblock_def allocation_group_bytes_def)
  obtain fs where fs: "vol_file_system ?v = Some fs" by (simp add: example_two_groups_volume_def)
  have "\<not> group_readable ?v ?fio 0"
    by (simp add: group_readable_def s example_two_groups_information)
  then have e: "{i. i < 1 \<and> group_readable ?v ?fio i} = {}" by auto
  show ?thesis
    using fs volume_open_shifts_information [OF example_two_groups_open s(1) fs, of 1
      "\<lparr> ii_inode_btree_root_block_number = 3, ii_inode_btree_depth = 1, ii_last_allocated_chunk = 0 \<rparr>",
      unfolded e card.empty]
    by (simp add: s example_two_groups_information)
qed

end
