(* ===== verification/Attributes_Table.thy ===== *)
theory Attributes_Table
  imports Directory_Table
begin

text \<open>
  The values of an extended attribute (\<open>libfsxfs_attribute_values.c\<close>) and the short form table of
  attributes that is stored in an inode (\<open>libfsxfs_attributes_table_header.c\<close>,
  \<open>libfsxfs_attributes_table.c\<close>).
\<close>

subsection \<open>Attribute values\<close>

text \<open>The name ends with a zero byte that is part of it.\<close>

record attribute_values =
  av_name :: "u8 list option"
  av_name_size :: nat
  av_value_data_size :: u32
  av_value_data :: "u8 list option"
  av_value_data_block_number :: u32

definition attribute_values_zero :: attribute_values where
  "attribute_values_zero =
     \<lparr> av_name = None, av_name_size = 0, av_value_data_size = 0, av_value_data = None,
       av_value_data_block_number = 0 \<rparr>"

definition libfsxfs_attribute_values_initialize ::
    "attribute_values option \<Rightarrow> attribute_values result" where
  "libfsxfs_attribute_values_initialize pointer = allocate_structure pointer attribute_values_zero"

text \<open>The prefixes \<open>user.\<close>, \<open>trusted.\<close> and \<open>secure.\<close> of the flags 0, 2 and 4.\<close>

definition attribute_name_prefix :: "u8 \<Rightarrow> u8 list result" where
  "attribute_name_prefix flags =
     (if flags AND 0x7e = 0 then Inr [0x75, 0x73, 0x65, 0x72, 0x2e]
      else if flags AND 0x7e = 2 then Inr [0x74, 0x72, 0x75, 0x73, 0x74, 0x65, 0x64, 0x2e]
      else if flags AND 0x7e = 4 then Inr [0x73, 0x65, 0x63, 0x75, 0x72, 0x65, 0x2e]
      else Inl Unsupported_Value)"

text \<open>
  \<open>name\<close> and \<open>value_data\<close> are pointers: the buffer and the offset into it. The bytes are read
  when they are copied, after the checks.
\<close>

definition libfsxfs_attribute_values_set_name ::
    "attribute_values \<Rightarrow> u8 list \<Rightarrow> nat \<Rightarrow> nat \<Rightarrow> u8 \<Rightarrow> attribute_values result" where
  "libfsxfs_attribute_values_set_name values data name_offset name_size flags =
     (if av_name values \<noteq> None then Inl Value_Already_Set else
      if name_size = 0 \<or> name_size > 255 then Inl Value_Out_Of_Bounds else
      bindE (attribute_name_prefix flags) (\<lambda>name_prefix.
      bindE (get_bytes data name_offset name_size) (\<lambda>name.
      Inr (values\<lparr> av_name := Some (name_prefix @ name @ [0]),
                   av_name_size := length name_prefix + name_size + 1 \<rparr>))))"

definition libfsxfs_attribute_values_set_value_data ::
    "attribute_values \<Rightarrow> u8 list \<Rightarrow> nat \<Rightarrow> nat \<Rightarrow> attribute_values result" where
  "libfsxfs_attribute_values_set_value_data values data value_data_offset value_data_size =
     (if av_value_data values \<noteq> None then Inl Value_Already_Set else
      if value_data_size = 0 \<or> value_data_size > MEMORY_MAXIMUM_ALLOCATION_SIZE
      then Inl Value_Out_Of_Bounds else
      bindE (get_bytes data value_data_offset value_data_size) (\<lambda>value_data.
      Inr (values\<lparr> av_value_data := Some value_data,
                   av_value_data_size := word_of_nat value_data_size \<rparr>)))"

definition libfsxfs_attribute_values_compare_name_with_utf8_string ::
    "u8 name_compare \<Rightarrow> attribute_values \<Rightarrow> u8 list \<Rightarrow> comparison result" where
  "libfsxfs_attribute_values_compare_name_with_utf8_string compare values utf8_string =
     (case av_name values of
        None \<Rightarrow> Inl Generic
      | Some name \<Rightarrow>
          (case compare utf8_string name of Compare_Error \<Rightarrow> Inl Generic | c \<Rightarrow> Inr c))"

definition libfsxfs_attribute_values_compare_name_with_utf16_string ::
    "u16 name_compare \<Rightarrow> attribute_values \<Rightarrow> u16 list \<Rightarrow> comparison result" where
  "libfsxfs_attribute_values_compare_name_with_utf16_string compare values utf16_string =
     (case av_name values of
        None \<Rightarrow> Inl Generic
      | Some name \<Rightarrow>
          (case compare utf16_string name of Compare_Error \<Rightarrow> Inl Generic | c \<Rightarrow> Inr c))"

subsection \<open>The table\<close>

record attributes_table_header =
  ath_data_size :: u16
  ath_number_of_entries :: u8

definition libfsxfs_attributes_table_header_initialize ::
    "attributes_table_header option \<Rightarrow> attributes_table_header result" where
  "libfsxfs_attributes_table_header_initialize pointer =
     allocate_structure pointer \<lparr> ath_data_size = 0, ath_number_of_entries = 0 \<rparr>"

definition libfsxfs_attributes_table_header_read_data ::
    "attributes_table_header \<Rightarrow> u8 list \<Rightarrow> attributes_table_header result" where
  "libfsxfs_attributes_table_header_read_data header data =
     (if length data < 4 \<or> length data > SSIZE_MAX then Inl Value_Out_Of_Bounds else
      bindE (byte_stream_copy_to_uint16_big_endian data 0) (\<lambda>data_size.
      bindE (get_byte data 2) (\<lambda>number_of_entries.
      Inr (header\<lparr> ath_data_size := data_size,
                   ath_number_of_entries := number_of_entries \<rparr>))))"

interpretation attributes_table_header_reader:
  structure_reader "libfsxfs_attributes_table_header_read_data header" 4 for header
  by unfold_locales (auto simp: libfsxfs_attributes_table_header_read_data_def)

record attributes_table =
  at_header :: "attributes_table_header option"

definition libfsxfs_attributes_table_initialize ::
    "attributes_table option \<Rightarrow> attributes_table result" where
  "libfsxfs_attributes_table_initialize pointer =
     allocate_structure pointer \<lparr> at_header = None \<rparr>"

text \<open>
  The size of the name is compared with the size of the whole data, not with what is left of it
  after the entry.
\<close>

function attributes_table_read_entries ::
    "u8 list \<Rightarrow> nat \<Rightarrow> attribute_values list \<Rightarrow> nat \<Rightarrow> nat \<Rightarrow> attribute_values list result" where
  "attributes_table_read_entries data number_of_entries attributes_array data_offset attribute_index =
     (if attribute_index < number_of_entries then
        if data_offset > size_sub (length data) 3 then Inl Value_Out_Of_Bounds else
        bindE (get_byte data data_offset) (\<lambda>name_size.
        if unat name_size > size_sub (length data) 3 then Inl Value_Out_Of_Bounds else
        bindE (libfsxfs_attribute_values_initialize None) (\<lambda>values.
        bindE (get_byte data (data_offset + 1)) (\<lambda>value_data_size.
        bindE (get_byte data (data_offset + 2)) (\<lambda>flags.
        let data_offset = data_offset + 3 in
        bindE (if name_size > 0
               then libfsxfs_attribute_values_set_name values data data_offset (unat name_size) flags
               else Inr values) (\<lambda>values.
        let data_offset = data_offset + unat name_size in
        if unat value_data_size > size_sub (length data) data_offset then Inl Value_Out_Of_Bounds else
        bindE (if value_data_size > 0
               then libfsxfs_attribute_values_set_value_data values data data_offset (unat value_data_size)
               else Inr values) (\<lambda>values.
        attributes_table_read_entries data number_of_entries (attributes_array @ [values])
          (data_offset + unat value_data_size) (attribute_index + 1)))))))
      else Inr attributes_array)"
  by pat_completeness auto
termination
  by (relation "measure (\<lambda>(_, number_of_entries, _, _, attribute_index).
        number_of_entries - attribute_index)") auto

declare attributes_table_read_entries.simps [simp del]

definition libfsxfs_attributes_table_read_data ::
    "attributes_table \<Rightarrow> u8 list \<Rightarrow> attribute_values list
      \<Rightarrow> (attributes_table \<times> attribute_values list) result" where
  "libfsxfs_attributes_table_read_data table data attributes_array =
     (if at_header table \<noteq> None then Inl Value_Already_Set else
      if length data < 2 \<or> length data > SSIZE_MAX then Inl Value_Out_Of_Bounds else
      bindE (libfsxfs_attributes_table_header_initialize (at_header table)) (\<lambda>header.
      bindE (libfsxfs_attributes_table_header_read_data header data) (\<lambda>header.
      if unat (ath_data_size header) < 4 \<or> unat (ath_data_size header) > length data
      then Inl Value_Out_Of_Bounds else
      if length data < 3 then Inl Value_Out_Of_Bounds else
      bindE (attributes_table_read_entries data (unat (ath_number_of_entries header))
               attributes_array 4 0) (\<lambda>attributes_array.
      Inr (table\<lparr> at_header := Some header \<rparr>, attributes_array)))))"


subsection \<open>Writing a table\<close>

text \<open>An entry of the table: flags, name and value.\<close>

type_synonym attribute_item = "u8 \<times> u8 list \<times> u8 list"

definition attribute_item_fits :: "attribute_item \<Rightarrow> bool" where
  "attribute_item_fits item =
     (case item of (flags, name, val) \<Rightarrow>
        flags AND 0x7e \<in> {0, 2, 4} \<and> name \<noteq> [] \<and> length name < 256 \<and> length val < 256)"

definition attribute_item_bytes :: "attribute_item \<Rightarrow> u8 list" where
  "attribute_item_bytes item =
     (case item of (flags, name, val) \<Rightarrow>
        [word_of_nat (length name), word_of_nat (length val), flags] @ name @ val)"

definition attribute_item_values :: "attribute_item \<Rightarrow> attribute_values" where
  "attribute_item_values item =
     (case item of (flags, name, val) \<Rightarrow>
        let prefix = projr (attribute_name_prefix flags) in
        \<lparr> av_name = Some (prefix @ name @ [0]), av_name_size = length prefix + length name + 1,
          av_value_data_size = word_of_nat (length val),
          av_value_data = (if val = [] then None else Some val),
          av_value_data_block_number = 0 \<rparr>)"

definition attributes_table_bytes :: "attribute_item list \<Rightarrow> u8 list" where
  "attributes_table_bytes items =
     (let entries = concat (map attribute_item_bytes items) in
      be_bytes 2 (word_of_nat (4 + length entries) :: u16) @ [word_of_nat (length items), 0] @ entries)"

lemma unat_word_of_nat_8: "n < 256 \<Longrightarrow> unat (word_of_nat n :: u8) = n"
  by (simp add: unat_of_nat)

lemma attribute_name_prefix_fits:
  "flags AND 0x7e \<in> {0, 2, 4} \<Longrightarrow> \<exists>p. attribute_name_prefix flags = Inr p"
  by (auto simp: attribute_name_prefix_def)

lemma attributes_table_read_item:
  assumes fits: "attribute_item_fits item" and d: "data = pre @ attribute_item_bytes item @ rest"
    and i: "i < n"
  shows "attributes_table_read_entries data n xs (length pre) i =
    attributes_table_read_entries data n (xs @ [attribute_item_values item])
      (length (pre @ attribute_item_bytes item)) (i + 1)"
proof -
  obtain flags name val where item: "item = (flags, name, val)" by (cases item)
  have f: "flags AND 0x7e \<in> {0, 2, 4}" "name \<noteq> []" "length name < 256" "length val < 256"
    using fits by (auto simp: item attribute_item_fits_def)
  obtain p where p: "attribute_name_prefix flags = Inr p" using attribute_name_prefix_fits [OF f(1)] ..
  have u: "unat (word_of_nat (length name) :: u8) = length name"
    "unat (word_of_nat (length val) :: u8) = length val"
    using f by (simp_all add: unat_word_of_nat_8)
  have "0 < length name" using f(2) by simp
  then have pos: "(word_of_nat (length name) :: u8) > 0"
    by (simp only: word_less_nat_alt u unat_0)
  have posv: "(word_of_nat (length val) :: u8) > 0 \<longleftrightarrow> val \<noteq> []"
    by (simp only: word_less_nat_alt u unat_0 length_greater_0_conv)
  have l: "length data = length pre + 3 + length name + length val + length rest"
    by (simp add: d item attribute_item_bytes_def)
  have b: "data ! length pre = word_of_nat (length name)"
    "data ! (length pre + 1) = word_of_nat (length val)" "data ! (length pre + 2) = flags"
    by (simp_all add: d item attribute_item_bytes_def nth_append)
  have nm: "take (length name) (drop (length pre + 3) data) = name"
    by (simp add: d item attribute_item_bytes_def)
  have vl: "take (length val) (drop (length pre + 3 + length name) data) = val"
    by (simp add: d item attribute_item_bytes_def numeral_3_eq_3)
  have e: "length (pre @ attribute_item_bytes item) = length pre + 3 + length name + length val"
    by (simp add: item attribute_item_bytes_def)
  have g: "get_byte data (length pre) = Inr (word_of_nat (length name))"
    "get_byte data (length pre + 1) = Inr (word_of_nat (length val))"
    "get_byte data (length pre + 2) = Inr flags"
    "get_bytes data (length pre + 3) (length name) = Inr name"
    "get_bytes data (length pre + 3 + length name) (length val) = Inr val"
    using l b nm vl by (simp_all add: get_byte_def get_bytes_def)
  have s: "length pre \<le> length data - 3" "length name \<le> length data - 3" "3 \<le> length data"
    "length pre + 3 + length name \<le> length data" "length val \<le> length data - (length pre + 3 + length name)"
    using l by simp_all
  have v: "libfsxfs_attribute_values_set_name attribute_values_zero data (length pre + 3) (length name) flags =
      Inr (attribute_values_zero\<lparr> av_name := Some (p @ name @ [0]), av_name_size := length p + length name + 1 \<rparr>)"
    using f p g(4) by (simp add: libfsxfs_attribute_values_set_name_def attribute_values_zero_def)
  have w: "(if val \<noteq> [] then libfsxfs_attribute_values_set_value_data
        (attribute_values_zero\<lparr> av_name := Some (p @ name @ [0]), av_name_size := length p + length name + 1 \<rparr>)
        data (length pre + 3 + length name) (length val)
      else Inr (attribute_values_zero\<lparr> av_name := Some (p @ name @ [0]), av_name_size := length p + length name + 1 \<rparr>)) =
      Inr (attribute_item_values item)"
    using f p g(5)
    by (simp add: libfsxfs_attribute_values_set_value_data_def attribute_values_zero_def
        attribute_item_values_def item Let_def)
  show ?thesis
    unfolding e
    using i g s v w pos posv
    by (subst attributes_table_read_entries.simps)
      (cases "val = []"; simp add: Let_def u libfsxfs_attribute_values_initialize_def not_less)
qed

lemma attributes_table_read_items:
  assumes "\<forall>item \<in> set items. attribute_item_fits item"
  shows "attributes_table_read_entries (pre @ concat (map attribute_item_bytes items) @ rest) (i + length items)
    xs (length pre) i = Inr (xs @ map attribute_item_values items)"
  using assms
proof (induction items arbitrary: pre xs i)
  case Nil
  then show ?case by (subst attributes_table_read_entries.simps) simp
next
  case (Cons item items)
  have "attributes_table_read_entries
      ((pre @ attribute_item_bytes item) @ concat (map attribute_item_bytes items) @ rest)
      (i + 1 + length items) (xs @ [attribute_item_values item])
      (length (pre @ attribute_item_bytes item)) (i + 1) =
      Inr ((xs @ [attribute_item_values item]) @ map attribute_item_values items)"
    by (rule Cons.IH) (use Cons.prems in simp)
  then show ?case
    using attributes_table_read_item [of item _ pre "concat (map attribute_item_bytes items) @ rest"
        i "i + length (item # items)" xs, OF _ refl] Cons.prems
    by simp
qed

lemma attributes_table_read_bytes:
  assumes "\<forall>item \<in> set items. attribute_item_fits item" and "length items < 256"
    and "length (attributes_table_bytes items @ rest) < 65536"
  shows "\<exists>table. libfsxfs_attributes_table_read_data \<lparr> at_header = None \<rparr> (attributes_table_bytes items @ rest) xs =
    Inr (table, xs @ map attribute_item_values items)"
proof -
  let ?d = "attributes_table_bytes items @ rest"
  let ?c = "concat (map attribute_item_bytes items)"
  let ?h = "be_bytes 2 (word_of_nat (4 + length ?c) :: u16) @ [word_of_nat (length items), 0 :: u8]"
  have d: "?d = ?h @ ?c @ rest" by (simp add: attributes_table_bytes_def Let_def)
  then have l: "length ?d = 4 + length ?c + length rest" by simp
  then have u: "unat (word_of_nat (4 + length ?c) :: u16) = 4 + length ?c"
    using assms(3) by (intro unat_word_of_nat_16) simp
  have h: "libfsxfs_attributes_table_header_read_data header ?d = Inr
      \<lparr> ath_data_size = word_of_nat (4 + length ?c), ath_number_of_entries = word_of_nat (length items) \<rparr>" for header
    using l assms(3) unfolding d
    by (simp add: libfsxfs_attributes_table_header_read_data_def be_word_be_bytes nth_append)
  have "attributes_table_read_entries ?d (0 + length items) xs (length ?h) 0 =
      Inr (xs @ map attribute_item_values items)"
    unfolding d by (rule attributes_table_read_items [OF assms(1)])
  then show ?thesis
    using h u l assms(2,3)
    by (simp add: libfsxfs_attributes_table_read_data_def libfsxfs_attributes_table_header_initialize_def
        unat_word_of_nat_8 del: of_nat_add of_nat_numeral)
qed

text \<open>
  A short form table of attributes that is written to its on-disk form is read back, whatever
  the attributes fork has behind it: the attributes are appended in order with the prefix of their
  name space, their name and their value.
\<close>

theorem attributes_table_roundtrip:
  assumes "\<forall>item \<in> set items. attribute_item_fits item" and "length items < 256"
    and "length (attributes_table_bytes items @ rest) < 65536"
  shows "\<exists>table. libfsxfs_attributes_table_read_data \<lparr> at_header = None \<rparr> (attributes_table_bytes items @ rest) xs =
    Inr (table, xs @ map attribute_item_values items)"
  using assms by (rule attributes_table_read_bytes)

lemma attributes_table_roundtrip_witness:
  "\<exists>table. libfsxfs_attributes_table_read_data \<lparr> at_header = None \<rparr>
      (attributes_table_bytes [(2, [0x61, 0x62], [7, 8, 9])]) [] =
    Inr (table, [\<lparr> av_name = Some [0x74, 0x72, 0x75, 0x73, 0x74, 0x65, 0x64, 0x2e, 0x61, 0x62, 0],
                   av_name_size = 11, av_value_data_size = 3, av_value_data = Some [7, 8, 9],
                   av_value_data_block_number = 0 \<rparr>])"
  using attributes_table_roundtrip [of "[(2, [0x61, 0x62], [7, 8, 9])]" "[]" "[]"]
  by (simp add: attribute_item_fits_def attributes_table_bytes_def attribute_item_bytes_def
      attribute_item_values_def attribute_name_prefix_def)
    (simp add: eval_nat_numeral)

subsection \<open>A name that reaches past the end\<close>

text \<open>
  The names of the entries from an offset on end inside of the data; where there is no space for an entry the
  code stops.
\<close>

fun names_inside :: "u8 list \<Rightarrow> nat \<Rightarrow> nat \<Rightarrow> bool" where
  "names_inside data off 0 \<longleftrightarrow> True"
| "names_inside data off (Suc n) \<longleftrightarrow>
     (off + 3 \<le> length data \<longrightarrow>
        off + 3 + unat (data ! off) \<le> length data \<and>
        names_inside data (off + 3 + unat (data ! off) + unat (data ! (off + 1))) n)"

definition table_names_inside :: "u8 list \<Rightarrow> bool" where
  "table_names_inside data \<longleftrightarrow> names_inside data 4 (if length data < 3 then 0 else unat (data ! 2))"

lemma attribute_values_safe:
  "fault_free (libfsxfs_attribute_values_initialize p)"
  "off + n \<le> length data \<Longrightarrow> fault_free (libfsxfs_attribute_values_set_name values data off n flags)"
  "off + n \<le> length data \<Longrightarrow> fault_free (libfsxfs_attribute_values_set_value_data values data off n)"
  by (auto simp: libfsxfs_attribute_values_initialize_def allocate_structure_def libfsxfs_attribute_values_set_name_def
      libfsxfs_attribute_values_set_value_data_def attribute_name_prefix_def intro!: safe_intros split: option.split)

lemma attributes_table_read_entries_safe:
  "3 \<le> length data \<Longrightarrow> names_inside data off (n - i) \<Longrightarrow> fault_free (attributes_table_read_entries data n xs off i)"
proof (induction data n xs off i rule: attributes_table_read_entries.induct)
  case (1 data n xs off i)
  show ?case
  proof (cases "i < n \<and> off + 3 \<le> length data")
    case False
    then show ?thesis using 1(2) by (subst attributes_table_read_entries.simps) auto
  next
    case True
    then have "n - i = Suc (n - (i + 1))" by linarith
    then have inside: "off + 3 + unat (data ! off) \<le> length data"
      "names_inside data (off + 3 + unat (data ! off) + unat (data ! (off + 1))) (n - (i + 1))"
      using 1(3) True by simp_all
    show ?thesis
      using 1(2) True inside
      by (subst attributes_table_read_entries.simps)
        (auto simp: Let_def intro!: safe_intros attribute_values_safe 1(1))
  qed
qed

lemma attributes_table_names_inside:
  assumes "table_names_inside data"
  shows "fault_free (libfsxfs_attributes_table_read_data table data xs)"
proof -
  have "fault_free (attributes_table_read_entries data (unat (data ! 2)) xs 4 0)" if "3 \<le> length data"
    using assms that by (intro attributes_table_read_entries_safe) (simp_all add: table_names_inside_def)
  then show ?thesis
    by (auto simp: libfsxfs_attributes_table_read_data_def libfsxfs_attributes_table_header_initialize_def
        allocate_structure_def libfsxfs_attributes_table_header_read_data_def intro!: safe_intros split: option.split)
qed

text \<open>
  C40: When the name of an entry is not longer than the data but longer than what is left of it
  after the entry, the check of its size passes and the name is read from beyond the end of
  the data.
\<close>

theorem attributes_table_out_of_bounds_read:
  assumes "i < n" and "off + 3 \<le> length data"
    and "0 < unat (data ! off)" and "unat (data ! off) + 3 \<le> length data"
    and "length data < off + 3 + unat (data ! off)"
    and "attribute_name_prefix (data ! (off + 2)) = Inr p"
  shows "attributes_table_read_entries data n xs off i = Inl (Undefined Out_Of_Bounds_Read)"
proof -
  have s: "off \<le> length data - 3" "unat (data ! off) \<le> length data - 3" "data ! off > 0"
    using assms(2-4) by (simp_all add: word_less_nat_alt)
  have "libfsxfs_attribute_values_set_name attribute_values_zero data (off + 3) (unat (data ! off))
      (data ! (off + 2)) = Inl (Undefined Out_Of_Bounds_Read)"
    using assms(3,5,6) unat_bounds(1) [of "data ! off"]
    by (simp add: libfsxfs_attribute_values_set_name_def attribute_values_zero_def get_bytes_def)
  with s show ?thesis
    using assms(1,2)
    by (subst attributes_table_read_entries.simps)
      (simp add: Let_def libfsxfs_attribute_values_initialize_def not_less)
qed

lemma attributes_table_out_of_bounds_read_witness:
  "attributes_table_read_entries [0, 10, 1, 0, 7, 0, 0, 0x61, 0x62, 0x63] 1 [] 4 0 =
     Inl (Undefined Out_Of_Bounds_Read)"
  by (rule attributes_table_out_of_bounds_read) (simp_all add: attribute_name_prefix_def)

end
