(* ===== verification/File_System_Block.thy ===== *)
theory File_System_Block
  imports IO_Handle
begin

text \<open>
  File system blocks (\<open>libfsxfs_file_system_block_header.c\<close>, \<open>libfsxfs_file_system_block.c\<close>): the
  blocks of the tree of extended attributes start with a header whose signature tells
  branches from leaves.
\<close>

record file_system_block_header =
  fsbh_signature :: u16
  fsbh_next_block_number :: u32
  fsbh_previous_block_number :: u32

definition file_system_block_header_zero :: file_system_block_header where
  "file_system_block_header_zero =
     \<lparr> fsbh_signature = 0, fsbh_next_block_number = 0, fsbh_previous_block_number = 0 \<rparr>"

definition libfsxfs_file_system_block_header_initialize ::
    "file_system_block_header option \<Rightarrow> file_system_block_header result" where
  "libfsxfs_file_system_block_header_initialize pointer =
     allocate_structure pointer file_system_block_header_zero"

definition file_system_block_header_data_size :: "io_handle \<Rightarrow> nat" where
  "file_system_block_header_data_size io = (if io_format_version io = 5 then 56 else 12)"

definition libfsxfs_file_system_block_header_read_data ::
    "file_system_block_header \<Rightarrow> io_handle \<Rightarrow> u8 list \<Rightarrow> file_system_block_header result" where
  "libfsxfs_file_system_block_header_read_data header io data =
     (if length data < file_system_block_header_data_size io \<or> length data > SSIZE_MAX
      then Inl Value_Out_Of_Bounds else
      bindE (byte_stream_copy_to_uint32_big_endian data 0) (\<lambda>next_block_number.
      bindE (byte_stream_copy_to_uint32_big_endian data 4) (\<lambda>previous_block_number.
      bindE (byte_stream_copy_to_uint16_big_endian data 8) (\<lambda>signature.
      Inr (header\<lparr> fsbh_next_block_number := next_block_number,
                   fsbh_previous_block_number := previous_block_number,
                   fsbh_signature := signature \<rparr>)))))"

interpretation file_system_block_header_reader:
  structure_reader "libfsxfs_file_system_block_header_read_data header io"
    "file_system_block_header_data_size io" for header io
  by unfold_locales
    (auto simp: libfsxfs_file_system_block_header_read_data_def
      file_system_block_header_data_size_def take_drop_take split: if_splits)

record file_system_block =
  fsb_data :: "u8 list"
  fsb_data_size :: nat
  fsb_header :: "file_system_block_header option"

definition libfsxfs_file_system_block_initialize ::
    "file_system_block option \<Rightarrow> nat \<Rightarrow> file_system_block result" where
  "libfsxfs_file_system_block_initialize pointer block_size =
     (case pointer of
        Some _ \<Rightarrow> Inl Value_Already_Set
      | None \<Rightarrow>
          if block_size = 0 \<or> block_size > MEMORY_MAXIMUM_ALLOCATION_SIZE
          then Inl Value_Out_Of_Bounds
          else Inr \<lparr> fsb_data = [], fsb_data_size = block_size, fsb_header = None \<rparr>)"

definition libfsxfs_file_system_block_read_data ::
    "file_system_block \<Rightarrow> io_handle \<Rightarrow> u8 list \<Rightarrow> file_system_block result" where
  "libfsxfs_file_system_block_read_data block io data =
     (if fsb_header block \<noteq> None then Inl Value_Already_Set else
      let header_data_size = (if io_format_version io = 5 then 56 else 12) in
      if length data < header_data_size \<or> length data > SSIZE_MAX
      then Inl Value_Out_Of_Bounds else
      bindE (libfsxfs_file_system_block_header_initialize (fsb_header block)) (\<lambda>header.
      bindE (get_bytes data 0 header_data_size) (\<lambda>header_data.
      bindE (libfsxfs_file_system_block_header_read_data header io header_data) (\<lambda>header.
      Inr (block\<lparr> fsb_header := Some header \<rparr>)))))"

definition libfsxfs_file_system_block_read_file_io_handle ::
    "file_system_block \<Rightarrow> io_handle \<Rightarrow> file_io \<Rightarrow> u64 \<Rightarrow> file_system_block result" where
  "libfsxfs_file_system_block_read_file_io_handle block io file file_offset =
     (if fsb_header block \<noteq> None then Inl Value_Already_Set else
      bindE (read_buffer_at_offset file file_offset (fsb_data_size block)) (\<lambda>data.
      libfsxfs_file_system_block_read_data (block\<lparr> fsb_data := data \<rparr>) io data))"

lemma file_system_block_initialize_fault_free [safe_intros]:
  "fault_free (libfsxfs_file_system_block_initialize p n)"
  by (simp add: libfsxfs_file_system_block_initialize_def split: option.splits)

lemma file_system_block_read_fault_free [safe_intros]:
  "fault_free (libfsxfs_file_system_block_read_data block io data)"
  unfolding libfsxfs_file_system_block_read_data_def Let_def
    libfsxfs_file_system_block_header_initialize_def
  by (cases "fsb_header block")
    (auto intro!: safe_intros file_system_block_header_reader.reader_fault_free)

lemma file_system_block_read_file_fault_free [safe_intros]:
  "fault_free (libfsxfs_file_system_block_read_file_io_handle block io file off)"
  unfolding libfsxfs_file_system_block_read_file_io_handle_def by (intro safe_intros) simp

lemma file_system_block_read_Inr:
  "libfsxfs_file_system_block_read_file_io_handle block io file off = Inr block' \<Longrightarrow>
     length (fsb_data block') = fsb_data_size block \<and>
     file off (fsb_data_size block) = Some (fsb_data block') \<and> fsb_header block' \<noteq> None \<and>
     (if io_format_version io = 5 then 56 else 12) \<le> length (fsb_data block')"
  by (auto simp: libfsxfs_file_system_block_read_file_io_handle_def Let_def read_buffer_Inr_iff
      libfsxfs_file_system_block_read_data_def split: if_splits)

end
