(* ===== verification/Attributes.thy ===== *)
theory Attributes
  imports Attributes_Table File_System_Block Inode
begin

text \<open>
  Extended attributes (\<open>libfsxfs_attributes_leaf_block_header.c\<close>, \<open>libfsxfs_attributes.c\<close>): the table
  in the inode or the tree of attribute blocks, whose branches give the block numbers of other
  blocks and whose leaves hold the names and the values, in the block itself or in other blocks.
\<close>

subsection \<open>Leaves\<close>

record attributes_leaf_block_header =
  alh_number_of_entries :: u16

definition libfsxfs_attributes_leaf_block_header_initialize ::
    "attributes_leaf_block_header option \<Rightarrow> attributes_leaf_block_header result" where
  "libfsxfs_attributes_leaf_block_header_initialize pointer =
     allocate_structure pointer \<lparr> alh_number_of_entries = 0 \<rparr>"

definition attributes_leaf_block_header_data_size :: "io_handle \<Rightarrow> nat" where
  "attributes_leaf_block_header_data_size io = (if io_format_version io = 5 then 24 else 20)"

definition libfsxfs_attributes_leaf_block_header_read_data ::
    "attributes_leaf_block_header \<Rightarrow> io_handle \<Rightarrow> u8 list \<Rightarrow> attributes_leaf_block_header result" where
  "libfsxfs_attributes_leaf_block_header_read_data header io data =
     (if length data < attributes_leaf_block_header_data_size io \<or> length data > SSIZE_MAX
      then Inl Value_Out_Of_Bounds else
      bindE (byte_stream_copy_to_uint16_big_endian data 0) (\<lambda>number_of_entries.
      Inr (header\<lparr> alh_number_of_entries := number_of_entries \<rparr>)))"

interpretation attributes_leaf_block_header_reader:
  structure_reader "libfsxfs_attributes_leaf_block_header_read_data header io"
    "attributes_leaf_block_header_data_size io" for header io
  by unfold_locales
    (auto simp: libfsxfs_attributes_leaf_block_header_read_data_def
      attributes_leaf_block_header_data_size_def take_drop_take split: if_splits)

text \<open>
  One entry of a leaf. The offset of the values is kept in 16 bits, also when the sizes of the
  values and of the name are added to it. Values of other blocks are remembered by their block.
\<close>

definition attributes_read_leaf_entry ::
    "u8 list \<Rightarrow> nat \<Rightarrow> nat \<Rightarrow> attribute_values result" where
  "attributes_read_leaf_entry data entries_data_end_offset data_offset =
     bindE (byte_stream_copy_to_uint16_big_endian data (data_offset + 4)) (\<lambda>values_offset.
     bindE (get_byte data (data_offset + 6)) (\<lambda>flags.
     if unat values_offset < entries_data_end_offset \<or> unat values_offset \<ge> length data
     then Inl Value_Out_Of_Bounds else
     let local = (flags AND 0x01 \<noteq> 0); values_data_size = (if local then 3 else 9) in
     if values_data_size > length data - unat values_offset then Inl Value_Out_Of_Bounds else
     bindE (get_byte data (unat values_offset + (if local then 2 else 8))) (\<lambda>name_size.
     if unat name_size > length data - unat values_offset - values_data_size
     then Inl Value_Out_Of_Bounds else
     bindE (libfsxfs_attribute_values_initialize None) (\<lambda>values.
     bindE
       (if local then
          bindE (byte_stream_copy_to_uint16_big_endian data (unat values_offset)) (\<lambda>value_data_size.
          Inr (values\<lparr> av_value_data_size := ucast value_data_size \<rparr>))
        else
          bindE (byte_stream_copy_to_uint32_big_endian data (unat values_offset)) (\<lambda>block_number.
          bindE (byte_stream_copy_to_uint32_big_endian data (unat values_offset + 4)) (\<lambda>value_data_size.
          Inr (values\<lparr> av_value_data_block_number := block_number,
                       av_value_data_size := value_data_size \<rparr>)))) (\<lambda>values.
     let values_offset = values_offset + word_of_nat values_data_size in
     bindE
       (if name_size > 0
        then bindE (libfsxfs_attribute_values_set_name values data (unat values_offset)
                      (unat name_size) flags) (\<lambda>values. Inr (values, values_offset + ucast name_size))
        else Inr (values, values_offset)) (\<lambda>(values, values_offset).
     if local then
       if unat (av_value_data_size values) > length data - unat values_offset
       then Inl Value_Out_Of_Bounds else
       if av_value_data_size values > 0
       then libfsxfs_attribute_values_set_value_data values data (unat values_offset)
              (unat (av_value_data_size values))
       else Inr values
     else Inr values))))))"

definition libfsxfs_attributes_read_leaf_values ::
    "io_handle \<Rightarrow> u8 list \<Rightarrow> attribute_values list \<Rightarrow> attribute_values list result" where
  "libfsxfs_attributes_read_leaf_values io data attributes_array =
     (let data_offset = (if io_format_version io = 5 then 56 else 12) in
      if data_offset \<ge> length data then Inl Value_Out_Of_Bounds else
      bindE (libfsxfs_attributes_leaf_block_header_initialize None) (\<lambda>header.
      bindE (get_bytes data data_offset (length data - data_offset)) (\<lambda>header_data.
      bindE (libfsxfs_attributes_leaf_block_header_read_data header io header_data) (\<lambda>header.
      let data_offset = data_offset + (if io_format_version io = 5 then 24 else 20);
          entries_data_size = 8 * unat (alh_number_of_entries header) in
      if entries_data_size > length data - data_offset then Inl Value_Out_Of_Bounds else
      fold_result (\<lambda>block_entry_index attributes_array.
          bindE (attributes_read_leaf_entry data (data_offset + entries_data_size)
                   (data_offset + 8 * block_entry_index)) (\<lambda>values.
          Inr (attributes_array @ [values])))
        [0..<unat (alh_number_of_entries header)] attributes_array))))"

subsection \<open>Branches and blocks\<close>

text \<open>\<open>get_from_block\<close> is the recursive call of \<open>libfsxfs_attributes_get_from_block\<close>.\<close>

definition libfsxfs_attributes_read_branch_values ::
    "io_handle \<Rightarrow> u8 list \<Rightarrow> (u32 \<Rightarrow> attribute_values list \<Rightarrow> attribute_values list result)
      \<Rightarrow> attribute_values list \<Rightarrow> attribute_values list result" where
  "libfsxfs_attributes_read_branch_values io data get_from_block attributes_array =
     (let data_offset = (if io_format_version io = 5 then 56 else 12);
          branch_header_data_size = (if io_format_version io = 5 then 8 else 4) in
      if data_offset \<ge> length data \<or> branch_header_data_size > length data - data_offset
      then Inl Value_Out_Of_Bounds else
      bindE (byte_stream_copy_to_uint16_big_endian data data_offset) (\<lambda>number_of_entries.
      let data_offset = data_offset + branch_header_data_size in
      if 8 * unat number_of_entries > length data - data_offset then Inl Value_Out_Of_Bounds else
      fold_result (\<lambda>block_entry_index attributes_array.
          bindE (byte_stream_copy_to_uint32_big_endian data (data_offset + 8 * block_entry_index + 4))
            (\<lambda>sub_block_number. get_from_block sub_block_number attributes_array))
        [0..<unat number_of_entries] attributes_array))"

lemma read_branch_values_cong [fundef_cong]:
  assumes "io = io'" "data = data'" "xs = xs'" and "\<And>b ys. f b ys = g b ys"
  shows "libfsxfs_attributes_read_branch_values io data f xs =
    libfsxfs_attributes_read_branch_values io' data' g xs'"
proof -
  have "f = g" using assms(4) by (intro ext)
  then show ?thesis using assms(1-3) by simp
qed

fun attributes_extent_index :: "extent list \<Rightarrow> u64 \<Rightarrow> nat \<Rightarrow> nat" where
  "attributes_extent_index [] block_number extent_index = extent_index"
| "attributes_extent_index (extent # extents) block_number extent_index =
     (if block_number \<ge> ex_logical_block_number extent \<and> block_number < extent_end extent
      then extent_index
      else attributes_extent_index extents block_number (extent_index + 1))"

definition attributes_find_extent :: "inode \<Rightarrow> u64 \<Rightarrow> extent result" where
  "attributes_find_extent inode block_number =
     bindE (libfsxfs_inode_get_number_of_attributes_extents inode) (\<lambda>number_of_extents.
     case in_attributes_extents_array inode of
       None \<Rightarrow> Inl Get_Failed
     | Some extents \<Rightarrow>
         let extent_index = attributes_extent_index extents block_number 0 in
         if extent_index \<ge> number_of_extents then Inl Value_Out_Of_Bounds
         else Inr (extents ! extent_index))"

definition attributes_block_offset :: "io_handle \<Rightarrow> extent \<Rightarrow> u64 \<Rightarrow> u64 result" where
  "attributes_block_offset io extent block_number =
     bindE (block_number_to_block io (ex_physical_block_number extent)) (\<lambda>block_offset.
     Inr ((block_offset + (block_number - ex_logical_block_number extent))
          * ucast (io_block_size io)))"

function libfsxfs_attributes_get_from_block ::
    "io_handle \<Rightarrow> file_io \<Rightarrow> inode \<Rightarrow> u32 \<Rightarrow> attribute_values list \<Rightarrow> int
      \<Rightarrow> attribute_values list result" where
  "libfsxfs_attributes_get_from_block io file inode block_number attributes_array recursion_depth =
     (if recursion_depth < 0 \<or> recursion_depth > 256 then Inl Value_Out_Of_Bounds else
      bindE (attributes_find_extent inode (ucast block_number)) (\<lambda>extent.
      bindE (attributes_block_offset io extent (ucast block_number)) (\<lambda>block_offset.
      bindE (libfsxfs_file_system_block_initialize None (unat (io_block_size io))) (\<lambda>block.
      bindE (libfsxfs_file_system_block_read_file_io_handle block io file block_offset) (\<lambda>block.
      let signature = (case fsb_header block of None \<Rightarrow> 0 | Some header \<Rightarrow> fsbh_signature header) in
      if signature = 0x3bee \<or> signature = 0xfbee
      then libfsxfs_attributes_read_leaf_values io (fsb_data block) attributes_array
      else if signature = 0x3ebe \<or> signature = 0xfebe
      then libfsxfs_attributes_read_branch_values io (fsb_data block)
             (\<lambda>sub_block_number attributes_array.
                libfsxfs_attributes_get_from_block io file inode sub_block_number attributes_array
                  (recursion_depth + 1))
             attributes_array
      else Inl Unsupported_Value)))))"
  by pat_completeness auto
termination
  by (relation "measure (\<lambda>(_, _, _, _, _, recursion_depth). nat (300 - recursion_depth))") auto

declare libfsxfs_attributes_get_from_block.simps [simp del]

definition libfsxfs_attributes_get_from_inode ::
    "io_handle \<Rightarrow> file_io \<Rightarrow> inode \<Rightarrow> attribute_values list \<Rightarrow> attribute_values list result" where
  "libfsxfs_attributes_get_from_inode io file inode attributes_array =
     (if in_attributes_fork_type inode \<noteq> 1 \<and> in_attributes_fork_type inode \<noteq> 2 \<and>
         in_attributes_fork_type inode \<noteq> 3 then Inl Unsupported_Value else
      if in_attributes_fork_type inode = 1 then
        bindE (libfsxfs_attributes_table_initialize None) (\<lambda>table.
        case in_inline_attributes_data inode of
          None \<Rightarrow> Inl Invalid_Value
        | Some data \<Rightarrow>
            bindE (get_bytes data 0 (unat (in_attributes_fork_size inode))) (\<lambda>data.
            bindE (libfsxfs_attributes_table_read_data table data attributes_array) (\<lambda>(_, xs). Inr xs)))
      else if in_attributes_extents_array inode \<noteq> None
      then libfsxfs_attributes_get_from_block io file inode 0 attributes_array 0
      else Inr attributes_array)"

subsection \<open>Memory safety\<close>

lemma attribute_values_initialize_fault_free [safe_intros]:
  "fault_free (libfsxfs_attribute_values_initialize p)"
  by (simp add: libfsxfs_attribute_values_initialize_def allocate_structure_fault_free)

lemma attribute_name_prefix_fault_free [safe_intros]: "fault_free (attribute_name_prefix flags)"
  by (simp add: attribute_name_prefix_def)

lemma set_name_fault_free:
  "off + n \<le> length data \<Longrightarrow> fault_free (libfsxfs_attribute_values_set_name values data off n flags)"
  unfolding libfsxfs_attribute_values_set_name_def by (intro safe_intros) simp_all

lemma set_value_data_fault_free:
  "off + n \<le> length data \<Longrightarrow> fault_free (libfsxfs_attribute_values_set_value_data values data off n)"
  unfolding libfsxfs_attribute_values_set_value_data_def by (intro safe_intros) simp_all

lemma set_name_value_data_size:
  "libfsxfs_attribute_values_set_name values data off n flags = Inr values' \<Longrightarrow>
     av_value_data_size values' = av_value_data_size values"
  by (auto simp: libfsxfs_attribute_values_set_name_def split: if_splits)

text \<open>
  The additions to the 16-bit offset of the values may wrap around, in a block of 65536 bytes. A
  sum that wraps is smaller than the sum that was checked.
\<close>

lemma attributes_read_leaf_entry_fault_free:
  assumes "data_offset + 8 \<le> length data"
  shows "fault_free (attributes_read_leaf_entry data end_offset data_offset)"
proof -
  have le: "unat (v + 3) \<le> unat v + 3" "unat (v + 9) \<le> unat v + 9"
    "unat (v + 3 + ucast n) \<le> unat v + 3 + unat n" for v :: u16 and n :: u8
    using unat_plus_le [of v 3] unat_plus_le [of v 9] unat_plus_le [of "v + 3" "ucast n"] by simp_all
  have after: "unat (snd r) \<le> unat v + 3 + unat n"
    if "(if 0 < n then bindE m (\<lambda>values. Inr (values, v + 3 + ucast n)) else Inr (w, v + 3)) = Inr r"
    for v :: u16 and n :: u8 and m and w :: attribute_values and r
    using that le(1) [of v] le(3) [of v n] by (auto split: if_splits intro: trans_le_add1)
  show ?thesis
    unfolding attributes_read_leaf_entry_def Let_def split_def
    using assms
    apply (intro safe_intros set_name_fault_free set_value_data_fault_free)
              apply (simp_all add: not_less not_le)
      apply auto[1]
    subgoal for values_offset flags name_size
      using le(1,2) [of values_offset]
      by (cases "flags AND 1 = 0") (simp_all del: uint_word_ariths unat_plus_if_size)
    subgoal for values_offset flags name_size x xd xe
      apply (subgoal_tac "unat (snd xe) \<le> unat values_offset + 3 + unat name_size")
       apply linarith
      apply (rule after [of _ "libfsxfs_attribute_values_set_name xd data (unat (values_offset + 3))
          (unat name_size) flags" _ xd])
      apply (simp only: not_False_eq_True if_True of_nat_numeral)
      done
    done
qed

lemma attributes_read_leaf_values_fault_free [safe_intros]:
  "fault_free (libfsxfs_attributes_read_leaf_values io data xs)"
proof (cases "(if io_format_version io = 5 then 56 else 12 :: nat) \<ge> length data")
  case True
  then show ?thesis by (simp add: libfsxfs_attributes_read_leaf_values_def)
next
  case False
  define off where "off = (if io_format_version io = 5 then 56 else 12 :: nat)"
  have off: "off < length data" using False by (simp add: off_def)
  have "fault_free (libfsxfs_attributes_read_leaf_values io data xs) \<longleftrightarrow>
    fault_free (bindE (libfsxfs_attributes_leaf_block_header_read_data \<lparr> alh_number_of_entries = 0 \<rparr> io
        (drop off data)) (\<lambda>header.
      let data_offset = off + attributes_leaf_block_header_data_size io;
          entries_data_size = 8 * unat (alh_number_of_entries header) in
      if entries_data_size > length data - data_offset then Inl Value_Out_Of_Bounds else
      fold_result (\<lambda>i xs. bindE (attributes_read_leaf_entry data (data_offset + entries_data_size)
          (data_offset + 8 * i)) (\<lambda>values. Inr (xs @ [values])))
        [0..<unat (alh_number_of_entries header)] xs))"
    using off
    by (simp add: libfsxfs_attributes_read_leaf_values_def off_def [symmetric] Let_def
        libfsxfs_attributes_leaf_block_header_initialize_def attributes_leaf_block_header_data_size_def)
  also have \<dots>
    unfolding Let_def
    using off attributes_leaf_block_header_reader.reader_Inr_size
    by (intro safe_intros attributes_read_leaf_entry_fault_free
        attributes_leaf_block_header_reader.reader_fault_free) force+
  finally show ?thesis .
qed

lemma attributes_read_branch_values_fault_free:
  assumes "\<And>b ys. fault_free (f b ys)"
  shows "fault_free (libfsxfs_attributes_read_branch_values io data f xs)"
  unfolding libfsxfs_attributes_read_branch_values_def Let_def
  using assms by (intro safe_intros) auto

lemma attributes_extent_index_le: "attributes_extent_index xs b k \<le> k + length xs"
proof (induction xs arbitrary: k)
  case (Cons x xs)
  then show ?case using Cons.IH [of "k + 1"] by simp
qed simp

lemma attributes_find_extent_fault_free [safe_intros]: "fault_free (attributes_find_extent inode b)"
  by (auto simp: attributes_find_extent_def libfsxfs_inode_get_number_of_attributes_extents_def
      array_get_number_of_entries_def Let_def intro!: safe_intros split: option.splits)

lemma attributes_block_offset_fault_free:
  "unat (io_number_of_relative_block_number_bits io) < 31 \<Longrightarrow> fault_free (attributes_block_offset io x b)"
  by (auto simp: attributes_block_offset_def block_number_to_block_def relative_block_number_valid)

subsection \<open>What a leaf is read as\<close>

text \<open>
  The entry at \<open>off\<close> of a leaf describes an attribute whose value is in the leaf: its flags, the
  offset of the values, and there the size of the value, the size of the name, the name and the
  value.
\<close>

definition leaf_values_bytes :: "attribute_item \<Rightarrow> u8 list" where
  "leaf_values_bytes item =
     (case item of (flags, name, val) \<Rightarrow>
        be_bytes 2 (word_of_nat (length val) :: u16) @ [word_of_nat (length name)] @ name @ val)"

definition leaf_item_fits :: "attribute_item \<Rightarrow> bool" where
  "leaf_item_fits item =
     (case item of (flags, name, val) \<Rightarrow>
        flags AND 0x7e \<in> {0, 2, 4} \<and> flags AND 1 \<noteq> 0 \<and> name \<noteq> [] \<and>
        length name < 256 \<and> length val < 65536)"

definition leaf_entry_describes :: "u8 list \<Rightarrow> nat \<Rightarrow> nat \<Rightarrow> attribute_item \<Rightarrow> bool" where
  "leaf_entry_describes data entries_end off item \<longleftrightarrow>
     (let values_offset = unat (be_word (take 2 (drop (off + 4) data)) :: u16) in
      data ! (off + 6) = fst item \<and> entries_end \<le> values_offset \<and>
      take (length (leaf_values_bytes item)) (drop values_offset data) = leaf_values_bytes item)"

lemma take_drop_eqD:
  assumes "take (length ys) (drop k xs) = ys" and "ys \<noteq> []"
  shows "xs = take k xs @ ys @ drop (k + length ys) xs" and "k + length ys \<le> length xs"
proof -
  have "length (take (length ys) (drop k xs)) = length ys" using assms(1) by simp
  then show "k + length ys \<le> length xs" using assms(2) by (cases ys) auto
  have "xs = take k xs @ take (length ys) (drop k xs) @ drop (length ys) (drop k xs)"
    by (simp only: append_take_drop_id)
  then show "xs = take k xs @ ys @ drop (k + length ys) xs"
    using assms(1) by (simp add: add.commute)
qed

lemma attributes_read_leaf_entry_describes:
  assumes fits: "leaf_item_fits item" and off: "off + 8 \<le> length data"
    and size: "length data \<le> 65536" and desc: "leaf_entry_describes data entries_end off item"
  shows "attributes_read_leaf_entry data entries_end off = Inr (attribute_item_values item)"
proof -
  obtain flags name val where item: "item = (flags, name, val)" by (cases item)
  define v where "v = (be_word (take 2 (drop (off + 4) data)) :: u16)"
  have f: "flags AND 0x7e \<in> {0, 2, 4}" "flags AND 1 \<noteq> 0" "name \<noteq> []" "length name < 256"
    "length val < 65536"
    using fits by (auto simp: item leaf_item_fits_def)
  obtain p where p: "attribute_name_prefix flags = Inr p" using attribute_name_prefix_fits [OF f(1)] ..
  have d: "data ! (off + 6) = flags" "entries_end \<le> unat v"
    "take (length (leaf_values_bytes item)) (drop (unat v) data) = leaf_values_bytes item"
    using desc by (simp_all add: leaf_entry_describes_def Let_def item v_def)
  have ne: "leaf_values_bytes item \<noteq> []" by (simp add: item leaf_values_bytes_def)
  have len: "length (leaf_values_bytes item) = 3 + length name + length val"
    by (simp add: item leaf_values_bytes_def)
  define a where "a = take (unat v) data"
  define b where "b = drop (unat v + length (leaf_values_bytes item)) data"
  have data: "data = a @ leaf_values_bytes item @ b"
    unfolding a_def b_def by (rule take_drop_eqD(1) [OF d(3) ne])
  have le: "unat v + 3 + length name + length val \<le> length data"
    using take_drop_eqD(2) [OF d(3) ne] by (simp add: len)
  have la: "length a = unat v" using le by (simp add: a_def)
  have sz: "take 2 (drop (unat v) data) = be_bytes 2 (word_of_nat (length val) :: u16)"
    "data ! (unat v + 2) = word_of_nat (length name)"
    "take (length name) (drop (unat v + 3) data) = name"
    "take (length val) (drop (unat v + 3 + length name) data) = val"
    by (simp_all add: data la [symmetric] item leaf_values_bytes_def nth_append numeral_3_eq_3)
  have un: "unat (word_of_nat (length name) :: u8) = length name"
    "unat (word_of_nat (length val) :: u16) = length val"
    "unat (word_of_nat (length val) :: u32) = length val"
    "(ucast (word_of_nat (length val) :: u16) :: u32) = word_of_nat (length val)"
    using f by (simp_all add: unat_of_nat word_unat_eq_iff)
  have lt: "unat v + 3 < 65536" using le size f(3) by (cases name) simp_all
  have v3: "unat (v + 3) = unat v + 3" using lt by (simp add: unat_word_ariths)
  have vn: "unat (v + 3 + ucast (word_of_nat (length name) :: u8)) = unat v + 3 + length name" if "val \<noteq> []"
    using le size that un(1) v3
    by (cases val) (simp_all add: unat_word_ariths(1) [of "v + 3"])
  have pos: "(word_of_nat (length name) :: u8) > 0" "(word_of_nat (length val) :: u32) > 0 \<longleftrightarrow> val \<noteq> []"
    using f(3) by (simp_all only: word_less_nat_alt un unat_0 length_greater_0_conv not_False_eq_True)
  let ?w = "attribute_values_zero\<lparr> av_value_data_size := word_of_nat (length val) \<rparr>"
  let ?n = "?w\<lparr> av_name := Some (p @ name @ [0]), av_name_size := length p + length name + 1 \<rparr>"
  have nm: "libfsxfs_attribute_values_set_name ?w data (unat v + 3) (length name) flags = Inr ?n"
    using f p le sz by (simp add: libfsxfs_attribute_values_set_name_def attribute_values_zero_def)
  have vl: "val \<noteq> [] \<Longrightarrow> libfsxfs_attribute_values_set_value_data ?n data (unat v + 3 + length name) (length val) =
      Inr (?n\<lparr> av_value_data := Some val \<rparr>)"
    using f le sz by (simp add: libfsxfs_attribute_values_set_value_data_def attribute_values_zero_def)
  have res: "attribute_item_values item = (if val = [] then ?n else ?n\<lparr> av_value_data := Some val \<rparr>)"
    by (simp add: attribute_item_values_def item p attribute_values_zero_def)
  have reads: "byte_stream_copy_to_uint16_big_endian data (off + 4) = Inr v"
    "get_byte data (off + 6) = Inr flags"
    "byte_stream_copy_to_uint16_big_endian data (unat v) = Inr (word_of_nat (length val))"
    "get_byte data (unat v + 2) = Inr (word_of_nat (length name))"
    using off le d(1) sz(1,2) by (simp_all add: v_def be_word_be_bytes)
  have chk: "3 \<le> length data - unat v" "length name \<le> length data - (unat v + 3)"
    "length val \<le> length data - (unat v + 3 + length name)"
    using le by simp_all
  show ?thesis
    unfolding attributes_read_leaf_entry_def res Let_def
    using f le chk d(2) reads v3 vn pos nm vl un
    by (cases "val = []")
      (simp_all add: libfsxfs_attribute_values_initialize_def not_less not_le)
qed

lemma fold_result_append_map:
  assumes "\<forall>i < length ys. f (off + i) = Inr (ys ! i)"
  shows "fold_result (\<lambda>i xs. bindE (f i) (\<lambda>y. Inr (xs @ [y]))) [off..<off + length ys] xs = Inr (xs @ ys)"
  using assms
proof (induction ys arbitrary: off xs)
  case (Cons y ys)
  have "[off..<off + length (y # ys)] = off # [Suc off..<Suc off + length ys]"
    by (subst upt_conv_Cons) simp_all
  moreover have "f off = Inr y" using Cons.prems by force
  moreover have "\<forall>i < length ys. f (Suc off + i) = Inr (ys ! i)"
    using Cons.prems by force
  ultimately show ?case using Cons.IH [of "Suc off" "xs @ [y]"] by simp
qed simp

text \<open>The offset of the entries of a leaf.\<close>

definition leaf_entries_offset :: "io_handle \<Rightarrow> nat" where
  "leaf_entries_offset io = (if io_format_version io = 5 then 56 + 24 else 12 + 20)"

definition leaf_describes :: "io_handle \<Rightarrow> u8 list \<Rightarrow> attribute_item list \<Rightarrow> bool" where
  "leaf_describes io data items \<longleftrightarrow>
     (let start = leaf_entries_offset io; entries_end = start + 8 * length items in
      length items < 65536 \<and> entries_end \<le> length data \<and> length data \<le> 65536 \<and>
      take 2 (drop (if io_format_version io = 5 then 56 else 12) data)
        = be_bytes 2 (word_of_nat (length items) :: u16) \<and>
      (\<forall>i < length items. leaf_item_fits (items ! i) \<and>
         leaf_entry_describes data entries_end (start + 8 * i) (items ! i)))"

lemma attributes_leaf_values:
  assumes "leaf_describes io data items"
  shows "libfsxfs_attributes_read_leaf_values io data xs = Inr (xs @ map attribute_item_values items)"
proof -
  define off where "off = (if io_format_version io = 5 then 56 else 12 :: nat)"
  define start where "start = leaf_entries_offset io"
  define entries_end where "entries_end = start + 8 * length items"
  have d: "length items < 65536" "entries_end \<le> length data" "length data \<le> 65536"
    "take 2 (drop off data) = be_bytes 2 (word_of_nat (length items) :: u16)"
    "\<forall>i < length items. leaf_item_fits (items ! i) \<and>
       leaf_entry_describes data entries_end (start + 8 * i) (items ! i)"
    using assms by (simp_all add: leaf_describes_def Let_def off_def start_def entries_end_def)
  have o: "start = off + attributes_leaf_block_header_data_size io" "off < length data"
    using d(2) by (auto simp: off_def start_def entries_end_def leaf_entries_offset_def
        attributes_leaf_block_header_data_size_def split: if_splits)
  have hd: "libfsxfs_attributes_leaf_block_header_read_data h io (drop off data) =
      Inr \<lparr> alh_number_of_entries = word_of_nat (length items) \<rparr>" for h
    using d(2-4) o(1) diff_le_mono [of "off + attributes_leaf_block_header_data_size io" "length data" off]
    by (simp add: not_less libfsxfs_attributes_leaf_block_header_read_data_def entries_end_def be_word_be_bytes
        attributes_leaf_block_header_data_size_def split: if_splits)
  have n: "unat (word_of_nat (length items) :: u16) = length items"
    using d(1) by (rule unat_word_of_nat_16)
  have e: "attributes_read_leaf_entry data entries_end (start + 8 * i) = Inr (attribute_item_values (items ! i))"
    if "i < length items" for i
    using that d by (intro attributes_read_leaf_entry_describes) (auto simp: entries_end_def)
  have "fold_result (\<lambda>i xs. bindE (attributes_read_leaf_entry data entries_end (start + 8 * i))
      (\<lambda>values. Inr (xs @ [values]))) [0..<0 + length (map attribute_item_values items)] xs =
    Inr (xs @ map attribute_item_values items)"
    using e by (intro fold_result_append_map) simp
  moreover have "libfsxfs_attributes_read_leaf_values io data xs =
    fold_result (\<lambda>i xs. bindE (attributes_read_leaf_entry data entries_end (start + 8 * i))
      (\<lambda>values. Inr (xs @ [values]))) [0..<length items] xs"
    using hd n o d(2)
    by (simp add: libfsxfs_attributes_read_leaf_values_def libfsxfs_attributes_leaf_block_header_initialize_def
        Let_def off_def [symmetric] entries_end_def attributes_leaf_block_header_data_size_def split: if_splits)
  ultimately show ?thesis by simp
qed

text \<open>
  A leaf block of at most 65536 bytes whose entries describe local attributes, wherever
  their values lie behind the entries and in whatever order, is read as these attributes: they
  are appended in the order of the entries, with the prefix of their name space, their name and
  their value.
\<close>

theorem attributes_leaf_values_correct:
  assumes "leaf_describes io data items"
  shows "libfsxfs_attributes_read_leaf_values io data xs = Inr (xs @ map attribute_item_values items)"
  by (rule attributes_leaf_values [OF assms])

definition example_leaf :: "u8 list" where
  "example_leaf =
     [0, 0, 0, 0, 0, 0, 0, 0, 0x3b, 0xee, 0, 0] @ [0, 2] @ replicate 18 0 @
     [0, 0, 0, 1, 0, 55, 1, 0] @ [0, 0, 0, 2, 0, 48, 3, 0] @
     [0, 2, 2, 0x61, 0x62, 7, 8] @ [0, 0, 1, 0x63] @ replicate 5 0"

lemma be_bytes_2: "be_bytes 2 w = [ucast (drop_bit 8 w AND 255), ucast (w AND 255)]"
  by (simp add: be_bytes_def upt_rec mask_eq_exp_minus_1)
lemma example_leaf_describes:
  "leaf_describes (io_handle_zero\<lparr> io_format_version := 4 \<rparr>) example_leaf
     [(1, [0x63], []), (3, [0x61, 0x62], [7, 8])]"
  unfolding leaf_describes_def leaf_entries_offset_def Let_def
proof (intro conjI allI impI)
  fix i :: nat
  assume "i < length [(1 :: u8, [0x63 :: u8], [] :: u8 list), (3, [0x61, 0x62], [7, 8])]"
  then have i: "i = 0 \<or> i = 1" by auto
  then show "leaf_item_fits ([(1, [0x63], []), (3, [0x61, 0x62], [7, 8])] ! i)"
    by (auto simp: leaf_item_fits_def)
  show "leaf_entry_describes example_leaf
      ((if io_format_version (io_handle_zero\<lparr> io_format_version := 4 \<rparr>) = 5 then 56 + 24 else 12 + 20) +
        8 * length [(1 :: u8, [0x63 :: u8], [] :: u8 list), (3, [0x61, 0x62], [7, 8])])
      ((if io_format_version (io_handle_zero\<lparr> io_format_version := 4 \<rparr>) = 5 then 56 + 24 else 12 + 20) + 8 * i)
      ([(1, [0x63], []), (3, [0x61, 0x62], [7, 8])] ! i)"
    using i by (auto simp: leaf_entry_describes_def example_leaf_def Let_def leaf_values_bytes_def be_bytes_2 be_word_def nth_append)
qed (simp_all add: example_leaf_def be_bytes_2)

lemma attributes_leaf_values_correct_witness:
  "libfsxfs_attributes_read_leaf_values (io_handle_zero\<lparr> io_format_version := 4 \<rparr>) example_leaf [] =
     Inr (map attribute_item_values [(1, [0x63], []), (3, [0x61, 0x62], [7, 8])])"
  using attributes_leaf_values_correct [OF example_leaf_describes] by simp

subsection \<open>The tree of blocks\<close>

text \<open>
  Reading the tree of attribute blocks reads no byte outside of a block and shifts by no
  more than an \<open>int\<close> holds, whatever the file, the inode and the blocks contain.
\<close>

theorem attributes_tree_memory_safe:
  assumes "unat (io_number_of_relative_block_number_bits io) < 31"
  shows "fault_free (libfsxfs_attributes_get_from_block io fio inode b xs depth)"
  using assms
proof (induction io fio inode b xs depth rule: libfsxfs_attributes_get_from_block.induct)
  case (1 io fio inode b xs depth)
  show ?case
    unfolding libfsxfs_attributes_get_from_block.simps [of io fio inode b xs depth] Let_def
    using 1 by (intro safe_intros attributes_read_branch_values_fault_free
        attributes_block_offset_fault_free) auto
qed

lemma attributes_tree_memory_safe_witness:
  "fault_free (libfsxfs_attributes_get_from_block (io_handle_zero\<lparr> io_block_size := 512 \<rparr>)
     (\<lambda>off n. Some (replicate n 0xff)) inode_zero 0 [] 0)"
  by (rule attributes_tree_memory_safe) (simp add: io_handle_zero_def)

end
