(* ===== verification/Data_Stream.thy ===== *)
theory Data_Stream
  imports Inode
begin

text \<open>
  The data of a file as a stream (\<open>libfsxfs_data_stream.c\<close>): the segments that are handed to the
  \<open>libfdata\<close> library, a parameter of the model, and the two kinds of handles that it reads them
  with (\<open>libfsxfs_buffer_data_handle.c\<close>, \<open>libfsxfs_block_data_handle.c\<close>).
\<close>

subsection \<open>The buffer data handle\<close>

text \<open>\<open>bdh_data\<close> is the buffer that the pointer points into, from there on; an offset is signed.\<close>

record buffer_data_handle =
  bdh_current_offset :: u64
  bdh_data :: "u8 list option"
  bdh_data_size :: nat

definition libfsxfs_buffer_data_handle_initialize ::
    "buffer_data_handle option \<Rightarrow> u8 list option \<Rightarrow> nat \<Rightarrow> buffer_data_handle result" where
  "libfsxfs_buffer_data_handle_initialize pointer data data_size =
     (case pointer of Some _ \<Rightarrow> Inl Value_Already_Set | None \<Rightarrow>
      if data_size > 0 \<and> data = None then Inl Invalid_Value else
      if data_size > SSIZE_MAX then Inl Value_Exceeds_Maximum else
      Inr \<lparr> bdh_current_offset = 0, bdh_data = data, bdh_data_size = data_size \<rparr>)"

definition libfsxfs_buffer_data_handle_read_segment_data ::
    "buffer_data_handle \<Rightarrow> int \<Rightarrow> nat \<Rightarrow> (buffer_data_handle \<times> u8 list) result" where
  "libfsxfs_buffer_data_handle_read_segment_data data_handle segment_index segment_data_size =
     (if sint (bdh_current_offset data_handle) < 0 then Inl Value_Out_Of_Bounds else
      if segment_index \<noteq> 0 then Inl Value_Out_Of_Bounds else
      if segment_data_size > SSIZE_MAX then Inl Value_Exceeds_Maximum else
      if sint (bdh_current_offset data_handle) \<ge> int (bdh_data_size data_handle)
      then Inr (data_handle, []) else
      let read_size = size_sub (bdh_data_size data_handle) (unat (bdh_current_offset data_handle));
          read_size = (if read_size > segment_data_size then segment_data_size else read_size) in
      bindE (get_bytes (case bdh_data data_handle of None \<Rightarrow> [] | Some data \<Rightarrow> data)
               (unat (bdh_current_offset data_handle)) read_size) (\<lambda>segment_data.
      Inr (data_handle\<lparr> bdh_current_offset := bdh_current_offset data_handle + word_of_nat read_size \<rparr>,
           segment_data)))"

definition libfsxfs_buffer_data_handle_seek_segment_offset ::
    "buffer_data_handle \<Rightarrow> int \<Rightarrow> u64 \<Rightarrow> (buffer_data_handle \<times> u64) result" where
  "libfsxfs_buffer_data_handle_seek_segment_offset data_handle segment_index segment_offset =
     (if segment_index \<noteq> 0 then Inl Value_Out_Of_Bounds else
      if sint segment_offset < 0 then Inl Value_Out_Of_Bounds else
      Inr (data_handle\<lparr> bdh_current_offset := segment_offset \<rparr>, segment_offset))"

subsection \<open>The block data handle\<close>

text \<open>
  The state is the offset of the file handle. \<open>seek\<close> tells whether \<open>libbfio_handle_seek_offset\<close>
  reaches an offset, \<open>sparse_flag\<close> stands for \<open>LIBFDATA_RANGE_FLAG_IS_SPARSE\<close> of \<open>libfdata\<close>.
\<close>

definition libfsxfs_block_data_handle_read_segment_data ::
    "u32 \<Rightarrow> file_io \<Rightarrow> u64 \<Rightarrow> nat \<Rightarrow> u32 \<Rightarrow> (u64 \<times> u8 list) result" where
  "libfsxfs_block_data_handle_read_segment_data sparse_flag fio current_offset segment_data_size segment_flags =
     (if segment_data_size > SSIZE_MAX then Inl Value_Exceeds_Maximum else
      if segment_flags AND sparse_flag \<noteq> 0 then Inr (current_offset, replicate segment_data_size 0)
      else
        case fio current_offset segment_data_size of
          None \<Rightarrow> Inl Read_Failed
        | Some segment_data \<Rightarrow>
            Inr (current_offset + word_of_nat (length segment_data), segment_data))"

definition libfsxfs_block_data_handle_seek_segment_offset ::
    "(u64 \<Rightarrow> bool) \<Rightarrow> u64 \<Rightarrow> u64 result" where
  "libfsxfs_block_data_handle_seek_segment_offset seek segment_offset =
     (if sint segment_offset < 0 then Inl Value_Out_Of_Bounds else
      if \<not> seek segment_offset then Inl Seek_Failed else
      Inr segment_offset)"

subsection \<open>Streams\<close>

text \<open>
  The operations of \<open>libfdata\<close> that are called: a stream is created with the functions that read
  it, given its segments one by one and at last its size. Then it is read at its current offset,
  which a read moves, or at an offset that is given; an operation returns the stream as it is left.
\<close>

datatype data_handle =
    Buffer_Data_Handle buffer_data_handle
  | Block_Data_Handle

record 's libfdata =
  libfdata_stream_initialize :: "data_handle \<Rightarrow> 's result"
  libfdata_stream_append_segment :: "'s \<Rightarrow> u64 \<Rightarrow> u64 \<Rightarrow> u32 \<Rightarrow> 's result"
  libfdata_stream_set_mapped_size :: "'s \<Rightarrow> u64 \<Rightarrow> 's result"
  libfdata_stream_read_buffer :: "'s \<Rightarrow> file_io \<Rightarrow> nat \<Rightarrow> 's \<times> u8 list result"
  libfdata_stream_read_buffer_at_offset :: "'s \<Rightarrow> file_io \<Rightarrow> nat \<Rightarrow> u64 \<Rightarrow> 's \<times> u8 list result"
  libfdata_stream_seek_offset :: "'s \<Rightarrow> u64 \<Rightarrow> int \<Rightarrow> 's \<times> u64 result"
  libfdata_stream_get_offset :: "'s \<Rightarrow> u64 result"

definition libfsxfs_data_stream_initialize_from_data ::
    "'s libfdata \<Rightarrow> u8 list option \<Rightarrow> nat \<Rightarrow> 's result" where
  "libfsxfs_data_stream_initialize_from_data lib data data_size =
     bindE (libfsxfs_buffer_data_handle_initialize None data data_size) (\<lambda>data_handle.
     bindE (libfdata_stream_initialize lib (Buffer_Data_Handle data_handle)) (\<lambda>stream.
     libfdata_stream_append_segment lib stream 0 (word_of_nat data_size) 0))"

fun data_stream_append_extents ::
    "'s libfdata \<Rightarrow> io_handle \<Rightarrow> extent list \<Rightarrow> 's \<Rightarrow> 's result" where
  "data_stream_append_extents lib io [] stream = Inr stream"
| "data_stream_append_extents lib io (extent # extents) stream =
     bindE (block_number_to_offset io (ex_physical_block_number extent)) (\<lambda>data_segment_offset.
     let data_segment_size = ucast (ex_number_of_blocks extent) * ucast (io_block_size io) in
     bindE (libfdata_stream_append_segment lib stream data_segment_offset data_segment_size
              (ex_range_flags extent)) (\<lambda>stream.
     data_stream_append_extents lib io extents stream))"

definition libfsxfs_data_stream_initialize_from_extents ::
    "'s libfdata \<Rightarrow> io_handle \<Rightarrow> inode \<Rightarrow> u64 \<Rightarrow> 's result" where
  "libfsxfs_data_stream_initialize_from_extents lib io inode data_size =
     (if io_allocation_group_size io = 0 then Inl Value_Out_Of_Bounds else
      if io_block_size io = 0 then Inl Value_Out_Of_Bounds else
      bindE (libfdata_stream_initialize lib Block_Data_Handle) (\<lambda>stream.
      case in_data_extents_array inode of
        None \<Rightarrow> Inl Get_Failed
      | Some extents \<Rightarrow>
          bindE (data_stream_append_extents lib io extents stream) (\<lambda>stream.
          libfdata_stream_set_mapped_size lib stream data_size)))"

definition libfsxfs_data_stream_initialize ::
    "'s libfdata \<Rightarrow> io_handle \<Rightarrow> inode \<Rightarrow> u64 \<Rightarrow> 's result" where
  "libfsxfs_data_stream_initialize lib io inode data_size =
     (if in_fork_type inode \<noteq> LIBFSXFS_FORK_TYPE_INLINE_DATA \<and>
         in_fork_type inode \<noteq> LIBFSXFS_FORK_TYPE_EXTENTS \<and>
         in_fork_type inode \<noteq> LIBFSXFS_FORK_TYPE_BTREE then Inl Unsupported_Value else
      if data_size = 0 \<or> in_fork_type inode = LIBFSXFS_FORK_TYPE_INLINE_DATA
      then libfsxfs_data_stream_initialize_from_data lib (in_inline_data inode) (unat data_size)
      else libfsxfs_data_stream_initialize_from_extents lib io inode data_size)"

subsection \<open>The states of a buffer data handle\<close>

lemma sint_u64_nonneg:
  "0 \<le> sint (w :: u64) \<longleftrightarrow> unat w < 2 ^ 63" "0 \<le> sint (w :: u64) \<Longrightarrow> sint w = int (unat w)"
proof -
  have small: "sint w = int (unat w)" if "unat w < 2 ^ 63"
    using that unat_bounds(4) [of w]
    by (simp only: sint_uint uint_nat) (simp add: signed_take_bit_int_eq_self del: of_nat_unat)
  have big: "sint w < 0" if "2 ^ 63 \<le> unat w"
  proof -
    have "unat w div 2 ^ 63 = 1" using that unat_bounds(4) [of w] by (intro div_nat_eqI) simp_all
    then have "bit (unat w) 63" by (simp add: bit_iff_odd)
    then have "bit w 63" by (simp add: bit_simps)
    then show ?thesis by (simp add: sint_uint bit_simps)
  qed
  show "0 \<le> sint w \<longleftrightarrow> unat w < 2 ^ 63" "0 \<le> sint w \<Longrightarrow> sint w = int (unat w)"
    using small big by (cases "unat w < 2 ^ 63"; force)+
qed

text \<open>
  The steps of a handle are the calls that succeed; a call that fails leaves it as it is. The
  reachable handles are those after any number of calls, with any arguments.
\<close>

inductive buffer_step :: "buffer_data_handle \<Rightarrow> buffer_data_handle \<Rightarrow> bool" where
  seek: "libfsxfs_buffer_data_handle_seek_segment_offset h i off = Inr (h', r) \<Longrightarrow> buffer_step h h'"
| read: "libfsxfs_buffer_data_handle_read_segment_data h i n = Inr (h', bs) \<Longrightarrow> buffer_step h h'"

inductive buffer_reachable :: "u8 list \<Rightarrow> nat \<Rightarrow> buffer_data_handle \<Rightarrow> bool" for data sz where
  start: "libfsxfs_buffer_data_handle_initialize None (Some data) sz = Inr h \<Longrightarrow>
     buffer_reachable data sz h"
| step: "buffer_reachable data sz h \<Longrightarrow> buffer_step h h' \<Longrightarrow> buffer_reachable data sz h'"

definition buffer_invariant :: "u8 list \<Rightarrow> nat \<Rightarrow> buffer_data_handle \<Rightarrow> bool" where
  "buffer_invariant data sz h \<longleftrightarrow>
     bdh_data h = Some data \<and> bdh_data_size h = sz \<and> sz \<le> SSIZE_MAX \<and> unat (bdh_current_offset h) < 2 ^ 63"

text \<open>What a read of a handle in its invariant does.\<close>

lemma buffer_read:
  assumes "buffer_invariant data sz h" and "sz \<le> length data" and "n \<le> SSIZE_MAX"
  shows "libfsxfs_buffer_data_handle_read_segment_data h 0 n =
    Inr (h\<lparr> bdh_current_offset := bdh_current_offset h +
          word_of_nat (length (take n (drop (unat (bdh_current_offset h)) (take sz data)))) \<rparr>,
      take n (drop (unat (bdh_current_offset h)) (take sz data)))"
proof -
  let ?o = "unat (bdh_current_offset h)"
  have i: "bdh_data h = Some data" "bdh_data_size h = sz" "sz \<le> SSIZE_MAX" "?o < 2 ^ 63"
    using assms(1) by (simp_all add: buffer_invariant_def)
  have s: "\<not> sint (bdh_current_offset h) < 0" "sint (bdh_current_offset h) = int ?o"
    using i(4) sint_u64_nonneg [of "bdh_current_offset h"] by simp_all
  show ?thesis
  proof (cases "sz \<le> ?o")
    case True
    then show ?thesis
      using s i assms(3)
      by (simp add: libfsxfs_buffer_data_handle_read_segment_data_def of_nat_le_iff del: uint_nat of_nat_unat)
  next
    case False
    let ?r = "min (sz - ?o) n"
    have "(if size_sub sz ?o > n then n else size_sub sz ?o) = ?r" using False by simp
    moreover have "take n (drop ?o (take sz data)) = take ?r (drop ?o data)"
      by (simp add: drop_take min.commute)
    moreover have "length (take ?r (drop ?o data)) = ?r" using assms(2) by simp
    moreover have "n < sz - ?o \<longrightarrow> ?o + n \<le> length data" using assms(2) False by arith
    ultimately show ?thesis
      using s i False assms(2,3)
      by (simp add: libfsxfs_buffer_data_handle_read_segment_data_def get_bytes_def Let_def min_def
          del: of_nat_unat)
  qed
qed

lemma buffer_step_invariant:
  assumes "buffer_step h h'" and "buffer_invariant data sz h"
  shows "buffer_invariant data sz h'"
  using assms(1)
proof cases
  case (seek i off r)
  then show ?thesis
    using assms(2) sint_u64_nonneg(1) [of off]
    by (auto simp: libfsxfs_buffer_data_handle_seek_segment_offset_def buffer_invariant_def split: if_splits)
next
  case (read i n bs)
  let ?o = "unat (bdh_current_offset h)"
  have o: "?o < 2 ^ 63" "bdh_data_size h = sz" "sz \<le> SSIZE_MAX"
    using assms(2) by (simp_all add: buffer_invariant_def)
  have le: "unat (bdh_current_offset h + word_of_nat k) < 2 ^ 63" if "?o + k \<le> sz" for k
  proof -
    have "unat (word_of_nat k :: u64) \<le> k" by (simp add: unat_of_nat)
    then have "unat (bdh_current_offset h + word_of_nat k) \<le> ?o + k"
      using unat_plus_le [of "bdh_current_offset h" "word_of_nat k"] by linarith
    then show ?thesis using that o(3) by simp
  qed
  have s: "sint (bdh_current_offset h) = int ?o" using o(1) sint_u64_nonneg [of "bdh_current_offset h"] by simp
  show ?thesis
  proof (cases "sz \<le> ?o")
    case True
    then show ?thesis
      using read assms(2) s o
      by (auto simp: libfsxfs_buffer_data_handle_read_segment_data_def simp del: of_nat_unat split: if_splits)
  next
    case False
    then have "h' = h\<lparr> bdh_current_offset := bdh_current_offset h + word_of_nat (min (sz - ?o) n) \<rparr>"
      using read s o
      by (auto simp: libfsxfs_buffer_data_handle_read_segment_data_def Let_def min_def
          simp del: of_nat_unat of_nat_diff split: if_splits)
    moreover have "?o + min (sz - ?o) n \<le> sz" using False by simp
    ultimately show ?thesis using assms(2) le by (simp add: buffer_invariant_def del: of_nat_diff)
  qed
qed

lemma buffer_reachable_invariant: "buffer_reachable data sz h \<Longrightarrow> buffer_invariant data sz h"
proof (induction rule: buffer_reachable.induct)
  case (start h)
  then show ?case
    by (auto simp: libfsxfs_buffer_data_handle_initialize_def buffer_invariant_def split: if_splits)
next
  case (step h h')
  then show ?case by (blast intro: buffer_step_invariant)
qed

text \<open>
  However a buffer data handle was used before, a read delivers the bytes of the data at its
  current offset, as many as were asked for or are left before the end, and moves the offset
  behind them; no read reaches past the data.
\<close>

theorem buffer_handle_read_correct:
  assumes "buffer_reachable data sz h" and "sz \<le> length data" and "n \<le> SSIZE_MAX"
  shows "libfsxfs_buffer_data_handle_read_segment_data h 0 n =
    Inr (h\<lparr> bdh_current_offset := bdh_current_offset h +
          word_of_nat (length (take n (drop (unat (bdh_current_offset h)) (take sz data)))) \<rparr>,
      take n (drop (unat (bdh_current_offset h)) (take sz data)))"
  by (rule buffer_read [OF buffer_reachable_invariant [OF assms(1)] assms(2,3)])

lemma buffer_handle_read_correct_witness:
  "libfsxfs_buffer_data_handle_read_segment_data
     \<lparr> bdh_current_offset = 2, bdh_data = Some [5, 6, 7, 8], bdh_data_size = 3 \<rparr> 0 10 =
   Inr (\<lparr> bdh_current_offset = 3, bdh_data = Some [5, 6, 7, 8], bdh_data_size = 3 \<rparr>, [7])"
proof -
  let ?h = "\<lparr> bdh_current_offset = 0, bdh_data = Some [5, 6, 7, 8 :: u8], bdh_data_size = 3 \<rparr>"
  have "buffer_reachable [5, 6, 7, 8] 3 ?h"
    by (rule buffer_reachable.start) (simp add: libfsxfs_buffer_data_handle_initialize_def)
  moreover have "buffer_step ?h (?h\<lparr> bdh_current_offset := 2 \<rparr>)"
    by (rule buffer_step.seek [of _ 0 2 _ 2])
      (simp add: libfsxfs_buffer_data_handle_seek_segment_offset_def)
  ultimately have "buffer_reachable [5, 6, 7, 8] 3 (?h\<lparr> bdh_current_offset := 2 \<rparr>)"
    by (rule buffer_reachable.step)
  from buffer_handle_read_correct [OF this, of 10] show ?thesis by simp
qed

text \<open>Reads of the given sizes, one after the other.\<close>

fun buffer_read_chunks ::
    "buffer_data_handle \<Rightarrow> nat list \<Rightarrow> (buffer_data_handle \<times> u8 list) result" where
  "buffer_read_chunks h [] = Inr (h, [])"
| "buffer_read_chunks h (n # ns) =
     bindE (libfsxfs_buffer_data_handle_read_segment_data h 0 n) (\<lambda>(h, bs).
     bindE (buffer_read_chunks h ns) (\<lambda>(h, cs). Inr (h, bs @ cs)))"

text \<open>
  Reading in chunks is the same as reading at once: the bytes of any sequence of reads are
  those that one read of their total size would deliver.
\<close>

theorem buffer_chunks_equal_one_read:
  assumes "buffer_reachable data sz h" and "sz \<le> length data" and "sum_list ns \<le> SSIZE_MAX"
  shows "\<exists>h'. buffer_read_chunks h ns = Inr (h', take (sum_list ns) (drop (unat (bdh_current_offset h)) (take sz data)))"
  using assms
proof (induction ns arbitrary: h)
  case Nil
  then show ?case by simp
next
  case (Cons n ns)
  let ?d = "take sz data" and ?o = "unat (bdh_current_offset h)"
  let ?bs = "take n (drop ?o ?d)"
  let ?h = "h\<lparr> bdh_current_offset := bdh_current_offset h + word_of_nat (length ?bs) \<rparr>"
  have inv: "buffer_invariant data sz h" by (rule buffer_reachable_invariant [OF Cons.prems(1)])
  have r: "libfsxfs_buffer_data_handle_read_segment_data h 0 n = Inr (?h, ?bs)"
    using Cons.prems inv by (intro buffer_read) simp_all
  then have "buffer_reachable data sz ?h"
    using Cons.prems(1) by (blast intro: buffer_reachable.step buffer_step.read)
  then obtain h' where h': "buffer_read_chunks ?h ns =
      Inr (h', take (sum_list ns) (drop (unat (bdh_current_offset ?h)) ?d))"
    using Cons.IH [of ?h] Cons.prems by auto
  have "drop (unat (bdh_current_offset ?h)) ?d = drop (length ?bs) (drop ?o ?d)"
  proof (cases "?bs = []")
    case False
    then have l: "?o + length ?bs \<le> sz" using Cons.prems(2) by (cases "?o < sz") auto
    then have "unat (bdh_current_offset ?h) = ?o + length ?bs"
      using inv by (simp add: buffer_invariant_def unat_word_ariths unat_of_nat)
    then show ?thesis by (simp add: add.commute)
  next
    case True
    then have l: "length ?bs = 0" by (simp only: list.size(3))
    show ?thesis by (simp only: l) simp
  qed
  then have "drop (unat (bdh_current_offset ?h)) ?d = drop n (drop ?o ?d)"
    by (cases "n \<le> length (drop ?o ?d)") (simp_all add: min_def)
  with r h' show ?case by (simp add: take_add)
qed

lemma buffer_chunks_equal_one_read_witness:
  "\<exists>h'. buffer_read_chunks \<lparr> bdh_current_offset = 0, bdh_data = Some [5, 6, 7, 8], bdh_data_size = 4 \<rparr> [1, 2, 5] =
     Inr (h', [5, 6, 7, 8])"
proof -
  have "buffer_reachable [5, 6, 7, 8] 4 \<lparr> bdh_current_offset = 0, bdh_data = Some [5, 6, 7, 8], bdh_data_size = 4 \<rparr>"
    by (rule buffer_reachable.start) (simp add: libfsxfs_buffer_data_handle_initialize_def)
  from buffer_chunks_equal_one_read [OF this, of "[1, 2, 5]"] show ?thesis by simp
qed

subsection \<open>Where a byte of the file is stored\<close>

text \<open>
  What the library is relied on for: it remembers the handle, the segments in order and the size
  that a stream was given, and starts at offset 0. \<open>view\<close> reads them off a stream.
\<close>

record stream_segment =
  sg_offset :: u64
  sg_size :: u64
  sg_flags :: u32

record stream_record =
  sr_handle :: data_handle
  sr_segments :: "stream_segment list"
  sr_mapped_size :: "u64 option"
  sr_offset :: nat

definition libfdata_records :: "'s libfdata \<Rightarrow> ('s \<Rightarrow> stream_record) \<Rightarrow> bool" where
  "libfdata_records lib view \<longleftrightarrow>
     (\<forall>h. \<exists>s. libfdata_stream_initialize lib h = Inr s \<and>
        view s = \<lparr> sr_handle = h, sr_segments = [], sr_mapped_size = None, sr_offset = 0 \<rparr>) \<and>
     (\<forall>s off n flags. 0 \<le> sint off \<and> 0 \<le> sint n \<longrightarrow>
        (\<exists>s'. libfdata_stream_append_segment lib s off n flags = Inr s' \<and>
           view s' = (view s)\<lparr> sr_segments := sr_segments (view s) @
             [\<lparr> sg_offset = off, sg_size = n, sg_flags = flags \<rparr>] \<rparr>)) \<and>
     (\<forall>s n. \<exists>s'. libfdata_stream_set_mapped_size lib s n = Inr s' \<and>
        view s' = (view s)\<lparr> sr_mapped_size := Some n \<rparr>)"

lemma libfdata_append:
  "libfdata_records lib view \<Longrightarrow> 0 \<le> sint off \<Longrightarrow> 0 \<le> sint n \<Longrightarrow>
     \<exists>s'. libfdata_stream_append_segment lib s off n flags = Inr s' \<and>
       view s' = (view s)\<lparr> sr_segments := sr_segments (view s) @
         [\<lparr> sg_offset = off, sg_size = n, sg_flags = flags \<rparr>] \<rparr>"
  unfolding libfdata_records_def by blast

text \<open>The segment of a position in the stream: the offset in the file and the flags.\<close>

fun stream_locate :: "stream_segment list \<Rightarrow> nat \<Rightarrow> (nat \<times> u32) option" where
  "stream_locate [] p = None"
| "stream_locate (sg # sgs) p =
     (if p < unat (sg_size sg) then Some (unat (sg_offset sg) + p, sg_flags sg)
      else stream_locate sgs (p - unat (sg_size sg)))"

text \<open>The number of a block counted from the start of the file system.\<close>

definition physical_block :: "io_handle \<Rightarrow> u64 \<Rightarrow> nat" where
  "physical_block io b =
     block_number_group io b * unat (io_allocation_group_size io) + block_number_relative io b"

text \<open>An extent whose blocks lie at file offsets that are positive as signed 64-bit values.\<close>

definition extent_addressable :: "io_handle \<Rightarrow> extent \<Rightarrow> bool" where
  "extent_addressable io x \<longleftrightarrow>
     block_number_group io (ex_physical_block_number x) < 2 ^ 31 \<and>
     physical_block io (ex_physical_block_number x) * unat (io_block_size io) < 2 ^ 63 \<and>
     unat (ex_number_of_blocks x) * unat (io_block_size io) < 2 ^ 63"

definition extent_segment :: "io_handle \<Rightarrow> extent \<Rightarrow> stream_segment" where
  "extent_segment io x =
     \<lparr> sg_offset = word_of_nat (physical_block io (ex_physical_block_number x) * unat (io_block_size io)),
       sg_size = ucast (ex_number_of_blocks x) * ucast (io_block_size io),
       sg_flags = ex_range_flags x \<rparr>"

lemma extent_segment_size:
  "unat (sg_size (extent_segment io x)) = unat (ex_number_of_blocks x) * unat (io_block_size io)"
proof -
  have "unat (ex_number_of_blocks x) * unat (io_block_size io) \<le> (2 ^ 32 - 1) * (2 ^ 32 - 1)"
    using unat_bounds(3) [of "ex_number_of_blocks x"] unat_bounds(3) [of "io_block_size io"]
    by (intro mult_le_mono) simp_all
  then show ?thesis by (simp add: extent_segment_def unat_word_ariths)
qed

lemma extent_segment_offset:
  "extent_addressable io x \<Longrightarrow>
     unat (sg_offset (extent_segment io x)) = physical_block io (ex_physical_block_number x) * unat (io_block_size io)"
  by (simp add: extent_segment_def extent_addressable_def unat_of_nat del: of_nat_mult)

lemma extent_block_number_to_offset:
  assumes "unat (io_number_of_relative_block_number_bits io) < 31" and "extent_addressable io x"
  shows "block_number_to_offset io (ex_physical_block_number x) = Inr (sg_offset (extent_segment io x))"
proof -
  obtain w where w: "block_number_to_block io (ex_physical_block_number x) = Inr w"
    "unat w = physical_block io (ex_physical_block_number x)"
    using block_number_to_block_nat [OF assms(1), of "ex_physical_block_number x"] assms(2)
    by (auto simp: extent_addressable_def physical_block_def)
  then have "unat (w * ucast (io_block_size io)) =
      physical_block io (ex_physical_block_number x) * unat (io_block_size io)"
    using assms(2) by (simp add: unat_word_ariths extent_addressable_def)
  then have "w * ucast (io_block_size io) = sg_offset (extent_segment io x)"
    using extent_segment_offset [OF assms(2)] by (simp add: word_unat_eq_iff)
  then show ?thesis by (simp add: block_number_to_offset_def w(1))
qed

lemma data_stream_append_extents_records:
  assumes "unat (io_number_of_relative_block_number_bits io) < 31" and "libfdata_records lib view"
    and "\<forall>x \<in> set xs. extent_addressable io x"
  shows "\<exists>s'. data_stream_append_extents lib io xs s = Inr s' \<and>
    view s' = (view s)\<lparr> sr_segments := sr_segments (view s) @ map (extent_segment io) xs \<rparr>"
  using assms(3)
proof (induction xs arbitrary: s)
  case Nil
  then show ?case by simp
next
  case (Cons x xs)
  let ?sg = "extent_segment io x"
  have x: "extent_addressable io x" using Cons.prems by simp
  have "0 \<le> sint (sg_offset ?sg)" "0 \<le> sint (sg_size ?sg)"
    using x unfolding sint_u64_nonneg(1) extent_segment_size extent_segment_offset [OF x]
    by (simp_all add: extent_addressable_def)
  then obtain t where t: "libfdata_stream_append_segment lib s (sg_offset ?sg) (sg_size ?sg) (ex_range_flags x) = Inr t"
    "view t = (view s)\<lparr> sr_segments := sr_segments (view s) @ [?sg] \<rparr>"
    using libfdata_append [OF assms(2), of "sg_offset ?sg" "sg_size ?sg" s "ex_range_flags x"]
    by (auto simp: extent_segment_def)
  obtain s' where "data_stream_append_extents lib io xs t = Inr s'"
    "view s' = (view t)\<lparr> sr_segments := sr_segments (view t) @ map (extent_segment io) xs \<rparr>"
    using Cons.IH [of t] Cons.prems by auto
  with t show ?case
    using extent_block_number_to_offset [OF assms(1) x]
    by (simp add: Let_def extent_segment_def)
qed

lemma stream_locate_extents:
  assumes "extents_cover s xs e" and "\<forall>x \<in> set xs. extent_addressable io x"
    and "0 < unat (io_block_size io)" and "p < (e - s) * unat (io_block_size io)"
  shows "\<exists>x \<in> set xs. unat (ex_logical_block_number x) \<le> s + p div unat (io_block_size io) \<and>
    s + p div unat (io_block_size io) < unat (ex_logical_block_number x) + unat (ex_number_of_blocks x) \<and>
    stream_locate (map (extent_segment io) xs) p =
      Some ((physical_block io (ex_physical_block_number x) +
          (s + p div unat (io_block_size io) - unat (ex_logical_block_number x))) * unat (io_block_size io)
        + p mod unat (io_block_size io), ex_range_flags x)"
  using assms
proof (induction xs arbitrary: s p)
  case Nil
  then show ?case by simp
next
  case (Cons x xs)
  let ?bs = "unat (io_block_size io)" and ?n = "unat (ex_number_of_blocks x)"
  have l: "unat (ex_logical_block_number x) = s" "extents_cover (s + ?n) xs e" using Cons.prems(1) by auto
  have sz: "unat (sg_size (extent_segment io x)) = ?n * ?bs" by (rule extent_segment_size)
  show ?case
  proof (cases "p < ?n * ?bs")
    case True
    then have "p div ?bs < ?n" using Cons.prems(3) by (simp add: less_mult_imp_div_less)
    moreover have "physical_block io (ex_physical_block_number x) * ?bs + p =
        (physical_block io (ex_physical_block_number x) + p div ?bs) * ?bs + p mod ?bs"
      by (simp add: algebra_simps)
    ultimately show ?thesis
      using True l(1) sz extent_segment_offset [of io x] Cons.prems(2)
      by (intro bexI [of _ x]) (simp_all add: extent_segment_def)
  next
    case False
    then have p: "p - ?n * ?bs < (e - (s + ?n)) * ?bs" using Cons.prems(4) by (simp add: algebra_simps diff_mult_distrib)
    have d: "(p - ?n * ?bs) div ?bs = p div ?bs - ?n" "(p - ?n * ?bs) mod ?bs = p mod ?bs" "?n \<le> p div ?bs"
    proof -
      obtain q where q: "p = q + ?n * ?bs" using False by (metis add.commute le_add_diff_inverse not_less)
      show "(p - ?n * ?bs) div ?bs = p div ?bs - ?n" "(p - ?n * ?bs) mod ?bs = p mod ?bs" "?n \<le> p div ?bs"
        unfolding q using Cons.prems(3) by simp_all
    qed
    then show ?thesis
      using Cons.IH [OF l(2) _ Cons.prems(3) p] Cons.prems(2) False sz by auto
  qed
qed

lemma data_stream_records:
  assumes "libfdata_records lib view"
    and "unat (io_number_of_relative_block_number_bits io) < 31"
    and "io_allocation_group_size io \<noteq> 0" and "io_block_size io \<noteq> 0"
    and "in_data_extents_array inode = Some xs" and "\<forall>x \<in> set xs. extent_addressable io x"
  shows "\<exists>s. libfsxfs_data_stream_initialize_from_extents lib io inode data_size = Inr s \<and>
    view s = \<lparr> sr_handle = Block_Data_Handle, sr_segments = map (extent_segment io) xs,
      sr_mapped_size = Some data_size, sr_offset = 0 \<rparr>"
proof -
  obtain s where s: "libfdata_stream_initialize lib Block_Data_Handle = Inr s"
    "view s = \<lparr> sr_handle = Block_Data_Handle, sr_segments = [], sr_mapped_size = None, sr_offset = 0 \<rparr>"
    using assms(1) unfolding libfdata_records_def by blast
  obtain t where t: "data_stream_append_extents lib io xs s = Inr t"
    "view t = (view s)\<lparr> sr_segments := sr_segments (view s) @ map (extent_segment io) xs \<rparr>"
    using data_stream_append_extents_records [OF assms(2,1,6)] by blast
  obtain u where u: "libfdata_stream_set_mapped_size lib t data_size = Inr u"
    "view u = (view t)\<lparr> sr_mapped_size := Some data_size \<rparr>"
    using assms(1) unfolding libfdata_records_def by blast
  have "libfsxfs_data_stream_initialize_from_extents lib io inode data_size = Inr u"
    using assms(3-5) s t u by (simp add: libfsxfs_data_stream_initialize_from_extents_def)
  then show ?thesis using s(2) t(2) u(2) by simp
qed

text \<open>
  For a file whose extents cover its blocks 0 to \<open>n\<close>, the stream that is made from them is
  created, has the size of the file, and byte \<open>p\<close> of it is read from where the file system stores
  it: at byte \<open>p mod block size\<close> of the physical block of the extent that covers the logical block
  \<open>p div block size\<close>, with the flags of that extent.
\<close>

theorem data_stream_maps_file:
  assumes "libfdata_records lib view"
    and "unat (io_number_of_relative_block_number_bits io) < 31"
    and "io_allocation_group_size io \<noteq> 0" and "io_block_size io \<noteq> 0"
    and "in_data_extents_array inode = Some xs" and "extents_cover 0 xs n"
    and "\<forall>x \<in> set xs. extent_addressable io x"
  shows "\<exists>s. libfsxfs_data_stream_initialize_from_extents lib io inode data_size = Inr s \<and>
    sr_handle (view s) = Block_Data_Handle \<and> sr_mapped_size (view s) = Some data_size \<and>
    (\<forall>p < n * unat (io_block_size io). \<exists>x \<in> set xs.
       unat (ex_logical_block_number x) \<le> p div unat (io_block_size io) \<and>
       p div unat (io_block_size io) < unat (ex_logical_block_number x) + unat (ex_number_of_blocks x) \<and>
       stream_locate (sr_segments (view s)) p =
         Some ((physical_block io (ex_physical_block_number x) +
             (p div unat (io_block_size io) - unat (ex_logical_block_number x))) * unat (io_block_size io)
           + p mod unat (io_block_size io), ex_range_flags x))"
proof -
  have bs: "0 < unat (io_block_size io)" using assms(4) by (simp add: unat_gt_0)
  obtain s where "libfsxfs_data_stream_initialize_from_extents lib io inode data_size = Inr s"
    "view s = \<lparr> sr_handle = Block_Data_Handle, sr_segments = map (extent_segment io) xs,
      sr_mapped_size = Some data_size, sr_offset = 0 \<rparr>"
    using data_stream_records [OF assms(1-5,7)] by blast
  then show ?thesis
    using stream_locate_extents [OF assms(6,7) bs] by (intro exI [of _ s]) simp
qed

text \<open>
  The byte of a stream at a position, as the handle of the stream delivers it for the segment that
  has the position. The flag of a sparse segment is 1 in \<open>libfdata\<close> too. Without a mapped size
  the size of a stream is that of its segments.
\<close>

definition handle_byte :: "data_handle \<Rightarrow> file_io \<Rightarrow> u64 \<Rightarrow> u32 \<Rightarrow> u8 list result" where
  "handle_byte handle fio off flags =
     (case handle of
        Block_Data_Handle \<Rightarrow>
          bindE (libfsxfs_block_data_handle_read_segment_data 1 fio off 1 flags) (\<lambda>(off, bs). Inr bs)
      | Buffer_Data_Handle h \<Rightarrow>
          bindE (libfsxfs_buffer_data_handle_seek_segment_offset h 0 off) (\<lambda>(h, off).
          bindE (libfsxfs_buffer_data_handle_read_segment_data h 0 1) (\<lambda>(h, bs). Inr bs)))"

definition stream_byte :: "file_io \<Rightarrow> stream_record \<Rightarrow> nat \<Rightarrow> u8 option" where
  "stream_byte fio r p =
     (case stream_locate (sr_segments r) p of
        None \<Rightarrow> None
      | Some (off, flags) \<Rightarrow>
          (case handle_byte (sr_handle r) fio (word_of_nat off) flags of Inr [b] \<Rightarrow> Some b | _ \<Rightarrow> None))"

definition stream_size :: "stream_record \<Rightarrow> nat" where
  "stream_size r =
     (case sr_mapped_size r of
        None \<Rightarrow> sum_list (map (unat \<circ> sg_size) (sr_segments r)) | Some m \<Rightarrow> unat m)"

definition stream_bytes :: "file_io \<Rightarrow> stream_record \<Rightarrow> nat \<Rightarrow> nat \<Rightarrow> u8 list option" where
  "stream_bytes fio r off n = those (map (stream_byte fio r) [off..<min (off + n) (stream_size r)])"

text \<open>A library that records and reads byte by byte, and a file of six blocks with a hole in the middle.\<close>

definition recording_read :: "stream_record \<Rightarrow> file_io \<Rightarrow> nat \<Rightarrow> stream_record \<times> u8 list result" where
  "recording_read s fio n =
     (case stream_bytes fio s (sr_offset s) n of
        None \<Rightarrow> (s, Inl Read_Failed)
      | Some bs \<Rightarrow> (s\<lparr> sr_offset := sr_offset s + length bs \<rparr>, Inr bs))"

definition recording_libfdata :: "stream_record libfdata" where
  "recording_libfdata =
     \<lparr> libfdata_stream_initialize =
         (\<lambda>h. Inr \<lparr> sr_handle = h, sr_segments = [], sr_mapped_size = None, sr_offset = 0 \<rparr>),
       libfdata_stream_append_segment =
         (\<lambda>s off n flags. Inr (s\<lparr> sr_segments := sr_segments s @
            [\<lparr> sg_offset = off, sg_size = n, sg_flags = flags \<rparr>] \<rparr>)),
       libfdata_stream_set_mapped_size = (\<lambda>s n. Inr (s\<lparr> sr_mapped_size := Some n \<rparr>)),
       libfdata_stream_read_buffer = recording_read,
       libfdata_stream_read_buffer_at_offset =
         (\<lambda>s fio n off. recording_read (s\<lparr> sr_offset := unat off \<rparr>) fio n),
       libfdata_stream_seek_offset = (\<lambda>s off whence.
         if whence = 0 then (s\<lparr> sr_offset := unat off \<rparr>, Inr off) else (s, Inl Seek_Failed)),
       libfdata_stream_get_offset = (\<lambda>s. Inr (word_of_nat (sr_offset s))) \<rparr>"

lemma recording_libfdata_records: "libfdata_records recording_libfdata (\<lambda>s. s)"
  by (simp add: libfdata_records_def recording_libfdata_def)

lemma data_stream_maps_file_witness:
  fixes io inode
  defines "io \<equiv> io_handle_zero\<lparr> io_block_size := 512, io_allocation_group_size := 1000,
      io_number_of_relative_block_number_bits := 10 \<rparr>"
    and "inode \<equiv> inode_zero\<lparr> in_data_extents_array := Some
      [\<lparr> ex_logical_block_number = 0, ex_physical_block_number = 0x402, ex_number_of_blocks = 2, ex_range_flags = 0 \<rparr>,
       \<lparr> ex_logical_block_number = 2, ex_physical_block_number = 0, ex_number_of_blocks = 1, ex_range_flags = 1 \<rparr>,
       \<lparr> ex_logical_block_number = 3, ex_physical_block_number = 7, ex_number_of_blocks = 3, ex_range_flags = 0 \<rparr>] \<rparr>"
  shows "\<exists>s. libfsxfs_data_stream_initialize_from_extents recording_libfdata io inode 3000 = Inr s \<and>
    sr_mapped_size s = Some 3000 \<and>
    stream_locate (sr_segments s) 600 = Some (1003 * 512 + 88, 0)"
proof -
  let ?P = "\<lambda>s p x. unat (ex_logical_block_number x) \<le> p div 512 \<and>
    p div 512 < unat (ex_logical_block_number x) + unat (ex_number_of_blocks x) \<and>
    stream_locate (sr_segments s) p =
      Some ((physical_block io (ex_physical_block_number x) + (p div 512 - unat (ex_logical_block_number x))) * 512
        + p mod 512, ex_range_flags x)"
  let ?xs = "the (in_data_extents_array inode)"
  have bs: "unat (io_block_size io) = 512" by (simp add: io_def)
  have "\<exists>s. libfsxfs_data_stream_initialize_from_extents recording_libfdata io inode 3000 = Inr s \<and>
      sr_handle s = Block_Data_Handle \<and> sr_mapped_size s = Some 3000 \<and>
      (\<forall>p < 6 * unat (io_block_size io). \<exists>x \<in> set ?xs.
         unat (ex_logical_block_number x) \<le> p div unat (io_block_size io) \<and>
         p div unat (io_block_size io) < unat (ex_logical_block_number x) + unat (ex_number_of_blocks x) \<and>
         stream_locate (sr_segments s) p =
           Some ((physical_block io (ex_physical_block_number x) +
               (p div unat (io_block_size io) - unat (ex_logical_block_number x))) * unat (io_block_size io)
             + p mod unat (io_block_size io), ex_range_flags x))"
    by (rule data_stream_maps_file [OF recording_libfdata_records])
      (simp_all add: io_def inode_def inode_zero_def io_handle_zero_def extent_addressable_def
        physical_block_def block_number_group_def block_number_relative_def)
  then obtain s where s: "libfsxfs_data_stream_initialize_from_extents recording_libfdata io inode 3000 = Inr s"
    "sr_mapped_size s = Some 3000" "\<forall>p < 3072. \<exists>x \<in> set ?xs. ?P s p x"
    by (auto simp: bs)
  have "\<exists>x \<in> set ?xs. ?P s 600 x" by (rule s(3) [rule_format]) simp
  then have "stream_locate (sr_segments s) 600 = Some (1003 * 512 + 88, 0)"
    by (auto simp: inode_def io_def io_handle_zero_def physical_block_def block_number_group_def
        block_number_relative_def)
  with s show ?thesis by blast
qed

end
