(* ===== verification/Attribute_Stream.thy ===== *)
theory Attribute_Stream
  imports Attributes Data_Stream
begin

text \<open>
  The value of an extended attribute as a stream (\<open>libfsxfs_attributes_get_value_data_stream\<close> of
  \<open>libfsxfs_attributes.c\<close>): from the bytes of the value, or from the blocks that hold it.
\<close>

subsection \<open>The operation\<close>

text \<open>
  The loop over the rest of the value. After a segment the extent is looked up again by the
  same index. The loop does not end when the segments are empty, that is the value \<open>None\<close>.
\<close>

partial_function (option) attribute_value_append_segments ::
    "'s libfdata \<Rightarrow> io_handle \<Rightarrow> inode \<Rightarrow> int \<Rightarrow> extent \<Rightarrow> 's \<Rightarrow> u32 \<Rightarrow> 's result option" where
  "attribute_value_append_segments lib io inode extent_index extent stream remaining_value_data_size =
     (if remaining_value_data_size > 0 then
        let data_segment_size = ucast (ex_number_of_blocks extent) * ucast (io_block_size io) :: u64;
            data_segment_size = (if data_segment_size > ucast remaining_value_data_size
              then ucast remaining_value_data_size else data_segment_size);
            remaining = remaining_value_data_size - ucast data_segment_size in
        (case bindE (block_number_to_offset io (ex_physical_block_number extent)) (\<lambda>data_segment_offset.
              libfdata_stream_append_segment lib stream data_segment_offset data_segment_size
                (ex_range_flags extent)) of
           Inl e \<Rightarrow> Some (Inl e)
         | Inr stream \<Rightarrow>
             if remaining > 0 then
               (case libfsxfs_inode_get_attributes_extent_by_index inode extent_index of
                  Inl e \<Rightarrow> Some (Inl e)
                | Inr extent \<Rightarrow>
                    attribute_value_append_segments lib io inode extent_index extent stream remaining)
             else attribute_value_append_segments lib io inode extent_index extent stream remaining)
      else Some (Inr stream))"

definition libfsxfs_attributes_get_value_data_stream ::
    "'s libfdata \<Rightarrow> io_handle \<Rightarrow> inode \<Rightarrow> attribute_values \<Rightarrow> 's result option" where
  "libfsxfs_attributes_get_value_data_stream lib io inode values =
     (if av_value_data_block_number values = 0 then
        Some (libfsxfs_data_stream_initialize_from_data lib (av_value_data values)
          (unat (av_value_data_size values)))
      else
        case libfsxfs_inode_get_number_of_attributes_extents inode of
          Inl e \<Rightarrow> Some (Inl e)
        | Inr number_of_extents \<Rightarrow>
            (case in_attributes_extents_array inode of
               None \<Rightarrow> Some (Inl Get_Failed)
             | Some extents \<Rightarrow>
                 let extent_index =
                   attributes_extent_index extents (ucast (av_value_data_block_number values)) 0 in
                 if extent_index \<ge> number_of_extents then Some (Inl Value_Out_Of_Bounds) else
                 if io_format_version io = 5 then Some (Inl Unsupported_Value) else
                 (case libfdata_stream_initialize lib Block_Data_Handle of
                    Inl e \<Rightarrow> Some (Inl e)
                  | Inr stream \<Rightarrow>
                      attribute_value_append_segments lib io inode (int extent_index)
                        (extents ! extent_index) stream (av_value_data_size values))))"

subsection \<open>The segments of a value\<close>

text \<open>The segments that the code appends for a value of \<open>n\<close> bytes and an extent of \<open>k\<close> bytes.\<close>

definition repeated_segments :: "io_handle \<Rightarrow> extent \<Rightarrow> nat \<Rightarrow> stream_segment list" where
  "repeated_segments io x n =
     (let k = unat (ex_number_of_blocks x) * unat (io_block_size io) in
      replicate (n div k) (extent_segment io x) @
      (if n mod k = 0 then [] else [(extent_segment io x)\<lparr> sg_size := word_of_nat (n mod k) \<rparr>]))"

lemma repeated_segments_step:
  assumes "0 < unat (ex_number_of_blocks x) * unat (io_block_size io)" and "0 < n"
  shows "repeated_segments io x n =
    (if n < unat (ex_number_of_blocks x) * unat (io_block_size io)
     then [(extent_segment io x)\<lparr> sg_size := word_of_nat n \<rparr>]
     else extent_segment io x # repeated_segments io x (n - unat (ex_number_of_blocks x) * unat (io_block_size io)))"
proof (cases "n < unat (ex_number_of_blocks x) * unat (io_block_size io)")
  case True
  then show ?thesis using assms by (simp add: repeated_segments_def Let_def)
next
  case False
  then show ?thesis
    using assms by (simp add: repeated_segments_def Let_def div_if [of n] mod_if [of n])
qed

lemma attribute_value_append_segments_repeat:
  assumes lib: "libfdata_records lib view"
    and bits: "unat (io_number_of_relative_block_number_bits io) < 31"
    and adr: "extent_addressable io x" and nz: "0 < unat (ex_number_of_blocks x) * unat (io_block_size io)"
    and get: "libfsxfs_inode_get_attributes_extent_by_index inode i = Inr x"
  shows "\<exists>s'. attribute_value_append_segments lib io inode i x s r = Some (Inr s') \<and>
    view s' = (view s)\<lparr> sr_segments := sr_segments (view s) @ repeated_segments io x (unat r) \<rparr>"
proof (induction "unat r" arbitrary: r s rule: less_induct)
  case less
  let ?k = "unat (ex_number_of_blocks x) * unat (io_block_size io)"
  let ?size = "ucast (ex_number_of_blocks x) * ucast (io_block_size io) :: u64"
  let ?seg = "if ?size > ucast r then ucast r else ?size"
  have off: "block_number_to_offset io (ex_physical_block_number x) = Inr (sg_offset (extent_segment io x))"
    by (rule extent_block_number_to_offset [OF bits adr])
  have k: "unat ?size = ?k" using extent_segment_size [of io x] by (simp add: extent_segment_def)
  show ?case
  proof (cases "r = 0")
    case True
    then show ?thesis
      by (subst attribute_value_append_segments.simps) (simp add: repeated_segments_def Let_def)
  next
    case False
    then have r: "0 < unat r" "0 < r" by (simp_all add: unat_gt_0 word_gt_0)
    have seg: "unat ?seg = (if unat r < ?k then unat r else ?k)"
      using k by (simp add: word_less_nat_alt)
    have so: "0 \<le> sint (sg_offset (extent_segment io x))" "0 \<le> sint ?seg"
      using adr unat_bounds(3) [of r] unfolding sint_u64_nonneg(1) seg extent_segment_offset [OF adr]
      by (simp_all add: extent_addressable_def)
    then obtain t where t: "libfdata_stream_append_segment lib s (sg_offset (extent_segment io x)) ?seg
          (ex_range_flags x) = Inr t"
      "view t = (view s)\<lparr> sr_segments := sr_segments (view s) @
        [\<lparr> sg_offset = sg_offset (extent_segment io x), sg_size = ?seg, sg_flags = ex_range_flags x \<rparr>] \<rparr>"
      using libfdata_append [OF lib, of _ ?seg s "ex_range_flags x"] by blast
    have u: "unat (ucast ?seg :: u32) = unat ?seg"
      using seg unat_bounds(3) [of r] by (intro unat_ucast_fits) auto
    have rem: "unat (r - ucast ?seg) = unat r - unat ?seg"
      using u seg by (subst unat_sub) (simp_all add: word_le_nat_alt)
    then have "unat (r - ucast ?seg) < unat r" using seg nz r(1) by simp
    from less.hyps [OF this, of t] obtain s' where
      s': "attribute_value_append_segments lib io inode i x t (r - ucast ?seg) = Some (Inr s')"
      "view s' = (view t)\<lparr> sr_segments := sr_segments (view t) @ repeated_segments io x (unat (r - ucast ?seg)) \<rparr>"
      by blast
    have "attribute_value_append_segments lib io inode i x s r =
        attribute_value_append_segments lib io inode i x t (r - ucast ?seg)"
      using r off t(1) get
      by (subst attribute_value_append_segments.simps) (simp only: Let_def if_True bindE_Inr sum.case if_cancel)
    moreover have "[\<lparr> sg_offset = sg_offset (extent_segment io x), sg_size = ?seg, sg_flags = ex_range_flags x \<rparr>] @
        repeated_segments io x (unat (r - ucast ?seg)) = repeated_segments io x (unat r)"
    proof (cases "unat r < ?k")
      case True
      then have "?seg = word_of_nat (unat r)" using seg k by (simp add: word_unat_eq_iff unat_of_nat)
      then show ?thesis
        using True rem seg repeated_segments_step [OF nz r(1)]
        by (simp add: repeated_segments_def [of io x 0] extent_segment_def)
    next
      case False
      then show ?thesis
        using rem seg k repeated_segments_step [OF nz r(1)]
        by (simp add: extent_segment_def word_less_nat_alt)
    qed
    ultimately show ?thesis using s' t(2) by (intro exI [of _ s']) simp
  qed
qed

text \<open>
  C39: When the value of an attribute is in blocks, its stream is made of one extent only: the
  first segment of that extent is appended again and again until the size of the value is
  reached. A value that is longer than the extent is read as repetitions of the blocks of the
  extent, and a value that starts in the middle of the extent is read from its first block.
\<close>

theorem attribute_value_stream_repeats_extent:
  assumes "libfdata_records lib view"
    and "unat (io_number_of_relative_block_number_bits io) < 31"
    and "av_value_data_block_number vals \<noteq> 0" and "io_format_version io \<noteq> 5"
    and "in_attributes_extents_array inode = Some xs"
    and "i = attributes_extent_index xs (ucast (av_value_data_block_number vals)) 0" and "i < length xs"
    and "extent_addressable io (xs ! i)"
    and "0 < unat (ex_number_of_blocks (xs ! i)) * unat (io_block_size io)"
  shows "\<exists>s. libfsxfs_attributes_get_value_data_stream lib io inode vals = Some (Inr s) \<and>
    sr_handle (view s) = Block_Data_Handle \<and>
    sr_segments (view s) = repeated_segments io (xs ! i) (unat (av_value_data_size vals))"
proof -
  obtain s where s: "libfdata_stream_initialize lib Block_Data_Handle = Inr s"
    "view s = \<lparr> sr_handle = Block_Data_Handle, sr_segments = [], sr_mapped_size = None, sr_offset = 0 \<rparr>"
    using assms(1) unfolding libfdata_records_def by blast
  have get: "libfsxfs_inode_get_attributes_extent_by_index inode (int i) = Inr (xs ! i)"
    using assms(5,7) by (simp add: libfsxfs_inode_get_attributes_extent_by_index_def array_get_entry_by_index_def)
  obtain s' where "attribute_value_append_segments lib io inode (int i) (xs ! i) s (av_value_data_size vals) = Some (Inr s')"
    "view s' = (view s)\<lparr> sr_segments := sr_segments (view s) @ repeated_segments io (xs ! i) (unat (av_value_data_size vals)) \<rparr>"
    using attribute_value_append_segments_repeat [OF assms(1,2,8,9) get] by blast
  with s assms(3-7) show ?thesis
    by (intro exI [of _ s'])
      (simp add: libfsxfs_attributes_get_value_data_stream_def
        libfsxfs_inode_get_number_of_attributes_extents_def array_get_number_of_entries_def Let_def)
qed

text \<open>A value of 1200 bytes at attribute block 1: the second extent has one block of 512 bytes.\<close>

lemma attribute_value_stream_repeats_extent_witness:
  fixes io inode
  defines "io \<equiv> io_handle_zero\<lparr> io_format_version := 4, io_block_size := 512, io_allocation_group_size := 1000,
      io_number_of_relative_block_number_bits := 10 \<rparr>"
    and "inode \<equiv> inode_zero\<lparr> in_attributes_extents_array := Some
      [\<lparr> ex_logical_block_number = 0, ex_physical_block_number = 3, ex_number_of_blocks = 1, ex_range_flags = 0 \<rparr>,
       \<lparr> ex_logical_block_number = 1, ex_physical_block_number = 7, ex_number_of_blocks = 1, ex_range_flags = 0 \<rparr>,
       \<lparr> ex_logical_block_number = 2, ex_physical_block_number = 20, ex_number_of_blocks = 2, ex_range_flags = 0 \<rparr>] \<rparr>"
  shows "\<exists>s. libfsxfs_attributes_get_value_data_stream recording_libfdata io inode
      (attribute_values_zero\<lparr> av_value_data_block_number := 1, av_value_data_size := 1200 \<rparr>) = Some (Inr s) \<and>
    sr_segments s =
      [\<lparr> sg_offset = 3584, sg_size = 512, sg_flags = 0 \<rparr>, \<lparr> sg_offset = 3584, sg_size = 512, sg_flags = 0 \<rparr>,
       \<lparr> sg_offset = 3584, sg_size = 176, sg_flags = 0 \<rparr>]"
proof -
  let ?xs = "the (in_attributes_extents_array inode)"
  have i: "attributes_extent_index ?xs 1 0 = 1" by (simp add: inode_def extent_end_def)
  let ?v = "attribute_values_zero\<lparr> av_value_data_block_number := 1, av_value_data_size := 1200 \<rparr>"
  have "\<exists>s. libfsxfs_attributes_get_value_data_stream recording_libfdata io inode ?v = Some (Inr s) \<and>
    sr_handle s = Block_Data_Handle \<and> sr_segments s = repeated_segments io (?xs ! 1) (unat (av_value_data_size ?v))"
  proof (rule attribute_value_stream_repeats_extent [OF recording_libfdata_records])
    show "1 = attributes_extent_index ?xs (ucast (av_value_data_block_number ?v)) 0" using i by simp
    show "in_attributes_extents_array inode = Some ?xs" by (simp add: inode_def)
  qed (simp_all add: io_def inode_def io_handle_zero_def extent_addressable_def
      physical_block_def block_number_group_def block_number_relative_def)
  moreover have r2: "replicate 2 x = [x, x]" for x :: stream_segment by (simp add: eval_nat_numeral)
  have "repeated_segments io (?xs ! 1) 1200 =
      [\<lparr> sg_offset = 3584, sg_size = 512, sg_flags = 0 \<rparr>, \<lparr> sg_offset = 3584, sg_size = 512, sg_flags = 0 \<rparr>,
       \<lparr> sg_offset = 3584, sg_size = 176, sg_flags = 0 \<rparr>]"
    by (simp add: repeated_segments_def Let_def io_def inode_def io_handle_zero_def extent_segment_def
        physical_block_def block_number_group_def block_number_relative_def r2)
  ultimately show ?thesis by auto
qed

end
