(* ===== verification/Extended_Attribute.thy ===== *)
theory Extended_Attribute
  imports Attribute_Stream Directory_Table
begin

text \<open>
  An extended attribute as it is handed to a caller (\<open>libfsxfs_extended_attribute.c\<close>): the values
  of the attribute and the stream of its data, that is made when it is first used. The inode, the
  values and the handles belong to the file entry, so that an attribute is only valid as long as
  the file entry is.
\<close>

record 's extended_attribute =
  ea_io_handle :: io_handle
  ea_file_io_handle :: file_io
  ea_inode :: inode
  ea_attribute_values :: attribute_values
  ea_data_stream :: "'s option"

definition libfsxfs_extended_attribute_initialize ::
    "'s extended_attribute option \<Rightarrow> io_handle \<Rightarrow> file_io \<Rightarrow> inode \<Rightarrow> attribute_values
      \<Rightarrow> 's extended_attribute result" where
  "libfsxfs_extended_attribute_initialize pointer io fio inode attribute_values =
     (case pointer of
        Some _ \<Rightarrow> Inl Value_Already_Set
      | None \<Rightarrow> Inr \<lparr> ea_io_handle = io, ea_file_io_handle = fio, ea_inode = inode,
                       ea_attribute_values = attribute_values, ea_data_stream = None \<rparr>)"

subsection \<open>The name\<close>

text \<open>The name of an attribute includes the end of string character.\<close>

definition libfsxfs_attribute_values_get_utf8_name_size ::
    "(u8 list \<Rightarrow> nat result) \<Rightarrow> attribute_values \<Rightarrow> nat result" where
  "libfsxfs_attribute_values_get_utf8_name_size convert values = convert_name convert (av_name values)"

definition libfsxfs_attribute_values_get_utf8_name ::
    "(nat \<Rightarrow> u8 list \<Rightarrow> u8 list result) \<Rightarrow> attribute_values \<Rightarrow> nat \<Rightarrow> u8 list result" where
  "libfsxfs_attribute_values_get_utf8_name convert values utf8_string_size =
     convert_name (convert utf8_string_size) (av_name values)"

definition libfsxfs_attribute_values_get_utf16_name_size ::
    "(u8 list \<Rightarrow> nat result) \<Rightarrow> attribute_values \<Rightarrow> nat result" where
  "libfsxfs_attribute_values_get_utf16_name_size convert values = convert_name convert (av_name values)"

definition libfsxfs_attribute_values_get_utf16_name ::
    "(nat \<Rightarrow> u8 list \<Rightarrow> u16 list result) \<Rightarrow> attribute_values \<Rightarrow> nat \<Rightarrow> u16 list result" where
  "libfsxfs_attribute_values_get_utf16_name convert values utf16_string_size =
     convert_name (convert utf16_string_size) (av_name values)"

definition libfsxfs_extended_attribute_get_utf8_name_size ::
    "(u8 list \<Rightarrow> nat result) \<Rightarrow> 's extended_attribute \<Rightarrow> nat result" where
  "libfsxfs_extended_attribute_get_utf8_name_size convert attr =
     libfsxfs_attribute_values_get_utf8_name_size convert (ea_attribute_values attr)"

definition libfsxfs_extended_attribute_get_utf8_name ::
    "(nat \<Rightarrow> u8 list \<Rightarrow> u8 list result) \<Rightarrow> 's extended_attribute \<Rightarrow> nat \<Rightarrow> u8 list result" where
  "libfsxfs_extended_attribute_get_utf8_name convert attr utf8_string_size =
     libfsxfs_attribute_values_get_utf8_name convert (ea_attribute_values attr) utf8_string_size"

definition libfsxfs_extended_attribute_get_utf16_name_size ::
    "(u8 list \<Rightarrow> nat result) \<Rightarrow> 's extended_attribute \<Rightarrow> nat result" where
  "libfsxfs_extended_attribute_get_utf16_name_size convert attr =
     libfsxfs_attribute_values_get_utf16_name_size convert (ea_attribute_values attr)"

definition libfsxfs_extended_attribute_get_utf16_name ::
    "(nat \<Rightarrow> u8 list \<Rightarrow> u16 list result) \<Rightarrow> 's extended_attribute \<Rightarrow> nat \<Rightarrow> u16 list result" where
  "libfsxfs_extended_attribute_get_utf16_name convert attr utf16_string_size =
     libfsxfs_attribute_values_get_utf16_name convert (ea_attribute_values attr) utf16_string_size"

subsection \<open>The data\<close>

text \<open>
  \<open>None\<close> is the value of a call that does not return, because the stream of the value is never
  finished. A call returns the attribute as it is left together with its result.
\<close>

definition libfsxfs_internal_extended_attribute_get_data_stream ::
    "'s libfdata \<Rightarrow> 's extended_attribute \<Rightarrow> ('s extended_attribute \<times> unit result) option" where
  "libfsxfs_internal_extended_attribute_get_data_stream lib attr =
     (if ea_data_stream attr \<noteq> None then Some (attr, Inl Value_Already_Set) else
      case libfsxfs_attributes_get_value_data_stream lib (ea_io_handle attr) (ea_inode attr)
             (ea_attribute_values attr) of
        None \<Rightarrow> None
      | Some (Inl e) \<Rightarrow> Some (attr, Inl e)
      | Some (Inr stream) \<Rightarrow> Some (attr\<lparr> ea_data_stream := Some stream \<rparr>, Inr ()))"

text \<open>
  The operations on the data first make the stream if there is none. When there still is none
  after that, \<open>otherwise\<close> is what they return, but then the error was set already.
\<close>

definition with_attribute_stream ::
    "'s libfdata \<Rightarrow> ('s \<Rightarrow> 's \<times> 'r result) \<Rightarrow> 'r \<Rightarrow> 's extended_attribute
      \<Rightarrow> ('s extended_attribute \<times> 'r result) option" where
  "with_attribute_stream lib operation otherwise attr =
     (case (if ea_data_stream attr = None
            then libfsxfs_internal_extended_attribute_get_data_stream lib attr
            else Some (attr, Inr ())) of
        None \<Rightarrow> None
      | Some (attr, r) \<Rightarrow>
          (case ea_data_stream attr of
             None \<Rightarrow> Some (attr, case r of Inl e \<Rightarrow> Inl e | Inr _ \<Rightarrow> Inr otherwise)
           | Some stream \<Rightarrow>
               (case operation stream of (stream, result) \<Rightarrow>
                  Some (attr\<lparr> ea_data_stream := Some stream \<rparr>, result))))"

definition libfsxfs_extended_attribute_read_buffer ::
    "'s libfdata \<Rightarrow> 's extended_attribute \<Rightarrow> nat \<Rightarrow> ('s extended_attribute \<times> u8 list result) option" where
  "libfsxfs_extended_attribute_read_buffer lib attr buffer_size =
     with_attribute_stream lib
       (\<lambda>stream. libfdata_stream_read_buffer lib stream (ea_file_io_handle attr) buffer_size) [] attr"

definition libfsxfs_extended_attribute_read_buffer_at_offset ::
    "'s libfdata \<Rightarrow> 's extended_attribute \<Rightarrow> nat \<Rightarrow> u64 \<Rightarrow> ('s extended_attribute \<times> u8 list result) option" where
  "libfsxfs_extended_attribute_read_buffer_at_offset lib attr buffer_size offset =
     with_attribute_stream lib
       (\<lambda>stream. libfdata_stream_read_buffer_at_offset lib stream (ea_file_io_handle attr) buffer_size offset)
       [] attr"

definition libfsxfs_extended_attribute_seek_offset ::
    "'s libfdata \<Rightarrow> 's extended_attribute \<Rightarrow> u64 \<Rightarrow> int \<Rightarrow> ('s extended_attribute \<times> u64 result) option" where
  "libfsxfs_extended_attribute_seek_offset lib attr offset whence =
     with_attribute_stream lib (\<lambda>stream. libfdata_stream_seek_offset lib stream offset whence) offset attr"

definition libfsxfs_extended_attribute_get_offset ::
    "'s libfdata \<Rightarrow> 's extended_attribute \<Rightarrow> ('s extended_attribute \<times> u64 result) option" where
  "libfsxfs_extended_attribute_get_offset lib attr =
     with_attribute_stream lib (\<lambda>stream. (stream, libfdata_stream_get_offset lib stream)) 0 attr"

definition libfsxfs_extended_attribute_get_size :: "'s extended_attribute \<Rightarrow> u64" where
  "libfsxfs_extended_attribute_get_size attr = ucast (av_value_data_size (ea_attribute_values attr))"

definition libfsxfs_extended_attribute_get_number_of_extents :: "'s extended_attribute \<Rightarrow> nat result" where
  "libfsxfs_extended_attribute_get_number_of_extents attr =
     libfsxfs_inode_get_number_of_attributes_extents (ea_inode attr)"

definition libfsxfs_extended_attribute_get_extent_by_index ::
    "'s extended_attribute \<Rightarrow> int \<Rightarrow> (u64 \<times> u64 \<times> u32) result" where
  "libfsxfs_extended_attribute_get_extent_by_index attr extent_index =
     bindE (libfsxfs_inode_get_attributes_extent_by_index (ea_inode attr) extent_index) (\<lambda>extent.
     libfsxfs_extent_get_values extent (ea_io_handle attr))"

lemma with_attribute_stream_made:
  assumes "with_attribute_stream lib f d attr = Some (attr', r)" and "ea_data_stream attr \<noteq> None \<or> (\<exists>x. r = Inr x)"
  shows "\<exists>s. (ea_data_stream attr = Some s \<or> ea_data_stream attr = None \<and>
      libfsxfs_attributes_get_value_data_stream lib (ea_io_handle attr) (ea_inode attr) (ea_attribute_values attr) = Some (Inr s)) \<and>
    attr' = attr\<lparr> ea_data_stream := Some (fst (f s)) \<rparr> \<and> r = snd (f s)"
  using assms
  by (auto simp: with_attribute_stream_def libfsxfs_internal_extended_attribute_get_data_stream_def
      split: option.splits sum.splits prod.splits if_splits)

end
