(* ===== verification/Stream_Reading.thy ===== *)
theory Stream_Reading
  imports Data_Stream
begin

text \<open>
  Reading a stream: what the \<open>libfdata\<close> library is relied on for when it reads, and what a stream
  of the blocks of a file, or of the bytes of a buffer, then contains.
\<close>

subsection \<open>The library\<close>

text \<open>
  A read at an offset delivers the bytes of the handle one after the other, as many as were asked
  for or are left, when the handle delivers all of them, and moves the offset behind them.
\<close>

definition libfdata_reads :: "'s libfdata \<Rightarrow> ('s \<Rightarrow> stream_record) \<Rightarrow> bool" where
  "libfdata_reads lib view \<longleftrightarrow>
     (\<forall>s fio n off bs. 0 \<le> sint off \<and> stream_bytes fio (view s) (unat off) n = Some bs \<longrightarrow>
        (\<exists>s'. libfdata_stream_read_buffer_at_offset lib s fio n off = (s', Inr bs) \<and>
           view s' = (view s)\<lparr> sr_offset := unat off + length bs \<rparr>))"

lemma stream_offset_irrelevant [simp]:
  "stream_byte fio (s\<lparr> sr_offset := k \<rparr>) = stream_byte fio s"
  "stream_size (s\<lparr> sr_offset := k \<rparr>) = stream_size s"
  "stream_bytes fio (s\<lparr> sr_offset := k \<rparr>) = stream_bytes fio s"
proof -
  show b: "stream_byte fio (s\<lparr> sr_offset := k \<rparr>) = stream_byte fio s"
    by (rule ext) (simp add: stream_byte_def split: option.split)
  show "stream_size (s\<lparr> sr_offset := k \<rparr>) = stream_size s"
    by (simp add: stream_size_def split: option.split)
  then show "stream_bytes fio (s\<lparr> sr_offset := k \<rparr>) = stream_bytes fio s"
    by (intro ext) (simp add: stream_bytes_def b)
qed

lemma recording_libfdata_reads: "libfdata_reads recording_libfdata (\<lambda>s. s)"
  by (simp add: libfdata_reads_def recording_libfdata_def recording_read_def)

lemma those_map_Some: "(\<And>x. x \<in> set xs \<Longrightarrow> f x = Some (g x)) \<Longrightarrow> those (map f xs) = Some (map g xs)"
  by (induction xs) simp_all

subsection \<open>The bytes of a file\<close>

text \<open>
  The contents of a file system image and the byte of a file at a position: 0 in a hole, otherwise
  the byte of the block that the extent has for it.
\<close>

definition disk_io :: "u8 list \<Rightarrow> file_io" where
  "disk_io disk off n = Some (take n (drop (unat off) disk))"

definition extent_has_block :: "nat \<Rightarrow> extent \<Rightarrow> bool" where
  "extent_has_block b x \<longleftrightarrow> unat (ex_logical_block_number x) \<le> b \<and>
     b < unat (ex_logical_block_number x) + unat (ex_number_of_blocks x)"

definition extent_byte :: "io_handle \<Rightarrow> u8 list \<Rightarrow> nat \<Rightarrow> extent \<Rightarrow> u8" where
  "extent_byte io disk p x =
     (if extent_is_sparse x then 0 else
      disk ! ((physical_block io (ex_physical_block_number x) +
          (p div unat (io_block_size io) - unat (ex_logical_block_number x))) * unat (io_block_size io)
        + p mod unat (io_block_size io)))"

definition file_byte :: "io_handle \<Rightarrow> u8 list \<Rightarrow> extent list \<Rightarrow> nat \<Rightarrow> u8" where
  "file_byte io disk xs p =
     (case find (extent_has_block (p div unat (io_block_size io))) xs of
        None \<Rightarrow> 0
      | Some x \<Rightarrow> extent_byte io disk p x)"

text \<open>The blocks of an extent that is not a hole lie inside the disk.\<close>

definition extent_in_disk :: "io_handle \<Rightarrow> u8 list \<Rightarrow> extent \<Rightarrow> bool" where
  "extent_in_disk io disk x \<longleftrightarrow> extent_is_sparse x \<or>
     (physical_block io (ex_physical_block_number x) + unat (ex_number_of_blocks x)) * unat (io_block_size io) \<le> length disk"

lemma extents_cover_nonempty_tail:
  "extents_cover s xs e \<Longrightarrow> x \<in> set xs \<Longrightarrow> s \<le> unat (ex_logical_block_number x)"
  by (induction xs arbitrary: s) fastforce+

text \<open>With extents that cover the blocks in order only one extent has a block.\<close>

lemma find_extent_has_block:
  "extents_cover s xs e \<Longrightarrow> x \<in> set xs \<Longrightarrow> extent_has_block b x \<Longrightarrow> find (extent_has_block b) xs = Some x"
proof (induction xs arbitrary: s)
  case (Cons y ys)
  have c: "extents_cover (s + unat (ex_number_of_blocks y)) ys e" "s = unat (ex_logical_block_number y)"
    using Cons.prems(1) by auto
  show ?case
  proof (cases "x = y")
    case False
    then have x: "x \<in> set ys" using Cons.prems(2) by simp
    then have "\<not> extent_has_block b y"
      using extents_cover_nonempty_tail [OF c(1) x] Cons.prems(3) c(2) by (auto simp: extent_has_block_def)
    with Cons.IH [OF c(1) x Cons.prems(3)] show ?thesis by simp
  qed (use Cons.prems(3) in simp)
qed simp

lemma handle_byte_block:
  assumes "p < length disk" and "p < 2 ^ 64"
  shows "handle_byte Block_Data_Handle (disk_io disk) (word_of_nat p) flags =
    Inr [if flags AND 1 \<noteq> 0 then 0 else disk ! p]"
  using assms
  by (simp add: handle_byte_def libfsxfs_block_data_handle_read_segment_data_def disk_io_def unat_of_nat
      take_Suc_conv_app_nth hd_drop_conv_nth [symmetric])

lemma stream_byte_extents:
  assumes "extents_cover 0 xs e" and "\<forall>x \<in> set xs. extent_addressable io x \<and> extent_in_disk io disk x"
    and "0 < unat (io_block_size io)" and "p < e * unat (io_block_size io)"
    and "sr_handle r = Block_Data_Handle" and "sr_segments r = map (extent_segment io) xs"
  shows "stream_byte (disk_io disk) r p = Some (file_byte io disk xs p)"
proof -
  let ?bs = "unat (io_block_size io)"
  have "p < (e - 0) * ?bs" using assms(4) by simp
  from stream_locate_extents [OF assms(1) _ assms(3) this] assms(2)
  obtain x where x: "x \<in> set xs" "extent_has_block (p div ?bs) x"
    and l: "stream_locate (sr_segments r) p =
      Some ((physical_block io (ex_physical_block_number x) + (p div ?bs - unat (ex_logical_block_number x))) * ?bs
        + p mod ?bs, ex_range_flags x)" (is "_ = Some (?q, _)")
    by (auto simp: extent_has_block_def assms(6))
  have f: "file_byte io disk xs p = extent_byte io disk p x"
    using find_extent_has_block [OF assms(1) x] by (simp add: file_byte_def)
  show ?thesis
  proof (cases "extent_is_sparse x")
    case True
    then show ?thesis
      by (simp add: stream_byte_def l f assms(5) handle_byte_def extent_is_sparse_def LIBFSXFS_EXTENT_FLAG_IS_SPARSE_def extent_byte_def
          libfsxfs_block_data_handle_read_segment_data_def)
  next
    case False
    let ?n = "unat (ex_number_of_blocks x)" and ?b = "physical_block io (ex_physical_block_number x)"
    have "p div ?bs - unat (ex_logical_block_number x) < ?n" using x(2) by (auto simp: extent_has_block_def)
    moreover have "p mod ?bs < ?bs" using assms(3) by simp
    ultimately have "?q < (?b + ?n) * ?bs"
      using mult_le_mono1 [of "?b + (p div ?bs - unat (ex_logical_block_number x)) + 1" "?b + ?n" ?bs]
      by (simp add: algebra_simps)
    moreover have "extent_addressable io x" "extent_in_disk io disk x" using assms(2) x(1) by simp_all
    ultimately have "?q < length disk" "?q < 2 ^ 64"
      using False by (auto simp: extent_in_disk_def extent_addressable_def algebra_simps)
    then show ?thesis
      using False
      by (simp add: stream_byte_def l f assms(5) handle_byte_block extent_byte_def extent_is_sparse_def
          LIBFSXFS_EXTENT_FLAG_IS_SPARSE_def del: of_nat_add of_nat_mult)
  qed
qed

lemma stream_bytes_extents:
  assumes "extents_cover 0 xs e" and "\<forall>x \<in> set xs. extent_addressable io x \<and> extent_in_disk io disk x"
    and "0 < unat (io_block_size io)" and "unat data_size \<le> e * unat (io_block_size io)"
    and "sr_handle r = Block_Data_Handle" and "sr_segments r = map (extent_segment io) xs"
    and "sr_mapped_size r = Some data_size"
  shows "stream_bytes (disk_io disk) r off n =
    Some (map (file_byte io disk xs) [off..<min (off + n) (unat data_size)])"
  using assms
  by (auto simp: stream_bytes_def stream_size_def intro!: those_map_Some stream_byte_extents)

subsection \<open>The bytes of a buffer\<close>

lemma stream_bytes_buffer:
  assumes "libfsxfs_buffer_data_handle_initialize None (Some data) sz = Inr h" and "sz \<le> length data"
    and "sr_handle r = Buffer_Data_Handle h"
    and "sr_segments r = [\<lparr> sg_offset = 0, sg_size = word_of_nat sz, sg_flags = 0 \<rparr>]" and "sr_mapped_size r = None"
  shows "stream_bytes fio r off n = Some (take n (drop off (take sz data)))"
proof -
  have h: "h = \<lparr> bdh_current_offset = 0, bdh_data = Some data, bdh_data_size = sz \<rparr>" "sz < 2 ^ 63"
    using assms(1) by (auto simp: libfsxfs_buffer_data_handle_initialize_def split: if_splits)
  have u: "unat (word_of_nat sz :: u64) = sz" using h(2) by (simp add: unat_of_nat)
  have b: "stream_byte fio r p = Some (data ! p)" if "p < sz" for p
  proof -
    have p: "sint (word_of_nat p :: u64) = int p" "unat (word_of_nat p :: u64) = p"
      using that h(2) sint_u64_nonneg [of "word_of_nat p"] by (simp_all add: unat_of_nat)
    have "take 1 (drop p data) = [data ! p]"
      using that assms(2) by (simp add: take_Suc_conv_app_nth hd_drop_conv_nth [symmetric] drop_eq_Nil)
    moreover have "(if Suc 0 < sz - p then Suc 0 else sz - p) = Suc 0" using that by auto
    ultimately show ?thesis
      using that assms(2) h
      by (simp add: stream_byte_def assms(3,4) handle_byte_def u p libfsxfs_buffer_data_handle_seek_segment_offset_def
          libfsxfs_buffer_data_handle_read_segment_data_def get_bytes_def Let_def)
  qed
  have "stream_bytes fio r off n = Some (map ((!) data) [off..<min (off + n) sz])"
    using b by (auto simp: stream_bytes_def stream_size_def assms(4,5) u intro!: those_map_Some)
  also have "map ((!) data) [off..<min (off + n) sz] = take n (drop off (take sz data))"
    using assms(2) by (intro nth_equalityI) (auto simp: min_def split: if_splits)
  finally show ?thesis .
qed

end
