(* ===== verification/File_Entry.thy ===== *)
theory File_Entry
  imports File_System Extended_Attribute Stream_Reading
begin

text \<open>
  The file entry (\<open>libfsxfs_file_entry.c\<close>): an inode with the name it was found by. What takes
  reading, the directory, the extended attributes and the target of a symbolic link, is determined
  when it is first asked for and kept. An operation returns the file entry as it is left.
\<close>

subsection \<open>The state\<close>

text \<open>
  The inode belongs to the file entry; the handles and the file system belong to the volume, so
  that a file entry is only valid as long as the volume is open. The symbolic link data has its
  size with it.
\<close>

record 's file_entry =
  fe_io_handle :: io_handle
  fe_file_io_handle :: file_io
  fe_file_system :: file_system
  fe_inode_number :: u64
  fe_inode :: inode
  fe_directory_entry :: "directory_entry option"
  fe_extended_attributes_array :: "attribute_values list option"
  fe_directory :: "directory option"
  fe_data_size :: u64
  fe_data_stream :: "'s option"
  fe_symbolic_link_data :: "u8 list option"

abbreviation (input) LIBFSXFS_FILE_TYPE_REGULAR_FILE :: u16 where
  "LIBFSXFS_FILE_TYPE_REGULAR_FILE \<equiv> 0x8000"

abbreviation (input) LIBFSXFS_FILE_TYPE_SYMBOLIC_LINK :: u16 where
  "LIBFSXFS_FILE_TYPE_SYMBOLIC_LINK \<equiv> 0xa000"

definition file_type :: "inode \<Rightarrow> u16" where
  "file_type inode = in_file_mode inode AND 0xf000"

definition libfsxfs_file_entry_initialize ::
    "'s libfdata \<Rightarrow> 's file_entry option \<Rightarrow> io_handle \<Rightarrow> file_io \<Rightarrow> file_system \<Rightarrow> u64 \<Rightarrow> inode
      \<Rightarrow> directory_entry option \<Rightarrow> 's file_entry result" where
  "libfsxfs_file_entry_initialize lib pointer io fio fs inode_number inode directory_entry =
     (case pointer of Some _ \<Rightarrow> Inl Value_Already_Set | None \<Rightarrow>
      bindE
        (if file_type inode = LIBFSXFS_FILE_TYPE_REGULAR_FILE \<or>
            file_type inode = LIBFSXFS_FILE_TYPE_SYMBOLIC_LINK
         then let data_size = libfsxfs_inode_get_data_size inode in
              bindE (libfsxfs_data_stream_initialize lib io inode data_size) (\<lambda>data_stream.
              Inr (data_size, Some data_stream))
         else Inr (0, None)) (\<lambda>(data_size, data_stream).
      Inr \<lparr> fe_io_handle = io, fe_file_io_handle = fio, fe_file_system = fs,
            fe_inode_number = inode_number, fe_inode = inode, fe_directory_entry = directory_entry,
            fe_extended_attributes_array = None, fe_directory = None, fe_data_size = data_size,
            fe_data_stream = data_stream, fe_symbolic_link_data = None \<rparr>))"

subsection \<open>What is determined on demand\<close>

text \<open>\<open>None\<close> is the value of a call that does not return, because reading the directory does not.\<close>

definition libfsxfs_internal_file_entry_get_directory ::
    "'s file_entry \<Rightarrow> ('s file_entry \<times> unit result) option" where
  "libfsxfs_internal_file_entry_get_directory entry =
     (if fe_directory entry \<noteq> None then Some (entry, Inl Value_Already_Set) else
      if file_type (fe_inode entry) = LIBFSXFS_FILE_TYPE_DIRECTORY then
        (case libfsxfs_directory_initialize None of
           Inl e \<Rightarrow> Some (entry, Inl e)
         | Inr directory \<Rightarrow>
             (case libfsxfs_directory_read_file_io_handle directory (fe_io_handle entry)
                     (fe_file_io_handle entry) (fe_inode entry) of
                None \<Rightarrow> None
              | Some (Inl e) \<Rightarrow> Some (entry, Inl e)
              | Some (Inr directory) \<Rightarrow> Some (entry\<lparr> fe_directory := Some directory \<rparr>, Inr ())))
      else Some (entry, Inr ()))"

definition libfsxfs_internal_file_entry_get_symbolic_link_data ::
    "'s libfdata \<Rightarrow> 's file_entry \<Rightarrow> 's file_entry \<times> unit result" where
  "libfsxfs_internal_file_entry_get_symbolic_link_data lib entry =
     (if fe_symbolic_link_data entry \<noteq> None then (entry, Inl Value_Already_Set) else
      if file_type (fe_inode entry) = LIBFSXFS_FILE_TYPE_SYMBOLIC_LINK then
        if fe_data_size entry = 0 \<or> unat (fe_data_size entry) > MEMORY_MAXIMUM_ALLOCATION_SIZE
        then (entry, Inl Value_Out_Of_Bounds) else
        (case fe_data_stream entry of
           None \<Rightarrow> (entry, Inl Invalid_Value)
         | Some stream \<Rightarrow>
             (case libfdata_stream_read_buffer_at_offset lib stream (fe_file_io_handle entry)
                     (unat (fe_data_size entry)) 0 of
                (stream, r) \<Rightarrow>
                  let entry = entry\<lparr> fe_data_stream := Some stream \<rparr> in
                  (case r of
                     Inl e \<Rightarrow> (entry, Inl e)
                   | Inr data \<Rightarrow>
                       if length data \<noteq> unat (fe_data_size entry) then (entry, Inl Read_Failed)
                       else (entry\<lparr> fe_symbolic_link_data := Some data \<rparr>, Inr ()))))
      else (entry, Inr ()))"

definition libfsxfs_internal_file_entry_get_extended_attributes ::
    "'s file_entry \<Rightarrow> 's file_entry \<times> unit result" where
  "libfsxfs_internal_file_entry_get_extended_attributes entry =
     (if fe_extended_attributes_array entry \<noteq> None then (entry, Inl Value_Already_Set) else
      case libfsxfs_attributes_get_from_inode (fe_io_handle entry) (fe_file_io_handle entry)
             (fe_inode entry) [] of
        Inl e \<Rightarrow> (entry, Inl e)
      | Inr attributes \<Rightarrow> (entry\<lparr> fe_extended_attributes_array := Some attributes \<rparr>, Inr ()))"

text \<open>The operations determine the value first when they do not have it yet.\<close>

definition file_entry_directory :: "'s file_entry \<Rightarrow> ('s file_entry \<times> unit result) option" where
  "file_entry_directory entry =
     (if fe_directory entry = None then libfsxfs_internal_file_entry_get_directory entry
      else Some (entry, Inr ()))"

definition file_entry_symbolic_link_data ::
    "'s libfdata \<Rightarrow> 's file_entry \<Rightarrow> 's file_entry \<times> unit result" where
  "file_entry_symbolic_link_data lib entry =
     (if fe_symbolic_link_data entry = None
      then libfsxfs_internal_file_entry_get_symbolic_link_data lib entry else (entry, Inr ()))"

definition file_entry_extended_attributes :: "'s file_entry \<Rightarrow> 's file_entry \<times> unit result" where
  "file_entry_extended_attributes entry =
     (if fe_extended_attributes_array entry = None
      then libfsxfs_internal_file_entry_get_extended_attributes entry else (entry, Inr ()))"

subsection \<open>The values of the inode\<close>

text \<open>\<open>None\<close> stands for the return value 0, the inode has no such value.\<close>

definition libfsxfs_file_entry_get_inode_number :: "'s file_entry \<Rightarrow> u64" where
  "libfsxfs_file_entry_get_inode_number entry = fe_inode_number entry"

definition libfsxfs_file_entry_get_creation_time :: "'s file_entry \<Rightarrow> u64 option" where
  "libfsxfs_file_entry_get_creation_time entry = libfsxfs_inode_get_creation_time (fe_inode entry)"

definition libfsxfs_file_entry_get_modification_time :: "'s file_entry \<Rightarrow> u64" where
  "libfsxfs_file_entry_get_modification_time entry =
     libfsxfs_inode_get_modification_time (fe_inode entry)"

definition libfsxfs_file_entry_get_access_time :: "'s file_entry \<Rightarrow> u64" where
  "libfsxfs_file_entry_get_access_time entry =
     libfsxfs_inode_get_access_time (fe_inode entry)"

definition libfsxfs_file_entry_get_inode_change_time :: "'s file_entry \<Rightarrow> u64" where
  "libfsxfs_file_entry_get_inode_change_time entry =
     libfsxfs_inode_get_inode_change_time (fe_inode entry)"

definition libfsxfs_file_entry_get_file_mode :: "'s file_entry \<Rightarrow> u16" where
  "libfsxfs_file_entry_get_file_mode entry =
     libfsxfs_inode_get_file_mode (fe_inode entry)"

definition libfsxfs_file_entry_get_number_of_links :: "'s file_entry \<Rightarrow> u32" where
  "libfsxfs_file_entry_get_number_of_links entry =
     libfsxfs_inode_get_number_of_links (fe_inode entry)"

definition libfsxfs_file_entry_get_owner_identifier :: "'s file_entry \<Rightarrow> u32" where
  "libfsxfs_file_entry_get_owner_identifier entry =
     libfsxfs_inode_get_owner_identifier (fe_inode entry)"

definition libfsxfs_file_entry_get_group_identifier :: "'s file_entry \<Rightarrow> u32" where
  "libfsxfs_file_entry_get_group_identifier entry =
     libfsxfs_inode_get_group_identifier (fe_inode entry)"

definition libfsxfs_file_entry_get_device_identifier :: "'s file_entry \<Rightarrow> u32 option" where
  "libfsxfs_file_entry_get_device_identifier entry =
     libfsxfs_inode_get_device_identifier (fe_inode entry)"

definition libfsxfs_file_entry_get_device_number :: "'s file_entry \<Rightarrow> (u32 \<times> u32) option" where
  "libfsxfs_file_entry_get_device_number entry = libfsxfs_inode_get_device_number (fe_inode entry)"

subsection \<open>Names and targets\<close>

text \<open>
  The file entry of the root directory has no name: the return value is 0, \<open>None\<close>. So it is for
  the target of a file entry that is no symbolic link.
\<close>

definition file_entry_name :: "(directory_entry \<Rightarrow> 'r result) \<Rightarrow> 's file_entry \<Rightarrow> 'r option result" where
  "file_entry_name get entry =
     (case fe_directory_entry entry of
        None \<Rightarrow> Inr None
      | Some directory_entry \<Rightarrow> bindE (get directory_entry) (\<lambda>r. Inr (Some r)))"

definition libfsxfs_file_entry_get_utf8_name_size ::
    "(u8 list \<Rightarrow> nat result) \<Rightarrow> 's file_entry \<Rightarrow> nat option result" where
  "libfsxfs_file_entry_get_utf8_name_size convert entry =
     file_entry_name (libfsxfs_directory_entry_get_utf8_name_size convert) entry"

definition libfsxfs_file_entry_get_utf8_name ::
    "(nat \<Rightarrow> u8 list \<Rightarrow> u8 list result) \<Rightarrow> 's file_entry \<Rightarrow> nat \<Rightarrow> u8 list option result" where
  "libfsxfs_file_entry_get_utf8_name convert entry utf8_string_size =
     file_entry_name (\<lambda>d. libfsxfs_directory_entry_get_utf8_name convert d utf8_string_size) entry"

definition libfsxfs_file_entry_get_utf16_name_size ::
    "(u8 list \<Rightarrow> nat result) \<Rightarrow> 's file_entry \<Rightarrow> nat option result" where
  "libfsxfs_file_entry_get_utf16_name_size convert entry =
     file_entry_name (libfsxfs_directory_entry_get_utf16_name_size convert) entry"

definition libfsxfs_file_entry_get_utf16_name ::
    "(nat \<Rightarrow> u8 list \<Rightarrow> u16 list result) \<Rightarrow> 's file_entry \<Rightarrow> nat \<Rightarrow> u16 list option result" where
  "libfsxfs_file_entry_get_utf16_name convert entry utf16_string_size =
     file_entry_name (\<lambda>d. libfsxfs_directory_entry_get_utf16_name convert d utf16_string_size) entry"

definition file_entry_symbolic_link_target ::
    "'s libfdata \<Rightarrow> (u8 list \<Rightarrow> 'r result) \<Rightarrow> 's file_entry \<Rightarrow> 's file_entry \<times> 'r option result" where
  "file_entry_symbolic_link_target lib convert entry =
     (case file_entry_symbolic_link_data lib entry of
        (entry, Inl e) \<Rightarrow> (entry, Inl e)
      | (entry, Inr _) \<Rightarrow>
          (entry, case fe_symbolic_link_data entry of
             None \<Rightarrow> Inr None
           | Some data \<Rightarrow> bindE (convert_name convert (Some data)) (\<lambda>r. Inr (Some r))))"

definition libfsxfs_file_entry_get_utf8_symbolic_link_target_size ::
    "'s libfdata \<Rightarrow> (u8 list \<Rightarrow> nat result) \<Rightarrow> 's file_entry \<Rightarrow> 's file_entry \<times> nat option result" where
  "libfsxfs_file_entry_get_utf8_symbolic_link_target_size lib convert entry =
     file_entry_symbolic_link_target lib convert entry"

definition libfsxfs_file_entry_get_utf8_symbolic_link_target ::
    "'s libfdata \<Rightarrow> (nat \<Rightarrow> u8 list \<Rightarrow> u8 list result) \<Rightarrow> 's file_entry \<Rightarrow> nat
      \<Rightarrow> 's file_entry \<times> u8 list option result" where
  "libfsxfs_file_entry_get_utf8_symbolic_link_target lib convert entry utf8_string_size =
     file_entry_symbolic_link_target lib (convert utf8_string_size) entry"

definition libfsxfs_file_entry_get_utf16_symbolic_link_target_size ::
    "'s libfdata \<Rightarrow> (u8 list \<Rightarrow> nat result) \<Rightarrow> 's file_entry \<Rightarrow> 's file_entry \<times> nat option result" where
  "libfsxfs_file_entry_get_utf16_symbolic_link_target_size lib convert entry =
     file_entry_symbolic_link_target lib convert entry"

definition libfsxfs_file_entry_get_utf16_symbolic_link_target ::
    "'s libfdata \<Rightarrow> (nat \<Rightarrow> u8 list \<Rightarrow> u16 list result) \<Rightarrow> 's file_entry \<Rightarrow> nat
      \<Rightarrow> 's file_entry \<times> u16 list option result" where
  "libfsxfs_file_entry_get_utf16_symbolic_link_target lib convert entry utf16_string_size =
     file_entry_symbolic_link_target lib (convert utf16_string_size) entry"

subsection \<open>Extended attributes\<close>

definition libfsxfs_file_entry_get_number_of_extended_attributes ::
    "'s file_entry \<Rightarrow> 's file_entry \<times> nat result" where
  "libfsxfs_file_entry_get_number_of_extended_attributes entry =
     (case file_entry_extended_attributes entry of
        (entry, Inl e) \<Rightarrow> (entry, Inl e)
      | (entry, Inr _) \<Rightarrow> (entry, array_get_number_of_entries (fe_extended_attributes_array entry)))"

definition file_entry_extended_attribute ::
    "'s file_entry \<Rightarrow> attribute_values \<Rightarrow> 's extended_attribute result" where
  "file_entry_extended_attribute entry attribute_values =
     libfsxfs_extended_attribute_initialize None (fe_io_handle entry) (fe_file_io_handle entry)
       (fe_inode entry) attribute_values"

definition libfsxfs_file_entry_get_extended_attribute_by_index ::
    "'s file_entry \<Rightarrow> int \<Rightarrow> 's file_entry \<times> 's extended_attribute result" where
  "libfsxfs_file_entry_get_extended_attribute_by_index entry extended_attribute_index =
     (case file_entry_extended_attributes entry of
        (entry, Inl e) \<Rightarrow> (entry, Inl e)
      | (entry, Inr _) \<Rightarrow>
          (entry,
           bindE (array_get_entry_by_index (fe_extended_attributes_array entry) extended_attribute_index)
             (\<lambda>attribute_values. file_entry_extended_attribute entry attribute_values)))"

text \<open>The loops over the values; \<open>None\<close> stands for the return value 0, no such attribute.\<close>

fun attribute_values_find :: "(attribute_values \<Rightarrow> comparison result) \<Rightarrow> attribute_values list \<Rightarrow>
    attribute_values option result" where
  "attribute_values_find compare [] = Inr None"
| "attribute_values_find compare (attribute_values # attributes) =
     bindE (compare attribute_values) (\<lambda>result.
     if result = Compare_Equal then Inr (Some attribute_values)
     else attribute_values_find compare attributes)"

definition file_entry_find_attribute_values ::
    "(attribute_values \<Rightarrow> comparison result) \<Rightarrow> 's file_entry \<Rightarrow> 's file_entry \<times> attribute_values option result" where
  "file_entry_find_attribute_values compare entry =
     (case file_entry_extended_attributes entry of
        (entry, Inl e) \<Rightarrow> (entry, Inl e)
      | (entry, Inr _) \<Rightarrow>
          (entry, case fe_extended_attributes_array entry of
             None \<Rightarrow> Inl Get_Failed
           | Some attributes \<Rightarrow> attribute_values_find compare attributes))"

definition libfsxfs_internal_file_entry_get_attribute_values_by_utf8_name ::
    "u8 name_compare \<Rightarrow> 's file_entry \<Rightarrow> u8 list \<Rightarrow> 's file_entry \<times> attribute_values option result" where
  "libfsxfs_internal_file_entry_get_attribute_values_by_utf8_name compare entry utf8_string =
     file_entry_find_attribute_values
       (\<lambda>v. libfsxfs_attribute_values_compare_name_with_utf8_string compare v utf8_string) entry"

definition libfsxfs_file_entry_has_extended_attribute_by_utf8_name ::
    "u8 name_compare \<Rightarrow> 's file_entry \<Rightarrow> u8 list \<Rightarrow> 's file_entry \<times> bool result" where
  "libfsxfs_file_entry_has_extended_attribute_by_utf8_name compare entry utf8_string =
     (case libfsxfs_internal_file_entry_get_attribute_values_by_utf8_name compare entry utf8_string of
        (entry, r) \<Rightarrow> (entry, bindE r (\<lambda>attribute_values. Inr (attribute_values \<noteq> None))))"

definition libfsxfs_file_entry_get_extended_attribute_by_utf8_name ::
    "u8 name_compare \<Rightarrow> 's file_entry \<Rightarrow> u8 list \<Rightarrow> 's file_entry \<times> 's extended_attribute option result" where
  "libfsxfs_file_entry_get_extended_attribute_by_utf8_name compare entry utf8_string =
     (case libfsxfs_internal_file_entry_get_attribute_values_by_utf8_name compare entry utf8_string of
        (entry, r) \<Rightarrow>
          (entry, bindE r (\<lambda>attribute_values.
             case attribute_values of
               None \<Rightarrow> Inr None
             | Some attribute_values \<Rightarrow>
                 bindE (file_entry_extended_attribute entry attribute_values) (\<lambda>attr. Inr (Some attr)))))"

definition libfsxfs_internal_file_entry_get_attribute_values_by_utf16_name ::
    "u16 name_compare \<Rightarrow> 's file_entry \<Rightarrow> u16 list \<Rightarrow> 's file_entry \<times> attribute_values option result" where
  "libfsxfs_internal_file_entry_get_attribute_values_by_utf16_name compare entry utf16_string =
     file_entry_find_attribute_values
       (\<lambda>v. libfsxfs_attribute_values_compare_name_with_utf16_string compare v utf16_string) entry"

definition libfsxfs_file_entry_has_extended_attribute_by_utf16_name ::
    "u16 name_compare \<Rightarrow> 's file_entry \<Rightarrow> u16 list \<Rightarrow> 's file_entry \<times> bool result" where
  "libfsxfs_file_entry_has_extended_attribute_by_utf16_name compare entry utf16_string =
     (case libfsxfs_internal_file_entry_get_attribute_values_by_utf16_name compare entry utf16_string of
        (entry, r) \<Rightarrow> (entry, bindE r (\<lambda>attribute_values. Inr (attribute_values \<noteq> None))))"

definition libfsxfs_file_entry_get_extended_attribute_by_utf16_name ::
    "u16 name_compare \<Rightarrow> 's file_entry \<Rightarrow> u16 list \<Rightarrow> 's file_entry \<times> 's extended_attribute option result" where
  "libfsxfs_file_entry_get_extended_attribute_by_utf16_name compare entry utf16_string =
     (case libfsxfs_internal_file_entry_get_attribute_values_by_utf16_name compare entry utf16_string of
        (entry, r) \<Rightarrow>
          (entry, bindE r (\<lambda>attribute_values.
             case attribute_values of
               None \<Rightarrow> Inr None
             | Some attribute_values \<Rightarrow>
                 bindE (file_entry_extended_attribute entry attribute_values) (\<lambda>attr. Inr (Some attr)))))"

subsection \<open>Sub file entries\<close>

text \<open>
  For a file entry that is no directory the number is not written although the return value is 1:
  this is \<open>None\<close>. The lookups by name are not implemented, they fail after their checks.
\<close>

definition libfsxfs_file_entry_get_number_of_sub_file_entries ::
    "'s file_entry \<Rightarrow> ('s file_entry \<times> nat option result) option" where
  "libfsxfs_file_entry_get_number_of_sub_file_entries entry =
     (case file_entry_directory entry of
        None \<Rightarrow> None
      | Some (entry, Inl e) \<Rightarrow> Some (entry, Inl e)
      | Some (entry, Inr _) \<Rightarrow>
          Some (entry, case fe_directory entry of
             None \<Rightarrow> Inr None
           | Some directory \<Rightarrow>
               bindE (libfsxfs_directory_get_number_of_entries directory) (\<lambda>n. Inr (Some n))))"

definition file_entry_sub_file_entry ::
    "'s libfdata \<Rightarrow> 's file_entry \<Rightarrow> int \<Rightarrow> 's file_entry result" where
  "file_entry_sub_file_entry lib entry sub_file_entry_index =
     (case fe_directory entry of
        None \<Rightarrow> Inl Invalid_Value
      | Some directory \<Rightarrow>
          bindE (libfsxfs_directory_get_entry_by_index directory sub_file_entry_index)
            (\<lambda>sub_directory_entry.
          bindE (get_existing_inode (fe_file_system entry) (fe_io_handle entry)
                   (fe_file_io_handle entry) (de_inode_number sub_directory_entry)) (\<lambda>inode.
          bindE (libfsxfs_directory_entry_clone None (Some sub_directory_entry)) (\<lambda>safe_directory_entry.
          libfsxfs_file_entry_initialize lib None (fe_io_handle entry) (fe_file_io_handle entry)
            (fe_file_system entry) (de_inode_number sub_directory_entry) inode safe_directory_entry))))"

definition libfsxfs_file_entry_get_sub_file_entry_by_index ::
    "'s libfdata \<Rightarrow> 's file_entry \<Rightarrow> int \<Rightarrow> ('s file_entry \<times> 's file_entry result) option" where
  "libfsxfs_file_entry_get_sub_file_entry_by_index lib entry sub_file_entry_index =
     (case file_entry_directory entry of
        None \<Rightarrow> None
      | Some (entry, Inl e) \<Rightarrow> Some (entry, Inl e)
      | Some (entry, Inr _) \<Rightarrow>
          Some (entry, file_entry_sub_file_entry lib entry sub_file_entry_index))"

definition libfsxfs_file_entry_get_sub_file_entry_by_utf8_name ::
    "'s file_entry \<Rightarrow> u8 list \<Rightarrow> 's file_entry option result" where
  "libfsxfs_file_entry_get_sub_file_entry_by_utf8_name entry utf8_string = Inl Generic"

definition libfsxfs_file_entry_get_sub_file_entry_by_utf16_name ::
    "'s file_entry \<Rightarrow> u16 list \<Rightarrow> 's file_entry option result" where
  "libfsxfs_file_entry_get_sub_file_entry_by_utf16_name entry utf16_string = Inl Generic"

subsection \<open>The data\<close>

text \<open>
  Only a regular file has data that can be read. Without a stream, which a regular file always
  has, the library refuses the call.
\<close>

definition with_file_entry_stream ::
    "('s \<Rightarrow> 's \<times> 'r result) \<Rightarrow> 's file_entry \<Rightarrow> 's file_entry \<times> 'r result" where
  "with_file_entry_stream operation entry =
     (if file_type (fe_inode entry) \<noteq> LIBFSXFS_FILE_TYPE_REGULAR_FILE then (entry, Inl Unsupported_Value) else
      case fe_data_stream entry of
        None \<Rightarrow> (entry, Inl Invalid_Value)
      | Some stream \<Rightarrow>
          (case operation stream of (stream, result) \<Rightarrow>
             (entry\<lparr> fe_data_stream := Some stream \<rparr>, result)))"

definition libfsxfs_file_entry_read_buffer ::
    "'s libfdata \<Rightarrow> 's file_entry \<Rightarrow> nat \<Rightarrow> 's file_entry \<times> u8 list result" where
  "libfsxfs_file_entry_read_buffer lib entry buffer_size =
     with_file_entry_stream
       (\<lambda>stream. libfdata_stream_read_buffer lib stream (fe_file_io_handle entry) buffer_size) entry"

definition libfsxfs_file_entry_read_buffer_at_offset ::
    "'s libfdata \<Rightarrow> 's file_entry \<Rightarrow> nat \<Rightarrow> u64 \<Rightarrow> 's file_entry \<times> u8 list result" where
  "libfsxfs_file_entry_read_buffer_at_offset lib entry buffer_size offset =
     with_file_entry_stream
       (\<lambda>stream. libfdata_stream_read_buffer_at_offset lib stream (fe_file_io_handle entry) buffer_size offset) entry"

definition libfsxfs_file_entry_seek_offset ::
    "'s libfdata \<Rightarrow> 's file_entry \<Rightarrow> u64 \<Rightarrow> int \<Rightarrow> 's file_entry \<times> u64 result" where
  "libfsxfs_file_entry_seek_offset lib entry offset whence =
     with_file_entry_stream (\<lambda>stream. libfdata_stream_seek_offset lib stream offset whence) entry"

definition libfsxfs_file_entry_get_offset ::
    "'s libfdata \<Rightarrow> 's file_entry \<Rightarrow> 's file_entry \<times> u64 result" where
  "libfsxfs_file_entry_get_offset lib entry =
     with_file_entry_stream (\<lambda>stream. (stream, libfdata_stream_get_offset lib stream)) entry"

definition libfsxfs_file_entry_get_size :: "'s file_entry \<Rightarrow> u64" where
  "libfsxfs_file_entry_get_size entry = fe_data_size entry"

definition libfsxfs_file_entry_get_number_of_extents :: "'s file_entry \<Rightarrow> nat result" where
  "libfsxfs_file_entry_get_number_of_extents entry =
     libfsxfs_inode_get_number_of_data_extents (fe_inode entry)"

definition libfsxfs_file_entry_get_extent_by_index ::
    "'s file_entry \<Rightarrow> int \<Rightarrow> (u64 \<times> u64 \<times> u32) result" where
  "libfsxfs_file_entry_get_extent_by_index entry extent_index =
     bindE (libfsxfs_inode_get_data_extent_by_index (fe_inode entry) extent_index) (\<lambda>extent.
     libfsxfs_extent_get_values extent (fe_io_handle entry))"

end
