(* ===== verification/Volume_Entries.thy ===== *)
theory Volume_Entries
  imports Volume File_Entry
begin

text \<open>
  What an open volume answers (\<open>libfsxfs_volume.c\<close>): its label, and the file entries of its root
  directory, of an inode number and of a path.
\<close>

subsection \<open>Values\<close>

definition libfsxfs_volume_get_format_version :: "'h volume \<Rightarrow> u8" where
  "libfsxfs_volume_get_format_version volume = word_of_int (io_format_version (vol_io_handle volume))"

definition volume_superblock_value :: "(superblock \<Rightarrow> 'r result) \<Rightarrow> 'h volume \<Rightarrow> 'r result" where
  "volume_superblock_value get volume =
     (case vol_superblock volume of None \<Rightarrow> Inl Value_Missing | Some sb \<Rightarrow> get sb)"

definition libfsxfs_volume_get_utf8_label_size ::
    "(u8 list \<Rightarrow> nat result) \<Rightarrow> 'h volume \<Rightarrow> nat result" where
  "libfsxfs_volume_get_utf8_label_size convert volume =
     volume_superblock_value (libfsxfs_superblock_get_utf8_volume_label_size convert) volume"

definition libfsxfs_volume_get_utf8_label ::
    "(nat \<Rightarrow> u8 list \<Rightarrow> u8 list result) \<Rightarrow> 'h volume \<Rightarrow> nat \<Rightarrow> u8 list result" where
  "libfsxfs_volume_get_utf8_label convert volume utf8_string_size =
     volume_superblock_value (\<lambda>sb. libfsxfs_superblock_get_utf8_volume_label convert sb utf8_string_size) volume"

definition libfsxfs_volume_get_utf16_label_size ::
    "(u8 list \<Rightarrow> nat result) \<Rightarrow> 'h volume \<Rightarrow> nat result" where
  "libfsxfs_volume_get_utf16_label_size convert volume =
     volume_superblock_value (libfsxfs_superblock_get_utf16_volume_label_size convert) volume"

definition libfsxfs_volume_get_utf16_label ::
    "(nat \<Rightarrow> u8 list \<Rightarrow> u16 list result) \<Rightarrow> 'h volume \<Rightarrow> nat \<Rightarrow> u16 list result" where
  "libfsxfs_volume_get_utf16_label convert volume utf16_string_size =
     volume_superblock_value (\<lambda>sb. libfsxfs_superblock_get_utf16_volume_label convert sb utf16_string_size) volume"

subsection \<open>File entries\<close>

text \<open>
  The file system and the reading of the file; without them, on a volume that is closed, the file
  system refuses the call.
\<close>

definition volume_sources :: "'h libbfio \<Rightarrow> 'h volume \<Rightarrow> (file_system \<times> file_io) result" where
  "volume_sources bf volume =
     (case vol_file_system volume of
        None \<Rightarrow> Inl Invalid_Value
      | Some fs \<Rightarrow>
          (case vol_file_io_handle volume of
             None \<Rightarrow> Inl Invalid_Value
           | Some h \<Rightarrow> Inr (fs, libbfio_handle_read bf h)))"

definition libfsxfs_volume_get_root_directory ::
    "'h libbfio \<Rightarrow> 's libfdata \<Rightarrow> 'h volume \<Rightarrow> 's file_entry result" where
  "libfsxfs_volume_get_root_directory bf lib volume =
     (case vol_superblock volume of
        None \<Rightarrow> Inl Value_Missing
      | Some sb \<Rightarrow>
          bindE (volume_sources bf volume) (\<lambda>(fs, fio).
          bindE (get_existing_inode fs (vol_io_handle volume) fio (sb_root_directory_inode_number sb)) (\<lambda>inode.
          libfsxfs_file_entry_initialize lib None (vol_io_handle volume) fio fs
            (sb_root_directory_inode_number sb) inode None)))"

definition libfsxfs_internal_volume_get_file_entry_by_inode ::
    "'h libbfio \<Rightarrow> 's libfdata \<Rightarrow> 'h volume \<Rightarrow> u64 \<Rightarrow> 's file_entry result" where
  "libfsxfs_internal_volume_get_file_entry_by_inode bf lib volume inode_number =
     bindE (volume_sources bf volume) (\<lambda>(fs, fio).
     bindE (get_existing_inode fs (vol_io_handle volume) fio inode_number) (\<lambda>inode.
     libfsxfs_file_entry_initialize lib None (vol_io_handle volume) fio fs inode_number inode None))"

definition libfsxfs_volume_get_file_entry_by_inode ::
    "'h libbfio \<Rightarrow> 's libfdata \<Rightarrow> 'h volume \<Rightarrow> u64 \<Rightarrow> 's file_entry result" where
  "libfsxfs_volume_get_file_entry_by_inode bf lib volume inode_number =
     libfsxfs_internal_volume_get_file_entry_by_inode bf lib volume inode_number"

text \<open>
  The lookup of a path: \<open>Some (Inr None)\<close> stands for the return value 0, there is no such entry,
  and \<open>None\<close> for no return.
\<close>

definition volume_file_entry_of_path ::
    "'h libbfio \<Rightarrow> 's libfdata \<Rightarrow> 'h volume \<Rightarrow> (file_system \<Rightarrow> io_handle \<Rightarrow> file_io \<Rightarrow> path_result)
      \<Rightarrow> 's file_entry option result option" where
  "volume_file_entry_of_path bf lib volume get =
     (case volume_sources bf volume of
        Inl e \<Rightarrow> Some (Inl e)
      | Inr (fs, fio) \<Rightarrow>
          (case get fs (vol_io_handle volume) fio of
             None \<Rightarrow> None
           | Some r \<Rightarrow>
               Some (bindE r (\<lambda>found.
                 case found of
                   None \<Rightarrow> Inr None
                 | Some (inode_number, inode, directory_entry) \<Rightarrow>
                     bindE (libfsxfs_file_entry_initialize lib None (vol_io_handle volume) fio fs
                              inode_number inode directory_entry) (\<lambda>file_entry.
                     Inr (Some file_entry))))))"

definition libfsxfs_internal_volume_get_file_entry_by_utf8_path ::
    "'h libbfio \<Rightarrow> 's libfdata \<Rightarrow> u8 name_compare \<Rightarrow> u8 unicode_copy \<Rightarrow> 'h volume \<Rightarrow> u8 list
      \<Rightarrow> 's file_entry option result option" where
  "libfsxfs_internal_volume_get_file_entry_by_utf8_path bf lib compare copy volume utf8_string =
     volume_file_entry_of_path bf lib volume (\<lambda>fs io fio.
       libfsxfs_file_system_get_directory_entry_by_utf8_path compare copy fs io fio utf8_string)"

definition libfsxfs_volume_get_file_entry_by_utf8_path ::
    "'h libbfio \<Rightarrow> 's libfdata \<Rightarrow> u8 name_compare \<Rightarrow> u8 unicode_copy \<Rightarrow> 'h volume \<Rightarrow> u8 list
      \<Rightarrow> 's file_entry option result option" where
  "libfsxfs_volume_get_file_entry_by_utf8_path bf lib compare copy volume utf8_string =
     libfsxfs_internal_volume_get_file_entry_by_utf8_path bf lib compare copy volume utf8_string"

definition libfsxfs_internal_volume_get_file_entry_by_utf16_path ::
    "'h libbfio \<Rightarrow> 's libfdata \<Rightarrow> u16 name_compare \<Rightarrow> u16 unicode_copy \<Rightarrow> 'h volume \<Rightarrow> u16 list
      \<Rightarrow> 's file_entry option result option" where
  "libfsxfs_internal_volume_get_file_entry_by_utf16_path bf lib compare copy volume utf16_string =
     volume_file_entry_of_path bf lib volume (\<lambda>fs io fio.
       libfsxfs_file_system_get_directory_entry_by_utf16_path compare copy fs io fio utf16_string)"

definition libfsxfs_volume_get_file_entry_by_utf16_path ::
    "'h libbfio \<Rightarrow> 's libfdata \<Rightarrow> u16 name_compare \<Rightarrow> u16 unicode_copy \<Rightarrow> 'h volume \<Rightarrow> u16 list
      \<Rightarrow> 's file_entry option result option" where
  "libfsxfs_volume_get_file_entry_by_utf16_path bf lib compare copy volume utf16_string =
     libfsxfs_internal_volume_get_file_entry_by_utf16_path bf lib compare copy volume utf16_string"

end
