(* ===== verification/File_Entry_States.thy ===== *)
theory File_Entry_States
  imports File_Entry
begin

text \<open>
  What the operations of a file entry keep: the values that are determined on demand are those of
  the inode, so that no answer depends on what was asked before.
\<close>

subsection \<open>The states of a file entry\<close>

text \<open>
  Every operation that leaves the file entry in another state: the listing of a directory, the
  target of a symbolic link, the extended attributes and the reading of the data.
\<close>

inductive file_entry_step :: "'s libfdata \<Rightarrow> 's file_entry \<Rightarrow> 's file_entry \<Rightarrow> bool" for lib where
  number_of_sub_file_entries:
    "libfsxfs_file_entry_get_number_of_sub_file_entries e = Some (e', n) \<Longrightarrow> file_entry_step lib e e'"
| sub_file_entry_by_index:
    "libfsxfs_file_entry_get_sub_file_entry_by_index lib e i = Some (e', s) \<Longrightarrow> file_entry_step lib e e'"
| symbolic_link_target_size:
    "libfsxfs_file_entry_get_utf8_symbolic_link_target_size lib convert e = (e', sz) \<Longrightarrow> file_entry_step lib e e'"
| utf8_symbolic_link_target:
    "libfsxfs_file_entry_get_utf8_symbolic_link_target lib copy8 e n = (e', t8) \<Longrightarrow> file_entry_step lib e e'"
| utf16_symbolic_link_target_size:
    "libfsxfs_file_entry_get_utf16_symbolic_link_target_size lib convert e = (e', sz) \<Longrightarrow> file_entry_step lib e e'"
| utf16_symbolic_link_target:
    "libfsxfs_file_entry_get_utf16_symbolic_link_target lib copy16 e n = (e', t16) \<Longrightarrow> file_entry_step lib e e'"
| number_of_extended_attributes:
    "libfsxfs_file_entry_get_number_of_extended_attributes e = (e', n') \<Longrightarrow> file_entry_step lib e e'"
| extended_attribute_by_index:
    "libfsxfs_file_entry_get_extended_attribute_by_index e i = (e', a) \<Longrightarrow> file_entry_step lib e e'"
| has_extended_attribute_by_utf8_name:
    "libfsxfs_file_entry_has_extended_attribute_by_utf8_name compare8 e s8 = (e', b) \<Longrightarrow> file_entry_step lib e e'"
| has_extended_attribute_by_utf16_name:
    "libfsxfs_file_entry_has_extended_attribute_by_utf16_name compare16 e s16 = (e', b) \<Longrightarrow> file_entry_step lib e e'"
| extended_attribute_by_utf8_name:
    "libfsxfs_file_entry_get_extended_attribute_by_utf8_name compare8 e s8 = (e', ao) \<Longrightarrow> file_entry_step lib e e'"
| extended_attribute_by_utf16_name:
    "libfsxfs_file_entry_get_extended_attribute_by_utf16_name compare16 e s16 = (e', ao) \<Longrightarrow> file_entry_step lib e e'"
| read_buffer: "libfsxfs_file_entry_read_buffer lib e n = (e', r) \<Longrightarrow> file_entry_step lib e e'"
| read_buffer_at_offset:
    "libfsxfs_file_entry_read_buffer_at_offset lib e n off = (e', r) \<Longrightarrow> file_entry_step lib e e'"
| seek_offset: "libfsxfs_file_entry_seek_offset lib e off whence = (e', o') \<Longrightarrow> file_entry_step lib e e'"
| get_offset: "libfsxfs_file_entry_get_offset lib e = (e', o') \<Longrightarrow> file_entry_step lib e e'"

inductive file_entry_reachable :: "'s libfdata \<Rightarrow> 's file_entry \<Rightarrow> 's file_entry \<Rightarrow> bool" for lib e0 where
  start: "file_entry_reachable lib e0 e0"
| step: "file_entry_reachable lib e0 e \<Longrightarrow> file_entry_step lib e e' \<Longrightarrow> file_entry_reachable lib e0 e'"

text \<open>The file entry without what is determined on demand and without the stream.\<close>

definition file_entry_fixed :: "'s file_entry \<Rightarrow> 's file_entry" where
  "file_entry_fixed e = e\<lparr> fe_extended_attributes_array := None, fe_directory := None,
     fe_data_stream := None, fe_symbolic_link_data := None \<rparr>"

text \<open>The directory and the extended attributes that the inode has; no directory is \<open>Some (Inr None)\<close>.\<close>

definition directory_of :: "'s file_entry \<Rightarrow> directory option result option" where
  "directory_of e =
     (if file_type (fe_inode e) = LIBFSXFS_FILE_TYPE_DIRECTORY then
        (case libfsxfs_directory_read_file_io_handle \<lparr> dir_entries_array = [] \<rparr> (fe_io_handle e)
                (fe_file_io_handle e) (fe_inode e) of
           None \<Rightarrow> None
         | Some (Inl x) \<Rightarrow> Some (Inl x)
         | Some (Inr d) \<Rightarrow> Some (Inr (Some d)))
      else Some (Inr None))"

definition attributes_of :: "'s file_entry \<Rightarrow> attribute_values list result" where
  "attributes_of e = libfsxfs_attributes_get_from_inode (fe_io_handle e) (fe_file_io_handle e) (fe_inode e) []"

text \<open>What a file entry keeps is what the inode has.\<close>

definition file_entry_consistent :: "'s file_entry \<Rightarrow> 's file_entry \<Rightarrow> bool" where
  "file_entry_consistent e0 e \<longleftrightarrow>
     file_entry_fixed e = file_entry_fixed e0 \<and>
     (fe_data_stream e = None \<longleftrightarrow> fe_data_stream e0 = None) \<and>
     (fe_directory e = None \<or> directory_of e0 = Some (Inr (fe_directory e))) \<and>
     (\<forall>xs. fe_extended_attributes_array e = Some xs \<longrightarrow> attributes_of e0 = Inr xs) \<and>
     (\<forall>data. fe_symbolic_link_data e = Some data \<longrightarrow>
        file_type (fe_inode e0) = LIBFSXFS_FILE_TYPE_SYMBOLIC_LINK \<and> length data = unat (fe_data_size e0))"

lemma file_entry_fixed_fields:
  "fe_io_handle (file_entry_fixed e) = fe_io_handle e" "fe_file_io_handle (file_entry_fixed e) = fe_file_io_handle e"
  "fe_file_system (file_entry_fixed e) = fe_file_system e" "fe_inode (file_entry_fixed e) = fe_inode e"
  "fe_data_size (file_entry_fixed e) = fe_data_size e" "fe_directory (file_entry_fixed e) = None"
  "fe_extended_attributes_array (file_entry_fixed e) = None"
  by (simp_all add: file_entry_fixed_def)

lemma file_entry_fixed_eqD:
  assumes "file_entry_fixed e = file_entry_fixed e0"
  shows "fe_io_handle e = fe_io_handle e0" "fe_file_io_handle e = fe_file_io_handle e0"
    "fe_file_system e = fe_file_system e0" "fe_inode e = fe_inode e0" "fe_data_size e = fe_data_size e0"
  using arg_cong [OF assms, of fe_io_handle] arg_cong [OF assms, of fe_file_io_handle]
    arg_cong [OF assms, of fe_file_system] arg_cong [OF assms, of fe_inode] arg_cong [OF assms, of fe_data_size]
  by (simp_all add: file_entry_fixed_fields)

lemma file_entry_fixed_updates [simp]:
  "file_entry_fixed (e\<lparr> fe_directory := d \<rparr>) = file_entry_fixed e"
  "file_entry_fixed (e\<lparr> fe_extended_attributes_array := a \<rparr>) = file_entry_fixed e"
  "file_entry_fixed (e\<lparr> fe_data_stream := s \<rparr>) = file_entry_fixed e"
  "file_entry_fixed (e\<lparr> fe_symbolic_link_data := l \<rparr>) = file_entry_fixed e"
  by (simp_all add: file_entry_fixed_def)

lemma file_entry_directory_answer:
  assumes "file_entry_consistent e0 e"
  shows "file_entry_directory e =
    (case directory_of e0 of
       None \<Rightarrow> None
     | Some (Inl x) \<Rightarrow> Some (e, Inl x)
     | Some (Inr d) \<Rightarrow> Some (e\<lparr> fe_directory := d \<rparr>, Inr ()))"
proof -
  have f: "file_entry_fixed e = file_entry_fixed e0" using assms by (simp add: file_entry_consistent_def)
  note f = file_entry_fixed_eqD [OF f]
  show ?thesis
  proof (cases "fe_directory e")
    case None
    then have "e\<lparr> fe_directory := None \<rparr> = e" by simp
    then show ?thesis
      using None
      by (simp add: file_entry_directory_def libfsxfs_internal_file_entry_get_directory_def directory_of_def f
          libfsxfs_directory_initialize_def split: option.split sum.split)
  next
    case (Some d)
    then have "directory_of e0 = Some (Inr (Some d))" "e\<lparr> fe_directory := Some d \<rparr> = e"
      using assms by (simp_all add: file_entry_consistent_def)
    then show ?thesis using Some by (simp add: file_entry_directory_def)
  qed
qed

lemma file_entry_attributes_answer:
  assumes "file_entry_consistent e0 e"
  shows "file_entry_extended_attributes e =
    (case attributes_of e0 of
       Inl x \<Rightarrow> (e, Inl x)
     | Inr xs \<Rightarrow> (e\<lparr> fe_extended_attributes_array := Some xs \<rparr>, Inr ()))"
proof -
  have f: "file_entry_fixed e = file_entry_fixed e0" using assms by (simp add: file_entry_consistent_def)
  note f = file_entry_fixed_eqD [OF f]
  show ?thesis
  proof (cases "fe_extended_attributes_array e")
    case None
    then show ?thesis
      by (simp add: file_entry_extended_attributes_def libfsxfs_internal_file_entry_get_extended_attributes_def
          attributes_of_def f)
  next
    case (Some xs)
    then have "attributes_of e0 = Inr xs" "e\<lparr> fe_extended_attributes_array := Some xs \<rparr> = e"
      using assms by (simp_all add: file_entry_consistent_def)
    then show ?thesis using Some by (simp add: file_entry_extended_attributes_def)
  qed
qed

subsection \<open>The operations keep it\<close>

named_theorems file_entry_keeps \<open>operations of a file entry that keep its consistency\<close>

lemma file_entry_directory_keeps [file_entry_keeps]:
  assumes "file_entry_consistent e0 e" and "file_entry_directory e = Some (e', r)"
  shows "file_entry_consistent e0 e'"
  using assms file_entry_directory_answer [OF assms(1)]
  by (auto simp: file_entry_consistent_def split: option.split_asm sum.split_asm)

lemma file_entry_extended_attributes_keeps [file_entry_keeps]:
  assumes "file_entry_consistent e0 e" and "file_entry_extended_attributes e = (e', r)"
  shows "file_entry_consistent e0 e'"
  using assms file_entry_attributes_answer [OF assms(1)]
  by (auto simp: file_entry_consistent_def split: sum.split_asm)

lemma with_file_entry_stream_keeps [file_entry_keeps]:
  "file_entry_consistent e0 e \<Longrightarrow> with_file_entry_stream f e = (e', r) \<Longrightarrow> file_entry_consistent e0 e'"
  by (auto simp: with_file_entry_stream_def file_entry_consistent_def
      split: if_split_asm option.split_asm prod.split_asm)

lemma file_entry_symbolic_link_data_keeps [file_entry_keeps]:
  assumes "file_entry_consistent e0 e" and "file_entry_symbolic_link_data lib e = (e', r)"
  shows "file_entry_consistent e0 e'"
proof -
  have f: "file_entry_fixed e = file_entry_fixed e0" using assms by (simp add: file_entry_consistent_def)
  show ?thesis
    using assms file_entry_fixed_eqD(4,5) [OF f]
    by (auto simp: file_entry_symbolic_link_data_def libfsxfs_internal_file_entry_get_symbolic_link_data_def
        file_entry_consistent_def Let_def split: if_split_asm option.split_asm prod.split_asm sum.split_asm)
qed

lemma file_entry_symbolic_link_target_keeps [file_entry_keeps]:
  "file_entry_consistent e0 e \<Longrightarrow> file_entry_symbolic_link_target lib convert e = (e', r) \<Longrightarrow>
     file_entry_consistent e0 e'"
  by (auto simp: file_entry_symbolic_link_target_def dest: file_entry_symbolic_link_data_keeps
      split: prod.split_asm sum.split_asm)

lemma file_entry_find_attribute_values_keeps [file_entry_keeps]:
  "file_entry_consistent e0 e \<Longrightarrow> file_entry_find_attribute_values compare e = (e', r) \<Longrightarrow>
     file_entry_consistent e0 e'"
  by (auto simp: file_entry_find_attribute_values_def dest: file_entry_extended_attributes_keeps
      split: prod.split_asm sum.split_asm)

lemmas file_entry_operations =
  libfsxfs_file_entry_get_number_of_sub_file_entries_def libfsxfs_file_entry_get_sub_file_entry_by_index_def
  libfsxfs_file_entry_get_utf8_symbolic_link_target_size_def libfsxfs_file_entry_get_utf8_symbolic_link_target_def
  libfsxfs_file_entry_get_utf16_symbolic_link_target_size_def libfsxfs_file_entry_get_utf16_symbolic_link_target_def
  libfsxfs_file_entry_get_number_of_extended_attributes_def libfsxfs_file_entry_get_extended_attribute_by_index_def
  libfsxfs_file_entry_has_extended_attribute_by_utf8_name_def libfsxfs_file_entry_has_extended_attribute_by_utf16_name_def
  libfsxfs_file_entry_get_extended_attribute_by_utf8_name_def libfsxfs_file_entry_get_extended_attribute_by_utf16_name_def
  libfsxfs_internal_file_entry_get_attribute_values_by_utf8_name_def
  libfsxfs_internal_file_entry_get_attribute_values_by_utf16_name_def
  libfsxfs_file_entry_read_buffer_def libfsxfs_file_entry_read_buffer_at_offset_def
  libfsxfs_file_entry_seek_offset_def libfsxfs_file_entry_get_offset_def

lemma file_entry_step_consistent:
  "file_entry_step lib e e' \<Longrightarrow> file_entry_consistent e0 e \<Longrightarrow> file_entry_consistent e0 e'"
  by (induction rule: file_entry_step.induct)
    (auto simp: file_entry_operations dest: file_entry_keeps
      split: option.split_asm prod.split_asm sum.split_asm)

lemma file_entry_reachable_consistent:
  assumes "libfsxfs_file_entry_initialize lib None io fio fs n inode d = Inr e0" and "file_entry_reachable lib e0 e"
  shows "file_entry_consistent e0 e"
  using assms(2)
proof induction
  case start
  show ?case
    using assms(1) by (auto simp: libfsxfs_file_entry_initialize_def file_entry_consistent_def Let_def
        split: if_split_asm sum.split_asm)
next
  case (step e e')
  then show ?case by (blast intro: file_entry_step_consistent)
qed

text \<open>
  C33: What a file entry answers does not depend on what was asked before: in every state that it
  reaches by listing, reading, seeking and looking up in any order, with success or not, it gives
  the answers that it gave at first for the sub file entries and the extended attributes.
\<close>

theorem file_entry_answers_stable:
  assumes "libfsxfs_file_entry_initialize lib None io fio fs n inode d = Inr e0" and "file_entry_reachable lib e0 e"
  shows "map_option snd (libfsxfs_file_entry_get_number_of_sub_file_entries e) =
      map_option snd (libfsxfs_file_entry_get_number_of_sub_file_entries e0) \<and>
    map_option snd (libfsxfs_file_entry_get_sub_file_entry_by_index lib e i) =
      map_option snd (libfsxfs_file_entry_get_sub_file_entry_by_index lib e0 i) \<and>
    snd (libfsxfs_file_entry_get_number_of_extended_attributes e) =
      snd (libfsxfs_file_entry_get_number_of_extended_attributes e0) \<and>
    snd (libfsxfs_file_entry_get_extended_attribute_by_utf8_name compare e s) =
      snd (libfsxfs_file_entry_get_extended_attribute_by_utf8_name compare e0 s)"
proof -
  have c: "file_entry_consistent e0 e" "file_entry_consistent e0 e0"
    using file_entry_reachable_consistent [OF assms(1)] assms(2) file_entry_reachable.start by blast+
  have "file_entry_fixed e = file_entry_fixed e0" using c(1) by (simp add: file_entry_consistent_def)
  note f = file_entry_fixed_eqD [OF this]
  show ?thesis
    by (auto simp: file_entry_operations file_entry_directory_answer [OF c(1)] file_entry_directory_answer [OF c(2)]
        file_entry_attributes_answer [OF c(1)] file_entry_attributes_answer [OF c(2)] f
        file_entry_find_attribute_values_def file_entry_sub_file_entry_def file_entry_extended_attribute_def
        split: option.split sum.split)
qed

text \<open>The file entry of the root directory of the example.\<close>

lemma example_file_entry:
  "\<exists>inode e0. get_existing_inode example_file_system example_path_io example_path_file 0x41 = Inr inode \<and>
     libfsxfs_file_entry_initialize recording_libfdata None example_path_io example_path_file
       example_file_system 0x41 inode None = Inr e0 \<and>
     directory_of e0 = Some (Inr (Some
       \<lparr> dir_entries_array = [\<lparr> de_inode_number = 0x42, de_name = [0x61], de_name_size = 1 \<rparr>] \<rparr>)) \<and>
     file_entry_consistent e0 e0 \<and> fe_file_system e0 = example_file_system \<and> fe_directory e0 = None \<and>
     fe_data_size e0 = 0"
proof -
  obtain inode where inode: "get_existing_inode example_file_system example_path_io example_path_file 0x41 = Inr inode"
    "in_file_mode inode = 0x41ed"
    using example_root_inode by blast
  let ?e = "\<lparr> fe_io_handle = example_path_io, fe_file_io_handle = example_path_file,
      fe_file_system = example_file_system, fe_inode_number = 0x41, fe_inode = inode, fe_directory_entry = None,
      fe_extended_attributes_array = None, fe_directory = None, fe_data_size = 0,
      fe_data_stream = None, fe_symbolic_link_data = None \<rparr> :: stream_record file_entry"
  have i: "libfsxfs_file_entry_initialize recording_libfdata None example_path_io example_path_file
       example_file_system 0x41 inode None = Inr ?e"
    by (simp add: libfsxfs_file_entry_initialize_def file_type_def inode(2))
  moreover have "directory_of ?e = Some (Inr (Some
       \<lparr> dir_entries_array = [\<lparr> de_inode_number = 0x42, de_name = [0x61], de_name_size = 1 \<rparr>] \<rparr>))"
    using example_root_directory [OF inode(1)]
    by (simp add: directory_of_def file_type_def inode(2) path_directory_def libfsxfs_directory_initialize_def)
  moreover have "file_entry_consistent ?e ?e"
    by (rule file_entry_reachable_consistent [OF i file_entry_reachable.start])
  ultimately show ?thesis using inode(1) by (intro exI [of _ inode] exI [of _ ?e]) simp
qed

lemma file_entry_answers_stable_witness:
  "\<exists>e0 e. file_entry_reachable recording_libfdata e0 e \<and> fe_directory e \<noteq> fe_directory e0 \<and>
     map_option snd (libfsxfs_file_entry_get_number_of_sub_file_entries e) = Some (Inr (Some 1))"
proof -
  obtain inode e0 where e0: "libfsxfs_file_entry_initialize recording_libfdata None example_path_io example_path_file
       example_file_system 0x41 inode None = Inr e0" "file_entry_consistent e0 e0" "fe_directory e0 = None"
    "directory_of e0 = Some (Inr (Some
       \<lparr> dir_entries_array = [\<lparr> de_inode_number = 0x42, de_name = [0x61], de_name_size = 1 \<rparr>] \<rparr>))" (is "_ = Some (Inr (Some ?d))")
    using example_file_entry by blast
  have n: "libfsxfs_file_entry_get_number_of_sub_file_entries e0 = Some (e0\<lparr> fe_directory := Some ?d \<rparr>, Inr (Some 1))"
    by (simp add: libfsxfs_file_entry_get_number_of_sub_file_entries_def file_entry_directory_answer [OF e0(2)] e0(4)
        libfsxfs_directory_get_number_of_entries_def array_get_number_of_entries_def)
  have "file_entry_reachable recording_libfdata e0 (e0\<lparr> fe_directory := Some ?d \<rparr>)"
    by (rule file_entry_reachable.step [OF file_entry_reachable.start
          file_entry_step.number_of_sub_file_entries [OF n]])
  with file_entry_answers_stable [OF e0(1) this] n e0(3) show ?thesis
    by (intro exI [of _ e0] exI [of _ "e0\<lparr> fe_directory := Some ?d \<rparr>"]) auto
qed

text \<open>
  A file entry that is no directory reports success when its sub file entries are counted,
  without ever writing the number, while every index is refused, in every state that it reaches.
\<close>

theorem sub_file_entries_of_non_directory:
  assumes "libfsxfs_file_entry_initialize lib None io fio fs n inode d = Inr e0" and "file_entry_reachable lib e0 e"
    and "in_file_mode inode AND 0xf000 \<noteq> 0x4000"
  shows "libfsxfs_file_entry_get_number_of_sub_file_entries e = Some (e, Inr None) \<and>
    libfsxfs_file_entry_get_sub_file_entry_by_index lib e i = Some (e, Inl Invalid_Value)"
proof -
  have c: "file_entry_consistent e0 e" by (rule file_entry_reachable_consistent [OF assms(1,2)])
  have "fe_inode e0 = inode"
    using assms(1) by (auto simp: libfsxfs_file_entry_initialize_def Let_def split: if_split_asm sum.split_asm)
  then have "directory_of e0 = Some (Inr None)" using assms(3) by (simp add: directory_of_def file_type_def)
  moreover from this have "fe_directory e = None" using c by (auto simp: file_entry_consistent_def)
  moreover from this have "e\<lparr> fe_directory := None \<rparr> = e" by simp
  ultimately show ?thesis
    by (simp add: file_entry_operations file_entry_directory_answer [OF c] file_entry_sub_file_entry_def)
qed

lemma sub_file_entries_of_non_directory_witness:
  "\<exists>e. libfsxfs_file_entry_initialize recording_libfdata None example_path_io example_path_file
       example_file_system 0x43 (inode_zero\<lparr> in_file_mode := 0x21a4 \<rparr>) None = Inr e \<and>
     libfsxfs_file_entry_get_number_of_sub_file_entries e = Some (e, Inr None)"
proof -
  obtain e where e: "libfsxfs_file_entry_initialize recording_libfdata None example_path_io example_path_file
       example_file_system 0x43 (inode_zero\<lparr> in_file_mode := 0x21a4 \<rparr>) None = Inr e"
    by (simp add: libfsxfs_file_entry_initialize_def file_type_def)
  have "in_file_mode (inode_zero\<lparr> in_file_mode := 0x21a4 \<rparr>) AND 0xf000 \<noteq> 0x4000" by simp
  from sub_file_entries_of_non_directory [OF e file_entry_reachable.start this] e show ?thesis by blast
qed

end
