(* ===== verification/Volume_Session.thy ===== *)
theory Volume_Session
  imports Volume_Entries File_Entry_States
begin

text \<open>
  The file entries that an open volume hands out, directly or by the listing of another one, and
  what holds of all of them.
\<close>

inductive volume_file_entry ::
    "'h libbfio \<Rightarrow> 's libfdata \<Rightarrow> u8 name_compare \<times> u8 unicode_copy \<Rightarrow> u16 name_compare \<times> u16 unicode_copy
      \<Rightarrow> 'h volume \<Rightarrow> 's file_entry \<Rightarrow> bool"
  for bf lib u8 u16 v where
  root: "libfsxfs_volume_get_root_directory bf lib v = Inr e \<Longrightarrow> volume_file_entry bf lib u8 u16 v e"
| by_inode: "libfsxfs_volume_get_file_entry_by_inode bf lib v n = Inr e \<Longrightarrow> volume_file_entry bf lib u8 u16 v e"
| by_utf8_path: "libfsxfs_volume_get_file_entry_by_utf8_path bf lib (fst u8) (snd u8) v path8 = Some (Inr (Some e)) \<Longrightarrow>
    volume_file_entry bf lib u8 u16 v e"
| by_utf16_path: "libfsxfs_volume_get_file_entry_by_utf16_path bf lib (fst u16) (snd u16) v path16 = Some (Inr (Some e)) \<Longrightarrow>
    volume_file_entry bf lib u8 u16 v e"
| sub: "volume_file_entry bf lib u8 u16 v e \<Longrightarrow> file_entry_reachable lib e e1 \<Longrightarrow>
    libfsxfs_file_entry_get_sub_file_entry_by_index lib e1 i = Some (e2, Inr s) \<Longrightarrow>
    volume_file_entry bf lib u8 u16 v s"

text \<open>The file entry is new and has the inode of its number.\<close>

definition entry_of_volume :: "'h libbfio \<Rightarrow> 's libfdata \<Rightarrow> 'h volume \<Rightarrow> 's file_entry \<Rightarrow> bool" where
  "entry_of_volume bf lib v e \<longleftrightarrow>
     (\<exists>fs fio inode d. volume_sources bf v = Inr (fs, fio) \<and>
        get_existing_inode fs (vol_io_handle v) fio (fe_inode_number e) = Inr inode \<and>
        libfsxfs_file_entry_initialize lib None (vol_io_handle v) fio fs (fe_inode_number e) inode d = Inr e)"

lemma file_entry_initialize_number:
  "libfsxfs_file_entry_initialize lib None io fio fs n inode d = Inr e \<Longrightarrow> fe_inode_number e = n"
  by (auto simp: libfsxfs_file_entry_initialize_def Let_def split: if_split_asm sum.split_asm)

lemma file_entry_initialize_fields:
  "libfsxfs_file_entry_initialize lib None io fio fs n inode d = Inr e \<Longrightarrow>
     fe_io_handle e = io \<and> fe_file_io_handle e = fio \<and> fe_file_system e = fs \<and> fe_inode e = inode"
  by (auto simp: libfsxfs_file_entry_initialize_def Let_def split: if_split_asm sum.split_asm)

lemma file_entry_initialize_without_name:
  assumes "libfsxfs_file_entry_initialize lib None io fio fs n inode d = Inr e"
  shows "libfsxfs_file_entry_initialize lib None io fio fs n inode None = Inr (e\<lparr> fe_directory_entry := None \<rparr>)"
  using assms by (auto simp: libfsxfs_file_entry_initialize_def Let_def split: if_split_asm sum.split_asm)

text \<open>The inode that the walk along a path ends with is the one of the number it ends with.\<close>

lemma path_step_existing:
  assumes "path_step get_entry copy fs io fio s i inode = Some (Inr (Some (e, entry, inode')))"
  shows "get_existing_inode fs io fio (de_inode_number entry) = Inr inode'"
  using assms by (auto simp: path_step_def path_entry_def split: option.splits sum.splits if_splits)

lemma path_loop_existing:
  assumes "path_loop get_entry copy fs io fio s i n inode entry = Some r"
  shows "r = Inr (Some (n', inode', d)) \<longrightarrow> get_existing_inode fs io fio n = Inr inode \<longrightarrow>
    get_existing_inode fs io fio n' = Inr inode'"
proof (rule path_loop.raw_induct [where P = "\<lambda>get_entry copy fs io fio s i n inode entry r.
      r = Inr (Some (n', inode', d)) \<longrightarrow> get_existing_inode fs io fio n = Inr inode \<longrightarrow>
      get_existing_inode fs io fio n' = Inr inode'", OF _ assms], goal_cases)
  case (1 rec get_entry copy fs io fio s i n inode entry r)
  show ?case
  proof (cases "i < length s")
    case False
    then show ?thesis using 1(2) by auto
  next
    case True
    show ?thesis
    proof (cases "path_step get_entry copy fs io fio s i inode")
      case None
      then show ?thesis using 1(2) True by simp
    next
      case (Some q)
      show ?thesis
      proof (cases "\<exists>e entry' j. q = Inr (Some (e, entry', j))")
        case False
        then have "(case q of Inl e \<Rightarrow> Some (Inl e) | Inr None \<Rightarrow> Some (Inr None) | Inr (Some t) \<Rightarrow> None) = Some r"
          using 1(2) True Some by (auto split: sum.splits option.splits prod.splits)
        then show ?thesis by (auto split: sum.splits option.splits)
      next
        case True
        then obtain e entry' j where q: "q = Inr (Some (e, entry', j))" by blast
        have "rec get_entry copy fs io fio s e (de_inode_number entry') j (Some entry') = Some r"
          using 1(2) \<open>i < length s\<close> Some q by simp
        from 1(1) [OF this] show ?thesis
          using path_step_existing [OF Some [unfolded q]] by simp
      qed
    qed
  qed
qed

lemma path_lookup_existing:
  assumes "get_directory_entry_by_path get_entry copy fs io fio path = Some (Inr (Some (n, inode, d)))"
  shows "get_existing_inode fs io fio n = Inr inode"
proof -
  obtain j where j: "get_existing_inode fs io fio (fs_root_directory_inode_number fs) = Inr j"
    using assms by (auto simp: get_directory_entry_by_path_def Let_def split: if_split_asm sum.split_asm)
  show ?thesis
  proof (cases "length path = 0 \<or> length path = 1")
    case True
    then show ?thesis using assms j
      by (auto simp: get_directory_entry_by_path_def libfsxfs_directory_entry_clone_def Let_def split: if_split_asm)
  next
    case False
    then obtain r where r: "path_loop get_entry copy fs io fio path
        (if length path > 0 \<and> path ! 0 = LIBFSXFS_SEPARATOR then 1 else 0) (fs_root_directory_inode_number fs) j None = Some r"
      "bindE r (\<lambda>found. case found of None \<Rightarrow> Inr None
        | Some (inode_number, inode, safe_directory_entry) \<Rightarrow>
            bindE (libfsxfs_directory_entry_clone None safe_directory_entry) (\<lambda>directory_entry.
            Inr (Some (inode_number, inode, directory_entry)))) = Inr (Some (n, inode, d))"
      using assms j
      by (auto simp: get_directory_entry_by_path_def Let_def split: if_split_asm option.split_asm)
    then have "r = Inr (Some (n, inode, d))"
      by (auto simp: libfsxfs_directory_entry_clone_def split: option.split_asm)
    with path_loop_existing [OF r(1)] j show ?thesis by blast
  qed
qed

lemmas path_lookup_defs =
  libfsxfs_volume_get_file_entry_by_utf8_path_def libfsxfs_internal_volume_get_file_entry_by_utf8_path_def
  libfsxfs_file_system_get_directory_entry_by_utf8_path_def
  libfsxfs_volume_get_file_entry_by_utf16_path_def libfsxfs_internal_volume_get_file_entry_by_utf16_path_def
  libfsxfs_file_system_get_directory_entry_by_utf16_path_def

lemma entry_of_volumeI:
  assumes "volume_sources bf v = Inr (fs, fio)" and "get_existing_inode fs (vol_io_handle v) fio n = Inr inode"
    and "libfsxfs_file_entry_initialize lib None (vol_io_handle v) fio fs n inode d = Inr e"
  shows "entry_of_volume bf lib v e"
  using assms file_entry_initialize_number [OF assms(3)] by (auto simp: entry_of_volume_def)

lemma file_entry_sub_file_entry_Inr:
  assumes "libfsxfs_file_entry_get_sub_file_entry_by_index lib e i = Some (e', Inr s)" and "file_entry_consistent e0 e"
  shows "\<exists>n inode d. get_existing_inode (fe_file_system e0) (fe_io_handle e0) (fe_file_io_handle e0) n = Inr inode \<and>
    libfsxfs_file_entry_initialize lib None (fe_io_handle e0) (fe_file_io_handle e0) (fe_file_system e0) n inode d = Inr s"
proof -
  have "file_entry_fixed e = file_entry_fixed e0" using assms(2) by (simp add: file_entry_consistent_def)
  note f = file_entry_fixed_eqD [OF this]
  show ?thesis
    using assms(1)
    by (auto simp: libfsxfs_file_entry_get_sub_file_entry_by_index_def file_entry_directory_answer [OF assms(2)]
        file_entry_sub_file_entry_def f split: option.split_asm sum.split_asm) blast
qed

lemma entry_of_volume_fields:
  assumes "volume_sources bf v = Inr (fs, fio)" and "entry_of_volume bf lib v e"
  shows "fe_io_handle e = vol_io_handle v" "fe_file_io_handle e = fio" "fe_file_system e = fs"
    "get_existing_inode fs (vol_io_handle v) fio (fe_inode_number e) = Inr (fe_inode e)"
proof -
  obtain inode d where i: "get_existing_inode fs (vol_io_handle v) fio (fe_inode_number e) = Inr inode"
    "libfsxfs_file_entry_initialize lib None (vol_io_handle v) fio fs (fe_inode_number e) inode d = Inr e"
    using assms by (auto simp: entry_of_volume_def)
  show "fe_io_handle e = vol_io_handle v" "fe_file_io_handle e = fio" "fe_file_system e = fs"
    "get_existing_inode fs (vol_io_handle v) fio (fe_inode_number e) = Inr (fe_inode e)"
    using file_entry_initialize_fields [OF i(2)] i(1) by simp_all
qed

lemma volume_file_entry_of_path_Inr:
  assumes "volume_file_entry_of_path bf lib v (\<lambda>fs io fio. get_directory_entry_by_path get_entry copy fs io fio path) =
    Some (Inr (Some e))"
  shows "entry_of_volume bf lib v e"
  using assms
  by (auto simp: volume_file_entry_of_path_def split: sum.split_asm option.split_asm)
    (rule entry_of_volumeI, assumption, rule path_lookup_existing)

lemma volume_file_entry_of_volume:
  "volume_file_entry bf lib u8 u16 v e \<Longrightarrow> entry_of_volume bf lib v e"
proof (induction rule: volume_file_entry.induct)
  case (root e)
  then show ?case
    by (auto simp: libfsxfs_volume_get_root_directory_def intro: entry_of_volumeI split: option.split_asm)
next
  case (by_inode n e)
  then show ?case
    by (auto simp: libfsxfs_volume_get_file_entry_by_inode_def libfsxfs_internal_volume_get_file_entry_by_inode_def
        intro: entry_of_volumeI)
next
  case (by_utf8_path path e)
  then show ?case
    unfolding path_lookup_defs by (rule volume_file_entry_of_path_Inr)
next
  case (by_utf16_path path e)
  then show ?case
    unfolding path_lookup_defs by (rule volume_file_entry_of_path_Inr)
next
  case (sub e e1 i e2 s)
  obtain fs fio inode d where v: "volume_sources bf v = Inr (fs, fio)"
    "libfsxfs_file_entry_initialize lib None (vol_io_handle v) fio fs (fe_inode_number e) inode d = Inr e"
    using sub.IH by (auto simp: entry_of_volume_def)
  from file_entry_sub_file_entry_Inr [OF sub.hyps(3) file_entry_reachable_consistent [OF v(2) sub.hyps(2)]]
  show ?case
    using v(1) entry_of_volume_fields [OF v(1) sub.IH] by (auto intro: entry_of_volumeI)
qed

lemma volume_file_entry_again:
  assumes "volume_file_entry bf lib u8 u16 v e"
  shows "libfsxfs_volume_get_file_entry_by_inode bf lib v (libfsxfs_file_entry_get_inode_number e) =
    Inr (e\<lparr> fe_directory_entry := None \<rparr>)"
  using volume_file_entry_of_volume [OF assms]
  by (auto simp: entry_of_volume_def libfsxfs_volume_get_file_entry_by_inode_def
      libfsxfs_internal_volume_get_file_entry_by_inode_def libfsxfs_file_entry_get_inode_number_def
      dest: file_entry_initialize_without_name)

subsection \<open>Memory safety\<close>

text \<open>What the libraries are relied on for: their own calls are free of undefined behaviour.\<close>

definition libfdata_safe :: "'s libfdata \<Rightarrow> bool" where
  "libfdata_safe lib \<longleftrightarrow>
     (\<forall>h. fault_free (libfdata_stream_initialize lib h)) \<and>
     (\<forall>s off n flags. fault_free (libfdata_stream_append_segment lib s off n flags)) \<and>
     (\<forall>s n. fault_free (libfdata_stream_set_mapped_size lib s n))"

lemma recording_libfdata_safe: "libfdata_safe recording_libfdata"
  by (simp add: libfdata_safe_def recording_libfdata_def)

lemma data_stream_append_extents_safe:
  "libfdata_safe lib \<Longrightarrow> unat (io_number_of_relative_block_number_bits io) < 31 \<Longrightarrow>
     fault_free (data_stream_append_extents lib io xs s)"
  by (induction xs arbitrary: s)
    (auto simp: libfdata_safe_def Let_def fault_free_block_number_to_offset intro!: safe_intros)

lemma data_stream_initialize_safe:
  assumes "libfdata_safe lib" and "io_valid io"
  shows "fault_free (libfsxfs_data_stream_initialize lib io inode n)"
  using assms data_stream_append_extents_safe [OF assms(1) io_validD(1) [OF assms(2)]]
  by (auto simp: libfsxfs_data_stream_initialize_def libfsxfs_data_stream_initialize_from_data_def
      libfsxfs_data_stream_initialize_from_extents_def libfsxfs_buffer_data_handle_initialize_def libfdata_safe_def
      intro!: safe_intros split: option.split)

lemma file_entry_initialize_safe [safe_intros]:
  assumes "libfdata_safe lib" and "io_valid io"
  shows "fault_free (libfsxfs_file_entry_initialize lib None io fio fs n inode d)"
  using data_stream_initialize_safe [OF assms]
  by (auto simp: libfsxfs_file_entry_initialize_def Let_def intro!: safe_intros split: prod.split)

lemma volume_sources_safe:
  assumes "volume_reachable bf create v" and "volume_sources bf v = Inr (fs, fio)"
  shows "io_valid (vol_io_handle v)"
  using volume_reachable_consistent [OF assms(1)] assms(2)
  by (auto simp: volume_consistent_def volume_loaded_def volume_sources_def split: option.split_asm)

lemma volume_sources_fault_free [safe_intros]: "fault_free (volume_sources bf v)"
  by (simp add: volume_sources_def split: option.split)

lemma volume_get_safe:
  assumes "volume_reachable bf create v" and "libfdata_safe lib"
  shows "fault_free (libfsxfs_volume_get_root_directory bf lib v)"
    and "fault_free (libfsxfs_volume_get_file_entry_by_inode bf lib v n)"
proof -
  note io = volume_sources_safe [OF assms(1)]
  show "fault_free (libfsxfs_volume_get_root_directory bf lib v)"
    unfolding libfsxfs_volume_get_root_directory_def
    by (auto split: option.split intro!: fault_free_bindE safe_intros assms(2) dest: io)
  show "fault_free (libfsxfs_volume_get_file_entry_by_inode bf lib v n)"
    unfolding libfsxfs_volume_get_file_entry_by_inode_def libfsxfs_internal_volume_get_file_entry_by_inode_def
    by (auto intro!: fault_free_bindE safe_intros assms(2) dest: io)
qed

lemma volume_file_entry_of_path_safe:
  assumes "volume_reachable bf create v" and "libfdata_safe lib"
    and "\<And>fs io fio r. io_valid io \<Longrightarrow> get fs io fio = Some r \<Longrightarrow> fault_free r"
    and "volume_file_entry_of_path bf lib v get = Some r"
  shows "fault_free r"
proof (cases "volume_sources bf v")
  case (Inl e)
  then have "fault_free (Inl e :: (file_system \<times> file_io) result)"
    using volume_sources_fault_free [of bf v] by simp
  then show ?thesis
    using assms(4) Inl by (auto simp: volume_file_entry_of_path_def fault_free_Inl_iff)
next
  case (Inr q)
  obtain fs fio where q: "q = (fs, fio)" by (cases q)
  note io = volume_sources_safe [OF assms(1) Inr [unfolded q]]
  show ?thesis
    using assms(4) Inr assms(3) [OF io, of fs fio]
    by (auto simp: q volume_file_entry_of_path_def
        intro!: fault_free_bindE safe_intros assms(2) io split: option.split_asm option.split prod.split)
qed

lemma volume_path_safe:
  assumes "volume_reachable bf create v" and "libfdata_safe lib"
    and "unicode_advances (snd u8)" and "unicode_advances (snd u16)"
  shows "libfsxfs_volume_get_file_entry_by_utf8_path bf lib (fst u8) (snd u8) v path8 = Some r \<Longrightarrow> fault_free r"
    and "libfsxfs_volume_get_file_entry_by_utf16_path bf lib (fst u16) (snd u16) v path16 = Some r \<Longrightarrow> fault_free r"
proof -
  note of_path = volume_file_entry_of_path_safe [OF assms(1,2)]
  show "libfsxfs_volume_get_file_entry_by_utf8_path bf lib (fst u8) (snd u8) v path8 = Some r \<Longrightarrow> fault_free r"
    unfolding path_lookup_defs by (erule of_path [rotated]) (rule utf8_lookup.by_path_safe [OF _ assms(3)])
  show "libfsxfs_volume_get_file_entry_by_utf16_path bf lib (fst u16) (snd u16) v path16 = Some r \<Longrightarrow> fault_free r"
    unfolding path_lookup_defs by (erule of_path [rotated]) (rule utf16_lookup.by_path_safe [OF _ assms(4)])
qed

text \<open>The listing of every file entry that is handed out, in every state that it reaches.\<close>

lemma listing_safe:
  assumes "volume_reachable bf create v" and "libfdata_safe lib"
    and "volume_file_entry bf lib u8 u16 v e" and "file_entry_reachable lib e e1"
  shows "libfsxfs_file_entry_get_number_of_sub_file_entries e1 = Some (e2, r) \<Longrightarrow> fault_free r"
    and "libfsxfs_file_entry_get_sub_file_entry_by_index lib e1 i = Some (e3, q) \<Longrightarrow> fault_free q"
proof -
  note ev = volume_file_entry_of_volume [OF assms(3)]
  obtain fs fio inode d where v: "volume_sources bf v = Inr (fs, fio)"
    "libfsxfs_file_entry_initialize lib None (vol_io_handle v) fio fs (fe_inode_number e) inode d = Inr e"
    using ev by (auto simp: entry_of_volume_def)
  note f = entry_of_volume_fields [OF v(1) ev] and c = file_entry_reachable_consistent [OF v(2) assms(4)]
  note io = volume_sources_safe [OF assms(1) v(1)]
  have "file_entry_fixed e1 = file_entry_fixed e" using c by (simp add: file_entry_consistent_def)
  note f1 = file_entry_fixed_eqD [OF this]
  have d: "fault_free x" if "directory_of e = Some x" for x
    using that f(1,2) path_directory_safe [OF io get_existing_inode_inline_ok [OF f(4)], of fio]
    by (auto simp: directory_of_def path_directory_def libfsxfs_directory_initialize_def fault_free_Inl_iff
        split: if_split_asm option.split_asm sum.split_asm)
  show "libfsxfs_file_entry_get_number_of_sub_file_entries e1 = Some (e2, r) \<Longrightarrow> fault_free r"
    using d
    by (auto simp: libfsxfs_file_entry_get_number_of_sub_file_entries_def file_entry_directory_answer [OF c]
        libfsxfs_directory_get_number_of_entries_def array_get_number_of_entries_def fault_free_Inl_iff
        split: option.split_asm sum.split_asm)
  have "fault_free (file_entry_sub_file_entry lib e' i)"
    if "fe_io_handle e' = vol_io_handle v" for e'
    by (auto simp: file_entry_sub_file_entry_def libfsxfs_directory_get_entry_by_index_def that
        array_get_entry_by_index_def libfsxfs_directory_entry_clone_def
        intro!: fault_free_bindE safe_intros assms(2) io split: option.split)
  then show "libfsxfs_file_entry_get_sub_file_entry_by_index lib e1 i = Some (e3, q) \<Longrightarrow> fault_free q"
    using d f(1) f1(1)
    by (auto simp: libfsxfs_file_entry_get_sub_file_entry_by_index_def file_entry_directory_answer [OF c]
        fault_free_Inl_iff split: option.split_asm sum.split_asm)
qed

text \<open>Opening.\<close>

lemma volume_read_allocation_group_safe:
  "volume_read_allocation_group fio v off = (v', r) \<Longrightarrow> fault_free r"
proof -
  have "fault_free (bindE (libfsxfs_superblock_initialize None) (\<lambda>sb.
      libfsxfs_superblock_read_file_io_handle sb fio off))"
    by (intro fault_free_bindE superblock_memory_safe) (simp add: libfsxfs_superblock_initialize_def)
  then show "volume_read_allocation_group fio v off = (v', r) \<Longrightarrow> fault_free r"
    by (auto simp: volume_read_allocation_group_def file_system_initialize_Inr read_inode_information_add
        fault_free_Inl_iff Let_def split: sum.split_asm option.split_asm if_split_asm prod.split_asm)
qed

lemma volume_read_allocation_groups_safe:
  "volume_read_allocation_groups fio v off i = (v', r) \<Longrightarrow> fault_free r"
proof (induction fio v off i arbitrary: v' r rule: volume_read_allocation_groups.induct)
  case (1 fio v off i)
  obtain w q where w: "volume_read_allocation_group fio v off = (w, q)" by fastforce
  show ?case
    using 1(2) 1(1) [OF w [symmetric]] volume_read_allocation_group_safe [OF w]
    by (cases q) (auto simp: volume_read_allocation_groups.simps [of fio v] w fault_free_Inl_iff split: if_split_asm)
qed

lemma volume_open_safe:
  "fault_free (snd (libfsxfs_volume_open_file_io_handle bf v h flags))"
proof -
  have "libfsxfs_internal_volume_open_read v fio \<noteq> (v', Inl (Undefined u))" for fio v' u
    using volume_read_allocation_groups_safe [of fio v 0 0]
    by (auto simp: libfsxfs_internal_volume_open_read_def fault_free_Inl_iff
        split: if_splits prod.splits sum.splits)
  then show ?thesis
    by (auto simp: libfsxfs_volume_open_file_io_handle_def fault_free_Inl_iff
        split: option.split prod.split sum.split)
qed

end
