(* ===== verification/Volume_Paths.thy ===== *)
theory Volume_Paths
  imports Volume_Session
begin

text \<open>
  Paths and listings agree: what an open volume answers for a path is the walk along its names, and
  every entry that a directory lists is found under the path of the directory with its name.
\<close>

subsection \<open>The lookup of a path of a volume\<close>

text \<open>The path of a list of names from the root directory on; the root directory itself is the separator.\<close>

definition rooted_path :: "('b \<Rightarrow> 'a::len word list) \<Rightarrow> 'b list \<Rightarrow> 'a word list" where
  "rooted_path units names = LIBFSXFS_SEPARATOR # join_names (map units names)"

lemma join_names_length: "\<forall>name \<in> set names. name \<noteq> [] \<Longrightarrow> names \<noteq> [] \<Longrightarrow> 0 < length (join_names names)"
  by (induction names rule: join_names.induct) simp_all

lemma rooted_path_walk:
  assumes "unicode_decodes copy encode valid" and "\<forall>cs \<in> set names. name_valid valid cs"
    and "length (rooted_path (encode_name encode) names) \<le> SSIZE_MAX"
  shows "get_directory_entry_by_path get_entry copy fs io fio (rooted_path (encode_name encode) names) =
    (case get_existing_inode fs io fio (fs_root_directory_inode_number fs) of
       Inl e \<Rightarrow> Some (Inl e)
     | Inr inode \<Rightarrow>
         path_walk get_entry fs io fio (map (encode_name encode) names) (fs_root_directory_inode_number fs) inode None)"
proof (cases "names = []")
  case True
  then show ?thesis
    by (auto simp: rooted_path_def get_directory_entry_by_path_def libfsxfs_directory_entry_clone_def Let_def
        split: sum.split)
next
  case False
  have "0 < length (join_names (map (encode_name encode) names))"
    using False assms(2) encode_name_nonempty [OF assms(1)] by (intro join_names_length) auto
  then show ?thesis
    using assms(3)
    by (intro get_directory_entry_by_path_walk [OF assms(1) False assms(2), where lead = "[LIBFSXFS_SEPARATOR]" and trail = "[]"])
      (simp_all add: rooted_path_def Suc_le_eq)
qed

lemma path_walk_append:
  "path_walk get_entry fs io fio (xs @ ys) n inode d =
    (case path_walk get_entry fs io fio xs n inode d of
       None \<Rightarrow> None
     | Some (Inl e) \<Rightarrow> Some (Inl e)
     | Some (Inr None) \<Rightarrow> Some (Inr None)
     | Some (Inr (Some (n', inode', d'))) \<Rightarrow> path_walk get_entry fs io fio ys n' inode' d')"
  by (induction xs arbitrary: n inode d) (auto split: option.split sum.split)

subsection \<open>What is listed is found\<close>

lemma directory_find_listed:
  assumes "compares_names compare encoded" and "distinct (map directory_entry_name_bytes es)" and "entry \<in> set es"
    and "\<forall>e \<in> set es. encoded (directory_entry_name_bytes e)"
  shows "directory_find_utf8 compare es (directory_entry_name_bytes entry) = Inr (Some entry)"
proof -
  have c: "libfsxfs_directory_entry_compare_with_utf8_string compare e name =
      Inr (compare name (directory_entry_name_bytes e))" if "encoded name" "encoded (directory_entry_name_bytes e)" for e name
    using assms(1) [unfolded compares_names_def, rule_format, of name "directory_entry_name_bytes e"] that
    by (cases "compare name (directory_entry_name_bytes e)")
      (simp_all add: libfsxfs_directory_entry_compare_with_utf8_string_def directory_entry_name_bytes_def)
  show ?thesis
    using assms(2-4)
  proof (induction es)
    case (Cons e es)
    then show ?case
      using assms(1) by (cases "entry = e") (auto simp: c compares_names_def rev_image_eqI)
  qed simp
qed

lemma walk_listed:
  assumes "compares_names compare encoded"
    and "distinct (map directory_entry_name_bytes (dir_entries_array directory))"
    and "entry \<in> set (dir_entries_array directory)"
    and "\<forall>e \<in> set (dir_entries_array directory). encoded (directory_entry_name_bytes e)"
    and "path_directory io fio inode = Some (Inr directory)"
    and "get_existing_inode fs io fio (de_inode_number entry) = Inr inode'"
  shows "path_walk (libfsxfs_directory_get_entry_by_utf8_name compare) fs io fio
      [directory_entry_name_bytes entry] n inode d =
    Some (Inr (Some (de_inode_number entry, inode', Some entry)))"
  using directory_find_listed [OF assms(1-4)] assms(5,6)
  by (simp add: walk_entry_def libfsxfs_directory_get_entry_by_utf8_name_def)

text \<open>A sub file entry is made of the entry of the directory at its index.\<close>

lemma sub_file_entry_listed:
  assumes "file_entry_consistent d d1"
    and "libfsxfs_file_entry_get_sub_file_entry_by_index lib d1 i = Some (d2, Inr s)"
  shows "\<exists>directory entry inode. fe_directory d2 = Some directory \<and>
    path_directory (fe_io_handle d) (fe_file_io_handle d) (fe_inode d) = Some (Inr directory) \<and>
    entry \<in> set (dir_entries_array directory) \<and> fe_directory_entry s = Some entry \<and>
    get_existing_inode (fe_file_system d) (fe_io_handle d) (fe_file_io_handle d) (de_inode_number entry) = Inr inode \<and>
    libfsxfs_file_entry_initialize lib None (fe_io_handle d) (fe_file_io_handle d) (fe_file_system d)
      (de_inode_number entry) inode (Some entry) = Inr s"
proof -
  have "file_entry_fixed d1 = file_entry_fixed d" using assms(1) by (simp add: file_entry_consistent_def)
  note f = file_entry_fixed_eqD [OF this]
  have e: "fe_directory_entry s = y"
    if "libfsxfs_file_entry_initialize lib None io fio fs n inode y = Inr s" for io fio fs n inode y
    using that by (auto simp: libfsxfs_file_entry_initialize_def Let_def split: if_split_asm sum.split_asm)
  obtain dd where dd: "directory_of d = Some (Inr dd)"
    using assms(2)
    by (auto simp: libfsxfs_file_entry_get_sub_file_entry_by_index_def file_entry_directory_answer [OF assms(1)]
        split: option.split_asm sum.split_asm)
  have "libfsxfs_file_entry_get_sub_file_entry_by_index lib d1 i =
      Some (d1\<lparr> fe_directory := dd \<rparr>, file_entry_sub_file_entry lib (d1\<lparr> fe_directory := dd \<rparr>) i)"
    by (simp add: libfsxfs_file_entry_get_sub_file_entry_by_index_def file_entry_directory_answer [OF assms(1)] dd)
  then have d2: "file_entry_sub_file_entry lib (d1\<lparr> fe_directory := dd \<rparr>) i = Inr s" "d1\<lparr> fe_directory := dd \<rparr> = d2"
    unfolding assms(2) option.inject prod.inject by metis+
  then obtain directory where dr: "dd = Some directory"
    by (auto simp: file_entry_sub_file_entry_def split: option.split_asm)
  have p: "path_directory (fe_io_handle d) (fe_file_io_handle d) (fe_inode d) = Some (Inr directory)"
    using dd by (auto simp: dr directory_of_def path_directory_def libfsxfs_directory_initialize_def
        split: if_split_asm option.split_asm sum.split_asm)
  obtain entry inode where s: "libfsxfs_directory_get_entry_by_index directory i = Inr entry"
    "get_existing_inode (fe_file_system d) (fe_io_handle d) (fe_file_io_handle d) (de_inode_number entry) = Inr inode"
    "libfsxfs_file_entry_initialize lib None (fe_io_handle d) (fe_file_io_handle d) (fe_file_system d)
      (de_inode_number entry) inode (Some entry) = Inr s"
    using d2(1) by (auto simp: file_entry_sub_file_entry_def dr f libfsxfs_directory_entry_clone_def)
  have "fe_directory d2 = Some directory" using d2(2) dr by auto
  moreover have "entry \<in> set (dir_entries_array directory)"
    using s(1) by (auto simp: libfsxfs_directory_get_entry_by_index_def array_get_entry_by_index_def split: if_split_asm)
  ultimately show ?thesis using p s(2,3) e [OF s(3)] by blast
qed

lemma listed_entry_by_path:
  assumes dec: "unicode_decodes copy encode valid" and cmp: "compares_names compare (encoded_name encode valid)"
    and names: "\<forall>cs \<in> set (names @ [cs]). name_valid valid cs"
    and len: "length (rooted_path (encode_name encode) (names @ [cs])) \<le> SSIZE_MAX"
      "length (rooted_path (encode_name encode) names) \<le> SSIZE_MAX"
    and d: "libfsxfs_volume_get_file_entry_by_utf8_path bf lib compare copy v
      (rooted_path (encode_name encode) names) = Some (Inr (Some d))"
    and d1: "file_entry_reachable lib d d1"
    and s: "libfsxfs_file_entry_get_sub_file_entry_by_index lib d1 i = Some (d2, Inr s)"
    and dist: "distinct (map directory_entry_name_bytes (dir_entries_array (the (fe_directory d2))))"
      "\<forall>entry \<in> set (dir_entries_array (the (fe_directory d2))). encoded_name encode valid (directory_entry_name_bytes entry)"
    and name: "directory_entry_name_bytes (the (fe_directory_entry s)) = encode_name encode cs"
  shows "libfsxfs_volume_get_file_entry_by_utf8_path bf lib compare copy v
    (rooted_path (encode_name encode) (names @ [cs])) = Some (Inr (Some s))"
proof -
  let ?get = "libfsxfs_directory_get_entry_by_utf8_name compare" and ?io = "vol_io_handle v"
  obtain fs fio where src: "volume_sources bf v = Inr (fs, fio)"
    using d by (auto simp: path_lookup_defs volume_file_entry_of_path_def split: sum.split_asm)
  obtain root where root: "get_existing_inode fs ?io fio (fs_root_directory_inode_number fs) = Inr root"
    using d src rooted_path_walk [OF dec _ len(2)] names
    by (auto simp: path_lookup_defs volume_file_entry_of_path_def split: sum.split_asm)
  have walk: "get_directory_entry_by_path ?get copy fs ?io fio (rooted_path (encode_name encode) names) =
      path_walk ?get fs ?io fio (map (encode_name encode) names) (fs_root_directory_inode_number fs) root None"
    using rooted_path_walk [OF dec _ len(2)] names root by simp
  obtain n inode y where n: "path_walk ?get fs ?io fio (map (encode_name encode) names)
      (fs_root_directory_inode_number fs) root None = Some (Inr (Some (n, inode, y)))"
    "libfsxfs_file_entry_initialize lib None ?io fio fs n inode y = Inr d"
    using d src by (auto simp: path_lookup_defs volume_file_entry_of_path_def walk
        split: option.split_asm sum.split_asm)
  note f = file_entry_initialize_fields [OF n(2)]
  obtain directory entry inode' where l: "fe_directory d2 = Some directory"
    "path_directory ?io fio inode = Some (Inr directory)" "entry \<in> set (dir_entries_array directory)"
    "fe_directory_entry s = Some entry"
    "get_existing_inode fs ?io fio (de_inode_number entry) = Inr inode'"
    "libfsxfs_file_entry_initialize lib None ?io fio fs (de_inode_number entry) inode' (Some entry) = Inr s"
    using sub_file_entry_listed [OF file_entry_reachable_consistent [OF n(2) d1] s] f by auto
  have "directory_entry_name_bytes entry = encode_name encode cs" using name l(4) by simp
  then have "path_walk ?get fs ?io fio [encode_name encode cs] n inode y =
      Some (Inr (Some (de_inode_number entry, inode', Some entry)))"
    using walk_listed [OF cmp _ l(3) _ l(2) l(5)] dist l(1) by (simp del: path_walk.simps)
  then have "get_directory_entry_by_path ?get copy fs ?io fio (rooted_path (encode_name encode) (names @ [cs])) =
      Some (Inr (Some (de_inode_number entry, inode', Some entry)))"
    using rooted_path_walk [OF dec names len(1)] root n(1) by (simp add: path_walk_append del: path_walk.simps)
  then show ?thesis
    using l(6) src by (simp add: path_lookup_defs volume_file_entry_of_path_def)
qed

text \<open>
  C32: Whatever a directory lists is found: when a path leads to a directory, in whatever state its file
  entry is by now, and its entries have distinct, validly encoded names, then the path of the directory with the name of a
  sub file entry leads to that same file entry, with its inode, its name and its data.
\<close>

theorem listed_entry_is_found:
  assumes dec: "unicode_decodes copy encode valid" and cmp: "compares_names compare (encoded_name encode valid)"
    and names: "\<forall>cs \<in> set (names @ [cs]). name_valid valid cs"
    and len: "length (rooted_path (encode_name encode) (names @ [cs])) \<le> SSIZE_MAX"
      "length (rooted_path (encode_name encode) names) \<le> SSIZE_MAX"
    and d: "libfsxfs_volume_get_file_entry_by_utf8_path bf lib compare copy v
      (rooted_path (encode_name encode) names) = Some (Inr (Some d))"
    and d1: "file_entry_reachable lib d d1"
    and s: "libfsxfs_file_entry_get_sub_file_entry_by_index lib d1 i = Some (d2, Inr s)"
    and dist: "distinct (map directory_entry_name_bytes (dir_entries_array (the (fe_directory d2))))"
      "\<forall>entry \<in> set (dir_entries_array (the (fe_directory d2))). encoded_name encode valid (directory_entry_name_bytes entry)"
    and name: "directory_entry_name_bytes (the (fe_directory_entry s)) = encode_name encode cs"
  shows "libfsxfs_volume_get_file_entry_by_utf8_path bf lib compare copy v
    (rooted_path (encode_name encode) (names @ [cs])) = Some (Inr (Some s))"
  by (rule listed_entry_by_path [OF assms])

subsection \<open>An example\<close>

text \<open>The file system of the path example as an open volume, its root directory and the file in it.\<close>

definition example_session_libbfio :: "unit libbfio" where
  "example_session_libbfio = example_libbfio\<lparr> libbfio_handle_read := (\<lambda>h. example_path_file) \<rparr>"

definition example_session_volume :: "unit volume" where
  "example_session_volume = volume_zero
     \<lparr> vol_superblock := Some (superblock_zero\<lparr> sb_root_directory_inode_number := 0x41 \<rparr>),
       vol_file_system := Some example_file_system, vol_io_handle := example_path_io,
       vol_file_io_handle := Some () \<rparr>"

lemma example_session_sources:
  "volume_sources example_session_libbfio example_session_volume = Inr (example_file_system, example_path_file)"
  "vol_io_handle example_session_volume = example_path_io"
  "fs_root_directory_inode_number example_file_system = 0x41"
  by (simp_all add: example_file_system_def volume_sources_def example_session_volume_def example_session_libbfio_def)

definition example_listed_entry :: directory_entry where
  "example_listed_entry = \<lparr> de_inode_number = 0x42, de_name = [0x61], de_name_size = 1 \<rparr>"

lemma example_listed_file:
  "\<exists>inode e. get_existing_inode example_file_system example_path_io example_path_file 0x42 = Inr inode \<and>
     libfsxfs_file_entry_initialize recording_libfdata None example_path_io example_path_file
       example_file_system 0x42 inode (Some example_listed_entry) = Inr e \<and> fe_data_size e = 5 \<and>
     file_type (fe_inode e) = 0x8000"
proof -
  have l: "length example_inode_data = 256" by (simp add: example_inode_data_def)
  have "\<exists>j. libfsxfs_inode_read_data (inode_zero\<lparr> in_data_size := 256, in_data := example_inode_data \<rparr>)
        example_inode_data = Inr j \<and> in_attributes_fork_type j = 1 \<and> in_fork_type j = 1 \<and> in_size j = 5 \<and>
     in_file_mode j = 0x81a4"
    by (simp add: example_inode_data_def libfsxfs_inode_read_data_def inode_core_size_def
        inode_read_core_def inode_read_creation_time_def inode_set_forks_def be_word_def
        inode_zero_def inode_signed_time_def inode_unsigned_time_def nth_append Let_def)
  then obtain inode data where i: "get_existing_inode example_file_system example_path_io example_path_file 0x42 = Inr inode"
    "in_fork_type inode = 1" "in_size inode = 5" "in_inline_data inode = Some data" "in_file_mode inode = 0x81a4"
    using example_existing_inode [of "0x42", OF _ refl] l by auto
  then show ?thesis
    by (auto simp: libfsxfs_file_entry_initialize_def libfsxfs_data_stream_initialize_def Let_def
        libfsxfs_data_stream_initialize_from_data_def libfsxfs_buffer_data_handle_initialize_def
        libfsxfs_inode_get_data_size_def file_type_def recording_libfdata_def)
qed

lemma example_listing:
  "\<exists>d d2 s. libfsxfs_volume_get_file_entry_by_utf8_path example_session_libbfio recording_libfdata compare copy
      example_session_volume [0x2f] = Some (Inr (Some d)) \<and>
    libfsxfs_file_entry_get_sub_file_entry_by_index recording_libfdata d 0 = Some (d2, Inr s) \<and>
    fe_directory d2 = Some \<lparr> dir_entries_array = [example_listed_entry] \<rparr> \<and>
    fe_directory_entry s = Some example_listed_entry \<and> fe_data_size d = 0 \<and> fe_data_size s = 5"
proof -
  obtain inode d where d: "get_existing_inode example_file_system example_path_io example_path_file 0x41 = Inr inode"
    "libfsxfs_file_entry_initialize recording_libfdata None example_path_io example_path_file
       example_file_system 0x41 inode None = Inr d"
    "directory_of d = Some (Inr (Some \<lparr> dir_entries_array = [example_listed_entry] \<rparr>))" "file_entry_consistent d d"
    "fe_data_size d = 0"
    using example_file_entry unfolding example_listed_entry_def by blast
  obtain inode' s where s: "get_existing_inode example_file_system example_path_io example_path_file 0x42 = Inr inode'"
    "libfsxfs_file_entry_initialize recording_libfdata None example_path_io example_path_file
       example_file_system 0x42 inode' (Some example_listed_entry) = Inr s" "fe_data_size s = 5"
    using example_listed_file by blast
  have "libfsxfs_volume_get_file_entry_by_utf8_path example_session_libbfio recording_libfdata compare copy
      example_session_volume [0x2f] = Some (Inr (Some d))"
    using d(1,2) by (simp add: path_lookup_defs volume_file_entry_of_path_def example_session_sources
        get_directory_entry_by_path_def libfsxfs_directory_entry_clone_def Let_def)
  moreover have "libfsxfs_file_entry_get_sub_file_entry_by_index recording_libfdata d 0 =
      Some (d\<lparr> fe_directory := Some \<lparr> dir_entries_array = [example_listed_entry] \<rparr> \<rparr>, Inr s)"
    using s file_entry_initialize_fields [OF d(2)]
    by (simp add: libfsxfs_file_entry_get_sub_file_entry_by_index_def file_entry_directory_answer [OF d(4)] d(3)
        file_entry_sub_file_entry_def libfsxfs_directory_get_entry_by_index_def array_get_entry_by_index_def
        libfsxfs_directory_entry_clone_def example_listed_entry_def)
  moreover have "fe_directory_entry s = Some example_listed_entry"
    using s(2) by (auto simp: libfsxfs_file_entry_initialize_def Let_def split: if_split_asm sum.split_asm)
  ultimately show ?thesis using d(5) s(3) by fastforce
qed

lemma example_listed_name: "directory_entry_name_bytes example_listed_entry = [0x61]"
  by (simp add: directory_entry_name_bytes_def example_listed_entry_def)

lemma example_copy_compares: "compares_names example_compare (encoded_name (\<lambda>c. [ucast c]) (\<lambda>c. c < 0x80))"
proof (rule example_compare_names)
  fix s :: "u8 list"
  assume "encoded_name (\<lambda>c. [ucast c]) (\<lambda>c. c < 0x80) s"
  moreover have "ucast c \<noteq> (0 :: u8)" if "c < 0x80" "c \<noteq> 0" for c :: u32
  proof -
    have "unat c < 128" using that by (simp add: word_less_nat_alt)
    then have "unat (ucast c :: u8) = unat c" by (intro unat_ucast_fits) simp
    then show ?thesis using that(2) by (metis unat_0 unat_eq_zero)
  qed
  ultimately show "0 \<notin> set s" by (auto simp: encoded_name_def encode_name_def)
qed

lemma listed_entry_is_found_witness:
  "\<exists>s. libfsxfs_volume_get_file_entry_by_utf8_path example_session_libbfio recording_libfdata example_compare
      example_copy example_session_volume [0x2f, 0x61] = Some (Inr (Some s))"
proof -
  obtain d d2 s where d: "libfsxfs_volume_get_file_entry_by_utf8_path example_session_libbfio recording_libfdata
      example_compare example_copy example_session_volume [0x2f] = Some (Inr (Some d))"
    "libfsxfs_file_entry_get_sub_file_entry_by_index recording_libfdata d 0 = Some (d2, Inr s)"
    "fe_directory d2 = Some \<lparr> dir_entries_array = [example_listed_entry] \<rparr>"
    "fe_directory_entry s = Some example_listed_entry"
    using example_listing by blast
  have "libfsxfs_volume_get_file_entry_by_utf8_path example_session_libbfio recording_libfdata example_compare
      example_copy example_session_volume (rooted_path (encode_name (\<lambda>c. [ucast c])) ([] @ [[0x61]])) = Some (Inr (Some s))"
    by (rule listed_entry_is_found [OF example_copy_decodes example_copy_compares _ _ _ _ file_entry_reachable.start d(2)])
      (simp_all add: d rooted_path_def encode_name_def name_valid_def example_listed_name
        encoded_name_def exI [of _ "[0x61]"])
  then show ?thesis by (simp add: rooted_path_def encode_name_def)
qed

end
