(* ===== verification/Attributes_Tree.thy ===== *)
theory Attributes_Tree
  imports Attributes
begin

text \<open>
  The abstract view of the attribute blocks of an inode: a tree whose branches list block numbers
  and whose leaves list attributes. Reading the blocks of a stored tree gives its attributes.
\<close>

subsection \<open>Stored trees\<close>

datatype attributes_tree =
    Attributes_Leaf u32 "attribute_item list"
  | Attributes_Branch u32 "attributes_tree list"

fun tree_block_number :: "attributes_tree \<Rightarrow> u32" where
  "tree_block_number (Attributes_Leaf b items) = b"
| "tree_block_number (Attributes_Branch b ts) = b"

fun tree_items :: "attributes_tree \<Rightarrow> attribute_item list" where
  "tree_items (Attributes_Leaf b items) = items"
| "tree_items (Attributes_Branch b ts) = concat (map tree_items ts)"

fun tree_depth :: "attributes_tree \<Rightarrow> int" where
  "tree_depth (Attributes_Leaf b items) = 0"
| "tree_depth (Attributes_Branch b ts) = 1 + fold max (map tree_depth ts) 0"

text \<open>The block of a number: the first steps of \<open>libfsxfs_attributes_get_from_block\<close>.\<close>

definition read_attributes_block ::
    "io_handle \<Rightarrow> file_io \<Rightarrow> inode \<Rightarrow> u32 \<Rightarrow> file_system_block result" where
  "read_attributes_block io fio inode block_number =
     bindE (attributes_find_extent inode (ucast block_number)) (\<lambda>extent.
     bindE (attributes_block_offset io extent (ucast block_number)) (\<lambda>block_offset.
     bindE (libfsxfs_file_system_block_initialize None (unat (io_block_size io))) (\<lambda>block.
     libfsxfs_file_system_block_read_file_io_handle block io fio block_offset)))"

definition block_signature :: "file_system_block \<Rightarrow> u16" where
  "block_signature block =
     (case fsb_header block of None \<Rightarrow> 0 | Some header \<Rightarrow> fsbh_signature header)"

text \<open>The block numbers that a branch lists, each in an entry of eight bytes.\<close>

definition branch_entries_offset :: "io_handle \<Rightarrow> nat" where
  "branch_entries_offset io = (if io_format_version io = 5 then 56 + 8 else 12 + 4)"

definition branch_describes :: "io_handle \<Rightarrow> u8 list \<Rightarrow> u32 list \<Rightarrow> bool" where
  "branch_describes io data blocks \<longleftrightarrow>
     (let start = branch_entries_offset io in
      length blocks < 65536 \<and> start + 8 * length blocks \<le> length data \<and>
      take 2 (drop (if io_format_version io = 5 then 56 else 12) data)
        = be_bytes 2 (word_of_nat (length blocks) :: u16) \<and>
      (\<forall>i < length blocks. take 4 (drop (start + 8 * i + 4) data) = be_bytes 4 (blocks ! i)))"

fun tree_stored :: "io_handle \<Rightarrow> file_io \<Rightarrow> inode \<Rightarrow> attributes_tree \<Rightarrow> bool" where
  "tree_stored io fio inode (Attributes_Leaf b items) \<longleftrightarrow>
     (case read_attributes_block io fio inode b of
        Inl e \<Rightarrow> False
      | Inr block \<Rightarrow> block_signature block \<in> {0x3bee, 0xfbee} \<and>
          leaf_describes io (fsb_data block) items)"
| "tree_stored io fio inode (Attributes_Branch b ts) \<longleftrightarrow>
     (case read_attributes_block io fio inode b of
        Inl e \<Rightarrow> False
      | Inr block \<Rightarrow> block_signature block \<in> {0x3ebe, 0xfebe} \<and>
          branch_describes io (fsb_data block) (map tree_block_number ts)) \<and>
     (\<forall>t \<in> set ts. tree_stored io fio inode t)"

lemma be_bytes_4:
  "be_bytes 4 w = [ucast (drop_bit 24 w AND 255), ucast (drop_bit 16 w AND 255),
     ucast (drop_bit 8 w AND 255), ucast (w AND 255)]"
  by (simp add: be_bytes_def upt_rec mask_eq_exp_minus_1)

subsection \<open>Reading a stored tree\<close>

lemma attributes_get_from_block_eq:
  "libfsxfs_attributes_get_from_block io fio inode b xs depth =
     (if depth < 0 \<or> depth > 256 then Inl Value_Out_Of_Bounds else
      bindE (read_attributes_block io fio inode b) (\<lambda>block.
      if block_signature block \<in> {0x3bee, 0xfbee}
      then libfsxfs_attributes_read_leaf_values io (fsb_data block) xs
      else if block_signature block \<in> {0x3ebe, 0xfebe}
      then libfsxfs_attributes_read_branch_values io (fsb_data block)
             (\<lambda>b xs. libfsxfs_attributes_get_from_block io fio inode b xs (depth + 1)) xs
      else Inl Unsupported_Value))"
  by (subst libfsxfs_attributes_get_from_block.simps)
    (simp only: read_attributes_block_def block_signature_def bindE_assoc Let_def insert_iff
      empty_iff simp_thms)

lemma fold_result_nth:
  "fold_result (\<lambda>i. f (ys ! i)) [0..<length ys] s = fold_result f ys s"
proof -
  have "fold_result f (map ((!) ys) is) s = fold_result (\<lambda>i. f (ys ! i)) is s" for "is" s
    by (induction "is" arbitrary: s) (auto simp: bindE_def split: sum.splits)
  from this [of "[0..<length ys]"] show ?thesis by (simp add: map_nth)
qed

text \<open>A branch calls the reader for its block numbers in order.\<close>

lemma attributes_read_branch_describes:
  assumes "branch_describes io data blocks"
  shows "libfsxfs_attributes_read_branch_values io data f xs = fold_result f blocks xs"
proof -
  define off where "off = (if io_format_version io = 5 then 56 else 12 :: nat)"
  define hs where "hs = (if io_format_version io = 5 then 8 else 4 :: nat)"
  have o: "branch_entries_offset io = off + hs" "4 \<le> hs"
    by (auto simp: branch_entries_offset_def off_def hs_def)
  have d: "length blocks < 65536" "off + hs + 8 * length blocks \<le> length data"
    "take 2 (drop off data) = be_bytes 2 (word_of_nat (length blocks) :: u16)"
    "\<And>i. i < length blocks \<Longrightarrow> take 4 (drop (off + hs + 8 * i + 4) data) = be_bytes 4 (blocks ! i)"
    using assms by (simp_all add: branch_describes_def Let_def o(1) off_def [symmetric])
  have n: "unat (word_of_nat (length blocks) :: u16) = length blocks"
    using d(1) by (rule unat_word_of_nat_16)
  have e: "byte_stream_copy_to_uint32_big_endian data (off + hs + 8 * i + 4) = Inr (blocks ! i)"
    if "i < length blocks" for i
    using that d(2,4) by (simp add: be_word_be_bytes)
  have "libfsxfs_attributes_read_branch_values io data f xs =
    fold_result (\<lambda>i xs. bindE (byte_stream_copy_to_uint32_big_endian data (off + hs + 8 * i + 4))
      (\<lambda>b. f b xs)) [0..<length blocks] xs"
    using d(2,3) n o(2) diff_le_mono [OF d(2), of off] diff_le_mono [OF d(2), of "off + hs"]
    by (simp add: not_less libfsxfs_attributes_read_branch_values_def off_def [symmetric] hs_def [symmetric]
        Let_def be_word_be_bytes)
  also have "\<dots> = fold_result (\<lambda>i xs. f (blocks ! i) xs) [0..<length blocks] xs"
    by (rule fold_result_cong) (simp_all add: e)
  also have "\<dots> = fold_result f blocks xs" by (rule fold_result_nth)
  finally show ?thesis .
qed

lemma fold_max_ge: "a \<le> fold max xs a" "x \<in> set xs \<Longrightarrow> x \<le> fold max xs a" for a :: int
  by (induction xs arbitrary: a) (auto intro: order_trans [OF max.cobounded2] order_trans [OF max.cobounded1])

lemma tree_depth_nonneg: "0 \<le> tree_depth t"
  by (cases t) (auto intro: order_trans [OF _ fold_max_ge(1)] add_nonneg_nonneg)

lemma attributes_tree_read:
  assumes "tree_stored io fio inode t" and "0 \<le> depth" and "depth + tree_depth t \<le> 256"
  shows "libfsxfs_attributes_get_from_block io fio inode (tree_block_number t) xs depth =
    Inr (xs @ map attribute_item_values (tree_items t))"
  using assms
proof (induction t arbitrary: xs depth)
  case (Attributes_Leaf b items)
  then obtain block where "read_attributes_block io fio inode b = Inr block"
    "block_signature block \<in> {0x3bee, 0xfbee}" "leaf_describes io (fsb_data block) items"
    by (auto split: sum.splits)
  then show ?case
    using Attributes_Leaf.prems
    by (subst attributes_get_from_block_eq) (simp add: attributes_leaf_values)
next
  case (Attributes_Branch b ts)
  then obtain block where block: "read_attributes_block io fio inode b = Inr block"
    "block_signature block \<in> {0x3ebe, 0xfebe}"
    "branch_describes io (fsb_data block) (map tree_block_number ts)"
    by (auto split: sum.splits)
  let ?f = "\<lambda>b xs. libfsxfs_attributes_get_from_block io fio inode b xs (depth + 1)"
  have step: "?f (tree_block_number t) xs = Inr (xs @ map attribute_item_values (tree_items t))"
    if "t \<in> set ts" for t xs
  proof (rule Attributes_Branch.IH [OF that])
    show "tree_stored io fio inode t" using Attributes_Branch.prems(1) that by auto
    show "0 \<le> depth + 1" using Attributes_Branch.prems(2) by simp
    show "depth + 1 + tree_depth t \<le> 256"
      using Attributes_Branch.prems(3) fold_max_ge(2) [of "tree_depth t" "map tree_depth ts" 0] that
      by simp
  qed
  have "fold_result ?f (map tree_block_number us) xs =
      Inr (xs @ map attribute_item_values (concat (map tree_items us)))" if "set us \<subseteq> set ts" for us xs
    using that by (induction us arbitrary: xs) (simp_all add: step)
  from this [of ts xs] show ?case
    using Attributes_Branch.prems(2,3) block
      fold_max_ge(1) [of 0 "map tree_depth ts"]
    by (subst attributes_get_from_block_eq) (auto simp: attributes_read_branch_describes)
qed


definition example_branch :: "u8 list" where
  "example_branch =
     [0, 0, 0, 0, 0, 0, 0, 0, 0x3e, 0xbe, 0, 0] @ [0, 1, 0, 0] @ [0, 0, 0, 0, 0, 0, 0, 1] @ replicate 40 0"

definition example_tree_io :: io_handle where
  "example_tree_io = io_handle_zero\<lparr> io_format_version := 4, io_block_size := 64,
     io_allocation_group_size := 100, io_number_of_relative_block_number_bits := 8 \<rparr>"

definition example_tree_file :: file_io where
  "example_tree_file off n = Some (if off = 320 then example_branch else example_leaf)"

definition example_tree_inode :: inode where
  "example_tree_inode = inode_zero\<lparr> in_attributes_extents_array :=
     Some [\<lparr> ex_logical_block_number = 0, ex_physical_block_number = 5, ex_number_of_blocks = 2,
             ex_range_flags = 0 \<rparr>] \<rparr>"

abbreviation example_tree :: attributes_tree where
  "example_tree \<equiv>
     Attributes_Branch 0 [Attributes_Leaf 1 [(1, [0x63], []), (3, [0x61, 0x62], [7, 8])]]"

lemma example_tree_blocks:
  "read_attributes_block example_tree_io example_tree_file example_tree_inode 0 =
     Inr \<lparr> fsb_data = example_branch, fsb_data_size = 64,
       fsb_header = Some \<lparr> fsbh_signature = 0x3ebe, fsbh_next_block_number = 0, fsbh_previous_block_number = 0 \<rparr> \<rparr>"
  "read_attributes_block example_tree_io example_tree_file example_tree_inode 1 =
     Inr \<lparr> fsb_data = example_leaf, fsb_data_size = 64,
       fsb_header = Some \<lparr> fsbh_signature = 0x3bee, fsbh_next_block_number = 0, fsbh_previous_block_number = 0 \<rparr> \<rparr>"
  by (simp_all add: read_attributes_block_def attributes_find_extent_def example_tree_inode_def inode_zero_def
      libfsxfs_inode_get_number_of_attributes_extents_def array_get_number_of_entries_def
      example_tree_io_def io_handle_zero_def attributes_block_offset_def block_number_to_block_def
      relative_block_number_def allocation_group_index_def example_tree_file_def extent_end_def
      libfsxfs_file_system_block_initialize_def libfsxfs_file_system_block_read_file_io_handle_def
      read_buffer_at_offset_def libfsxfs_file_system_block_read_data_def
      libfsxfs_file_system_block_header_initialize_def libfsxfs_file_system_block_header_read_data_def
      file_system_block_header_data_size_def file_system_block_header_zero_def be_reads
      example_branch_def example_leaf_def be_word_def)

lemma example_tree_stored:
  "tree_stored example_tree_io example_tree_file example_tree_inode example_tree"
proof -
  have "branch_describes example_tree_io example_branch [1]"
    by (simp add: branch_describes_def branch_entries_offset_def example_tree_io_def io_handle_zero_def
        example_branch_def be_bytes_2 be_bytes_4)
  moreover have "leaf_describes example_tree_io example_leaf [(1, [0x63], []), (3, [0x61, 0x62], [7, 8])]"
    using example_leaf_describes
    by (simp add: leaf_describes_def leaf_entries_offset_def example_tree_io_def)
  ultimately show ?thesis
    by (simp add: example_tree_blocks block_signature_def)
qed


end
