(* ===== verification/Utf8.thy ===== *)
theory Utf8
  imports File_System
begin

text \<open>
  The UTF-8 encoding as an instance of what is relied on of the Unicode library: a character is up to
  four units, the first of which tells their number, and the copy functions take apart and put together.
\<close>

definition utf8_valid :: "u32 \<Rightarrow> bool" where
  "utf8_valid c \<longleftrightarrow> c < 0x110000"

definition utf8_units :: "u32 \<Rightarrow> u8 list" where
  "utf8_units c =
     (let n = unat c; unit = (\<lambda>k. word_of_nat k :: u8) in
      if n < 0x80 then [unit n]
      else if n < 0x800 then [unit (0xc0 + n div 64), unit (0x80 + n mod 64)]
      else if n < 0x10000 then [unit (0xe0 + n div 4096), unit (0x80 + n div 64 mod 64), unit (0x80 + n mod 64)]
      else [unit (0xf0 + n div 262144), unit (0x80 + n div 4096 mod 64), unit (0x80 + n div 64 mod 64),
            unit (0x80 + n mod 64)])"

fun utf8_rest :: "nat \<Rightarrow> u8 list \<Rightarrow> nat \<Rightarrow> nat \<Rightarrow> (u32 \<times> nat) result" where
  "utf8_rest 0 s i n = Inr (word_of_nat n, i)"
| "utf8_rest (Suc k) s i n =
     (if i < length s \<and> 0x80 \<le> s ! i \<and> s ! i < 0xc0 then utf8_rest k s (i + 1) (n * 64 + (unat (s ! i) - 0x80))
      else Inl Generic)"

definition utf8_copy :: "u8 unicode_copy" where
  "utf8_copy s i =
     (if i \<ge> length s then Inl Value_Out_Of_Bounds else
      let n = unat (s ! i) in
      if n < 0x80 then utf8_rest 0 s (i + 1) n
      else if n < 0xc0 then Inl Generic
      else if n < 0xe0 then utf8_rest 1 s (i + 1) (n - 0xc0)
      else if n < 0xf0 then utf8_rest 2 s (i + 1) (n - 0xe0)
      else utf8_rest 3 s (i + 1) (n - 0xf0))"

lemma utf8_rest_advances:
  "i \<le> length s \<Longrightarrow> fault_free (utf8_rest k s i n) \<and> (\<forall>c j. utf8_rest k s i n = Inr (c, j) \<longrightarrow> i \<le> j \<and> j \<le> length s)"
proof (induction k s i n rule: utf8_rest.induct)
  case (2 k s i n)
  then show ?case by (auto simp: Suc_le_eq)
qed simp

lemma utf8_copy_advances: "unicode_advances utf8_copy"
  unfolding unicode_advances_def
proof (intro allI conjI impI)
  fix s i
  have r: "fault_free (utf8_rest k s (i + 1) n) \<and> (\<forall>c j. utf8_rest k s (i + 1) n = Inr (c, j) \<longrightarrow> i + 1 \<le> j \<and> j \<le> length s)"
    if "i < length s" for k n
    using that by (intro utf8_rest_advances) simp
  show "fault_free (utf8_copy s i)" using r by (auto simp: utf8_copy_def Let_def not_le)
  fix c j assume "i < length s" "utf8_copy s i = Inr (c, j)"
  then show "i < j" "j \<le> length s"
    using r by (auto simp: utf8_copy_def Let_def Suc_le_eq split: if_split_asm)
qed

lemma utf8_unit: "k < 256 \<Longrightarrow> unat (word_of_nat k :: u8) = k"
  by (simp add: unat_of_nat)

lemma utf8_rest_unit:
  assumes "k < 64" and "length pre = i"
  shows "utf8_rest (Suc m) (pre @ word_of_nat (0x80 + k) # rest) i n =
    utf8_rest m (pre @ word_of_nat (0x80 + k) # rest) (i + 1) (n * 64 + k)"
  using assms utf8_unit [of "0x80 + k"] by (simp add: nth_append word_le_nat_alt word_less_nat_alt)

lemma utf8_digits:
  fixes n :: nat
  shows "n div 64 * 64 + n mod 64 = n" and "(n div 4096 * 64 + n div 64 mod 64) * 64 + n mod 64 = n"
    and "((n div 262144 * 64 + n div 4096 mod 64) * 64 + n div 64 mod 64) * 64 + n mod 64 = n"
proof -
  have d: "n div 4096 = n div 64 div 64" "n div 262144 = n div 4096 div 64"
    by (simp_all add: div_mult2_eq [symmetric])
  show a: "n div 64 * 64 + n mod 64 = n" by (rule div_mult_mod_eq)
  show b: "(n div 4096 * 64 + n div 64 mod 64) * 64 + n mod 64 = n"
    unfolding d(1) by (simp only: div_mult_mod_eq)
  show "((n div 262144 * 64 + n div 4096 mod 64) * 64 + n div 64 mod 64) * 64 + n mod 64 = n"
    unfolding d(2) by (simp only: div_mult_mod_eq b)
qed

lemma utf8_copy_first:
  assumes "k < 256"
  shows "utf8_copy (pre @ word_of_nat k # rest) (length pre) =
    (if k < 0x80 then utf8_rest 0 (pre @ word_of_nat k # rest) (length pre + 1) k
     else if k < 0xc0 then Inl Generic
     else if k < 0xe0 then utf8_rest 1 (pre @ word_of_nat k # rest) (length pre + 1) (k - 0xc0)
     else if k < 0xf0 then utf8_rest 2 (pre @ word_of_nat k # rest) (length pre + 1) (k - 0xe0)
     else utf8_rest 3 (pre @ word_of_nat k # rest) (length pre + 1) (k - 0xf0))"
  using utf8_unit [OF assms] by (simp add: utf8_copy_def Let_def)

text \<open>The units behind the first one, one after the other.\<close>

lemma utf8_rest_units:
  assumes "\<forall>k \<in> set ks. k < 64" and "length pre = i"
  shows "utf8_rest (length ks) (pre @ map (\<lambda>k. word_of_nat (0x80 + k)) ks @ rest) i n =
    Inr (word_of_nat (foldl (\<lambda>n k. n * 64 + k) n ks), i + length ks)"
  using assms
proof (induction ks arbitrary: pre i n)
  case (Cons k ks)
  have "utf8_rest (length ks) ((pre @ [word_of_nat (0x80 + k)]) @ map (\<lambda>k. word_of_nat (0x80 + k)) ks @ rest)
      (i + 1) (n * 64 + k) = Inr (word_of_nat (foldl (\<lambda>n k. n * 64 + k) (n * 64 + k) ks), i + 1 + length ks)"
    using Cons.prems by (intro Cons.IH) simp_all
  with Cons.prems utf8_rest_unit [of k pre i "length ks"] show ?case by simp
qed simp

lemma utf8_copy_continued:
  assumes "k < 256" and "0xc0 \<le> k" and "\<forall>k \<in> set ks. k < 64"
    and "(length ks, m) = (if k < 0xe0 then (1, k - 0xc0) else if k < 0xf0 then (2, k - 0xe0) else (3, k - 0xf0))"
    and "foldl (\<lambda>n k. n * 64 + k) m ks = n"
  shows "utf8_copy (pre @ (word_of_nat k # map (\<lambda>k. word_of_nat (0x80 + k)) ks) @ rest) (length pre) =
    Inr (word_of_nat n, length pre + length (word_of_nat k # map (\<lambda>k. word_of_nat (0x80 + k)) ks :: u8 list))"
proof -
  have "utf8_rest (length ks) (pre @ word_of_nat k # map (\<lambda>k. word_of_nat (0x80 + k)) ks @ rest) (length pre + 1) m =
      Inr (word_of_nat n, length pre + 1 + length ks)"
    using utf8_rest_units [OF assms(3), of "pre @ [word_of_nat k]" "length pre + 1" rest m] assms(5) by simp
  then show ?thesis
    using assms(2,4) utf8_copy_first [OF assms(1), of pre "map (\<lambda>k. word_of_nat (0x80 + k)) ks @ rest"]
    by (simp split: if_split_asm)
qed

lemma utf8_copy_units:
  assumes "utf8_valid c"
  shows "utf8_copy (pre @ utf8_units c @ rest) (length pre) = Inr (c, length pre + length (utf8_units c))"
proof -
  define n where "n = unat c"
  have n: "n < 0x110000" "word_of_nat n = c" using assms by (simp_all add: n_def utf8_valid_def word_less_nat_alt)
  consider "n < 0x80" | "0x80 \<le> n" "n < 0x800" | "0x800 \<le> n" "n < 0x10000" | "0x10000 \<le> n" by linarith
  then show ?thesis
  proof cases
    case 1
    then have "utf8_units c = [word_of_nat n]" by (simp add: utf8_units_def n_def)
    then show ?thesis using 1 n(2) utf8_copy_first [of n pre rest] by simp
  next
    case 2
    have k: "n div 64 < 32" using 2 by (intro less_mult_imp_div_less) simp
    have "utf8_units c = word_of_nat (0xc0 + n div 64) # map (\<lambda>k. word_of_nat (0x80 + k)) [n mod 64]"
      using 2 by (simp add: utf8_units_def n_def Let_def)
    then show ?thesis
      using utf8_copy_continued [of "0xc0 + n div 64" "[n mod 64]" "n div 64" n pre rest] k utf8_digits(1) [of n] n(2)
      by simp
  next
    case 3
    have k: "n div 4096 < 16" using 3 by (intro less_mult_imp_div_less) simp
    have "utf8_units c =
        word_of_nat (0xe0 + n div 4096) # map (\<lambda>k. word_of_nat (0x80 + k)) [n div 64 mod 64, n mod 64]"
      using 3 by (simp add: utf8_units_def n_def Let_def)
    then show ?thesis
      using utf8_copy_continued [of "0xe0 + n div 4096" "[n div 64 mod 64, n mod 64]" "n div 4096" n pre rest] k
        utf8_digits(2) [of n] n(2)
      by simp
  next
    case 4
    have k: "n div 262144 < 5" using n(1) by (intro less_mult_imp_div_less) simp
    have "utf8_units c = word_of_nat (0xf0 + n div 262144) #
        map (\<lambda>k. word_of_nat (0x80 + k)) [n div 4096 mod 64, n div 64 mod 64, n mod 64]"
      using 4 by (simp add: utf8_units_def n_def Let_def)
    then show ?thesis
      using utf8_copy_continued [of "0xf0 + n div 262144" "[n div 4096 mod 64, n div 64 mod 64, n mod 64]"
          "n div 262144" n pre rest] k utf8_digits(3) [of n] n(2)
      by simp
  qed
qed

lemma utf8_decodes: "unicode_decodes utf8_copy utf8_units utf8_valid"
  unfolding unicode_decodes_def
  using utf8_copy_units by (auto simp: utf8_units_def Let_def utf8_valid_def)

end
