(* ===== verification/Mount_Path_String.thy ===== *)
theory Mount_Path_String
  imports Utf8
begin

text \<open>
  Paths of the mount tool (\<open>fsxfstools/mount_path_string.c\<close>): characters of a file name that a path
  of the operating system cannot hold are escaped, and the escapes of a path are resolved before the
  path is looked up. The model is that of a system with narrow strings, where the separator is
  the slash and the escape character is the backslash.
\<close>

subsection \<open>Strings\<close>

abbreviation (input) LIBCPATH_SEPARATOR :: "'a::len word" where
  "LIBCPATH_SEPARATOR \<equiv> 0x2f"

abbreviation (input) ESCAPE_CHARACTER :: "'a::len word" where
  "ESCAPE_CHARACTER \<equiv> 0x5c"

text \<open>The string in a buffer ends at the first end of string character.\<close>

definition string_of_buffer :: "u8 list \<Rightarrow> u8 list" where
  "string_of_buffer buffer = takeWhile (\<lambda>b. b \<noteq> 0) buffer"

text \<open>
  A string is written to a buffer from its start on; \<open>write character size string\<close> stands for
  \<open>libuna_unicode_character_copy_to_utf8\<close>, that appends a character to what was written to a buffer
  of \<open>size\<close> units. What the allocated buffer holds behind the string is not known: \<open>fresh size\<close>.
\<close>

type_synonym 'a unicode_write = "u32 \<Rightarrow> nat \<Rightarrow> 'a list \<Rightarrow> 'a list result"

definition terminate_string :: "(nat \<Rightarrow> u8 list) \<Rightarrow> nat \<Rightarrow> u8 list \<Rightarrow> u8 list result" where
  "terminate_string fresh buffer_size string =
     (if length string \<ge> buffer_size then Inl Value_Out_Of_Bounds
      else Inr (string @ 0 # drop (length string + 1) (fresh buffer_size)))"

text \<open>
  The format \<open>%0<width>x\<close>, and \<open>snprintf\<close> behind what was written: the index moves by the size of the
  whole text also when the buffer is too small for it. An index behind the buffer is undefined.
\<close>

definition hex_digit :: "nat \<Rightarrow> u8" where
  "hex_digit d = (if d < 10 then word_of_nat (0x30 + d) else word_of_nat (0x61 + (d - 10)))"

fun hex_digits :: "nat \<Rightarrow> u8 list" where
  "hex_digits n = (if n < 16 then [hex_digit n] else hex_digits (n div 16) @ [hex_digit (n mod 16)])"

declare hex_digits.simps [simp del]

definition hex_padded :: "nat \<Rightarrow> nat \<Rightarrow> u8 list" where
  "hex_padded width n = replicate (width - length (hex_digits n)) 0x30 @ hex_digits n"

definition print_at_end :: "nat \<Rightarrow> u8 list \<Rightarrow> u8 list \<Rightarrow> u8 list result" where
  "print_at_end buffer_size string text =
     (if length string > buffer_size then Inl (Undefined Out_Of_Bounds_Write) else Inr (string @ text))"

subsection \<open>Numbers\<close>

fun hexadecimal_value :: "u8 list \<Rightarrow> u32 \<Rightarrow> u32 result" where
  "hexadecimal_value [] value_32bit = Inr value_32bit"
| "hexadecimal_value (character # string) value_32bit =
     (let value_32bit = push_bit 4 value_32bit in
      if 0x30 \<le> character \<and> character \<le> 0x39
      then hexadecimal_value string (value_32bit OR ucast (character - 0x30))
      else if 0x61 \<le> character \<and> character \<le> 0x66
      then hexadecimal_value string (value_32bit OR ucast (character - 0x61 + 10))
      else Inl Unsupported_Value)"

definition mount_path_string_copy_hexadecimal_to_integer_32_bit :: "u8 list \<Rightarrow> u32 result" where
  "mount_path_string_copy_hexadecimal_to_integer_32_bit string =
     (if length string = 0 \<or> length string > SSIZE_MAX then Inl Value_Out_Of_Bounds
      else hexadecimal_value string 0)"

subsection \<open>Escaping\<close>

definition character_escaped_x :: "u32 \<Rightarrow> bool" where
  "character_escaped_x c \<longleftrightarrow> c \<le> 0x1f \<or> c = LIBCPATH_SEPARATOR \<or> (0x7f \<le> c \<and> c \<le> 0x9f)"

definition character_escaped_U :: "u32 \<Rightarrow> bool" where
  "character_escaped_U c \<longleftrightarrow>
     (0x2028 \<le> c \<and> c \<le> 0x2029) \<or> (0xd800 \<le> c \<and> c \<le> 0xdfff) \<or> c = 0xe000 \<or> c = 0xf8ff \<or>
     (0xfdd0 \<le> c \<and> c \<le> 0xfddf) \<or> (0xfffe \<le> c AND 0xffff \<and> c AND 0xffff \<le> 0xffff) \<or>
     c = 0xf0000 \<or> c = 0xffffd \<or> c = 0x100000 \<or> c \<ge> 0x10fffd"

definition path_append_character ::
    "u8 unicode_write \<Rightarrow> nat \<Rightarrow> u32 \<Rightarrow> u8 list \<Rightarrow> u8 list result" where
  "path_append_character write buffer_size c path =
     (if character_escaped_x c then
        print_at_end buffer_size path ([ESCAPE_CHARACTER, 0x78] @ hex_padded 2 (unat c))
      else if character_escaped_U c then
        print_at_end buffer_size path ([ESCAPE_CHARACTER, 0x55] @ hex_padded 8 (unat c))
      else if c = ESCAPE_CHARACTER then
        if length path + 2 > buffer_size then Inl Value_Out_Of_Bounds
        else Inr (path @ [ESCAPE_CHARACTER, ucast c])
      else write c buffer_size path)"

text \<open>The loop over the characters ends at an end of string character. \<open>None\<close> is a loop without end.\<close>

partial_function (option) path_escape_loop ::
    "u8 unicode_copy \<Rightarrow> u8 unicode_write \<Rightarrow> nat \<Rightarrow> u8 list \<Rightarrow> nat \<Rightarrow> u8 list \<Rightarrow> u8 list result option" where
  "path_escape_loop copy write buffer_size file_entry_path index path =
     (if index < length file_entry_path then
        (case copy file_entry_path index of
           Inl e \<Rightarrow> Some (Inl e)
         | Inr r \<Rightarrow>
             if fst r = 0 then Some (Inr path) else
             (case path_append_character write buffer_size (fst r) path of
                Inl e \<Rightarrow> Some (Inl e)
              | Inr path \<Rightarrow> path_escape_loop copy write buffer_size file_entry_path (snd r) path))
      else Some (Inr path))"

text \<open>The result is the buffer; its size, ten times that of the name, is returned along with it.\<close>

definition mount_path_string_copy_from_file_entry_path ::
    "(nat \<Rightarrow> u8 list) \<Rightarrow> u8 unicode_copy \<Rightarrow> u8 unicode_write \<Rightarrow> u8 list \<Rightarrow> (u8 list \<times> nat) result option" where
  "mount_path_string_copy_from_file_entry_path fresh copy write file_entry_path =
     (if length file_entry_path = 0 \<or> length file_entry_path > SSIZE_MAX - 1
      then Some (Inl Value_Out_Of_Bounds) else
      if length file_entry_path > (SSIZE_MAX - 1) div 10 then Some (Inl Value_Exceeds_Maximum) else
      let buffer_size = length file_entry_path * 10 + 1 in
      (case path_escape_loop copy write buffer_size file_entry_path 0 [] of
         None \<Rightarrow> None
       | Some r \<Rightarrow>
           Some (bindE r (\<lambda>path.
                 bindE (terminate_string fresh buffer_size path) (\<lambda>buffer. Inr (buffer, buffer_size))))))"

subsection \<open>Resolving escapes\<close>

text \<open>
  What follows an escape character: the character that is meant and the index behind the escape.
\<close>

definition path_escaped_value ::
    "u8 list \<Rightarrow> nat \<Rightarrow> nat \<Rightarrow> (u32 \<Rightarrow> bool) \<Rightarrow> (u32 \<times> nat) result" where
  "path_escaped_value path index digits allowed =
     (if index + digits > length path then Inl Value_Out_Of_Bounds else
      bindE (mount_path_string_copy_hexadecimal_to_integer_32_bit (take digits (drop index path)))
        (\<lambda>escaped_value.
      if allowed escaped_value then Inr (escaped_value, index + digits) else Inl Value_Out_Of_Bounds))"

definition path_escaped_character :: "u8 list \<Rightarrow> nat \<Rightarrow> (u32 \<times> nat) result" where
  "path_escaped_character path index =
     (if index + 1 > length path then Inl Value_Out_Of_Bounds else
      let character = path ! index; index = index + 1 in
      if character = ESCAPE_CHARACTER then Inr (ucast character, index)
      else if character = 0x78 then path_escaped_value path index 2 (\<lambda>v. v \<noteq> 0 \<and> character_escaped_x v)
      else if character = 0x55 then path_escaped_value path index 8 character_escaped_U
      else Inl Unsupported_Value)"

definition path_next_character :: "u8 unicode_copy \<Rightarrow> u8 list \<Rightarrow> nat \<Rightarrow> (u32 \<times> nat) result" where
  "path_next_character copy path index =
     bindE (copy path index) (\<lambda>(c, index).
     if c = LIBCPATH_SEPARATOR then Inr (LIBFSXFS_SEPARATOR, index)
     else if c = ESCAPE_CHARACTER then path_escaped_character path index
     else Inr (c, index))"

partial_function (option) path_unescape_loop ::
    "u8 unicode_copy \<Rightarrow> u8 unicode_write \<Rightarrow> nat \<Rightarrow> u8 list \<Rightarrow> nat \<Rightarrow> u8 list \<Rightarrow> u8 list result option" where
  "path_unescape_loop copy write buffer_size path index file_entry_path =
     (if index < length path then
        (case path_next_character copy path index of
           Inl e \<Rightarrow> Some (Inl e)
         | Inr r \<Rightarrow>
             (case write (fst r) buffer_size file_entry_path of
                Inl e \<Rightarrow> Some (Inl e)
              | Inr file_entry_path \<Rightarrow> path_unescape_loop copy write buffer_size path (snd r) file_entry_path))
      else Some (Inr file_entry_path))"

text \<open>The path must be absolute, as it is in a mounted file system.\<close>

definition mount_path_string_copy_to_file_entry_path ::
    "(nat \<Rightarrow> u8 list) \<Rightarrow> u8 unicode_copy \<Rightarrow> u8 unicode_write \<Rightarrow> u8 list \<Rightarrow> (u8 list \<times> nat) result option" where
  "mount_path_string_copy_to_file_entry_path fresh copy write path =
     (if length path = 0 \<or> length path > SSIZE_MAX - 1 then Some (Inl Value_Out_Of_Bounds) else
      if path ! 0 \<noteq> LIBCPATH_SEPARATOR then Some (Inl Unsupported_Value) else
      let buffer_size = length path + 1 in
      if buffer_size > SSIZE_MAX then Some (Inl Value_Exceeds_Maximum) else
      (case path_unescape_loop copy write buffer_size path 0 [] of
         None \<Rightarrow> None
       | Some r \<Rightarrow>
           Some (bindE r (\<lambda>file_entry_path.
                 bindE (terminate_string fresh buffer_size file_entry_path) (\<lambda>buffer. Inr (buffer, buffer_size))))))"

subsection \<open>Hexadecimal numbers are read as they are printed\<close>

lemma push_bit_4_or_digit:
  fixes v :: u32
  assumes "d < 16"
  shows "push_bit 4 v OR word_of_nat d = v * 16 + word_of_nat d"
proof -
  have "\<not> bit d k" if "4 \<le> k" for k
  proof -
    have "d < 2 ^ k" using assms power_increasing [OF that, of "2 :: nat"] by simp
    then show ?thesis by (simp add: bit_iff_odd)
  qed
  then have "push_bit 4 v AND word_of_nat d = 0"
    by (intro bit_word_eqI) (auto simp: bit_simps)
  then have "push_bit 4 v OR word_of_nat d = push_bit 4 v + word_of_nat d"
    by (rule disjunctive_add_eq_or [symmetric])
  then show ?thesis by (simp add: push_bit_eq_mult mult.commute)
qed

lemma hexadecimal_value_append:
  "hexadecimal_value (xs @ ys) v = bindE (hexadecimal_value xs v) (hexadecimal_value ys)"
  by (induction xs arbitrary: v) (simp_all add: Let_def)

lemma hexadecimal_value_digit:
  assumes "d < 16"
  shows "hexadecimal_value [hex_digit d] v = Inr (v * 16 + word_of_nat d)"
proof -
  have "\<forall>d \<in> set [0..<16]. hexadecimal_value [hex_digit d] v = Inr (push_bit 4 v OR word_of_nat d)"
    by (simp add: upt_rec hex_digit_def Let_def)
  then show ?thesis using assms by (simp add: push_bit_4_or_digit)
qed

lemma hexadecimal_value_digits:
  "hexadecimal_value (hex_digits n) v = Inr (v * 16 ^ length (hex_digits n) + word_of_nat n)"
proof (induction n arbitrary: v rule: hex_digits.induct)
  case (1 n)
  show ?case
  proof (cases "n < 16")
    case True
    then show ?thesis using hexadecimal_value_digit [of n v] by (simp add: hex_digits.simps [of n])
  next
    case False
    have "word_of_nat n = (word_of_nat (n div 16) * 16 + word_of_nat (n mod 16) :: u32)"
      by (subst div_mult_mod_eq [of n 16, symmetric]) (simp only: of_nat_add of_nat_mult of_nat_numeral)
    with False 1 show ?thesis
      using hexadecimal_value_digit [of "n mod 16"]
      by (simp add: hex_digits.simps [of n] hexadecimal_value_append distrib_right mult.assoc)
  qed
qed

lemma hexadecimal_value_zeros: "hexadecimal_value (replicate k 0x30 @ s) 0 = hexadecimal_value s 0"
  by (induction k) (simp_all add: Let_def)

lemma hex_digits_nonempty [simp]: "hex_digits n \<noteq> []"
  by (simp add: hex_digits.simps [of n])

lemma hex_digits_length: "n < 16 ^ w \<Longrightarrow> w > 0 \<Longrightarrow> length (hex_digits n) \<le> w"
proof (induction n arbitrary: w rule: hex_digits.induct)
  case (1 n)
  show ?case
  proof (cases "n < 16")
    case True
    then show ?thesis using 1(3) by (simp add: hex_digits.simps [of n])
  next
    case False
    then obtain u where w: "w = Suc u" "u > 0" using 1(2,3) by (cases w; cases "w - 1") auto
    then have "n div 16 < 16 ^ u" using 1(2) by (simp add: less_mult_imp_div_less mult.commute)
    then show ?thesis using False 1(1) [OF False _ w(2)] w(1) by (simp add: hex_digits.simps [of n])
  qed
qed

lemma hex_padded_length: "n < 16 ^ w \<Longrightarrow> w > 0 \<Longrightarrow> length (hex_padded w n) = w"
  using hex_digits_length [of n w] by (simp add: hex_padded_def)

lemma hex_padded_value:
  assumes "n < 16 ^ w" and "0 < w" and "w \<le> 8"
  shows "mount_path_string_copy_hexadecimal_to_integer_32_bit (hex_padded w n) = Inr (word_of_nat n)"
proof -
  have "hexadecimal_value (hex_padded w n) 0 = Inr (word_of_nat n)"
    by (simp add: hex_padded_def hexadecimal_value_zeros hexadecimal_value_digits)
  then show ?thesis
    using assms hex_padded_length [of n w]
    by (simp add: mount_path_string_copy_hexadecimal_to_integer_32_bit_def)
qed

subsection \<open>Escaped names are resolved to what they were\<close>

text \<open>
  What the Unicode library is relied on for: a valid character is appended in at most four units when
  there is space for them, the characters of ASCII as themselves and all others in units of 128 and more.
\<close>

definition unicode_writes ::
    "'a::len word unicode_write \<Rightarrow> (u32 \<Rightarrow> 'a word list) \<Rightarrow> (u32 \<Rightarrow> bool) \<Rightarrow> bool" where
  "unicode_writes write encode valid \<longleftrightarrow>
     (\<forall>c n s. valid c \<longrightarrow> write c n s =
        (if length s + length (encode c) \<le> n then Inr (s @ encode c) else Inl Value_Out_Of_Bounds)) \<and>
     (\<forall>c. valid c \<longrightarrow> 0x80 \<le> c \<longrightarrow> length (encode c) \<le> 4 \<and> (\<forall>b \<in> set (encode c). 0x80 \<le> b)) \<and>
     (\<forall>c. c < 0x80 \<longrightarrow> valid c \<and> encode c = [ucast c])"

definition character_name :: "(u32 \<Rightarrow> bool) \<Rightarrow> u32 list \<Rightarrow> bool" where
  "character_name valid cs \<longleftrightarrow> (\<forall>c \<in> set cs. valid c \<and> c \<noteq> 0)"

definition escaped_units :: "(u32 \<Rightarrow> u8 list) \<Rightarrow> u32 \<Rightarrow> u8 list" where
  "escaped_units encode c =
     (if character_escaped_x c then [ESCAPE_CHARACTER, 0x78] @ hex_padded 2 (unat c)
      else if character_escaped_U c then [ESCAPE_CHARACTER, 0x55] @ hex_padded 8 (unat c)
      else if c = ESCAPE_CHARACTER then [ESCAPE_CHARACTER, ESCAPE_CHARACTER]
      else encode c)"

lemma unicode_writesD:
  assumes "unicode_writes write encode valid"
  shows "valid c \<Longrightarrow> length s + length (encode c) \<le> n \<Longrightarrow> write c n s = Inr (s @ encode c)"
    and "valid c \<Longrightarrow> length (encode c) \<le> 4"
    and "valid c \<Longrightarrow> 0x80 \<le> c \<Longrightarrow> b \<in> set (encode c) \<Longrightarrow> 0x80 \<le> b"
    and "c < 0x80 \<Longrightarrow> valid c \<and> encode c = [ucast c]"
proof -
  have h: "valid c \<Longrightarrow> 0x80 \<le> c \<Longrightarrow> length (encode c) \<le> 4 \<and> (\<forall>b \<in> set (encode c). 0x80 \<le> b)"
    "c < 0x80 \<Longrightarrow> valid c \<and> encode c = [ucast c]"
    using assms unfolding unicode_writes_def by blast+
  show "valid c \<Longrightarrow> length s + length (encode c) \<le> n \<Longrightarrow> write c n s = Inr (s @ encode c)"
    using assms by (simp add: unicode_writes_def)
  show "valid c \<Longrightarrow> length (encode c) \<le> 4" using h by (cases "c < 0x80") auto
  show "valid c \<Longrightarrow> 0x80 \<le> c \<Longrightarrow> b \<in> set (encode c) \<Longrightarrow> 0x80 \<le> b" using h by blast
  show "c < 0x80 \<Longrightarrow> valid c \<and> encode c = [ucast c]" by (rule h)
qed

lemma escaped_x_bound: "character_escaped_x c \<Longrightarrow> unat c < 16 ^ 2"
  by (auto simp: character_escaped_x_def word_le_nat_alt)

lemma escaped_x_length: "character_escaped_x c \<Longrightarrow> length (hex_padded 2 (unat c)) = 2"
  by (rule hex_padded_length [OF escaped_x_bound]) simp_all

lemma escaped_U_bound: "unat (c :: u32) < 16 ^ 8"
  using unsigned_less [of c] by simp

lemma escaped_U_length: "length (hex_padded 8 (unat (c :: u32))) = 8"
  by (rule hex_padded_length [OF escaped_U_bound]) simp_all

lemma escaped_units_length:
  assumes "unicode_writes write encode valid" and "valid c"
  shows "length (encode c) \<le> length (escaped_units encode c)" and "length (escaped_units encode c) \<le> 10"
    and "escaped_units encode c \<noteq> [] \<or> encode c = []"
  using unicode_writesD(2) [OF assms] unicode_writesD(4) [OF assms(1), of "ESCAPE_CHARACTER"]
  by (auto simp: escaped_units_def escaped_x_length escaped_U_length)

lemma path_append_character_escaped:
  assumes "unicode_writes write encode valid" and "valid c" and "length s + length (escaped_units encode c) \<le> n"
  shows "path_append_character write n c s = Inr (s @ escaped_units encode c)"
  using assms unicode_writesD(1) [OF assms(1,2), of s n]
  by (auto simp: path_append_character_def escaped_units_def print_at_end_def)

lemma path_escape_loop_name:
  assumes w: "unicode_writes write encode valid" and d: "unicode_decodes copy encode valid"
    and "character_name valid cs" and "length s + length (encode_name (escaped_units encode) cs) \<le> n"
  shows "path_escape_loop copy write n (pre @ encode_name encode cs) (length pre) s =
    Some (Inr (s @ encode_name (escaped_units encode) cs))"
  using assms(3,4)
proof (induction cs arbitrary: pre s)
  case Nil
  then show ?case by (subst path_escape_loop.simps) (simp add: encode_name_def)
next
  case (Cons c cs)
  have v: "valid c" "c \<noteq> 0" "character_name valid cs" using Cons.prems(1) by (simp_all add: character_name_def)
  have "path_append_character write n c s = Inr (s @ escaped_units encode c)"
    using Cons.prems(2) by (intro path_append_character_escaped [OF w v(1)]) (simp add: encode_name_def)
  moreover have "path_escape_loop copy write n ((pre @ encode c) @ encode_name encode cs)
      (length (pre @ encode c)) (s @ escaped_units encode c) =
      Some (Inr ((s @ escaped_units encode c) @ encode_name (escaped_units encode) cs))"
    using Cons.prems(2) by (intro Cons.IH v(3)) (simp add: encode_name_def)
  ultimately show ?case
    using unicode_decodesD(1,2) [OF d v(1)] v(2)
    by (subst path_escape_loop.simps) (simp add: encode_name_def add.assoc)
qed

text \<open>An escape is resolved to its character.\<close>

lemma path_escaped_value_hex:
  assumes "n < 16 ^ digits" and "0 < digits" and "digits \<le> 8" and "allowed (word_of_nat n)"
  shows "path_escaped_value (pre @ hex_padded digits n @ rest) (length pre) digits allowed =
    Inr (word_of_nat n, length pre + digits)"
  using hex_padded_length [OF assms(1,2)] hex_padded_value [OF assms(1-3)] assms(4)
  by (simp add: path_escaped_value_def)

lemma path_next_character_escaped:
  assumes w: "unicode_writes write encode valid" and d: "unicode_decodes copy encode valid"
    and c: "valid c" "c \<noteq> 0"
  shows "path_next_character copy (pre @ escaped_units encode c @ rest) (length pre) =
    Inr (c, length pre + length (escaped_units encode c))"
proof -
  have e: "copy (pre @ ESCAPE_CHARACTER # r) (length pre) = Inr (ESCAPE_CHARACTER, length pre + 1)" for r
    using unicode_writesD(4) [OF w, of "ESCAPE_CHARACTER"] unicode_decodesD(2) [OF d, of "ESCAPE_CHARACTER" pre r]
    by simp
  consider (x) "character_escaped_x c" | (U) "\<not> character_escaped_x c" "character_escaped_U c"
    | (escape) "c = ESCAPE_CHARACTER" "\<not> character_escaped_x c" "\<not> character_escaped_U c"
    | (plain) "c \<noteq> ESCAPE_CHARACTER" "\<not> character_escaped_x c" "\<not> character_escaped_U c"
    by blast
  then show ?thesis
  proof cases
    case x
    then show ?thesis
      using e path_escaped_value_hex [OF escaped_x_bound [OF x], of "\<lambda>v. v \<noteq> 0 \<and> character_escaped_x v"
          "pre @ [ESCAPE_CHARACTER, 0x78]" rest] c(2)
      by (simp add: path_next_character_def escaped_units_def path_escaped_character_def nth_append
          escaped_x_length)
  next
    case U
    then show ?thesis
      using e path_escaped_value_hex [OF escaped_U_bound, of character_escaped_U c "pre @ [ESCAPE_CHARACTER, 0x55]" rest]
      by (simp add: path_next_character_def escaped_units_def path_escaped_character_def nth_append
          escaped_U_length)
  next
    case escape
    then show ?thesis
      using e by (simp add: path_next_character_def escaped_units_def path_escaped_character_def nth_append)
  next
    case plain
    moreover have "c \<noteq> LIBCPATH_SEPARATOR" using plain(2) by (auto simp: character_escaped_x_def)
    ultimately show ?thesis
      using unicode_decodesD(2) [OF d c(1), of pre rest] by (simp add: path_next_character_def escaped_units_def)
  qed
qed

text \<open>
  A path of the mounted file system is the names with escapes, each behind a separator, the path that
  is meant the names themselves. The separators are \<open>None\<close> in the list of what is resolved in turn.
\<close>

definition separated_path :: "(u32 list \<Rightarrow> u8 list) \<Rightarrow> u32 list list \<Rightarrow> u8 list" where
  "separated_path units names = concat (map (\<lambda>cs. LIBCPATH_SEPARATOR # units cs) names)"

definition separated_units :: "(u32 \<Rightarrow> u8 list) \<Rightarrow> u32 option list \<Rightarrow> u8 list" where
  "separated_units units ts = concat (map (\<lambda>t. case t of None \<Rightarrow> [LIBCPATH_SEPARATOR] | Some c \<Rightarrow> units c) ts)"

definition name_items :: "u32 list list \<Rightarrow> u32 option list" where
  "name_items names = concat (map (\<lambda>cs. None # map Some cs) names)"

lemma separated_path_units: "separated_path (encode_name units) names = separated_units units (name_items names)"
proof -
  have "separated_units units (map Some cs) = encode_name units cs" for cs
    by (induction cs) (simp_all add: separated_units_def encode_name_def)
  then show ?thesis
    by (induction names) (simp_all add: separated_path_def name_items_def separated_units_def)
qed

lemma path_unescape_loop_units:
  assumes w: "unicode_writes write encode valid" and d: "unicode_decodes copy encode valid"
    and "\<forall>c. Some c \<in> set ts \<longrightarrow> valid c \<and> c \<noteq> 0"
    and "length s + length (separated_units encode ts) \<le> n"
  shows "path_unescape_loop copy write n (pre @ separated_units (escaped_units encode) ts) (length pre) s =
    Some (Inr (s @ separated_units encode ts))"
  using assms(3,4)
proof (induction ts arbitrary: pre s)
  case Nil
  then show ?case by (subst path_unescape_loop.simps) (simp add: separated_units_def)
next
  case (Cons t ts)
  define u where "u = (case t of None \<Rightarrow> [LIBCPATH_SEPARATOR] | Some c \<Rightarrow> escaped_units encode c)"
  define c where "c = (case t of None \<Rightarrow> LIBFSXFS_SEPARATOR | Some c \<Rightarrow> c)"
  have v: "valid c" "u \<noteq> []"
    using Cons.prems(1) unicode_writesD(4) [OF w, of LIBFSXFS_SEPARATOR] unicode_decodesD(1) [OF d, of c]
      escaped_units_length(3) [OF w, of c]
    by (auto simp: c_def u_def split: option.splits)
  have e: "separated_units encode (t # ts) = encode c @ separated_units encode ts"
    using unicode_writesD(4) [OF w, of LIBFSXFS_SEPARATOR]
    by (auto simp: separated_units_def c_def split: option.split)
  have "path_next_character copy (pre @ u @ separated_units (escaped_units encode) ts) (length pre) =
      Inr (c, length pre + length u)"
    using Cons.prems(1) path_next_character_escaped [OF w d] unicode_decodesD(3) [OF d, of pre]
    by (auto simp: u_def c_def path_next_character_def split: option.split)
  moreover have "write c n s = Inr (s @ encode c)"
    using Cons.prems(2) by (intro unicode_writesD(1) [OF w v(1)]) (simp add: e)
  moreover have "path_unescape_loop copy write n ((pre @ u) @ separated_units (escaped_units encode) ts)
      (length (pre @ u)) (s @ encode c) = Some (Inr ((s @ encode c) @ separated_units encode ts))"
    using Cons.prems by (intro Cons.IH) (auto simp: e)
  moreover have "separated_units (escaped_units encode) (t # ts) = u @ separated_units (escaped_units encode) ts"
    by (auto simp: separated_units_def u_def split: option.split)
  ultimately show ?case
    using v(2) by (subst path_unescape_loop.simps) (simp add: e)
qed

lemma separated_units_shorter:
  assumes "unicode_writes write encode valid" and "\<forall>c. Some c \<in> set ts \<longrightarrow> valid c \<and> c \<noteq> 0"
  shows "length (separated_units encode ts) \<le> length (separated_units (escaped_units encode) ts)"
  using assms(2)
proof (induction ts)
  case (Cons t ts)
  then show ?case
    using escaped_units_length(1) [OF assms(1)]
    by (fastforce simp: separated_units_def split: option.split intro: add_mono)
qed (simp add: separated_units_def)

text \<open>The units of a character that is not the end of string are none.\<close>

lemma encode_no_end:
  fixes encode :: "u32 \<Rightarrow> u8 list"
  assumes "unicode_writes write encode valid" and "valid c" and "c \<noteq> 0"
  shows "0 \<notin> set (encode c)"
proof (cases "c < 0x80")
  case True
  then have "unat c < 2 ^ 8" by (simp add: word_less_nat_alt)
  then have "unat (ucast c :: u8) = unat c" by (intro unat_ucast_fits) simp
  then have "ucast c \<noteq> (0 :: u8)" using assms(3) by (auto simp: unsigned_eq_0_iff)
  with unicode_writesD(4) [OF assms(1) True] show ?thesis by simp
next
  case False
  then have "0x80 \<le> c" by simp
  from unicode_writesD(3) [OF assms(1,2) this, of 0] show ?thesis by auto
qed

lemma string_of_buffer_end: "0 \<notin> set s \<Longrightarrow> string_of_buffer (s @ 0 # r) = s"
  unfolding string_of_buffer_def by (subst takeWhile_append2) auto

lemma string_of_terminated:
  "terminate_string fresh n s = Inr buffer \<Longrightarrow> 0 \<notin> set s \<Longrightarrow> string_of_buffer buffer = s"
  by (auto simp: terminate_string_def string_of_buffer_end split: if_split_asm)

lemma hex_digits_range: "b \<in> set (hex_digits n) \<Longrightarrow> 0x30 \<le> b \<and> b < 0x7f"
proof (induction n rule: hex_digits.induct)
  case (1 n)
  have d: "\<forall>d \<in> set [0..<16]. 0x30 \<le> hex_digit d \<and> hex_digit d < 0x7f" by (simp add: upt_rec hex_digit_def)
  show ?case
  proof (cases "n < 16")
    case True
    then show ?thesis using 1(2) d by (simp add: hex_digits.simps [of n])
  next
    case False
    then have "b \<in> set (hex_digits (n div 16)) \<or> b = hex_digit (n mod 16)"
      using 1(2) by (simp add: hex_digits.simps [of n] disj_commute)
    then show ?thesis using 1(1) [OF False] d by auto
  qed
qed

text \<open>An escaped name holds no separator and no control character.\<close>

definition plain_unit :: "u8 \<Rightarrow> bool" where
  "plain_unit b \<longleftrightarrow> 0x20 \<le> b \<and> b \<noteq> 0x7f \<and> b \<noteq> LIBCPATH_SEPARATOR"

lemma hex_padded_plain: "b \<in> set (hex_padded w n) \<Longrightarrow> plain_unit b"
proof -
  assume "b \<in> set (hex_padded w n)"
  then have "0x30 \<le> b \<and> b < 0x7f"
    using hex_digits_range [of b n] by (auto simp: hex_padded_def)
  then have "48 \<le> unat b" "unat b < 127" by (simp_all add: word_le_nat_alt word_less_nat_alt)
  then show ?thesis by (auto simp: plain_unit_def word_le_nat_alt)
qed

lemma escaped_units_plain:
  assumes w: "unicode_writes write encode valid" and c: "valid c" "c \<noteq> 0"
  shows "b \<in> set (escaped_units encode c) \<Longrightarrow> plain_unit b"
proof -
  have "plain_unit b" if b: "b \<in> set (encode c)" and x: "\<not> character_escaped_x c"
  proof (cases "c < 0x80")
    case True
    then have "unat (ucast c :: u8) = unat c" by (intro unat_ucast_fits) (simp add: word_less_nat_alt)
    moreover have "b = ucast c" using b unicode_writesD(4) [OF w True] by simp
    ultimately have "unat b = unat c" by simp
    moreover have "32 \<le> unat c" "unat c \<noteq> 47" "unat c < 127"
      using x True by (auto simp: character_escaped_x_def word_le_nat_alt word_less_nat_alt word_eq_iff_unsigned
          word_unat_eq_iff)
    ultimately show ?thesis by (auto simp: plain_unit_def word_le_nat_alt)
  next
    case False
    then have "0x80 \<le> c" by simp
    from unicode_writesD(3) [OF w c(1) this b] have "128 \<le> unat b" by (simp add: word_le_nat_alt)
    then show ?thesis by (auto simp: plain_unit_def word_le_nat_alt)
  qed
  moreover have "plain_unit ESCAPE_CHARACTER" "plain_unit 0x78" "plain_unit 0x55" by (simp_all add: plain_unit_def)
  ultimately show "b \<in> set (escaped_units encode c) \<Longrightarrow> plain_unit b"
    using hex_padded_plain by (auto simp: escaped_units_def split: if_split_asm)
qed

lemma encode_name_length:
  assumes "unicode_writes write encode valid" and "unicode_decodes copy encode valid" and "character_name valid cs"
  shows "length (encode_name (escaped_units encode) cs) \<le> length (encode_name encode cs) * 10"
  using assms(3)
proof (induction cs)
  case (Cons c cs)
  then have "valid c" "encode c \<noteq> []" using unicode_decodesD(1) [OF assms(2)] by (auto simp: character_name_def)
  then have "length (escaped_units encode c) \<le> 10 * length (encode c)"
    using escaped_units_length(2) [OF assms(1), of c] by (cases "encode c") auto
  with Cons show ?case by (simp add: character_name_def encode_name_def)
qed (simp add: encode_name_def)

lemma path_from_name:
  assumes w: "unicode_writes write encode valid" and d: "unicode_decodes copy encode valid"
    and cs: "character_name valid cs" "cs \<noteq> []" and n: "length (encode_name encode cs) \<le> (SSIZE_MAX - 1) div 10"
  defines "m \<equiv> length (encode_name encode cs) * 10 + 1"
  shows "mount_path_string_copy_from_file_entry_path fresh copy write (encode_name encode cs) =
      Some (Inr (encode_name (escaped_units encode) cs @
        0 # drop (length (encode_name (escaped_units encode) cs) + 1) (fresh m), m))"
    and "0 \<notin> set (encode_name (escaped_units encode) cs)"
    and "length (encode_name (escaped_units encode) cs) < m"
proof -
  let ?s = "encode_name (escaped_units encode) cs"
  have "encode_name encode cs \<noteq> []"
    using cs unicode_decodesD(1) [OF d] by (cases cs) (auto simp: character_name_def encode_name_def)
  moreover show l: "length ?s < m" using encode_name_length [OF w d cs(1)] by (simp add: m_def)
  moreover have "path_escape_loop copy write m (encode_name encode cs) 0 [] = Some (Inr ?s)"
    using path_escape_loop_name [OF w d cs(1), of "[]" m "[]"] l by simp
  ultimately show "mount_path_string_copy_from_file_entry_path fresh copy write (encode_name encode cs) =
      Some (Inr (?s @ 0 # drop (length ?s + 1) (fresh m), m))"
    using n by (simp add: mount_path_string_copy_from_file_entry_path_def terminate_string_def Let_def m_def)
  show "0 \<notin> set ?s"
    using escaped_units_plain [OF w, of _ 0] cs(1)
    by (auto simp: encode_name_def character_name_def plain_unit_def)
qed

lemma path_to_units:
  assumes w: "unicode_writes write encode valid" and d: "unicode_decodes copy encode valid"
    and v: "\<forall>c. Some c \<in> set ts \<longrightarrow> valid c \<and> c \<noteq> 0" and ts: "ts = None # ts'"
    and n: "length (separated_units (escaped_units encode) ts) < SSIZE_MAX"
  shows "\<exists>buffer m. mount_path_string_copy_to_file_entry_path fresh copy write
      (separated_units (escaped_units encode) ts) = Some (Inr (buffer, m)) \<and>
    string_of_buffer buffer = separated_units encode ts"
proof -
  let ?e = "separated_units (escaped_units encode) ts" and ?s = "separated_units encode ts"
  have h: "?e \<noteq> []" "?e ! 0 = LIBCPATH_SEPARATOR" by (simp_all add: ts separated_units_def)
  have l: "length ?s \<le> length ?e" by (rule separated_units_shorter [OF w v])
  have u: "path_unescape_loop copy write (length ?e + 1) ?e 0 [] = Some (Inr ?s)"
    using path_unescape_loop_units [OF w d v, of "[]" "length ?e + 1" "[]"] l by simp
  obtain buffer where b: "terminate_string fresh (length ?e + 1) ?s = Inr buffer"
    using l by (simp add: terminate_string_def)
  have "0 \<notin> set (encode c)" if "Some c \<in> set ts" for c
    using encode_no_end [OF w] v that by blast
  then have "0 \<notin> set ?s"
    by (auto simp: separated_units_def split: option.split_asm)
  then show ?thesis
    using n h u string_of_terminated [OF b] b
    by (simp add: mount_path_string_copy_to_file_entry_path_def Let_def)
qed

lemma path_to_names:
  assumes "unicode_writes write encode valid" and "unicode_decodes copy encode valid"
    and "\<forall>cs \<in> set names. character_name valid cs" and "names \<noteq> []"
    and "length (separated_path (encode_name (escaped_units encode)) names) < SSIZE_MAX"
  shows "\<exists>buffer m. mount_path_string_copy_to_file_entry_path fresh copy write
      (separated_path (encode_name (escaped_units encode)) names) = Some (Inr (buffer, m)) \<and>
    string_of_buffer buffer = separated_path (encode_name encode) names"
proof -
  have "\<forall>c. Some c \<in> set (name_items names) \<longrightarrow> valid c \<and> c \<noteq> 0"
    using assms(3) by (auto simp: name_items_def character_name_def)
  moreover obtain ts where "name_items names = None # ts" using assms(4) by (cases names) (auto simp: name_items_def)
  ultimately show ?thesis
    using path_to_units [OF assms(1,2), of "name_items names" ts fresh] assms(5) by (simp add: separated_path_units)
qed

text \<open>As characters: the control characters are those of the category Cc of Unicode, whatever the code escapes.\<close>

definition unicode_control :: "u32 \<Rightarrow> bool" where
  "unicode_control c \<longleftrightarrow> c < 0x20 \<or> (0x7f \<le> c \<and> c \<le> 0x9f)"

definition path_character :: "u32 \<Rightarrow> bool" where
  "path_character c \<longleftrightarrow> \<not> unicode_control c \<and> c \<noteq> LIBCPATH_SEPARATOR \<and> c \<noteq> 0x2028 \<and> c \<noteq> 0x2029"

lemma ascii_units_characters:
  fixes encode :: "u32 \<Rightarrow> u8 list"
  assumes w: "unicode_writes write encode valid" and "\<forall>b \<in> set bs. 0x20 \<le> b \<and> b < 0x7f"
  shows "encode_name encode (map ucast bs) = bs"
    and "c \<in> set (map ucast bs) \<Longrightarrow> valid c \<and> \<not> unicode_control c"
proof -
  have u: "unat (ucast b :: u32) = unat b" for b :: u8 by (simp add: unat_ucast_up)
  have c: "valid (ucast b) \<and> encode (ucast b) = [b]" "\<not> unicode_control (ucast b)" if "0x20 \<le> b" "b < 0x7f" for b :: u8
  proof -
    have n: "32 \<le> unat b" "unat b < 127" using that by (simp_all add: word_le_nat_alt word_less_nat_alt)
    then have "(ucast b :: u32) < 0x80" by (simp add: word_less_nat_alt u)
    moreover have "ucast (ucast b :: u32) = b" by (rule bit_word_eqI) (simp add: bit_simps)
    ultimately show "valid (ucast b) \<and> encode (ucast b) = [b]" using unicode_writesD(4) [OF w] by simp
    show "\<not> unicode_control (ucast b)" using n by (simp add: unicode_control_def word_less_nat_alt word_le_nat_alt u)
  qed
  show "encode_name encode (map ucast bs) = bs"
    using assms(2) c(1) by (induction bs) (simp_all add: encode_name_def)
  show "c \<in> set (map ucast bs) \<Longrightarrow> valid c \<and> \<not> unicode_control c" using assms(2) c by auto
qed

lemma escape_text_characters:
  assumes "unicode_writes write encode valid" and "0x20 \<le> k" and "k < 0x7f" and "k \<noteq> LIBCPATH_SEPARATOR"
  shows "\<exists>ps. ESCAPE_CHARACTER # k # hex_padded n m = encode_name encode ps \<and> (\<forall>p \<in> set ps. valid p \<and> path_character p)"
proof -
  have h: "0x30 \<le> b \<and> b < 0x7f" if "b \<in> set (hex_padded n m)" for b
    using that hex_digits_range [of b m] by (auto simp: hex_padded_def split: if_split_asm)
  let ?bs = "ESCAPE_CHARACTER # k # hex_padded n m"
  have r: "\<forall>b \<in> set ?bs. 0x20 \<le> b \<and> b < 0x7f"
    using h assms(2,3) by (auto intro: order_trans [of _ "0x30"])
  have "(ucast b :: u32) \<noteq> LIBCPATH_SEPARATOR \<and> (ucast b :: u32) \<noteq> 0x2028 \<and> (ucast b :: u32) \<noteq> 0x2029"
    if "b \<in> set ?bs" for b
  proof -
    have "b \<noteq> LIBCPATH_SEPARATOR" using that h assms(4) by force
    moreover have "unat b < 127" using bspec [OF r that] by (simp add: word_less_nat_alt)
    moreover have "unat (ucast b :: u32) = unat b" by (simp add: unat_ucast_up)
    ultimately show ?thesis by (auto simp: word_unat_eq_iff)
  qed
  then show ?thesis
    using ascii_units_characters [OF assms(1) r]
    by (intro exI [of _ "map ucast ?bs"]) (auto simp: path_character_def)
qed

lemma escaped_units_characters:
  assumes w: "unicode_writes write encode valid" and v: "valid c"
  shows "\<exists>ps. escaped_units encode c = encode_name encode ps \<and> (\<forall>p \<in> set ps. valid p \<and> path_character p)"
proof (cases "character_escaped_x c \<or> character_escaped_U c")
  case True
  then have "\<exists>k n. (k = 0x78 \<or> k = 0x55) \<and> escaped_units encode c = ESCAPE_CHARACTER # k # hex_padded n (unat c)"
    by (auto simp: escaped_units_def)
  then show ?thesis using escape_text_characters [OF w] by fastforce
next
  case False
  have e: "encode ESCAPE_CHARACTER = [ESCAPE_CHARACTER]" using unicode_writesD(4) [OF w, of ESCAPE_CHARACTER] by simp
  have "\<not> c < 0x20" using False by (auto simp: character_escaped_x_def word_le_nat_alt word_less_nat_alt)
  with False have "path_character c"
    by (auto simp: character_escaped_x_def character_escaped_U_def path_character_def unicode_control_def)
  then show ?thesis
    using False v e
    by (intro exI [of _ "if c = ESCAPE_CHARACTER then [c, c] else [c]"]) (auto simp: escaped_units_def encode_name_def)
qed

lemma escaped_name_characters:
  assumes "unicode_writes write encode valid" and "\<forall>c \<in> set cs. valid c"
  shows "\<exists>ps. encode_name (escaped_units encode) cs = encode_name encode ps \<and> (\<forall>p \<in> set ps. valid p \<and> path_character p)"
  using assms(2)
proof (induction cs)
  case Nil
  show ?case by (intro exI [of _ "[]"]) (simp add: encode_name_def)
next
  case (Cons c cs)
  then obtain ps qs where "escaped_units encode c = encode_name encode ps" "\<forall>p \<in> set ps. valid p \<and> path_character p"
    "encode_name (escaped_units encode) cs = encode_name encode qs" "\<forall>p \<in> set qs. valid p \<and> path_character p"
    using escaped_units_characters [OF assms(1), of c] by auto
  then show ?case by (intro exI [of _ "ps @ qs"]) (auto simp: encode_name_def)
qed

lemma separated_path_length:
  assumes w: "unicode_writes write encode valid" and d: "unicode_decodes copy encode valid"
    and "\<forall>cs \<in> set names. character_name valid cs"
  shows "length (separated_path (encode_name (escaped_units encode)) names) \<le>
      length (separated_path (encode_name encode) names) * 10"
    and "cs \<in> set names \<Longrightarrow> length (encode_name encode cs) \<le> length (separated_path (encode_name encode) names)"
proof -
  show "length (separated_path (encode_name (escaped_units encode)) names) \<le>
      length (separated_path (encode_name encode) names) * 10"
    using assms(3)
  proof (induction names)
    case (Cons cs names)
    then show ?case using encode_name_length [OF w d, of cs] by (simp add: separated_path_def)
  qed (simp add: separated_path_def)
  show "cs \<in> set names \<Longrightarrow> length (encode_name encode cs) \<le> length (separated_path (encode_name encode) names)"
    by (induction names) (auto simp: separated_path_def)
qed

text \<open>
  C10: The names of files, each escaped on its own, are strings without separators, without any control
  character of Unicode, those from U+80 to U+9f included, and without the separators of lines and
  paragraphs, and resolving the escapes of the path of any number of such strings gives back the path of the names.
\<close>

theorem path_string_roundtrip:
  assumes "unicode_writes write encode valid" and "unicode_decodes copy encode valid"
    and "\<forall>cs \<in> set names. character_name valid cs \<and> cs \<noteq> []" and "names \<noteq> []"
    and "length (separated_path (encode_name encode) names) \<le> (SSIZE_MAX - 1) div 10"
  shows "\<exists>escaped buffer n.
    list_all2 (\<lambda>cs s. \<exists>buffer n ps.
        mount_path_string_copy_from_file_entry_path fresh copy write (encode_name encode cs) = Some (Inr (buffer, n)) \<and>
        s = string_of_buffer buffer \<and> (\<forall>b \<in> set s. plain_unit b) \<and>
        s = encode_name encode ps \<and> (\<forall>c \<in> set ps. valid c \<and> path_character c)) names escaped \<and>
    mount_path_string_copy_to_file_entry_path fresh copy write
      (concat (map (\<lambda>s. LIBCPATH_SEPARATOR # s) escaped)) = Some (Inr (buffer, n)) \<and>
    string_of_buffer buffer = concat (map (\<lambda>cs. LIBFSXFS_SEPARATOR # encode_name encode cs) names)"
proof -
  let ?s = "encode_name (escaped_units encode)"
  have names: "\<forall>cs \<in> set names. character_name valid cs" using assms(3) by blast
  note l = separated_path_length [OF assms(1,2) names]
  have "length (separated_path ?s names) < SSIZE_MAX" using l(1) assms(5) by linarith
  note to = path_to_names [OF assms(1,2) names assms(4) this, of fresh]
  have escaped: "\<exists>buffer n ps.
        mount_path_string_copy_from_file_entry_path fresh copy write (encode_name encode cs) = Some (Inr (buffer, n)) \<and>
        ?s cs = string_of_buffer buffer \<and> (\<forall>b \<in> set (?s cs). plain_unit b) \<and>
        ?s cs = encode_name encode ps \<and> (\<forall>c \<in> set ps. valid c \<and> path_character c)" if cs: "cs \<in> set names" for cs
  proof -
    have v: "character_name valid cs" "cs \<noteq> []" "\<forall>c \<in> set cs. valid c" using cs assms(3) by (auto simp: character_name_def)
    have n: "length (encode_name encode cs) \<le> (SSIZE_MAX - 1) div 10" using l(2) [OF cs] assms(5) by simp
    have "\<forall>b \<in> set (?s cs). plain_unit b"
      using escaped_units_plain [OF assms(1)] v(1) by (auto simp: encode_name_def character_name_def)
    then show ?thesis
      using path_from_name(1) [OF assms(1,2) v(1,2) n, of fresh] path_from_name(2) [OF assms(1,2) v(1,2) n] escaped_name_characters [OF assms(1) v(3)]
      by (auto simp: string_of_buffer_end)
  qed
  then have "list_all2 (\<lambda>cs s. \<exists>buffer n ps.
        mount_path_string_copy_from_file_entry_path fresh copy write (encode_name encode cs) = Some (Inr (buffer, n)) \<and>
        s = string_of_buffer buffer \<and> (\<forall>b \<in> set s. plain_unit b) \<and>
        s = encode_name encode ps \<and> (\<forall>c \<in> set ps. valid c \<and> path_character c)) names (map ?s names)"
    by (simp add: list_all2_conv_all_nth)
  with to show ?thesis
    by (intro exI [of _ "map ?s names"]) (auto simp: separated_path_def comp_def)
qed

subsection \<open>Safety\<close>

text \<open>What the Unicode library is relied on for whatever the character: it appends at most ten units.\<close>

definition unicode_appends :: "u8 unicode_write \<Rightarrow> bool" where
  "unicode_appends write \<longleftrightarrow>
     (\<forall>c n s. fault_free (write c n s) \<and> (\<forall>s'. write c n s = Inr s' \<longrightarrow> length s' \<le> length s + 10))"

lemma path_append_character_safe:
  assumes "unicode_appends write" and "length s \<le> n"
  shows "fault_free (path_append_character write n c s)"
    and "path_append_character write n c s = Inr s' \<Longrightarrow> length s' \<le> length s + 10"
proof -
  have w: "fault_free (write c n s)" "\<And>s'. write c n s = Inr s' \<Longrightarrow> length s' \<le> length s + 10"
    using assms(1) unfolding unicode_appends_def by blast+
  show "fault_free (path_append_character write n c s)"
    using assms(2) w(1) by (simp add: path_append_character_def print_at_end_def)
  show "path_append_character write n c s = Inr s' \<Longrightarrow> length s' \<le> length s + 10"
    using w(2) [of s'] escaped_x_length [of c] escaped_U_length [of c]
    by (auto simp: path_append_character_def print_at_end_def split: if_split_asm)
qed

lemma path_escape_loop_safe:
  assumes "unicode_advances copy" and "unicode_appends write"
  shows "i \<le> length name \<Longrightarrow> length s \<le> 10 * i \<Longrightarrow>
    \<exists>r. path_escape_loop copy write (length name * 10 + 1) name i s = Some r \<and> fault_free r"
proof (induction "length name - i" arbitrary: i s rule: less_induct)
  case less
  show ?case
  proof (cases "i < length name")
    case False
    then show ?thesis by (subst path_escape_loop.simps) simp
  next
    case True
    have c: "fault_free (copy name i)" "\<And>c j. copy name i = Inr (c, j) \<Longrightarrow> i < j \<and> j \<le> length name"
      using assms(1) True unfolding unicode_advances_def by blast+
    have l: "length s \<le> length name * 10 + 1" using less.prems by simp
    note a = path_append_character_safe [OF assms(2) l]
    show ?thesis
    proof (cases "\<exists>u j s'. copy name i = Inr (u, j) \<and> u \<noteq> 0 \<and>
        path_append_character write (length name * 10 + 1) u s = Inr s'")
      case False
      then show ?thesis
        using True c(1) a(1) by (subst path_escape_loop.simps) (auto split: sum.split simp: fault_free_iff)
    next
      case found: True
      then obtain u j s' where u: "copy name i = Inr (u, j)" "u \<noteq> 0"
        "path_append_character write (length name * 10 + 1) u s = Inr s'" by blast
      then have "i < j" "j \<le> length name" "length s' \<le> 10 * j" using c(2) [OF u(1)] a(2) [OF u(3)] less.prems by auto
      then show ?thesis
        using less.hyps [of j s'] True u by (subst path_escape_loop.simps) simp
    qed
  qed
qed

lemma hexadecimal_value_safe: "fault_free (hexadecimal_value s v)"
  by (induction s v rule: hexadecimal_value.induct) (simp_all add: Let_def)

lemma path_escaped_value_safe:
  "fault_free (path_escaped_value path i n allowed)"
  "path_escaped_value path i n allowed = Inr (c, j) \<Longrightarrow> i \<le> j \<and> j \<le> length path"
  using hexadecimal_value_safe
  by (auto simp: path_escaped_value_def mount_path_string_copy_hexadecimal_to_integer_32_bit_def
      split: if_split_asm intro!: safe_intros)

lemma path_next_character_safe:
  assumes "unicode_advances copy" and "i < length path"
  shows "fault_free (path_next_character copy path i)"
    and "path_next_character copy path i = Inr (c, j) \<Longrightarrow> i < j \<and> j \<le> length path"
proof -
  have u: "fault_free (copy path i)" "\<And>c j. copy path i = Inr (c, j) \<Longrightarrow> i < j \<and> j \<le> length path"
    using assms unfolding unicode_advances_def by blast+
  have e: "fault_free (path_escaped_character path k)"
      "path_escaped_character path k = Inr (c, j) \<Longrightarrow> k < j \<and> j \<le> length path" for k c j
    using path_escaped_value_safe(1) path_escaped_value_safe(2) [of path "k + 1"]
    by (fastforce simp: path_escaped_character_def Let_def split: if_split_asm intro!: safe_intros)+
  show "fault_free (path_next_character copy path i)"
    using u(1) e(1) by (auto simp: path_next_character_def intro!: safe_intros split: prod.split)
  show "path_next_character copy path i = Inr (c, j) \<Longrightarrow> i < j \<and> j \<le> length path"
    using u(2) e(2) by (fastforce simp: path_next_character_def split: prod.split_asm if_split_asm)
qed

lemma path_unescape_loop_safe:
  assumes "unicode_advances copy" and "unicode_appends write"
  shows "\<exists>r. path_unescape_loop copy write n path i s = Some r \<and> fault_free r"
proof (induction "length path - i" arbitrary: i s rule: less_induct)
  case less
  show ?case
  proof (cases "i < length path")
    case False
    then show ?thesis by (subst path_unescape_loop.simps) simp
  next
    case True
    note c = path_next_character_safe [OF assms(1) True]
    have w: "fault_free (write u n s)" for u using assms(2) unfolding unicode_appends_def by blast
    show ?thesis
    proof (cases "\<exists>u j s'. path_next_character copy path i = Inr (u, j) \<and> write u n s = Inr s'")
      case False
      then show ?thesis
        using True c(1) w by (subst path_unescape_loop.simps) (auto split: sum.split simp: fault_free_iff)
    next
      case found: True
      then obtain u j s' where u: "path_next_character copy path i = Inr (u, j)" "write u n s = Inr s'" by blast
      then show ?thesis
        using less.hyps [of j s'] c(2) [OF u(1)] True by (subst path_unescape_loop.simps) auto
    qed
  qed
qed

text \<open>
  C17: Escaping a name and resolving the escapes of a path end for every name and every path and
  never read or write outside of the buffers, in particular the bound of ten units for a unit of
  the name is enough.
\<close>

theorem path_string_safe:
  assumes "unicode_advances copy" and "unicode_appends write"
  shows "(\<exists>r. mount_path_string_copy_from_file_entry_path fresh copy write name = Some r \<and> fault_free r) \<and>
    (\<exists>r. mount_path_string_copy_to_file_entry_path fresh copy write path = Some r \<and> fault_free r)"
proof
  have t: "fault_free (terminate_string fresh n s)" for n s by (simp add: terminate_string_def)
  show "\<exists>r. mount_path_string_copy_from_file_entry_path fresh copy write name = Some r \<and> fault_free r"
    using path_escape_loop_safe [OF assms, of 0 name "[]"] t
    by (auto simp: mount_path_string_copy_from_file_entry_path_def Let_def intro!: safe_intros)
  show "\<exists>r. mount_path_string_copy_to_file_entry_path fresh copy write path = Some r \<and> fault_free r"
    using path_unescape_loop_safe [OF assms, of "length path + 1" path 0 "[]"] t
    by (auto simp: mount_path_string_copy_to_file_entry_path_def Let_def intro!: safe_intros)
qed

subsection \<open>An example\<close>

definition utf8_write :: "u8 unicode_write" where
  "utf8_write c n s =
     (if \<not> utf8_valid c then Inl Unsupported_Value
      else if length s + length (utf8_units c) \<le> n then Inr (s @ utf8_units c) else Inl Value_Out_Of_Bounds)"

lemma utf8_units_length: "length (utf8_units c) \<le> 4"
  by (simp add: utf8_units_def Let_def)

lemma utf8_write_appends: "unicode_appends utf8_write"
  using utf8_units_length order_trans [OF utf8_units_length, of 10]
  by (auto simp: unicode_appends_def utf8_write_def)

lemma utf8_units_high:
  assumes "utf8_valid c" and "0x80 \<le> c" and "b \<in> set (utf8_units c)"
  shows "0x80 \<le> b"
proof -
  have u: "0x80 \<le> (word_of_nat (k + m) :: u8)" if "128 \<le> k" "k + m < 256" for k m
    using that utf8_unit [of "k + m"] by (simp add: word_le_nat_alt)
  have n: "128 \<le> unat c" "unat c < 0x110000"
    using assms(1,2) by (simp_all add: utf8_valid_def word_le_nat_alt word_less_nat_alt)
  have "unat c div 64 < 32" if "unat c < 0x800" using that by (intro less_mult_imp_div_less) simp
  moreover have "unat c div 4096 < 16" if "unat c < 0x10000" using that by (intro less_mult_imp_div_less) simp
  moreover have "unat c div 262144 < 5" using n(2) by (intro less_mult_imp_div_less) simp
  ultimately show ?thesis
    using assms(3) n(1) u [of 192] u [of 224] u [of 240] u [of 128 "unat c mod 64"]
      u [of 128 "unat c div 64 mod 64"] u [of 128 "unat c div 4096 mod 64"]
    by (auto simp: utf8_units_def Let_def simp del: of_nat_add split: if_split_asm)
qed

lemma utf8_units_ascii: "c < 0x80 \<Longrightarrow> utf8_valid c \<and> utf8_units c = [ucast c]"
  by (auto simp: utf8_units_def utf8_valid_def word_less_nat_alt Let_def)

lemma utf8_writes: "unicode_writes utf8_write utf8_units utf8_valid"
  using utf8_units_high utf8_units_ascii by (simp add: unicode_writes_def utf8_write_def utf8_units_length)

lemma path_string_roundtrip_witness:
  "\<exists>s t buffer n. mount_path_string_copy_to_file_entry_path (\<lambda>n. replicate n 0xff) utf8_copy utf8_write
      (0x2f # s @ 0x2f # t) = Some (Inr (buffer, n)) \<and>
    string_of_buffer buffer = [0x2f, 0x61, 0x2f, 0x0a, 0x5c, 0xc3, 0xa9, 0xe2, 0x80, 0xa8, 0x2f, 0xc2, 0x85] \<and>
    (\<exists>buffer n. mount_path_string_copy_from_file_entry_path (\<lambda>n. replicate n 0xff) utf8_copy utf8_write
      [0x61, 0x2f, 0x0a, 0x5c, 0xc3, 0xa9, 0xe2, 0x80, 0xa8] = Some (Inr (buffer, n)) \<and> s = string_of_buffer buffer)"
proof -
  have e: "encode_name utf8_units [0x61, 0x2f, 0x0a, 0x5c, 0xe9, 0x2028] =
      [0x61, 0x2f, 0x0a, 0x5c, 0xc3, 0xa9, 0xe2, 0x80, 0xa8]" "encode_name utf8_units [0x85] = [0xc2, 0x85]"
    by (simp_all add: encode_name_def utf8_units_def Let_def)
  have "\<forall>cs \<in> set [[0x61, 0x2f, 0x0a, 0x5c, 0xe9, 0x2028], [0x85]]. character_name utf8_valid cs \<and> cs \<noteq> []"
    by (simp add: character_name_def utf8_valid_def)
  from path_string_roundtrip [OF utf8_writes utf8_decodes this, where fresh = "\<lambda>n. replicate n 0xff"] show ?thesis
    by (fastforce simp: separated_path_def e list_all2_Cons1)
qed

lemma path_string_safe_witness:
  "\<exists>r. mount_path_string_copy_to_file_entry_path (\<lambda>n. replicate n 0xff) utf8_copy utf8_write
     [0x2f, 0x5c, 0x55, 0x30] = Some r \<and> fault_free r"
  using path_string_safe [OF utf8_copy_advances utf8_write_appends] by blast

end
