(* ===== verification/Mount_File_System.thy ===== *)
theory Mount_File_System
  imports Mount_Path_String Volume_Session
begin

text \<open>
  The file system of the mount tool and its file entries (\<open>fsxfstools/mount_file_system.c\<close>,
  \<open>fsxfstools/mount_file_entry.c\<close>): an open volume with the time it was mounted, and the file entries of
  the library with the names that the operating system sees.
\<close>

subsection \<open>The file system\<close>

record 'h mount_file_system =
  mfs_mounted_timestamp :: u64
  mfs_fsxfs_volume :: "'h volume option"

text \<open>\<open>clock\<close> is what \<open>clock_gettime\<close> gives, seconds and nanoseconds, or none when it fails.\<close>

definition mount_file_system_initialize ::
    "(u64 \<times> u64) option \<Rightarrow> 'h mount_file_system option \<Rightarrow> 'h mount_file_system result" where
  "mount_file_system_initialize clock pointer =
     (case pointer of
        Some _ \<Rightarrow> Inl Value_Already_Set
      | None \<Rightarrow>
          (case clock of
             None \<Rightarrow> Inl Get_Failed
           | Some (seconds, nanoseconds) \<Rightarrow>
               Inr \<lparr> mfs_mounted_timestamp = seconds * 1000000000 + nanoseconds, mfs_fsxfs_volume = None \<rparr>))"

definition mount_file_system_signal_abort :: "'h mount_file_system \<Rightarrow> 'h mount_file_system" where
  "mount_file_system_signal_abort file_system = file_system"

definition mount_file_system_set_volume ::
    "'h mount_file_system \<Rightarrow> 'h volume option \<Rightarrow> 'h mount_file_system" where
  "mount_file_system_set_volume file_system volume = file_system\<lparr> mfs_fsxfs_volume := volume \<rparr>"

definition mount_file_system_get_volume :: "'h mount_file_system \<Rightarrow> 'h volume option" where
  "mount_file_system_get_volume file_system = mfs_fsxfs_volume file_system"

definition mount_file_system_get_mounted_timestamp :: "'h mount_file_system \<Rightarrow> u64" where
  "mount_file_system_get_mounted_timestamp file_system = mfs_mounted_timestamp file_system"

text \<open>
  The functions of the libraries that the tool is linked with: of the Unicode library the comparison
  of names, the two copy functions and the conversion of a name with its size, and the contents of
  memory that was allocated.
\<close>

record libuna =
  una_compare :: "u8 name_compare"
  una_copy :: "u8 unicode_copy"
  una_write :: "u8 unicode_write"
  una_name_size :: "u8 list \<Rightarrow> nat result"
  una_name :: "nat \<Rightarrow> u8 list \<Rightarrow> u8 list result"
  una_fresh :: "nat \<Rightarrow> u8 list"

text \<open>A file system without a volume is refused by the library, there is no such volume.\<close>

definition mount_file_system_get_file_entry_by_path ::
    "'h libbfio \<Rightarrow> 's libfdata \<Rightarrow> libuna \<Rightarrow> 'h mount_file_system \<Rightarrow> u8 list \<Rightarrow> 's file_entry option result option" where
  "mount_file_system_get_file_entry_by_path bf lib una file_system path =
     (case mount_path_string_copy_to_file_entry_path (una_fresh una) (una_copy una) (una_write una) path of
        None \<Rightarrow> None
      | Some (Inl e) \<Rightarrow> Some (Inl e)
      | Some (Inr (file_entry_path, _)) \<Rightarrow>
          (case mfs_fsxfs_volume file_system of
             None \<Rightarrow> Some (Inl Invalid_Value)
           | Some volume \<Rightarrow>
               libfsxfs_volume_get_file_entry_by_utf8_path bf lib (una_compare una) (una_copy una) volume
                 (string_of_buffer file_entry_path)))"

text \<open>
  The name of a file entry with escapes: the buffer and its size. The root directory has no name.
\<close>

definition file_entry_name_buffer :: "libuna \<Rightarrow> 's file_entry \<Rightarrow> u8 list result" where
  "file_entry_name_buffer una file_entry =
     bindE (libfsxfs_file_entry_get_utf8_name_size (una_name_size una) file_entry) (\<lambda>name_size.
     case name_size of
       None \<Rightarrow> Inl Get_Failed
     | Some name_size \<Rightarrow>
         if name_size = 0 \<or> name_size > SSIZE_MAX then Inl Value_Out_Of_Bounds else
         bindE (libfsxfs_file_entry_get_utf8_name (una_name una) file_entry name_size) (\<lambda>name.
         case name of
           None \<Rightarrow> Inl Get_Failed
         | Some name \<Rightarrow> Inr (take (name_size - 1) (name @ drop (length name) (una_fresh una name_size)))))"

definition mount_file_system_get_filename_from_file_entry ::
    "libuna \<Rightarrow> 's file_entry \<Rightarrow> (u8 list \<times> nat) result option" where
  "mount_file_system_get_filename_from_file_entry una file_entry =
     (case file_entry_name_buffer una file_entry of
        Inl e \<Rightarrow> Some (Inl e)
      | Inr name \<Rightarrow>
          mount_path_string_copy_from_file_entry_path (una_fresh una) (una_copy una) (una_write una) name)"

subsection \<open>File entries\<close>

record ('h, 's) mount_file_entry =
  mfe_file_system :: "'h mount_file_system"
  mfe_name :: "u8 list option"
  mfe_name_size :: nat
  mfe_fsxfs_file_entry :: "'s file_entry"

text \<open>\<open>name\<close> is the memory that the pointer to the name points to, of which \<open>name_length\<close> bytes are copied.\<close>

definition mount_file_entry_initialize ::
    "('h, 's) mount_file_entry option \<Rightarrow> 'h mount_file_system \<Rightarrow> u8 list option \<Rightarrow> nat \<Rightarrow> 's file_entry
      \<Rightarrow> ('h, 's) mount_file_entry result" where
  "mount_file_entry_initialize pointer file_system name name_length fsxfs_file_entry =
     (case pointer of
        Some _ \<Rightarrow> Inl Value_Already_Set
      | None \<Rightarrow>
          if name_length > SSIZE_MAX - 1 then Inl Value_Exceeds_Maximum else
          (case name of
             None \<Rightarrow>
               Inr \<lparr> mfe_file_system = file_system, mfe_name = None, mfe_name_size = 0,
                     mfe_fsxfs_file_entry = fsxfs_file_entry \<rparr>
           | Some memory \<Rightarrow>
               bindE (get_bytes memory 0 name_length) (\<lambda>bytes.
               Inr \<lparr> mfe_file_system = file_system, mfe_name = Some (bytes @ [0]),
                     mfe_name_size = name_length + 1, mfe_fsxfs_file_entry = fsxfs_file_entry \<rparr>)))"

text \<open>The values of the library; on a system with POSIX times these are passed on unchanged.\<close>

definition mount_file_entry_get_creation_time :: "('h, 's) mount_file_entry \<Rightarrow> u64 result" where
  "mount_file_entry_get_creation_time file_entry =
     (case libfsxfs_file_entry_get_creation_time (mfe_fsxfs_file_entry file_entry) of
        None \<Rightarrow> Inl Get_Failed
      | Some posix_time \<Rightarrow> Inr posix_time)"

definition mount_file_entry_get_access_time :: "('h, 's) mount_file_entry \<Rightarrow> u64" where
  "mount_file_entry_get_access_time file_entry =
     libfsxfs_file_entry_get_access_time (mfe_fsxfs_file_entry file_entry)"

definition mount_file_entry_get_modification_time :: "('h, 's) mount_file_entry \<Rightarrow> u64" where
  "mount_file_entry_get_modification_time file_entry =
     libfsxfs_file_entry_get_modification_time (mfe_fsxfs_file_entry file_entry)"

definition mount_file_entry_get_inode_change_time :: "('h, 's) mount_file_entry \<Rightarrow> u64" where
  "mount_file_entry_get_inode_change_time file_entry =
     libfsxfs_file_entry_get_inode_change_time (mfe_fsxfs_file_entry file_entry)"

definition mount_file_entry_get_file_mode :: "('h, 's) mount_file_entry \<Rightarrow> u16" where
  "mount_file_entry_get_file_mode file_entry =
     (let file_mode = libfsxfs_file_entry_get_file_mode (mfe_fsxfs_file_entry file_entry) in
      if file_mode AND 0xf000 = 0xe000 then 0x8000 OR (file_mode AND 0x0fff) else file_mode)"

definition mount_file_entry_get_name_size :: "('h, 's) mount_file_entry \<Rightarrow> nat" where
  "mount_file_entry_get_name_size file_entry = mfe_name_size file_entry"

text \<open>What is written to the start of the string of the caller.\<close>

definition mount_file_entry_get_name :: "('h, 's) mount_file_entry \<Rightarrow> nat \<Rightarrow> u8 list result" where
  "mount_file_entry_get_name file_entry string_size =
     (case mfe_name file_entry of
        None \<Rightarrow> Inl Value_Missing
      | Some name \<Rightarrow>
          if string_size > SSIZE_MAX then Inl Value_Exceeds_Maximum else
          if string_size < mfe_name_size file_entry then Inl Value_Too_Small else
          bindE (get_bytes name 0 (mfe_name_size file_entry)) (\<lambda>bytes.
          Inr (bytes[mfe_name_size file_entry - 1 := 0])))"

definition mount_file_entry_get_symbolic_link_target ::
    "'s libfdata \<Rightarrow> (nat \<Rightarrow> u8 list \<Rightarrow> u8 list result) \<Rightarrow> ('h, 's) mount_file_entry \<Rightarrow> nat
      \<Rightarrow> ('h, 's) mount_file_entry \<times> u8 list result" where
  "mount_file_entry_get_symbolic_link_target lib convert file_entry string_size =
     (case libfsxfs_file_entry_get_utf8_symbolic_link_target lib convert (mfe_fsxfs_file_entry file_entry)
             string_size of
        (fsxfs_file_entry, r) \<Rightarrow>
          (file_entry\<lparr> mfe_fsxfs_file_entry := fsxfs_file_entry \<rparr>,
           bindE r (\<lambda>string. case string of None \<Rightarrow> Inl Get_Failed | Some string \<Rightarrow> Inr string)))"

definition mount_file_entry_get_number_of_sub_file_entries ::
    "('h, 's) mount_file_entry \<Rightarrow> (('h, 's) mount_file_entry \<times> nat option result) option" where
  "mount_file_entry_get_number_of_sub_file_entries file_entry =
     (case libfsxfs_file_entry_get_number_of_sub_file_entries (mfe_fsxfs_file_entry file_entry) of
        None \<Rightarrow> None
      | Some (fsxfs_file_entry, r) \<Rightarrow> Some (file_entry\<lparr> mfe_fsxfs_file_entry := fsxfs_file_entry \<rparr>, r))"

text \<open>
  The name of the sub file entry is the whole buffer of the escaped name but for its last byte.
\<close>

definition mount_sub_file_entry ::
    "libuna \<Rightarrow> 'h mount_file_system \<Rightarrow> 's file_entry \<Rightarrow> ('h, 's) mount_file_entry result option" where
  "mount_sub_file_entry una file_system sub_fsxfs_file_entry =
     (case mount_file_system_get_filename_from_file_entry una sub_fsxfs_file_entry of
        None \<Rightarrow> None
      | Some r \<Rightarrow>
          Some (bindE r (\<lambda>(filename, filename_size).
            mount_file_entry_initialize None file_system (Some filename) (filename_size - 1) sub_fsxfs_file_entry)))"

definition mount_file_entry_get_sub_file_entry_by_index ::
    "'s libfdata \<Rightarrow> libuna \<Rightarrow> ('h, 's) mount_file_entry \<Rightarrow> int \<Rightarrow> ('h, 's) mount_file_entry option
      \<Rightarrow> (('h, 's) mount_file_entry \<times> ('h, 's) mount_file_entry result) option" where
  "mount_file_entry_get_sub_file_entry_by_index lib una file_entry sub_file_entry_index pointer =
     (case pointer of
        Some _ \<Rightarrow> Some (file_entry, Inl Value_Already_Set)
      | None \<Rightarrow>
          (case libfsxfs_file_entry_get_sub_file_entry_by_index lib (mfe_fsxfs_file_entry file_entry)
                  sub_file_entry_index of
             None \<Rightarrow> None
           | Some (fsxfs_file_entry, r) \<Rightarrow>
               let file_entry = file_entry\<lparr> mfe_fsxfs_file_entry := fsxfs_file_entry \<rparr> in
               (case r of
                  Inl e \<Rightarrow> Some (file_entry, Inl e)
                | Inr sub_fsxfs_file_entry \<Rightarrow>
                    (case mount_sub_file_entry una (mfe_file_system file_entry) sub_fsxfs_file_entry of
                       None \<Rightarrow> None
                     | Some sub \<Rightarrow> Some (file_entry, sub)))))"

definition mount_file_entry_read_buffer_at_offset ::
    "'s libfdata \<Rightarrow> ('h, 's) mount_file_entry \<Rightarrow> nat \<Rightarrow> u64 \<Rightarrow> ('h, 's) mount_file_entry \<times> u8 list result" where
  "mount_file_entry_read_buffer_at_offset lib file_entry buffer_size offset =
     (case libfsxfs_file_entry_read_buffer_at_offset lib (mfe_fsxfs_file_entry file_entry) buffer_size offset of
        (fsxfs_file_entry, r) \<Rightarrow> (file_entry\<lparr> mfe_fsxfs_file_entry := fsxfs_file_entry \<rparr>, r))"

definition mount_file_entry_get_size :: "('h, 's) mount_file_entry \<Rightarrow> u64" where
  "mount_file_entry_get_size file_entry = libfsxfs_file_entry_get_size (mfe_fsxfs_file_entry file_entry)"

end
