(* ===== verification/Mount_Handle.thy ===== *)
theory Mount_Handle
  imports Mount_File_System
begin

text \<open>
  The mount handle (\<open>fsxfstools/mount_handle.c\<close>): the options of the mount tool, the volume that is
  mounted, and the file entry of a path in the mounted file system.
\<close>

subsection \<open>Numbers\<close>

fun decimal_value :: "u8 list \<Rightarrow> nat \<Rightarrow> nat \<Rightarrow> u64 \<Rightarrow> u64 result" where
  "decimal_value [] string_index maximum_string_index value_64bit = Inr value_64bit"
| "decimal_value (character # string) string_index maximum_string_index value_64bit =
     (if character = 0 then Inr value_64bit
      else if string_index > maximum_string_index then Inl Value_Too_Large
      else if 0x30 \<le> character \<and> character \<le> 0x39 then
        decimal_value string (string_index + 1) maximum_string_index
          (value_64bit * 10 + ucast (character - 0x30))
      else Inl Unsupported_Value)"

text \<open>The string is given with its end of string character. The minus sign is 45, the plus sign 43.\<close>

definition mount_handle_system_string_copy_from_64_bit_in_decimal :: "u8 list \<Rightarrow> u64 result" where
  "mount_handle_system_string_copy_from_64_bit_in_decimal string =
     (if length string > SSIZE_MAX then Inl Value_Exceeds_Maximum else
      bindE (get_bytes string 0 1) (\<lambda>first.
      if hd first = 45 then
        bindE (decimal_value (drop 1 string) 1 21 0) (\<lambda>value_64bit. Inr (value_64bit * (- 1)))
      else if hd first = 43 then decimal_value (drop 1 string) 1 21 0
      else decimal_value string 0 20 0))"

subsection \<open>The handle\<close>

text \<open>
  The file IO handle is shared with the volume, which opens and closes it: it is held as it was when
  it was handed over. A string is given without its end of string character.
\<close>

record 'h mount_handle =
  mh_file_system :: "'h mount_file_system"
  mh_file_system_index :: u32
  mh_volume_offset :: u64
  mh_file_io_handle :: "'h option"
  mh_password :: "u8 list option"
  mh_password_length :: nat
  mh_recovery_password :: "u8 list option"
  mh_recovery_password_length :: nat

definition mount_handle_initialize :: "(u64 \<times> u64) option \<Rightarrow> 'h mount_handle option \<Rightarrow> 'h mount_handle result" where
  "mount_handle_initialize clock pointer =
     (case pointer of
        Some _ \<Rightarrow> Inl Value_Already_Set
      | None \<Rightarrow>
          bindE (mount_file_system_initialize clock None) (\<lambda>file_system.
          Inr \<lparr> mh_file_system = file_system, mh_file_system_index = 0, mh_volume_offset = 0,
                mh_file_io_handle = None, mh_password = None, mh_password_length = 0,
                mh_recovery_password = None, mh_recovery_password_length = 0 \<rparr>))"

definition mount_handle_signal_abort :: "'h mount_handle \<Rightarrow> 'h mount_handle" where
  "mount_handle_signal_abort handle =
     handle\<lparr> mh_file_system := mount_file_system_signal_abort (mh_file_system handle) \<rparr>"

definition mount_handle_set_file_system_index :: "'h mount_handle \<Rightarrow> u8 list \<Rightarrow> 'h mount_handle \<times> unit result" where
  "mount_handle_set_file_system_index handle string =
     (case mount_handle_system_string_copy_from_64_bit_in_decimal (string @ [0]) of
        Inl e \<Rightarrow> (handle, Inl e)
      | Inr value_64bit \<Rightarrow>
          if value_64bit = 0 \<or> value_64bit > 100 then (handle, Inl Value_Out_Of_Bounds)
          else (handle\<lparr> mh_file_system_index := ucast value_64bit \<rparr>, Inr ()))"

definition mount_handle_set_offset :: "'h mount_handle \<Rightarrow> u8 list \<Rightarrow> 'h mount_handle \<times> unit result" where
  "mount_handle_set_offset handle string =
     (case mount_handle_system_string_copy_from_64_bit_in_decimal (string @ [0]) of
        Inl e \<Rightarrow> (handle, Inl e)
      | Inr value_64bit \<Rightarrow> (handle\<lparr> mh_volume_offset := value_64bit \<rparr>, Inr ()))"

definition mount_handle_set_password :: "'h mount_handle \<Rightarrow> u8 list option \<Rightarrow> 'h mount_handle \<times> unit result" where
  "mount_handle_set_password handle string =
     (case string of
        None \<Rightarrow> (handle, Inl Invalid_Value)
      | Some s \<Rightarrow> (handle\<lparr> mh_password := string, mh_password_length := length s \<rparr>, Inr ()))"

definition mount_handle_set_recovery_password ::
    "'h mount_handle \<Rightarrow> u8 list option \<Rightarrow> 'h mount_handle \<times> unit result" where
  "mount_handle_set_recovery_password handle string =
     (case string of
        None \<Rightarrow> (handle, Inl Invalid_Value)
      | Some s \<Rightarrow> (handle\<lparr> mh_recovery_password := string, mh_recovery_password_length := length s \<rparr>, Inr ()))"

text \<open>
  \<open>create filename offset\<close> stands for the functions of \<open>libbfio\<close> that make a handle for the range of a
  file from an offset on.
\<close>

definition mount_handle_open ::
    "'h libbfio \<Rightarrow> ('f \<Rightarrow> u64 \<Rightarrow> 'h result) \<Rightarrow> 'h mount_handle \<Rightarrow> 'f \<Rightarrow> 'h mount_handle \<times> unit result" where
  "mount_handle_open bf create handle filename =
     (case bindE (create filename (mh_volume_offset handle)) (\<lambda>file_io_handle.
           bindE (libfsxfs_volume_initialize None) (\<lambda>volume. Inr (file_io_handle, volume))) of
        Inl e \<Rightarrow> (handle, Inl e)
      | Inr (file_io_handle, volume) \<Rightarrow>
          (case libfsxfs_volume_open_file_io_handle bf volume file_io_handle 1 of
             (volume, Inl e) \<Rightarrow> (handle, Inl e)
           | (volume, Inr _) \<Rightarrow>
               (handle\<lparr> mh_file_system := mount_file_system_set_volume (mh_file_system handle) (Some volume),
                        mh_file_io_handle := Some file_io_handle \<rparr>, Inr ())))"

definition mount_handle_close :: "'h libbfio \<Rightarrow> 'h mount_handle \<Rightarrow> 'h mount_handle \<times> unit result" where
  "mount_handle_close bf handle =
     (let volume = mount_file_system_get_volume (mh_file_system handle);
          handle = handle\<lparr> mh_file_system := mount_file_system_set_volume (mh_file_system handle) None \<rparr> in
      (case libfsxfs_volume_free bf volume of
         Inl e \<Rightarrow> (handle, Inl e)
       | Inr _ \<Rightarrow>
           (case mh_file_io_handle handle of
              None \<Rightarrow> (handle, Inl Invalid_Value)
            | Some file_io_handle \<Rightarrow>
                if libbfio_handle_close bf file_io_handle
                then (handle\<lparr> mh_file_io_handle := None \<rparr>, Inr ())
                else (handle, Inl Close_Failed))))"

subsection \<open>The file entry of a path\<close>

text \<open>
  The search for the last separator, from an index down, in a string with its end of string character.
\<close>

fun last_separator :: "u8 list \<Rightarrow> nat \<Rightarrow> nat" where
  "last_separator path 0 = 0"
| "last_separator path (Suc i) = (if path ! Suc i = LIBCPATH_SEPARATOR then Suc i else last_separator path i)"

text \<open>
  A separator at the end of the path is not part of it. The name is behind the last separator; its
  length is a difference of unsigned numbers. The result is \<open>None\<close> inside when there is no such file entry.
\<close>

definition mount_handle_get_file_entry_by_path ::
    "'h libbfio \<Rightarrow> 's libfdata \<Rightarrow> libuna \<Rightarrow> 'h mount_handle \<Rightarrow> u8 list \<Rightarrow> ('h, 's) mount_file_entry option
      \<Rightarrow> ('h, 's) mount_file_entry option result option" where
  "mount_handle_get_file_entry_by_path bf lib una handle path pointer =
     (if length path = 0 then Some (Inl Value_Out_Of_Bounds) else
      let path_length = (if length path \<ge> 2 \<and> path ! (length path - 1) = LIBCPATH_SEPARATOR
                         then length path - 1 else length path);
          path_index = last_separator (path @ [0]) path_length;
          filename = drop (path_index + 1) (path @ [0]);
          filename_length = size_sub path_length (path_index + 1) in
      (case mount_file_system_get_file_entry_by_path bf lib una (mh_file_system handle)
              (take path_length path) of
         None \<Rightarrow> None
       | Some r \<Rightarrow>
           Some (bindE r (\<lambda>found.
             case found of
               None \<Rightarrow> Inr None
             | Some fsxfs_file_entry \<Rightarrow>
                 bindE (mount_file_entry_initialize pointer (mh_file_system handle) (Some filename)
                          filename_length fsxfs_file_entry) (\<lambda>file_entry. Inr (Some file_entry))))))"

subsection \<open>Numbers are read as they are printed\<close>

text \<open>The decimal digits of a number, most significant first.\<close>

fun decimal_digits :: "nat \<Rightarrow> u8 list" where
  "decimal_digits n =
     (if n < 10 then [word_of_nat (0x30 + n)] else decimal_digits (n div 10) @ [word_of_nat (0x30 + n mod 10)])"

declare decimal_digits.simps [simp del]

lemma decimal_digits_nonempty [simp]: "decimal_digits n \<noteq> []"
  by (simp add: decimal_digits.simps [of n])

definition decimal_digit :: "u8 \<Rightarrow> bool" where
  "decimal_digit b \<longleftrightarrow> 0x30 \<le> b \<and> b \<le> 0x39"

lemma decimal_digit_of_nat:
  assumes "d < 10"
  shows "decimal_digit (word_of_nat (0x30 + d))" and "ucast (word_of_nat (0x30 + d) - 0x30 :: u8) = (word_of_nat d :: u64)"
proof -
  have "\<forall>d \<in> set [0..<10]. decimal_digit (word_of_nat (0x30 + d)) \<and>
      ucast (word_of_nat (0x30 + d) - 0x30 :: u8) = (word_of_nat d :: u64)"
    by (simp add: upt_rec decimal_digit_def)
  then show "decimal_digit (word_of_nat (0x30 + d))"
    "ucast (word_of_nat (0x30 + d) - 0x30 :: u8) = (word_of_nat d :: u64)"
    using assms by auto
qed

lemma decimal_digits_digit: "b \<in> set (decimal_digits n) \<Longrightarrow> decimal_digit b"
proof (induction n rule: decimal_digits.induct)
  case (1 n)
  show ?case
  proof (cases "n < 10")
    case True
    then show ?thesis using 1(2) decimal_digit_of_nat(1) [of n] by (simp add: decimal_digits.simps [of n])
  next
    case False
    then show ?thesis using 1 decimal_digit_of_nat(1) [of "n mod 10"] by (auto simp: decimal_digits.simps [of n])
  qed
qed

lemma decimal_digits_length: "k > 0 \<Longrightarrow> length (decimal_digits n) \<le> k \<longleftrightarrow> n < 10 ^ k"
proof (induction n arbitrary: k rule: decimal_digits.induct)
  case (1 n)
  show ?case
  proof (cases "n < 10")
    case True
    then have "n < 10 ^ k" using 1(2) power_increasing [of 1 k "10 :: nat"] by simp
    then show ?thesis using True 1(2) by (simp add: decimal_digits.simps [of n] Suc_le_eq)
  next
    case False
    show ?thesis
    proof (cases "k = 1")
      case True
      have "0 < length (decimal_digits (n div 10))" by (simp only: length_greater_0_conv decimal_digits_nonempty) simp
      then show ?thesis using True False by (simp add: decimal_digits.simps [of n])
    next
      case k: False
      then obtain j where j: "k = Suc j" "j > 0" using 1(2) by (cases k) auto
      have "n < 10 ^ k \<longleftrightarrow> n div 10 < 10 ^ j" by (simp add: j(1) div_less_iff_less_mult mult.commute)
      then show ?thesis using 1(1) [OF False j(2)] False j(1) by (simp add: decimal_digits.simps [of n])
    qed
  qed
qed

lemma decimal_value_append:
  "0 \<notin> set xs \<Longrightarrow> decimal_value (xs @ ys) i m v = bindE (decimal_value xs i m v) (decimal_value ys (i + length xs) m)"
  by (induction xs arbitrary: i v) simp_all

lemma decimal_digit_nonzero: "decimal_digit b \<Longrightarrow> b \<noteq> 0"
  by (auto simp: decimal_digit_def)

lemma decimal_value_one:
  "d < 10 \<Longrightarrow> i \<le> m \<Longrightarrow> decimal_value [word_of_nat (0x30 + d)] i m v = Inr (v * 10 + word_of_nat d)"
  using decimal_digit_of_nat [of d] decimal_digit_nonzero [of "word_of_nat (0x30 + d)"]
  by (simp add: decimal_digit_def del: of_nat_add)

lemma decimal_value_digits:
  "i + length (decimal_digits n) \<le> Suc m \<Longrightarrow>
     decimal_value (decimal_digits n) i m v = Inr (v * 10 ^ length (decimal_digits n) + word_of_nat n)"
proof (induction n arbitrary: v rule: decimal_digits.induct)
  case (1 n)
  show ?case
  proof (cases "n < 10")
    case True
    then show ?thesis using 1(2) decimal_value_one [of n i m v] by (simp add: decimal_digits.simps [of n])
  next
    case False
    have z: "0 \<notin> set (decimal_digits (n div 10))" using decimal_digits_digit decimal_digit_nonzero by blast
    have "word_of_nat n = (word_of_nat (n div 10) * 10 + word_of_nat (n mod 10) :: u64)"
      by (subst div_mult_mod_eq [of n 10, symmetric]) (simp only: of_nat_add of_nat_mult of_nat_numeral)
    then show ?thesis
      using False 1 decimal_value_one [of "n mod 10" "i + length (decimal_digits (n div 10))" m]
      by (simp add: decimal_digits.simps [of n] decimal_value_append [OF z] distrib_right mult.assoc del: of_nat_add)
  qed
qed

lemma decimal_value_too_long:
  "\<forall>b \<in> set xs. decimal_digit b \<Longrightarrow> Suc m < i + length xs \<Longrightarrow> i \<le> Suc m \<Longrightarrow>
     decimal_value (xs @ ys) i m v = Inl Value_Too_Large"
proof (induction xs arbitrary: i v)
  case (Cons b xs)
  then show ?case using decimal_digit_nonzero [of b] by (simp add: decimal_digit_def)
qed simp

lemma decimal_value_read:
  assumes "i + 20 = m"
  shows "decimal_value (decimal_digits n @ [0]) i m 0 =
    (if n < 10 ^ 21 then Inr (word_of_nat n) else Inl Value_Too_Large)"
proof (cases "n < 10 ^ 21")
  case True
  then have "i + length (decimal_digits n) \<le> Suc m" using decimal_digits_length [of 21 n] assms by simp
  moreover have "0 \<notin> set (decimal_digits n)" using decimal_digits_digit decimal_digit_nonzero by blast
  ultimately show ?thesis using True by (simp add: decimal_value_append decimal_value_digits)
next
  case False
  then have "Suc m < i + length (decimal_digits n)" using decimal_digits_length [of 21 n] assms by simp
  then show ?thesis using False assms decimal_digits_digit by (simp add: decimal_value_too_long)
qed

text \<open>
  A number that is printed in decimal digits is read back, with either sign, up to the width of 64
  bits. But it is only refused from 22 digits on: in between it is taken modulo \<open>2 ^ 64\<close>, so that
  \<open>2 ^ 64\<close> itself is read as 0.
\<close>

theorem decimal_number_read:
  assumes "length (decimal_digits n) + 2 \<le> SSIZE_MAX"
  shows "mount_handle_system_string_copy_from_64_bit_in_decimal (decimal_digits n @ [0]) =
      (if n < 10 ^ 21 then Inr (word_of_nat n) else Inl Value_Too_Large) \<and>
    mount_handle_system_string_copy_from_64_bit_in_decimal (43 # decimal_digits n @ [0]) =
      (if n < 10 ^ 21 then Inr (word_of_nat n) else Inl Value_Too_Large) \<and>
    mount_handle_system_string_copy_from_64_bit_in_decimal (45 # decimal_digits n @ [0]) =
      (if n < 10 ^ 21 then Inr (- word_of_nat n) else Inl Value_Too_Large)"
proof -
  obtain b bs where b: "decimal_digits n = b # bs" by (cases "decimal_digits n") auto
  then have "decimal_digit b" using decimal_digits_digit [of b n] by simp
  then have "b \<noteq> 43" "b \<noteq> 45" by (auto simp: decimal_digit_def)
  then show ?thesis
    using assms decimal_value_read [of 0 20 n] decimal_value_read [of 1 21 n] b
    by (simp add: mount_handle_system_string_copy_from_64_bit_in_decimal_def get_bytes_def)
qed

lemma decimal_number_read_witness:
  "mount_handle_system_string_copy_from_64_bit_in_decimal (decimal_digits (2 ^ 64) @ [0]) = Inr 0"
proof -
  have l: "length (decimal_digits (2 ^ 64)) \<le> 20" using decimal_digits_length [of 20 "2 ^ 64"] by simp
  then have "length (decimal_digits (2 ^ 64)) + 2 \<le> SSIZE_MAX" by linarith
  from decimal_number_read [OF this] show ?thesis by simp
qed

end
