(* ===== verification/Mount_Paths.thy ===== *)
theory Mount_Paths
  imports Mount_Handle Volume_Paths
begin

text \<open>
  The paths of the mounted file system: looking up a path whose names are escaped is the lookup of the
  library for the names, and what a mounted directory lists is found under the names that it is listed with.
\<close>

subsection \<open>The lookup of a path\<close>

lemma last_separator_at:
  assumes "\<forall>j. k < j \<and> j \<le> i \<longrightarrow> path ! j \<noteq> LIBCPATH_SEPARATOR" and "k = 0 \<or> path ! k = LIBCPATH_SEPARATOR"
    and "k \<le> i"
  shows "last_separator path i = k"
  using assms
proof (induction i)
  case (Suc i)
  show ?case
  proof (cases "k = Suc i")
    case True
    then show ?thesis using Suc.prems(2) by simp
  next
    case False
    then show ?thesis using Suc by simp
  qed
qed simp

lemma last_separator_name:
  assumes "LIBCPATH_SEPARATOR \<notin> set name"
  shows "last_separator (pre @ LIBCPATH_SEPARATOR # name @ [0]) (length pre + 1 + length name) = length pre"
proof (rule last_separator_at)
  have n: "(name @ [0]) ! k \<noteq> LIBCPATH_SEPARATOR" if "k \<le> length name" for k
    using assms that by (cases "k = length name") (auto simp: nth_append in_set_conv_nth)
  have "(pre @ LIBCPATH_SEPARATOR # name @ [0]) ! j = (name @ [0]) ! (j - Suc (length pre))" if "length pre < j" for j
    using that by (auto simp: nth_append dest!: less_imp_Suc_add)
  moreover have "(name @ [0]) ! (j - Suc (length pre)) \<noteq> LIBCPATH_SEPARATOR"
    if "length pre < j" "j \<le> length pre + 1 + length name" for j
    using that by (intro n) simp
  ultimately show "\<forall>j. length pre < j \<and> j \<le> length pre + 1 + length name \<longrightarrow>
      (pre @ LIBCPATH_SEPARATOR # name @ [0]) ! j \<noteq> LIBCPATH_SEPARATOR"
    by simp
qed (simp_all add: nth_append)

text \<open>The path of the mounted file system, from the items that are resolved in turn.\<close>

definition rooted_items :: "u32 list list \<Rightarrow> u32 option list" where
  "rooted_items names = (if names = [] then [None] else name_items names)"

lemma rooted_path_separated:
  "names \<noteq> [] \<Longrightarrow> rooted_path units names = separated_path units names"
proof (induction names rule: induct_list012)
  case (3 name name' names)
  then show ?case by (simp add: rooted_path_def separated_path_def)
qed (simp_all add: rooted_path_def separated_path_def)

lemma rooted_path_units: "rooted_path (encode_name units) names = separated_units units (rooted_items names)"
  using rooted_path_separated [of names "encode_name units"]
  by (cases "names = []")
    (simp_all add: rooted_items_def separated_path_units, simp add: rooted_path_def separated_units_def)

text \<open>The escaped name of the last component; the root directory has the empty name.\<close>

definition mounted_name :: "(u32 \<Rightarrow> u8 list) \<Rightarrow> u32 list list \<Rightarrow> u8 list" where
  "mounted_name encode names = (if names = [] then [] else encode_name (escaped_units encode) (last names))"

lemma rooted_path_last:
  "\<exists>pre. rooted_path (encode_name (escaped_units encode)) names = pre @ LIBCPATH_SEPARATOR # mounted_name encode names"
proof (cases names rule: rev_cases)
  case Nil
  then show ?thesis by (simp add: rooted_path_def mounted_name_def)
next
  case (snoc names' cs)
  then show ?thesis
    using rooted_path_separated [of names "encode_name (escaped_units encode)"]
    by (simp add: separated_path_def mounted_name_def)
qed

text \<open>What the tool relies on of the Unicode library.\<close>

definition libuna_codec :: "libuna \<Rightarrow> (u32 \<Rightarrow> u8 list) \<Rightarrow> (u32 \<Rightarrow> bool) \<Rightarrow> bool" where
  "libuna_codec una encode valid \<longleftrightarrow>
     unicode_decodes (una_copy una) encode valid \<and> unicode_writes (una_write una) encode valid"

definition mounted_entry :: "'h mount_file_system \<Rightarrow> u8 list \<Rightarrow> 's file_entry \<Rightarrow> ('h, 's) mount_file_entry" where
  "mounted_entry file_system name e =
     \<lparr> mfe_file_system = file_system, mfe_name = Some (name @ [0]), mfe_name_size = length name + 1,
       mfe_fsxfs_file_entry = e \<rparr>"

lemma mount_lookup_resolved:
  assumes "path \<noteq> []" and "\<not> (2 \<le> length path \<and> path ! (length path - 1) = LIBCPATH_SEPARATOR)"
    and "mount_path_string_copy_to_file_entry_path (una_fresh una) (una_copy una) (una_write una) path =
      Some (Inr (buffer, m))"
    and "mfs_fsxfs_volume (mh_file_system handle) = Some v"
    and "last_separator (path @ [0]) (length path) = k" and "drop (Suc k) (path @ [0]) = name @ [0]"
    and "size_sub (length path) (Suc k) = length name" and "length name < SSIZE_MAX"
  shows "mount_handle_get_file_entry_by_path bf lib una handle path None =
    map_option (\<lambda>r. bindE r (\<lambda>found. Inr (map_option (mounted_entry (mh_file_system handle) name) found)))
      (libfsxfs_volume_get_file_entry_by_utf8_path bf lib (una_compare una) (una_copy una) v (string_of_buffer buffer))"
proof -
  have init: "mount_file_entry_initialize None (mh_file_system handle) (Some (name @ [0])) (length name) e =
      Inr (mounted_entry (mh_file_system handle) name e)" for e
    using assms(8) by (simp add: mount_file_entry_initialize_def mounted_entry_def get_bytes_def)
  have l: "(if length path \<ge> 2 \<and> path ! (length path - 1) = LIBCPATH_SEPARATOR then length path - 1 else length path) =
      length path"
    by (rule if_not_P [OF assms(2)])
  show ?thesis
    unfolding mount_handle_get_file_entry_by_path_def l Let_def
    using assms(1)
    by (auto simp: mount_file_system_get_file_entry_by_path_def bindE_def assms(3-7) init simp del: drop_append
        split: option.split sum.split)
qed

lemma mount_lookup:
  assumes una: "libuna_codec una encode valid"
    and names: "\<forall>cs \<in> set names. character_name valid cs \<and> cs \<noteq> []"
    and len: "length (rooted_path (encode_name (escaped_units encode)) names) < SSIZE_MAX"
    and v: "mfs_fsxfs_volume (mh_file_system handle) = Some v"
  shows "mount_handle_get_file_entry_by_path bf lib una handle
      (rooted_path (encode_name (escaped_units encode)) names) None =
    map_option (\<lambda>r. bindE r (\<lambda>found.
        Inr (map_option (mounted_entry (mh_file_system handle) (mounted_name encode names)) found)))
      (libfsxfs_volume_get_file_entry_by_utf8_path bf lib (una_compare una) (una_copy una) v
        (rooted_path (encode_name encode) names))"
proof -
  have w: "unicode_writes (una_write una) encode valid" and d: "unicode_decodes (una_copy una) encode valid"
    using una by (simp_all add: libuna_codec_def)
  let ?name = "mounted_name encode names" and ?path = "rooted_path (encode_name (escaped_units encode)) names"
  obtain pre where pre: "?path = pre @ LIBCPATH_SEPARATOR # ?name" using rooted_path_last by blast
  have plain: "\<forall>b \<in> set ?name. plain_unit b"
    using names escaped_units_plain [OF w]
    by (auto simp: mounted_name_def encode_name_def character_name_def) (metis last_in_set)
  then have sep: "LIBCPATH_SEPARATOR \<notin> set ?name" by (auto simp: plain_unit_def)
  have ne: "names = [] \<or> ?name \<noteq> []"
  proof (cases "names = []")
    case False
    then obtain c cs where "last names = c # cs" "valid c" using names
      by (cases "last names") (auto simp: character_name_def, metis last_in_set list.set_intros(1))
    then have "escaped_units encode c \<noteq> []"
      using unicode_decodesD(1) [OF d] escaped_units_length(3) [OF w] by blast
    then show ?thesis using \<open>last names = c # cs\<close> by (simp add: mounted_name_def encode_name_def)
  qed simp
  have trail: "\<not> (2 \<le> length ?path \<and> ?path ! (length ?path - 1) = LIBCPATH_SEPARATOR)"
  proof (cases "?name = []")
    case True
    then show ?thesis using ne by (simp add: rooted_path_def)
  next
    case False
    then have "?path ! (length ?path - 1) = last ?name" by (simp add: pre last_conv_nth nth_append)
    moreover have "last ?name \<noteq> LIBCPATH_SEPARATOR" using sep last_in_set [OF False] by metis
    ultimately show ?thesis by simp
  qed
  have "\<forall>c. Some c \<in> set (rooted_items names) \<longrightarrow> valid c \<and> c \<noteq> 0"
    using names by (auto simp: rooted_items_def name_items_def character_name_def)
  moreover obtain ts where "rooted_items names = None # ts"
    by (cases names) (auto simp: rooted_items_def name_items_def)
  ultimately obtain buffer m where b: "mount_path_string_copy_to_file_entry_path (una_fresh una) (una_copy una)
      (una_write una) ?path = Some (Inr (buffer, m))"
    "string_of_buffer buffer = rooted_path (encode_name encode) names"
    using path_to_units [OF w d, of "rooted_items names" ts "una_fresh una"] len
    by (auto simp: rooted_path_units)
  have idx: "last_separator (?path @ [0]) (length ?path) = length pre"
    using last_separator_name [OF sep, of pre] by (simp add: pre)
  have drop: "drop (Suc (length pre)) (?path @ [0]) = ?name @ [0]" by (simp add: pre)
  have size: "size_sub (length ?path) (Suc (length pre)) = length ?name" by (simp add: pre)
  have "?path \<noteq> []" by (simp add: pre)
  moreover have "length ?name < SSIZE_MAX" using len by (simp add: pre)
  ultimately show ?thesis
    using mount_lookup_resolved [OF _ trail b(1) v idx drop size] b(2) by simp
qed

text \<open>
  C12: In the mounted file system the lookup of a path, of names with escapes one behind the other, is the
  lookup of the library for the path of the names themselves: the same file entry, no such file entry, the
  same error, or no return. The file entry is given the last name of the path.
\<close>

theorem mount_lookup_refines:
  assumes "libuna_codec una encode valid" and "\<forall>cs \<in> set names. character_name valid cs \<and> cs \<noteq> []"
    and "length (rooted_path (encode_name (escaped_units encode)) names) < SSIZE_MAX"
    and "mfs_fsxfs_volume (mh_file_system handle) = Some v"
  shows "mount_handle_get_file_entry_by_path bf lib una handle
      (rooted_path (encode_name (escaped_units encode)) names) None =
    map_option (\<lambda>r. bindE r (\<lambda>found.
        Inr (map_option (mounted_entry (mh_file_system handle) (mounted_name encode names)) found)))
      (libfsxfs_volume_get_file_entry_by_utf8_path bf lib (una_compare una) (una_copy una) v
        (rooted_path (encode_name encode) names))"
  by (rule mount_lookup [OF assms])

text \<open>
  A path with a separator at its end is never answered with a file entry: when the path without the
  separator leads to one, the length of the name, computed from the separator that was taken off the
  path, wraps around, and the call fails.
\<close>

theorem mount_trailing_separator_refused:
  assumes "path \<noteq> []" and "length path < SSIZE_MAX"
    and "mount_file_system_get_file_entry_by_path bf lib una (mh_file_system handle) path = Some (Inr (Some e))"
  shows "mount_handle_get_file_entry_by_path bf lib una handle (path @ [LIBCPATH_SEPARATOR]) None =
    Some (Inl Value_Exceeds_Maximum)"
proof -
  have "last_separator ((path @ [LIBCPATH_SEPARATOR]) @ [0]) (length path) = length path"
    by (rule last_separator_at) (auto simp: nth_append)
  then show ?thesis
    using assms
    by (simp add: mount_handle_get_file_entry_by_path_def mount_file_entry_initialize_def size_sub_def Let_def
        Suc_le_eq nth_append)
qed

subsection \<open>What is listed is found\<close>

text \<open>
  What is relied on of the libraries beyond that: the conversion of a name that is valid UTF-8 already copies
  it with one end of string character, which the name may have itself, the comparison of such names is
  equality, and allocated memory has its size.
\<close>

definition libuna_names :: "libuna \<Rightarrow> (u8 list \<Rightarrow> bool) \<Rightarrow> bool" where
  "libuna_names una encoded \<longleftrightarrow> compares_names (una_compare una) encoded \<and>
     (\<forall>s t. encoded s \<and> (t = s \<or> t = s @ [0]) \<longrightarrow>
        una_name_size una t = Inr (length s + 1) \<and> una_name una (length s + 1) t = Inr (s @ [0])) \<and>
     (\<forall>n. length (una_fresh una n) = n)"

lemma encoded_character_name:
  "character_name valid cs \<Longrightarrow> encoded_name encode valid (encode_name encode cs)"
  by (auto simp: encoded_name_def character_name_def)

lemma file_entry_name_buffer_entry:
  assumes "libuna_names una encoded" and "fe_directory_entry e = Some entry"
    and "encoded (directory_entry_name_bytes entry)"
    and "length (directory_entry_name_bytes entry) < SSIZE_MAX"
  shows "file_entry_name_buffer una e = Inr (directory_entry_name_bytes entry)"
proof -
  let ?name = "directory_entry_name_bytes entry"
  have "una_name_size una ?name = Inr (length ?name + 1)" "una_name una (length ?name + 1) ?name = Inr (?name @ [0])"
    using assms(1,3) by (auto simp: libuna_names_def)
  then show ?thesis
    using assms(2,4)
    by (simp add: file_entry_name_buffer_def libfsxfs_file_entry_get_utf8_name_size_def file_entry_name_def
        libfsxfs_file_entry_get_utf8_name_def libfsxfs_directory_entry_get_utf8_name_size_def
        libfsxfs_directory_entry_get_utf8_name_def convert_name_def)
qed

lemma directory_entry_name_bytes_length: "length (directory_entry_name_bytes entry) < 256"
  using unat_bounds(1) [of "de_name_size entry"] by (simp add: directory_entry_name_bytes_def min_less_iff_disj)

text \<open>The name of a listed file entry is in a buffer of ten bytes for each byte of the name.\<close>

lemma mount_sub_file_entry_name:
  assumes una: "libuna_codec una encode valid" and names: "libuna_names una (encoded_name encode valid)"
    and s: "fe_directory_entry s = Some entry" "directory_entry_name_bytes entry = encode_name encode cs"
    and cs: "character_name valid cs" "cs \<noteq> []"
  shows "\<exists>name. mount_sub_file_entry una file_system s = Some (Inr
      \<lparr> mfe_file_system = file_system, mfe_name = Some name,
        mfe_name_size = length (encode_name encode cs) * 10 + 1, mfe_fsxfs_file_entry = s \<rparr>) \<and>
    string_of_buffer name = encode_name (escaped_units encode) cs \<and>
    length name = length (encode_name encode cs) * 10 + 1 \<and> last name = 0"
proof -
  have w: "unicode_writes (una_write una) encode valid" and d: "unicode_decodes (una_copy una) encode valid"
    using una by (simp_all add: libuna_codec_def)
  let ?m = "length (encode_name encode cs) * 10 + 1" and ?e = "encode_name (escaped_units encode) cs"
  have l: "length (encode_name encode cs) < 256" using directory_entry_name_bytes_length [of entry] s(2) by simp
  then have "length (encode_name encode cs) \<le> (SSIZE_MAX - 1) div 10" by simp
  note f = path_from_name [OF w d cs this]
  define buffer where "buffer = ?e @ 0 # drop (length ?e + 1) (una_fresh una ?m)"
  have "length buffer = ?m" using f(3) names by (simp add: buffer_def libuna_names_def)
  then have g: "get_bytes buffer 0 (?m - 1) = Inr (take (?m - 1) buffer)" by (simp add: get_bytes_def)
  have "mount_sub_file_entry una file_system s = Some (Inr
      \<lparr> mfe_file_system = file_system, mfe_name = Some (take (?m - 1) buffer @ [0]),
        mfe_name_size = ?m, mfe_fsxfs_file_entry = s \<rparr>)"
    using l f(1) [of "una_fresh una", folded buffer_def] file_entry_name_buffer_entry [OF names s(1)] s(2) g
      encoded_character_name [OF cs(1), of encode]
    by (simp add: mount_sub_file_entry_def mount_file_system_get_filename_from_file_entry_def
        mount_file_entry_initialize_def)
  moreover have "string_of_buffer (take (?m - 1) buffer @ [0]) = ?e"
  proof -
    have "take (?m - 1) buffer @ [0] = ?e @ 0 # tl (take (?m - 1 - length ?e) (0 # drop (length ?e + 1) (una_fresh una ?m)) @ [0])"
      using f(3) by (cases "?m - 1 - length ?e") (simp_all add: buffer_def)
    then show ?thesis using string_of_buffer_end [OF f(2)] by simp
  qed
  moreover have "length (take (?m - 1) buffer @ [0]) = ?m" using \<open>length buffer = ?m\<close> by simp
  ultimately show ?thesis by (metis last_snoc)
qed

lemma file_entry_initialize_name:
  "libfsxfs_file_entry_initialize lib None io fio fs n inode d = Inr e \<Longrightarrow> fe_directory_entry e = d"
  by (auto simp: libfsxfs_file_entry_initialize_def Let_def split: if_split_asm sum.split_asm)

lemma sub_file_entry_has_name:
  assumes "libfsxfs_file_entry_get_sub_file_entry_by_index lib d i = Some (d', Inr e)"
  shows "\<exists>entry. fe_directory_entry e = Some entry"
proof -
  have "\<exists>d. file_entry_sub_file_entry lib d i = Inr e"
    using assms by (auto simp: libfsxfs_file_entry_get_sub_file_entry_by_index_def
        split: option.split_asm prod.split_asm sum.split_asm)
  then show ?thesis
    by (auto simp: file_entry_sub_file_entry_def libfsxfs_directory_entry_clone_def split: option.split_asm
        dest!: file_entry_initialize_name)
qed

lemma mount_listed_lookup:
  assumes una: "libuna_codec una encode valid" "libuna_names una (encoded_name encode valid)"
    and names: "\<forall>cs \<in> set (names @ [cs]). name_valid valid cs"
    and len: "length (rooted_path (encode_name (escaped_units encode)) (names @ [cs])) < SSIZE_MAX"
      "length (rooted_path (encode_name encode) (names @ [cs])) \<le> SSIZE_MAX"
    and v: "mfs_fsxfs_volume (mh_file_system handle) = Some v"
    and d: "libfsxfs_volume_get_file_entry_by_utf8_path bf lib (una_compare una) (una_copy una) v
      (rooted_path (encode_name encode) names) = Some (Inr (Some d))"
    and d1: "file_entry_reachable lib d (mfe_fsxfs_file_entry d1)"
    and s: "mount_file_entry_get_sub_file_entry_by_index lib una d1 i None = Some (d2, Inr s)"
    and dist: "distinct (map directory_entry_name_bytes
      (dir_entries_array (the (fe_directory (mfe_fsxfs_file_entry d2)))))"
      "\<forall>entry \<in> set (dir_entries_array (the (fe_directory (mfe_fsxfs_file_entry d2)))).
        encoded_name encode valid (directory_entry_name_bytes entry)"
    and name: "directory_entry_name_bytes (the (fe_directory_entry (mfe_fsxfs_file_entry s))) = encode_name encode cs"
  shows "(\<exists>listed_name. mfe_name s = Some listed_name \<and>
      string_of_buffer listed_name = encode_name (escaped_units encode) cs \<and>
      length listed_name = mount_file_entry_get_name_size s \<and> last listed_name = 0) \<and>
    mount_file_entry_get_name_size s = length (encode_name encode cs) * 10 + 1 \<and>
    mount_handle_get_file_entry_by_path bf lib una handle
      (rooted_path (encode_name (escaped_units encode)) (names @ [cs])) None =
    Some (Inr (Some (mounted_entry (mh_file_system handle) (encode_name (escaped_units encode) cs)
      (mfe_fsxfs_file_entry s))))"
proof -
  let ?d1 = "mfe_fsxfs_file_entry d1"
  have dec: "unicode_decodes (una_copy una) encode valid" and cmp: "compares_names (una_compare una) (encoded_name encode valid)"
    using una by (simp_all add: libuna_codec_def libuna_names_def)
  have cs: "\<forall>cs \<in> set (names @ [cs]). character_name valid cs \<and> cs \<noteq> []"
    using names by (auto simp: name_valid_def character_name_def)
  obtain r e where s1: "libfsxfs_file_entry_get_sub_file_entry_by_index lib ?d1 i = Some (r, Inr e)"
    "mfe_fsxfs_file_entry d2 = r" "mount_sub_file_entry una (mfe_file_system d1) e = Some (Inr s)"
    using s by (auto simp: mount_file_entry_get_sub_file_entry_by_index_def Let_def
        split: option.split_asm sum.split_asm)
  obtain entry where e: "fe_directory_entry e = Some entry"
    using sub_file_entry_has_name [OF s1(1)] by blast
  have se: "mfe_fsxfs_file_entry s = e"
    using s1(3) by (auto simp: mount_sub_file_entry_def mount_file_entry_initialize_def
        split: option.split_asm if_split_asm)
  obtain listed where l: "s = \<lparr> mfe_file_system = mfe_file_system d1, mfe_name = Some listed,
      mfe_name_size = length (encode_name encode cs) * 10 + 1, mfe_fsxfs_file_entry = e \<rparr>"
    "string_of_buffer listed = encode_name (escaped_units encode) cs"
    "length listed = length (encode_name encode cs) * 10 + 1" "last listed = 0"
    using mount_sub_file_entry_name [OF una e, where cs = cs and file_system = "mfe_file_system d1"] cs name se e s1(3) by auto
  have "length (rooted_path (encode_name encode) names) \<le> length (rooted_path (encode_name encode) (names @ [cs]))"
    by (cases "names = []") (simp_all add: rooted_path_separated separated_path_def, simp add: rooted_path_def)
  then have "libfsxfs_volume_get_file_entry_by_utf8_path bf lib (una_compare una) (una_copy una) v
      (rooted_path (encode_name encode) (names @ [cs])) = Some (Inr (Some e))"
    using len(2) dist name
    by (intro listed_entry_by_path [OF dec cmp names len(2) _ d d1 s1(1)]) (simp_all add: s1(2) se)
  then show ?thesis
    using mount_lookup [OF una(1) cs len(1) v, of bf lib] l
    by (simp add: mounted_name_def mount_file_entry_get_name_size_def)
qed

text \<open>
  C11: Every file that a mounted directory lists can be opened: when a path leads to a directory with
  distinct names, then a file that is listed in it carries its name with escapes, and the path of the
  directory with that name leads to the file that was listed, with the same inode and the same data. But
  the size of the name that the listing reports is not its own, it is that of ten bytes for each byte.
\<close>

theorem mount_listed_file_found:
  assumes una: "libuna_codec una encode valid" "libuna_names una (encoded_name encode valid)"
    and names: "\<forall>cs \<in> set (names @ [cs]). name_valid valid cs"
    and len: "length (rooted_path (encode_name (escaped_units encode)) (names @ [cs])) < SSIZE_MAX"
      "length (rooted_path (encode_name encode) (names @ [cs])) \<le> SSIZE_MAX"
    and v: "mfs_fsxfs_volume (mh_file_system handle) = Some v"
    and d: "libfsxfs_volume_get_file_entry_by_utf8_path bf lib (una_compare una) (una_copy una) v
      (rooted_path (encode_name encode) names) = Some (Inr (Some d))"
    and d1: "file_entry_reachable lib d (mfe_fsxfs_file_entry d1)"
    and s: "mount_file_entry_get_sub_file_entry_by_index lib una d1 i None = Some (d2, Inr s)"
    and dist: "distinct (map directory_entry_name_bytes
      (dir_entries_array (the (fe_directory (mfe_fsxfs_file_entry d2)))))"
      "\<forall>entry \<in> set (dir_entries_array (the (fe_directory (mfe_fsxfs_file_entry d2)))).
        encoded_name encode valid (directory_entry_name_bytes entry)"
    and name: "directory_entry_name_bytes (the (fe_directory_entry (mfe_fsxfs_file_entry s))) = encode_name encode cs"
  shows "(\<exists>listed_name. mfe_name s = Some listed_name \<and>
      string_of_buffer listed_name = encode_name (escaped_units encode) cs) \<and>
    mount_file_entry_get_name_size s = length (encode_name encode cs) * 10 + 1 \<and>
    mount_handle_get_file_entry_by_path bf lib una handle
      (rooted_path (encode_name (escaped_units encode)) (names @ [cs])) None =
    Some (Inr (Some (mounted_entry (mh_file_system handle) (encode_name (escaped_units encode) cs)
      (mfe_fsxfs_file_entry s))))"
  using mount_listed_lookup [OF assms] by blast

subsection \<open>An example\<close>

text \<open>The example volume, mounted with the UTF-8 encoding.\<close>

definition example_libuna :: libuna where
  "example_libuna =
     \<lparr> una_compare = example_compare, una_copy = utf8_copy, una_write = utf8_write,
       una_name_size = (\<lambda>name. Inr (length (without_end name) + 1)),
       una_name = (\<lambda>n name. Inr (without_end name @ [0])),
       una_fresh = (\<lambda>n. replicate n 0xff) \<rparr>"

definition example_mount_handle :: "unit mount_handle" where
  "example_mount_handle =
     \<lparr> mh_file_system = \<lparr> mfs_mounted_timestamp = 0, mfs_fsxfs_volume = Some example_session_volume \<rparr>,
       mh_file_system_index = 0, mh_volume_offset = 0, mh_file_io_handle = None, mh_password = None,
       mh_password_length = 0, mh_recovery_password = None, mh_recovery_password_length = 0 \<rparr>"

lemma example_libuna_codec: "libuna_codec example_libuna utf8_units utf8_valid"
  by (simp add: libuna_codec_def example_libuna_def utf8_decodes utf8_writes)

lemma utf8_encoded_no_end:
  assumes "encoded_name utf8_units utf8_valid s"
  shows "0 \<notin> set s"
proof -
  have "0 \<notin> set (utf8_units c)" if "utf8_valid c" "c \<noteq> 0" for c
  proof (cases "c < 0x80")
    case True
    then have "unat (ucast c :: u8) = unat c" by (intro unat_ucast_fits) (simp add: word_less_nat_alt)
    then have "ucast c \<noteq> (0 :: u8)" using that(2) by (metis unat_0 unat_eq_zero)
    then show ?thesis using unicode_writesD(4) [OF utf8_writes True] by simp
  next
    case False
    then have "0x80 \<le> c" by simp
    then show ?thesis using unicode_writesD(3) [OF utf8_writes that(1), of 0] by (auto simp: word_le_nat_alt)
  qed
  then show ?thesis using assms by (auto simp: encoded_name_def encode_name_def)
qed

lemma example_libuna_names: "libuna_names example_libuna (encoded_name utf8_units utf8_valid)"
proof -
  have "without_end s = s" "without_end (s @ [0]) = s" if "0 \<notin> set s" for s
    using that last_in_set [of s] by (fastforce simp: without_end_def)+
  then show ?thesis
    using utf8_encoded_no_end example_compare_names by (auto simp: libuna_names_def example_libuna_def)
qed

lemma example_mounted_paths:
  "rooted_path (encode_name (escaped_units utf8_units)) [] = [0x2f]"
  "rooted_path (encode_name utf8_units) [] = [0x2f]"
  "rooted_path (encode_name (escaped_units utf8_units)) [[0x61]] = [0x2f, 0x61]"
  "encode_name (escaped_units utf8_units) [0x61] = [0x61]" "encode_name utf8_units [0x61] = [0x61]"
  "rooted_path (encode_name utf8_units) [[0x61]] = [0x2f, 0x61]"
  by (simp_all add: rooted_path_def encode_name_def escaped_units_def character_escaped_x_def
      character_escaped_U_def utf8_units_def)

lemma mount_lookup_refines_witness:
  "\<exists>d. mount_handle_get_file_entry_by_path example_session_libbfio recording_libfdata example_libuna
      example_mount_handle [0x2f] None = Some (Inr (Some d)) \<and> mount_file_entry_get_name d 1 = Inr [0]"
proof -
  obtain d where "libfsxfs_volume_get_file_entry_by_utf8_path example_session_libbfio recording_libfdata
      (una_compare example_libuna) (una_copy example_libuna) example_session_volume [0x2f] = Some (Inr (Some d))"
    using example_listing by blast
  with mount_lookup_refines [OF example_libuna_codec, of "[]" example_mount_handle example_session_volume
      example_session_libbfio recording_libfdata]
  show ?thesis
    by (simp add: example_mounted_paths example_mount_handle_def mounted_entry_def mounted_name_def
        mount_file_entry_get_name_def)
qed

lemma example_mounted_listing:
  "\<exists>d d1 d2 s. libfsxfs_volume_get_file_entry_by_utf8_path example_session_libbfio recording_libfdata
      (una_compare example_libuna) (una_copy example_libuna) example_session_volume [0x2f] = Some (Inr (Some d)) \<and>
    mfe_fsxfs_file_entry d1 = d \<and>
    mount_file_entry_get_sub_file_entry_by_index recording_libfdata example_libuna
      (d1 :: (unit, stream_record) mount_file_entry) 0 None = Some (d2, Inr s) \<and>
    fe_directory (mfe_fsxfs_file_entry d2) = Some \<lparr> dir_entries_array = [example_listed_entry] \<rparr> \<and>
    fe_directory_entry (mfe_fsxfs_file_entry s) = Some example_listed_entry"
proof -
  obtain d d2 e where d: "libfsxfs_volume_get_file_entry_by_utf8_path example_session_libbfio recording_libfdata
      (una_compare example_libuna) (una_copy example_libuna) example_session_volume [0x2f] = Some (Inr (Some d))"
    "libfsxfs_file_entry_get_sub_file_entry_by_index recording_libfdata d 0 = Some (d2, Inr e)"
    "fe_directory d2 = Some \<lparr> dir_entries_array = [example_listed_entry] \<rparr>"
    "fe_directory_entry e = Some example_listed_entry"
    using example_listing by blast
  let ?d1 = "mounted_entry (mh_file_system example_mount_handle) [] d"
  obtain s where "mount_sub_file_entry example_libuna (mh_file_system example_mount_handle) e = Some (Inr s)"
    "mfe_fsxfs_file_entry s = e"
    using mount_sub_file_entry_name [OF example_libuna_codec example_libuna_names d(4), of "[0x61]"
        "mh_file_system example_mount_handle"]
    by (auto simp: example_listed_name example_mounted_paths character_name_def utf8_valid_def)
  then have "mount_file_entry_get_sub_file_entry_by_index recording_libfdata example_libuna ?d1 0 None =
      Some (?d1\<lparr> mfe_fsxfs_file_entry := d2 \<rparr>, Inr s) \<and> mfe_fsxfs_file_entry s = e"
    by (simp add: mount_file_entry_get_sub_file_entry_by_index_def mounted_entry_def d(2))
  with d(1,3,4) show ?thesis
    by (intro exI [of _ d] exI [of _ ?d1] exI [of _ "?d1\<lparr> mfe_fsxfs_file_entry := d2 \<rparr>"] exI [of _ s])
      (simp add: mounted_entry_def)
qed

lemma mount_listed_file_found_witness:
  "\<exists>e. mount_handle_get_file_entry_by_path example_session_libbfio recording_libfdata example_libuna
      example_mount_handle [0x2f, 0x61] None = Some (Inr (Some e)) \<and> mount_file_entry_get_name_size e = 2"
proof -
  obtain d d1 d2 s where d: "libfsxfs_volume_get_file_entry_by_utf8_path example_session_libbfio recording_libfdata
      (una_compare example_libuna) (una_copy example_libuna) example_session_volume [0x2f] = Some (Inr (Some d))"
    "mfe_fsxfs_file_entry d1 = d"
    "mount_file_entry_get_sub_file_entry_by_index recording_libfdata example_libuna
      (d1 :: (unit, stream_record) mount_file_entry) 0 None = Some (d2, Inr s)"
    "fe_directory (mfe_fsxfs_file_entry d2) = Some \<lparr> dir_entries_array = [example_listed_entry] \<rparr>"
    "fe_directory_entry (mfe_fsxfs_file_entry s) = Some example_listed_entry"
    using example_mounted_listing by blast
  have v: "mfs_fsxfs_volume (mh_file_system example_mount_handle) = Some example_session_volume"
    by (simp add: example_mount_handle_def)
  have r: "file_entry_reachable recording_libfdata d (mfe_fsxfs_file_entry d1)"
    unfolding d(2) by (rule file_entry_reachable.start)
  have "mount_handle_get_file_entry_by_path example_session_libbfio recording_libfdata example_libuna
      example_mount_handle (rooted_path (encode_name (escaped_units utf8_units)) ([] @ [[0x61]])) None =
    Some (Inr (Some (mounted_entry (mh_file_system example_mount_handle)
      (encode_name (escaped_units utf8_units) [0x61]) (mfe_fsxfs_file_entry s))))"
    using mount_listed_file_found [OF example_libuna_codec example_libuna_names _ _ _ v _ r d(3), of "[]" "[0x61]"]
      d(1,4,5)
      encoded_nameI [of utf8_valid "[0x61]" utf8_units]
    by (simp add: example_mounted_paths example_listed_name name_valid_def utf8_valid_def)
  then show ?thesis by (simp add: example_mounted_paths mounted_entry_def mount_file_entry_get_name_size_def)
qed

lemma mount_trailing_separator_refused_witness:
  "mount_handle_get_file_entry_by_path example_session_libbfio recording_libfdata example_libuna
    example_mount_handle [0x2f, 0x2f] None = Some (Inl Value_Exceeds_Maximum)"
proof -
  obtain d where d: "libfsxfs_volume_get_file_entry_by_utf8_path example_session_libbfio recording_libfdata
      (una_compare example_libuna) (una_copy example_libuna) example_session_volume [0x2f] = Some (Inr (Some d))"
    using example_listing by blast
  obtain buffer n where "mount_path_string_copy_to_file_entry_path (una_fresh example_libuna)
      (una_copy example_libuna) (una_write example_libuna) [0x2f] = Some (Inr (buffer, n))" "string_of_buffer buffer = [0x2f]"
    using path_to_units [OF utf8_writes utf8_decodes, of "[None]" "[]" "una_fresh example_libuna"]
    by (auto simp: separated_units_def example_libuna_def)
  then have "mount_file_system_get_file_entry_by_path example_session_libbfio recording_libfdata example_libuna
      (mh_file_system example_mount_handle) [0x2f] = Some (Inr (Some d))"
    using d by (simp add: mount_file_system_get_file_entry_by_path_def example_mount_handle_def)
  from mount_trailing_separator_refused [OF _ _ this] show ?thesis by simp
qed

end
