(* ===== verification/Mount_Fuse.thy ===== *)
theory Mount_Fuse
  imports Mount_Paths "HOL-Library.Signed_Division"
begin

text \<open>
  The callbacks that answer the operating system through FUSE (\<open>fsxfstools/mount_fuse.c\<close>). A callback
  returns 0 or a number, \<open>Inr\<close>, or the negative of an error number of the system, \<open>Inl\<close>. The file entry
  that is open is held in the file handle of the file information, from one callback to the next. As
  elsewhere \<open>None\<close> stands for a call that does not return.
\<close>

datatype errno = EACCES | EINVAL | EIO | ENOENT | ENODATA | ERANGE | E2BIG

type_synonym 'a fuse_result = "errno + 'a"

definition fuse_result_of :: "errno \<Rightarrow> 'a result \<Rightarrow> 'a fuse_result" where
  "fuse_result_of n r = (case r of Inl e \<Rightarrow> Inl n | Inr x \<Rightarrow> Inr x)"

abbreviation (input) INT_MAX :: nat where
  "INT_MAX \<equiv> 0x7fffffff"

abbreviation (input) O_RDONLY :: u32 where
  "O_RDONLY \<equiv> 0"

subsection \<open>The status of a file\<close>

record stat_info =
  st_size :: u64
  st_mode :: u16
  st_nlink :: nat
  st_uid :: u32
  st_gid :: u32
  st_atime :: u64
  st_ctime :: u64
  st_mtime :: u64

text \<open>A time in nanoseconds is a signed number; division rounds towards zero.\<close>

definition stat_seconds :: "u64 \<Rightarrow> u64" where
  "stat_seconds posix_time = word_of_int (sint posix_time sdiv 1000000000)"

text \<open>\<open>user\<close> and \<open>group_id\<close> are what \<open>geteuid\<close> and \<open>getegid\<close> give. The fractions of a second are only set
  where \<open>STAT_HAVE_NSEC\<close> is defined, which the build does not do.\<close>

definition mount_fuse_set_stat_info ::
    "u32 \<times> u32 \<Rightarrow> u64 \<Rightarrow> u16 \<Rightarrow> u64 \<Rightarrow> u64 \<Rightarrow> u64 \<Rightarrow> stat_info result" where
  "mount_fuse_set_stat_info ids file_size file_mode access_time inode_change_time modification_time =
     (if unat file_size > 0x7fffffffffffffff then Inl Value_Out_Of_Bounds
      else Inr \<lparr> st_size = file_size, st_mode = file_mode,
             st_nlink = (if file_mode AND 0x4000 \<noteq> 0 then 2 else 1),
             st_uid = fst ids, st_gid = snd ids,
             st_atime = stat_seconds access_time, st_ctime = stat_seconds inode_change_time,
             st_mtime = stat_seconds modification_time \<rparr>)"

definition file_entry_stat_info :: "u32 \<times> u32 \<Rightarrow> ('h, 's) mount_file_entry \<Rightarrow> stat_info result" where
  "file_entry_stat_info ids file_entry =
     mount_fuse_set_stat_info ids (mount_file_entry_get_size file_entry)
       (mount_file_entry_get_file_mode file_entry) (mount_file_entry_get_access_time file_entry)
       (mount_file_entry_get_inode_change_time file_entry)
       (mount_file_entry_get_modification_time file_entry)"

text \<open>
  The filler of FUSE takes a name, up to its end of string character, and a status, adds them to its
  buffer, and answers 1 when it cannot. Without a file entry all values are 0.
\<close>

type_synonym 'b fuse_fill_dir = "'b \<Rightarrow> u8 list \<Rightarrow> stat_info \<Rightarrow> 'b \<times> int"

definition mount_fuse_filldir ::
    "u32 \<times> u32 \<Rightarrow> 'b \<Rightarrow> 'b fuse_fill_dir \<Rightarrow> u8 list \<Rightarrow> ('h, 's) mount_file_entry option \<Rightarrow> 'b \<times> unit result" where
  "mount_fuse_filldir ids buffer filler name file_entry =
     (case (case file_entry of
              None \<Rightarrow> mount_fuse_set_stat_info ids 0 0 0 0 0
            | Some file_entry \<Rightarrow> file_entry_stat_info ids file_entry) of
        Inl e \<Rightarrow> (buffer, Inl e)
      | Inr stat_info \<Rightarrow>
          (case filler buffer (string_of_buffer name) stat_info of
             (buffer, result) \<Rightarrow> (buffer, if result = 1 then Inl Generic else Inr ())))"

subsection \<open>Files\<close>

record ('h, 's) fuse_file_info =
  fi_flags :: u32
  fi_fh :: "('h, 's) mount_file_entry option"

text \<open>The mount handle is a global variable, that is cleared at the end.\<close>

definition fuse_file_entry_by_path ::
    "'h libbfio \<Rightarrow> 's libfdata \<Rightarrow> libuna \<Rightarrow> 'h mount_handle option \<Rightarrow> u8 list \<Rightarrow> ('h, 's) mount_file_entry option
      \<Rightarrow> ('h, 's) mount_file_entry option result option" where
  "fuse_file_entry_by_path bf lib una fsxfsmount_mount_handle path pointer =
     (case fsxfsmount_mount_handle of
        None \<Rightarrow> Some (Inl Invalid_Value)
      | Some handle \<Rightarrow> mount_handle_get_file_entry_by_path bf lib una handle path pointer)"

text \<open>A file entry that could not be retrieved and one that does not exist are both no such file.\<close>

definition fuse_existing_file_entry ::
    "'h libbfio \<Rightarrow> 's libfdata \<Rightarrow> libuna \<Rightarrow> 'h mount_handle option \<Rightarrow> u8 list \<Rightarrow> ('h, 's) mount_file_entry option
      \<Rightarrow> ('h, 's) mount_file_entry fuse_result option" where
  "fuse_existing_file_entry bf lib una fsxfsmount_mount_handle path pointer =
     (case fuse_file_entry_by_path bf lib una fsxfsmount_mount_handle path pointer of
        None \<Rightarrow> None
      | Some (Inl e) \<Rightarrow> Some (Inl ENOENT)
      | Some (Inr None) \<Rightarrow> Some (Inl ENOENT)
      | Some (Inr (Some file_entry)) \<Rightarrow> Some (Inr file_entry))"

definition fuse_open_file_entry ::
    "'h libbfio \<Rightarrow> 's libfdata \<Rightarrow> libuna \<Rightarrow> 'h mount_handle option \<Rightarrow> u8 list \<Rightarrow> ('h, 's) fuse_file_info
      \<Rightarrow> (('h, 's) fuse_file_info \<times> unit fuse_result) option" where
  "fuse_open_file_entry bf lib una fsxfsmount_mount_handle path file_info =
     (case fuse_existing_file_entry bf lib una fsxfsmount_mount_handle path (fi_fh file_info) of
        None \<Rightarrow> None
      | Some (Inl n) \<Rightarrow> Some (file_info, Inl n)
      | Some (Inr file_entry) \<Rightarrow> Some (file_info\<lparr> fi_fh := Some file_entry \<rparr>, Inr ()))"

definition mount_fuse_open ::
    "'h libbfio \<Rightarrow> 's libfdata \<Rightarrow> libuna \<Rightarrow> 'h mount_handle option \<Rightarrow> u8 list \<Rightarrow> ('h, 's) fuse_file_info
      \<Rightarrow> (('h, 's) fuse_file_info \<times> unit fuse_result) option" where
  "mount_fuse_open bf lib una fsxfsmount_mount_handle path file_info =
     (if fi_fh file_info \<noteq> None then Some (file_info, Inl EINVAL)
      else if fi_flags file_info AND 3 \<noteq> O_RDONLY then Some (file_info, Inl EACCES)
      else fuse_open_file_entry bf lib una fsxfsmount_mount_handle path file_info)"

text \<open>The result is the data, the code returns how much it is.\<close>

definition mount_fuse_read ::
    "'s libfdata \<Rightarrow> nat \<Rightarrow> u64 \<Rightarrow> ('h, 's) fuse_file_info \<Rightarrow> ('h, 's) fuse_file_info \<times> u8 list fuse_result" where
  "mount_fuse_read lib buffer_size offset file_info =
     (if buffer_size > INT_MAX then (file_info, Inl EINVAL) else
      case fi_fh file_info of
        None \<Rightarrow> (file_info, Inl EINVAL)
      | Some file_entry \<Rightarrow>
          (case mount_file_entry_read_buffer_at_offset lib file_entry buffer_size offset of
             (file_entry, r) \<Rightarrow> (file_info\<lparr> fi_fh := Some file_entry \<rparr>, fuse_result_of EIO r)))"

definition mount_fuse_release :: "('h, 's) fuse_file_info \<Rightarrow> ('h, 's) fuse_file_info \<times> unit fuse_result" where
  "mount_fuse_release file_info =
     (if fi_fh file_info \<noteq> None then (file_info\<lparr> fi_fh := None \<rparr>, Inr ()) else (file_info, Inr ()))"

subsection \<open>Extended attributes\<close>

text \<open>
  The result is the number that is returned and the data that is written to the start of \<open>value\<close>. A size
  of 0 asks for the size of the value.
\<close>

definition fuse_attribute_value ::
    "'s libfdata \<Rightarrow> 's extended_attribute \<Rightarrow> nat \<Rightarrow> (nat \<times> u8 list) fuse_result option" where
  "fuse_attribute_value lib attr buffer_size =
     (let value_data_size = unat (libfsxfs_extended_attribute_get_size attr) in
      if value_data_size > INT_MAX then Some (Inl E2BIG)
      else if buffer_size = 0 then Some (Inr (value_data_size, []))
      else if buffer_size < value_data_size then Some (Inl ERANGE)
      else
        (case libfsxfs_extended_attribute_read_buffer_at_offset lib attr buffer_size 0 of
           None \<Rightarrow> None
         | Some (_, r) \<Rightarrow> Some (fuse_result_of EIO (bindE r (\<lambda>value_data. Inr (length value_data, value_data))))))"

definition mount_fuse_getxattr ::
    "'h libbfio \<Rightarrow> 's libfdata \<Rightarrow> libuna \<Rightarrow> 'h mount_handle option \<Rightarrow> u8 list \<Rightarrow> u8 list \<Rightarrow> nat
      \<Rightarrow> (nat \<times> u8 list) fuse_result option" where
  "mount_fuse_getxattr bf lib una fsxfsmount_mount_handle path name buffer_size =
     (if buffer_size > INT_MAX then Some (Inl EINVAL) else
      case fuse_existing_file_entry bf lib una fsxfsmount_mount_handle path None of
        None \<Rightarrow> None
      | Some (Inl n) \<Rightarrow> Some (Inl n)
      | Some (Inr file_entry) \<Rightarrow>
          (case libfsxfs_file_entry_get_extended_attribute_by_utf8_name (una_compare una)
                  (mfe_fsxfs_file_entry file_entry) name of
             (_, Inl e) \<Rightarrow> Some (Inl EIO)
           | (_, Inr None) \<Rightarrow> Some (Inl ENODATA)
           | (_, Inr (Some attr)) \<Rightarrow> fuse_attribute_value lib attr buffer_size))"

definition put_bytes :: "u8 list \<Rightarrow> nat \<Rightarrow> u8 list \<Rightarrow> u8 list result" where
  "put_bytes buffer index bytes =
     (if index + length bytes > length buffer then Inl (Undefined Out_Of_Bounds_Write)
      else Inr (take index buffer @ bytes @ drop (index + length bytes) buffer))"

text \<open>
  The names are written one behind the other, each with its end of string character, to \<open>names\<close>, a
  buffer of the size that is given; of size 0, only the sum of the sizes is determined.
\<close>

fun fuse_list_names ::
    "libuna \<Rightarrow> nat \<Rightarrow> int \<Rightarrow> 's file_entry \<Rightarrow> nat \<Rightarrow> u8 list \<Rightarrow> (nat \<times> u8 list) result" where
  "fuse_list_names una 0 extended_attribute_index entry list_offset names = Inr (list_offset, names)"
| "fuse_list_names una (Suc n) extended_attribute_index entry list_offset names =
     (case libfsxfs_file_entry_get_extended_attribute_by_index entry extended_attribute_index of
        (entry, r) \<Rightarrow>
          bindE r (\<lambda>attr.
          bindE (libfsxfs_extended_attribute_get_utf8_name_size (una_name_size una) attr) (\<lambda>name_size.
          bindE (if length names > 0 then
                   (if name_size > size_sub (length names) list_offset then Inl Value_Out_Of_Bounds else
                    bindE (libfsxfs_extended_attribute_get_utf8_name (una_name una) attr name_size) (\<lambda>name.
                    put_bytes names list_offset name))
                 else Inr names) (\<lambda>names.
          fuse_list_names una n (extended_attribute_index + 1) entry (list_offset + name_size) names))))"

definition fuse_attribute_names :: "libuna \<Rightarrow> 's file_entry \<Rightarrow> u8 list \<Rightarrow> (nat \<times> u8 list) result" where
  "fuse_attribute_names una entry names =
     (case libfsxfs_file_entry_get_number_of_extended_attributes entry of
        (entry, r) \<Rightarrow> bindE r (\<lambda>number_of_extended_attributes.
          fuse_list_names una number_of_extended_attributes 0 entry 0 names))"

definition mount_fuse_listxattr ::
    "'h libbfio \<Rightarrow> 's libfdata \<Rightarrow> libuna \<Rightarrow> 'h mount_handle option \<Rightarrow> u8 list \<Rightarrow> u8 list
      \<Rightarrow> (nat \<times> u8 list) fuse_result option" where
  "mount_fuse_listxattr bf lib una fsxfsmount_mount_handle path names =
     (if length names > INT_MAX then Some (Inl EINVAL) else
      case fuse_existing_file_entry bf lib una fsxfsmount_mount_handle path None of
        None \<Rightarrow> None
      | Some (Inl n) \<Rightarrow> Some (Inl n)
      | Some (Inr file_entry) \<Rightarrow>
          Some (fuse_result_of EIO (fuse_attribute_names una (mfe_fsxfs_file_entry file_entry) names)))"

subsection \<open>Directories\<close>

definition mount_fuse_opendir ::
    "'h libbfio \<Rightarrow> 's libfdata \<Rightarrow> libuna \<Rightarrow> 'h mount_handle option \<Rightarrow> u8 list \<Rightarrow> ('h, 's) fuse_file_info
      \<Rightarrow> (('h, 's) fuse_file_info \<times> unit fuse_result) option" where
  "mount_fuse_opendir bf lib una fsxfsmount_mount_handle path file_info =
     (if fi_fh file_info \<noteq> None then Some (file_info, Inl EINVAL)
      else fuse_open_file_entry bf lib una fsxfsmount_mount_handle path file_info)"

fun fuse_fill_entries ::
    "'s libfdata \<Rightarrow> libuna \<Rightarrow> u32 \<times> u32 \<Rightarrow> 'b fuse_fill_dir \<Rightarrow> nat \<Rightarrow> int \<Rightarrow> ('h, 's) mount_file_entry \<Rightarrow> 'b
      \<Rightarrow> (('h, 's) mount_file_entry \<times> 'b \<times> unit result) option" where
  "fuse_fill_entries lib una ids filler 0 sub_file_entry_index file_entry buffer = Some (file_entry, buffer, Inr ())"
| "fuse_fill_entries lib una ids filler (Suc n) sub_file_entry_index file_entry buffer =
     (case mount_file_entry_get_sub_file_entry_by_index lib una file_entry sub_file_entry_index None of
        None \<Rightarrow> None
      | Some (file_entry, Inl e) \<Rightarrow> Some (file_entry, buffer, Inl e)
      | Some (file_entry, Inr sub_file_entry) \<Rightarrow>
          (case mount_file_entry_get_name sub_file_entry (mount_file_entry_get_name_size sub_file_entry) of
             Inl e \<Rightarrow> Some (file_entry, buffer, Inl e)
           | Inr name \<Rightarrow>
               (case mount_fuse_filldir ids buffer filler name (Some sub_file_entry) of
                  (buffer, Inl e) \<Rightarrow> Some (file_entry, buffer, Inl e)
                | (buffer, Inr _) \<Rightarrow>
                    fuse_fill_entries lib una ids filler n (sub_file_entry_index + 1) file_entry buffer)))"

text \<open>
  The number of sub file entries is 0 before it is asked for, and stays 0 where the library does not
  write it. The names of the directory itself and of its parent are one and two dots.
\<close>

definition fuse_fill_sub_entries ::
    "'s libfdata \<Rightarrow> libuna \<Rightarrow> u32 \<times> u32 \<Rightarrow> 'b fuse_fill_dir \<Rightarrow> ('h, 's) mount_file_entry \<Rightarrow> 'b
      \<Rightarrow> (('h, 's) mount_file_entry \<times> 'b \<times> unit result) option" where
  "fuse_fill_sub_entries lib una ids filler file_entry buffer =
     (case mount_file_entry_get_number_of_sub_file_entries file_entry of
        None \<Rightarrow> None
      | Some (file_entry, Inl e) \<Rightarrow> Some (file_entry, buffer, Inl e)
      | Some (file_entry, Inr number_of_sub_file_entries) \<Rightarrow>
          fuse_fill_entries lib una ids filler
            (case number_of_sub_file_entries of None \<Rightarrow> 0 | Some n \<Rightarrow> n) 0 file_entry buffer)"

definition mount_fuse_readdir ::
    "'s libfdata \<Rightarrow> libuna \<Rightarrow> u32 \<times> u32 \<Rightarrow> 'b \<Rightarrow> 'b fuse_fill_dir \<Rightarrow> ('h, 's) fuse_file_info
      \<Rightarrow> (('h, 's) fuse_file_info \<times> 'b \<times> unit fuse_result) option" where
  "mount_fuse_readdir lib una ids buffer filler file_info =
     (case fi_fh file_info of
        None \<Rightarrow> Some (file_info, buffer, Inl EINVAL)
      | Some file_entry \<Rightarrow>
          (case mount_fuse_filldir ids buffer filler [0x2e, 0] (Some file_entry) of
             (buffer, Inl e) \<Rightarrow> Some (file_info, buffer, Inl EIO)
           | (buffer, Inr _) \<Rightarrow>
               (case mount_fuse_filldir ids buffer filler [0x2e, 0x2e, 0]
                       (None :: ('h, 's) mount_file_entry option) of
                  (buffer, Inl e) \<Rightarrow> Some (file_info, buffer, Inl EIO)
                | (buffer, Inr _) \<Rightarrow>
                    (case fuse_fill_sub_entries lib una ids filler file_entry buffer of
                       None \<Rightarrow> None
                     | Some (file_entry, buffer, r) \<Rightarrow>
                         Some (file_info\<lparr> fi_fh := Some file_entry \<rparr>, buffer, fuse_result_of EIO r)))))"

text \<open>The file entry of the directory is not freed, only forgotten.\<close>

definition mount_fuse_releasedir :: "('h, 's) fuse_file_info \<Rightarrow> ('h, 's) fuse_file_info \<times> unit fuse_result" where
  "mount_fuse_releasedir file_info =
     (if fi_fh file_info \<noteq> None then (file_info\<lparr> fi_fh := None \<rparr>, Inr ()) else (file_info, Inr ()))"

subsection \<open>Paths\<close>

definition mount_fuse_getattr ::
    "'h libbfio \<Rightarrow> 's libfdata \<Rightarrow> libuna \<Rightarrow> 'h mount_handle option \<Rightarrow> u32 \<times> u32 \<Rightarrow> u8 list
      \<Rightarrow> stat_info fuse_result option" where
  "mount_fuse_getattr bf lib una fsxfsmount_mount_handle ids path =
     (case fuse_existing_file_entry bf lib una fsxfsmount_mount_handle path None of
        None \<Rightarrow> None
      | Some (Inl n) \<Rightarrow> Some (Inl n)
      | Some (Inr file_entry) \<Rightarrow> Some (fuse_result_of EIO (file_entry_stat_info ids file_entry)))"

definition mount_fuse_readlink ::
    "'h libbfio \<Rightarrow> 's libfdata \<Rightarrow> libuna \<Rightarrow> 'h mount_handle option \<Rightarrow> u8 list \<Rightarrow> nat \<Rightarrow> u8 list fuse_result option" where
  "mount_fuse_readlink bf lib una fsxfsmount_mount_handle path buffer_size =
     (case fuse_existing_file_entry bf lib una fsxfsmount_mount_handle path None of
        None \<Rightarrow> None
      | Some (Inl n) \<Rightarrow> Some (Inl n)
      | Some (Inr file_entry) \<Rightarrow>
          Some (fuse_result_of EIO (snd (mount_file_entry_get_symbolic_link_target lib (una_name una) file_entry buffer_size))))"

definition mount_fuse_destroy :: "'h mount_handle option \<Rightarrow> 'h mount_handle option" where
  "mount_fuse_destroy fsxfsmount_mount_handle =
     (case fsxfsmount_mount_handle of None \<Rightarrow> None | Some _ \<Rightarrow> None)"

end
