(* ===== verification/File_Entry_Data.thy ===== *)
theory File_Entry_Data
  imports File_Entry_States
begin

text \<open>
  From the disk to the caller: what is read from a regular file, and from an extended attribute
  that is looked up by its name, is what the file system stores.
\<close>

subsection \<open>The data of a regular file\<close>

text \<open>Reads at offsets, one after the other on the same file entry.\<close>

fun file_entry_read_all ::
    "'s libfdata \<Rightarrow> 's file_entry \<Rightarrow> (nat \<times> u64) list \<Rightarrow> u8 list result list" where
  "file_entry_read_all lib entry [] = []"
| "file_entry_read_all lib entry ((n, off) # requests) =
     (case libfsxfs_file_entry_read_buffer_at_offset lib entry n off of
        (entry, r) \<Rightarrow> r # file_entry_read_all lib entry requests)"

lemma file_entry_read_all_serves:
  assumes "libfdata_reads lib view" and "fe_data_stream entry = Some s" and "file_type (fe_inode entry) = 0x8000"
    and "\<forall>(n, off) \<in> set requests. 0 \<le> sint off"
    and "\<And>n off. stream_bytes (fe_file_io_handle entry) (view s) off n = Some (f off n)"
  shows "file_entry_read_all lib entry requests = map (\<lambda>(n, off). Inr (f (unat off) n)) requests"
  using assms(2-5)
proof (induction requests arbitrary: entry s)
  case (Cons request requests)
  obtain n off where r: "request = (n, off)" by (cases request)
  have "0 \<le> sint off" using Cons.prems(3) r by simp
  then obtain s' where s': "libfdata_stream_read_buffer_at_offset lib s (fe_file_io_handle entry) n off = (s', Inr (f (unat off) n))"
    "view s' = (view s)\<lparr> sr_offset := unat off + length (f (unat off) n) \<rparr>"
    using assms(1) Cons.prems(4) unfolding libfdata_reads_def by blast
  have "file_entry_read_all lib (entry\<lparr> fe_data_stream := Some s' \<rparr>) requests =
      map (\<lambda>(n, off). Inr (f (unat off) n)) requests"
    by (rule Cons.IH [where s = s']) (use Cons.prems s' in simp_all)
  then show ?case
    using Cons.prems(1,2) s'(1)
    by (simp add: r libfsxfs_file_entry_read_buffer_at_offset_def with_file_entry_stream_def)
qed simp

text \<open>The file entry of a regular file has the stream of the bytes of the file.\<close>

lemma regular_file_entry:
  assumes "libfdata_records lib view" and "unat (io_number_of_relative_block_number_bits io) < 31"
    and "io_allocation_group_size io \<noteq> 0" and "io_block_size io \<noteq> 0"
    and "in_file_mode inode AND 0xf000 = 0x8000" and "in_fork_type inode = 2 \<or> in_fork_type inode = 3"
    and "in_size inode \<noteq> 0" and "in_data_extents_array inode = Some xs" and "extents_cover 0 xs e"
    and "unat (in_size inode) \<le> e * unat (io_block_size io)"
    and "\<forall>x \<in> set xs. extent_addressable io x \<and> extent_in_disk io disk x"
  shows "\<exists>entry s. libfsxfs_file_entry_initialize lib None io (disk_io disk) fs i inode d = Inr entry \<and>
    fe_data_stream entry = Some s \<and> fe_inode entry = inode \<and> fe_data_size entry = in_size inode \<and>
    fe_file_io_handle entry = disk_io disk \<and> sr_offset (view s) = 0 \<and>
    (\<forall>off n. stream_bytes (disk_io disk) (view s) off n =
      Some (map (file_byte io disk xs) [off..<min (off + n) (unat (in_size inode))]))"
proof -
  obtain s where s: "libfsxfs_data_stream_initialize_from_extents lib io inode (in_size inode) = Inr s"
    "view s = \<lparr> sr_handle = Block_Data_Handle, sr_segments = map (extent_segment io) xs,
      sr_mapped_size = Some (in_size inode), sr_offset = 0 \<rparr>"
    using data_stream_records [OF assms(1-4,8)] assms(11) by blast
  let ?entry = "\<lparr> fe_io_handle = io, fe_file_io_handle = disk_io disk, fe_file_system = fs, fe_inode_number = i,
      fe_inode = inode, fe_directory_entry = d, fe_extended_attributes_array = None, fe_directory = None,
      fe_data_size = in_size inode, fe_data_stream = Some s, fe_symbolic_link_data = None \<rparr>"
  have "libfsxfs_file_entry_initialize lib None io (disk_io disk) fs i inode d = Inr ?entry"
    using assms(5-7) s(1)
    by (auto simp: libfsxfs_file_entry_initialize_def file_type_def libfsxfs_inode_get_data_size_def
        libfsxfs_data_stream_initialize_def Let_def)
  moreover have "0 < unat (io_block_size io)" using assms(4) by (simp add: unat_gt_0)
  then have "stream_bytes (disk_io disk) (view s) off n =
      Some (map (file_byte io disk xs) [off..<min (off + n) (unat (in_size inode))])" for off n
    by (intro stream_bytes_extents [OF assms(9,11) _ assms(10)]) (simp_all add: s(2))
  ultimately show ?thesis using s(2) by force
qed

text \<open>
  C3: Whatever pieces of a regular file are read, in whatever order, they are the pieces of the
  file: for a file whose extents cover it, every byte comes from the block that its extent has for
  it, from the offset that the allocation group and the relative block number give, and is 0 in a
  hole, and no byte behind the size of the file is delivered.
\<close>

theorem file_entry_reads_file:
  assumes "libfdata_records lib view" and "libfdata_reads lib view"
    and "unat (io_number_of_relative_block_number_bits io) < 31"
    and "io_allocation_group_size io \<noteq> 0" and "io_block_size io \<noteq> 0"
    and "in_file_mode inode AND 0xf000 = 0x8000" and "in_fork_type inode = 2 \<or> in_fork_type inode = 3"
    and "in_size inode \<noteq> 0" and "in_data_extents_array inode = Some xs" and "extents_cover 0 xs e"
    and "unat (in_size inode) \<le> e * unat (io_block_size io)"
    and "\<forall>x \<in> set xs. extent_addressable io x \<and> extent_in_disk io disk x"
    and "\<forall>(n, off) \<in> set requests. 0 \<le> sint off"
  shows "\<exists>entry. libfsxfs_file_entry_initialize lib None io (disk_io disk) fs i inode d = Inr entry \<and>
    file_entry_read_all lib entry requests =
      map (\<lambda>(n, off). Inr (map (file_byte io disk xs) [unat off..<min (unat off + n) (unat (in_size inode))])) requests"
proof -
  obtain entry s where e: "libfsxfs_file_entry_initialize lib None io (disk_io disk) fs i inode d = Inr entry"
    "fe_data_stream entry = Some s" "fe_inode entry = inode" "fe_file_io_handle entry = disk_io disk"
    "\<And>off n. stream_bytes (disk_io disk) (view s) off n =
      Some (map (file_byte io disk xs) [off..<min (off + n) (unat (in_size inode))])"
    using regular_file_entry [OF assms(1,3-12)] by metis
  have "file_entry_read_all lib entry requests = map (\<lambda>(n, off). Inr (map (file_byte io disk xs)
      [unat off..<min (unat off + n) (unat (in_size inode))])) requests"
    using e assms(6,13) by (intro file_entry_read_all_serves [OF assms(2)]) (simp_all add: file_type_def)
  then show ?thesis using e(1) by blast
qed

text \<open>Two extents with a hole between them, in blocks of four bytes.\<close>

definition example_data_io :: io_handle where
  "example_data_io = io_handle_zero\<lparr> io_block_size := 4, io_allocation_group_size := 6,
     io_number_of_relative_block_number_bits := 3 \<rparr>"

definition example_data_extents :: "extent list" where
  "example_data_extents =
     [\<lparr> ex_logical_block_number = 0, ex_physical_block_number = 2, ex_number_of_blocks = 2, ex_range_flags = 0 \<rparr>,
      \<lparr> ex_logical_block_number = 2, ex_physical_block_number = 0, ex_number_of_blocks = 1, ex_range_flags = 1 \<rparr>,
      \<lparr> ex_logical_block_number = 3, ex_physical_block_number = 9, ex_number_of_blocks = 3, ex_range_flags = 0 \<rparr>]"

definition example_data_inode :: inode where
  "example_data_inode = inode_zero\<lparr> in_file_mode := 0x81a4, in_fork_type := 2, in_size := 22,
     in_data_extents_array := Some example_data_extents \<rparr>"

lemmas example_data_defs = example_data_io_def example_data_inode_def example_data_extents_def
  extent_addressable_def physical_block_def block_number_group_def block_number_relative_def

lemma file_entry_reads_file_witness:
  "\<exists>entry. libfsxfs_file_entry_initialize recording_libfdata None example_data_io (disk_io (map word_of_nat [0..<48]))
      example_file_system 5 example_data_inode None = Inr entry \<and>
    file_entry_read_all recording_libfdata entry [(4, 20), (6, 5), (3, 11)] =
      [Inr [36, 37], Inr [13, 14, 15, 0, 0, 0], Inr [0, 28, 29]]"
proof -
  have "\<forall>x \<in> set example_data_extents. extent_addressable example_data_io x \<and>
      extent_in_disk example_data_io (map word_of_nat [0..<48]) x"
    by (simp add: example_data_extents_def example_data_io_def extent_addressable_def extent_in_disk_def
        physical_block_def block_number_group_def block_number_relative_def extent_is_sparse_def
        LIBFSXFS_EXTENT_FLAG_IS_SPARSE_def)
  note r = file_entry_reads_file [OF recording_libfdata_records recording_libfdata_reads,
      of example_data_io example_data_inode example_data_extents 6, OF _ _ _ _ _ _ _ _ _ this,
      of "[(4, 20), (6, 5), (3, 11)]" example_file_system 5 None]
  have b: "map (file_byte example_data_io (map word_of_nat [0..<48]) example_data_extents) ps = bs"
    if "(ps, bs) \<in> {([20, 21], [36, 37]), ([5, 6, 7, 8, 9, 10], [13, 14, 15, 0, 0, 0]), ([11, 12, 13], [0, 28, 29])}"
    for ps bs
    using that
    by (auto simp: file_byte_def extent_byte_def example_data_extents_def example_data_io_def extent_has_block_def
        physical_block_def block_number_group_def block_number_relative_def extent_is_sparse_def
        LIBFSXFS_EXTENT_FLAG_IS_SPARSE_def)
  have u: "[20..<22] = [20, 21 :: nat]" "[5..<11] = [5, 6, 7, 8, 9, 10 :: nat]" "[11..<14] = [11, 12, 13 :: nat]"
    by (simp_all add: upt_rec)
  have c: "extents_cover 0 example_data_extents 6" by (simp add: example_data_extents_def)
  have i: "unat (io_number_of_relative_block_number_bits example_data_io) < 31"
    "io_allocation_group_size example_data_io = 6" "io_block_size example_data_io = 4"
    "in_file_mode example_data_inode = 0x81a4" "in_fork_type example_data_inode = 2"
    "in_size example_data_inode = 22" "in_data_extents_array example_data_inode = Some example_data_extents"
    by (simp_all add: example_data_io_def example_data_inode_def)
  show ?thesis
    using r c b [of "[20, 21]"] b [of "[5, 6, 7, 8, 9, 10]"] b [of "[11, 12, 13]"]
    by (simp add: u i del: file_entry_read_all.simps)
qed

subsection \<open>The value of an extended attribute\<close>

text \<open>The name of an attribute with the prefix of its name space.\<close>

definition attribute_item_name :: "attribute_item \<Rightarrow> u8 list" where
  "attribute_item_name item =
     (case item of (flags, name, val) \<Rightarrow> projr (attribute_name_prefix flags) @ name)"

lemma compare_attribute_item:
  assumes "compares_names compare encoded" and "encoded s" and "encoded (attribute_item_name item)"
  shows "libfsxfs_attribute_values_compare_name_with_utf8_string compare (attribute_item_values item) s =
    (let c = compare s (attribute_item_name item @ [0]) in Inr c)"
    and "compare s (attribute_item_name item @ [0]) = Compare_Equal \<longleftrightarrow> s = attribute_item_name item"
proof -
  obtain flags name val where item: "item = (flags, name, val)" by (cases item)
  have "compare s (attribute_item_name item @ [0]) \<noteq> Compare_Error"
    using assms unfolding compares_names_def by blast
  then show "libfsxfs_attribute_values_compare_name_with_utf8_string compare (attribute_item_values item) s =
    (let c = compare s (attribute_item_name item @ [0]) in Inr c)"
    by (simp add: libfsxfs_attribute_values_compare_name_with_utf8_string_def attribute_item_values_def item
        attribute_item_name_def Let_def split: comparison.split)
  show "compare s (attribute_item_name item @ [0]) = Compare_Equal \<longleftrightarrow> s = attribute_item_name item"
    using assms by (simp add: compares_names_def)
qed

lemma attribute_values_find_item:
  assumes "compares_names compare encoded" and "attribute_item_name item = s" and "\<forall>i \<in> set pre. attribute_item_name i \<noteq> s"
    and "\<forall>i \<in> set (pre @ [item]). encoded (attribute_item_name i)"
  shows "attribute_values_find (\<lambda>v. libfsxfs_attribute_values_compare_name_with_utf8_string compare v s)
    (map attribute_item_values (pre @ item # post)) = Inr (Some (attribute_item_values item))"
proof -
  have "encoded s" using assms(2,4) by simp
  note c = compare_attribute_item [OF assms(1) this]
  have "compare s (s @ [0]) = Compare_Equal"
    using c(2) [of item] assms(2,4) by simp
  then show ?thesis
    using assms(3,4) by (induction pre) (auto simp: c assms(2) Let_def)
qed

text \<open>The stream of a value that is kept with the attribute.\<close>

lemma value_stream_records:
  assumes "libfdata_records lib view" and "length val < 2 ^ 32"
  shows "\<exists>s h. libfsxfs_data_stream_initialize_from_data lib (if val = [] then None else Some val) (length val) = Inr s \<and>
    libfsxfs_buffer_data_handle_initialize None (if val = [] then None else Some val) (length val) = Inr h \<and>
    view s = \<lparr> sr_handle = Buffer_Data_Handle h,
      sr_segments = [\<lparr> sg_offset = 0, sg_size = word_of_nat (length val), sg_flags = 0 \<rparr>],
      sr_mapped_size = None, sr_offset = 0 \<rparr>"
proof -
  obtain h where h: "libfsxfs_buffer_data_handle_initialize None (if val = [] then None else Some val) (length val) = Inr h"
    using assms(2) by (auto simp: libfsxfs_buffer_data_handle_initialize_def)
  obtain s where s: "libfdata_stream_initialize lib (Buffer_Data_Handle h) = Inr s"
    "view s = \<lparr> sr_handle = Buffer_Data_Handle h, sr_segments = [], sr_mapped_size = None, sr_offset = 0 \<rparr>"
    using assms(1) unfolding libfdata_records_def by blast
  have "0 \<le> sint (word_of_nat (length val) :: u64)"
    using assms(2) by (simp add: sint_u64_nonneg(1) unat_of_nat)
  from libfdata_append [OF assms(1) _ this, of 0 s 0]
  obtain t where "libfdata_stream_append_segment lib s 0 (word_of_nat (length val)) 0 = Inr t"
    "view t = (view s)\<lparr> sr_segments := [\<lparr> sg_offset = 0, sg_size = word_of_nat (length val), sg_flags = 0 \<rparr>] \<rparr>"
    using s(2) by auto
  then show ?thesis
    using h s by (intro exI [of _ t] exI [of _ h]) (simp add: libfsxfs_data_stream_initialize_from_data_def)
qed

lemma value_stream_bytes:
  assumes "libfsxfs_buffer_data_handle_initialize None (if val = [] then None else Some val) (length val) = Inr h"
    and "length val < 2 ^ 32"
  shows "stream_bytes fio \<lparr> sr_handle = Buffer_Data_Handle h,
      sr_segments = [\<lparr> sg_offset = 0, sg_size = word_of_nat (length val), sg_flags = 0 \<rparr>],
      sr_mapped_size = None, sr_offset = 0 \<rparr> off n = Some (take n (drop off val))"
proof (cases "val = []")
  case True
  then show ?thesis by (simp add: stream_bytes_def stream_size_def)
next
  case False
  with assms(1) have "libfsxfs_buffer_data_handle_initialize None (Some val) (length val) = Inr h" by simp
  from stream_bytes_buffer [OF this] show ?thesis by simp
qed

lemma attributes_of_inline:
  assumes "fe_inode e0 = inode" and "in_attributes_fork_type inode = 1"
    and "in_inline_attributes_data inode = Some (attributes_table_bytes items @ rest)"
    and "unat (in_attributes_fork_size inode) = length (attributes_table_bytes items @ rest)"
    and "\<forall>item \<in> set items. attribute_item_fits item" and "length items < 256"
  shows "attributes_of e0 = Inr (map attribute_item_values items)"
proof -
  have "length (attributes_table_bytes items @ rest) < 65536"
    using unat_bounds(2) [of "in_attributes_fork_size inode"] unfolding assms(4) .
  from attributes_table_read_bytes [OF assms(5,6) this, of "[]"] show ?thesis
    by (auto simp: attributes_of_def assms(1) libfsxfs_attributes_get_from_inode_def assms(2,3,4)
        libfsxfs_attributes_table_initialize_def get_bytes_def)
qed

lemma attribute_item_value_read:
  assumes "libfdata_records lib view" and "libfdata_reads lib view" and "length (snd (snd item)) < 2 ^ 32"
    and "ea_attribute_values attr = attribute_item_values item" and "ea_data_stream attr = None"
    and "0 \<le> sint off"
  shows "\<exists>attr'. libfsxfs_extended_attribute_read_buffer_at_offset lib attr n off =
    Some (attr', Inr (take n (drop (unat off) (snd (snd item)))))"
proof -
  obtain flags name val where item: "item = (flags, name, val)" by (cases item)
  have len: "length val < 2 ^ 32" using assms(3) by (simp add: item)
  obtain t h where t: "libfsxfs_data_stream_initialize_from_data lib (if val = [] then None else Some val) (length val) = Inr t"
    "libfsxfs_buffer_data_handle_initialize None (if val = [] then None else Some val) (length val) = Inr h"
    "view t = \<lparr> sr_handle = Buffer_Data_Handle h,
      sr_segments = [\<lparr> sg_offset = 0, sg_size = word_of_nat (length val), sg_flags = 0 \<rparr>],
      sr_mapped_size = None, sr_offset = 0 \<rparr>"
    using value_stream_records [OF assms(1) len] by blast
  have "stream_bytes (ea_file_io_handle attr) (view t) (unat off) n = Some (take n (drop (unat off) val))"
    unfolding t(3) by (rule value_stream_bytes [OF t(2) len])
  then obtain t' where
    "libfdata_stream_read_buffer_at_offset lib t (ea_file_io_handle attr) n off = (t', Inr (take n (drop (unat off) val)))"
    using assms(2,6) unfolding libfdata_reads_def by blast
  moreover have "unat (word_of_nat (length val) :: u32) = length val" using len by (simp add: unat_of_nat)
  ultimately show ?thesis
    using t(1) assms(4,5)
    by (auto simp: libfsxfs_extended_attribute_read_buffer_at_offset_def with_attribute_stream_def
        libfsxfs_internal_extended_attribute_get_data_stream_def libfsxfs_attributes_get_value_data_stream_def
        attribute_item_values_def item Let_def)
qed

text \<open>
  An extended attribute that is stored in the inode is found by its name, with the prefix of
  its name space, and its value is read: in whatever state the file entry is, the lookup
  finds the first attribute of the short form table that has the name, and a read delivers the
  bytes of its value.
\<close>

theorem file_entry_reads_attribute:
  assumes "libfdata_records lib view" and "libfdata_reads lib view" and "compares_names compare encoded"
    and "libfsxfs_file_entry_initialize lib None io fio fs i inode d = Inr e0" and "file_entry_reachable lib e0 e"
    and "in_attributes_fork_type inode = 1"
    and "in_inline_attributes_data inode = Some (attributes_table_bytes (pre @ item # post) @ rest)"
    and "unat (in_attributes_fork_size inode) = length (attributes_table_bytes (pre @ item # post) @ rest)"
    and "\<forall>item \<in> set (pre @ item # post). attribute_item_fits item" and "length (pre @ item # post) < 256"
    and "attribute_item_name item = s" and "\<forall>item \<in> set pre. attribute_item_name item \<noteq> s"
    and "\<forall>item \<in> set (pre @ [item]). encoded (attribute_item_name item)" and "0 \<le> sint off"
  shows "\<exists>e' attr attr'. libfsxfs_file_entry_get_extended_attribute_by_utf8_name compare e s = (e', Inr (Some attr)) \<and>
    libfsxfs_extended_attribute_read_buffer_at_offset lib attr n off =
      Some (attr', Inr (take n (drop (unat off) (snd (snd item)))))"
proof -
  let ?items = "pre @ item # post"
  have "fe_inode e0 = inode"
    using assms(4) by (auto simp: libfsxfs_file_entry_initialize_def Let_def split: if_split_asm sum.split_asm)
  from attributes_of_inline [OF this assms(6-10)]
    file_entry_attributes_answer [OF file_entry_reachable_consistent [OF assms(4,5)]]
  have a: "file_entry_extended_attributes e =
      (e\<lparr> fe_extended_attributes_array := Some (map attribute_item_values ?items) \<rparr>, Inr ())" by simp
  let ?attr = "\<lparr> ea_io_handle = fe_io_handle e, ea_file_io_handle = fe_file_io_handle e, ea_inode = fe_inode e,
      ea_attribute_values = attribute_item_values item, ea_data_stream = None \<rparr>"
  have "libfsxfs_file_entry_get_extended_attribute_by_utf8_name compare e s =
      (e\<lparr> fe_extended_attributes_array := Some (map attribute_item_values ?items) \<rparr>, Inr (Some ?attr))"
    using attribute_values_find_item [OF assms(3,11-13), of post]
    by (simp add: file_entry_operations file_entry_find_attribute_values_def a file_entry_extended_attribute_def
        libfsxfs_extended_attribute_initialize_def)
  moreover have "length (snd (snd item)) < 2 ^ 32"
    using assms(9) by (cases item) (simp add: attribute_item_fits_def)
  ultimately show ?thesis
    using attribute_item_value_read [OF assms(1,2), of item ?attr off n] assms(14) by fastforce
qed

text \<open>An inode with two attributes of the same name in different name spaces.\<close>

definition example_attribute_items :: "attribute_item list" where
  "example_attribute_items = [(0, [0x61], [1, 2, 3]), (2, [0x61], [4, 5, 6, 7])]"

definition example_attribute_inode :: inode where
  "example_attribute_inode = inode_zero\<lparr> in_file_mode := 0x61a4, in_attributes_fork_type := 1,
     in_inline_attributes_data := Some (attributes_table_bytes example_attribute_items @ [0xff]),
     in_attributes_fork_size := 20 \<rparr>"

lemma file_entry_reads_attribute_witness:
  "\<exists>e e' attr attr'. libfsxfs_file_entry_initialize recording_libfdata None io_handle_zero example_path_file example_file_system 5
      example_attribute_inode None = Inr e \<and>
    libfsxfs_file_entry_get_extended_attribute_by_utf8_name example_compare e
      [0x74, 0x72, 0x75, 0x73, 0x74, 0x65, 0x64, 0x2e, 0x61] = (e', Inr (Some attr)) \<and>
    libfsxfs_extended_attribute_read_buffer_at_offset recording_libfdata attr 10 1 = Some (attr', Inr [5, 6, 7])"
proof -
  obtain e where e: "libfsxfs_file_entry_initialize recording_libfdata None io_handle_zero example_path_file example_file_system 5
      example_attribute_inode None = Inr e"
    by (simp add: libfsxfs_file_entry_initialize_def file_type_def example_attribute_inode_def)
  have c: "compares_names example_compare (\<lambda>s. 0 \<notin> set s)" by (rule example_compare_names) simp
  have l: "length (attributes_table_bytes example_attribute_items) = 19"
    by (simp add: attributes_table_bytes_def attribute_item_bytes_def example_attribute_items_def)
  have i: "in_attributes_fork_type example_attribute_inode = 1" "in_attributes_fork_size example_attribute_inode = 20"
    "in_inline_attributes_data example_attribute_inode = Some (attributes_table_bytes example_attribute_items @ [0xff])"
    by (simp_all add: example_attribute_inode_def)
  have items: "example_attribute_items = [(0, [0x61], [1, 2, 3])] @ (2, [0x61], [4, 5, 6, 7]) # []"
    by (simp add: example_attribute_items_def)
  have "\<exists>e' attr attr'. libfsxfs_file_entry_get_extended_attribute_by_utf8_name example_compare e
      [0x74, 0x72, 0x75, 0x73, 0x74, 0x65, 0x64, 0x2e, 0x61] = (e', Inr (Some attr)) \<and>
    libfsxfs_extended_attribute_read_buffer_at_offset recording_libfdata attr 10 1 =
      Some (attr', Inr (take 10 (drop (unat 1) (snd (snd (2 :: u8, [0x61 :: u8], [4, 5, 6, 7 :: u8]))))))"
    using file_entry_reads_attribute [OF recording_libfdata_records recording_libfdata_reads c e
          file_entry_reachable.start i(1) i(3) [unfolded items], of
          "[0x74, 0x72, 0x75, 0x73, 0x74, 0x65, 0x64, 0x2e, 0x61]" 1 10]
    by (simp add: i l [unfolded example_attribute_items_def] attribute_item_fits_def attribute_item_name_def attribute_name_prefix_def)
  with e show ?thesis by (simp add: numeral_eq_Suc)
qed

subsection \<open>The extents that are reported\<close>

text \<open>
  C38: The offset that is reported for an extent of a file is the offset that the data of the file is
  read from exactly when the extent is in the first allocation group or the size of a group is
  the power of two that the block numbers leave room for: the offset is computed from the block
  number as a whole, without the translation of its allocation group.
\<close>

theorem reported_extent_offset_iff:
  assumes "in_data_extents_array (fe_inode e) = Some xs" and "k < length xs"
    and "extent_addressable (fe_io_handle e) (xs ! k)"
    and "libfsxfs_file_entry_get_extent_by_index e (int k) = Inr (off, sz, flags)"
  shows "off = sg_offset (extent_segment (fe_io_handle e) (xs ! k)) \<longleftrightarrow>
    block_number_group (fe_io_handle e) (ex_physical_block_number (xs ! k)) = 0 \<or>
    unat (io_allocation_group_size (fe_io_handle e)) =
      2 ^ unat (io_number_of_relative_block_number_bits (fe_io_handle e))"
proof -
  let ?io = "fe_io_handle e" and ?b = "ex_physical_block_number (xs ! k)"
  let ?bs = "unat (io_block_size (fe_io_handle e))" and ?m = "2 ^ unat (io_number_of_relative_block_number_bits (fe_io_handle e)) :: nat"
  have v: "io_block_size ?io \<noteq> 0" "?b \<le> 0x7fffffffffffffff div ucast (io_block_size ?io)" "off = ?b * ucast (io_block_size ?io)"
    using assms(1,2,4)
    by (auto simp: libfsxfs_file_entry_get_extent_by_index_def libfsxfs_inode_get_data_extent_by_index_def
        array_get_entry_by_index_def libfsxfs_extent_get_values_def split: if_split_asm)
  have "unat ?b \<le> 0x7fffffffffffffff div ?bs" using v(2) by (simp add: word_le_nat_alt unat_div)
  then have "unat ?b * ?bs \<le> 0x7fffffffffffffff div ?bs * ?bs" by (rule mult_le_mono1)
  also have "\<dots> \<le> 0x7fffffffffffffff" by simp
  finally have "unat ?b * ?bs \<le> 0x7fffffffffffffff" .
  then have o: "unat off = unat ?b * ?bs" unfolding v(3) by (simp add: unat_word_ariths)
  have b: "unat ?b = block_number_group ?io ?b * ?m + block_number_relative ?io ?b"
    unfolding block_number_group_def block_number_relative_def by (rule div_mult_mod_eq [symmetric])
  have "off = sg_offset (extent_segment ?io (xs ! k)) \<longleftrightarrow>
      unat ?b * ?bs = physical_block ?io ?b * ?bs"
    using extent_segment_offset [OF assms(3)] o by (metis word_unat_eq_iff)
  also have "\<dots> \<longleftrightarrow> block_number_group ?io ?b = 0 \<or> unat (io_allocation_group_size ?io) = ?m"
    using v(1) by (subst b) (auto simp: physical_block_def unat_eq_0)
  finally show ?thesis .
qed

lemma reported_extent_offset_iff_witness:
  "\<exists>e. libfsxfs_file_entry_initialize recording_libfdata None example_data_io (disk_io []) example_file_system 5 example_data_inode None = Inr e \<and>
     libfsxfs_file_entry_get_extent_by_index e 2 = Inr (36, 12, 0) \<and>
     sg_offset (extent_segment example_data_io (example_data_extents ! 2)) \<noteq> 36"
proof -
  have s: "libfsxfs_data_stream_initialize recording_libfdata example_data_io example_data_inode 22 =
      Inr \<lparr> sr_handle = Block_Data_Handle, sr_segments = map (extent_segment example_data_io) example_data_extents,
        sr_mapped_size = Some 22, sr_offset = 0 \<rparr>"
    using data_stream_records [OF recording_libfdata_records, of example_data_io example_data_inode example_data_extents 22]
    by (simp add: libfsxfs_data_stream_initialize_def example_data_defs)
  have i: "file_type example_data_inode = 0x8000" "libfsxfs_inode_get_data_size example_data_inode = 22"
    by (simp_all add: file_type_def libfsxfs_inode_get_data_size_def example_data_inode_def)
  obtain e where e: "libfsxfs_file_entry_initialize recording_libfdata None example_data_io (disk_io []) example_file_system 5
      example_data_inode None = Inr e" "fe_io_handle e = example_data_io" "fe_inode e = example_data_inode"
    by (simp add: libfsxfs_file_entry_initialize_def i s)
  have g: "libfsxfs_file_entry_get_extent_by_index e (int 2) = Inr (36, 12, 0)"
    by (simp add: libfsxfs_file_entry_get_extent_by_index_def e(2,3) libfsxfs_inode_get_data_extent_by_index_def
        array_get_entry_by_index_def example_data_defs libfsxfs_extent_get_values_def)
  have "36 \<noteq> sg_offset (extent_segment (fe_io_handle e) (example_data_extents ! 2))"
    using reported_extent_offset_iff [OF _ _ _ g, of example_data_extents] e(2,3)
    by (simp add: example_data_defs)
  with e g show ?thesis by auto
qed

end
