(* ===== verification/Mount_Fuse_Files.thy ===== *)
theory Mount_Fuse_Files
  imports Mount_Fuse File_Entry_Data
begin

text \<open>
  What a process sees of the mounted file system: the states of an open file and of an open directory, and
  the data that is read through them.
\<close>

subsection \<open>The states of the file handle\<close>

text \<open>The callbacks that are called with a file information, in any order, with any arguments.\<close>

inductive fuse_step ::
    "'h libbfio \<Rightarrow> 's libfdata \<Rightarrow> libuna \<Rightarrow> 'h mount_handle option \<Rightarrow> 'b fuse_fill_dir
      \<Rightarrow> ('h, 's) fuse_file_info \<Rightarrow> ('h, 's) fuse_file_info \<Rightarrow> bool"
  for bf lib una handle filler where
  open_file: "mount_fuse_open bf lib una handle path fi = Some (fi', r) \<Longrightarrow> fuse_step bf lib una handle filler fi fi'"
| open_directory:
    "mount_fuse_opendir bf lib una handle path fi = Some (fi', r) \<Longrightarrow> fuse_step bf lib una handle filler fi fi'"
| read_file: "mount_fuse_read lib n off fi = (fi', d) \<Longrightarrow> fuse_step bf lib una handle filler fi fi'"
| read_directory:
    "mount_fuse_readdir lib una ids buffer filler fi = Some (fi', buffer', r) \<Longrightarrow> fuse_step bf lib una handle filler fi fi'"
| release_file: "mount_fuse_release fi = (fi', r) \<Longrightarrow> fuse_step bf lib una handle filler fi fi'"
| release_directory: "mount_fuse_releasedir fi = (fi', r) \<Longrightarrow> fuse_step bf lib una handle filler fi fi'"

inductive fuse_reachable ::
    "'h libbfio \<Rightarrow> 's libfdata \<Rightarrow> libuna \<Rightarrow> 'h mount_handle option \<Rightarrow> 'b fuse_fill_dir
      \<Rightarrow> ('h, 's) fuse_file_info \<Rightarrow> ('h, 's) fuse_file_info \<Rightarrow> bool"
  for bf lib una handle filler fi0 where
  start: "fuse_reachable bf lib una handle filler fi0 fi0"
| step: "fuse_reachable bf lib una handle filler fi0 fi \<Longrightarrow> fuse_step bf lib una handle filler fi fi' \<Longrightarrow>
    fuse_reachable bf lib una handle filler fi0 fi'"

text \<open>A file entry that a path leads to, in a state that it reaches by being listed and read.\<close>

definition opened_entry ::
    "'h libbfio \<Rightarrow> 's libfdata \<Rightarrow> libuna \<Rightarrow> 'h mount_handle option \<Rightarrow> ('h, 's) mount_file_entry \<Rightarrow> bool" where
  "opened_entry bf lib una handle e \<longleftrightarrow>
     (\<exists>path e0. fuse_existing_file_entry bf lib una handle path None = Some (Inr e0) \<and>
        file_entry_reachable lib (mfe_fsxfs_file_entry e0) (mfe_fsxfs_file_entry e) \<and>
        e = e0\<lparr> mfe_fsxfs_file_entry := mfe_fsxfs_file_entry e \<rparr>)"

definition fuse_handle_typed ::
    "'h libbfio \<Rightarrow> 's libfdata \<Rightarrow> libuna \<Rightarrow> 'h mount_handle option \<Rightarrow> ('h, 's) fuse_file_info \<Rightarrow> bool" where
  "fuse_handle_typed bf lib una handle fi \<longleftrightarrow> (\<forall>e. fi_fh fi = Some e \<longrightarrow> opened_entry bf lib una handle e)"

lemma opened_entry_step:
  assumes "opened_entry bf lib una handle e" and "file_entry_step lib (mfe_fsxfs_file_entry e) x"
  shows "opened_entry bf lib una handle (e\<lparr> mfe_fsxfs_file_entry := x \<rparr>)"
proof -
  obtain path e0 where e: "fuse_existing_file_entry bf lib una handle path None = Some (Inr e0)"
    "file_entry_reachable lib (mfe_fsxfs_file_entry e0) (mfe_fsxfs_file_entry e)"
    "e = e0\<lparr> mfe_fsxfs_file_entry := mfe_fsxfs_file_entry e \<rparr>"
    using assms(1) by (auto simp: opened_entry_def)
  then have "e\<lparr> mfe_fsxfs_file_entry := x \<rparr> = e0\<lparr> mfe_fsxfs_file_entry := x \<rparr>" by (metis mount_file_entry.surjective mount_file_entry.update_convs(4))
  moreover have "file_entry_reachable lib (mfe_fsxfs_file_entry e0) x"
    by (rule file_entry_reachable.step [OF e(2) assms(2)])
  ultimately show ?thesis using e(1) by (auto simp: opened_entry_def)
qed

lemma opened_entry_start:
  "fuse_existing_file_entry bf lib una handle path None = Some (Inr e) \<Longrightarrow> opened_entry bf lib una handle e"
  unfolding opened_entry_def by (intro exI [of _ path] exI [of _ e]) (simp add: file_entry_reachable.start)

lemma open_file_entry_typed:
  assumes "fuse_open_file_entry bf lib una handle path fi = Some (fi', r)" and "fi_fh fi = None"
  shows "fuse_handle_typed bf lib una handle fi' \<and> fi_flags fi' = fi_flags fi"
  using assms
  by (auto simp: fuse_open_file_entry_def fuse_handle_typed_def intro: opened_entry_start
      split: option.split_asm sum.split_asm)

lemma fill_entries_opened:
  assumes "opened_entry bf lib una handle e" and "fuse_fill_entries lib una' ids filler n i e buffer = Some (e', buffer', r)"
  shows "opened_entry bf lib una handle e'"
  using assms
proof (induction n arbitrary: i e buffer)
  case (Suc n)
  have s: "opened_entry bf lib una handle e1"
    if "mount_file_entry_get_sub_file_entry_by_index lib una' e i None = Some (e1, x)" for e1 x
    using that Suc.prems(1)
    by (auto simp: mount_file_entry_get_sub_file_entry_by_index_def Let_def
        intro!: opened_entry_step intro: file_entry_step.sub_file_entry_by_index
        split: option.split_asm sum.split_asm)
  then show ?case
    using Suc by (auto split: option.split_asm sum.split_asm prod.split_asm)
qed simp

lemma fuse_readdir_opened:
  assumes "opened_entry bf lib una handle e" and "fuse_fill_sub_entries lib una' ids filler e buffer = Some (e', buffer', r)"
  shows "opened_entry bf lib una handle e'"
proof -
  obtain e1 x where x: "mount_file_entry_get_number_of_sub_file_entries e = Some (e1, x)"
    using assms(2) by (auto simp: fuse_fill_sub_entries_def split: option.split_asm)
  then have "opened_entry bf lib una handle e1"
    using assms(1)
    by (auto simp: mount_file_entry_get_number_of_sub_file_entries_def
        intro!: opened_entry_step intro: file_entry_step.number_of_sub_file_entries split: option.split_asm)
  then show ?thesis
    using assms(2) x by (cases x) (auto simp: fuse_fill_sub_entries_def intro: fill_entries_opened [OF _ , rotated])
qed

lemma fuse_step_typed:
  assumes "fuse_step bf lib una handle filler fi fi'" and "fuse_handle_typed bf lib una handle fi"
  shows "fuse_handle_typed bf lib una handle fi' \<and> fi_flags fi' = fi_flags fi"
  using assms
proof induction
  case (open_file path fi fi' r)
  then show ?case
    by (auto simp: mount_fuse_open_def dest: open_file_entry_typed split: if_split_asm)
next
  case (open_directory path fi fi' r)
  then show ?case
    by (auto simp: mount_fuse_opendir_def dest: open_file_entry_typed split: if_split_asm)
next
  case (read_file n off fi fi' d)
  then show ?case
    by (auto simp: mount_fuse_read_def fuse_handle_typed_def mount_file_entry_read_buffer_at_offset_def
        intro!: opened_entry_step intro: file_entry_step.read_buffer_at_offset
        split: if_split_asm option.split_asm prod.split_asm)
next
  case (read_directory ids buffer fi fi' buffer' r)
  then show ?case
    by (auto simp: mount_fuse_readdir_def fuse_handle_typed_def dest: fuse_readdir_opened
        split: option.split_asm prod.split_asm sum.split_asm)
qed (auto simp: mount_fuse_release_def mount_fuse_releasedir_def fuse_handle_typed_def split: if_split_asm)

lemma fuse_reachable_typed:
  assumes "fuse_reachable bf lib una handle filler fi0 fi" and "fi_fh fi0 = None"
  shows "fuse_handle_typed bf lib una handle fi \<and> fi_flags fi = fi_flags fi0"
  using assms(1)
proof induction
  case start
  then show ?case using assms(2) by (simp add: fuse_handle_typed_def)
next
  case (step fi fi')
  then show ?case using fuse_step_typed by metis
qed

text \<open>
  C15: A file handle is either closed or holds a file entry that a path leads to, in a state that it
  reaches by being listed and read, whatever callbacks are called in whatever order. A closed handle is
  refused for reading and listing, an open one for opening again, and releasing brings the file
  information back to what it was.
\<close>

theorem fuse_handle_states:
  assumes "fuse_reachable bf lib una handle filler fi0 fi" and "fi_fh fi0 = None"
  shows "(case fi_fh fi of
      None \<Rightarrow> fi = fi0 \<and> mount_fuse_read lib n off fi = (fi, Inl EINVAL) \<and>
        mount_fuse_readdir lib una ids buffer filler fi = Some (fi, buffer, Inl EINVAL)
    | Some e \<Rightarrow> opened_entry bf lib una handle e \<and>
        mount_fuse_open bf lib una handle path fi = Some (fi, Inl EINVAL) \<and>
        mount_fuse_opendir bf lib una handle path fi = Some (fi, Inl EINVAL)) \<and>
    mount_fuse_release fi = (fi0, Inr ()) \<and> mount_fuse_releasedir fi = (fi0, Inr ())"
proof -
  have f: "fi\<lparr> fi_fh := None \<rparr> = fi0"
    using fuse_reachable_typed [OF assms] assms(2) by (cases fi; cases fi0) simp
  then have "fi = fi0" if "fi_fh fi = None" using that by (cases fi) simp
  then show ?thesis
    using fuse_reachable_typed [OF assms] f
    by (auto simp: fuse_handle_typed_def mount_fuse_read_def mount_fuse_readdir_def mount_fuse_open_def
        mount_fuse_opendir_def mount_fuse_release_def mount_fuse_releasedir_def split: option.split)
qed

subsection \<open>The data of a file\<close>

text \<open>
  What the inode of a file stores: the data in the inode itself, or what its extents map to. \<open>disk\<close> are the
  contents of the volume.
\<close>

definition stored_data :: "io_handle \<Rightarrow> u8 list \<Rightarrow> inode \<Rightarrow> u8 list" where
  "stored_data io disk inode =
     (if in_fork_type inode = 1 then take (unat (in_size inode)) (the (in_inline_data inode))
      else map (file_byte io disk (the (in_data_extents_array inode))) [0..<unat (in_size inode)])"

definition data_is_stored :: "io_handle \<Rightarrow> file_io \<Rightarrow> u8 list \<Rightarrow> inode \<Rightarrow> bool" where
  "data_is_stored io fio disk inode \<longleftrightarrow>
     (in_fork_type inode = 1 \<and> unat (in_size inode) < 2 ^ 63 \<and>
        (\<exists>data. in_inline_data inode = Some data \<and> unat (in_size inode) \<le> length data)) \<or>
     ((in_fork_type inode = 2 \<or> in_fork_type inode = 3) \<and> in_size inode \<noteq> 0 \<and> fio = disk_io disk \<and>
        unat (io_number_of_relative_block_number_bits io) < 31 \<and> io_allocation_group_size io \<noteq> 0 \<and>
        io_block_size io \<noteq> 0 \<and>
        (\<exists>xs e. in_data_extents_array inode = Some xs \<and> extents_cover 0 xs e \<and>
           unat (in_size inode) \<le> e * unat (io_block_size io) \<and>
           (\<forall>x \<in> set xs. extent_addressable io x \<and> extent_in_disk io disk x)))"

lemma inline_stream_bytes:
  assumes "libfdata_records lib view" and "sz \<le> length data" and "sz < 2 ^ 63"
  shows "\<exists>s. libfsxfs_data_stream_initialize_from_data lib (Some data) sz = Inr s \<and>
    (\<forall>fio off n. stream_bytes fio (view s) off n = Some (take n (drop off (take sz data))))"
proof -
  obtain h where h: "libfsxfs_buffer_data_handle_initialize None (Some data) sz = Inr h"
    using assms(3) by (auto simp: libfsxfs_buffer_data_handle_initialize_def)
  obtain s where s: "libfdata_stream_initialize lib (Buffer_Data_Handle h) = Inr s"
    "view s = \<lparr> sr_handle = Buffer_Data_Handle h, sr_segments = [], sr_mapped_size = None, sr_offset = 0 \<rparr>"
    using assms(1) unfolding libfdata_records_def by blast
  have "0 \<le> sint (word_of_nat sz :: u64)"
    using assms(3) by (simp add: sint_u64_nonneg(1) unat_of_nat)
  from libfdata_append [OF assms(1) _ this, of 0 s 0]
  obtain t where t: "libfdata_stream_append_segment lib s 0 (word_of_nat sz) 0 = Inr t"
    "view t = (view s)\<lparr> sr_segments := [\<lparr> sg_offset = 0, sg_size = word_of_nat sz, sg_flags = 0 \<rparr>] \<rparr>"
    using s(2) by auto
  then show ?thesis
    using h s stream_bytes_buffer [OF h assms(2), of "view t"]
    by (intro exI [of _ t]) (simp add: libfsxfs_data_stream_initialize_from_data_def)
qed

lemma take_drop_map_upt: "take n (drop off (map f [0..<m])) = map f [off..<min (off + n) m]"
  by (cases "off + n \<le> m") (simp_all add: take_map drop_map)

lemma data_stream_stored:
  assumes "libfdata_records lib view" and "data_is_stored io fio disk inode"
  shows "\<exists>s. libfsxfs_data_stream_initialize lib io inode (in_size inode) = Inr s \<and>
    (\<forall>off n. stream_bytes fio (view s) off n = Some (take n (drop off (stored_data io disk inode))))"
proof (cases "in_fork_type inode = 1")
  case True
  then obtain data where d: "in_inline_data inode = Some data" "unat (in_size inode) \<le> length data"
    "unat (in_size inode) < 2 ^ 63" using assms(2) by (auto simp: data_is_stored_def)
  from inline_stream_bytes [OF assms(1) d(2,3)] show ?thesis
    using True by (auto simp: libfsxfs_data_stream_initialize_def d(1) stored_data_def)
next
  case False
  then obtain xs e where x: "in_fork_type inode = 2 \<or> in_fork_type inode = 3" "in_size inode \<noteq> 0" "fio = disk_io disk"
    "in_data_extents_array inode = Some xs" "extents_cover 0 xs e"
    "unat (in_size inode) \<le> e * unat (io_block_size io)"
    "\<forall>x \<in> set xs. extent_addressable io x \<and> extent_in_disk io disk x"
    using assms(2) by (auto simp: data_is_stored_def)
  have io: "unat (io_number_of_relative_block_number_bits io) < 31" "io_allocation_group_size io \<noteq> 0"
    "io_block_size io \<noteq> 0"
    using assms(2) False by (auto simp: data_is_stored_def)
  obtain s where s: "libfsxfs_data_stream_initialize_from_extents lib io inode (in_size inode) = Inr s"
    "view s = \<lparr> sr_handle = Block_Data_Handle, sr_segments = map (extent_segment io) xs,
      sr_mapped_size = Some (in_size inode), sr_offset = 0 \<rparr>"
    using data_stream_records [OF assms(1) io x(4)] x(7) by blast
  have "0 < unat (io_block_size io)" using io(3) by (simp add: unat_gt_0)
  then have "stream_bytes fio (view s) off n = Some (take n (drop off (stored_data io disk inode)))" for off n
    unfolding x(3) using stream_bytes_extents [OF x(5,7) _ x(6), of "view s" off n] False x(4)
    by (simp add: s(2) stored_data_def take_drop_map_upt)
  moreover have "libfsxfs_data_stream_initialize lib io inode (in_size inode) = Inr s"
    using s(1) x(1,2) by (auto simp: libfsxfs_data_stream_initialize_def)
  ultimately show ?thesis by blast
qed

lemma file_entry_reads_stored:
  assumes "libfdata_records lib view" and "libfdata_reads lib view"
    and "libfsxfs_file_entry_initialize lib None io fio fs i inode d = Inr e"
    and "file_type inode = 0x8000" and "data_is_stored io fio disk inode"
    and "\<forall>(n, off) \<in> set requests. 0 \<le> sint off"
  shows "file_entry_read_all lib e requests =
    map (\<lambda>(n, off). Inr (take n (drop (unat off) (stored_data io disk inode)))) requests"
proof -
  obtain s where s: "libfsxfs_data_stream_initialize lib io inode (in_size inode) = Inr s"
    "\<And>off n. stream_bytes fio (view s) off n = Some (take n (drop off (stored_data io disk inode)))"
    using data_stream_stored [OF assms(1,5)] by blast
  have "fe_data_stream e = Some s" "fe_file_io_handle e = fio" "fe_inode e = inode"
    using assms(3,4) s(1)
    by (auto simp: libfsxfs_file_entry_initialize_def libfsxfs_inode_get_data_size_def Let_def)
  then show ?thesis
    using s(2) assms(4,6) by (intro file_entry_read_all_serves [OF assms(2)]) simp_all
qed

fun fuse_read_all ::
    "'s libfdata \<Rightarrow> ('h, 's) fuse_file_info \<Rightarrow> (nat \<times> u64) list \<Rightarrow> u8 list fuse_result list" where
  "fuse_read_all lib fi [] = []"
| "fuse_read_all lib fi ((n, off) # requests) =
     (case mount_fuse_read lib n off fi of (fi, r) \<Rightarrow> r # fuse_read_all lib fi requests)"

lemma fuse_read_all_entry:
  assumes "fi_fh fi = Some e" and "\<forall>(n, off) \<in> set requests. n \<le> INT_MAX"
  shows "fuse_read_all lib fi requests =
    map (fuse_result_of EIO) (file_entry_read_all lib (mfe_fsxfs_file_entry e) requests)"
  using assms
proof (induction requests arbitrary: fi e)
  case (Cons request requests)
  then show ?case
    by (cases request)
      (auto simp: mount_fuse_read_def mount_file_entry_read_buffer_at_offset_def split: prod.split)
qed simp

lemma mounted_file_entry_of_volume:
  assumes "libfsxfs_volume_get_file_entry_by_utf8_path bf lib compare copy v path = Some (Inr (Some e))"
  shows "entry_of_volume bf lib v e"
  using assms unfolding path_lookup_defs by (rule volume_file_entry_of_path_Inr)

text \<open>A path of escaped names is opened when the path of the names leads to a file entry in the volume.\<close>

lemma mounted_path_opens:
  assumes "libuna_codec una encode valid" and "\<forall>cs \<in> set names. character_name valid cs \<and> cs \<noteq> []"
    and "length (rooted_path (encode_name (escaped_units encode)) names) < SSIZE_MAX"
    and "mfs_fsxfs_volume (mh_file_system handle) = Some v"
    and "libfsxfs_volume_get_file_entry_by_utf8_path bf lib (una_compare una) (una_copy una) v
      (rooted_path (encode_name encode) names) = Some (Inr (Some e))"
  shows "fuse_existing_file_entry bf lib una (Some handle) (rooted_path (encode_name (escaped_units encode)) names) None =
    Some (Inr (mounted_entry (mh_file_system handle) (mounted_name encode names) e))"
  by (simp add: fuse_existing_file_entry_def fuse_file_entry_by_path_def mount_lookup [OF assms(1-4)] assms(5))

text \<open>
  C13: A file that is opened in the mounted file system and read, in any pieces in any order, gives the
  bytes that its inode stores: those in the inode, or those of the blocks that its extents map to, 0 in
  the holes, and nothing behind the size of the file.
\<close>

theorem mounted_file_reads_stored_data:
  assumes "libfdata_records lib view" and "libfdata_reads lib view" and "libuna_codec una encode valid"
    and "\<forall>cs \<in> set names. character_name valid cs \<and> cs \<noteq> []"
    and "length (rooted_path (encode_name (escaped_units encode)) names) < SSIZE_MAX"
    and "mfs_fsxfs_volume (mh_file_system handle) = Some v"
    and "libfsxfs_volume_get_file_entry_by_utf8_path bf lib (una_compare una) (una_copy una) v
      (rooted_path (encode_name encode) names) = Some (Inr (Some e))"
    and "file_type (fe_inode e) = 0x8000"
    and "data_is_stored (vol_io_handle v) (fe_file_io_handle e) disk (fe_inode e)"
    and "fi_fh fi = None" and "fi_flags fi AND 3 = 0"
    and "\<forall>(n, off) \<in> set requests. n \<le> INT_MAX \<and> 0 \<le> sint off"
  shows "\<exists>fi'. mount_fuse_open bf lib una (Some handle) (rooted_path (encode_name (escaped_units encode)) names) fi =
      Some (fi', Inr ()) \<and>
    fuse_read_all lib fi' requests =
      map (\<lambda>(n, off). Inr (take n (drop (unat off) (stored_data (vol_io_handle v) disk (fe_inode e))))) requests"
proof -
  let ?me = "mounted_entry (mh_file_system handle) (mounted_name encode names) e"
  obtain fs d where e: "libfsxfs_file_entry_initialize lib None (vol_io_handle v) (fe_file_io_handle e) fs
      (fe_inode_number e) (fe_inode e) d = Inr e"
    using mounted_file_entry_of_volume [OF assms(7)]
    by (auto simp: entry_of_volume_def) (metis file_entry_initialize_fields)
  have r: "file_entry_read_all lib e requests =
      map (\<lambda>(n, off). Inr (take n (drop (unat off) (stored_data (vol_io_handle v) disk (fe_inode e))))) requests"
    using assms(12) by (intro file_entry_reads_stored [OF assms(1,2) e assms(8,9)]) auto
  have "mount_fuse_open bf lib una (Some handle) (rooted_path (encode_name (escaped_units encode)) names) fi =
      Some (fi\<lparr> fi_fh := Some ?me \<rparr>, Inr ())"
    using assms(10,11) mounted_path_opens [OF assms(3-7)]
    by (simp add: mount_fuse_open_def fuse_open_file_entry_def)
  moreover have "fuse_read_all lib (fi\<lparr> fi_fh := Some ?me \<rparr>) requests =
      map (fuse_result_of EIO) (file_entry_read_all lib e requests)"
    using fuse_read_all_entry [of "fi\<lparr> fi_fh := Some ?me \<rparr>" ?me requests lib] assms(12)
    by (auto simp: mounted_entry_def)
  ultimately show ?thesis by (simp add: r fuse_result_of_def comp_def case_prod_unfold)
qed

subsection \<open>An example\<close>

lemma sub_file_entry_number:
  assumes "libfsxfs_file_entry_get_sub_file_entry_by_index lib d i = Some (d2, Inr s)"
    and "fe_directory_entry s = Some entry"
  shows "fe_inode_number s = de_inode_number entry"
proof -
  obtain d' where "file_entry_sub_file_entry lib d' i = Inr s"
    using assms(1) by (auto simp: libfsxfs_file_entry_get_sub_file_entry_by_index_def
        split: option.split_asm prod.split_asm sum.split_asm)
  then obtain io fio fs inode entry' where
    "libfsxfs_file_entry_initialize lib None io fio fs (de_inode_number entry') inode (Some entry') = Inr s"
    by (auto simp: file_entry_sub_file_entry_def libfsxfs_directory_entry_clone_def split: option.split_asm)
  then show ?thesis using assms(2) file_entry_initialize_number file_entry_initialize_name by fastforce
qed

text \<open>The file in the root directory of the example, with five bytes in its inode.\<close>

lemma example_file_data:
  assumes "get_existing_inode example_file_system example_path_io example_path_file 0x42 = Inr inode"
  shows "file_type inode = 0x8000 \<and> in_fork_type inode = 1 \<and> in_size inode = 5 \<and>
    in_inline_data inode = Some (replicate 156 0)"
proof -
  have l: "length example_inode_data = 256" by (simp add: example_inode_data_def)
  have "\<exists>j. libfsxfs_inode_read_data (inode_zero\<lparr> in_data_size := 256, in_data := example_inode_data \<rparr>)
        example_inode_data = Inr j \<and> in_attributes_fork_type j = 1 \<and> in_fork_type j = 1 \<and> in_size j = 5 \<and>
     in_file_mode j = 0x81a4 \<and> in_data j = example_inode_data \<and> in_data_fork_offset j = 100"
    by (simp add: example_inode_data_def libfsxfs_inode_read_data_def inode_core_size_def
        inode_read_core_def inode_read_creation_time_def inode_set_forks_def be_word_def
        inode_zero_def inode_signed_time_def inode_unsigned_time_def nth_append Let_def)
  then obtain inode' where "get_existing_inode example_file_system example_path_io example_path_file 0x42 = Inr inode'"
    "in_file_mode inode' = 0x81a4" "in_fork_type inode' = 1" "in_size inode' = 5"
    "in_inline_data inode' = Some (drop 100 example_inode_data)"
    using example_existing_inode [of "0x42", OF _ refl] l by auto
  moreover have "drop 100 example_inode_data = replicate 156 0"
    by (simp add: example_inode_data_def)
  ultimately show ?thesis using assms by (simp add: file_type_def)
qed

lemma example_mounted_file:
  "\<exists>e. libfsxfs_volume_get_file_entry_by_utf8_path example_session_libbfio recording_libfdata
      (una_compare example_libuna) (una_copy example_libuna) example_session_volume
      (rooted_path (encode_name utf8_units) [[0x61]]) = Some (Inr (Some e)) \<and>
    file_type (fe_inode e) = 0x8000 \<and> in_fork_type (fe_inode e) = 1 \<and> in_size (fe_inode e) = 5 \<and>
    in_inline_data (fe_inode e) = Some (replicate 156 0)"
proof -
  obtain d d2 s where d: "libfsxfs_volume_get_file_entry_by_utf8_path example_session_libbfio recording_libfdata
      (una_compare example_libuna) (una_copy example_libuna) example_session_volume [0x2f] = Some (Inr (Some d))"
    "libfsxfs_file_entry_get_sub_file_entry_by_index recording_libfdata d 0 = Some (d2, Inr s)"
    "fe_directory d2 = Some \<lparr> dir_entries_array = [example_listed_entry] \<rparr>"
    "fe_directory_entry s = Some example_listed_entry"
    using example_listing by blast
  have c: "unicode_decodes (una_copy example_libuna) utf8_units utf8_valid" 
    "compares_names (una_compare example_libuna) (encoded_name utf8_units utf8_valid)"
    using example_libuna_codec example_libuna_names by (simp_all add: libuna_codec_def libuna_names_def)
  have p: "libfsxfs_volume_get_file_entry_by_utf8_path example_session_libbfio recording_libfdata
      (una_compare example_libuna) (una_copy example_libuna) example_session_volume
      (rooted_path (encode_name utf8_units) ([] @ [[0x61]])) = Some (Inr (Some s))"
    by (rule listed_entry_by_path [OF c _ _ _ _ file_entry_reachable.start d(2)])
      (use encoded_nameI [of utf8_valid "[0x61]" utf8_units] in
        \<open>simp_all add: d example_mounted_paths name_valid_def example_listed_name utf8_valid_def\<close>)
  have "fe_inode_number s = 0x42"
    using sub_file_entry_number [OF d(2,4)] by (simp add: example_listed_entry_def)
  then have "get_existing_inode example_file_system example_path_io example_path_file 0x42 = Inr (fe_inode s)"
    using entry_of_volume_fields(4) [OF example_session_sources(1) mounted_file_entry_of_volume [OF p]]
    by (simp add: example_session_sources(2))
  with example_file_data p show ?thesis by auto
qed

lemma mounted_file_reads_stored_data_witness:
  "\<exists>fi. mount_fuse_open example_session_libbfio recording_libfdata example_libuna (Some example_mount_handle)
      [0x2f, 0x61] \<lparr> fi_flags = 0, fi_fh = None \<rparr> = Some (fi, Inr ()) \<and>
    fuse_read_all recording_libfdata fi [(3, 1), (10, 4), (1, 9)] = [Inr [0, 0, 0], Inr [0], Inr []]"
proof -
  obtain e where e: "libfsxfs_volume_get_file_entry_by_utf8_path example_session_libbfio recording_libfdata
      (una_compare example_libuna) (una_copy example_libuna) example_session_volume
      (rooted_path (encode_name utf8_units) [[0x61]]) = Some (Inr (Some e))"
    "file_type (fe_inode e) = 0x8000" "in_fork_type (fe_inode e) = 1" "in_size (fe_inode e) = 5"
    "in_inline_data (fe_inode e) = Some (replicate 156 0)"
    using example_mounted_file by blast
  have "data_is_stored (vol_io_handle example_session_volume) (fe_file_io_handle e) [] (fe_inode e)"
    by (simp add: data_is_stored_def e(3-5))
  moreover have "stored_data (vol_io_handle example_session_volume) [] (fe_inode e) = replicate 5 0"
    by (simp add: stored_data_def e(3-5))
  moreover have "replicate 3 0 = [0, 0, 0 :: u8]" by (simp add: numeral_eq_Suc)
  moreover have "mfs_fsxfs_volume (mh_file_system example_mount_handle) = Some example_session_volume"
    by (simp add: example_mount_handle_def)
  ultimately show ?thesis
    using mounted_file_reads_stored_data [OF recording_libfdata_records recording_libfdata_reads example_libuna_codec
      _ _ _ e(1,2), where handle = example_mount_handle and disk = "[]" and fi = "\<lparr> fi_flags = 0, fi_fh = None \<rparr>"
        and requests = "[(3, 1), (10, 4), (1, 9)]"]
    by (simp add: character_name_def utf8_valid_def example_mounted_paths del: fuse_read_all.simps)
qed

lemma fuse_handle_states_witness:
  "\<exists>fi. fi_fh fi \<noteq> None \<and> mount_fuse_open example_session_libbfio recording_libfdata example_libuna
      (Some example_mount_handle) [0x2f] fi = Some (fi, Inl EINVAL) \<and>
    mount_fuse_release fi = (\<lparr> fi_flags = 0, fi_fh = None \<rparr>, Inr ())"
proof -
  obtain d where "libfsxfs_volume_get_file_entry_by_utf8_path example_session_libbfio recording_libfdata
      (una_compare example_libuna) (una_copy example_libuna) example_session_volume
      (rooted_path (encode_name utf8_units) []) = Some (Inr (Some d))"
    using example_listing by (auto simp: example_mounted_paths)
  from mounted_path_opens [OF example_libuna_codec _ _ _ this, of example_mount_handle]
  obtain e where e: "fuse_existing_file_entry example_session_libbfio recording_libfdata example_libuna
      (Some example_mount_handle) [0x2f] None = Some (Inr e)"
    by (auto simp: example_mount_handle_def example_mounted_paths)
  let ?closed = "\<lparr> fi_flags = 0, fi_fh = None \<rparr> :: (unit, stream_record) fuse_file_info"
  have "mount_fuse_open example_session_libbfio recording_libfdata example_libuna (Some example_mount_handle)
      [0x2f] ?closed = Some (?closed\<lparr> fi_fh := Some e \<rparr>, Inr ())"
    by (simp add: mount_fuse_open_def fuse_open_file_entry_def e)
  from fuse_reachable.step [OF fuse_reachable.start fuse_step.open_file [OF this,
      where filler = "\<lambda>(n :: nat) name info. (Suc n, 0)"]]
  have "fuse_reachable example_session_libbfio recording_libfdata example_libuna (Some example_mount_handle)
      (\<lambda>(n :: nat) name info. (Suc n, 0)) ?closed (?closed\<lparr> fi_fh := Some e \<rparr>)" .
  from fuse_handle_states [OF this, of 0 0 "(0, 0)" 0 "[0x2f]"] show ?thesis
    by (intro exI [of _ "?closed\<lparr> fi_fh := Some e \<rparr>"]) simp
qed

end
