(* ===== verification/Mount_Fuse_Listing.thy ===== *)
theory Mount_Fuse_Listing
  imports Mount_Fuse_Files
begin

text \<open>
  What a process is told of the mounted file system agrees: the names and the status that the listing of a
  directory gives with what the paths of these names give, and the size of an extended attribute or of the
  list of their names with what is then read.
\<close>

subsection \<open>The status of a file\<close>

lemma file_entry_stat_info_small:
  "unat (fe_data_size (mfe_fsxfs_file_entry e)) < 2 ^ 63 \<Longrightarrow> \<exists>info. file_entry_stat_info ids e = Inr info"
  by (simp add: file_entry_stat_info_def mount_fuse_set_stat_info_def mount_file_entry_get_size_def
      libfsxfs_file_entry_get_size_def)

lemma sdiv_pos:
  fixes k l :: int
  assumes "0 < l"
  shows "k sdiv l = (if 0 \<le> k then k div l else - (- k div l))"
  using assms by (simp add: signed_divide_int_def sgn_if)

lemma sdiv_rounds:
  fixes k l :: int
  assumes "0 < l"
  shows "k sdiv l * l \<le> k \<longleftrightarrow> 0 \<le> k \<or> l dvd k" and "\<bar>k sdiv l * l - k\<bar> < l"
proof -
  define q r where "q = \<bar>k\<bar> div l" and "r = \<bar>k\<bar> mod l"
  then have k: "\<bar>k\<bar> = q * l + r" "0 \<le> r" "r < l" "l dvd k \<longleftrightarrow> r = 0" "k sdiv l = (if 0 \<le> k then q else - q)"
    using assms by (simp_all add: dvd_eq_mod_eq_0 [symmetric] sdiv_pos)
  then show "k sdiv l * l \<le> k \<longleftrightarrow> 0 \<le> k \<or> l dvd k" "\<bar>k sdiv l * l - k\<bar> < l"
    by (auto simp: algebra_simps abs_if split: if_split_asm)
qed

text \<open>The seconds of a time are within the range of their type.\<close>

lemma sint_stat_seconds: "sint (stat_seconds t) = sint t sdiv 1000000000"
proof -
  have r: "- (2 ^ 63) \<le> sint t" "sint t < 2 ^ 63" using sint_ge [of t] sint_lt [of t] by simp_all
  then have "\<bar>sint t\<bar> div 1000000000 \<le> 2 ^ 63 div 1000000000" by (intro zdiv_mono1) linarith+
  then have "\<bar>sint t sdiv 1000000000\<bar> < 2 ^ 63"
    by (cases "sint t = 0") (simp_all add: signed_divide_int_def abs_mult)
  then have "signed_take_bit 63 (sint t sdiv 1000000000) = sint t sdiv 1000000000"
    by (intro signed_take_bit_int_eq_self) linarith+
  then show ?thesis by (simp add: stat_seconds_def sint_sbintrunc')
qed

text \<open>
  The status of a file has its size and mode, and its times in seconds: a time is rounded down to a second
  from the epoch on, but a time before the epoch that is no full second is rounded up, to a second that is
  later than the time. The number of links is 2 for all types of files with a certain bit, also for block
  devices and sockets, and 1 for all others, whatever number of links the inode stores.
\<close>

theorem stat_info_of_file_entry:
  assumes "file_entry_stat_info ids e = Inr info"
  shows "st_size info = mount_file_entry_get_size e \<and> 0 \<le> sint (st_size info) \<and>
    st_mode info = mount_file_entry_get_file_mode e \<and>
    (st_nlink info = 2 \<longleftrightarrow> bit (mount_file_entry_get_file_mode e) 14) \<and> st_nlink info \<in> {1, 2} \<and>
    (sint (st_mtime info) * 1000000000 \<le> sint (mount_file_entry_get_modification_time e) \<longleftrightarrow>
       0 \<le> sint (mount_file_entry_get_modification_time e) \<or>
       1000000000 dvd sint (mount_file_entry_get_modification_time e)) \<and>
    \<bar>sint (st_mtime info) * 1000000000 - sint (mount_file_entry_get_modification_time e)\<bar> < 1000000000"
proof -
  let ?t = "sint (mount_file_entry_get_modification_time e)"
  have "w AND 0x4000 \<noteq> 0 \<longleftrightarrow> bit w 14" for w :: u16
  proof -
    have "(0x4000 :: u16) = push_bit 14 1" by simp
    then show ?thesis by (simp only: and_exp_eq_0_iff_not_bit push_bit_of_1) simp
  qed
  moreover have "0 \<le> sint (mount_file_entry_get_size e)"
    using assms sint_u64_nonneg(1) [of "mount_file_entry_get_size e"]
    by (simp add: file_entry_stat_info_def mount_fuse_set_stat_info_def split: if_split_asm)
  moreover have "info = \<lparr> st_size = mount_file_entry_get_size e, st_mode = mount_file_entry_get_file_mode e,
      st_nlink = (if mount_file_entry_get_file_mode e AND 0x4000 \<noteq> 0 then 2 else 1), st_uid = fst ids, st_gid = snd ids,
      st_atime = stat_seconds (mount_file_entry_get_access_time e),
      st_ctime = stat_seconds (mount_file_entry_get_inode_change_time e),
      st_mtime = stat_seconds (mount_file_entry_get_modification_time e) \<rparr>"
    using assms by (simp add: file_entry_stat_info_def mount_fuse_set_stat_info_def split: if_split_asm)
  moreover note sdiv_rounds [of 1000000000 ?t]
  ultimately show ?thesis by (simp add: sint_stat_seconds)
qed

text \<open>A socket that was changed a nanosecond before the epoch.\<close>

lemma stat_info_of_file_entry_witness:
  "\<exists>(e :: (unit, unit) mount_file_entry) info. sint (mount_file_entry_get_modification_time e) = - 1 \<and>
     file_entry_stat_info (0, 0) e = Inr info \<and> sint (st_mtime info) = 0 \<and> st_nlink info = 2"
proof -
  let ?e = "\<lparr> mfe_file_system = \<lparr> mfs_mounted_timestamp = 0, mfs_fsxfs_volume = None \<rparr>, mfe_name = None, mfe_name_size = 0, mfe_fsxfs_file_entry =
      \<lparr> fe_io_handle = io_handle_zero, fe_file_io_handle = example_path_file, fe_file_system = example_file_system,
        fe_inode_number = 5, fe_inode = inode_zero\<lparr> in_file_mode := 0xc1a4, in_modification_time := - 1 \<rparr>,
        fe_directory_entry = None, fe_extended_attributes_array = None, fe_directory = None, fe_data_size = 0,
        fe_data_stream = None, fe_symbolic_link_data = None \<rparr> \<rparr> :: (unit, unit) mount_file_entry"
  obtain info where i: "file_entry_stat_info (0, 0) ?e = Inr info"
    using file_entry_stat_info_small [of ?e] by auto
  have m: "mount_file_entry_get_modification_time ?e = - 1" "mount_file_entry_get_file_mode ?e = 0xc1a4"
    by (simp_all add: mount_file_entry_get_modification_time_def libfsxfs_file_entry_get_modification_time_def
        mount_file_entry_get_file_mode_def libfsxfs_file_entry_get_file_mode_def inode_zero_def Let_def
        libfsxfs_inode_get_modification_time_def libfsxfs_inode_get_file_mode_def)
  have "bit (0xc1a4 :: u16) 14" by simp
  then have "\<not> sint (st_mtime info) * 1000000000 \<le> - 1 \<and>
      \<bar>sint (st_mtime info) * 1000000000 - - 1\<bar> < 1000000000 \<and>
      st_nlink info = 2"
    using stat_info_of_file_entry [OF i] unfolding m by auto
  then have "sint (st_mtime info) = 0 \<and> st_nlink info = 2" by linarith
  with m(1) i show ?thesis by (intro exI [of _ ?e] exI [of _ info]) simp
qed

subsection \<open>Listing a directory\<close>

text \<open>The entries that the callback for directories hands over, in order.\<close>

definition collect_entry :: "(u8 list \<times> stat_info) list fuse_fill_dir" where
  "collect_entry buffer name stat_info = (buffer @ [(name, stat_info)], 0)"

lemma file_entry_stat_info_entry:
  "file_entry_stat_info ids (mounted_entry fs name (mfe_fsxfs_file_entry e)) = file_entry_stat_info ids e"
  by (simp add: file_entry_stat_info_def mounted_entry_def mount_file_entry_get_size_def
      mount_file_entry_get_file_mode_def mount_file_entry_get_access_time_def
      mount_file_entry_get_inode_change_time_def mount_file_entry_get_modification_time_def)

lemma filldir_collect:
  assumes "mount_fuse_filldir ids buffer collect_entry name (Some e) = (buffer', Inr ())"
  shows "\<exists>info. file_entry_stat_info ids e = Inr info \<and> buffer' = buffer @ [(string_of_buffer name, info)]"
  using assms by (auto simp: mount_fuse_filldir_def collect_entry_def split: sum.split_asm)

lemma mount_name_read:
  assumes "mfe_name s = Some name" and "length name = mount_file_entry_get_name_size s" and "last name = 0"
    and "mount_file_entry_get_name s (mount_file_entry_get_name_size s) = Inr bytes"
  shows "bytes = name"
proof -
  have "bytes = name[length name - 1 := 0]"
    using assms by (auto simp: mount_file_entry_get_name_def mount_file_entry_get_name_size_def get_bytes_def
        split: if_split_asm)
  then show ?thesis using assms(3) by (cases name rule: rev_cases) simp_all
qed

lemma sub_file_entry_at:
  assumes "file_entry_consistent d d1" and "directory_of d = Some (Inr (Some directory))"
    and "libfsxfs_file_entry_get_sub_file_entry_by_index lib d1 (int i) = Some (d2, Inr s)"
  shows "fe_directory d2 = Some directory \<and> i < length (dir_entries_array directory) \<and>
    fe_directory_entry s = Some (dir_entries_array directory ! i)"
proof -
  have "file_entry_sub_file_entry lib (d1\<lparr> fe_directory := Some directory \<rparr>) (int i) = Inr s"
    "d2 = d1\<lparr> fe_directory := Some directory \<rparr>"
    using assms(3)
    by (auto simp: libfsxfs_file_entry_get_sub_file_entry_by_index_def file_entry_directory_answer [OF assms(1)] assms(2))
  then show ?thesis
    by (auto simp: file_entry_sub_file_entry_def libfsxfs_directory_entry_clone_def
        libfsxfs_directory_get_entry_by_index_def array_get_entry_by_index_def
        split: if_split_asm dest: file_entry_initialize_name)
qed

text \<open>
  A directory \<open>d\<close> of the mounted file system, at the path of \<open>names\<close>, whose entries have the distinct names
  \<open>css\<close>, and a volume library that is suited.
\<close>

definition mounted_directory ::
    "'h libbfio \<Rightarrow> 's libfdata \<Rightarrow> libuna \<Rightarrow> (u32 \<Rightarrow> u8 list) \<Rightarrow> (u32 \<Rightarrow> bool) \<Rightarrow> 'h volume
      \<Rightarrow> u32 list list \<Rightarrow> u32 list list \<Rightarrow> 's file_entry \<Rightarrow> bool" where
  "mounted_directory bf lib una encode valid v names css d \<longleftrightarrow>
     (\<forall>cs \<in> set (names @ css). name_valid valid cs) \<and>
     length (rooted_path (encode_name (escaped_units encode)) names) < SSIZE_MAX \<and>
     (\<forall>cs \<in> set css. length (rooted_path (encode_name (escaped_units encode)) (names @ [cs])) < SSIZE_MAX \<and>
        length (rooted_path (encode_name encode) (names @ [cs])) \<le> SSIZE_MAX) \<and>
     libfsxfs_volume_get_file_entry_by_utf8_path bf lib (una_compare una) (una_copy una) v
       (rooted_path (encode_name encode) names) = Some (Inr (Some d)) \<and>
     (\<exists>directory. directory_of d = Some (Inr (Some directory)) \<and>
        map directory_entry_name_bytes (dir_entries_array directory) = map (encode_name encode) css \<and>
        distinct (map directory_entry_name_bytes (dir_entries_array directory)))"

lemma mounted_directory_consistent:
  assumes "mounted_directory bf lib una encode valid v names css d" and "file_entry_reachable lib d e"
  shows "file_entry_consistent d e"
proof -
  have "entry_of_volume bf lib v d"
    using assms(1) mounted_file_entry_of_volume by (auto simp: mounted_directory_def)
  then obtain fs fio inode y where "libfsxfs_file_entry_initialize lib None (vol_io_handle v) fio fs
      (fe_inode_number d) inode y = Inr d" by (auto simp: entry_of_volume_def)
  from file_entry_reachable_consistent [OF this assms(2)] show ?thesis .
qed

lemma listed_entry_status:
  assumes una: "libuna_codec una encode valid" "libuna_names una (encoded_name encode valid)"
    and dir: "mounted_directory bf lib una encode valid v names css d"
    and v: "mfs_fsxfs_volume (mh_file_system handle) = Some v"
    and e: "file_entry_reachable lib d (mfe_fsxfs_file_entry e)"
    and s: "mount_file_entry_get_sub_file_entry_by_index lib una e (int i) None = Some (e', Inr s)"
  shows "file_entry_reachable lib d (mfe_fsxfs_file_entry e') \<and> i < length css \<and>
    mount_fuse_getattr bf lib una (Some handle) ids
      (rooted_path (encode_name (escaped_units encode)) (names @ [css ! i])) =
      Some (fuse_result_of EIO (file_entry_stat_info ids s)) \<and>
    (\<forall>bytes. mount_file_entry_get_name s (mount_file_entry_get_name_size s) = Inr bytes \<longrightarrow>
       string_of_buffer bytes = encode_name (escaped_units encode) (css ! i))"
proof -
  obtain directory where d: "directory_of d = Some (Inr (Some directory))"
    "map directory_entry_name_bytes (dir_entries_array directory) = map (encode_name encode) css"
    "distinct (map directory_entry_name_bytes (dir_entries_array directory))"
    using dir by (auto simp: mounted_directory_def)
  obtain x where x: "libfsxfs_file_entry_get_sub_file_entry_by_index lib (mfe_fsxfs_file_entry e) (int i) =
      Some (mfe_fsxfs_file_entry e', Inr x)" "mount_sub_file_entry una (mfe_file_system e) x = Some (Inr s)"
    using s by (auto simp: mount_file_entry_get_sub_file_entry_by_index_def Let_def
        split: option.split_asm sum.split_asm)
  have xs: "mfe_fsxfs_file_entry s = x"
    using x(2) by (auto simp: mount_sub_file_entry_def mount_file_entry_initialize_def
        split: option.split_asm if_split_asm)
  note at = sub_file_entry_at [OF mounted_directory_consistent [OF dir e] d(1) x(1)]
  have enc: "\<forall>entry \<in> set (dir_entries_array directory). encoded_name encode valid (directory_entry_name_bytes entry)"
  proof
    fix entry
    assume "entry \<in> set (dir_entries_array directory)"
    then have "directory_entry_name_bytes entry \<in> set (map (encode_name encode) css)"
      by (simp only: d(2) [symmetric] set_map imageI)
    then obtain cs where cs: "cs \<in> set css" "directory_entry_name_bytes entry = encode_name encode cs" by auto
    have "name_valid valid cs" using dir cs(1) by (simp add: mounted_directory_def)
    then show "encoded_name encode valid (directory_entry_name_bytes entry)" unfolding cs(2) by (rule encoded_nameI)
  qed
  have i: "i < length css" using at arg_cong [OF d(2), of length] by simp
  then have n: "directory_entry_name_bytes (dir_entries_array directory ! i) = encode_name encode (css ! i)"
    using at arg_cong [OF d(2), of "\<lambda>xs. xs ! i"] by simp
  have r: "file_entry_reachable lib d (mfe_fsxfs_file_entry e')"
    by (rule file_entry_reachable.step [OF e file_entry_step.sub_file_entry_by_index [OF x(1)]])
  have c: "css ! i \<in> set css" using i by simp
  obtain listed where l: "mfe_name s = Some listed"
    "string_of_buffer listed = encode_name (escaped_units encode) (css ! i)"
    "length listed = mount_file_entry_get_name_size s" "last listed = 0"
    "mount_handle_get_file_entry_by_path bf lib una handle
      (rooted_path (encode_name (escaped_units encode)) (names @ [css ! i])) None =
    Some (Inr (Some (mounted_entry (mh_file_system handle) (encode_name (escaped_units encode) (css ! i)) x)))"
    using mount_listed_lookup [OF una, of names "css ! i" handle v bf lib d e "int i" e' s] dir c v e s at n d(3) enc
    by (auto simp: mounted_directory_def xs)
  have "mount_fuse_getattr bf lib una (Some handle) ids
      (rooted_path (encode_name (escaped_units encode)) (names @ [css ! i])) =
      Some (fuse_result_of EIO (file_entry_stat_info ids s))"
    using file_entry_stat_info_entry [of ids "mh_file_system handle" "encode_name (escaped_units encode) (css ! i)" s]
    by (simp add: mount_fuse_getattr_def fuse_existing_file_entry_def fuse_file_entry_by_path_def l(5) xs)
  then show ?thesis using r i mount_name_read [OF l(1,3,4)] l(2) by blast
qed

text \<open>The entries that are left to be listed.\<close>

lemma fill_entries_listing:
  assumes una: "libuna_codec una encode valid" "libuna_names una (encoded_name encode valid)"
    and dir: "mounted_directory bf lib una encode valid v names css d"
    and v: "mfs_fsxfs_volume (mh_file_system handle) = Some v"
    and e: "file_entry_reachable lib d (mfe_fsxfs_file_entry e)"
    and fill: "fuse_fill_entries lib una ids collect_entry n (int i) e buffer = Some (e', buffer', Inr ())"
  shows "\<exists>infos. buffer' = buffer @ zip (map (encode_name (escaped_units encode)) (take n (drop i css))) infos \<and>
    length infos = n \<and> (\<forall>j < n. mount_fuse_getattr bf lib una (Some handle) ids
      (rooted_path (encode_name (escaped_units encode)) (names @ [css ! (i + j)])) = Some (Inr (infos ! j)))"
  using e fill
proof (induction n arbitrary: i e buffer)
  case 0
  then show ?case by simp
next
  case (Suc n)
  obtain e1 s where s: "mount_file_entry_get_sub_file_entry_by_index lib una e (int i) None = Some (e1, Inr s)"
    using Suc.prems(2) by (auto split: option.split_asm sum.split_asm)
  obtain bytes where b: "mount_file_entry_get_name s (mount_file_entry_get_name_size s) = Inr bytes"
    using Suc.prems(2) s by (auto split: sum.split_asm)
  obtain buffer1 where f: "mount_fuse_filldir ids buffer collect_entry bytes (Some s) = (buffer1, Inr ())"
    "fuse_fill_entries lib una ids collect_entry n (int i + 1) e1 buffer1 = Some (e', buffer', Inr ())"
    using Suc.prems(2) s b by (auto split: prod.split_asm sum.split_asm)
  obtain info where info: "file_entry_stat_info ids s = Inr info"
    "buffer1 = buffer @ [(string_of_buffer bytes, info)]"
    using filldir_collect [OF f(1)] by blast
  note st = listed_entry_status [OF una dir v Suc.prems(1) s, of ids]
  have c: "i < length css" and name: "string_of_buffer bytes = encode_name (escaped_units encode) (css ! i)"
    using st b by blast+
  have "int i + 1 = int (Suc i)" by simp
  then obtain infos where rest:
    "buffer' = buffer1 @ zip (map (encode_name (escaped_units encode)) (take n (drop (Suc i) css))) infos"
    "length infos = n"
    "\<forall>j < n. mount_fuse_getattr bf lib una (Some handle) ids
      (rooted_path (encode_name (escaped_units encode)) (names @ [css ! (Suc i + j)])) = Some (Inr (infos ! j))"
    using Suc.IH [of e1 "Suc i" buffer1] st f(2) by metis
  have "take (Suc n) (drop i css) = css ! i # take n (drop (Suc i) css)"
    using c by (simp add: Cons_nth_drop_Suc [symmetric])
  then have "buffer' = buffer @ zip (map (encode_name (escaped_units encode)) (take (Suc n) (drop i css))) (info # infos)"
    using rest(1) info(2) name by simp
  moreover have "mount_fuse_getattr bf lib una (Some handle) ids
      (rooted_path (encode_name (escaped_units encode)) (names @ [css ! (i + j)])) = Some (Inr ((info # infos) ! j))"
    if "j < Suc n" for j
    using that rest(3) st info(1) by (cases j) (auto simp: fuse_result_of_def)
  ultimately show ?case using rest(2) by (intro exI [of _ "info # infos"]) auto
qed

lemma file_entry_stat_info_reachable:
  assumes "file_entry_consistent d (mfe_fsxfs_file_entry e)"
  shows "file_entry_stat_info ids (mounted_entry fs name d) = file_entry_stat_info ids e"
proof -
  have "file_entry_fixed (mfe_fsxfs_file_entry e) = file_entry_fixed d"
    using assms by (simp add: file_entry_consistent_def)
  note f = file_entry_fixed_eqD [OF this]
  show ?thesis
    by (simp add: file_entry_stat_info_def mounted_entry_def mount_file_entry_get_size_def
        mount_file_entry_get_file_mode_def mount_file_entry_get_access_time_def
        mount_file_entry_get_inode_change_time_def mount_file_entry_get_modification_time_def
        libfsxfs_file_entry_get_size_def libfsxfs_file_entry_get_file_mode_def
        libfsxfs_file_entry_get_access_time_def libfsxfs_file_entry_get_inode_change_time_def
        libfsxfs_file_entry_get_modification_time_def f)
qed

text \<open>
  C14: A listing agrees with the paths: when a directory is listed without an error, the names are those of the
  directory itself, of its parent, and the escaped names of all its entries, in order, and the status that
  the listing gives for a name, also for the directory itself, is the status that its path has.
\<close>

theorem mounted_listing_agrees:
  assumes una: "libuna_codec una encode valid" "libuna_names una (encoded_name encode valid)"
    and dir: "mounted_directory bf lib una encode valid v names css d"
    and v: "mfs_fsxfs_volume (mh_file_system handle) = Some v"
    and fi: "fi_fh fi = Some e" and e: "file_entry_reachable lib d (mfe_fsxfs_file_entry e)"
    and readdir: "mount_fuse_readdir lib una ids [] collect_entry fi = Some (fi', listing, Inr ())"
  shows "map fst listing = [0x2e] # [0x2e, 0x2e] # map (encode_name (escaped_units encode)) css \<and>
    mount_fuse_getattr bf lib una (Some handle) ids (rooted_path (encode_name (escaped_units encode)) names) =
      Some (Inr (snd (listing ! 0))) \<and>
    (\<forall>i < length css. mount_fuse_getattr bf lib una (Some handle) ids
      (rooted_path (encode_name (escaped_units encode)) (names @ [css ! i])) = Some (Inr (snd (listing ! (i + 2)))))"
proof -
  note c = mounted_directory_consistent [OF dir e]
  obtain directory where directory: "directory_of d = Some (Inr (Some directory))"
    "length (dir_entries_array directory) = length css"
    using dir by (auto simp: mounted_directory_def dest: map_eq_imp_length_eq)
  obtain self where self: "file_entry_stat_info ids e = Inr self"
    using readdir by (auto simp: mount_fuse_readdir_def fi mount_fuse_filldir_def split: sum.split_asm)
  obtain parent where parent: "mount_fuse_set_stat_info ids 0 0 0 0 0 = Inr parent"
    by (simp add: mount_fuse_set_stat_info_def)
  obtain e' where fill: "fuse_fill_sub_entries lib una ids collect_entry e [([0x2e], self), ([0x2e, 0x2e], parent)] =
      Some (e', listing, Inr ())"
    using readdir
    by (auto simp: mount_fuse_readdir_def fi mount_fuse_filldir_def collect_entry_def string_of_buffer_def self parent
        fuse_result_of_def split: option.split_asm prod.split_asm sum.split_asm)
  let ?e1 = "e\<lparr> mfe_fsxfs_file_entry := (mfe_fsxfs_file_entry e)\<lparr> fe_directory := Some directory \<rparr> \<rparr>"
  have n: "libfsxfs_file_entry_get_number_of_sub_file_entries (mfe_fsxfs_file_entry e) =
      Some ((mfe_fsxfs_file_entry e)\<lparr> fe_directory := Some directory \<rparr>, Inr (Some (length css)))"
    by (simp add: libfsxfs_file_entry_get_number_of_sub_file_entries_def file_entry_directory_answer [OF c] directory
        libfsxfs_directory_get_number_of_entries_def array_get_number_of_entries_def)
  have "file_entry_reachable lib d (mfe_fsxfs_file_entry ?e1)"
    using file_entry_reachable.step [OF e file_entry_step.number_of_sub_file_entries [OF n]] by simp
  moreover have "fuse_fill_entries lib una ids collect_entry (length css) (int 0) ?e1
      [([0x2e], self), ([0x2e, 0x2e], parent)] = Some (e', listing, Inr ())"
    using fill by (simp add: fuse_fill_sub_entries_def mount_file_entry_get_number_of_sub_file_entries_def n)
  ultimately obtain infos where infos:
    "listing = ([0x2e], self) # ([0x2e, 0x2e], parent) # zip (map (encode_name (escaped_units encode)) css) infos"
    "length infos = length css"
    "\<forall>j < length css. mount_fuse_getattr bf lib una (Some handle) ids
      (rooted_path (encode_name (escaped_units encode)) (names @ [css ! j])) = Some (Inr (infos ! j))"
    using fill_entries_listing [OF una dir v, of ?e1 ids "length css" 0] by fastforce
  have "fuse_existing_file_entry bf lib una (Some handle) (rooted_path (encode_name (escaped_units encode)) names) None =
      Some (Inr (mounted_entry (mh_file_system handle) (mounted_name encode names) d))"
    using dir v by (intro mounted_path_opens [OF una(1)]) (auto simp: mounted_directory_def name_valid_def character_name_def)
  then have "mount_fuse_getattr bf lib una (Some handle) ids (rooted_path (encode_name (escaped_units encode)) names) =
      Some (Inr self)"
    by (simp add: mount_fuse_getattr_def file_entry_stat_info_reachable [OF c] self fuse_result_of_def)
  then show ?thesis using infos by (simp add: map_fst_zip)
qed

text \<open>The root directory of the example is listed.\<close>

lemma listing_again:
  assumes "libfsxfs_file_entry_get_sub_file_entry_by_index lib d i = Some (d2, Inr s)"
  shows "libfsxfs_file_entry_get_sub_file_entry_by_index lib d2 i = Some (d2, Inr s) \<and>
    libfsxfs_file_entry_get_number_of_sub_file_entries d =
      Some (d2, Inr (Some (length (dir_entries_array (the (fe_directory d2))))))"
proof -
  have d: "file_entry_directory d = Some (d2, Inr ())" and s: "file_entry_sub_file_entry lib d2 i = Inr s"
    using assms by (auto simp: libfsxfs_file_entry_get_sub_file_entry_by_index_def
        split: option.split_asm prod.split_asm sum.split_asm)
  obtain directory where "fe_directory d2 = Some directory"
    using s by (auto simp: file_entry_sub_file_entry_def split: option.split_asm)
  then show ?thesis
    using d s by (simp add: libfsxfs_file_entry_get_sub_file_entry_by_index_def file_entry_directory_def
        libfsxfs_file_entry_get_number_of_sub_file_entries_def libfsxfs_directory_get_number_of_entries_def
        array_get_number_of_entries_def)
qed

lemma example_directory_of_root:
  assumes "libfsxfs_volume_get_file_entry_by_utf8_path example_session_libbfio recording_libfdata
      (una_compare example_libuna) (una_copy example_libuna) example_session_volume [0x2f] = Some (Inr (Some d))"
    and "libfsxfs_file_entry_get_sub_file_entry_by_index recording_libfdata d 0 = Some (d2, Inr s)"
    and "fe_directory d2 = Some \<lparr> dir_entries_array = [example_listed_entry] \<rparr>"
  shows "mounted_directory example_session_libbfio recording_libfdata example_libuna utf8_units utf8_valid
    example_session_volume [] [[0x61]] d"
proof -
  obtain fs fio inode y where "libfsxfs_file_entry_initialize recording_libfdata None
      (vol_io_handle example_session_volume) fio fs (fe_inode_number d) inode y = Inr d"
    using mounted_file_entry_of_volume [OF assms(1)] by (auto simp: entry_of_volume_def)
  from file_entry_reachable_consistent [OF this file_entry_reachable.step [OF file_entry_reachable.start
      file_entry_step.sub_file_entry_by_index [OF assms(2)]]]
  have "directory_of d = Some (Inr (Some \<lparr> dir_entries_array = [example_listed_entry] \<rparr>))"
    using assms(3) by (simp add: file_entry_consistent_def)
  then show ?thesis
    using assms(1)
    by (simp add: mounted_directory_def name_valid_def utf8_valid_def example_mounted_paths example_listed_name)
qed

lemma mounted_listing_agrees_witness:
  "\<exists>(fi :: (unit, stream_record) fuse_file_info) fi' listing info. mount_fuse_readdir recording_libfdata example_libuna (0, 0) [] collect_entry fi =
      Some (fi', listing, Inr ()) \<and> map fst listing = [[0x2e], [0x2e, 0x2e], [0x61]] \<and>
    mount_fuse_getattr example_session_libbfio recording_libfdata example_libuna (Some example_mount_handle) (0, 0)
      [0x2f, 0x61] = Some (Inr info) \<and> listing ! 2 = ([0x61], info)"
proof -
  obtain d d2 s where d: "libfsxfs_volume_get_file_entry_by_utf8_path example_session_libbfio recording_libfdata
      (una_compare example_libuna) (una_copy example_libuna) example_session_volume [0x2f] = Some (Inr (Some d))"
    "libfsxfs_file_entry_get_sub_file_entry_by_index recording_libfdata d 0 = Some (d2, Inr s)"
    "fe_directory d2 = Some \<lparr> dir_entries_array = [example_listed_entry] \<rparr>"
    "fe_directory_entry s = Some example_listed_entry" "fe_data_size d = 0" "fe_data_size s = 5"
    using example_listing by blast
  note again = listing_again [OF d(2)]
  let ?e = "mounted_entry (mh_file_system example_mount_handle) [] d"
  have "directory_entry_name_bytes example_listed_entry = encode_name utf8_units [0x61]"
    by (simp add: example_listed_name example_mounted_paths)
  from mount_sub_file_entry_name [OF example_libuna_codec example_libuna_names d(4) this,
      where file_system = "mh_file_system example_mount_handle"]
  obtain name where name: "mount_sub_file_entry example_libuna (mh_file_system example_mount_handle) s = Some (Inr
      \<lparr> mfe_file_system = mh_file_system example_mount_handle, mfe_name = Some name, mfe_name_size = 11,
        mfe_fsxfs_file_entry = s \<rparr>)" (is "_ = Some (Inr ?s)") "length name = 11"
    by (auto simp: character_name_def utf8_valid_def example_mounted_paths)
  obtain bytes where bytes: "mount_file_entry_get_name ?s 11 = Inr bytes"
    using name(2) by (simp add: mount_file_entry_get_name_def get_bytes_def)
  obtain info info' where info: "file_entry_stat_info (0, 0) ?e = Inr info" "file_entry_stat_info (0, 0) ?s = Inr info'"
    using file_entry_stat_info_small [of ?e "(0, 0)"] file_entry_stat_info_small [of ?s "(0, 0)"] d(5,6)
    by (auto simp: mounted_entry_def)
  obtain fi' listing where l: "mount_fuse_readdir recording_libfdata example_libuna (0, 0) [] collect_entry
      \<lparr> fi_flags = 0, fi_fh = Some ?e \<rparr> = Some (fi', listing, Inr ())"
    using again d(3) name(1) bytes info
    by (simp add: mount_fuse_readdir_def mount_fuse_filldir_def mount_fuse_set_stat_info_def collect_entry_def
        fuse_fill_sub_entries_def mount_file_entry_get_number_of_sub_file_entries_def fuse_result_of_def
        mount_file_entry_get_sub_file_entry_by_index_def mounted_entry_def mount_file_entry_get_name_size_def Let_def)
  have v: "mfs_fsxfs_volume (mh_file_system example_mount_handle) = Some example_session_volume"
    by (simp add: example_mount_handle_def)
  have "file_entry_reachable recording_libfdata d (mfe_fsxfs_file_entry ?e)"
    by (simp add: mounted_entry_def file_entry_reachable.start)
  from mounted_listing_agrees [OF example_libuna_codec example_libuna_names
      example_directory_of_root [OF d(1-3)] v _ this l]
  have a: "map fst listing = [[0x2e], [0x2e, 0x2e], [0x61]]"
    "mount_fuse_getattr example_session_libbfio recording_libfdata example_libuna (Some example_mount_handle) (0, 0)
      [0x2f, 0x61] = Some (Inr (snd (listing ! 2)))"
    by (simp_all add: example_mounted_paths numeral_2_eq_2)
  then have "fst (listing ! 2) = [0x61]" by auto
  then show ?thesis
    using l a
    by (intro exI [of _ "\<lparr> fi_flags = 0, fi_fh = Some ?e \<rparr>"] exI [of _ fi'] exI [of _ listing]
        exI [of _ "snd (listing ! 2)"]) (simp add: prod_eq_iff)
qed

end
