(* ===== verification/Mount_Fuse_Attributes.thy ===== *)
theory Mount_Fuse_Attributes
  imports Mount_Fuse_Listing Attributes_Tree
begin

text \<open>
  The extended attributes of the mounted file system: what is said about the size of a value, or of the list
  of the names, is what is then written, and it is what the inode stores.
\<close>

subsection \<open>The inode of a path\<close>

text \<open>
  The attributes \<open>items\<close> that are stored with their values for a file: in the inode, as a table, or in the
  leaves of a tree of attribute blocks. A value in blocks of its own is no part of either.
\<close>

definition stored_in_inode :: "inode \<Rightarrow> attribute_item list \<Rightarrow> bool" where
  "stored_in_inode inode items \<longleftrightarrow>
     in_attributes_fork_type inode = 1 \<and>
     (\<exists>rest. in_inline_attributes_data inode = Some (attributes_table_bytes items @ rest) \<and>
        unat (in_attributes_fork_size inode) = length (attributes_table_bytes items @ rest)) \<and>
     (\<forall>item \<in> set items. attribute_item_fits item) \<and> length items < 256"

definition stored_in_blocks :: "io_handle \<Rightarrow> file_io \<Rightarrow> inode \<Rightarrow> attribute_item list \<Rightarrow> bool" where
  "stored_in_blocks io fio inode items \<longleftrightarrow>
     (in_attributes_fork_type inode = 2 \<or> in_attributes_fork_type inode = 3) \<and> in_attributes_extents_array inode \<noteq> None \<and>
     (\<exists>t. tree_stored io fio inode t \<and> tree_block_number t = 0 \<and> tree_depth t \<le> 256 \<and> tree_items t = items)"

definition stored_attributes :: "'s file_entry \<Rightarrow> attribute_item list \<Rightarrow> bool" where
  "stored_attributes e items \<longleftrightarrow>
     stored_in_inode (fe_inode e) items \<or> stored_in_blocks (fe_io_handle e) (fe_file_io_handle e) (fe_inode e) items"

text \<open>A file entry of the mounted file system with such attributes.\<close>

definition mounted_attributes ::
    "'h libbfio \<Rightarrow> 's libfdata \<Rightarrow> libuna \<Rightarrow> 'h mount_handle \<Rightarrow> u8 list \<Rightarrow> attribute_item list \<Rightarrow> bool" where
  "mounted_attributes bf lib una handle path items \<longleftrightarrow>
     (\<exists>e. fuse_existing_file_entry bf lib una (Some handle) path None = Some (Inr e) \<and>
        stored_attributes (mfe_fsxfs_file_entry e) items)"

lemma tree_items_fit:
  "tree_stored io fio inode t \<Longrightarrow> item \<in> set (tree_items t) \<Longrightarrow> leaf_item_fits item"
proof (induction t)
  case (Attributes_Leaf b items)
  then show ?case by (auto simp: leaf_describes_def Let_def in_set_conv_nth split: sum.splits)
qed auto

lemma stored_attributes_read:
  assumes "stored_attributes e items"
  shows "attributes_of e = Inr (map attribute_item_values items)"
    and "item \<in> set items \<Longrightarrow> length (snd (snd item)) < 65536"
proof -
  have "attributes_of e = Inr (map attribute_item_values items) \<and> (\<forall>item \<in> set items. length (snd (snd item)) < 65536)"
  proof (cases "stored_in_inode (fe_inode e) items")
    case True
    then show ?thesis
      using attributes_of_inline [OF refl, of e items]
      by (fastforce simp: stored_in_inode_def attribute_item_fits_def split: prod.split_asm)
  next
    case False
    then obtain t where t: "in_attributes_fork_type (fe_inode e) = 2 \<or> in_attributes_fork_type (fe_inode e) = 3"
      "in_attributes_extents_array (fe_inode e) \<noteq> None" "tree_block_number t = 0" "tree_depth t \<le> 256" "tree_items t = items"
      "tree_stored (fe_io_handle e) (fe_file_io_handle e) (fe_inode e) t"
      using assms by (auto simp: stored_attributes_def stored_in_blocks_def)
    have "libfsxfs_attributes_get_from_block (fe_io_handle e) (fe_file_io_handle e) (fe_inode e) 0 [] 0 =
        Inr (map attribute_item_values items)"
      using attributes_tree_read [OF t(6), of 0 "[]"] t(3-5) by simp
    moreover have "length (snd (snd item)) < 65536" if "item \<in> set items" for item
      using tree_items_fit [OF t(6), of item] that t(5) by (auto simp: leaf_item_fits_def split: prod.split_asm)
    ultimately show ?thesis using t(1,2) by (auto simp: attributes_of_def libfsxfs_attributes_get_from_inode_def)
  qed
  then show "attributes_of e = Inr (map attribute_item_values items)"
    and "item \<in> set items \<Longrightarrow> length (snd (snd item)) < 65536" by blast+
qed

lemma mount_file_entry_of_volume:
  assumes "fuse_existing_file_entry bf lib una (Some handle) path None = Some (Inr e)"
  shows "\<exists>v. entry_of_volume bf lib v (mfe_fsxfs_file_entry e)"
proof -
  have "\<exists>file_system path' e'. mount_file_system_get_file_entry_by_path bf lib una file_system path' =
      Some (Inr (Some e')) \<and> mfe_fsxfs_file_entry e = e'"
    using assms
    by (auto simp: fuse_existing_file_entry_def fuse_file_entry_by_path_def mount_handle_get_file_entry_by_path_def
        mount_file_entry_initialize_def Let_def split: option.split_asm sum.split_asm if_split_asm) blast+
  then obtain file_system path' where f: "mount_file_system_get_file_entry_by_path bf lib una file_system path' =
      Some (Inr (Some (mfe_fsxfs_file_entry e)))" by blast
  obtain r where "mount_path_string_copy_to_file_entry_path (una_fresh una) (una_copy una) (una_write una) path' = Some r"
    using f by (auto simp: mount_file_system_get_file_entry_by_path_def split: option.split_asm)
  with f obtain v p where "libfsxfs_volume_get_file_entry_by_utf8_path bf lib (una_compare una) (una_copy una) v p =
      Some (Inr (Some (mfe_fsxfs_file_entry e)))"
    by (cases r) (auto simp: mount_file_system_get_file_entry_by_path_def split: option.split_asm)
  then show ?thesis using mounted_file_entry_of_volume by blast
qed

lemma mounted_attributes_read:
  assumes "mounted_attributes bf lib una handle path items"
  shows "\<exists>e. fuse_existing_file_entry bf lib una (Some handle) path None = Some (Inr e) \<and>
    file_entry_extended_attributes (mfe_fsxfs_file_entry e) =
      ((mfe_fsxfs_file_entry e)\<lparr> fe_extended_attributes_array := Some (map attribute_item_values items) \<rparr>, Inr ())"
proof -
  obtain e where e: "fuse_existing_file_entry bf lib una (Some handle) path None = Some (Inr e)"
    "stored_attributes (mfe_fsxfs_file_entry e) items"
    using assms by (auto simp: mounted_attributes_def)
  note stored_attributes_read(1) [OF e(2)]
  moreover obtain v where "entry_of_volume bf lib v (mfe_fsxfs_file_entry e)"
    using mount_file_entry_of_volume [OF e(1)] by blast
  then have "file_entry_consistent (mfe_fsxfs_file_entry e) (mfe_fsxfs_file_entry e)"
    by (auto simp: entry_of_volume_def intro: file_entry_reachable_consistent file_entry_reachable.start)
  ultimately show ?thesis using e(1) by (auto simp: file_entry_attributes_answer)
qed

subsection \<open>The value of an attribute\<close>

lemma attribute_item_size:
  assumes "length (snd (snd item)) < 65536" and "ea_attribute_values attr = attribute_item_values item"
  shows "unat (libfsxfs_extended_attribute_get_size attr) = length (snd (snd item))"
  using assms
  by (auto simp: libfsxfs_extended_attribute_get_size_def attribute_item_values_def
      unat_of_nat unat_ucast_up Let_def split: prod.split_asm)

text \<open>
  C16: The value of an extended attribute that is stored with its name, in the inode or in a leaf of the attribute
  blocks, is handed out by its name: a buffer of size 0 is answered with the size of the value, one that is too
  small with the error that says so, and any other with the value, also for an empty value. A value that is
  stored in blocks of its own is left out, it is not read as it is stored.
\<close>

theorem mounted_attribute_value:
  assumes "libfdata_records lib view" and "libfdata_reads lib view" and "compares_names (una_compare una) encoded"
    and "mounted_attributes bf lib una handle path (pre @ item # post)"
    and "\<forall>i \<in> set pre. attribute_item_name i \<noteq> attribute_item_name item"
    and "\<forall>i \<in> set (pre @ [item]). encoded (attribute_item_name i)"
    and "buffer_size \<le> INT_MAX"
  shows "mount_fuse_getxattr bf lib una (Some handle) path (attribute_item_name item) buffer_size =
    Some (if buffer_size = 0 then Inr (length (snd (snd item)), [])
      else if buffer_size < length (snd (snd item)) then Inl ERANGE
      else Inr (length (snd (snd item)), snd (snd item)))"
proof -
  obtain e where e: "fuse_existing_file_entry bf lib una (Some handle) path None = Some (Inr e)"
    "file_entry_extended_attributes (mfe_fsxfs_file_entry e) = ((mfe_fsxfs_file_entry e)\<lparr>
       fe_extended_attributes_array := Some (map attribute_item_values (pre @ item # post)) \<rparr>, Inr ())"
    using mounted_attributes_read [OF assms(4)] by blast
  let ?attr = "\<lparr> ea_io_handle = fe_io_handle (mfe_fsxfs_file_entry e),
      ea_file_io_handle = fe_file_io_handle (mfe_fsxfs_file_entry e), ea_inode = fe_inode (mfe_fsxfs_file_entry e),
      ea_attribute_values = attribute_item_values item, ea_data_stream = None \<rparr>"
  have found: "libfsxfs_file_entry_get_extended_attribute_by_utf8_name (una_compare una) (mfe_fsxfs_file_entry e)
      (attribute_item_name item) = ((mfe_fsxfs_file_entry e)\<lparr>
        fe_extended_attributes_array := Some (map attribute_item_values (pre @ item # post)) \<rparr>, Inr (Some ?attr))"
    using attribute_values_find_item [OF assms(3) refl assms(5,6), of post]
    by (simp add: file_entry_operations file_entry_find_attribute_values_def e(2) file_entry_extended_attribute_def
        libfsxfs_extended_attribute_initialize_def)
  have len: "length (snd (snd item)) < 65536"
    using assms(4) stored_attributes_read(2) [of _ "pre @ item # post" item] by (auto simp: mounted_attributes_def)
  note size = attribute_item_size [OF len, of ?attr]
  obtain attr' where read: "libfsxfs_extended_attribute_read_buffer_at_offset lib ?attr buffer_size 0 =
      Some (attr', Inr (take buffer_size (snd (snd item))))"
    using attribute_item_value_read [OF assms(1,2), of item ?attr 0 buffer_size] len by auto
  show ?thesis
    using assms(7) len size read
    by (auto simp: mount_fuse_getxattr_def e(1) found fuse_attribute_value_def fuse_result_of_def Let_def)
qed

subsection \<open>The list of the names\<close>

definition attribute_names_bytes :: "attribute_item list \<Rightarrow> u8 list" where
  "attribute_names_bytes items = concat (map (\<lambda>item. attribute_item_name item @ [0]) items)"

lemma attribute_names_bytes_simps [simp]:
  "attribute_names_bytes [] = []"
  "attribute_names_bytes (item # items) = attribute_item_name item @ 0 # attribute_names_bytes items"
  by (simp_all add: attribute_names_bytes_def)

lemma attribute_item_name_converted:
  assumes "libuna_names una encoded" and "encoded (attribute_item_name item)"
    and "ea_attribute_values attr = attribute_item_values item"
  shows "libfsxfs_extended_attribute_get_utf8_name_size (una_name_size una) attr = Inr (length (attribute_item_name item) + 1)"
    and "libfsxfs_extended_attribute_get_utf8_name (una_name una) attr (length (attribute_item_name item) + 1) =
      Inr (attribute_item_name item @ [0])"
proof -
  have "av_name (attribute_item_values item) = Some (attribute_item_name item @ [0])"
    by (simp add: attribute_item_values_def attribute_item_name_def Let_def split: prod.split)
  moreover have "una_name_size una (attribute_item_name item @ [0]) = Inr (length (attribute_item_name item) + 1)"
    "una_name una (length (attribute_item_name item) + 1) (attribute_item_name item @ [0]) = Inr (attribute_item_name item @ [0])"
    using assms(1,2) by (auto simp: libuna_names_def)
  ultimately show "libfsxfs_extended_attribute_get_utf8_name_size (una_name_size una) attr = Inr (length (attribute_item_name item) + 1)"
    "libfsxfs_extended_attribute_get_utf8_name (una_name una) attr (length (attribute_item_name item) + 1) =
      Inr (attribute_item_name item @ [0])"
    using assms(3)
    by (simp_all add: libfsxfs_extended_attribute_get_utf8_name_size_def libfsxfs_extended_attribute_get_utf8_name_def
        libfsxfs_attribute_values_get_utf8_name_size_def libfsxfs_attribute_values_get_utf8_name_def
        convert_name_def)
qed

lemma attribute_by_index:
  assumes "fe_extended_attributes_array entry = Some (map attribute_item_values items)" and "i < length items"
  shows "\<exists>attr. libfsxfs_file_entry_get_extended_attribute_by_index entry (int i) = (entry, Inr attr) \<and>
    ea_attribute_values attr = attribute_item_values (items ! i)"
  using assms
  by (simp add: libfsxfs_file_entry_get_extended_attribute_by_index_def file_entry_extended_attributes_def
      array_get_entry_by_index_def file_entry_extended_attribute_def libfsxfs_extended_attribute_initialize_def)

lemma list_names_written:
  assumes una: "libuna_names una encoded" and enc: "\<forall>item \<in> set items. encoded (attribute_item_name item)"
    and arr: "fe_extended_attributes_array entry = Some (map attribute_item_values items)"
    and n: "i + n = length items"
  shows "fuse_list_names una n (int i) entry off [] = Inr (off + length (attribute_names_bytes (drop i items)), [])"
    and "names \<noteq> [] \<Longrightarrow> off \<le> length names \<Longrightarrow> fuse_list_names una n (int i) entry off names =
      (let total = off + length (attribute_names_bytes (drop i items)) in
       if total \<le> length names then Inr (total, take off names @ attribute_names_bytes (drop i items) @ drop total names)
       else Inl Value_Out_Of_Bounds)"
proof -
  show "fuse_list_names una n (int i) entry off [] = Inr (off + length (attribute_names_bytes (drop i items)), [])"
    using n
  proof (induction n arbitrary: i off)
    case (Suc n)
    then have i: "i < length items" by simp
    obtain attr where a: "libfsxfs_file_entry_get_extended_attribute_by_index entry (int i) = (entry, Inr attr)"
      "ea_attribute_values attr = attribute_item_values (items ! i)"
      using attribute_by_index [OF arr i] by blast
    have "encoded (attribute_item_name (items ! i))" using enc i by simp
    note c = attribute_item_name_converted [OF una this a(2)]
    have s: "int i + 1 = int (Suc i)" by simp
    show ?case
      using Suc.IH [of "Suc i"] Suc.prems i
      by (simp add: a(1) c Cons_nth_drop_Suc [symmetric] s del: of_nat_Suc)
  qed simp
next
  assume "names \<noteq> []" "off \<le> length names"
  with n show "fuse_list_names una n (int i) entry off names =
      (let total = off + length (attribute_names_bytes (drop i items)) in
       if total \<le> length names then Inr (total, take off names @ attribute_names_bytes (drop i items) @ drop total names)
       else Inl Value_Out_Of_Bounds)"
  proof (induction n arbitrary: i off names)
    case (Suc n)
    then have i: "i < length items" by simp
    obtain attr where a: "libfsxfs_file_entry_get_extended_attribute_by_index entry (int i) = (entry, Inr attr)"
      "ea_attribute_values attr = attribute_item_values (items ! i)"
      using attribute_by_index [OF arr i] by blast
    let ?name = "attribute_item_name (items ! i)"
    have "encoded ?name" using enc i by simp
    note c = attribute_item_name_converted [OF una this a(2)]
    have s: "int i + 1 = int (Suc i)" by simp
    have d: "drop i items = items ! i # drop (Suc i) items" using i by (simp add: Cons_nth_drop_Suc)
    show ?case
    proof (cases "off + length ?name + 1 \<le> length names")
      case False
      then have "length names - off < length ?name + 1" using Suc.prems by linarith
      then show ?thesis using Suc.prems False by (simp add: a(1) c d Let_def del: of_nat_Suc)
    next
      case True
      let ?names = "take off names @ ?name @ 0 # drop (off + length ?name + 1) names"
      let ?total = "off + (length ?name + 1) + length (attribute_names_bytes (drop (Suc i) items))"
      have p: "put_bytes names off (?name @ [0]) = Inr ?names" using True by (simp add: put_bytes_def)
      have "\<not> length names - off < length ?name + 1" using True by linarith
      then have "fuse_list_names una (Suc n) (int i) entry off names =
          fuse_list_names una n (int (Suc i)) entry (off + (length ?name + 1)) ?names"
        using Suc.prems by (simp only: fuse_list_names.simps a(1) c prod.case bindE_Inr s size_sub_le p) simp
      also have "\<dots> = (if ?total \<le> length names
          then Inr (?total, take (off + (length ?name + 1)) ?names @ attribute_names_bytes (drop (Suc i) items) @ drop ?total ?names)
          else Inl Value_Out_Of_Bounds)"
      proof -
        have len: "length ?names = length names" using True by simp
        have "Suc i + n = length items" "?names \<noteq> []" "off + (length ?name + 1) \<le> length ?names"
          unfolding len using Suc.prems(1) True by simp_all
        from Suc.IH [OF this] show ?thesis by (simp only: Let_def len)
      qed
      finally show ?thesis using True by (simp add: d Let_def ac_simps del: fuse_list_names.simps)
    qed
  qed simp
qed

lemma fuse_attribute_names_written:
  assumes "libuna_names una encoded" and "\<forall>item \<in> set items. encoded (attribute_item_name item)"
    and "file_entry_extended_attributes entry = (entry\<lparr> fe_extended_attributes_array := Some (map attribute_item_values items) \<rparr>, Inr ())"
  shows "fuse_attribute_names una entry [] = Inr (length (attribute_names_bytes items), [])"
    and "names \<noteq> [] \<Longrightarrow> fuse_attribute_names una entry names =
      (if length (attribute_names_bytes items) \<le> length names
       then Inr (length (attribute_names_bytes items), attribute_names_bytes items @ drop (length (attribute_names_bytes items)) names)
       else Inl Value_Out_Of_Bounds)"
proof -
  let ?entry = "entry\<lparr> fe_extended_attributes_array := Some (map attribute_item_values items) \<rparr>"
  have n: "fuse_attribute_names una entry names = fuse_list_names una (length items) (int 0) ?entry 0 names" for names
    by (simp add: fuse_attribute_names_def libfsxfs_file_entry_get_number_of_extended_attributes_def assms(3)
        array_get_number_of_entries_def)
  have a: "fe_extended_attributes_array ?entry = Some (map attribute_item_values items)" by simp
  note w = list_names_written [OF assms(1,2) a, of 0 "length items"]
  show "fuse_attribute_names una entry [] = Inr (length (attribute_names_bytes items), [])"
    using w(1) [of 0] by (simp add: n)
  show "fuse_attribute_names una entry names =
      (if length (attribute_names_bytes items) \<le> length names
       then Inr (length (attribute_names_bytes items), attribute_names_bytes items @ drop (length (attribute_names_bytes items)) names)
       else Inl Value_Out_Of_Bounds)" if "names \<noteq> []"
    using w(2) [OF _ that, of 0] by (simp add: n Let_def)
qed

text \<open>
  The names of the extended attributes that are stored with their values are listed in order, each with its end of
  string character: a buffer of size 0 is answered with the size that all of them need, and a buffer of
  that size or more is filled with them and otherwise left as it is. But for a buffer that is too small the
  error is one of reading, not the one for the size that the value of an attribute is answered with.
\<close>

theorem mounted_attribute_names:
  assumes "libuna_names una encoded" and "mounted_attributes bf lib una handle path items"
    and "\<forall>item \<in> set items. encoded (attribute_item_name item)"
    and "names \<noteq> []" and "length names \<le> INT_MAX"
  shows "mount_fuse_listxattr bf lib una (Some handle) path [] = Some (Inr (length (attribute_names_bytes items), [])) \<and>
    mount_fuse_listxattr bf lib una (Some handle) path names =
      Some (if length (attribute_names_bytes items) \<le> length names
            then Inr (length (attribute_names_bytes items),
              attribute_names_bytes items @ drop (length (attribute_names_bytes items)) names)
            else Inl EIO)"
proof -
  obtain e where e: "fuse_existing_file_entry bf lib una (Some handle) path None = Some (Inr e)"
    "file_entry_extended_attributes (mfe_fsxfs_file_entry e) =
      ((mfe_fsxfs_file_entry e)\<lparr> fe_extended_attributes_array := Some (map attribute_item_values items) \<rparr>, Inr ())"
    using mounted_attributes_read [OF assms(2)] by blast
  show ?thesis
    using assms(5) fuse_attribute_names_written [OF assms(1,3) e(2)] assms(4)
    by (simp add: mount_fuse_listxattr_def e(1) fuse_result_of_def)
qed

subsection \<open>An example\<close>

text \<open>The inode of the root with the attributes of the example behind its data, and a volume that is mounted from it.\<close>

definition example_attributes_inode_data :: "u8 list" where
  "example_attributes_inode_data =
     [0x49, 0x4e, 0x61, 0xa4, 2, 1] @ replicate 50 0 @ [0, 0, 0, 0, 0, 0, 0, 0] @ replicate 18 0 @ [8, 1] @
     replicate 80 0 @
     attributes_table_bytes example_attribute_items @ replicate 73 0"

definition example_attributes_file :: file_io where
  "example_attributes_file off n =
     (if off = 0x41 * 256 \<and> n = 256 then Some example_attributes_inode_data else example_inode_file off n)"

definition example_attributes_libbfio :: "unit libbfio" where
  "example_attributes_libbfio = example_libbfio\<lparr> libbfio_handle_read := (\<lambda>h. example_attributes_file) \<rparr>"

lemma example_attributes_bytes: "length (attributes_table_bytes example_attribute_items) = 19"
  by (simp add: attributes_table_bytes_def attribute_item_bytes_def example_attribute_items_def)

lemma example_attributes_inode:
  "\<exists>inode. get_existing_inode example_file_system example_path_io example_attributes_file 0x41 = Inr inode \<and>
     file_type inode = 0x6000 \<and> in_attributes_fork_type inode = 1 \<and> in_attributes_fork_size inode = 92 \<and>
     in_inline_attributes_data inode = Some (attributes_table_bytes example_attribute_items @ replicate 73 0)"
proof -
  have l: "length example_attributes_inode_data = 256"
    by (simp add: example_attributes_inode_data_def example_attributes_bytes)
  have f: "example_attributes_file 64 32 = Some example_leaf_block"
    "example_attributes_file (0x41 * 256) 256 = Some example_attributes_inode_data"
    by (simp_all add: example_attributes_file_def example_inode_file_def)
  have "\<exists>j. libfsxfs_inode_read_data (inode_zero\<lparr> in_data_size := 256, in_data := example_attributes_inode_data \<rparr>)
        example_attributes_inode_data = Inr j \<and> in_attributes_fork_type j = 1 \<and> in_fork_type j = 1 \<and>
     in_file_mode j = 0x61a4 \<and> in_data j = example_attributes_inode_data \<and> in_attributes_fork_offset j = 164 \<and>
     in_attributes_fork_size j = 92"
    by (simp add: example_attributes_inode_data_def example_attributes_bytes libfsxfs_inode_read_data_def
        inode_core_size_def inode_read_core_def inode_read_creation_time_def inode_set_forks_def be_word_def
        inode_zero_def inode_signed_time_def inode_unsigned_time_def nth_append Let_def)
  then obtain j where j: "libfsxfs_inode_read_data (inode_zero\<lparr> in_data_size := 256, in_data := example_attributes_inode_data \<rparr>)
        example_attributes_inode_data = Inr j" "in_attributes_fork_type j = 1" "in_fork_type j = 1"
     "in_file_mode j = 0x61a4" "in_data j = example_attributes_inode_data" "in_attributes_fork_offset j = 164"
     "in_attributes_fork_size j = 92"
    by blast
  have "drop 164 example_attributes_inode_data = attributes_table_bytes example_attribute_items @ replicate 73 0"
    by (simp add: example_attributes_inode_data_def)
  then show ?thesis
    using example_stored_inode [where n = "0x41" and fio = example_attributes_file, OF _ f l j(1,3,2)] j(4-7)
    by (auto simp: file_type_def)
qed

lemma example_mounted_attributes:
  "mounted_attributes example_attributes_libbfio recording_libfdata example_libuna example_mount_handle [0x2f]
    example_attribute_items"
proof -
  obtain inode where i: "get_existing_inode example_file_system example_path_io example_attributes_file 0x41 = Inr inode"
    "file_type inode = 0x6000" "in_attributes_fork_type inode = 1" "in_attributes_fork_size inode = 92"
    "in_inline_attributes_data inode = Some (attributes_table_bytes example_attribute_items @ replicate 73 0)"
    using example_attributes_inode by blast
  have v: "volume_sources example_attributes_libbfio example_session_volume = Inr (example_file_system, example_attributes_file)"
    by (simp add: volume_sources_def example_session_volume_def example_attributes_libbfio_def)
  obtain e where e: "libfsxfs_file_entry_initialize recording_libfdata None example_path_io example_attributes_file
      example_file_system 0x41 inode None = Inr e" "fe_inode e = inode"
    by (simp add: libfsxfs_file_entry_initialize_def i(2))
  have "libfsxfs_volume_get_file_entry_by_utf8_path example_attributes_libbfio recording_libfdata
      (una_compare example_libuna) (una_copy example_libuna) example_session_volume
      (rooted_path (encode_name utf8_units) []) = Some (Inr (Some e))"
    using i(1) e(1) by (simp add: path_lookup_defs volume_file_entry_of_path_def v example_session_sources(2,3)
        get_directory_entry_by_path_def libfsxfs_directory_entry_clone_def Let_def example_mounted_paths)
  from mounted_path_opens [OF example_libuna_codec _ _ _ this, of example_mount_handle]
  have "fuse_existing_file_entry example_attributes_libbfio recording_libfdata example_libuna
      (Some example_mount_handle) [0x2f] None =
      Some (Inr (mounted_entry (mh_file_system example_mount_handle) (mounted_name utf8_units []) e))"
    by (simp add: example_mount_handle_def example_mounted_paths)
  moreover have "\<forall>item \<in> set example_attribute_items. attribute_item_fits item" "length example_attribute_items < 256"
    by (simp_all add: example_attribute_items_def attribute_item_fits_def)
  ultimately show ?thesis
    using i(3-5) e(2)
    by (auto simp: mounted_attributes_def stored_attributes_def stored_in_inode_def mounted_entry_def example_attributes_bytes)
qed

lemma example_attribute_names:
  "attribute_item_name (0, [0x61], [1, 2, 3]) = [0x75, 0x73, 0x65, 0x72, 0x2e, 0x61]"
  "attribute_item_name (2, [0x61], [4, 5, 6, 7]) = [0x74, 0x72, 0x75, 0x73, 0x74, 0x65, 0x64, 0x2e, 0x61]"
  by (simp_all add: attribute_item_name_def attribute_name_prefix_def)

lemma mounted_attribute_value_witness:
  "mount_fuse_getxattr example_attributes_libbfio recording_libfdata example_libuna (Some example_mount_handle) [0x2f]
    [0x74, 0x72, 0x75, 0x73, 0x74, 0x65, 0x64, 0x2e, 0x61] 10 = Some (Inr (4, [4, 5, 6, 7]))"
proof -
  have "compares_names (una_compare example_libuna) (\<lambda>s. 0 \<notin> set s)"
    using example_compare_names [of "\<lambda>s. 0 \<notin> set s"] by (simp add: example_libuna_def)
  moreover have "mounted_attributes example_attributes_libbfio recording_libfdata example_libuna example_mount_handle
      [0x2f] ([(0, [0x61], [1, 2, 3])] @ (2, [0x61], [4, 5, 6, 7]) # [])"
    using example_mounted_attributes by (simp add: example_attribute_items_def)
  ultimately show ?thesis
    using mounted_attribute_value [OF recording_libfdata_records recording_libfdata_reads, of example_libuna
        "\<lambda>s. 0 \<notin> set s" example_attributes_libbfio example_mount_handle "[0x2f]"
        "[(0, [0x61], [1, 2, 3])]" "(2, [0x61], [4, 5, 6, 7])" "[]" 10]
    by (simp add: example_attribute_names)
qed

lemma mounted_attribute_names_witness:
  "mount_fuse_listxattr example_attributes_libbfio recording_libfdata example_libuna (Some example_mount_handle) [0x2f]
      [] = Some (Inr (17, [])) \<and>
    mount_fuse_listxattr example_attributes_libbfio recording_libfdata example_libuna (Some example_mount_handle) [0x2f]
      (replicate 18 0xff) = Some (Inr (17, [0x75, 0x73, 0x65, 0x72, 0x2e, 0x61, 0,
        0x74, 0x72, 0x75, 0x73, 0x74, 0x65, 0x64, 0x2e, 0x61, 0, 0xff]))"
proof -
  have "encoded_name utf8_units utf8_valid (attribute_item_name item)" if "item \<in> set example_attribute_items" for item
  proof -
    have "utf8_units c = [ucast c]" if "c < 0x80" for c
      using unicode_writesD(4) [OF utf8_writes that] by blast
    then have "\<exists>cs. (\<forall>c \<in> set cs. utf8_valid c \<and> c \<noteq> 0) \<and> attribute_item_name item = encode_name utf8_units cs"
      using that
      by (intro exI [of _ "map ucast (attribute_item_name item)"])
        (auto simp: example_attribute_items_def example_attribute_names utf8_valid_def encode_name_def)
    then show ?thesis by (simp add: encoded_name_def)
  qed
  moreover have "attribute_names_bytes example_attribute_items = [0x75, 0x73, 0x65, 0x72, 0x2e, 0x61, 0,
      0x74, 0x72, 0x75, 0x73, 0x74, 0x65, 0x64, 0x2e, 0x61, 0]"
    by (simp add: example_attribute_items_def example_attribute_names)
  ultimately show ?thesis
    using mounted_attribute_names [OF example_libuna_names example_mounted_attributes _ , of "replicate 18 0xff"]
    by simp
qed

end
