(* ===== verification/Volume_Signature.thy ===== *)
theory Volume_Signature
  imports Volume Stream_Reading
begin

text \<open>
  The test whether a file is a volume (\<open>libfsxfs_support.c\<close>) and what it says about opening the file. The
  version, the access flags and the code page, which belong to other libraries, are not in it.
\<close>

subsection \<open>The test of the signature\<close>

text \<open>
  A handle that was not open is closed again, also after an error. \<open>close\<close> tells if that succeeds.
\<close>

definition libfsxfs_check_volume_signature_file_io_handle :: "'h libbfio \<Rightarrow> 'h \<Rightarrow> bool result" where
  "libfsxfs_check_volume_signature_file_io_handle lib file_io_handle =
     (case libbfio_handle_is_open lib file_io_handle of
        None \<Rightarrow> Inl Open_Failed
      | Some is_open \<Rightarrow>
          (case (if is_open then Some file_io_handle else libbfio_handle_open lib file_io_handle) of
             None \<Rightarrow> Inl Open_Failed
           | Some file_io_handle \<Rightarrow>
               bindE (read_buffer_at_offset (libbfio_handle_read lib file_io_handle) 0 4) (\<lambda>signature.
               if \<not> is_open \<and> \<not> libbfio_handle_close lib file_io_handle then Inl Close_Failed
               else Inr (signature = fsxfs_superblock_signature))))"

text \<open>
  \<open>create filename\<close> stands for \<open>libbfio_file_initialize\<close> and \<open>libbfio_file_set_name\<close>, and \<open>freed\<close> is what
  freeing the handle returns. The code has the same function for wide file names.
\<close>

definition libfsxfs_check_volume_signature ::
    "'h libbfio \<Rightarrow> ('c list \<Rightarrow> 'h result) \<Rightarrow> unit result \<Rightarrow> 'c list \<Rightarrow> bool result" where
  "libfsxfs_check_volume_signature lib create freed filename =
     (if filename = [] then Inl Invalid_Value else
      bindE (create filename) (\<lambda>file_io_handle.
      bindE (libfsxfs_check_volume_signature_file_io_handle lib file_io_handle) (\<lambda>result.
      bindE freed (\<lambda>_.
      Inr result))))"

subsection \<open>What the test says about opening\<close>

lemma superblock_read_signature:
  "libfsxfs_superblock_read_data sb data = Inr sb' \<Longrightarrow> take 4 data = fsxfs_superblock_signature"
  by (auto simp: libfsxfs_superblock_read_data_def superblock_read_fields_def get_bytes_def bindE_Inr_iff
      split: if_split_asm sum.split_asm)

lemma volume_open_needs_signature:
  assumes "libfsxfs_internal_volume_open_read volume (disk_io disk) = (volume', Inr ())"
  shows "take 4 disk = fsxfs_superblock_signature"
proof -
  obtain r where "volume_read_allocation_groups (disk_io disk) volume 0 0 = (fst r, Inr (snd r))"
    using assms by (auto simp: libfsxfs_internal_volume_open_read_def Let_def split: prod.split_asm sum.split_asm if_split_asm)
  then obtain q where "volume_read_allocation_group (disk_io disk) volume 0 = (fst q, Inr (snd q))"
    by (subst (asm) volume_read_allocation_groups.simps) (auto split: prod.split_asm sum.split_asm)
  then obtain sb sb' where "libfsxfs_superblock_read_file_io_handle sb (disk_io disk) 0 = Inr sb'"
    by (auto simp: volume_read_allocation_group_def bindE_Inr_iff split: sum.split_asm)
  then show ?thesis
    by (auto simp: libfsxfs_superblock_read_file_io_handle_def read_buffer_at_offset_def disk_io_def bindE_Inr_iff
        split: if_split_asm dest!: superblock_read_signature)
qed

text \<open>
  Of a file that can be opened, read and closed the test answers whether it begins with the signature; a
  file for which it answers no cannot be opened as a volume. A file of less than four bytes is an error, no answer.
\<close>

theorem signature_test_agrees:
  assumes "filename \<noteq> []" and "create filename = Inr h" and "libbfio_handle_is_open lib h = Some is_open"
    and "(if is_open then Some h else libbfio_handle_open lib h) = Some h'"
    and "libbfio_handle_read lib h' = disk_io disk" and "libbfio_handle_close lib h'"
  shows "libfsxfs_check_volume_signature lib create (Inr ()) filename =
      (if length disk < 4 then Inl Read_Failed else Inr (take 4 disk = fsxfs_superblock_signature)) \<and>
    (snd (libfsxfs_volume_open lib create volume filename flags) = Inr () \<longrightarrow>
      libfsxfs_check_volume_signature lib create (Inr ()) filename = Inr True)"
proof -
  have check: "libfsxfs_check_volume_signature lib create (Inr ()) filename =
      (if length disk < 4 then Inl Read_Failed else Inr (take 4 disk = fsxfs_superblock_signature))"
    using assms
    by (auto simp: libfsxfs_check_volume_signature_def libfsxfs_check_volume_signature_file_io_handle_def
        read_buffer_at_offset_def disk_io_def split: if_split_asm)
  have "take 4 disk = fsxfs_superblock_signature" if "snd (libfsxfs_volume_open lib create volume filename flags) = Inr ()"
    using that assms(2-5) volume_open_needs_signature [of volume disk]
    by (fastforce simp: libfsxfs_volume_open_def libfsxfs_volume_open_file_io_handle_def
        split: if_split_asm sum.split_asm prod.split_asm option.split_asm)
  moreover have "length disk \<ge> 4" if "take 4 disk = fsxfs_superblock_signature"
    using arg_cong [OF that, of length] by (simp add: fsxfs_superblock_signature_def)
  ultimately show ?thesis using check by auto
qed

subsection \<open>Example\<close>

definition example_disk_libbfio :: "u8 list \<Rightarrow> unit libbfio" where
  "example_disk_libbfio disk =
     \<lparr> libbfio_handle_is_open = (\<lambda>h. Some False), libbfio_handle_open = Some,
       libbfio_handle_close = (\<lambda>h. True), libbfio_handle_read = (\<lambda>h. disk_io disk) \<rparr>"

lemma example_disk_opens:
  "libfsxfs_volume_open (example_disk_libbfio (superblock_sector example_superblock)) (\<lambda>filename :: u8 list. Inr ())
     volume_zero [0x61] 1 =
   (example_volume\<lparr> vol_file_io_handle := Some (), vol_file_io_handle_opened_in_library := True,
      vol_file_io_handle_created_in_library := True \<rparr>, Inr ())"
proof -
  have "length (superblock_bytes example_superblock 0) = 208"
    using example_superblock_supported by (intro length_superblock_bytes) (simp add: superblock_supported_def)
  then have l: "length (superblock_sector example_superblock) = 512" by (simp add: superblock_sector_def)
  have "libfsxfs_internal_volume_open_read volume_zero (disk_io (superblock_sector example_superblock)) =
      (example_volume :: unit volume, Inr ())"
    by (rule example_volume_open_read) (simp_all add: disk_io_def read_buffer_at_offset_def l)
  then show ?thesis
    by (simp add: libfsxfs_volume_open_def libfsxfs_volume_open_file_io_handle_def example_disk_libbfio_def
        volume_zero_def example_volume_def)
qed

lemma signature_test_agrees_witness:
  "libfsxfs_check_volume_signature (example_disk_libbfio (superblock_sector example_superblock)) (\<lambda>filename. Inr ())
     (Inr ()) [0x61 :: u8] = Inr True"
  using conjunct2 [OF signature_test_agrees [of "[0x61 :: u8]" "\<lambda>filename. Inr ()" "()"
      "example_disk_libbfio (superblock_sector example_superblock)" False "()" "superblock_sector example_superblock"
      volume_zero 1]] example_disk_opens
  by (simp add: example_disk_libbfio_def)

end
