(* ===== verification/Text_Output.thy ===== *)
theory Text_Output
  imports Mount_Handle Complex_Main
begin

text \<open>
  What the tools print: texts, numbers in decimal and octal digits, the digits of a hash
  (\<open>fsxfstools/digest_hash.c\<close>), and times as floating point numbers in seconds.
\<close>

subsection \<open>Texts\<close>

definition ascii :: "string \<Rightarrow> u8 list" where
  "ascii s = map of_char s"

abbreviation (input) newline :: u8 where
  "newline \<equiv> 0x0a"

definition tabs :: "nat \<Rightarrow> u8 list" where
  "tabs n = replicate n 9"

text \<open>The format \<open>%0<width>o\<close>.\<close>

fun octal_digits :: "nat \<Rightarrow> u8 list" where
  "octal_digits n = (if n < 8 then [word_of_nat (0x30 + n)] else octal_digits (n div 8) @ [word_of_nat (0x30 + n mod 8)])"

declare octal_digits.simps [simp del]

definition octal_padded :: "nat \<Rightarrow> nat \<Rightarrow> u8 list" where
  "octal_padded width n = replicate (width - length (octal_digits n)) 0x30 @ octal_digits n"

subsection \<open>The digits of a hash\<close>

definition digest_digit :: "u8 \<Rightarrow> u8" where
  "digest_digit digit = (if digit \<le> 9 then 0x30 + digit else 0x61 + (digit - 10))"

fun digest_hash_digits :: "u8 list \<Rightarrow> u8 list" where
  "digest_hash_digits [] = []"
| "digest_hash_digits (byte # digest_hash) =
     digest_digit (byte div 16) # digest_digit (byte mod 16) # digest_hash_digits digest_hash"

text \<open>What is written to the start of the string, whose size is given.\<close>

definition digest_hash_copy_to_string :: "u8 list \<Rightarrow> nat \<Rightarrow> u8 list result" where
  "digest_hash_copy_to_string digest_hash string_size =
     (if length digest_hash > SSIZE_MAX then Inl Value_Exceeds_Maximum else
      if string_size > SSIZE_MAX then Inl Value_Exceeds_Maximum else
      if string_size < 2 * length digest_hash + 1 then Inl Value_Too_Small else
      Inr (digest_hash_digits digest_hash @ [0]))"

lemma digest_digit_hex: "d < 16 \<Longrightarrow> digest_digit (word_of_nat d) = hex_digit d"
proof -
  have "\<forall>d \<in> set [0..<16]. digest_digit (word_of_nat d) = hex_digit d"
    by (simp add: upt_rec digest_digit_def hex_digit_def)
  then show "d < 16 \<Longrightarrow> ?thesis" by simp
qed

lemma hex_padded_byte: "n < 256 \<Longrightarrow> hex_padded 2 n = [hex_digit (n div 16), hex_digit (n mod 16)]"
  by (cases "n < 16")
    (simp_all add: hex_padded_def hex_digits.simps [of n] hex_digits.simps [of "n div 16"] hex_digit_def [of 0]
      numeral_2_eq_2 less_mult_imp_div_less)

lemma digest_hash_digits_hex: "digest_hash_digits bs = concat (map (\<lambda>b. hex_padded 2 (unat b)) bs)"
proof (induction bs)
  case (Cons b bs)
  have "b div 16 = word_of_nat (unat b div 16)" "b mod 16 = word_of_nat (unat b mod 16)"
    by (simp_all add: word_arith_nat_div word_arith_nat_mod)
  moreover have "unat b div 16 < 16" using unat_bounds(1) [of b] by (simp add: less_mult_imp_div_less)
  ultimately show ?case using Cons unat_bounds(1) [of b] by (simp add: digest_digit_hex hex_padded_byte)
qed simp

subsection \<open>Numbers in floating point\<close>

text \<open>
  A number of type \<open>double\<close> has 53 binary digits and, for the values here, an exponent that is never out of
  range: it is held as a fraction. The nearest one of a positive quotient is found by scaling it until its
  whole part has 53 digits and rounding that, to the even number when two are equally near.
\<close>

definition round_half_even :: "nat \<Rightarrow> nat \<Rightarrow> nat" where
  "round_half_even p q =
     (if 2 * (p mod q) < q \<or> 2 * (p mod q) = q \<and> even (p div q) then p div q else p div q + 1)"

function double_exponent_up :: "nat \<Rightarrow> nat \<Rightarrow> nat" where
  "double_exponent_up p q = (if q = 0 \<or> p < 2 ^ 53 * q then 0 else Suc (double_exponent_up p (2 * q)))"
  by auto
termination by (relation "measure (\<lambda>(p, q). p - q)") auto

function double_exponent_down :: "nat \<Rightarrow> nat \<Rightarrow> nat" where
  "double_exponent_down p q = (if p = 0 \<or> 2 ^ 52 * q \<le> p then 0 else Suc (double_exponent_down (2 * p) q))"
  by auto
termination by (relation "measure (\<lambda>(p, q). 2 ^ 52 * q - p)") auto

declare double_exponent_up.simps [simp del] double_exponent_down.simps [simp del]

definition double_of_quotient :: "nat \<Rightarrow> nat \<Rightarrow> nat \<times> nat" where
  "double_of_quotient p q =
     (let up = double_exponent_up p q; down = double_exponent_down p q in
      (round_half_even (p * 2 ^ down) (q * 2 ^ up) * 2 ^ up, 2 ^ down))"

text \<open>
  The format \<open>%.9f\<close> of a number of nanoseconds that was converted to \<open>double\<close> and divided by 1000000000.
\<close>

definition decimal_padded :: "nat \<Rightarrow> nat \<Rightarrow> u8 list" where
  "decimal_padded width n = replicate (width - length (decimal_digits n)) 0x30 @ decimal_digits n"

definition seconds_of_nanoseconds :: "nat \<Rightarrow> nat" where
  "seconds_of_nanoseconds t =
     (case double_of_quotient t 1 of (n, d) \<Rightarrow>
       (case double_of_quotient n (d * 1000000000) of (n, d) \<Rightarrow> round_half_even (n * 1000000000) d))"

definition print_seconds :: "u64 \<Rightarrow> u8 list" where
  "print_seconds time =
     (let k = seconds_of_nanoseconds (nat \<bar>sint time\<bar>) in
      (if sint time < 0 then [0x2d] else []) @
      decimal_digits (k div 1000000000) @ [0x2e] @ decimal_padded 9 (k mod 1000000000))"

lemma round_half_even_near:
  assumes "0 < q"
  shows "\<bar>real (round_half_even p q) - real p / real q\<bar> \<le> 1 / 2"
proof -
  have p: "real p / real q = real (p div q) + real (p mod q) / real q"
  proof -
    have "real p = real (p div q * q + p mod q)" by (simp only: div_mult_mod_eq)
    then have "real p = real (p div q) * real q + real (p mod q)" by (simp only: of_nat_add of_nat_mult)
    then show ?thesis using assms by (simp add: field_simps)
  qed
  let ?r = "real (p mod q) / real q"
  have r: "0 \<le> ?r" "?r < 1" using assms by simp_all
  show ?thesis
  proof (cases "2 * (p mod q) < q \<or> 2 * (p mod q) = q \<and> even (p div q)")
    case True
    then have "2 * (p mod q) \<le> q" by auto
    then have "real (2 * (p mod q)) \<le> real q" by (simp only: of_nat_le_iff)
    then have "?r \<le> 1 / 2" using assms by (simp add: divide_le_eq)
    then show ?thesis using True r(1) p by (simp add: round_half_even_def)
  next
    case False
    then have "q \<le> 2 * (p mod q)" by auto
    then have "real q \<le> real (2 * (p mod q))" by (simp only: of_nat_le_iff)
    then have "1 / 2 \<le> ?r" using assms by (simp add: le_divide_eq)
    moreover have "round_half_even p q = p div q + 1" using False by (simp add: round_half_even_def)
    ultimately show ?thesis using r(2) p by simp
  qed
qed

lemma double_exponent_up_scaled:
  "0 < q \<Longrightarrow> 2 ^ 52 * q \<le> p \<Longrightarrow> 2 ^ 52 * (q * 2 ^ double_exponent_up p q) \<le> p"
proof (induction p q rule: double_exponent_up.induct)
  case (1 p q)
  then show ?case by (simp add: double_exponent_up.simps [of p q] mult.assoc mult.left_commute)
qed

lemma double_exponent_down_scaled:
  "0 < p \<Longrightarrow> 2 ^ 52 * q \<le> p * 2 ^ double_exponent_down p q"
proof (induction p q rule: double_exponent_down.induct)
  case (1 p q)
  then show ?case by (simp add: double_exponent_down.simps [of p q] mult.assoc mult.left_commute)
qed

text \<open>
  A whole part of 53 digits is rounded by less than its \<open>2 ^ 53\<close>th part: in the half above \<open>2 ^ 52\<close> it is
  rounded down.
\<close>

lemma rounded_relative:
  fixes m :: real
  assumes "\<bar>real r - m\<bar> \<le> 1 / 2" and "2 ^ 52 \<le> m"
  shows "\<bar>real r - m\<bar> \<le> m / (2 ^ 53 + 1)"
proof (cases "m < 2 ^ 52 + 1 / 2")
  case True
  with assms have "real r < 2 ^ 52 + 1" "2 ^ 52 < real r + 1" by linarith+
  then have "real r < real (2 ^ 52 + 1)" "real (2 ^ 52) < real (r + 1)" by simp_all
  then have "r < 2 ^ 52 + 1" "2 ^ 52 < r + 1" by (simp_all only: of_nat_less_iff)
  then have "real r = 2 ^ 52" by simp
  then show ?thesis using True assms(2) by (simp add: field_simps)
next
  case False
  then have "1 / 2 \<le> m / (2 ^ 53 + 1)" by (simp add: field_simps)
  then show ?thesis using assms(1) by linarith
qed

lemma double_of_quotient_near:
  assumes "0 < p" and "0 < q" and "double_of_quotient p q = (n, d)"
  shows "0 < d" and "\<bar>real n / real d - real p / real q\<bar> \<le> real p / real q / (2 ^ 53 + 1)"
proof -
  let ?u = "double_exponent_up p q" and ?d = "double_exponent_down p q"
  let ?P = "p * 2 ^ ?d" and ?Q = "q * 2 ^ ?u"
  have nd: "n = round_half_even ?P ?Q * 2 ^ ?u" "d = 2 ^ ?d"
    using assms(3) by (auto simp: double_of_quotient_def Let_def)
  show "0 < d" by (simp add: nd)
  have s: "2 ^ 52 * ?Q \<le> ?P"
  proof (cases "2 ^ 52 * q \<le> p")
    case True
    then show ?thesis
      using double_exponent_up_scaled [OF assms(2) True] by (simp add: double_exponent_down.simps [of p q])
  next
    case False
    then have "?u = 0" by (simp add: double_exponent_up.simps [of p q])
    then show ?thesis using double_exponent_down_scaled [OF assms(1), of q] by simp
  qed
  have "real n / real d - real p / real q = (real (round_half_even ?P ?Q) - real ?P / real ?Q) * (2 ^ ?u / 2 ^ ?d)"
    using assms(2) by (simp add: nd field_simps)
  then have "\<bar>real n / real d - real p / real q\<bar> = \<bar>real (round_half_even ?P ?Q) - real ?P / real ?Q\<bar> * (2 ^ ?u / 2 ^ ?d)"
    by (simp add: abs_mult)
  also have "\<dots> \<le> real ?P / real ?Q / (2 ^ 53 + 1) * (2 ^ ?u / 2 ^ ?d)"
  proof (intro mult_right_mono rounded_relative round_half_even_near)
    have "real (2 ^ 52 * ?Q) \<le> real ?P" using s by (simp only: of_nat_le_iff)
    then show "2 ^ 52 \<le> real ?P / real ?Q" using assms(2) by (simp add: field_simps)
  qed (use assms(2) in simp_all)
  also have "\<dots> = real p / real q / (2 ^ 53 + 1)" using assms(2) by (simp add: field_simps)
  finally show "\<bar>real n / real d - real p / real q\<bar> \<le> real p / real q / (2 ^ 53 + 1)" .
qed

lemma double_of_quotient_exact:
  assumes "0 < p" and "p < 2 ^ 53" and "double_of_quotient p 1 = (n, d)"
  shows "n = p * d" and "0 < d"
proof -
  have "double_exponent_up p 1 = 0" using assms(2) by (subst double_exponent_up.simps) simp
  then show "n = p * d" "0 < d"
    using assms(3) by (auto simp: double_of_quotient_def Let_def round_half_even_def)
qed


lemma rounded_twice:
  fixes k v t :: real
  assumes "\<bar>k - v\<bar> \<le> 1 / 2 + v / (2 ^ 53 + 1)" and "\<bar>v - t\<bar> \<le> t / (2 ^ 53 + 1)" and "0 \<le> t"
  shows "\<bar>k - t\<bar> \<le> t / 2 ^ 52 + 1 / 2"
proof -
  define u where "u = (1 :: real) / (2 ^ 53 + 1)"
  have u: "x / (2 ^ 53 + 1) = x * u" for x :: real by (simp add: u_def)
  have v: "v \<le> t + t * u" "\<bar>v - t\<bar> \<le> t * u" using assms(2) unfolding u by linarith+
  have "v * u \<le> (t + t * u) * u" using v(1) by (rule mult_right_mono) (simp add: u_def)
  then have "\<bar>k - t\<bar> \<le> 1 / 2 + t * (2 * u + u * u)"
    using assms(1) v(2) unfolding u by (simp add: algebra_simps)
  also have "t * (2 * u + u * u) \<le> t * (1 / 2 ^ 52)"
    using assms(3) by (intro mult_left_mono) (simp_all add: u_def)
  finally show ?thesis by simp
qed

lemma seconds_of_nanoseconds_near:
  shows "\<bar>real (seconds_of_nanoseconds t) - real t\<bar> \<le> real t / 2 ^ 52 + 1 / 2"
    and "t < 2 ^ 52 \<Longrightarrow> seconds_of_nanoseconds t = t"
proof -
  have "\<bar>real (seconds_of_nanoseconds t) - real t\<bar> \<le> real t / 2 ^ 52 + 1 / 2 \<and>
    (t < 2 ^ 52 \<longrightarrow> seconds_of_nanoseconds t = t)"
  proof (cases "t = 0")
    case True
    then show ?thesis
      by (simp add: seconds_of_nanoseconds_def double_of_quotient_def Let_def round_half_even_def
          double_exponent_down.simps [of 0] double_exponent_up.simps [of 0])
  next
    case False
    obtain n d where nd: "double_of_quotient t 1 = (n, d)" by fastforce
    obtain n' d' where nd': "double_of_quotient n (d * 1000000000) = (n', d')" by fastforce
    let ?k = "seconds_of_nanoseconds t" and ?v = "real n / real d" and ?w = "real n' / real d'"
    have k: "?k = round_half_even (n' * 1000000000) d'" unfolding seconds_of_nanoseconds_def by (simp only: nd nd' prod.case)
    have v: "0 < d" "\<bar>?v - real t\<bar> \<le> real t / (2 ^ 53 + 1)"
      using double_of_quotient_near [OF _ _ nd] False by simp_all
    have "real t / (2 ^ 53 + 1) < real t" using False by simp
    then have "0 < ?v" using v(2) by linarith
    then have n: "0 < n" using v(1) by (simp add: zero_less_divide_iff)
    have w: "0 < d'" "\<bar>?w - ?v / 1000000000\<bar> \<le> ?v / 1000000000 / (2 ^ 53 + 1)"
      using double_of_quotient_near [OF n _ nd'] v(1) by simp_all
    have "\<bar>real ?k - ?w * 1000000000\<bar> \<le> 1 / 2"
      using round_half_even_near [OF w(1), of "n' * 1000000000"] by (simp add: k)
    moreover have "\<bar>?w * 1000000000 - ?v\<bar> \<le> ?v / (2 ^ 53 + 1)" using w(2) by (simp add: abs_le_iff field_simps)
    ultimately have kv: "\<bar>real ?k - ?v\<bar> \<le> 1 / 2 + ?v / (2 ^ 53 + 1)" by linarith
    have "\<bar>real ?k - real t\<bar> \<le> real t / 2 ^ 52 + 1 / 2"
      by (rule rounded_twice [OF kv v(2)]) simp
    moreover have "?k = t" if "t < 2 ^ 52"
    proof -
      have "?v = real t"
        using double_of_quotient_exact [OF _ _ nd] False that by simp
      moreover have "real t < 2 ^ 52" using that by (metis of_nat_less_iff of_nat_numeral of_nat_power)
      ultimately have "\<bar>real ?k - real t\<bar> < 1" using kv by simp
      then show ?thesis by linarith
    qed
    ultimately show ?thesis by blast
  qed
  then show "\<bar>real (seconds_of_nanoseconds t) - real t\<bar> \<le> real t / 2 ^ 52 + 1 / 2"
    and "t < 2 ^ 52 \<Longrightarrow> seconds_of_nanoseconds t = t"
    by blast+
qed


text \<open>Rules that evaluate the digits and the exponents of numbers that are given.\<close>

lemma decimal_digits_eval:
  "n < 10 \<Longrightarrow> decimal_digits n = [word_of_nat (0x30 + n)]"
  "10 \<le> n \<Longrightarrow> decimal_digits n = decimal_digits (n div 10) @ [word_of_nat (0x30 + n mod 10)]"
  by (simp_all add: decimal_digits.simps [of n])

lemma double_exponent_eval:
  "p < 2 ^ 53 * q \<Longrightarrow> double_exponent_up p q = 0"
  "0 < q \<Longrightarrow> 2 ^ 53 * q \<le> p \<Longrightarrow> double_exponent_up p q = Suc (double_exponent_up p (2 * q))"
  "2 ^ 52 * q \<le> p \<Longrightarrow> double_exponent_down p q = 0"
  "0 < p \<Longrightarrow> p < 2 ^ 52 * q \<Longrightarrow> double_exponent_down p q = Suc (double_exponent_down (2 * p) q)"
  by (simp_all add: double_exponent_up.simps [of p q] double_exponent_down.simps [of p q])

lemma print_seconds_example: "print_seconds 1600000000123456789 = ascii ''1600000000.123456717''"
proof -
  have "double_of_quotient 1600000000123456789 1 = (1600000000123456768, 1)"
    by (simp add: double_of_quotient_def Let_def round_half_even_def double_exponent_eval)
  moreover have "double_of_quotient 1600000000123456768 1000000000 = (6710886400517815, 4194304)"
    by (simp add: double_of_quotient_def Let_def round_half_even_def double_exponent_eval)
  ultimately have "seconds_of_nanoseconds 1600000000123456789 = 1600000000123456717"
    by (simp add: seconds_of_nanoseconds_def round_half_even_def)
  then show ?thesis
    by (simp add: print_seconds_def Let_def ascii_def decimal_padded_def decimal_digits_eval)
qed

text \<open>
  C22: A time of the bodyfile is printed as seconds with nine decimals. The number of nanoseconds that these
  digits stand for is the time when the time is less than 2^52 nanoseconds away from 1970, and otherwise within
  half a nanosecond and the 2^52th part of the time, the precision of a double. A time of the present can be some hundred nanoseconds off.
\<close>

theorem print_seconds_near:
  "(\<exists>k. print_seconds time = (if sint time < 0 then [0x2d] else []) @
      decimal_digits (k div 1000000000) @ [0x2e] @ decimal_padded 9 (k mod 1000000000) \<and>
    \<bar>real k - \<bar>sint time\<bar>\<bar> \<le> \<bar>sint time\<bar> / 2 ^ 52 + 1 / 2 \<and> (\<bar>sint time\<bar> < 2 ^ 52 \<longrightarrow> int k = \<bar>sint time\<bar>)) \<and>
   print_seconds 1600000000123456789 = ascii ''1600000000.123456717''"
proof (intro exI conjI impI)
  have t: "real (nat \<bar>sint time\<bar>) = real_of_int \<bar>sint time\<bar>" by simp
  let ?k = "seconds_of_nanoseconds (nat \<bar>sint time\<bar>)"
  show "print_seconds time = (if sint time < 0 then [0x2d] else []) @
      decimal_digits (?k div 1000000000) @ [0x2e] @ decimal_padded 9 (?k mod 1000000000)"
    by (simp add: print_seconds_def Let_def)
  show "\<bar>real ?k - \<bar>sint time\<bar>\<bar> \<le> \<bar>sint time\<bar> / 2 ^ 52 + 1 / 2"
    using seconds_of_nanoseconds_near(1) [of "nat \<bar>sint time\<bar>"] by (simp only: t)
  show "int ?k = \<bar>sint time\<bar>" if "\<bar>sint time\<bar> < 2 ^ 52"
    using seconds_of_nanoseconds_near(2) [of "nat \<bar>sint time\<bar>"] that by simp
qed (rule print_seconds_example)

lemma print_seconds_near_witness:
  "\<exists>k. print_seconds (- 1500000000) = [0x2d] @ decimal_digits (k div 1000000000) @ [0x2e] @
     decimal_padded 9 (k mod 1000000000) \<and> int k = 1500000000"
  using print_seconds_near [of "- 1500000000"] by auto

end
