(* ===== verification/Tool_Options.thy ===== *)
theory Tool_Options
  imports Text_Output Mount_Handle
begin

text \<open>
  The options of the command line (\<open>fsxfstools/fsxfstools_getopt.c\<close>, for systems without a \<open>getopt\<close> of
  their own) and the loop over them that the main programs have.
\<close>

subsection \<open>The next option\<close>

text \<open>
  A pointer into a string is the rest of the string, its end of string character included. Moving on from that
  leaves nothing that could be read. The notifications that are printed for the user are left out.
\<close>

record getopt_state =
  go_optind :: nat
  go_optarg :: "u8 list option"
  go_optopt :: int
  go_next_option :: "u8 list option"

definition getopt_initial :: getopt_state where
  "getopt_initial = \<lparr> go_optind = 1, go_optarg = None, go_optopt = 0, go_next_option = None \<rparr>"

definition string_character :: "u8 list \<Rightarrow> u8 result" where
  "string_character s = (case s of [] \<Rightarrow> Inl (Undefined Out_Of_Bounds_Read) | c # _ \<Rightarrow> Inr c)"

abbreviation (input) option_marker :: u8 where "option_marker \<equiv> 0x2d"
abbreviation (input) argument_marker :: u8 where "argument_marker \<equiv> 0x3a"
abbreviation (input) unknown_option :: int where "unknown_option \<equiv> 0x3f"
abbreviation (input) missing_argument :: int where "missing_argument \<equiv> 0x3a"

text \<open>Where the next option is read, or \<open>None\<close> when there are no more.\<close>

definition getopt_argument :: "u8 list list \<Rightarrow> getopt_state \<Rightarrow> (getopt_state \<times> u8 list option) result" where
  "getopt_argument argument_values st =
     (case go_next_option st of
        Some argument_value \<Rightarrow> Inr (st\<lparr> go_next_option := None \<rparr>, Some argument_value)
      | None \<Rightarrow>
          if go_optind st \<ge> length argument_values then Inr (st, None) else
          let argument_value = argument_values ! go_optind st in
          bindE (string_character argument_value) (\<lambda>c.
          if c = 0 then Inr (st, None) else
          if c \<noteq> option_marker then Inr (st, None) else
          bindE (string_character (drop 1 argument_value)) (\<lambda>c.
          if c = option_marker then Inr (st\<lparr> go_optind := go_optind st + 1 \<rparr>, None)
          else Inr (st, Some (drop 1 argument_value)))))"

text \<open>The first place of a character in the options, which are searched without their end of string character.\<close>

definition search_character :: "u8 list \<Rightarrow> u8 \<Rightarrow> u8 list option" where
  "search_character s c =
     (if c \<in> set (string_of_buffer s) then Some (dropWhile (\<lambda>b. b \<noteq> c) s) else None)"

definition fsxfstools_getopt :: "u8 list list \<Rightarrow> u8 list \<Rightarrow> getopt_state \<Rightarrow> (getopt_state \<times> int) result" where
  "fsxfstools_getopt argument_values options_string st =
     bindE (getopt_argument argument_values st) (\<lambda>(st, argument_value).
     case argument_value of
       None \<Rightarrow> Inr (st, -1)
     | Some argument_value \<Rightarrow>
         bindE (string_character argument_value) (\<lambda>c.
         let st = st\<lparr> go_optopt := sint c \<rparr>;
             argument_value = drop 1 argument_value;
             optind_next = st\<lparr> go_optind := go_optind st + 1 \<rparr> in
         (case (if c = argument_marker then None else search_character options_string c) of
            None \<Rightarrow>
              bindE (string_character argument_value) (\<lambda>next.
              Inr (if next = 0 then optind_next else st, unknown_option))
          | Some option_value \<Rightarrow>
              bindE (string_character (drop 1 option_value)) (\<lambda>requires.
              bindE (string_character argument_value) (\<lambda>next.
              if requires \<noteq> argument_marker then
                Inr (if next = 0 then optind_next\<lparr> go_optarg := None \<rparr>
                     else st\<lparr> go_optarg := None, go_next_option := Some argument_value \<rparr>, sint c)
              else if next \<noteq> 0 then Inr (optind_next\<lparr> go_optarg := Some argument_value \<rparr>, sint c)
              else if length argument_values \<le> go_optind optind_next then Inr (optind_next, missing_argument)
              else
                Inr (optind_next\<lparr> go_optarg := Some (argument_values ! go_optind optind_next),
                       go_optind := go_optind optind_next + 1 \<rparr>, sint c))))))"

text \<open>
  What is left to be read, which an option that is found makes smaller: the arguments and the
  characters of the current one.
\<close>

definition getopt_left :: "u8 list list \<Rightarrow> getopt_state \<Rightarrow> nat" where
  "getopt_left argument_values st =
     (case go_next_option st of
        None \<Rightarrow> sum_list (map length (drop (go_optind st) argument_values))
      | Some s \<Rightarrow> length s + sum_list (map length (drop (go_optind st + 1) argument_values)))"

lemma getopt_argument_left:
  assumes "getopt_argument argument_values st = Inr (st1, Some s)"
  shows "go_next_option st1 = None" "length s + getopt_left argument_values (st1\<lparr> go_optind := go_optind st1 + 1 \<rparr>)
    \<le> getopt_left argument_values st"
  using assms
  by (auto simp: getopt_argument_def getopt_left_def Let_def bindE_Inr_iff Cons_nth_drop_Suc [symmetric]
      split: option.split_asm if_split_asm)

lemma sum_list_drop_mono: "m \<le> n \<Longrightarrow> sum_list (drop n xs) \<le> (sum_list (drop m xs) :: nat)"
  by (metis drop_drop le_add_diff_inverse sum_list_append append_take_drop_id le_add2 add.commute)

lemma getopt_progress:
  assumes "fsxfstools_getopt argument_values options_string st = Inr (st', option)"
    and "option \<noteq> -1" and "option \<noteq> unknown_option"
  shows "getopt_left argument_values st' < getopt_left argument_values st"
proof -
  obtain st1 s where a: "getopt_argument argument_values st = Inr (st1, Some s)" and s: "s \<noteq> []"
    and c: "go_next_option st' = None \<and> go_optind st' \<ge> go_optind st1 + 1 \<or>
      go_next_option st' = Some (drop 1 s) \<and> go_optind st' = go_optind st1"
    using assms
    by (auto simp: fsxfstools_getopt_def bindE_Inr_iff Let_def string_character_def
        split: option.split_asm if_split_asm list.split_asm dest!: getopt_argument_left(1))
  have "getopt_left argument_values st' \<le> length (drop 1 s) +
      getopt_left argument_values (st1\<lparr> go_optind := go_optind st1 + 1 \<rparr>)"
    using c getopt_argument_left(1) [OF a]
      sum_list_drop_mono [of "go_optind st1 + 1" "go_optind st'" "map length argument_values"]
    by (auto simp: getopt_left_def drop_map)
  with getopt_argument_left(2) [OF a] s show ?thesis by (cases s) auto
qed

subsection \<open>The loop over the options\<close>

text \<open>
  \<open>switch\<close> is what is done for an option, which can end the program; an option that is not known ends it with
  \<open>invalid\<close>.
\<close>

function options_loop ::
    "'e \<Rightarrow> (int \<Rightarrow> u8 list option \<Rightarrow> 'x \<Rightarrow> 'e + 'x) \<Rightarrow> u8 list list \<Rightarrow> u8 list \<Rightarrow> getopt_state \<Rightarrow> 'x
      \<Rightarrow> (getopt_state \<times> ('e + 'x)) result" where
  "options_loop invalid switch argument_values options_string st x =
     (case fsxfstools_getopt argument_values options_string st of
        Inl e \<Rightarrow> Inl e
      | Inr (st, option) \<Rightarrow>
          if option = -1 then Inr (st, Inr x)
          else if option = unknown_option then Inr (st, Inl invalid)
          else
            (case switch option (go_optarg st) x of
               Inl e \<Rightarrow> Inr (st, Inl e)
             | Inr x \<Rightarrow> options_loop invalid switch argument_values options_string st x))"
  by pat_completeness auto

termination
  by (relation "measure (\<lambda>(_, _, argument_values, _, st, _). getopt_left argument_values st)")
    (auto intro: getopt_progress)

declare options_loop.simps [simp del]

subsection \<open>What both programs have\<close>

datatype exit_status = EXIT_SUCCESS | EXIT_FAILURE

text \<open>The address and the version come from the configuration of the build.\<close>

definition fsxfstools_output_copyright_fprint :: "u8 list \<Rightarrow> u8 list" where
  "fsxfstools_output_copyright_fprint package_bugreport =
     ascii ''Copyright (C) 2020-2024, Joachim Metz.'' @ [newline] @
     ascii ''This is free software; see the source for copying conditions. There is NO'' @ [newline] @
     ascii ''warranty; not even for MERCHANTABILITY or FITNESS FOR A PARTICULAR PURPOSE.'' @ [newline] @
     ascii ''Report bugs to <'' @ package_bugreport @ ascii ''>.'' @ [newline]"

definition fsxfstools_output_version_fprint :: "u8 list \<Rightarrow> u8 list \<Rightarrow> u8 list" where
  "fsxfstools_output_version_fprint version program = program @ ascii '' '' @ version @ [newline, newline]"

subsection \<open>The options that are written\<close>

text \<open>A run of calls and what they return, with the argument of the option where there is one.\<close>

inductive getopt_run ::
    "u8 list list \<Rightarrow> u8 list \<Rightarrow> getopt_state \<Rightarrow> (int \<times> u8 list option) list \<Rightarrow> getopt_state \<Rightarrow> bool"
    for argument_values options_string where
  stop: "getopt_run argument_values options_string st [] st"
| step: "fsxfstools_getopt argument_values options_string st = Inr (st1, option) \<Longrightarrow> option \<noteq> -1 \<Longrightarrow>
    option \<noteq> unknown_option \<Longrightarrow> getopt_run argument_values options_string st1 options st' \<Longrightarrow>
    getopt_run argument_values options_string st ((option, go_optarg st1) # options) st'"

lemma getopt_run_append:
  assumes "getopt_run argument_values options_string st xs st1" and "getopt_run argument_values options_string st1 ys st2"
  shows "getopt_run argument_values options_string st (xs @ ys) st2"
  using assms by (induction rule: getopt_run.induct) (auto intro: getopt_run.step)

text \<open>What a program does with options that are given to it one after the other.\<close>

fun options_fold :: "(int \<Rightarrow> u8 list option \<Rightarrow> 'x \<Rightarrow> 'e + 'x) \<Rightarrow> (int \<times> u8 list option) list \<Rightarrow> 'x \<Rightarrow> 'e + 'x" where
  "options_fold switch [] x = Inr x"
| "options_fold switch ((option, optarg) # options) x =
     (case switch option optarg x of Inl e \<Rightarrow> Inl e | Inr x \<Rightarrow> options_fold switch options x)"

lemma options_loop_run:
  assumes "getopt_run argument_values options_string st options st'"
  shows "case options_fold switch options x of
      Inr x' \<Rightarrow> options_loop invalid switch argument_values options_string st x =
        options_loop invalid switch argument_values options_string st' x'
    | Inl e \<Rightarrow> \<exists>st1. options_loop invalid switch argument_values options_string st x = Inr (st1, Inl e)"
  using assms
proof (induction arbitrary: x rule: getopt_run.induct)
  case (step st st1 option options st')
  show ?case
  proof (cases "switch option (go_optarg st1) x")
    case (Inl e)
    then show ?thesis using step.hyps by (subst options_loop.simps) simp
  next
    case (Inr x1)
    then have "options_loop invalid switch argument_values options_string st x =
        options_loop invalid switch argument_values options_string st1 x1"
      using step.hyps by (subst options_loop.simps) simp
    then show ?thesis using Inr step.IH [of x1] by (simp split: sum.splits)
  qed
qed simp

text \<open>What the last of the options says that say something, and the argument that an option has at last.\<close>

definition last_value :: "(int \<Rightarrow> u8 list option \<Rightarrow> 'a option) \<Rightarrow> (int \<times> u8 list option) list \<Rightarrow> 'a \<Rightarrow> 'a" where
  "last_value says options old =
     foldl (\<lambda>r (c, optarg). case says c optarg of None \<Rightarrow> r | Some v \<Rightarrow> v) old options"

definition last_argument :: "int \<Rightarrow> (int \<times> u8 list option) list \<Rightarrow> u8 list option" where
  "last_argument c options = last_value (\<lambda>d optarg. if d = c then Some optarg else None) options None"

lemma options_fold_value:
  assumes "\<And>c optarg x x'. switch c optarg x = Inr x' \<Longrightarrow>
      f x' = (case says c optarg of None \<Rightarrow> f x | Some v \<Rightarrow> v)"
    and "options_fold switch options x = Inr x'"
  shows "f x' = last_value says options (f x)"
  using assms(2)
proof (induction options arbitrary: x)
  case (Cons p options)
  then show ?case
    using assms(1) by (cases p) (fastforce simp: last_value_def split: sum.split_asm)
qed (simp add: last_value_def)

lemma options_fold_argument:
  assumes "\<And>c optarg x x'. switch c optarg x = Inr x' \<Longrightarrow> f x' = (if c = k then optarg else f x)"
    and "options_fold switch options x = Inr x'" and "f x = None"
  shows "f x' = last_argument k options"
  using options_fold_value [where says = "\<lambda>d optarg. if d = k then Some optarg else None" and f = f, OF _ assms(2)]
    assms(1,3) by (simp add: last_argument_def)

lemma options_fold_Inr:
  assumes "\<And>c optarg x. (c, optarg) \<in> set options \<Longrightarrow> \<exists>x'. switch c optarg x = Inr x'"
  shows "\<exists>x'. options_fold switch options x = Inr x'"
  using assms
proof (induction options arbitrary: x)
  case (Cons p options)
  obtain x1 where "switch (fst p) (snd p) x = Inr x1" using Cons.prems [of "fst p" "snd p"] by auto
  then show ?case using Cons by (cases p) simp
qed simp

text \<open>The last offset is the number, and without one it is 0.\<close>

definition offset_given :: "(int \<times> u8 list option) list \<Rightarrow> nat \<Rightarrow> bool" where
  "offset_given options n \<longleftrightarrow>
     (case last_argument 0x6f options of None \<Rightarrow> n = 0 | Some s \<Rightarrow> s = decimal_digits n @ [0])"

lemma string_of_buffer_terminated: "0 \<notin> set s \<Longrightarrow> string_of_buffer (s @ [0]) = s"
  unfolding string_of_buffer_def by (subst takeWhile_append2) auto

lemma decimal_digits_buffer: "string_of_buffer (decimal_digits n @ [0]) = decimal_digits n"
  using decimal_digits_digit [of 0 n] by (intro string_of_buffer_terminated) (auto simp: decimal_digit_def)

lemma decimal_offset_read:
  assumes "n < 2 ^ 64"
  shows "mount_handle_system_string_copy_from_64_bit_in_decimal (decimal_digits n @ [0]) = Inr (word_of_nat n)"
proof -
  have "length (decimal_digits n) \<le> 20" using decimal_digits_length [of 20 n] assms by simp
  then show ?thesis using decimal_number_read [of n] assms by simp
qed

text \<open>
  Options are written in groups: flags behind one marker, of which the last can be an option with an argument,
  which is attached to it or the next word.
\<close>

datatype option_group =
    Flags "u8 list"
  | Attached "u8 list" u8 "u8 list"
  | Separate "u8 list" u8 "u8 list"

fun group_words :: "option_group \<Rightarrow> u8 list list" where
  "group_words (Flags flags) = [option_marker # flags @ [0]]"
| "group_words (Attached flags c arg) = [option_marker # flags @ c # arg @ [0]]"
| "group_words (Separate flags c arg) = [option_marker # flags @ [c, 0], arg @ [0]]"

definition flag_options :: "u8 list \<Rightarrow> (int \<times> u8 list option) list" where
  "flag_options flags = map (\<lambda>c. (sint c, None)) flags"

fun group_options :: "option_group \<Rightarrow> (int \<times> u8 list option) list" where
  "group_options (Flags flags) = flag_options flags"
| "group_options (Attached flags c arg) = flag_options flags @ [(sint c, Some (arg @ [0]))]"
| "group_options (Separate flags c arg) = flag_options flags @ [(sint c, Some (arg @ [0]))]"

text \<open>If a character is an option, and whether it has an argument. The mark of an unknown option is none.\<close>

definition option_kind :: "u8 list \<Rightarrow> u8 \<Rightarrow> bool option" where
  "option_kind options_string c =
     (if c \<in> {option_marker, argument_marker, 0x3f, 0xff} then None else
      case search_character options_string c of
        Some (_ # d # _) \<Rightarrow> Some (d = argument_marker)
      | _ \<Rightarrow> None)"

fun option_group_ok :: "u8 list \<Rightarrow> option_group \<Rightarrow> bool" where
  "option_group_ok options_string (Flags flags) \<longleftrightarrow>
     flags \<noteq> [] \<and> (\<forall>c \<in> set flags. option_kind options_string c = Some False)"
| "option_group_ok options_string (Attached flags c arg) \<longleftrightarrow>
     (\<forall>c \<in> set flags. option_kind options_string c = Some False) \<and> option_kind options_string c = Some True \<and>
     arg \<noteq> [] \<and> 0 \<notin> set arg"
| "option_group_ok options_string (Separate flags c arg) \<longleftrightarrow>
     (\<forall>c \<in> set flags. option_kind options_string c = Some False) \<and> option_kind options_string c = Some True"

text \<open>
  The call reads the characters \<open>s\<close> of the argument \<open>i\<close>, whether it is at the start of the argument or behind an option.
\<close>

definition getopt_reads :: "u8 list list \<Rightarrow> getopt_state \<Rightarrow> u8 list \<Rightarrow> nat \<Rightarrow> bool" where
  "getopt_reads argument_values st s i \<longleftrightarrow>
     getopt_argument argument_values st = Inr (st\<lparr> go_next_option := None \<rparr>, Some s) \<and> go_optind st = i"

lemma getopt_reads_start:
  assumes "go_next_option st = None" and "go_optind st < length argument_values"
    and "argument_values ! go_optind st = option_marker # c # s" and "c \<noteq> option_marker"
  shows "getopt_reads argument_values st (c # s) (go_optind st)"
  using assms by (cases st) (simp add: getopt_reads_def getopt_argument_def string_character_def Let_def)

lemma option_kind_Some:
  assumes "option_kind options_string c = Some b"
  shows "c \<noteq> argument_marker" "c \<noteq> option_marker" "sint c \<noteq> -1" "sint c \<noteq> unknown_option"
    "\<exists>d rest. search_character options_string c = Some (c # d # rest) \<and> (d = argument_marker) = b"
proof -
  have c: "c \<notin> {option_marker, argument_marker, 0x3f, 0xff}" using assms by (auto simp: option_kind_def split: if_split_asm)
  then show "c \<noteq> argument_marker" "c \<noteq> option_marker" by simp_all
  have i: "c = of_int k" if "sint c = k" for k unfolding that [symmetric] by simp
  show "sint c \<noteq> -1" "sint c \<noteq> unknown_option"
    using c by (auto dest!: i)
  show "\<exists>d rest. search_character options_string c = Some (c # d # rest) \<and> (d = argument_marker) = b"
    using assms
    by (auto simp: option_kind_def search_character_def dropWhile_eq_Cons_conv split: if_split_asm list.split_asm option.split_asm)
qed

lemma getopt_reads_next: "go_next_option st = Some s \<Longrightarrow> getopt_reads argument_values st s (go_optind st)"
  by (simp add: getopt_reads_def getopt_argument_def)

lemma getopt_flag:
  assumes "getopt_reads argument_values st (c # s) i" and "option_kind options_string c = Some False" and "s \<noteq> []"
  shows "\<exists>st'. fsxfstools_getopt argument_values options_string st = Inr (st', sint c) \<and> go_optarg st' = None \<and>
    (if hd s = 0 then go_next_option st' = None \<and> go_optind st' = i + 1 else getopt_reads argument_values st' s i)"
proof -
  let ?st = "st\<lparr> go_next_option := None, go_optopt := sint c, go_optarg := None \<rparr>"
  let ?st' = "if hd s = 0 then ?st\<lparr> go_optind := i + 1 \<rparr> else ?st\<lparr> go_next_option := Some s \<rparr>"
  have "fsxfstools_getopt argument_values options_string st = Inr (?st', sint c)"
    using assms option_kind_Some [OF assms(2)]
    by (cases s) (auto simp: fsxfstools_getopt_def getopt_reads_def string_character_def Let_def)
  moreover have "getopt_reads argument_values ?st' s i" if "hd s \<noteq> 0"
    using that assms(1) getopt_reads_next [of ?st' s argument_values] by (simp add: getopt_reads_def)
  ultimately show ?thesis by (intro exI [of _ ?st']) auto
qed

lemma getopt_attached:
  assumes "getopt_reads argument_values st (c # s) i" and "option_kind options_string c = Some True"
    and "s \<noteq> []" and "hd s \<noteq> 0"
  shows "\<exists>st'. fsxfstools_getopt argument_values options_string st = Inr (st', sint c) \<and> go_optarg st' = Some s \<and>
    go_next_option st' = None \<and> go_optind st' = i + 1"
  using assms option_kind_Some [OF assms(2)]
  by (cases s) (auto simp: fsxfstools_getopt_def getopt_reads_def string_character_def Let_def)

lemma getopt_separate:
  assumes "getopt_reads argument_values st [c, 0] i" and "option_kind options_string c = Some True"
    and "i + 1 < length argument_values"
  shows "\<exists>st'. fsxfstools_getopt argument_values options_string st = Inr (st', sint c) \<and>
    go_optarg st' = Some (argument_values ! (i + 1)) \<and> go_next_option st' = None \<and> go_optind st' = i + 2"
  using assms option_kind_Some [OF assms(2)]
  by (auto simp: fsxfstools_getopt_def getopt_reads_def string_character_def Let_def)

lemma getopt_flags:
  assumes "getopt_reads argument_values st (flags @ s) i" and "s \<noteq> []" and "hd s \<noteq> 0"
    and "\<forall>c \<in> set flags. option_kind options_string c = Some False" and "0 \<notin> set flags"
  shows "\<exists>st'. getopt_run argument_values options_string st (flag_options flags) st' \<and> getopt_reads argument_values st' s i"
  using assms
proof (induction flags arbitrary: st)
  case Nil
  then show ?case by (auto simp: flag_options_def intro: getopt_run.stop)
next
  case (Cons c flags)
  have k: "option_kind options_string c = Some False" using Cons.prems by simp
  have "hd (flags @ s) \<noteq> 0" using Cons.prems by (cases flags) auto
  then obtain st1 where st1: "fsxfstools_getopt argument_values options_string st = Inr (st1, sint c)"
    "go_optarg st1 = None" "getopt_reads argument_values st1 (flags @ s) i"
    using getopt_flag [of argument_values st c "flags @ s" i options_string] Cons.prems k by auto
  then obtain st' where "getopt_run argument_values options_string st1 (flag_options flags) st'"
    "getopt_reads argument_values st' s i"
    using Cons by auto
  with getopt_run.step [OF st1(1) option_kind_Some(3,4) [OF k]] st1(2) show ?case
    by (auto simp: flag_options_def)
qed

lemma getopt_last_flag:
  assumes "getopt_reads argument_values st [c, 0] i" and "option_kind options_string c = Some False"
  shows "\<exists>st'. getopt_run argument_values options_string st [(sint c, None)] st' \<and>
    go_next_option st' = None \<and> go_optind st' = i + 1"
  using getopt_flag [of argument_values st c "[0]" i options_string] assms option_kind_Some(3,4) [OF assms(2)]
    getopt_run.step [OF _ _ _ getopt_run.stop, of argument_values options_string st _ "sint c"]
  by fastforce

lemma getopt_argument_option:
  assumes "fsxfstools_getopt argument_values options_string st = Inr (st', sint c) \<and> go_optarg st' = Some arg"
    and "option_kind options_string c = Some b"
  shows "getopt_run argument_values options_string st [(sint c, Some arg)] st'"
  using getopt_run.step [OF _ _ _ getopt_run.stop, of argument_values options_string st st' "sint c"]
    assms option_kind_Some(3,4) [OF assms(2)] by auto

lemma option_kind_nonzero:
  "option_kind options_string c = Some b \<Longrightarrow> c \<noteq> 0"
  by (auto simp: option_kind_def search_character_def string_of_buffer_def split: if_split_asm option.split_asm
      dest: set_takeWhileD)

lemma getopt_group_start:
  assumes "go_next_option st = None" and "go_optind st = length pre" and "c \<noteq> option_marker"
  shows "getopt_reads (pre @ (option_marker # c # s) # post) st (c # s) (length pre)"
  using assms getopt_reads_start [of st "pre @ (option_marker # c # s) # post" c s] by simp

lemma getopt_group_flags:
  assumes "go_next_option st = None" and "go_optind st = length pre" and "s \<noteq> []" and "hd s \<noteq> 0" and "hd s \<noteq> option_marker"
    and "\<forall>c \<in> set flags. option_kind options_string c = Some False"
    and "argument_values = pre @ (option_marker # flags @ s) # post"
  shows "\<exists>st'. getopt_run argument_values options_string st (flag_options flags) st' \<and>
    getopt_reads argument_values st' s (length pre)"
proof (rule getopt_flags [OF _ assms(3,4,6)])
  obtain c s' where cs: "flags @ s = c # s'" using assms(3) by (cases "flags @ s") auto
  have "c \<noteq> option_marker"
    using cs assms(3,5,6) option_kind_Some(2) [of options_string c False] by (cases flags; cases s) auto
  from getopt_group_start [OF assms(1,2) this] cs
  show "getopt_reads argument_values st (flags @ s) (length pre)" by (simp add: assms(7))
  show "0 \<notin> set flags" using assms(6) option_kind_nonzero by blast
qed

lemma getopt_group:
  assumes "option_group_ok options_string g" and "go_next_option st = None" and "go_optind st = length pre"
    and "argument_values = pre @ group_words g @ post"
  shows "\<exists>st'. getopt_run argument_values options_string st (group_options g) st' \<and> go_next_option st' = None \<and>
    go_optind st' = length pre + length (group_words g)"
proof (cases g)
  case (Flags flags)
  then obtain fs c where f: "flags = fs @ [c]" using assms(1) by (cases flags rule: rev_cases) auto
  have c: "option_kind options_string c = Some False" using assms(1) Flags f by simp
  obtain st1 where "getopt_run argument_values options_string st (flag_options fs) st1"
    "getopt_reads argument_values st1 [c, 0] (length pre)"
    using getopt_group_flags [OF assms(2,3), of "[c, 0]" fs options_string argument_values post]
      assms(1,4) Flags f option_kind_nonzero [OF c] option_kind_Some(2) [OF c] by auto
  with getopt_last_flag [OF _ c] show ?thesis
    using Flags f by (fastforce simp: flag_options_def intro: getopt_run_append)
next
  case (Attached flags c arg)
  have c: "option_kind options_string c = Some True" using assms(1) Attached by simp
  obtain st1 where st1: "getopt_run argument_values options_string st (flag_options flags) st1"
    "getopt_reads argument_values st1 (c # arg @ [0]) (length pre)"
    using getopt_group_flags [OF assms(2,3), of "c # arg @ [0]" flags options_string argument_values post]
      assms(1,4) Attached option_kind_nonzero [OF c] option_kind_Some(2) [OF c] by auto
  have "arg @ [0] \<noteq> []" "hd (arg @ [0]) \<noteq> 0" using assms(1) Attached by (cases arg; simp)+
  from getopt_attached [OF st1(2) c this] obtain st' where
    st': "fsxfstools_getopt argument_values options_string st1 = Inr (st', sint c) \<and> go_optarg st' = Some (arg @ [0])"
    "go_next_option st' = None" "go_optind st' = length pre + 1"
    by auto
  show ?thesis
    using Attached st' getopt_run_append [OF st1(1) getopt_argument_option [OF st'(1) c]] by auto
next
  case (Separate flags c arg)
  have c: "option_kind options_string c = Some True" using assms(1) Separate by simp
  obtain st1 where st1: "getopt_run argument_values options_string st (flag_options flags) st1"
    "getopt_reads argument_values st1 [c, 0] (length pre)"
    using getopt_group_flags [OF assms(2,3), of "[c, 0]" flags options_string argument_values "(arg @ [0]) # post"]
      assms(1,4) Separate option_kind_nonzero [OF c] option_kind_Some(2) [OF c] by auto
  have "length pre + 1 < length argument_values" "argument_values ! (length pre + 1) = arg @ [0]"
    using assms(4) Separate by (simp_all add: nth_append)
  with getopt_separate [OF st1(2) c] obtain st' where
    st': "fsxfstools_getopt argument_values options_string st1 = Inr (st', sint c) \<and> go_optarg st' = Some (arg @ [0])"
    "go_next_option st' = None" "go_optind st' = length pre + 2"
    by auto
  show ?thesis
    using Separate st' getopt_run_append [OF st1(1) getopt_argument_option [OF st'(1) c]] by auto
qed

lemma getopt_groups:
  assumes "\<forall>g \<in> set groups. option_group_ok options_string g" and "go_next_option st = None" and "go_optind st = length pre"
    and "argument_values = pre @ concat (map group_words groups) @ post"
  shows "\<exists>st'. getopt_run argument_values options_string st (concat (map group_options groups)) st' \<and>
    go_next_option st' = None \<and> go_optind st' = length pre + length (concat (map group_words groups))"
  using assms
proof (induction groups arbitrary: st pre)
  case Nil
  then show ?case by (auto intro: getopt_run.stop)
next
  case (Cons g groups)
  obtain st1 where st1: "getopt_run argument_values options_string st (group_options g) st1" "go_next_option st1 = None"
    "go_optind st1 = length (pre @ group_words g)"
    using getopt_group [of options_string g st pre argument_values] Cons.prems by auto
  obtain st' where "getopt_run argument_values options_string st1 (concat (map group_options groups)) st'"
    "go_next_option st' = None" "go_optind st' = length (pre @ group_words g) + length (concat (map group_words groups))"
    using Cons.IH [OF _ st1(2,3)] Cons.prems by auto
  with getopt_run_append [OF st1(1)] show ?case by (intro exI [of _ st']) auto
qed

text \<open>How many arguments are skipped at the end of the options: the word that begins with two marks.\<close>

fun options_end :: "u8 list list \<Rightarrow> nat option" where
  "options_end [] = Some 0"
| "options_end ((c # s) # _) =
     (if c \<noteq> option_marker then Some 0 else if take 1 s = [option_marker] then Some 1 else None)"
| "options_end ([] # _) = None"

lemma getopt_end:
  assumes "options_end rest = Some n" and "go_next_option st = None" and "go_optind st = length pre"
  shows "fsxfstools_getopt (pre @ rest) options_string st = Inr (st\<lparr> go_optind := go_optind st + n \<rparr>, -1)"
proof (cases rest)
  case Nil
  then show ?thesis using assms by (simp add: fsxfstools_getopt_def getopt_argument_def)
next
  case (Cons w ws)
  then show ?thesis
    using assms
    by (cases w; cases "tl w")
      (auto simp: fsxfstools_getopt_def getopt_argument_def string_character_def Let_def split: if_split_asm)
qed

lemma getopt_written:
  assumes "\<forall>g \<in> set groups. option_group_ok options_string g" and "options_end rest = Some n"
    and "argument_values = program # concat (map group_words groups) @ rest"
  shows "\<exists>st. getopt_run argument_values options_string getopt_initial (concat (map group_options groups)) st \<and>
    go_optind st + length rest = length argument_values \<and>
    fsxfstools_getopt argument_values options_string st = Inr (st\<lparr> go_optind := go_optind st + n \<rparr>, -1)"
proof -
  obtain st where st: "getopt_run argument_values options_string getopt_initial (concat (map group_options groups)) st"
    "go_next_option st = None" "go_optind st = 1 + length (concat (map group_words groups))"
    using getopt_groups [OF assms(1), of getopt_initial "[program]" argument_values rest] assms(3)
    by (auto simp: getopt_initial_def)
  then show ?thesis
    using getopt_end [OF assms(2) st(2), of "program # concat (map group_words groups)"] assms(3)
    by (intro exI [of _ st]) simp
qed

lemma options_loop_end:
  assumes "getopt_run argument_values options_string st0 options st"
    and "fsxfstools_getopt argument_values options_string st = Inr (st', -1)"
  shows "case options_fold switch options x of
      Inr x' \<Rightarrow> options_loop invalid switch argument_values options_string st0 x = Inr (st', Inr x')
    | Inl e \<Rightarrow> \<exists>st1. options_loop invalid switch argument_values options_string st0 x = Inr (st1, Inl e)"
proof -
  have "options_loop invalid switch argument_values options_string st x' = Inr (st', Inr x')" for x'
    using assms(2) by (subst options_loop.simps) simp
  with options_loop_run [OF assms(1), where switch = switch and x = x and invalid = invalid] show ?thesis
    by (auto split: sum.splits)
qed

text \<open>
  C25: Options are read as they are written: of the words of any groups of options, with arguments attached or in
  the next word, the calls return the options with their arguments, one after the other, and then -1, with the
  index at the first argument that is no option. The loop of a program does what they say up to the first that
  ends it.
\<close>

theorem getopt_roundtrip:
  assumes "\<forall>g \<in> set groups. option_group_ok options_string g" and "options_end rest = Some n"
    and "argument_values = program # concat (map group_words groups) @ rest"
    and "options = concat (map group_options groups)"
  shows "\<exists>st. getopt_run argument_values options_string getopt_initial options st \<and>
    go_optind st + length rest = length argument_values \<and>
    fsxfstools_getopt argument_values options_string st = Inr (st\<lparr> go_optind := go_optind st + n \<rparr>, -1) \<and>
    (case options_fold switch options x of
       Inr x' \<Rightarrow> options_loop invalid switch argument_values options_string getopt_initial x =
         Inr (st\<lparr> go_optind := go_optind st + n \<rparr>, Inr x')
     | Inl e \<Rightarrow> \<exists>st1. options_loop invalid switch argument_values options_string getopt_initial x = Inr (st1, Inl e))"
proof -
  obtain st where st: "getopt_run argument_values options_string getopt_initial options st"
    "go_optind st + length rest = length argument_values"
    "fsxfstools_getopt argument_values options_string st = Inr (st\<lparr> go_optind := go_optind st + n \<rparr>, -1)"
    using getopt_written [OF assms(1-3)] assms(4) by blast
  show ?thesis
    by (intro exI [of _ st] conjI st options_loop_end [OF st(1,3)])
qed

text \<open>
  Where the code falls short: an option that is not known, with more characters behind it, is reported for ever,
  as the next call starts with the argument again, and a marker alone makes the call read behind the end of the
  argument.
\<close>

theorem getopt_errors:
  assumes "go_next_option st = None" and "go_optind st < length argument_values"
    and "argument_values ! go_optind st = option_marker # s"
  shows "(s = [0] \<longrightarrow>
      fsxfstools_getopt argument_values options_string st = Inl (Undefined Out_Of_Bounds_Read)) \<and>
    (\<forall>c d s'. s = c # d # s' \<and> c \<noteq> option_marker \<and> d \<noteq> 0 \<and>
        (c = argument_marker \<or> c \<notin> set (string_of_buffer options_string)) \<longrightarrow>
      (\<exists>st'. fsxfstools_getopt argument_values options_string st = Inr (st', unknown_option) \<and>
        fsxfstools_getopt argument_values options_string st' = Inr (st', unknown_option)))"
proof (intro conjI impI allI)
  assume "s = [0]"
  then show "fsxfstools_getopt argument_values options_string st = Inl (Undefined Out_Of_Bounds_Read)"
    using assms getopt_reads_start [of st argument_values 0 "[]"]
    by (auto simp: fsxfstools_getopt_def getopt_reads_def string_character_def search_character_def string_of_buffer_def
        Let_def dest: set_takeWhileD)
next
  fix c d s'
  assume s: "s = c # d # s' \<and> c \<noteq> option_marker \<and> d \<noteq> 0 \<and>
    (c = argument_marker \<or> c \<notin> set (string_of_buffer options_string))"
  have "fsxfstools_getopt argument_values options_string t = Inr (st\<lparr> go_optopt := sint c \<rparr>, unknown_option)"
    if "t = st \<or> t = st\<lparr> go_optopt := sint c \<rparr>" for t
    using that assms s getopt_reads_start [of t argument_values c "d # s'"]
    by (cases st) (auto simp: fsxfstools_getopt_def getopt_reads_def string_character_def search_character_def Let_def)
  then show "\<exists>st'. fsxfstools_getopt argument_values options_string st = Inr (st', unknown_option) \<and>
      fsxfstools_getopt argument_values options_string st' = Inr (st', unknown_option)" by blast
qed

subsection \<open>Example\<close>

text \<open>The options of the information tool, with \<open>-dvo 7 -E5 --\<close> and a file.\<close>

definition example_options :: "u8 list" where
  "example_options = ascii ''B:dE:F:hHo:vV'' @ [0]"

lemma getopt_roundtrip_witness:
  "\<exists>st. getopt_run [ascii ''p'' @ [0], ascii ''-dvo'' @ [0], ascii ''7'' @ [0], ascii ''-E5'' @ [0], ascii ''--'' @ [0],
      ascii ''f'' @ [0]] example_options getopt_initial
    [(0x64, None), (0x76, None), (0x6f, Some (ascii ''7'' @ [0])), (0x45, Some (ascii ''5'' @ [0]))] st \<and> go_optind st = 4"
proof -
  let ?groups = "[Separate (ascii ''dv'') 0x6f (ascii ''7''), Attached [] 0x45 (ascii ''5'')]"
  have ok: "\<forall>g \<in> set ?groups. option_group_ok example_options g"
    by (simp add: option_kind_def search_character_def string_of_buffer_def ascii_def example_options_def)
  have e: "options_end [ascii ''--'' @ [0], ascii ''f'' @ [0]] = Some 1" by code_simp
  have w: "[ascii ''p'' @ [0], ascii ''-dvo'' @ [0], ascii ''7'' @ [0], ascii ''-E5'' @ [0], ascii ''--'' @ [0], ascii ''f'' @ [0]] =
      (ascii ''p'' @ [0]) # concat (map group_words ?groups) @ [ascii ''--'' @ [0], ascii ''f'' @ [0]]" by code_simp
  have os: "[(0x64, None), (0x76, None), (0x6f, Some (ascii ''7'' @ [0])), (0x45, Some (ascii ''5'' @ [0]))] =
      concat (map group_options ?groups)" by code_simp
  show ?thesis
    using getopt_roundtrip [OF ok e w os, where switch = "\<lambda>option optarg x :: unit. Inr x" and invalid = "()"] by auto
qed

lemma getopt_errors_witness:
  "fsxfstools_getopt [ascii ''p'' @ [0], ascii ''-'' @ [0]] example_options getopt_initial =
     Inl (Undefined Out_Of_Bounds_Read) \<and>
   (\<exists>st'. fsxfstools_getopt [ascii ''p'' @ [0], ascii ''-zv'' @ [0]] example_options getopt_initial =
       Inr (st', unknown_option) \<and>
     fsxfstools_getopt [ascii ''p'' @ [0], ascii ''-zv'' @ [0]] example_options st' = Inr (st', unknown_option))"
  using getopt_errors [of getopt_initial "[ascii ''p'' @ [0], ascii ''-'' @ [0]]" "[0]" example_options]
    getopt_errors [of getopt_initial "[ascii ''p'' @ [0], ascii ''-zv'' @ [0]]" "[0x7a, 0x76, 0]" example_options]
  by (simp add: getopt_initial_def ascii_def example_options_def string_of_buffer_def)

end
