(* ===== verification/Info_Handle.thy ===== *)
theory Info_Handle
  imports Text_Output Volume_Paths Mount_Paths
begin

text \<open>
  The handle of the information tool (\<open>fsxfstools/info_handle.c\<close>): the volume that is read, and what is
  printed about it, to the console or, line by line, to a file in the format of the Sleuthkit.
\<close>

subsection \<open>The handle\<close>

text \<open>
  A stream is held by what was written to it. The handle of the input is the range of the file that was
  set last; before, it is the empty range that \<open>libbfio_file_range_initialize\<close> gives.
\<close>

record 'h info_handle =
  ih_volume_offset :: u64
  ih_input_file_io_handle :: "'h option"
  ih_input_volume :: "'h volume option"
  ih_calculate_md5 :: u8
  ih_bodyfile_stream :: "u8 list option"
  ih_notify_stream :: "u8 list"
  ih_abort :: bool

definition info_handle_initialize :: "'h info_handle option \<Rightarrow> u8 \<Rightarrow> 'h info_handle result" where
  "info_handle_initialize pointer calculate_md5 =
     (case pointer of
        Some _ \<Rightarrow> Inl Value_Already_Set
      | None \<Rightarrow>
          Inr \<lparr> ih_volume_offset = 0, ih_input_file_io_handle = None, ih_input_volume = None,
                ih_calculate_md5 = calculate_md5, ih_bodyfile_stream = None, ih_notify_stream = [],
                ih_abort = False \<rparr>)"

text \<open>All parts are freed whatever fails; the arguments tell if the stream closes and the input is freed.\<close>

definition info_handle_free :: "'h libbfio \<Rightarrow> bool \<Rightarrow> unit result \<Rightarrow> 'h info_handle option \<Rightarrow> unit result" where
  "info_handle_free bf stream_closes input_freed pointer =
     (case pointer of
        None \<Rightarrow> Inr ()
      | Some info_handle \<Rightarrow>
          if ih_bodyfile_stream info_handle \<noteq> None \<and> \<not> stream_closes then Inl Close_Failed else
          bindE (libfsxfs_volume_free bf (ih_input_volume info_handle)) (\<lambda>_. input_freed))"

definition info_handle_signal_abort :: "'h info_handle \<Rightarrow> 'h info_handle" where
  "info_handle_signal_abort info_handle =
     info_handle\<lparr> ih_abort := True,
       ih_input_volume := map_option libfsxfs_volume_signal_abort (ih_input_volume info_handle) \<rparr>"

text \<open>\<open>opens filename\<close> tells if the stream of a file could be opened; its former contents are cleared.\<close>

definition info_handle_set_bodyfile ::
    "('f \<Rightarrow> bool) \<Rightarrow> 'h info_handle \<Rightarrow> 'f option \<Rightarrow> 'h info_handle \<times> unit result" where
  "info_handle_set_bodyfile opens info_handle filename =
     (if ih_bodyfile_stream info_handle \<noteq> None then (info_handle, Inl Value_Already_Set) else
      case filename of
        None \<Rightarrow> (info_handle, Inl Invalid_Value)
      | Some filename \<Rightarrow>
          if opens filename then (info_handle\<lparr> ih_bodyfile_stream := Some [] \<rparr>, Inr ())
          else (info_handle, Inl Open_Failed))"

text \<open>The function is the same in both tools.\<close>

definition info_handle_system_string_copy_from_64_bit_in_decimal :: "u8 list \<Rightarrow> u64 result" where
  "info_handle_system_string_copy_from_64_bit_in_decimal string =
     mount_handle_system_string_copy_from_64_bit_in_decimal string"

definition info_handle_set_volume_offset :: "'h info_handle \<Rightarrow> u8 list \<Rightarrow> 'h info_handle \<times> unit result" where
  "info_handle_set_volume_offset info_handle string =
     (case info_handle_system_string_copy_from_64_bit_in_decimal (string @ [0]) of
        Inl e \<Rightarrow> (info_handle, Inl e)
      | Inr value_64bit \<Rightarrow> (info_handle\<lparr> ih_volume_offset := value_64bit \<rparr>, Inr ()))"

text \<open>After an error the volume is freed, the one that was open before included.\<close>

definition info_handle_open_input ::
    "'h libbfio \<Rightarrow> ('f \<Rightarrow> u64 \<Rightarrow> 'h result) \<Rightarrow> 'h info_handle \<Rightarrow> 'f \<Rightarrow> 'h info_handle \<times> unit result" where
  "info_handle_open_input bf create info_handle filename =
     (let on_error = (\<lambda>info_handle e. (info_handle\<lparr> ih_input_volume := None \<rparr>, Inl e)) in
      (case create filename (ih_volume_offset info_handle) of
         Inl e \<Rightarrow> on_error info_handle e
       | Inr file_io_handle \<Rightarrow>
           let info_handle = info_handle\<lparr> ih_input_file_io_handle := Some file_io_handle \<rparr> in
           (case libfsxfs_volume_initialize (ih_input_volume info_handle) of
              Inl e \<Rightarrow> on_error info_handle e
            | Inr volume \<Rightarrow>
                (case libfsxfs_volume_open_file_io_handle bf volume file_io_handle 1 of
                   (volume, Inl e) \<Rightarrow> on_error info_handle e
                 | (volume, Inr _) \<Rightarrow> (info_handle\<lparr> ih_input_volume := Some volume \<rparr>, Inr ())))))"

definition info_handle_close_input :: "'h libbfio \<Rightarrow> 'h info_handle \<Rightarrow> 'h info_handle \<times> unit result" where
  "info_handle_close_input bf info_handle =
     (case ih_input_volume info_handle of
        None \<Rightarrow> (info_handle, Inr ())
      | Some volume \<Rightarrow>
          (case libfsxfs_volume_close bf volume of
             (volume, r) \<Rightarrow> (info_handle\<lparr> ih_input_volume := Some volume \<rparr>, r)))"

subsection \<open>Printing\<close>

text \<open>
  What prints gives the handle with the longer streams, also when it fails after having printed a part,
  and \<open>None\<close> when it does not return.
\<close>

type_synonym ('h, 'a) printing = "('h info_handle \<times> 'a result) option"

definition print_then ::
    "('h, 'a) printing \<Rightarrow> ('h info_handle \<Rightarrow> 'a \<Rightarrow> ('h, 'b) printing) \<Rightarrow> ('h, 'b) printing" where
  "print_then m f =
     (case m of
        None \<Rightarrow> None
      | Some (info_handle, Inl e) \<Rightarrow> Some (info_handle, Inl e)
      | Some (info_handle, Inr x) \<Rightarrow> f info_handle x)"

definition print_notify :: "u8 list \<Rightarrow> 'h info_handle \<Rightarrow> 'h info_handle" where
  "print_notify s info_handle = info_handle\<lparr> ih_notify_stream := ih_notify_stream info_handle @ s \<rparr>"

definition print_bodyfile :: "u8 list \<Rightarrow> 'h info_handle \<Rightarrow> 'h info_handle" where
  "print_bodyfile s info_handle =
     info_handle\<lparr> ih_bodyfile_stream := map_option (\<lambda>t. t @ s) (ih_bodyfile_stream info_handle) \<rparr>"

text \<open>The format \<open>%s\<close> reads the string up to its end of string character.\<close>

definition format_string :: "u8 list \<Rightarrow> u8 list result" where
  "format_string buffer =
     (if 0 \<in> set buffer then Inr (string_of_buffer buffer) else Inl (Undefined Out_Of_Bounds_Read))"

text \<open>
  What is needed of further libraries: of \<open>libhmac\<close> the context of an MD5, and of \<open>libfdatetime\<close> the
  string that a time in nanoseconds is converted to.
\<close>

record 'm info_libraries =
  md5_initialize :: "'m result"
  md5_update :: "'m \<Rightarrow> u8 list \<Rightarrow> 'm result"
  md5_finalize :: "'m \<Rightarrow> u8 list result"
  date_time_string :: "u64 \<Rightarrow> u8 list result"

subsection \<open>Names\<close>

definition name_append_character ::
    "u8 unicode_write \<Rightarrow> nat \<Rightarrow> u32 \<Rightarrow> u8 list \<Rightarrow> u8 list result" where
  "name_append_character write buffer_size c string =
     (if c \<le> 0x1f \<or> (0x7f \<le> c \<and> c \<le> 0x9f)
      then print_at_end buffer_size string ([ESCAPE_CHARACTER, 0x78] @ hex_padded 2 (unat c))
      else write c buffer_size string)"

text \<open>The loop over the characters of a name, where \<open>add\<close> adds one of them to what was escaped.\<close>

partial_function (option) name_escape_loop ::
    "'a unicode_copy \<Rightarrow> (u32 \<Rightarrow> 'a list \<Rightarrow> 'a list result) \<Rightarrow> 'a list \<Rightarrow> nat \<Rightarrow> 'a list \<Rightarrow> 'a list result option" where
  "name_escape_loop copy add value_string index escaped =
     (if index < length value_string then
        (case copy value_string index of
           Inl e \<Rightarrow> Some (Inl e)
         | Inr r \<Rightarrow>
             (case add (fst r) escaped of
                Inl e \<Rightarrow> Some (Inl e)
              | Inr escaped \<Rightarrow> name_escape_loop copy add value_string (snd r) escaped))
      else Some (Inr escaped))"

definition info_handle_name_value_fprint ::
    "libuna \<Rightarrow> 'h info_handle \<Rightarrow> u8 list \<Rightarrow> ('h, unit) printing" where
  "info_handle_name_value_fprint una info_handle value_string =
     (if length value_string > (SSIZE_MAX - 1) div 4 then Some (info_handle, Inl Value_Exceeds_Maximum) else
      let escaped_value_string_size = length value_string * 4 + 1 in
      (case name_escape_loop (una_copy una) (name_append_character (una_write una) escaped_value_string_size) value_string 0 [] of
         None \<Rightarrow> None
       | Some (Inl e) \<Rightarrow> Some (info_handle, Inl e)
       | Some (Inr escaped) \<Rightarrow>
           if length escaped \<ge> escaped_value_string_size
           then Some (info_handle, Inl (Undefined Out_Of_Bounds_Write)) else
           let s = string_of_buffer escaped in
           Some (if ih_bodyfile_stream info_handle \<noteq> None then print_bodyfile s info_handle
                 else print_notify s info_handle, Inr ())))"

definition info_optional_name_fprint ::
    "libuna \<Rightarrow> 'h info_handle \<Rightarrow> u8 list option \<Rightarrow> ('h, unit) printing" where
  "info_optional_name_fprint una info_handle value_string =
     (case value_string of
        None \<Rightarrow> Some (info_handle, Inr ())
      | Some value_string \<Rightarrow> info_handle_name_value_fprint una info_handle value_string)"

subsection \<open>Times\<close>

definition info_handle_posix_time_in_nano_seconds_value_fprint ::
    "'m info_libraries \<Rightarrow> 'h info_handle \<Rightarrow> u8 list \<Rightarrow> u64 \<Rightarrow> ('h, unit) printing" where
  "info_handle_posix_time_in_nano_seconds_value_fprint il info_handle value_name value_64bit =
     Some
       (if value_64bit = 0
        then (print_notify (value_name @ ascii '': Not set (0)'' @ [newline]) info_handle, Inr ())
        else
          (case date_time_string il value_64bit of
             Inl e \<Rightarrow> (info_handle, Inl e)
           | Inr s \<Rightarrow>
               (print_notify (value_name @ ascii '': '' @ s @ ascii ''Z'' @ [newline]) info_handle, Inr ())))"

subsection \<open>The hash of a file\<close>

fun info_md5_loop ::
    "'m info_libraries \<Rightarrow> 's libfdata \<Rightarrow> 's file_entry \<Rightarrow> 'm \<Rightarrow> nat \<Rightarrow> ('s file_entry \<times> 'm) result" where
  "info_md5_loop il lib file_entry md5_context data_size =
     (if data_size = 0 then Inr (file_entry, md5_context) else
      let read_size = (if 4096 > data_size then data_size else 4096) in
      (case libfsxfs_file_entry_read_buffer lib file_entry read_size of
         (file_entry, Inl e) \<Rightarrow> Inl e
       | (file_entry, Inr read_buffer) \<Rightarrow>
           if length read_buffer \<noteq> read_size then Inl Read_Failed else
           bindE (md5_update il md5_context read_buffer) (\<lambda>md5_context.
           info_md5_loop il lib file_entry md5_context (data_size - read_size))))"

declare info_md5_loop.simps [simp del]

definition info_handle_file_entry_calculate_md5 ::
    "'m info_libraries \<Rightarrow> 's libfdata \<Rightarrow> 's file_entry \<Rightarrow> nat \<Rightarrow> ('s file_entry \<times> u8 list) result" where
  "info_handle_file_entry_calculate_md5 il lib file_entry md5_string_size =
     (let data_size = libfsxfs_file_entry_get_size file_entry in
      (case libfsxfs_file_entry_seek_offset lib file_entry 0 0 of
         (file_entry, r) \<Rightarrow>
           bindE r (\<lambda>_.
           bindE (md5_initialize il) (\<lambda>md5_context.
           bindE (info_md5_loop il lib file_entry md5_context (unat data_size)) (\<lambda>(file_entry, md5_context).
           bindE (md5_finalize il md5_context) (\<lambda>md5_hash.
           bindE (get_bytes md5_hash 0 16) (\<lambda>md5_hash.
           bindE (digest_hash_copy_to_string md5_hash md5_string_size) (\<lambda>md5_string.
           Inr (file_entry, md5_string)))))))))"

end
