(* ===== verification/Info_Printing.thy ===== *)
theory Info_Printing
  imports Info_Handle
begin

text \<open>
  What the information tool prints (\<open>fsxfstools/info_handle.c\<close>): a file entry, as a line of the bodyfile or
  as a list of its values, the hierarchy of the files of a volume, and the volume itself.
\<close>

subsection \<open>The values of a file entry\<close>

definition mode_flag :: "u16 \<Rightarrow> u16 \<Rightarrow> u8 \<Rightarrow> u8" where
  "mode_flag file_mode flag c = (if file_mode AND flag \<noteq> 0 then c else 0x2d)"

definition mode_type :: "u16 \<Rightarrow> u8" where
  "mode_type file_mode =
     (let t = file_mode AND 0xf000 in
      if t = 0x1000 then 0x70 else if t = 0x2000 then 0x63 else if t = 0x4000 then 0x64
      else if t = 0x6000 then 0x62 else if t = 0xa000 then 0x6c else if t = 0xc000 then 0x73 else 0x2d)"

definition file_mode_string :: "u16 \<Rightarrow> u8 list" where
  "file_mode_string file_mode =
     [mode_type file_mode,
      mode_flag file_mode 0x0100 0x72, mode_flag file_mode 0x0080 0x77, mode_flag file_mode 0x0040 0x78,
      mode_flag file_mode 0x0020 0x72, mode_flag file_mode 0x0010 0x77, mode_flag file_mode 0x0008 0x78,
      mode_flag file_mode 0x0004 0x72, mode_flag file_mode 0x0002 0x77, mode_flag file_mode 0x0001 0x78]"

text \<open>The buffer of the target of a symbolic link, \<open>None\<close> for other files.\<close>

definition symbolic_link_target_buffer ::
    "'s libfdata \<Rightarrow> libuna \<Rightarrow> 's file_entry \<Rightarrow> 's file_entry \<times> u8 list option result" where
  "symbolic_link_target_buffer lib una file_entry =
     (case libfsxfs_file_entry_get_utf8_symbolic_link_target_size lib (una_name_size una) file_entry of
        (file_entry, Inl e) \<Rightarrow> (file_entry, Inl e)
      | (file_entry, Inr None) \<Rightarrow> (file_entry, Inr None)
      | (file_entry, Inr (Some symbolic_link_target_size)) \<Rightarrow>
          (case libfsxfs_file_entry_get_utf8_symbolic_link_target lib (una_name una) file_entry
                  symbolic_link_target_size of
             (file_entry, Inl e) \<Rightarrow> (file_entry, Inl e)
           | (file_entry, Inr None) \<Rightarrow> (file_entry, Inl Get_Failed)
           | (file_entry, Inr (Some target)) \<Rightarrow>
               (file_entry, Inr (Some (target @ drop (length target) (una_fresh una symbolic_link_target_size))))))"

definition print_format ::
    "('h info_handle \<Rightarrow> u8 list \<Rightarrow> 'h info_handle) \<Rightarrow> 'h info_handle \<Rightarrow> u8 list option \<Rightarrow> ('h, unit) printing" where
  "print_format print info_handle buffer =
     Some (case buffer of
             None \<Rightarrow> (info_handle, Inr ())
           | Some buffer \<Rightarrow>
               (case format_string buffer of
                  Inl e \<Rightarrow> (info_handle, Inl e)
                | Inr s \<Rightarrow> (print info_handle s, Inr ())))"

subsection \<open>The line of the bodyfile\<close>

definition info_md5_string ::
    "'m info_libraries \<Rightarrow> 's libfdata \<Rightarrow> 'h info_handle \<Rightarrow> 's file_entry \<Rightarrow> ('s file_entry \<times> u8 list) result" where
  "info_md5_string il lib info_handle file_entry =
     (if ih_calculate_md5 info_handle = 0 then Inr (file_entry, ascii ''0'')
      else if libfsxfs_file_entry_get_file_mode file_entry AND 0xf000 = 0x8000 then
        bindE (info_handle_file_entry_calculate_md5 il lib file_entry 33) (\<lambda>(file_entry, md5_string).
        Inr (file_entry, string_of_buffer md5_string))
      else Inr (file_entry, replicate 32 0x30))"

abbreviation (input) column_separator :: u8 where
  "column_separator \<equiv> 0x7c"

definition bodyfile_values :: "'s file_entry \<Rightarrow> u8 list list" where
  "bodyfile_values file_entry =
     [decimal_digits (unat (libfsxfs_file_entry_get_inode_number file_entry)),
      file_mode_string (libfsxfs_file_entry_get_file_mode file_entry),
      decimal_digits (unat (libfsxfs_file_entry_get_owner_identifier file_entry)),
      decimal_digits (unat (libfsxfs_file_entry_get_group_identifier file_entry)),
      decimal_digits (unat (libfsxfs_file_entry_get_size file_entry)),
      print_seconds (libfsxfs_file_entry_get_access_time file_entry),
      print_seconds (libfsxfs_file_entry_get_modification_time file_entry),
      print_seconds (libfsxfs_file_entry_get_inode_change_time file_entry),
      print_seconds (case libfsxfs_file_entry_get_creation_time file_entry of None \<Rightarrow> 0 | Some t \<Rightarrow> t)]"

definition info_bodyfile_fprint ::
    "'m info_libraries \<Rightarrow> 's libfdata \<Rightarrow> libuna \<Rightarrow> 'h info_handle \<Rightarrow> 's file_entry \<Rightarrow> u8 list option
      \<Rightarrow> u8 list option \<Rightarrow> u8 list option \<Rightarrow> ('h, 's file_entry) printing" where
  "info_bodyfile_fprint il lib una info_handle file_entry path name symbolic_link_target =
     (case info_md5_string il lib info_handle file_entry of
        Inl e \<Rightarrow> Some (info_handle, Inl e)
      | Inr (file_entry, md5_string) \<Rightarrow>
          print_then (info_optional_name_fprint una
              (print_bodyfile (md5_string @ [column_separator]) info_handle) path) (\<lambda>info_handle _.
          print_then (info_optional_name_fprint una info_handle name) (\<lambda>info_handle _.
          print_then (print_format (\<lambda>h s. print_bodyfile (ascii '' -> '' @ s) h) info_handle symbolic_link_target)
            (\<lambda>info_handle _.
          Some (print_bodyfile (concat (map (\<lambda>s. column_separator # s) (bodyfile_values file_entry)) @ [newline])
                  info_handle, Inr file_entry)))))"

subsection \<open>The list of values\<close>

fun info_attributes_fprint ::
    "libuna \<Rightarrow> nat \<Rightarrow> nat \<Rightarrow> 'h info_handle \<Rightarrow> 's file_entry \<Rightarrow> ('h, 's file_entry) printing" where
  "info_attributes_fprint una 0 extended_attribute_index info_handle file_entry =
     Some (info_handle, Inr file_entry)"
| "info_attributes_fprint una (Suc n) extended_attribute_index info_handle file_entry =
     (case libfsxfs_file_entry_get_extended_attribute_by_index file_entry (int extended_attribute_index) of
        (file_entry, Inl e) \<Rightarrow> Some (info_handle, Inl e)
      | (file_entry, Inr attr) \<Rightarrow>
          (case libfsxfs_extended_attribute_get_utf8_name_size (una_name_size una) attr of
             Inl e \<Rightarrow> Some (info_handle, Inl e)
           | Inr name_size \<Rightarrow>
               let info_handle = print_notify (tabs 2 @ ascii ''Attribute: '' @
                     decimal_digits (extended_attribute_index + 1) @ tabs 1 @ ascii '': '') info_handle in
               (case (if name_size > 0
                      then bindE (libfsxfs_extended_attribute_get_utf8_name (una_name una) attr name_size) (\<lambda>name.
                           format_string (name @ drop (length name) (una_fresh una name_size)))
                      else Inr []) of
                  Inl e \<Rightarrow> Some (info_handle, Inl e)
                | Inr name \<Rightarrow>
                    info_attributes_fprint una n (extended_attribute_index + 1)
                      (print_notify (name @ [newline]) info_handle) file_entry)))"

definition info_extended_attributes_fprint ::
    "libuna \<Rightarrow> 'h info_handle \<Rightarrow> 's file_entry \<Rightarrow> ('h, 's file_entry) printing" where
  "info_extended_attributes_fprint una info_handle file_entry =
     (case libfsxfs_file_entry_get_number_of_extended_attributes file_entry of
        (file_entry, Inl e) \<Rightarrow> Some (info_handle, Inl e)
      | (file_entry, Inr n) \<Rightarrow>
          if n > 0 then
            info_attributes_fprint una n 0
              (print_notify (tabs 1 @ ascii ''Extended attributes:'' @ [newline]) info_handle) file_entry
          else Some (info_handle, Inr file_entry))"

text \<open>A path is only printed in front of a name.\<close>

definition info_name_line_fprint ::
    "libuna \<Rightarrow> 'h info_handle \<Rightarrow> u8 list option \<Rightarrow> u8 list option \<Rightarrow> ('h, unit) printing" where
  "info_name_line_fprint una info_handle path name =
     (case name of
        None \<Rightarrow> Some (info_handle, Inr ())
      | Some name \<Rightarrow>
          print_then (info_optional_name_fprint una
              (print_notify (tabs 1 @ ascii ''Name'' @ tabs 3 @ ascii '': '') info_handle) path) (\<lambda>info_handle _.
          print_then (info_handle_name_value_fprint una info_handle name) (\<lambda>info_handle _.
          Some (print_notify [newline] info_handle, Inr ()))))"

definition info_numbers_fprint :: "'s file_entry \<Rightarrow> 'h info_handle \<Rightarrow> 'h info_handle" where
  "info_numbers_fprint file_entry info_handle =
     (let file_mode = libfsxfs_file_entry_get_file_mode file_entry in
      print_notify
        (tabs 1 @ ascii ''Number of links'' @ tabs 2 @ ascii '': '' @
           decimal_digits (unat (libfsxfs_file_entry_get_number_of_links file_entry)) @ [newline] @
         tabs 1 @ ascii ''Owner identifier'' @ tabs 1 @ ascii '': '' @
           decimal_digits (unat (libfsxfs_file_entry_get_owner_identifier file_entry)) @ [newline] @
         tabs 1 @ ascii ''Group identifier'' @ tabs 1 @ ascii '': '' @
           decimal_digits (unat (libfsxfs_file_entry_get_group_identifier file_entry)) @ [newline] @
         tabs 1 @ ascii ''File mode'' @ tabs 2 @ ascii '': '' @ file_mode_string file_mode @ ascii '' ('' @
           octal_padded 7 (unat file_mode) @ ascii '')'' @ [newline] @
         (case libfsxfs_file_entry_get_device_number file_entry of
            None \<Rightarrow> []
          | Some (major, minor) \<Rightarrow>
              tabs 1 @ ascii ''Device number'' @ tabs 2 @ ascii '': '' @ decimal_digits (unat major) @
              ascii '','' @ decimal_digits (unat minor) @ [newline]))
        info_handle)"

definition info_values_fprint ::
    "'m info_libraries \<Rightarrow> libuna \<Rightarrow> 'h info_handle \<Rightarrow> 's file_entry \<Rightarrow> u8 list option
      \<Rightarrow> u8 list option \<Rightarrow> u8 list option \<Rightarrow> ('h, 's file_entry) printing" where
  "info_values_fprint il una info_handle file_entry path name symbolic_link_target =
     (let print_time = info_handle_posix_time_in_nano_seconds_value_fprint il in
      print_then (info_name_line_fprint una
          (print_notify (tabs 1 @ ascii ''Inode number'' @ tabs 2 @ ascii '': '' @
             decimal_digits (unat (libfsxfs_file_entry_get_inode_number file_entry)) @ [newline]) info_handle)
          path name) (\<lambda>info_handle _.
      print_then (print_time
          (print_notify (tabs 1 @ ascii ''Size'' @ tabs 3 @ ascii '': '' @
             decimal_digits (unat (libfsxfs_file_entry_get_size file_entry)) @ [newline]) info_handle)
          (tabs 1 @ ascii ''Modification time'' @ tabs 1)
          (libfsxfs_file_entry_get_modification_time file_entry)) (\<lambda>info_handle _.
      print_then (print_time info_handle (tabs 1 @ ascii ''Inode change time'' @ tabs 1)
          (libfsxfs_file_entry_get_inode_change_time file_entry)) (\<lambda>info_handle _.
      print_then (print_time info_handle (tabs 1 @ ascii ''Access time'' @ tabs 2)
          (libfsxfs_file_entry_get_access_time file_entry)) (\<lambda>info_handle _.
      print_then
          (case libfsxfs_file_entry_get_creation_time file_entry of
             None \<Rightarrow> Some (info_handle, Inr ())
           | Some creation_time \<Rightarrow>
               print_time info_handle (tabs 1 @ ascii ''Creation time'' @ tabs 2) creation_time) (\<lambda>info_handle _.
      print_then (print_format
          (\<lambda>h s. print_notify (tabs 1 @ ascii ''Symbolic link target'' @ tabs 1 @ ascii '': '' @ s @ [newline]) h)
          (info_numbers_fprint file_entry info_handle) symbolic_link_target) (\<lambda>info_handle _.
      info_extended_attributes_fprint una info_handle file_entry)))))))"

definition info_handle_file_entry_value_with_name_fprint ::
    "'m info_libraries \<Rightarrow> 's libfdata \<Rightarrow> libuna \<Rightarrow> 'h info_handle \<Rightarrow> 's file_entry \<Rightarrow> u8 list option
      \<Rightarrow> u8 list option \<Rightarrow> ('h, 's file_entry) printing" where
  "info_handle_file_entry_value_with_name_fprint il lib una info_handle file_entry path name =
     (case symbolic_link_target_buffer lib una file_entry of
        (file_entry, Inl e) \<Rightarrow> Some (info_handle, Inl e)
      | (file_entry, Inr symbolic_link_target) \<Rightarrow>
          if ih_bodyfile_stream info_handle \<noteq> None
          then info_bodyfile_fprint il lib una info_handle file_entry path name symbolic_link_target
          else info_values_fprint il una info_handle file_entry path name symbolic_link_target)"


subsection \<open>The hierarchy of files\<close>

text \<open>The name of a file entry with its size; the root directory has none.\<close>

definition hierarchy_entry_name :: "libuna \<Rightarrow> 's file_entry \<Rightarrow> u8 list option result" where
  "hierarchy_entry_name una file_entry =
     bindE (libfsxfs_file_entry_get_utf8_name_size (una_name_size una) file_entry) (\<lambda>name_size.
     case name_size of
       None \<Rightarrow> Inr None
     | Some name_size \<Rightarrow>
         if name_size > 0 then
           bindE (libfsxfs_file_entry_get_utf8_name (una_name una) file_entry name_size) (\<lambda>name.
           case name of
             None \<Rightarrow> Inl Get_Failed
           | Some name \<Rightarrow> Inr (Some (take (name_size - 1) (name @ drop (length name) (una_fresh una name_size)))))
         else Inr None)"

definition hierarchy_entry_fprint ::
    "'m info_libraries \<Rightarrow> 's libfdata \<Rightarrow> libuna \<Rightarrow> 'h info_handle \<Rightarrow> 's file_entry \<Rightarrow> u8 list
      \<Rightarrow> u8 list option \<Rightarrow> ('h, 's file_entry) printing" where
  "hierarchy_entry_fprint il lib una info_handle file_entry path name =
     (if ih_bodyfile_stream info_handle \<noteq> None
      then info_handle_file_entry_value_with_name_fprint il lib una info_handle file_entry (Some path) name
      else
        print_then (info_handle_name_value_fprint una info_handle path) (\<lambda>info_handle _.
        print_then (info_optional_name_fprint una info_handle name) (\<lambda>info_handle _.
        Some (print_notify [newline] info_handle, Inr file_entry))))"

text \<open>The path of the sub file entries ends with a separator.\<close>

definition hierarchy_sub_path :: "u8 list \<Rightarrow> u8 list option \<Rightarrow> u8 list" where
  "hierarchy_sub_path path name =
     (case name of None \<Rightarrow> path | Some name \<Rightarrow> path @ name @ [LIBFSXFS_SEPARATOR])"

text \<open>
  The loop over the sub file entries, where \<open>print\<close> is the printing of one of them, and the recursion
  into the directories, for a number of levels that is given.
\<close>

fun hierarchy_sub_entries_fprint ::
    "'s libfdata \<Rightarrow> ('h info_handle \<Rightarrow> 's file_entry \<Rightarrow> ('h, unit) printing) \<Rightarrow> nat \<Rightarrow> int
      \<Rightarrow> 'h info_handle \<Rightarrow> 's file_entry \<Rightarrow> ('h, unit) printing" where
  "hierarchy_sub_entries_fprint lib print 0 sub_file_entry_index info_handle file_entry = Some (info_handle, Inr ())"
| "hierarchy_sub_entries_fprint lib print (Suc n) sub_file_entry_index info_handle file_entry =
     (case libfsxfs_file_entry_get_sub_file_entry_by_index lib file_entry sub_file_entry_index of
        None \<Rightarrow> None
      | Some (file_entry, Inl e) \<Rightarrow> Some (info_handle, Inl e)
      | Some (file_entry, Inr sub_file_entry) \<Rightarrow>
          print_then (print info_handle sub_file_entry) (\<lambda>info_handle _.
          hierarchy_sub_entries_fprint lib print n (sub_file_entry_index + 1) info_handle file_entry))"

fun info_handle_file_system_hierarchy_fprint_file_entry ::
    "nat \<Rightarrow> 'm info_libraries \<Rightarrow> 's libfdata \<Rightarrow> libuna \<Rightarrow> 'h info_handle \<Rightarrow> 's file_entry \<Rightarrow> u8 list
      \<Rightarrow> ('h, unit) printing" where
  "info_handle_file_system_hierarchy_fprint_file_entry 0 il lib una info_handle file_entry path = None"
| "info_handle_file_system_hierarchy_fprint_file_entry (Suc levels) il lib una info_handle file_entry path =
     (if length path > SSIZE_MAX - 1 then Some (info_handle, Inl Value_Exceeds_Maximum) else
      case hierarchy_entry_name una file_entry of
        Inl e \<Rightarrow> Some (info_handle, Inl e)
      | Inr name \<Rightarrow>
          print_then (hierarchy_entry_fprint il lib una info_handle file_entry path name) (\<lambda>info_handle file_entry.
          (case libfsxfs_file_entry_get_number_of_sub_file_entries file_entry of
             None \<Rightarrow> None
           | Some (file_entry, Inl e) \<Rightarrow> Some (info_handle, Inl e)
           | Some (file_entry, Inr number) \<Rightarrow>
               hierarchy_sub_entries_fprint lib
                 (\<lambda>info_handle sub_file_entry.
                   info_handle_file_system_hierarchy_fprint_file_entry levels il lib una info_handle sub_file_entry
                     (hierarchy_sub_path path name))
                 (case number of None \<Rightarrow> 0 | Some n \<Rightarrow> n) 0 info_handle file_entry)))"

subsection \<open>What the tool prints\<close>

text \<open>Without a volume the library refuses the calls.\<close>

definition info_volume :: "'h info_handle \<Rightarrow> 'h volume result" where
  "info_volume info_handle =
     (case ih_input_volume info_handle of None \<Rightarrow> Inl Invalid_Value | Some volume \<Rightarrow> Inr volume)"

definition title :: "u8 list" where
  "title = ascii ''X File System information:'' @ [newline, newline]"

definition info_handle_file_system_hierarchy_fprint ::
    "nat \<Rightarrow> 'h libbfio \<Rightarrow> 'm info_libraries \<Rightarrow> 's libfdata \<Rightarrow> libuna \<Rightarrow> 'h info_handle \<Rightarrow> ('h, unit) printing" where
  "info_handle_file_system_hierarchy_fprint levels bf il lib una info_handle =
     (let console = (\<lambda>s info_handle. if ih_bodyfile_stream info_handle = None then print_notify s info_handle
                       else info_handle);
          info_handle = console (title @ ascii ''File system hierarchy:'' @ [newline]) info_handle in
      (case bindE (info_volume info_handle) (libfsxfs_volume_get_root_directory bf lib) of
         Inl e \<Rightarrow> Some (info_handle, Inl e)
       | Inr file_entry \<Rightarrow>
           print_then (info_handle_file_system_hierarchy_fprint_file_entry levels il lib una info_handle file_entry
               [LIBFSXFS_SEPARATOR]) (\<lambda>info_handle _.
           Some (console [newline] info_handle, Inr ()))))"

text \<open>\<open>False\<close> is the return value 0. The error of the library is printed to another stream.\<close>

definition info_handle_file_entry_fprint_by_identifier ::
    "'h libbfio \<Rightarrow> 'm info_libraries \<Rightarrow> 's libfdata \<Rightarrow> libuna \<Rightarrow> 'h info_handle \<Rightarrow> u64 \<Rightarrow> ('h, bool) printing" where
  "info_handle_file_entry_fprint_by_identifier bf il lib una info_handle file_entry_identifier =
     (case bindE (info_volume info_handle)
             (\<lambda>volume. libfsxfs_volume_get_file_entry_by_inode bf lib volume file_entry_identifier) of
        Inl e \<Rightarrow>
          Some (print_notify (ascii ''Error reading file entry: '' @ decimal_digits (unat file_entry_identifier) @
                  [newline, newline]) info_handle, Inr False)
      | Inr file_entry \<Rightarrow>
          print_then (info_handle_file_entry_value_with_name_fprint il lib una
              (print_notify (ascii ''File entry: '' @ decimal_digits (unat file_entry_identifier) @
                 ascii '' information:'' @ [newline]) info_handle) file_entry None None) (\<lambda>info_handle _.
          Some (print_notify [newline] info_handle, Inr True)))"

text \<open>The number of file entries is never determined, it is 0.\<close>

fun file_entries_fprint ::
    "'h libbfio \<Rightarrow> 'm info_libraries \<Rightarrow> 's libfdata \<Rightarrow> libuna \<Rightarrow> 'h info_handle \<Rightarrow> nat \<Rightarrow> u64 \<Rightarrow> ('h, unit) printing" where
  "file_entries_fprint bf il lib una info_handle 0 file_entry_identifier = Some (info_handle, Inr ())"
| "file_entries_fprint bf il lib una info_handle (Suc n) file_entry_identifier =
     print_then (info_handle_file_entry_fprint_by_identifier bf il lib una info_handle file_entry_identifier)
       (\<lambda>info_handle found.
     if found then file_entries_fprint bf il lib una info_handle n (file_entry_identifier + 1)
     else Some (info_handle, Inl Generic))"

definition info_handle_file_entries_fprint ::
    "'h libbfio \<Rightarrow> 'm info_libraries \<Rightarrow> 's libfdata \<Rightarrow> libuna \<Rightarrow> 'h info_handle \<Rightarrow> ('h, unit) printing" where
  "info_handle_file_entries_fprint bf il lib una info_handle = file_entries_fprint bf il lib una info_handle 0 0"

definition info_handle_file_entry_fprint_by_path ::
    "'h libbfio \<Rightarrow> 'm info_libraries \<Rightarrow> 's libfdata \<Rightarrow> libuna \<Rightarrow> 'h info_handle \<Rightarrow> u8 list \<Rightarrow> ('h, unit) printing" where
  "info_handle_file_entry_fprint_by_path bf il lib una info_handle path =
     (case (case info_volume info_handle of
              Inl e \<Rightarrow> Some (Inl e)
            | Inr volume \<Rightarrow>
                libfsxfs_volume_get_file_entry_by_utf8_path bf lib (una_compare una) (una_copy una) volume path) of
        None \<Rightarrow> None
      | Some (Inl e) \<Rightarrow> Some (info_handle, Inl e)
      | Some (Inr None) \<Rightarrow> Some (info_handle, Inl Get_Failed)
      | Some (Inr (Some file_entry)) \<Rightarrow>
          print_then (info_handle_name_value_fprint una
              (print_notify (title @ ascii ''File entry:'' @ [newline] @ tabs 1 @ ascii ''Path'' @ tabs 3 @ ascii '': '')
                 info_handle) path) (\<lambda>info_handle _.
          print_then (info_handle_file_entry_value_with_name_fprint il lib una (print_notify [newline] info_handle)
              file_entry (Some path) None) (\<lambda>info_handle _.
          Some (print_notify [newline] info_handle, Inr ()))))"

definition info_handle_volume_fprint :: "libuna \<Rightarrow> 'h info_handle \<Rightarrow> ('h, unit) printing" where
  "info_handle_volume_fprint una info_handle =
     (let info_handle = print_notify (title @ ascii ''Volume information:'' @ [newline]) info_handle in
      (case info_volume info_handle of
         Inl e \<Rightarrow> Some (info_handle, Inl e)
       | Inr volume \<Rightarrow>
           let info_handle = print_notify (tabs 1 @ ascii ''Format version'' @ tabs 3 @ ascii '': '' @
                 decimal_digits (unat (libfsxfs_volume_get_format_version volume)) @ [newline] @
                 tabs 1 @ ascii ''Label'' @ tabs 4 @ ascii '': '') info_handle in
           (case bindE (libfsxfs_volume_get_utf8_label_size (una_name_size una) volume) (\<lambda>value_string_size.
                 if value_string_size > 0
                 then bindE (libfsxfs_volume_get_utf8_label (una_name una) volume value_string_size) (\<lambda>value_string.
                      format_string (value_string @ drop (length value_string) (una_fresh una value_string_size)))
                 else Inr []) of
              Inl e \<Rightarrow> Some (info_handle, Inl e)
            | Inr label \<Rightarrow> Some (print_notify (label @ [newline, newline]) info_handle, Inr ()))))"

end
