(* ===== verification/Info_Names.thy ===== *)
theory Info_Names
  imports Info_Printing
begin

text \<open>
  The names that the information tool prints: control characters are escaped, so that a printed name is
  one line, and printing a name ends and stays inside of the buffer for all inputs.
\<close>

subsection \<open>What is printed of a name\<close>

definition control_character :: "u32 \<Rightarrow> bool" where
  "control_character c \<longleftrightarrow> c \<le> 0x1f \<or> (0x7f \<le> c \<and> c \<le> 0x9f)"

definition printed_units :: "(u32 \<Rightarrow> u8 list) \<Rightarrow> u32 \<Rightarrow> u8 list" where
  "printed_units encode c =
     (if control_character c then [ESCAPE_CHARACTER, 0x78] @ hex_padded 2 (unat c) else encode c)"

abbreviation printed_name :: "(u32 \<Rightarrow> u8 list) \<Rightarrow> u32 list \<Rightarrow> u8 list" where
  "printed_name encode \<equiv> encode_name (printed_units encode)"

definition print_name :: "u8 list \<Rightarrow> 'h info_handle \<Rightarrow> 'h info_handle" where
  "print_name s info_handle =
     (if ih_bodyfile_stream info_handle \<noteq> None then print_bodyfile s info_handle else print_notify s info_handle)"

definition printable_name :: "(u32 \<Rightarrow> u8 list) \<Rightarrow> (u32 \<Rightarrow> bool) \<Rightarrow> u32 list \<Rightarrow> bool" where
  "printable_name encode valid cs \<longleftrightarrow>
     (\<forall>c \<in> set cs. valid c) \<and> length (encode_name encode cs) \<le> (SSIZE_MAX - 1) div 4"

lemma encode_name_simps [simp]:
  "encode_name f [] = []"
  "encode_name f (c # cs) = f c @ encode_name f cs"
  "encode_name f (cs @ ds) = encode_name f cs @ encode_name f ds"
  by (simp_all add: encode_name_def)

lemma control_character_bound: "control_character c \<Longrightarrow> unat c < 16 ^ 2"
  by (auto simp: control_character_def word_le_nat_alt)

lemma control_character_length: "control_character c \<Longrightarrow> length (hex_padded 2 (unat c)) = 2"
  by (rule hex_padded_length [OF control_character_bound]) simp_all

lemma printed_units_length:
  assumes "unicode_decodes copy encode valid" and "valid c"
  shows "length (printed_units encode c) \<le> 4 * length (encode c)"
proof -
  have "1 \<le> length (encode c)" using unicode_decodesD(1) [OF assms] by (simp add: Suc_le_eq)
  then show ?thesis using control_character_length [of c] by (simp add: printed_units_def)
qed

lemma name_append_character_printed:
  assumes "unicode_writes write encode valid" and "valid c" and "length s + length (printed_units encode c) \<le> n"
  shows "name_append_character write n c s = Inr (s @ printed_units encode c)"
  using assms unicode_writesD(1) [OF assms(1,2), of s n]
  by (auto simp: name_append_character_def printed_units_def control_character_def print_at_end_def)

lemma name_escape_loop_name:
  assumes d: "unicode_decodes copy encode valid"
    and a: "\<And>c s. valid c \<Longrightarrow> length s + length (units c) \<le> n \<Longrightarrow> add c s = Inr (s @ units c)"
    and "\<forall>c \<in> set cs. valid c" and "length s + length (encode_name units cs) \<le> n"
  shows "name_escape_loop copy add (pre @ encode_name encode cs) (length pre) s = Some (Inr (s @ encode_name units cs))"
  using assms(3,4)
proof (induction cs arbitrary: pre s)
  case Nil
  then show ?case by (subst name_escape_loop.simps) simp
next
  case (Cons c cs)
  have v: "valid c" using Cons.prems(1) by simp
  have "add c s = Inr (s @ units c)"
    using Cons.prems(2) by (intro a [OF v]) simp
  moreover have "name_escape_loop copy add ((pre @ encode c) @ encode_name encode cs)
      (length (pre @ encode c)) (s @ units c) = Some (Inr ((s @ units c) @ encode_name units cs))"
    using Cons.prems by (intro Cons.IH) simp_all
  ultimately show ?case
    using unicode_decodesD(1,2) [OF d v]
    by (subst name_escape_loop.simps) (simp add: add.assoc)
qed

lemma hex_digit_printable: "d < 16 \<Longrightarrow> 0x30 \<le> hex_digit d \<and> hex_digit d \<le> 0x66"
proof -
  have "\<forall>d \<in> set [0..<16]. 0x30 \<le> hex_digit d \<and> hex_digit d \<le> 0x66"
    by (simp add: upt_rec hex_digit_def)
  then show "d < 16 \<Longrightarrow> ?thesis" by simp
qed

lemma hex_padded_byte_printable: "n < 256 \<Longrightarrow> b \<in> set (hex_padded 2 n) \<Longrightarrow> 0x30 \<le> b \<and> b \<le> 0x66"
  using hex_digit_printable [of "n div 16"] hex_digit_printable [of "n mod 16"]
  by (auto simp: hex_padded_byte less_mult_imp_div_less)

text \<open>The bytes of ASCII in a printed name are the characters themselves, or those of an escape.\<close>

lemma printed_units_byte:
  assumes "unicode_writes write encode valid" and "valid c" and "b \<in> set (printed_units encode c)"
  shows "0x20 \<le> b \<and> b \<noteq> 0x7f \<and> (b = 0x7c \<longrightarrow> c = 0x7c \<and> printed_units encode c = [0x7c])"
proof (cases "control_character c")
  case True
  then show ?thesis
    using assms(3) hex_padded_byte_printable [of "unat c" b] control_character_bound [OF True]
    by (auto simp: printed_units_def word_le_nat_alt)
next
  case False
  show ?thesis
  proof (cases "c < 0x80")
    case True
    then have b: "b = ucast c" and e: "encode c = [ucast c]"
      using unicode_writesD(4) [OF assms(1) True] False assms(3) by (simp_all add: printed_units_def)
    have u: "unat b = unat c" using True b by (simp add: unat_ucast_fits word_less_nat_alt)
    moreover have "31 < unat c" "unat c \<noteq> 127"
      using False by (auto simp: control_character_def word_le_nat_alt not_le)
    moreover have "unat c = 124 \<Longrightarrow> c = 0x7c" by (simp add: word_unat_eq_iff)
    ultimately show ?thesis
      using False e u [unfolded b] by (auto simp: word_le_nat_alt word_unat_eq_iff printed_units_def)
  next
    case False
    then have "0x80 \<le> b" using unicode_writesD(3) [OF assms(1,2)] assms(3) \<open>\<not> control_character c\<close> by (simp add: printed_units_def)
    then show ?thesis by (auto simp: word_le_nat_alt)
  qed
qed


lemma printed_name_byte:
  assumes "unicode_writes write encode valid" and "\<forall>c \<in> set cs. valid c" and "b \<in> set (printed_name encode cs)"
  shows "0x20 \<le> b" and "b \<noteq> 0x7f" and "b \<noteq> 0" and "b \<noteq> newline"
proof -
  obtain c where "c \<in> set cs" "b \<in> set (printed_units encode c)"
    using assms(3) by (auto simp: encode_name_def)
  then have b: "0x20 \<le> b \<and> b \<noteq> 0x7f" using printed_units_byte [OF assms(1)] assms(2) by blast
  then show "0x20 \<le> b" "b \<noteq> 0x7f" by simp_all
  show "b \<noteq> 0" "b \<noteq> newline" using b by (auto simp: word_le_nat_alt)
qed

lemma printed_name_length:
  assumes "unicode_decodes copy encode valid" and "\<forall>c \<in> set cs. valid c"
  shows "length (printed_name encode cs) \<le> 4 * length (encode_name encode cs)"
  using assms(2)
proof (induction cs)
  case (Cons c cs)
  then show ?case using printed_units_length [OF assms(1), of c] by simp
qed simp

lemma string_of_buffer_nonzero: "0 \<notin> set s \<Longrightarrow> string_of_buffer s = s"
  by (auto simp: string_of_buffer_def takeWhile_eq_all_conv)

lemma name_fprint_printed:
  assumes una: "libuna_codec una encode valid" and cs: "printable_name encode valid cs"
  shows "info_handle_name_value_fprint una h (encode_name encode cs) =
    Some (print_name (printed_name encode cs) h, Inr ())"
proof -
  have w: "unicode_writes (una_write una) encode valid" and d: "unicode_decodes (una_copy una) encode valid"
    using una by (simp_all add: libuna_codec_def)
  have v: "\<forall>c \<in> set cs. valid c" and l: "length (encode_name encode cs) \<le> (SSIZE_MAX - 1) div 4"
    using cs by (simp_all add: printable_name_def)
  note pl = printed_name_length [OF d v]
  have "name_escape_loop (una_copy una) (name_append_character (una_write una) (length (encode_name encode cs) * 4 + 1))
      (encode_name encode cs) 0 [] = Some (Inr (printed_name encode cs))"
    using name_escape_loop_name [OF d name_append_character_printed [OF w] v, where pre = "[]" and s = "[]"] pl by simp
  moreover have "string_of_buffer (printed_name encode cs) = printed_name encode cs"
    using printed_name_byte(3) [OF w v] by (intro string_of_buffer_nonzero) blast
  ultimately show ?thesis
    using l pl by (simp add: info_handle_name_value_fprint_def print_name_def Let_def not_le)
qed

lemma optional_name_fprint_printed:
  assumes "libuna_codec una encode valid" and "\<forall>cs. name = Some cs \<longrightarrow> printable_name encode valid cs"
  shows "info_optional_name_fprint una h (map_option (encode_name encode) name) =
    Some (case name of None \<Rightarrow> h | Some cs \<Rightarrow> print_name (printed_name encode cs) h, Inr ())"
  using assms by (auto simp: info_optional_name_fprint_def name_fprint_printed split: option.split)

subsection \<open>Different names are printed differently\<close>

lemma printed_units_first:
  assumes w: "unicode_writes write encode valid" and d: "unicode_decodes copy encode valid"
    and "valid c" and "c \<noteq> ESCAPE_CHARACTER" and "valid c'" and "c' \<noteq> ESCAPE_CHARACTER"
    and "printed_units encode c @ s = printed_units encode c' @ s'"
  shows "c = c'" and "s = s'"
proof -
  have first: "copy (encode c @ r) 0 = Inr (c, length (encode c))" if "valid c" for c r
    using unicode_decodesD(2) [OF d that, of "[]" r] by simp
  have escape: "encode c @ r \<noteq> ESCAPE_CHARACTER # r'" if "valid c" "c \<noteq> ESCAPE_CHARACTER" for c r r'
  proof
    assume "encode c @ r = ESCAPE_CHARACTER # r'"
    then have "encode c @ r = encode ESCAPE_CHARACTER @ r'"
      using unicode_writesD(4) [OF w, of ESCAPE_CHARACTER] by simp
    then show False
      using first [OF that(1), of r] first [of ESCAPE_CHARACTER r'] unicode_writesD(4) [OF w, of ESCAPE_CHARACTER] that
      by simp
  qed
  have "c = c' \<and> s = s'"
  proof (cases "control_character c"; cases "control_character c'")
    assume cc: "control_character c" "control_character c'"
    then have h: "hex_padded 2 (unat c) = hex_padded 2 (unat c')" "s = s'"
      using assms(7) control_character_length [OF cc(1)] control_character_length [OF cc(2)]
      by (simp_all add: printed_units_def)
    have "mount_path_string_copy_hexadecimal_to_integer_32_bit (hex_padded 2 (unat d)) = Inr d"
      if "control_character d" for d
      by (subst hex_padded_value [OF control_character_bound [OF that]]) simp_all
    from this [OF cc(1)] this [OF cc(2)] have "c = c'" unfolding h(1) by simp
    with h(2) show ?thesis by simp
  next
    assume cc: "\<not> control_character c" "\<not> control_character c'"
    then have e: "encode c @ s = encode c' @ s'" using assms(7) by (simp add: printed_units_def)
    have "copy (encode c @ s) 0 = Inr (c', length (encode c'))" unfolding e by (rule first [OF assms(5)])
    then have "c' = c" using first [OF assms(3), of s] by simp
    then show ?thesis using e by simp
  next
    assume cc: "control_character c" "\<not> control_character c'"
    then have "encode c' @ s' = ESCAPE_CHARACTER # 0x78 # hex_padded 2 (unat c) @ s"
      using assms(7) by (simp add: printed_units_def)
    with escape [OF assms(5,6)] show ?thesis by blast
  next
    assume cc: "\<not> control_character c" "control_character c'"
    then have "encode c @ s = ESCAPE_CHARACTER # 0x78 # hex_padded 2 (unat c') @ s'"
      using assms(7) by (simp add: printed_units_def)
    with escape [OF assms(3,4)] show ?thesis by blast
  qed
  then show "c = c'" "s = s'" by simp_all
qed

lemma printed_name_inject:
  assumes w: "unicode_writes write encode valid" and d: "unicode_decodes copy encode valid"
  shows "\<forall>c \<in> set cs \<union> set ds. valid c \<and> c \<noteq> ESCAPE_CHARACTER \<Longrightarrow>
    printed_name encode cs = printed_name encode ds \<Longrightarrow> cs = ds"
proof (induction cs arbitrary: ds)
  case Nil
  have "printed_units encode c \<noteq> []" if "valid c" for c
    using unicode_decodesD(1) [OF d that] by (simp add: printed_units_def)
  then show ?case using Nil by (cases ds) auto
next
  case (Cons c cs)
  have n: "printed_units encode c \<noteq> []"
    using unicode_decodesD(1) [OF d, of c] Cons.prems(1) by (simp add: printed_units_def)
  then obtain c' ds' where ds: "ds = c' # ds'" using Cons.prems(2) by (cases ds) auto
  then have "c = c'" "printed_name encode cs = printed_name encode ds'"
    using printed_units_first [OF w d, of c c' "printed_name encode cs" "printed_name encode ds'"] Cons.prems by auto
  then show ?case using Cons.IH [of ds'] Cons.prems(1) ds by auto
qed

lemma print_name_inject:
  assumes "print_name s h = print_name t h"
  shows "s = t"
proof (cases "ih_bodyfile_stream h")
  case None
  then show ?thesis
    using arg_cong [OF assms, of ih_notify_stream] by (simp add: print_name_def print_notify_def)
next
  case (Some x)
  then show ?thesis
    using arg_cong [OF assms, of ih_bodyfile_stream] by (simp add: print_name_def print_bodyfile_def)
qed

text \<open>As characters, what is printed has no control characters.\<close>

lemma printed_units_characters:
  assumes w: "unicode_writes write encode valid" and v: "valid c"
  shows "\<exists>ps. printed_units encode c = encode_name encode ps \<and> (\<forall>p \<in> set ps. valid p \<and> \<not> unicode_control p)"
proof (cases "control_character c")
  case True
  let ?bs = "[ESCAPE_CHARACTER, 0x78] @ hex_padded 2 (unat c)"
  have h: "0x20 \<le> b \<and> b < 0x7f" if "b \<in> set (hex_padded 2 (unat c))" for b
    using hex_padded_byte_printable [OF _ that] control_character_bound [OF True] by (auto simp: word_le_nat_alt word_less_nat_alt)
  then have "\<forall>b \<in> set ?bs. 0x20 \<le> b \<and> b < 0x7f" by simp
  from ascii_units_characters [OF w this] show ?thesis
    using True by (intro exI [of _ "map ucast ?bs"]) (simp add: printed_units_def)
next
  case False
  then have "\<not> unicode_control c"
    by (auto simp: control_character_def unicode_control_def word_le_nat_alt word_less_nat_alt)
  then show ?thesis using False v by (intro exI [of _ "[c]"]) (simp add: printed_units_def)
qed

lemma printed_name_characters:
  assumes "unicode_writes write encode valid" and "\<forall>c \<in> set cs. valid c"
  shows "\<exists>ps. printed_name encode cs = encode_name encode ps \<and> (\<forall>p \<in> set ps. valid p \<and> \<not> unicode_control p)"
  using assms(2)
proof (induction cs)
  case Nil
  show ?case by (intro exI [of _ "[]"]) simp
next
  case (Cons c cs)
  then obtain ps qs where "printed_units encode c = encode_name encode ps" "\<forall>p \<in> set ps. valid p \<and> \<not> unicode_control p"
    "printed_name encode cs = encode_name encode qs" "\<forall>p \<in> set qs. valid p \<and> \<not> unicode_control p"
    using printed_units_characters [OF assms(1), of c] by auto
  then show ?case by (intro exI [of _ "ps @ qs"]) auto
qed

text \<open>
  C21: A name is printed as a string of characters none of which is a control character of Unicode, neither
  one of ASCII, line feed and delete among them, nor one from U+80 to U+9f, and two names without the escape
  character that are printed alike are the same. The escape character itself is not escaped: a name
  with a line feed is printed like the name that has the four characters of its escape.
\<close>

theorem printed_names:
  assumes "libuna_codec una encode valid" and "printable_name encode valid cs"
  shows "\<exists>s. info_handle_name_value_fprint una h (encode_name encode cs) = Some (print_name s h, Inr ()) \<and>
    (\<forall>b \<in> set s. 0x20 \<le> b \<and> b \<noteq> 0x7f) \<and>
    (\<exists>ps. s = encode_name encode ps \<and> (\<forall>p \<in> set ps. valid p \<and> \<not> unicode_control p)) \<and>
    (\<forall>ds. printable_name encode valid ds \<and> ESCAPE_CHARACTER \<notin> set cs \<union> set ds \<and>
       info_handle_name_value_fprint una h (encode_name encode ds) = Some (print_name s h, Inr ()) \<longrightarrow> cs = ds) \<and>
    info_handle_name_value_fprint una h [0x0a] = info_handle_name_value_fprint una h [0x5c, 0x78, 0x30, 0x61]"
proof (intro exI [of _ "printed_name encode cs"] conjI allI impI)
  have w: "unicode_writes (una_write una) encode valid" and d: "unicode_decodes (una_copy una) encode valid"
    using assms(1) by (simp_all add: libuna_codec_def)
  have v: "\<forall>c \<in> set cs. valid c" using assms(2) by (simp add: printable_name_def)
  show "info_handle_name_value_fprint una h (encode_name encode cs) = Some (print_name (printed_name encode cs) h, Inr ())"
    by (rule name_fprint_printed [OF assms])
  show "\<forall>b \<in> set (printed_name encode cs). 0x20 \<le> b \<and> b \<noteq> 0x7f" using printed_name_byte(1,2) [OF w v] by blast
  show "\<exists>ps. printed_name encode cs = encode_name encode ps \<and> (\<forall>p \<in> set ps. valid p \<and> \<not> unicode_control p)"
    by (rule printed_name_characters [OF w v])
  show "cs = ds"
    if ds: "printable_name encode valid ds \<and> ESCAPE_CHARACTER \<notin> set cs \<union> set ds \<and>
       info_handle_name_value_fprint una h (encode_name encode ds) = Some (print_name (printed_name encode cs) h, Inr ())" for ds
  proof (rule printed_name_inject [OF w d])
    show "\<forall>c \<in> set cs \<union> set ds. valid c \<and> c \<noteq> ESCAPE_CHARACTER" using ds v by (auto simp: printable_name_def)
    have "print_name (printed_name encode cs) h = print_name (printed_name encode ds) h"
      using name_fprint_printed [OF assms(1), of ds h] ds by simp
    then show "printed_name encode cs = printed_name encode ds"
      by (rule print_name_inject)
  qed
  have a: "encode c = [ucast c]" "valid c" if "c < 0x80" for c using unicode_writesD(4) [OF w that] by simp_all
  have "printable_name encode valid [0x0a]" "printable_name encode valid [0x5c, 0x78, 0x30, 0x61]"
    by (simp_all add: printable_name_def a)
  from this [THEN name_fprint_printed [OF assms(1), of _ h]]
  show "info_handle_name_value_fprint una h [0x0a] = info_handle_name_value_fprint una h [0x5c, 0x78, 0x30, 0x61]"
    by (simp add: a printed_units_def control_character_def hex_padded_byte hex_digit_def)
qed


definition example_line_handle :: "unit info_handle" where
  "example_line_handle = \<lparr> ih_volume_offset = 0, ih_input_file_io_handle = None, ih_input_volume = None,
     ih_calculate_md5 = 0, ih_bodyfile_stream = Some [], ih_notify_stream = [], ih_abort = False \<rparr>"

lemma printed_names_witness:
  "\<exists>s. info_handle_name_value_fprint example_libuna example_line_handle [0x61, 0x09, 0xc2, 0x85] =
      Some (print_name s example_line_handle, Inr ()) \<and>
    (\<forall>b \<in> set s. 0x20 \<le> b \<and> b \<noteq> 0x7f) \<and>
    (\<exists>ps. s = encode_name utf8_units ps \<and> (\<forall>p \<in> set ps. utf8_valid p \<and> \<not> unicode_control p))"
proof -
  have "encode_name utf8_units [0x61, 0x09, 0x85] = [0x61, 0x09, 0xc2, 0x85]" by (simp add: utf8_units_def Let_def)
  moreover have "printable_name utf8_units utf8_valid [0x61, 0x09, 0x85]"
    by (simp add: printable_name_def utf8_valid_def utf8_units_def Let_def)
  ultimately show ?thesis
    using printed_names [OF example_libuna_codec, of "[0x61, 0x09, 0x85]" example_line_handle] by auto
qed

subsection \<open>Safety\<close>

text \<open>What the Unicode library is relied on for whatever the character: it appends at most four units.\<close>

definition unicode_appends_four :: "u8 unicode_write \<Rightarrow> bool" where
  "unicode_appends_four write \<longleftrightarrow>
     (\<forall>c n s. fault_free (write c n s) \<and> (\<forall>s'. write c n s = Inr s' \<longrightarrow> length s' \<le> length s + 4))"

lemma name_append_character_safe:
  assumes "unicode_appends_four write" and "length s \<le> n"
  shows "fault_free (name_append_character write n c s)"
    and "name_append_character write n c s = Inr s' \<Longrightarrow> length s' \<le> length s + 4"
proof -
  have w: "fault_free (write c n s)" "\<And>s'. write c n s = Inr s' \<Longrightarrow> length s' \<le> length s + 4"
    using assms(1) unfolding unicode_appends_four_def by blast+
  show "fault_free (name_append_character write n c s)"
    using assms(2) w(1) by (simp add: name_append_character_def print_at_end_def)
  show "name_append_character write n c s = Inr s' \<Longrightarrow> length s' \<le> length s + 4"
    using w(2) [of s'] control_character_length [of c]
    by (auto simp: name_append_character_def print_at_end_def control_character_def split: if_split_asm)
qed

lemma name_escape_loop_safe:
  assumes "unicode_advances copy" and "unicode_appends_four write"
  shows "i \<le> length name \<Longrightarrow> length s \<le> 4 * i \<Longrightarrow>
    \<exists>r. name_escape_loop copy (name_append_character write (length name * 4 + 1)) name i s = Some r \<and> fault_free r \<and>
      (\<forall>s'. r = Inr s' \<longrightarrow> length s' \<le> length name * 4)"
proof (induction "length name - i" arbitrary: i s rule: less_induct)
  case less
  show ?case
  proof (cases "i < length name")
    case False
    then show ?thesis using less.prems by (subst name_escape_loop.simps) simp
  next
    case True
    have c: "fault_free (copy name i)" "\<And>c j. copy name i = Inr (c, j) \<Longrightarrow> i < j \<and> j \<le> length name"
      using assms(1) True unfolding unicode_advances_def by blast+
    have l: "length s \<le> length name * 4 + 1" using less.prems by simp
    note a = name_append_character_safe [OF assms(2) l]
    show ?thesis
    proof (cases "\<exists>u j s'. copy name i = Inr (u, j) \<and>
        name_append_character write (length name * 4 + 1) u s = Inr s'")
      case False
      then show ?thesis
        using True c(1) a(1) by (subst name_escape_loop.simps) (auto split: sum.split simp: fault_free_iff)
    next
      case found: True
      then obtain u j s' where u: "copy name i = Inr (u, j)"
        "name_append_character write (length name * 4 + 1) u s = Inr s'" by blast
      then have "i < j" "j \<le> length name" "length s' \<le> 4 * j" using c(2) [OF u(1)] a(2) [OF u(2)] less.prems by auto
      then show ?thesis
        using less.hyps [of j s'] True u by (subst name_escape_loop.simps) simp
    qed
  qed
qed

lemma print_then_simps [simp]:
  "print_then (Some (h, Inr x)) f = f h x"
  "print_then (Some (h, Inl e)) f = Some (h, Inl e)"
  "print_then None f = None"
  by (simp_all add: print_then_def)

text \<open>Printing that returns and reaches no undefined behaviour.\<close>

definition prints_safely :: "('h, 'a) printing \<Rightarrow> bool" where
  "prints_safely m \<longleftrightarrow> (\<exists>h r. m = Some (h, r) \<and> fault_free r)"

lemma prints_safely_Some [simp]: "prints_safely (Some (h, r)) \<longleftrightarrow> fault_free r"
  by (simp add: prints_safely_def)

lemma prints_safely_then [safe_intros]:
  assumes "prints_safely m" and "\<And>h x. m = Some (h, Inr x) \<Longrightarrow> prints_safely (f h x)"
  shows "prints_safely (print_then m f)"
  using assms unfolding prints_safely_def [of m] print_then_def
  by (auto split: sum.split)

lemma name_fprint_safe [safe_intros]:
  assumes "unicode_advances (una_copy una)" and "unicode_appends_four (una_write una)"
  shows "prints_safely (info_handle_name_value_fprint una h s)"
proof -
  obtain r where "name_escape_loop (una_copy una) (name_append_character (una_write una) (length s * 4 + 1)) s 0 [] = Some r" "fault_free r"
    "\<forall>s'. r = Inr s' \<longrightarrow> length s' \<le> length s * 4"
    using name_escape_loop_safe [OF assms, of 0 s "[]"] by auto
  then show ?thesis
    by (cases r) (auto simp: info_handle_name_value_fprint_def Let_def)
qed

lemma optional_name_fprint_safe [safe_intros]:
  assumes "unicode_advances (una_copy una)" and "unicode_appends_four (una_write una)"
  shows "prints_safely (info_optional_name_fprint una h s)"
  using name_fprint_safe [OF assms] by (cases s) (simp_all add: info_optional_name_fprint_def)

end
