(* ===== verification/Info_Bodyfile.thy ===== *)
theory Info_Bodyfile
  imports Info_Names File_Entry_Data
begin

text \<open>
  The lines of the bodyfile: which columns a reader finds in a line, and that the hash of a file is that
  of its contents on the disk.
\<close>

subsection \<open>Columns\<close>

fun split_at :: "'a \<Rightarrow> 'a list \<Rightarrow> 'a list list" where
  "split_at c [] = [[]]"
| "split_at c (x # xs) =
     (if x = c then [] # split_at c xs else (x # hd (split_at c xs)) # tl (split_at c xs))"


definition join_columns :: "'a \<Rightarrow> 'a list list \<Rightarrow> 'a list" where
  "join_columns c xss = hd xss @ concat (map (\<lambda>xs. c # xs) (tl xss))"

lemma split_at_nonempty [simp]: "split_at c xs \<noteq> []"
  by (cases xs) simp_all

lemma split_at_length: "length (split_at c xs) = Suc (count_list xs c)"
  by (induction xs) auto

lemma split_at_column: "c \<notin> set xs \<Longrightarrow> split_at c xs = [xs]"
  by (induction xs) auto

lemma split_at_append: "c \<notin> set xs \<Longrightarrow> split_at c (xs @ c # ys) = xs # split_at c ys"
  by (induction xs) auto

lemma split_at_join:
  "xss \<noteq> [] \<Longrightarrow> \<forall>xs \<in> set xss. c \<notin> set xs \<Longrightarrow> split_at c (join_columns c xss) = xss"
proof (induction xss)
  case (Cons xs xss)
  show ?case
  proof (cases "xss = []")
    case True
    then show ?thesis using Cons.prems by (simp add: join_columns_def split_at_column)
  next
    case False
    then have "join_columns c (xs # xss) = xs @ c # join_columns c xss"
      by (cases xss) (simp_all add: join_columns_def)
    then show ?thesis using Cons False by (simp add: split_at_append)
  qed
qed simp

lemma count_list_concat: "count_list (concat xss) c = sum_list (map (\<lambda>xs. count_list xs c) xss)"
  by (induction xss) simp_all

lemma count_list_join:
  "xss \<noteq> [] \<Longrightarrow> count_list (join_columns c xss) b =
     sum_list (map (\<lambda>xs. count_list xs b) xss) + (if b = c then length xss - 1 else 0)"
  by (cases xss) (auto simp: join_columns_def count_list_concat comp_def sum_list_Suc)

subsection \<open>What the values of a line consist of\<close>

text \<open>Neither a separator nor a line feed.\<close>

definition column_text :: "u8 list \<Rightarrow> bool" where
  "column_text s \<longleftrightarrow> column_separator \<notin> set s \<and> newline \<notin> set s"

lemma column_text_simps [simp]:
  "column_text []"
  "column_text (b # s) \<longleftrightarrow> b \<noteq> column_separator \<and> b \<noteq> newline \<and> column_text s"
  "column_text (s @ t) \<longleftrightarrow> column_text s \<and> column_text t"
  "b \<noteq> column_separator \<Longrightarrow> b \<noteq> newline \<Longrightarrow> column_text (replicate n b)"
  by (auto simp: column_text_def)

lemma column_text_decimal: "column_text (decimal_digits n)"
  using decimal_digits_digit [of _ n] by (fastforce simp: column_text_def decimal_digit_def)

lemma column_text_seconds: "column_text (print_seconds time)"
  by (simp add: print_seconds_def Let_def column_text_decimal decimal_padded_def)

lemma column_text_mode: "column_text (file_mode_string file_mode)"
proof -
  have "mode_flag m f c \<noteq> b" if "c \<noteq> b" "0x2d \<noteq> b" for m f c b
    using that by (simp add: mode_flag_def)
  moreover have "mode_type m \<in> {0x70, 0x63, 0x64, 0x62, 0x6c, 0x73, 0x2d}" for m
    by (simp add: mode_type_def Let_def)
  then have "mode_type m \<noteq> b" if "b \<notin> {0x70, 0x63, 0x64, 0x62, 0x6c, 0x73, 0x2d}" for m b
    using that by metis
  ultimately show ?thesis by (simp add: file_mode_string_def)
qed

lemma bodyfile_values_text: "s \<in> set (bodyfile_values e) \<Longrightarrow> column_text s"
  by (auto simp: bodyfile_values_def column_text_decimal column_text_seconds column_text_mode)

lemma column_text_digest: "column_text (digest_hash_digits bs)"
proof -
  have "0x30 \<le> b \<and> b \<le> 0x66" if "b \<in> set (digest_hash_digits bs)" for b
    using that hex_padded_byte_printable [OF unat_bounds(1)] by (auto simp: digest_hash_digits_hex)
  then show ?thesis by (fastforce simp: column_text_def)
qed


subsection \<open>Printing does not change what is printed\<close>

definition same_values :: "'s file_entry \<Rightarrow> 's file_entry \<Rightarrow> bool" where
  "same_values e e' \<longleftrightarrow> fe_inode e' = fe_inode e \<and> fe_inode_number e' = fe_inode_number e \<and>
     fe_data_size e' = fe_data_size e"

lemma same_values_refl [simp]: "same_values e e"
  by (simp add: same_values_def)

lemma same_values_trans [trans]: "same_values e e' \<Longrightarrow> same_values e' e'' \<Longrightarrow> same_values e e''"
  by (simp add: same_values_def)

lemma same_values_bodyfile: "same_values e e' \<Longrightarrow> bodyfile_values e' = bodyfile_values e"
  by (simp add: same_values_def bodyfile_values_def libfsxfs_file_entry_get_inode_number_def
      libfsxfs_file_entry_get_file_mode_def libfsxfs_file_entry_get_owner_identifier_def
      libfsxfs_file_entry_get_group_identifier_def libfsxfs_file_entry_get_size_def
      libfsxfs_file_entry_get_access_time_def libfsxfs_file_entry_get_modification_time_def
      libfsxfs_file_entry_get_inode_change_time_def libfsxfs_file_entry_get_creation_time_def)

lemma with_file_entry_stream_same: "with_file_entry_stream f e = (e', r) \<Longrightarrow> same_values e e'"
  by (auto simp: with_file_entry_stream_def same_values_def split: if_splits option.splits prod.splits)

lemma info_md5_loop_same: "info_md5_loop il lib e c n = Inr (e', c') \<Longrightarrow> same_values e e'"
proof (induction il lib e c n rule: info_md5_loop.induct)
  case (1 il lib e c n)
  then show ?case
    by (subst (asm) (2) info_md5_loop.simps)
      (auto simp: libfsxfs_file_entry_read_buffer_def Let_def split: if_split_asm prod.split_asm sum.split_asm
        dest!: with_file_entry_stream_same intro: same_values_trans)
qed

lemma calculate_md5_Inr:
  assumes "info_handle_file_entry_calculate_md5 il lib e n = Inr (e', s)"
  shows "same_values e e' \<and> (\<exists>bs. s = digest_hash_digits bs @ [0])"
proof -
  obtain e1 r where e1: "libfsxfs_file_entry_seek_offset lib e 0 0 = (e1, r)" by fastforce
  then have "same_values e e1"
    unfolding libfsxfs_file_entry_seek_offset_def by (rule with_file_entry_stream_same)
  then show ?thesis
    using assms e1
    by (auto simp: info_handle_file_entry_calculate_md5_def Let_def digest_hash_copy_to_string_def
        split: if_split_asm dest: info_md5_loop_same intro: same_values_trans)
qed

lemma info_md5_string_Inr:
  assumes "info_md5_string il lib h e = Inr (e', m)"
  shows "same_values e e'" and "column_text m"
proof -
  have "column_text (string_of_buffer (digest_hash_digits bs @ [0]))" for bs
    using column_text_digest [of bs] by (auto simp: column_text_def string_of_buffer_def dest: set_takeWhileD)
  then show "same_values e e'" "column_text m"
    using assms calculate_md5_Inr [of il lib e 33]
    by (auto simp: info_md5_string_def ascii_def split: if_split_asm)
qed

lemma file_entry_symbolic_link_data_same:
  "file_entry_symbolic_link_data lib e = (e', r) \<Longrightarrow> same_values e e'"
  by (auto simp: file_entry_symbolic_link_data_def libfsxfs_internal_file_entry_get_symbolic_link_data_def
      same_values_def Let_def split: if_split_asm option.split_asm prod.split_asm sum.split_asm)

lemma symbolic_link_target_buffer_same:
  "symbolic_link_target_buffer lib una e = (e', r) \<Longrightarrow> same_values e e'"
  by (auto simp: symbolic_link_target_buffer_def libfsxfs_file_entry_get_utf8_symbolic_link_target_size_def
      libfsxfs_file_entry_get_utf8_symbolic_link_target_def file_entry_symbolic_link_target_def
      split: prod.split_asm sum.split_asm option.split_asm
      dest!: file_entry_symbolic_link_data_same intro: same_values_trans)

subsection \<open>A line\<close>

definition printed_option :: "(u32 \<Rightarrow> u8 list) \<Rightarrow> u32 list option \<Rightarrow> u8 list" where
  "printed_option encode name = (case name of None \<Rightarrow> [] | Some cs \<Rightarrow> printed_name encode cs)"

definition link_text :: "u8 list option \<Rightarrow> u8 list result" where
  "link_text target =
     (case target of None \<Rightarrow> Inr [] | Some buffer \<Rightarrow> bindE (format_string buffer) (\<lambda>t. Inr (ascii '' -> '' @ t)))"

text \<open>
  The columns are those of the format: hash, name, inode number, mode, owner, group, size, and the times of access,
  modification, change and creation.
\<close>

definition permission_letters :: "u16 \<Rightarrow> u8 list" where
  "permission_letters file_mode =
     map (\<lambda>i. if bit file_mode (8 - i) then ascii ''rwx'' ! (i mod 3) else 0x2d) [0..<9]"

definition bodyfile_columns :: "u8 list \<Rightarrow> u8 list \<Rightarrow> 's file_entry \<Rightarrow> u8 list list" where
  "bodyfile_columns md5_string name e =
     (let inode = fe_inode e in
      [md5_string, name, decimal_digits (unat (fe_inode_number e)),
       mode_type (in_file_mode inode) # permission_letters (in_file_mode inode),
       decimal_digits (unat (in_owner_identifier inode)), decimal_digits (unat (in_group_identifier inode)),
       decimal_digits (unat (fe_data_size e)), print_seconds (in_access_time inode),
       print_seconds (in_modification_time inode), print_seconds (in_inode_change_time inode),
       print_seconds (if in_format_version inode = 3 then in_creation_time inode else 0)])"

lemma mode_flag_bit: "mode_flag file_mode (2 ^ n) c = (if bit file_mode n then c else 0x2d)"
  by (simp add: mode_flag_def and_exp_eq_0_iff_not_bit)

lemma file_mode_letters: "file_mode_string file_mode = mode_type file_mode # permission_letters file_mode"
proof -
  have "[0..<9] = [0, 1, 2, 3, 4, 5, 6, 7, 8 :: nat]" by (simp add: upt_rec)
  then show ?thesis
    using mode_flag_bit [of file_mode 8] mode_flag_bit [of file_mode 7] mode_flag_bit [of file_mode 6]
      mode_flag_bit [of file_mode 5] mode_flag_bit [of file_mode 4] mode_flag_bit [of file_mode 3]
      mode_flag_bit [of file_mode 2] mode_flag_bit [of file_mode 1] mode_flag_bit [of file_mode 0]
    by (simp add: file_mode_string_def permission_letters_def ascii_def)
qed

lemma bodyfile_columns_values: "bodyfile_columns md5_string name e = md5_string # name # bodyfile_values e"
  by (simp add: bodyfile_columns_def bodyfile_values_def Let_def file_mode_letters
      libfsxfs_file_entry_get_inode_number_def libfsxfs_file_entry_get_file_mode_def
      libfsxfs_file_entry_get_owner_identifier_def libfsxfs_file_entry_get_group_identifier_def
      libfsxfs_file_entry_get_size_def libfsxfs_file_entry_get_access_time_def
      libfsxfs_file_entry_get_modification_time_def libfsxfs_file_entry_get_inode_change_time_def
      libfsxfs_file_entry_get_creation_time_def libfsxfs_inode_get_creation_time_def
      libfsxfs_inode_get_access_time_def libfsxfs_inode_get_modification_time_def
      libfsxfs_inode_get_inode_change_time_def libfsxfs_inode_get_owner_identifier_def
      libfsxfs_inode_get_group_identifier_def libfsxfs_inode_get_file_mode_def)

lemma print_bodyfile_twice [simp]: "print_bodyfile t (print_bodyfile s h) = print_bodyfile (s @ t) h"
  by (cases "ih_bodyfile_stream h") (simp_all add: print_bodyfile_def)

lemma print_bodyfile_stream [simp]: "ih_bodyfile_stream (print_bodyfile s h) = map_option (\<lambda>t. t @ s) (ih_bodyfile_stream h)"
  by (simp add: print_bodyfile_def)

lemma print_bodyfile_Nil [simp]: "print_bodyfile [] h = h"
  by (cases "ih_bodyfile_stream h") (simp_all add: print_bodyfile_def)

lemma optional_name_bodyfile:
  assumes "libuna_codec una encode valid" and "ih_bodyfile_stream h \<noteq> None"
    and "\<forall>cs. name = Some cs \<longrightarrow> printable_name encode valid cs"
  shows "info_optional_name_fprint una h (map_option (encode_name encode) name) =
    Some (print_bodyfile (printed_option encode name) h, Inr ())"
  using optional_name_fprint_printed [OF assms(1,3), of h] assms(2)
  by (auto simp: print_name_def printed_option_def split: option.split)

lemma info_bodyfile_fprint_line:
  assumes una: "libuna_codec una encode valid" and s: "ih_bodyfile_stream h \<noteq> None"
    and names: "\<forall>cs. path = Some cs \<or> name = Some cs \<longrightarrow> printable_name encode valid cs"
    and t: "link_text target = Inr t" and m: "info_md5_string il lib h e = Inr (e', m)"
  shows "info_bodyfile_fprint il lib una h e (map_option (encode_name encode) path)
      (map_option (encode_name encode) name) target =
    Some (print_bodyfile (join_columns column_separator
      (bodyfile_columns m (printed_option encode path @ printed_option encode name @ t) e') @ [newline]) h, Inr e')"
proof -
  have "print_format (\<lambda>h s. print_bodyfile (ascii '' -> '' @ s) h) h' target = Some (print_bodyfile t h', Inr ())" for h' :: "'a info_handle"
    using t by (auto simp: print_format_def link_text_def split: option.splits sum.splits)
  moreover have "info_optional_name_fprint una h' (map_option (encode_name encode) path) =
      Some (print_bodyfile (printed_option encode path) h', Inr ())"
    "info_optional_name_fprint una h' (map_option (encode_name encode) name) =
      Some (print_bodyfile (printed_option encode name) h', Inr ())"
    if "ih_bodyfile_stream h' \<noteq> None" for h' :: "'a info_handle"
    using that names by (intro optional_name_bodyfile [OF una]; simp)+
  ultimately show ?thesis
    using s by (simp add: info_bodyfile_fprint_def m join_columns_def bodyfile_columns_values)
qed

lemma count_list_printed_name:
  assumes "unicode_writes write encode valid" and "\<forall>c \<in> set cs. valid c"
  shows "count_list (printed_name encode cs) column_separator = count_list cs 0x7c"
  using assms(2)
proof (induction cs)
  case (Cons c cs)
  have "count_list (printed_units encode c) column_separator = (if c = 0x7c then 1 else 0)"
  proof (cases "c = 0x7c")
    case True
    have "encode (0x7c :: u32) = [0x7c]" using unicode_writesD(4) [OF assms(1), of "0x7c"] by simp
    then show ?thesis using True by (simp add: printed_units_def control_character_def)
  next
    case False
    then have "column_separator \<notin> set (printed_units encode c)"
      using printed_units_byte [OF assms(1), of c column_separator] Cons.prems by auto
    then show ?thesis using False by (simp add: count_list_0_iff)
  qed
  then show ?case using Cons by simp
qed simp


text \<open>The separators and line feeds of a line are those between its columns, of the names and of the target.\<close>

lemma bodyfile_columns_count:
  assumes "column_text md5_string" and "b \<in> {column_separator, newline}"
  shows "count_list (join_columns column_separator (bodyfile_columns md5_string name e)) b =
    count_list name b + (if b = column_separator then 10 else 0)"
proof -
  let ?columns = "bodyfile_columns md5_string name e"
  have plain: "count_list x b = 0" if "column_text x" for x
    using that assms(2) by (auto simp: column_text_def count_list_0_iff)
  have "\<forall>x \<in> set (bodyfile_values e). count_list x b = 0" using plain [OF bodyfile_values_text] by blast
  then have "sum_list (map (\<lambda>x. count_list x b) ?columns) = count_list name b"
    using plain [OF assms(1)] by (simp add: bodyfile_columns_values)
  moreover have "?columns \<noteq> []" "length ?columns = 11" by (simp_all add: bodyfile_columns_values bodyfile_values_def)
  ultimately show ?thesis by (simp add: count_list_join)
qed

lemma printed_option_count:
  assumes w: "unicode_writes write encode valid" and "\<forall>cs. path = Some cs \<or> name = Some cs \<longrightarrow> (\<forall>c \<in> set cs. valid c)"
  shows "count_list (printed_option encode path @ printed_option encode name) column_separator =
      count_list (concat [cs. Some cs \<leftarrow> [path, name]]) 0x7c"
    and "count_list (printed_option encode path @ printed_option encode name) newline = 0"
proof -
  show "count_list (printed_option encode path @ printed_option encode name) column_separator =
      count_list (concat [cs. Some cs \<leftarrow> [path, name]]) 0x7c"
    using assms(2) by (auto simp: printed_option_def count_list_printed_name [OF w] split: option.split)
  have "newline \<notin> set (printed_option encode path @ printed_option encode name)"
    using assms(2) printed_name_byte(4) [OF w] by (fastforce simp: printed_option_def split: option.splits)
  then show "count_list (printed_option encode path @ printed_option encode name) newline = 0"
    by (simp only: count_list_0_iff simp_thms)
qed

text \<open>
  C19: A file entry is one line of eleven columns in the bodyfile when its name and the target of a symbolic
  link have no column separator: the hash, the path with the name and the target, and nine values of the
  inode. The separator is not escaped, every one in the name or target adds a column, and the target
  of a symbolic link is not escaped at all, every line feed in it adds a line.
\<close>

theorem bodyfile_line:
  assumes una: "libuna_codec una encode valid" and s: "ih_bodyfile_stream h = Some s"
    and names: "\<forall>cs. path = Some cs \<or> name = Some cs \<longrightarrow> printable_name encode valid cs"
    and target: "symbolic_link_target_buffer lib una e = (e1, Inr target)" and t: "link_text target = Inr t"
    and m: "info_md5_string il lib h e1 = Inr (e2, m)"
    and columns: "columns = bodyfile_columns m (printed_option encode path @ printed_option encode name @ t) e"
    and line: "line = join_columns column_separator columns"
    and n: "n = count_list (concat [cs. Some cs \<leftarrow> [path, name]]) 0x7c + count_list t column_separator"
  shows "info_handle_file_entry_value_with_name_fprint il lib una h e (map_option (encode_name encode) path)
      (map_option (encode_name encode) name) = Some (h\<lparr> ih_bodyfile_stream := Some (s @ line @ [newline]) \<rparr>, Inr e2) \<and>
    length columns = 11 \<and> length (split_at column_separator line) = 11 + n \<and>
    (n = 0 \<longrightarrow> split_at column_separator line = columns) \<and> count_list line newline = count_list t newline"
proof -
  have w: "unicode_writes (una_write una) encode valid" using una by (simp add: libuna_codec_def)
  have v: "\<forall>cs. path = Some cs \<or> name = Some cs \<longrightarrow> (\<forall>c \<in> set cs. valid c)"
    using names by (auto simp: printable_name_def)
  have same: "bodyfile_values e2 = bodyfile_values e"
    using symbolic_link_target_buffer_same [OF target] info_md5_string_Inr(1) [OF m]
    by (intro same_values_bodyfile) (rule same_values_trans)
  have mt: "column_text m" by (rule info_md5_string_Inr(2) [OF m])
  have c: "columns \<noteq> []" "length columns = 11"
    by (simp_all add: columns bodyfile_columns_values bodyfile_values_def)
  have counted: "count_list line b = count_list (printed_option encode path @ printed_option encode name @ t) b +
      (if b = column_separator then 10 else 0)" if "b \<in> {column_separator, newline}" for b
    unfolding line columns by (rule bodyfile_columns_count [OF mt that])
  note names = printed_option_count [OF w v, simplified]
  have l: "count_list line column_separator = n + 10" "count_list line newline = count_list t newline"
    using names by (simp_all add: counted n)
  have "split_at column_separator line = columns" if "n = 0"
  proof -
    have "column_separator \<notin> set x" if "x \<in> set columns" for x
      using that \<open>n = 0\<close> names mt bodyfile_values_text [of x e]
      by (auto simp: columns bodyfile_columns_values n count_list_0_iff column_text_def)
    then show ?thesis unfolding line by (intro split_at_join c) blast
  qed
  moreover have "info_handle_file_entry_value_with_name_fprint il lib una h e (map_option (encode_name encode) path)
      (map_option (encode_name encode) name) = Some (h\<lparr> ih_bodyfile_stream := Some (s @ line @ [newline]) \<rparr>, Inr e2)"
    using info_bodyfile_fprint_line [OF una _ assms(3) t m] s
    by (simp add: info_handle_file_entry_value_with_name_fprint_def target line columns bodyfile_columns_values same
        print_bodyfile_def)
  ultimately show ?thesis using c(2) l by (simp add: split_at_length)
qed

text \<open>The first sixteen bytes as a hash.\<close>

definition example_info_libraries :: "u8 list info_libraries" where
  "example_info_libraries =
     \<lparr> md5_initialize = Inr [], md5_update = (\<lambda>c bs. Inr (c @ bs)),
       md5_finalize = (\<lambda>c. Inr (take 16 (c @ replicate 16 0))), date_time_string = (\<lambda>time. Inr []) \<rparr>"

text \<open>A directory with the name \<open>a|b\<close> in a volume without files that are hashed.\<close>

definition example_line_entry :: "stream_record file_entry" where
  "example_line_entry = \<lparr> fe_io_handle = io_handle_zero, fe_file_io_handle = (\<lambda>off n. None),
     fe_file_system = example_file_system, fe_inode_number = 131, fe_inode = inode_zero\<lparr> in_file_mode := 0x41ed \<rparr>,
     fe_directory_entry = None, fe_extended_attributes_array = None, fe_directory = None, fe_data_size = 0,
     fe_data_stream = None, fe_symbolic_link_data = None \<rparr>"

lemma bodyfile_line_witness:
  "\<exists>line. info_handle_file_entry_value_with_name_fprint example_info_libraries recording_libfdata example_libuna
      example_line_handle example_line_entry (Some [0x2f]) (Some [0x61, 0x7c, 0x62]) =
      Some (example_line_handle\<lparr> ih_bodyfile_stream := Some (line @ [newline]) \<rparr>, Inr example_line_entry) \<and>
    length (split_at column_separator line) = 12"
proof -
  have enc: "encode_name utf8_units [0x2f] = [0x2f]" "encode_name utf8_units [0x61, 0x7c, 0x62] = [0x61, 0x7c, 0x62]"
    by (simp_all add: utf8_units_def Let_def)
  have "printable_name utf8_units utf8_valid [0x2f]" "printable_name utf8_units utf8_valid [0x61, 0x7c, 0x62]"
    by (simp_all add: printable_name_def utf8_valid_def utf8_units_def Let_def)
  then have names: "\<forall>cs. Some [0x2f] = Some cs \<or> Some [0x61, 0x7c, 0x62] = Some cs \<longrightarrow> printable_name utf8_units utf8_valid cs"
    by blast
  have target: "symbolic_link_target_buffer recording_libfdata example_libuna example_line_entry =
      (example_line_entry, Inr None)"
    by (simp add: symbolic_link_target_buffer_def libfsxfs_file_entry_get_utf8_symbolic_link_target_size_def
        file_entry_symbolic_link_target_def file_entry_symbolic_link_data_def file_type_def example_line_entry_def
        libfsxfs_internal_file_entry_get_symbolic_link_data_def)
  have md5: "info_md5_string example_info_libraries recording_libfdata example_line_handle example_line_entry =
      Inr (example_line_entry, ascii ''0'')"
    by (simp add: info_md5_string_def example_line_handle_def)
  have h: "ih_bodyfile_stream example_line_handle = Some []" by (simp add: example_line_handle_def)
  have t: "link_text None = Inr []" by (simp add: link_text_def)
  note r = bodyfile_line [OF example_libuna_codec h names target t md5 refl refl refl, unfolded option.map enc append_Nil]
  show ?thesis
    by (rule exI, rule conjI [OF r [THEN conjunct1]]) (use r in simp)
qed

subsection \<open>The hash is that of the contents\<close>

text \<open>
  What is relied on of the libraries: a context of MD5 collects what it is updated with and gives its hash,
  and a stream is read from its offset on, which is moved behind what was read.
\<close>

definition libhmac_md5 :: "'m info_libraries \<Rightarrow> (u8 list \<Rightarrow> u8 list) \<Rightarrow> ('m \<Rightarrow> u8 list) \<Rightarrow> bool" where
  "libhmac_md5 il md5 collected \<longleftrightarrow>
     (\<exists>c. md5_initialize il = Inr c \<and> collected c = []) \<and>
     (\<forall>c bs. \<exists>c'. md5_update il c bs = Inr c' \<and> collected c' = collected c @ bs) \<and>
     (\<forall>c. md5_finalize il c = Inr (md5 (collected c))) \<and> (\<forall>bs. length (md5 bs) = 16)"

definition libfdata_reads_on :: "'s libfdata \<Rightarrow> ('s \<Rightarrow> stream_record) \<Rightarrow> bool" where
  "libfdata_reads_on lib view \<longleftrightarrow>
     (\<forall>s. \<exists>s'. libfdata_stream_seek_offset lib s 0 0 = (s', Inr 0) \<and> view s' = (view s)\<lparr> sr_offset := 0 \<rparr>) \<and>
     (\<forall>s fio n bs. stream_bytes fio (view s) (sr_offset (view s)) n = Some bs \<longrightarrow>
        (\<exists>s'. libfdata_stream_read_buffer lib s fio n = (s', Inr bs) \<and>
           view s' = (view s)\<lparr> sr_offset := sr_offset (view s) + length bs \<rparr>))"

lemma info_md5_loop_contents:
  assumes il: "libhmac_md5 il md5 collected" and lib: "libfdata_reads_on lib view"
  shows "fe_data_stream e = Some s \<Longrightarrow> file_type (fe_inode e) = 0x8000 \<Longrightarrow> sr_offset (view s) = p \<Longrightarrow> p \<le> m \<Longrightarrow>
    (\<And>off n. stream_bytes (fe_file_io_handle e) (view s) off n = Some (map f [off..<min (off + n) m])) \<Longrightarrow>
    \<exists>e' c'. info_md5_loop il lib e c (m - p) = Inr (e', c') \<and> collected c' = collected c @ map f [p..<m]"
proof (induction "m - p" arbitrary: e s c p rule: less_induct)
  case less
  show ?case
  proof (cases "p = m")
    case True
    then show ?thesis by (subst info_md5_loop.simps) simp
  next
    case False
    define n where "n = (if 4096 > m - p then m - p else 4096)"
    have n: "0 < n" "p + n \<le> m" using False less.prems(4) by (auto simp: n_def)
    have b: "stream_bytes (fe_file_io_handle e) (view s) (sr_offset (view s)) n = Some (map f [p..<p + n])"
      using less.prems(3) less.prems(5) [of p n] n(2) by simp
    obtain s' where s': "libfdata_stream_read_buffer lib s (fe_file_io_handle e) n = (s', Inr (map f [p..<p + n]))"
      "view s' = (view s)\<lparr> sr_offset := p + n \<rparr>"
      using lib b less.prems(3) unfolding libfdata_reads_on_def by fastforce
    obtain c' where c': "md5_update il c (map f [p..<p + n]) = Inr c'" "collected c' = collected c @ map f [p..<p + n]"
      using il unfolding libhmac_md5_def by blast
    let ?e = "e\<lparr> fe_data_stream := Some s' \<rparr>"
    have "\<exists>e'' c''. info_md5_loop il lib ?e c' (m - (p + n)) = Inr (e'', c'') \<and>
        collected c'' = collected c' @ map f [p + n..<m]"
      using n less.prems by (intro less.hyps [where s = s']) (simp_all add: s'(2))
    moreover have "[p..<p + n] @ [p + n..<m] = [p..<m]"
      using upt_add_eq_append [of p "p + n" "m - (p + n)"] n(2) by simp
    moreover have "libfsxfs_file_entry_read_buffer lib e n = (?e, Inr (map f [p..<p + n]))"
      using less.prems(1,2) s'(1) by (simp add: libfsxfs_file_entry_read_buffer_def with_file_entry_stream_def)
    ultimately show ?thesis
      using False less.prems(4) c' n(1)
      by (subst info_md5_loop.simps) (auto simp: n_def [symmetric] Let_def map_append [symmetric] simp del: map_append)
  qed
qed

lemma calculate_md5_contents:
  assumes il: "libhmac_md5 il md5 collected" and lib: "libfdata_reads_on lib view"
    and "fe_data_stream e = Some s" and "file_type (fe_inode e) = 0x8000" and "unat (fe_data_size e) = m"
    and "\<And>off n. stream_bytes (fe_file_io_handle e) (view s) off n = Some (map f [off..<min (off + n) m])"
  shows "\<exists>e'. info_handle_file_entry_calculate_md5 il lib e 33 = Inr (e', digest_hash_digits (md5 (map f [0..<m])) @ [0])"
proof -
  obtain s0 where s0: "libfdata_stream_seek_offset lib s 0 0 = (s0, Inr 0)" "view s0 = (view s)\<lparr> sr_offset := 0 \<rparr>"
    using lib unfolding libfdata_reads_on_def by blast
  obtain c0 where c0: "md5_initialize il = Inr c0" "collected c0 = []"
    using il unfolding libhmac_md5_def by blast
  let ?e = "e\<lparr> fe_data_stream := Some s0 \<rparr>"
  have "\<exists>e' c'. info_md5_loop il lib ?e c0 (m - 0) = Inr (e', c') \<and> collected c' = collected c0 @ map f [0..<m]"
    using assms(4,6) by (intro info_md5_loop_contents [OF il lib, where s = s0]) (simp_all add: s0(2))
  then obtain e' c' where l: "info_md5_loop il lib ?e c0 m = Inr (e', c')" "collected c' = map f [0..<m]"
    using c0(2) by auto
  moreover have "md5_finalize il c' = Inr (md5 (map f [0..<m]))" "length (md5 (map f [0..<m])) = 16"
    using il l(2) unfolding libhmac_md5_def by simp_all
  ultimately show ?thesis
    using assms(3-5) s0(1) c0(1)
    by (simp add: info_handle_file_entry_calculate_md5_def libfsxfs_file_entry_seek_offset_def with_file_entry_stream_def
        libfsxfs_file_entry_get_size_def digest_hash_copy_to_string_def Let_def)
qed

text \<open>
  C20: The hash in the line of a regular file is the MD5 of its contents, two hexadecimal digits for each
  byte: of the bytes that the extents of the file map to on the disk, 0 in the holes, up to its size, although
  the file is read in pieces.
\<close>

theorem bodyfile_md5_of_file:
  assumes "libhmac_md5 il md5 collected" and "libfdata_records lib view" and "libfdata_reads_on lib view"
    and "unat (io_number_of_relative_block_number_bits io) < 31"
    and "io_allocation_group_size io \<noteq> 0" and "io_block_size io \<noteq> 0"
    and "in_file_mode inode AND 0xf000 = 0x8000" and "in_fork_type inode = 2 \<or> in_fork_type inode = 3"
    and "in_size inode \<noteq> 0" and "in_data_extents_array inode = Some xs" and "extents_cover 0 xs e"
    and "unat (in_size inode) \<le> e * unat (io_block_size io)"
    and "\<forall>x \<in> set xs. extent_addressable io x \<and> extent_in_disk io disk x"
    and "ih_calculate_md5 h \<noteq> 0"
  shows "\<exists>entry entry'. libfsxfs_file_entry_initialize lib None io (disk_io disk) fs i inode d = Inr entry \<and>
    info_md5_string il lib h entry = Inr (entry', concat (map (\<lambda>b. hex_padded 2 (unat b))
      (md5 (map (file_byte io disk xs) [0..<unat (in_size inode)]))))"
proof -
  obtain entry s where e: "libfsxfs_file_entry_initialize lib None io (disk_io disk) fs i inode d = Inr entry"
    "fe_data_stream entry = Some s" "fe_inode entry = inode" "fe_data_size entry = in_size inode"
    "fe_file_io_handle entry = disk_io disk"
    "\<And>off n. stream_bytes (disk_io disk) (view s) off n =
      Some (map (file_byte io disk xs) [off..<min (off + n) (unat (in_size inode))])"
    using regular_file_entry [OF assms(2,4-13)] by metis
  let ?md5 = "digest_hash_digits (md5 (map (file_byte io disk xs) [0..<unat (in_size inode)]))"
  obtain entry' where "info_handle_file_entry_calculate_md5 il lib entry 33 = Inr (entry', ?md5 @ [0])"
    using calculate_md5_contents [OF assms(1,3) e(2)] e assms(7) by (force simp: file_type_def)
  moreover have "string_of_buffer (?md5 @ [0]) = ?md5"
  proof -
    have "0 \<notin> set ?md5"
      using hex_padded_byte_printable [OF unat_bounds(1)] by (fastforce simp: digest_hash_digits_hex)
    then show ?thesis unfolding string_of_buffer_def by (subst takeWhile_append2) auto
  qed
  ultimately show ?thesis
    using e(1) assms(7,14)
    by (simp add: info_md5_string_def libfsxfs_file_entry_get_file_mode_def libfsxfs_inode_get_file_mode_def e(3)
        digest_hash_digits_hex)
qed

text \<open>The file of the example of two extents with a hole.\<close>

lemma example_info_libraries_md5:
  "libhmac_md5 example_info_libraries (\<lambda>bs. take 16 (bs @ replicate 16 0)) (\<lambda>c. c)"
  by (auto simp: libhmac_md5_def example_info_libraries_def min_def)

lemma recording_libfdata_reads_on: "libfdata_reads_on recording_libfdata (\<lambda>s. s)"
  by (simp add: libfdata_reads_on_def recording_libfdata_def recording_read_def)

lemma bodyfile_md5_of_file_witness:
  "\<exists>entry entry'. libfsxfs_file_entry_initialize recording_libfdata None example_data_io (disk_io (map word_of_nat [0..<48]))
      example_file_system 5 example_data_inode None = Inr entry \<and>
    info_md5_string example_info_libraries recording_libfdata (example_line_handle\<lparr> ih_calculate_md5 := 1 \<rparr>) entry =
      Inr (entry', ascii ''08090a0b0c0d0e0f000000001c1d1e1f'')"
proof -
  let ?disk = "map word_of_nat [0..<48] :: u8 list"
  have x: "\<forall>x \<in> set example_data_extents. extent_addressable example_data_io x \<and> extent_in_disk example_data_io ?disk x"
    by (simp add: example_data_defs extent_in_disk_def extent_is_sparse_def LIBFSXFS_EXTENT_FLAG_IS_SPARSE_def)
  have i: "unat (io_number_of_relative_block_number_bits example_data_io) < 31"
    "io_allocation_group_size example_data_io \<noteq> 0" "io_block_size example_data_io \<noteq> 0"
    "in_file_mode example_data_inode AND 0xf000 = 0x8000"
    "in_fork_type example_data_inode = 2 \<or> in_fork_type example_data_inode = 3"
    "in_size example_data_inode \<noteq> 0" "in_data_extents_array example_data_inode = Some example_data_extents"
    "extents_cover 0 example_data_extents 6"
    "unat (in_size example_data_inode) \<le> 6 * unat (io_block_size example_data_io)"
    by (simp_all add: example_data_defs)
  have "[0..<unat (in_size example_data_inode)] = [0, 1, 2, 3, 4, 5, 6, 7, 8, 9, 10, 11, 12, 13, 14, 15, 16, 17, 18, 19, 20, 21]"
    by (simp add: example_data_defs upt_rec)
  then have "concat (map (\<lambda>b. hex_padded 2 (unat b)) (take 16 (map (file_byte example_data_io ?disk example_data_extents)
      [0..<unat (in_size example_data_inode)] @ replicate 16 0))) = ascii ''08090a0b0c0d0e0f000000001c1d1e1f''"
    by (simp add: file_byte_def extent_byte_def example_data_defs extent_has_block_def extent_is_sparse_def
        LIBFSXFS_EXTENT_FLAG_IS_SPARSE_def hex_padded_byte hex_digit_def ascii_def)
  with bodyfile_md5_of_file [OF example_info_libraries_md5 recording_libfdata_records recording_libfdata_reads_on i x,
      of "example_line_handle\<lparr> ih_calculate_md5 := 1 \<rparr>" example_file_system 5 None]
  show ?thesis by (simp add: example_line_handle_def)
qed

end
