(* ===== verification/Info_Hierarchy.thy ===== *)
theory Info_Hierarchy
  imports Info_Bodyfile
begin

text \<open>
  The hierarchy of files that the information tool prints: every file of the directory tree of a volume, a
  directory before the files in it, by the path that leads to it.
\<close>

subsection \<open>The tree of files\<close>

text \<open>A file with the characters of its name, its file entry and, for a directory, the files in it.\<close>

datatype 's file_tree =
  File_Tree (tree_name: "u32 list") (tree_entry: "'s file_entry") (tree_files: "'s file_tree list")

text \<open>The files of a tree with the names that lead to them, those of the tree itself being \<open>names\<close>.\<close>

fun tree_nodes :: "u32 list list \<Rightarrow> 's file_tree \<Rightarrow> (u32 list list \<times> 's file_entry) list" where
  "tree_nodes names (File_Tree cs e ts) =
     (names, e) # concat (map (\<lambda>t. tree_nodes (names @ [tree_name t]) t) ts)"

fun tree_levels :: "'s file_tree \<Rightarrow> nat" where
  "tree_levels (File_Tree cs e ts) = Suc (foldr max (map tree_levels ts) 0)"

lemma tree_levels_le: "t \<in> set ts \<Longrightarrow> tree_levels t \<le> foldr max (map tree_levels ts) 0"
  by (induction ts) auto

text \<open>The volume stores the tree: its directories list the files by their names, which are distinct.\<close>

definition directory_lists ::
    "'s libfdata \<Rightarrow> (u32 \<Rightarrow> u8 list) \<Rightarrow> (u32 \<Rightarrow> bool) \<Rightarrow> 's file_entry \<Rightarrow> directory \<Rightarrow> 's file_tree list \<Rightarrow> bool" where
  "directory_lists lib encode valid e directory ts \<longleftrightarrow>
     map directory_entry_name_bytes (dir_entries_array directory) = map (\<lambda>t. encode_name encode (tree_name t)) ts \<and>
     distinct (map directory_entry_name_bytes (dir_entries_array directory)) \<and>
     (\<forall>t \<in> set ts. name_valid valid (tree_name t)) \<and>
     map (\<lambda>i. file_entry_sub_file_entry lib (e\<lparr> fe_directory := Some directory \<rparr>) (int i)) [0..<length ts] =
       map (\<lambda>t. Inr (tree_entry t)) ts"

fun tree_stored :: "'s libfdata \<Rightarrow> (u32 \<Rightarrow> u8 list) \<Rightarrow> (u32 \<Rightarrow> bool) \<Rightarrow> 's file_tree \<Rightarrow> bool" where
  "tree_stored lib encode valid (File_Tree cs e ts) \<longleftrightarrow>
     (case directory_of e of
        Some (Inr None) \<Rightarrow> ts = []
      | Some (Inr (Some directory)) \<Rightarrow> directory_lists lib encode valid e directory ts
      | _ \<Rightarrow> False) \<and>
     (\<forall>t \<in> set ts. tree_stored lib encode valid t)"

definition entry_initialized :: "'s libfdata \<Rightarrow> 's file_entry \<Rightarrow> bool" where
  "entry_initialized lib e \<longleftrightarrow>
     (\<exists>io fio fs n inode d. libfsxfs_file_entry_initialize lib None io fio fs n inode d = Inr e)"

lemma entry_initialized_consistent: "entry_initialized lib e \<Longrightarrow> file_entry_consistent e e"
  using file_entry_reachable_consistent file_entry_reachable.start by (fastforce simp: entry_initialized_def)

lemma tree_stored_directory:
  assumes "tree_stored lib encode valid (File_Tree cs e ts)" and "entry_initialized lib e"
  shows "\<exists>e1 n. libfsxfs_file_entry_get_number_of_sub_file_entries e = Some (e1, Inr n) \<and>
    (case n of None \<Rightarrow> 0 | Some n \<Rightarrow> n) = length ts \<and>
    (\<forall>i < length ts. libfsxfs_file_entry_get_sub_file_entry_by_index lib e (int i) = Some (e1, Inr (tree_entry (ts ! i))) \<and>
      libfsxfs_file_entry_get_sub_file_entry_by_index lib e1 (int i) = Some (e1, Inr (tree_entry (ts ! i))) \<and>
      name_valid valid (tree_name (ts ! i)) \<and>
      distinct (map directory_entry_name_bytes (dir_entries_array (the (fe_directory e1)))) \<and>
      (\<forall>entry \<in> set (dir_entries_array (the (fe_directory e1))). encoded_name encode valid (directory_entry_name_bytes entry)) \<and>
      entry_initialized lib (tree_entry (ts ! i)) \<and>
      (\<exists>entry. fe_directory_entry (tree_entry (ts ! i)) = Some entry \<and>
         directory_entry_name_bytes entry = encode_name encode (tree_name (ts ! i))))"
proof -
  note c = entry_initialized_consistent [OF assms(2)]
  obtain d where d: "directory_of e = Some (Inr d)"
    using assms(1) by (auto split: option.split_asm sum.split_asm)
  let ?e1 = "e\<lparr> fe_directory := d \<rparr>"
  have dir: "file_entry_directory e = Some (?e1, Inr ())" using file_entry_directory_answer [OF c] d by simp
  show ?thesis
  proof (cases d)
    case None
    then show ?thesis
      using assms(1) d dir by (simp add: libfsxfs_file_entry_get_number_of_sub_file_entries_def)
  next
    case (Some directory)
    have "directory_lists lib encode valid e directory ts" using assms(1) d Some by simp
    then have names: "map directory_entry_name_bytes (dir_entries_array directory) = map (\<lambda>t. encode_name encode (tree_name t)) ts"
      "\<forall>t \<in> set ts. name_valid valid (tree_name t)" "distinct (map directory_entry_name_bytes (dir_entries_array directory))"
      and subs: "map (\<lambda>i. file_entry_sub_file_entry lib ?e1 (int i)) [0..<length ts] = map (\<lambda>t. Inr (tree_entry t)) ts"
      unfolding directory_lists_def Some by blast+
    have n: "libfsxfs_file_entry_get_number_of_sub_file_entries e = Some (?e1, Inr (Some (length ts)))"
      using dir Some map_eq_imp_length_eq [OF names(1)]
      by (simp add: libfsxfs_file_entry_get_number_of_sub_file_entries_def libfsxfs_directory_get_number_of_entries_def
          array_get_number_of_entries_def)
    have "\<forall>b \<in> set (map directory_entry_name_bytes (dir_entries_array directory)). encoded_name encode valid b"
      unfolding names(1) using names(2) by (auto intro: encoded_nameI)
    then have enc: "\<forall>entry \<in> set (dir_entries_array directory). encoded_name encode valid (directory_entry_name_bytes entry)"
      by simp
    have "libfsxfs_file_entry_get_sub_file_entry_by_index lib e (int i) = Some (?e1, Inr (tree_entry (ts ! i))) \<and>
        libfsxfs_file_entry_get_sub_file_entry_by_index lib ?e1 (int i) = Some (?e1, Inr (tree_entry (ts ! i))) \<and>
        entry_initialized lib (tree_entry (ts ! i)) \<and>
        (\<exists>entry. fe_directory_entry (tree_entry (ts ! i)) = Some entry \<and>
           directory_entry_name_bytes entry = encode_name encode (tree_name (ts ! i)))" if i: "i < length ts" for i
    proof -
      have s: "file_entry_sub_file_entry lib ?e1 (int i) = Inr (tree_entry (ts ! i))"
        using arg_cong [OF subs, of "\<lambda>xs. xs ! i"] i by simp
      have l: "i < length (dir_entries_array directory)" using names(1) i by (metis length_map)
      have "directory_entry_name_bytes (dir_entries_array directory ! i) = encode_name encode (tree_name (ts ! i))"
        using arg_cong [OF names(1), of "\<lambda>xs. xs ! i"] i l by simp
      moreover obtain inode where "libfsxfs_file_entry_initialize lib None (fe_io_handle e) (fe_file_io_handle e)
          (fe_file_system e) (de_inode_number (dir_entries_array directory ! i)) inode (Some (dir_entries_array directory ! i)) =
          Inr (tree_entry (ts ! i))"
        using s l Some
        by (auto simp: file_entry_sub_file_entry_def libfsxfs_directory_get_entry_by_index_def array_get_entry_by_index_def
            libfsxfs_directory_entry_clone_def)
      then have "fe_directory_entry (tree_entry (ts ! i)) = Some (dir_entries_array directory ! i)"
        "entry_initialized lib (tree_entry (ts ! i))"
        unfolding entry_initialized_def by (rule file_entry_initialize_name, blast)
      ultimately show ?thesis
        using s dir Some
        by (simp add: libfsxfs_file_entry_get_sub_file_entry_by_index_def file_entry_directory_def)
    qed
    with n names enc Some show ?thesis by simp
  qed
qed


subsection \<open>The paths\<close>

text \<open>What precedes the name of a file: the path of its directory with a separator.\<close>

definition parent_path :: "(u32 list \<Rightarrow> 'a::len word list) \<Rightarrow> u32 list list \<Rightarrow> 'a word list" where
  "parent_path f names =
     (if length names \<le> 1 then [LIBFSXFS_SEPARATOR] else rooted_path f (butlast names) @ [LIBFSXFS_SEPARATOR])"

lemma join_names_snoc: "xs \<noteq> [] \<Longrightarrow> join_names (xs @ [y]) = join_names xs @ LIBFSXFS_SEPARATOR # y"
proof (induction xs rule: join_names.induct)
  case (3 x z xs)
  then show ?case by simp
qed simp_all

lemma rooted_path_Nil: "rooted_path f [] = [LIBFSXFS_SEPARATOR]"
  by (simp add: rooted_path_def)

lemma parent_path_name: "rooted_path f (names @ [cs]) = parent_path f (names @ [cs]) @ f cs"
  by (cases "names = []") (simp_all add: rooted_path_def parent_path_def join_names_snoc)

lemma parent_path_snoc:
  "parent_path f (names @ [cs]) = (if names = [] then [LIBFSXFS_SEPARATOR] else rooted_path f names @ [LIBFSXFS_SEPARATOR])"
  by (simp add: parent_path_def)

lemma rooted_path_parent: "rooted_path f names = parent_path f names @ (if names = [] then [] else f (last names))"
  by (cases names rule: rev_cases) (simp_all add: parent_path_name rooted_path_Nil, simp add: parent_path_def)

text \<open>Of the names in the code of the file system, and as they are printed.\<close>

lemma encode_rooted_path:
  assumes "g LIBFSXFS_SEPARATOR = [LIBFSXFS_SEPARATOR]"
  shows "encode_name g (rooted_path (\<lambda>cs. cs) names) = rooted_path (encode_name g) names"
    and "encode_name g (parent_path (\<lambda>cs. cs) names) = parent_path (encode_name g) names"
proof -
  show r: "encode_name g (rooted_path (\<lambda>cs. cs) names) = rooted_path (encode_name g) names" for names
    by (induction names rule: rev_induct)
      (simp_all add: rooted_path_Nil parent_path_name parent_path_snoc assms)
  show "encode_name g (parent_path (\<lambda>cs. cs) names) = parent_path (encode_name g) names"
    by (simp add: parent_path_def r assms)
qed

lemma parent_path_characters:
  assumes "P LIBFSXFS_SEPARATOR" and "\<forall>cs \<in> set names. \<forall>c \<in> set cs. P c"
  shows "\<forall>c \<in> set (parent_path (\<lambda>cs. cs) names). P c"
proof -
  have "set (join_names css) \<subseteq> insert LIBFSXFS_SEPARATOR (\<Union> (set ` set css))" for css :: "u32 list list"
    by (induction css rule: join_names.induct) auto
  then have "\<forall>c \<in> set (rooted_path (\<lambda>cs. cs) ns). P c" if "set ns \<subseteq> set names" for ns
    using assms that by (fastforce simp: rooted_path_def)
  from this [of "butlast names"] show ?thesis
    using assms(1) by (auto simp: parent_path_def dest: in_set_butlastD)
qed

lemma separator_units:
  assumes "libuna_codec una encode valid"
  shows "encode LIBFSXFS_SEPARATOR = [LIBFSXFS_SEPARATOR]" and "printed_units encode LIBFSXFS_SEPARATOR = [LIBFSXFS_SEPARATOR]"
    and "valid LIBFSXFS_SEPARATOR"
  using assms unicode_writesD(4) [of "una_write una" encode valid LIBFSXFS_SEPARATOR]
  by (simp_all add: libuna_codec_def printed_units_def control_character_def)

subsection \<open>The walk prints the tree\<close>

text \<open>The names that lead to a file are those of its entries.\<close>

definition entry_named :: "(u32 \<Rightarrow> u8 list) \<Rightarrow> (u32 \<Rightarrow> bool) \<Rightarrow> u32 list list \<Rightarrow> 's file_entry \<Rightarrow> bool" where
  "entry_named encode valid names e \<longleftrightarrow>
     (\<forall>cs \<in> set names. name_valid valid cs) \<and>
     (if names = [] then fe_directory_entry e = None
      else \<exists>entry. fe_directory_entry e = Some entry \<and> directory_entry_name_bytes entry = encode_name encode (last names))"

lemma hierarchy_entry_name_named:
  assumes "libuna_names una (encoded_name encode valid)" and "entry_named encode valid names e"
  shows "hierarchy_entry_name una e = Inr (if names = [] then None else Some (encode_name encode (last names)))"
proof (cases "names = []")
  case True
  then show ?thesis
    using assms(2)
    by (simp add: entry_named_def hierarchy_entry_name_def libfsxfs_file_entry_get_utf8_name_size_def File_Entry.file_entry_name_def)
next
  case False
  then obtain entry where entry: "fe_directory_entry e = Some entry"
    "directory_entry_name_bytes entry = encode_name encode (last names)" "encoded_name encode valid (encode_name encode (last names))"
    using assms(2) encoded_nameI [of valid "last names" encode] by (auto simp: entry_named_def)
  let ?name = "encode_name encode (last names)"
  have "una_name_size una ?name = Inr (length ?name + 1)" "una_name una (length ?name + 1) ?name = Inr (?name @ [0])"
    using assms(1) entry(3) unfolding libuna_names_def by blast+
  then show ?thesis
    using False entry(1,2)
    by (simp add: hierarchy_entry_name_def libfsxfs_file_entry_get_utf8_name_size_def File_Entry.file_entry_name_def
        libfsxfs_file_entry_get_utf8_name_def libfsxfs_directory_entry_get_utf8_name_size_def
        libfsxfs_directory_entry_get_utf8_name_def convert_name_def)
qed

lemma sub_entries_fprint_all:
  assumes "\<And>k. k < length ts \<Longrightarrow> libfsxfs_file_entry_get_sub_file_entry_by_index lib e1 (int (i + k)) =
      Some (e1, Inr (tree_entry (ts ! k)))"
    and "\<And>t h. t \<in> set ts \<Longrightarrow> ih_bodyfile_stream h = None \<Longrightarrow>
      print h (tree_entry t) = Some (print_notify (f t) h, Inr ())"
    and "ih_bodyfile_stream h = None"
  shows "hierarchy_sub_entries_fprint lib print (length ts) (int i) h e1 =
    Some (print_notify (concat (map f ts)) h, Inr ())"
  using assms
proof (induction ts arbitrary: i h)
  case Nil
  then show ?case by (simp add: print_notify_def)
next
  case (Cons t ts)
  have "libfsxfs_file_entry_get_sub_file_entry_by_index lib e1 (int i) = Some (e1, Inr (tree_entry t))"
    using Cons.prems(1) [of 0] by simp
  moreover have "libfsxfs_file_entry_get_sub_file_entry_by_index lib e1 (int (Suc i + k)) = Some (e1, Inr (tree_entry (ts ! k)))"
    if "k < length ts" for k using Cons.prems(1) [of "Suc k"] that by simp
  from Cons.IH [OF this Cons.prems(2), of "print_notify (f t) h"]
  have "hierarchy_sub_entries_fprint lib print (length ts) (int (Suc i)) (print_notify (f t) h) e1 =
      Some (print_notify (concat (map f ts)) (print_notify (f t) h), Inr ())"
    using Cons.prems(3) by (simp add: print_notify_def)
  ultimately show ?case
    using Cons.prems(2) [of t h] Cons.prems(3) by (simp add: print_then_def print_notify_def add.commute)
qed


text \<open>A line for every file of the tree.\<close>

definition tree_lines :: "(u32 \<Rightarrow> u8 list) \<Rightarrow> (u32 list list \<times> 's file_entry) list \<Rightarrow> u8 list" where
  "tree_lines encode nodes = concat (map (\<lambda>(names, e). rooted_path (printed_name encode) names @ [newline]) nodes)"

definition path_printable :: "(u32 \<Rightarrow> u8 list) \<Rightarrow> u32 list list \<Rightarrow> bool" where
  "path_printable encode names \<longleftrightarrow> length (rooted_path (encode_name encode) names) \<le> (SSIZE_MAX - 1) div 4"

lemma print_notify_twice [simp]: "print_notify t (print_notify s h) = print_notify (s @ t) h"
  by (simp add: print_notify_def)

lemma print_notify_bodyfile [simp]: "ih_bodyfile_stream (print_notify s h) = ih_bodyfile_stream h"
  by (simp add: print_notify_def)

lemma print_notify_volume [simp]: "ih_input_volume (print_notify s h) = ih_input_volume h"
  by (simp add: print_notify_def)

lemma hierarchy_entry_fprint_line:
  fixes h :: "'h info_handle"
  assumes una: "libuna_codec una encode valid" and names: "\<forall>cs \<in> set names. name_valid valid cs"
    and len: "path_printable encode names" and h: "ih_bodyfile_stream h = None"
  shows "hierarchy_entry_fprint il lib una h e (parent_path (encode_name encode) names)
      (if names = [] then None else Some (encode_name encode (last names))) =
    Some (print_notify (rooted_path (printed_name encode) names @ [newline]) h, Inr e)"
proof -
  note sep = separator_units [OF una]
  have v: "\<forall>cs \<in> set names. \<forall>c \<in> set cs. valid c" using names by (auto simp: name_valid_def)
  note path = rooted_path_parent [of _ names]
  have pv: "\<forall>c \<in> set (parent_path (\<lambda>cs. cs) names). valid c"
    using sep(3) v by (intro parent_path_characters) simp_all
  have "printable_name encode valid (parent_path (\<lambda>cs. cs) names)"
    "names \<noteq> [] \<Longrightarrow> printable_name encode valid (last names)"
    using pv v len path [of "encode_name encode"]
    by (auto simp: printable_name_def path_printable_def encode_rooted_path(2) [of encode, OF sep(1)] split: if_split_asm)
  then have fp: "info_handle_name_value_fprint una h' (parent_path (encode_name encode) names) =
      Some (print_name (parent_path (printed_name encode) names) h', Inr ())"
    "names \<noteq> [] \<Longrightarrow> info_handle_name_value_fprint una h' (encode_name encode (last names)) =
      Some (print_name (printed_name encode (last names)) h', Inr ())" for h' :: "'h info_handle"
    using name_fprint_printed [OF una, of "parent_path (\<lambda>cs. cs) names" h'] name_fprint_printed [OF una, of "last names" h']
    by (simp_all add: encode_rooted_path(2) [of encode, OF sep(1)] encode_rooted_path(2) [of "printed_units encode", OF sep(2)])
  show ?thesis
    using h fp path [of "printed_name encode"] by (cases "names = []") (simp_all add: hierarchy_entry_fprint_def info_optional_name_fprint_def print_name_def)
qed

lemma hierarchy_prints_nodes:
  fixes h :: "'h info_handle" and t :: "'s file_tree"
  assumes una: "libuna_codec una encode valid" "libuna_names una (encoded_name encode valid)"
  shows "tree_stored lib encode valid t \<Longrightarrow> entry_initialized lib (tree_entry t) \<Longrightarrow>
    entry_named encode valid names (tree_entry t) \<Longrightarrow> tree_levels t \<le> levels \<Longrightarrow>
    \<forall>(names, e) \<in> set (tree_nodes names t). path_printable encode names \<Longrightarrow> ih_bodyfile_stream h = None \<Longrightarrow>
    info_handle_file_system_hierarchy_fprint_file_entry levels il lib una h (tree_entry t)
      (parent_path (encode_name encode) names) = Some (print_notify (tree_lines encode (tree_nodes names t)) h, Inr ())"
proof (induction names t arbitrary: levels h rule: tree_nodes.induct)
  case (1 names cs e ts)
  note stored = 1(2) and init = 1(3) [simplified] and named = 1(4) [simplified] and printable = 1(6) and h = 1(7)
  obtain l where l: "levels = Suc l" "foldr max (map tree_levels ts) 0 \<le> l" using 1(5) by (cases levels) auto
  have names: "\<forall>cs \<in> set names. name_valid valid cs" using named by (simp add: entry_named_def)
  have p: "path_printable encode names" using printable by simp
  have "length (parent_path (encode_name encode) names) \<le> length (rooted_path (encode_name encode) names)"
    using rooted_path_parent [of "encode_name encode" names] by simp
  then have len: "\<not> length (parent_path (encode_name encode) names) > SSIZE_MAX - 1"
    using p by (simp add: path_printable_def)
  define name where "name = (if names = [] then None else Some (encode_name encode (last names)))"
  have n: "hierarchy_entry_name una e = Inr name"
    unfolding name_def by (rule hierarchy_entry_name_named [OF una(2) named])
  have f: "hierarchy_entry_fprint il lib una h e (parent_path (encode_name encode) names) name =
      Some (print_notify (rooted_path (printed_name encode) names @ [newline]) h, Inr e)"
    unfolding name_def by (rule hierarchy_entry_fprint_line [OF una(1) names p h])
  obtain e1 k where e1: "libfsxfs_file_entry_get_number_of_sub_file_entries e = Some (e1, Inr k)"
    "(case k of None \<Rightarrow> 0 | Some n \<Rightarrow> n) = length ts"
    and subs: "\<And>i. i < length ts \<Longrightarrow> libfsxfs_file_entry_get_sub_file_entry_by_index lib e1 (int i) =
        Some (e1, Inr (tree_entry (ts ! i))) \<and> name_valid valid (tree_name (ts ! i)) \<and> entry_initialized lib (tree_entry (ts ! i)) \<and>
      (\<exists>entry. fe_directory_entry (tree_entry (ts ! i)) = Some entry \<and>
         directory_entry_name_bytes entry = encode_name encode (tree_name (ts ! i)))"
    using tree_stored_directory [OF stored init] by blast
  define print where "print = (\<lambda>(h :: 'h info_handle) s. info_handle_file_system_hierarchy_fprint_file_entry l il lib una h s
      (hierarchy_sub_path (parent_path (encode_name encode) names) name))"
  have sub: "hierarchy_sub_path (parent_path (encode_name encode) names) name =
      parent_path (encode_name encode) (names @ [tree_name t])" for t :: "'s file_tree"
    using parent_path_snoc [of "encode_name encode" names "tree_name t"] rooted_path_parent [of "encode_name encode" names]
    by (simp add: hierarchy_sub_path_def name_def parent_path_def)
  have print: "print h' (tree_entry t) = Some (print_notify (tree_lines encode (tree_nodes (names @ [tree_name t]) t)) h', Inr ())"
    if t: "t \<in> set ts" "ih_bodyfile_stream h' = None" for t h'
  proof -
    obtain i where i: "i < length ts" "t = ts ! i" using t(1) by (auto simp: in_set_conv_nth)
    show ?thesis
      unfolding print_def sub [of t]
    proof (rule 1(1) [OF t(1)])
      show "tree_stored lib encode valid t" using stored t(1) by simp
      show "tree_levels t \<le> l" using tree_levels_le [OF t(1)] l(2) by simp
      show "entry_named encode valid (names @ [tree_name t]) (tree_entry t)"
        using names subs [OF i(1)] by (auto simp: entry_named_def i(2))
      show "\<forall>(names, e) \<in> set (tree_nodes (names @ [tree_name t]) t). path_printable encode names"
        using printable t(1) by auto
    qed (use subs [OF i(1)] i(2) t(2) in simp_all)
  qed
  have "hierarchy_sub_entries_fprint lib print (length ts) 0 (print_notify (rooted_path (printed_name encode) names @ [newline]) h) e1 =
      Some (print_notify (concat (map (\<lambda>t. tree_lines encode (tree_nodes (names @ [tree_name t]) t)) ts))
        (print_notify (rooted_path (printed_name encode) names @ [newline]) h), Inr ())"
    using sub_entries_fprint_all [of ts lib e1 0 print] subs print h by simp
  moreover have "tree_lines encode (concat (map f ts)) = concat (map (\<lambda>t. tree_lines encode (f t)) ts)"
    for f :: "'s file_tree \<Rightarrow> (u32 list list \<times> 's file_entry) list"
    by (induction ts) (simp_all add: tree_lines_def)
  ultimately show ?case
    using len n f e1 l(1) by (simp add: print_then_def print_def tree_lines_def)
qed


subsection \<open>What is printed is found\<close>

lemma tree_nodes_found:
  assumes una: "libuna_codec una encode valid" "libuna_names una (encoded_name encode valid)"
  shows "tree_stored lib encode valid t \<Longrightarrow> entry_initialized lib (tree_entry t) \<Longrightarrow> \<forall>cs \<in> set names. name_valid valid cs \<Longrightarrow>
    libfsxfs_volume_get_file_entry_by_utf8_path bf lib (una_compare una) (una_copy una) v
      (rooted_path (encode_name encode) names) = Some (Inr (Some (tree_entry t))) \<Longrightarrow>
    \<forall>(names, e) \<in> set (tree_nodes names t). path_printable encode names \<Longrightarrow> (ns, e) \<in> set (tree_nodes names t) \<Longrightarrow>
    libfsxfs_volume_get_file_entry_by_utf8_path bf lib (una_compare una) (una_copy una) v
      (rooted_path (encode_name encode) ns) = Some (Inr (Some e))"
proof (induction names t rule: tree_nodes.induct)
  case (1 names cs d ts)
  note stored = 1(2) and init = 1(3) [simplified] and names = 1(4) and found = 1(5) [simplified] and printable = 1(6)
  have dec: "unicode_decodes (una_copy una) encode valid" and cmp: "compares_names (una_compare una) (encoded_name encode valid)"
    using una by (simp_all add: libuna_codec_def libuna_names_def)
  show ?case
  proof (cases "(ns, e) = (names, d)")
    case True
    then show ?thesis using found by simp
  next
    case False
    then obtain u where u: "u \<in> set ts" "(ns, e) \<in> set (tree_nodes (names @ [tree_name u]) u)" using 1(7) by auto
    then obtain i where i: "i < length ts" "(ns, e) \<in> set (tree_nodes (names @ [tree_name (ts ! i)]) (ts ! i))"
      by (metis in_set_conv_nth)
    let ?t = "ts ! i"
    have t: "?t \<in> set ts" using i(1) by simp
    obtain e1 where e1: "libfsxfs_file_entry_get_sub_file_entry_by_index lib d (int i) = Some (e1, Inr (tree_entry ?t))"
      "distinct (map directory_entry_name_bytes (dir_entries_array (the (fe_directory e1))))"
      "\<forall>entry \<in> set (dir_entries_array (the (fe_directory e1))). encoded_name encode valid (directory_entry_name_bytes entry)"
      and s: "name_valid valid (tree_name ?t)" "entry_initialized lib (tree_entry ?t)"
      "directory_entry_name_bytes (the (fe_directory_entry (tree_entry ?t))) = encode_name encode (tree_name ?t)"
      using tree_stored_directory [OF stored init] i(1) by force
    have printable': "\<forall>(names, e) \<in> set (tree_nodes (names @ [tree_name ?t]) ?t). path_printable encode names"
      using printable t by auto
    moreover have "(names @ [tree_name ?t], tree_entry ?t) \<in> set (tree_nodes (names @ [tree_name ?t]) ?t)"
      by (cases ?t) simp
    ultimately have len: "length (rooted_path (encode_name encode) (names @ [tree_name ?t])) \<le> SSIZE_MAX"
      "length (rooted_path (encode_name encode) names) \<le> SSIZE_MAX"
      using printable by (fastforce simp: path_printable_def)+
    have names': "\<forall>cs \<in> set (names @ [tree_name ?t]). name_valid valid cs" using names s(1) by simp
    have "libfsxfs_volume_get_file_entry_by_utf8_path bf lib (una_compare una) (una_copy una) v
        (rooted_path (encode_name encode) (names @ [tree_name ?t])) = Some (Inr (Some (tree_entry ?t)))"
      by (rule listed_entry_by_path [OF dec cmp names' len found file_entry_reachable.start e1 s(3)])
    from 1(1) [OF t _ s(2) names' this printable' i(2)] stored t show ?thesis by simp
  qed
qed

text \<open>The root directory is found by the path of the separator.\<close>

definition root_directory_known :: "'h volume \<Rightarrow> bool" where
  "root_directory_known v \<longleftrightarrow>
     (\<exists>sb fs. vol_superblock v = Some sb \<and> vol_file_system v = Some fs \<and>
       fs_root_directory_inode_number fs = sb_root_directory_inode_number sb)"

lemma volume_loaded_root_directory_known: "volume_loaded v \<Longrightarrow> root_directory_known v"
  by (auto simp: volume_loaded_def root_directory_known_def)

lemma root_directory_found:
  assumes "root_directory_known v" and "libfsxfs_volume_get_root_directory bf lib v = Inr e"
  shows "libfsxfs_volume_get_file_entry_by_utf8_path bf lib compare copy v (rooted_path f []) = Some (Inr (Some e))"
    and "entry_initialized lib e" and "fe_directory_entry e = None"
proof -
  obtain sb fs fio inode where v: "vol_superblock v = Some sb" "vol_file_system v = Some fs"
    "fs_root_directory_inode_number fs = sb_root_directory_inode_number sb" "volume_sources bf v = Inr (fs, fio)"
    and e: "get_existing_inode fs (vol_io_handle v) fio (sb_root_directory_inode_number sb) = Inr inode"
    "libfsxfs_file_entry_initialize lib None (vol_io_handle v) fio fs (sb_root_directory_inode_number sb) inode None = Inr e"
    using assms by (auto simp: root_directory_known_def libfsxfs_volume_get_root_directory_def volume_sources_def
        split: option.split_asm)
  show "libfsxfs_volume_get_file_entry_by_utf8_path bf lib compare copy v (rooted_path f []) = Some (Inr (Some e))"
    using v e by (simp add: path_lookup_defs volume_file_entry_of_path_def get_directory_entry_by_path_def
        libfsxfs_directory_entry_clone_def rooted_path_Nil Let_def)
  show "entry_initialized lib e" using e(2) unfolding entry_initialized_def by blast
  show "fe_directory_entry e = None" by (rule file_entry_initialize_name [OF e(2)])
qed

lemma hierarchy_printed:
  fixes h :: "'h info_handle"
  assumes una: "libuna_codec una encode valid" "libuna_names una (encoded_name encode valid)"
    and h: "ih_bodyfile_stream h = None" "ih_input_volume h = Some v" and v: "root_directory_known v"
    and root: "libfsxfs_volume_get_root_directory bf lib v = Inr (tree_entry t)"
    and t: "tree_stored lib encode valid t" "tree_levels t \<le> levels"
    and printable: "\<forall>(names, e) \<in> set (tree_nodes [] t). path_printable encode names"
  shows "info_handle_file_system_hierarchy_fprint levels bf il lib una h =
    Some (print_notify (title @ ascii ''File system hierarchy:'' @ [newline] @
      tree_lines encode (tree_nodes [] t) @ [newline]) h, Inr ())"
proof -
  note r = root_directory_found [OF v root]
  have named: "entry_named encode valid [] (tree_entry t)" using r(3) by (simp add: entry_named_def)
  have "info_handle_file_system_hierarchy_fprint_file_entry levels il lib una h' (tree_entry t)
      [LIBFSXFS_SEPARATOR] = Some (print_notify (tree_lines encode (tree_nodes [] t)) h', Inr ())"
    if "ih_bodyfile_stream h' = None" for h' :: "'h info_handle"
    using hierarchy_prints_nodes [OF una t(1) r(2) named t(2) printable that, of il] by (simp add: parent_path_def)
  then show ?thesis
    using h root by (simp add: info_handle_file_system_hierarchy_fprint_def info_volume_def Let_def print_then_simps)
qed

text \<open>
  C18: The hierarchy that is printed is that of the volume: for a directory tree that the volume stores, one line for
  every file, a directory before the files in it, with the path that leads to it, and the lookup of that
  path gives that same file entry.
\<close>

theorem hierarchy_prints_tree:
  fixes h :: "'h info_handle"
  assumes una: "libuna_codec una encode valid" "libuna_names una (encoded_name encode valid)"
    and h: "ih_bodyfile_stream h = None" "ih_input_volume h = Some v" and v: "root_directory_known v"
    and root: "libfsxfs_volume_get_root_directory bf lib v = Inr (tree_entry t)"
    and t: "tree_stored lib encode valid t" "tree_levels t \<le> levels"
    and printable: "\<forall>(names, e) \<in> set (tree_nodes [] t). path_printable encode names"
  shows "info_handle_file_system_hierarchy_fprint levels bf il lib una h =
      Some (print_notify (title @ ascii ''File system hierarchy:'' @ [newline] @
        concat (map (\<lambda>(names, e). rooted_path (printed_name encode) names @ [newline]) (tree_nodes [] t)) @ [newline]) h, Inr ()) \<and>
    (\<forall>(names, e) \<in> set (tree_nodes [] t).
      libfsxfs_volume_get_file_entry_by_utf8_path bf lib (una_compare una) (una_copy una) v
        (rooted_path (encode_name encode) names) = Some (Inr (Some e)))"
proof
  show "info_handle_file_system_hierarchy_fprint levels bf il lib una h =
      Some (print_notify (title @ ascii ''File system hierarchy:'' @ [newline] @
        concat (map (\<lambda>(names, e). rooted_path (printed_name encode) names @ [newline]) (tree_nodes [] t)) @ [newline]) h, Inr ())"
    using hierarchy_printed [OF assms] by (simp add: tree_lines_def)
  note r = root_directory_found [OF v root]
  show "\<forall>(names, e) \<in> set (tree_nodes [] t).
      libfsxfs_volume_get_file_entry_by_utf8_path bf lib (una_compare una) (una_copy una) v
        (rooted_path (encode_name encode) names) = Some (Inr (Some e))"
    using tree_nodes_found [OF una t(1) r(2) _ r(1) printable] by auto
qed


subsection \<open>Example\<close>

definition example_info_handle :: "unit info_handle" where
  "example_info_handle =
     \<lparr> ih_volume_offset = 0, ih_input_file_io_handle = Some (), ih_input_volume = Some example_session_volume,
       ih_calculate_md5 = 0, ih_bodyfile_stream = None, ih_notify_stream = [], ih_abort = False \<rparr>"

text \<open>The example has a file \<open>a\<close> in its root directory.\<close>

lemma example_tree:
  "\<exists>d s. libfsxfs_volume_get_root_directory example_session_libbfio recording_libfdata example_session_volume = Inr d \<and>
     tree_stored recording_libfdata utf8_units utf8_valid (File_Tree [] d [File_Tree [0x61] s []])"
proof -
  obtain inode d where d: "get_existing_inode example_file_system example_path_io example_path_file 0x41 = Inr inode"
    "libfsxfs_file_entry_initialize recording_libfdata None example_path_io example_path_file
       example_file_system 0x41 inode None = Inr d"
    "directory_of d = Some (Inr (Some \<lparr> dir_entries_array = [example_listed_entry] \<rparr>))"
    using example_file_entry unfolding example_listed_entry_def by blast
  obtain inode' s where s: "get_existing_inode example_file_system example_path_io example_path_file 0x42 = Inr inode'"
    "libfsxfs_file_entry_initialize recording_libfdata None example_path_io example_path_file
       example_file_system 0x42 inode' (Some example_listed_entry) = Inr s" "file_type (fe_inode s) = 0x8000"
    using example_listed_file by blast
  have utf8: "utf8_units 0x61 = [0x61]" by (simp add: utf8_units_def)
  have inode_number: "de_inode_number example_listed_entry = 0x42" by (simp add: example_listed_entry_def)
  have "libfsxfs_volume_get_root_directory example_session_libbfio recording_libfdata example_session_volume = Inr d"
    using d(1,2) example_session_sources
    by (simp add: libfsxfs_volume_get_root_directory_def example_session_volume_def volume_sources_def)
  moreover have "directory_lists recording_libfdata utf8_units utf8_valid d \<lparr> dir_entries_array = [example_listed_entry] \<rparr>
      [File_Tree [0x61] s []]"
    using s(1,2) file_entry_initialize_fields [OF d(2)] utf8
    by (simp add: directory_lists_def example_listed_name name_valid_def utf8_valid_def inode_number
        file_entry_sub_file_entry_def libfsxfs_directory_get_entry_by_index_def array_get_entry_by_index_def
        libfsxfs_directory_entry_clone_def)
  moreover have "directory_of s = Some (Inr None)" using s(3) by (simp add: directory_of_def)
  ultimately show ?thesis using d(3) by auto
qed

lemma hierarchy_prints_tree_witness:
  "\<exists>s. info_handle_file_system_hierarchy_fprint 2 example_session_libbfio (example_info_libraries :: u8 list info_libraries)
      recording_libfdata example_libuna example_info_handle =
      Some (print_notify (title @ ascii ''File system hierarchy:'' @ [newline, 0x2f, newline, 0x2f, 0x61, newline, newline])
        example_info_handle, Inr ()) \<and>
    libfsxfs_volume_get_file_entry_by_utf8_path example_session_libbfio recording_libfdata (una_compare example_libuna)
      (una_copy example_libuna) example_session_volume [0x2f, 0x61] = Some (Inr (Some s))"
proof -
  obtain d s where d: "libfsxfs_volume_get_root_directory example_session_libbfio recording_libfdata example_session_volume =
      Inr (tree_entry (File_Tree [] d [File_Tree [0x61] s []]))"
    "tree_stored recording_libfdata utf8_units utf8_valid (File_Tree [] d [File_Tree [0x61] s []])"
    using example_tree by auto
  have h: "ih_bodyfile_stream example_info_handle = None" "ih_input_volume example_info_handle = Some example_session_volume"
    by (simp_all add: example_info_handle_def)
  have v: "root_directory_known example_session_volume"
    by (simp add: root_directory_known_def example_session_volume_def example_file_system_def)
  have l: "tree_levels (File_Tree [] d [File_Tree [0x61] s []]) \<le> 2" by simp
  have p: "\<forall>(names, e) \<in> set (tree_nodes [] (File_Tree [] d [File_Tree [0x61] s []])). path_printable utf8_units names"
    by (simp add: path_printable_def example_mounted_paths)
  have "rooted_path (printed_name utf8_units) [] = [0x2f]" "rooted_path (printed_name utf8_units) [[0x61]] = [0x2f, 0x61]"
    by (simp_all add: rooted_path_def printed_units_def control_character_def utf8_units_def)
  then show ?thesis
    using hierarchy_prints_tree [OF example_libuna_codec example_libuna_names h v d l p, of example_info_libraries]
    by (simp add: example_mounted_paths)
qed

end
