(* ===== verification/Info_Main.thy ===== *)
theory Info_Main
  imports Tool_Options Info_Hierarchy
begin

text \<open>
  The information tool as a program (\<open>fsxfstools/fsxfsinfo.c\<close>): what its options mean and what is printed then.
\<close>

subsection \<open>The options\<close>

datatype FSXFSINFO_MODES =
    FSXFSINFO_MODE_FILE_ENTRIES
  | FSXFSINFO_MODE_FILE_ENTRY_BY_IDENTIFIER
  | FSXFSINFO_MODE_FILE_ENTRY_BY_PATH
  | FSXFSINFO_MODE_FILE_SYSTEM_HIERARCHY
  | FSXFSINFO_MODE_VOLUME

record info_options =
  option_bodyfile :: "u8 list option"
  option_file_entry_identifier :: "u8 list option"
  option_file_entry_path :: "u8 list option"
  option_volume_offset :: "u8 list option"
  option_calculate_md5 :: u8
  option_mode :: FSXFSINFO_MODES
  option_verbose :: bool

definition info_options_initial :: info_options where
  "info_options_initial =
     \<lparr> option_bodyfile = None, option_file_entry_identifier = None, option_file_entry_path = None,
       option_volume_offset = None, option_calculate_md5 = 0, option_mode = FSXFSINFO_MODE_VOLUME, option_verbose = False \<rparr>"

text \<open>What is printed to the console; the messages about errors, which go to another stream, are left out.\<close>

definition usage_fprint :: "u8 list" where
  "usage_fprint =
     ascii ''Use fsxfsinfo to determine information about a X File System (XFS) volume.'' @ [newline, newline] @
     ascii ''Usage: fsxfsinfo [ -B bodyfile ] [ -E inode_number ] [ -F file_entry ]'' @ [newline] @
     ascii ''                 [ -o offset ] [ -dhHvV ] source'' @ [newline, newline] @
     tabs 1 @ ascii ''source: the source file or device'' @ [newline, newline] @
     tabs 1 @ ascii ''-B:     output file system information as a bodyfile'' @ [newline] @
     tabs 1 @ ascii ''-d:     calculate a MD5 hash of a file entry to include in the'' @ [newline] @
     tabs 1 @ ascii ''        bodyfile'' @ [newline] @
     tabs 1 @ ascii ''-E:     show information about a specific inode or '' @ [0x22] @ ascii ''all'' @ [0x22, newline] @
     tabs 1 @ ascii ''-F:     show information about a specific file entry path'' @ [newline] @
     tabs 1 @ ascii ''-h:     shows this help'' @ [newline] @
     tabs 1 @ ascii ''-H:     shows the file system hierarchy'' @ [newline] @
     tabs 1 @ ascii ''-o:     specify the volume offset'' @ [newline] @
     tabs 1 @ ascii ''-v:     verbose output to stderr'' @ [newline] @
     tabs 1 @ ascii ''-V:     print version'' @ [newline]"

definition fsxfsinfo_options :: "u8 list" where
  "fsxfsinfo_options = ascii ''B:dE:F:hHo:vV'' @ [0]"

text \<open>The cases for the characters of the options. An argument is kept as it is.\<close>

definition fsxfsinfo_switch ::
    "u8 list \<Rightarrow> int \<Rightarrow> u8 list option \<Rightarrow> info_options \<Rightarrow> (exit_status \<times> u8 list) + info_options" where
  "fsxfsinfo_switch package_bugreport option optarg options =
     (if option = 0x42 then Inr (options\<lparr> option_bodyfile := optarg \<rparr>)
      else if option = 0x64 then Inr (options\<lparr> option_calculate_md5 := 1 \<rparr>)
      else if option = 0x45 then
        Inr (options\<lparr> option_mode := FSXFSINFO_MODE_FILE_ENTRY_BY_IDENTIFIER, option_file_entry_identifier := optarg \<rparr>)
      else if option = 0x46 then
        Inr (options\<lparr> option_mode := FSXFSINFO_MODE_FILE_ENTRY_BY_PATH, option_file_entry_path := optarg \<rparr>)
      else if option = 0x68 then Inl (EXIT_SUCCESS, usage_fprint)
      else if option = 0x48 then Inr (options\<lparr> option_mode := FSXFSINFO_MODE_FILE_SYSTEM_HIERARCHY \<rparr>)
      else if option = 0x6f then Inr (options\<lparr> option_volume_offset := optarg \<rparr>)
      else if option = 0x76 then Inr (options\<lparr> option_verbose := True \<rparr>)
      else if option = 0x56 then Inl (EXIT_SUCCESS, fsxfstools_output_copyright_fprint package_bugreport)
      else Inl (EXIT_FAILURE, usage_fprint))"

subsection \<open>The program\<close>

text \<open>
  What the program finds on the system: the files that can be opened, as the input at an offset or as a bodyfile,
  whether the latter can be closed and the input freed, and the texts of the build.
\<close>

record 'h info_system =
  sys_libbfio :: "'h libbfio"
  sys_input :: "u8 list \<Rightarrow> u64 \<Rightarrow> 'h result"
  sys_bodyfile_opens :: "u8 list \<Rightarrow> bool"
  sys_bodyfile_closes :: bool
  sys_input_freed :: "unit result"
  sys_version :: "u8 list"
  sys_package_bugreport :: "u8 list"

text \<open>
  A run gives the status, what is on the console, and the bodyfile where there is one; it is \<open>None\<close> when it does
  not end, and an error only where the behaviour is undefined.
\<close>

type_synonym program_run = "(exit_status \<times> u8 list \<times> u8 list option) result option"

definition program_start :: "'h info_system \<Rightarrow> u8 list" where
  "program_start sys = fsxfstools_output_version_fprint (sys_version sys) (ascii ''fsxfsinfo'')"

definition program_exit :: "'h info_system \<Rightarrow> 'h info_handle \<Rightarrow> exit_status \<Rightarrow> program_run" where
  "program_exit sys info_handle status =
     Some (Inr (status, program_start sys @ ih_notify_stream info_handle, ih_bodyfile_stream info_handle))"

definition program_failed :: "'h info_system \<Rightarrow> 'h info_handle \<Rightarrow> error \<Rightarrow> program_run" where
  "program_failed sys info_handle e =
     (case e of Undefined u \<Rightarrow> Some (Inl (Undefined u)) | _ \<Rightarrow> program_exit sys info_handle EXIT_FAILURE)"

text \<open>The word \<open>all\<close> is no number; a number above 32 bits is refused.\<close>

definition fsxfsinfo_identifier :: "info_options \<Rightarrow> (FSXFSINFO_MODES \<times> u64) result" where
  "fsxfsinfo_identifier options =
     (if option_mode options \<noteq> FSXFSINFO_MODE_FILE_ENTRY_BY_IDENTIFIER then Inr (option_mode options, 0) else
      case option_file_entry_identifier options of
        None \<Rightarrow> Inl Invalid_Value
      | Some identifier \<Rightarrow>
          let string = string_of_buffer identifier in
          if string = ascii ''all'' then Inr (FSXFSINFO_MODE_FILE_ENTRIES, 0) else
          bindE (info_handle_system_string_copy_from_64_bit_in_decimal (string @ [0])) (\<lambda>file_entry_identifier.
          if file_entry_identifier > 0xffffffff then Inl Value_Out_Of_Bounds
          else Inr (FSXFSINFO_MODE_FILE_ENTRY_BY_IDENTIFIER, file_entry_identifier)))"

definition fsxfsinfo_print ::
    "nat \<Rightarrow> 'h info_system \<Rightarrow> 'm info_libraries \<Rightarrow> 's libfdata \<Rightarrow> libuna \<Rightarrow> info_options \<Rightarrow> 'h info_handle
      \<Rightarrow> ('h, unit) printing" where
  "fsxfsinfo_print levels sys il lib una options info_handle =
     (case fsxfsinfo_identifier options of
        Inl e \<Rightarrow> Some (info_handle, Inl e)
      | Inr (mode, file_entry_identifier) \<Rightarrow>
          (case mode of
             FSXFSINFO_MODE_FILE_ENTRIES \<Rightarrow>
               info_handle_file_entries_fprint (sys_libbfio sys) il lib una info_handle
           | FSXFSINFO_MODE_FILE_ENTRY_BY_IDENTIFIER \<Rightarrow>
               print_then (info_handle_file_entry_fprint_by_identifier (sys_libbfio sys) il lib una info_handle
                   file_entry_identifier) (\<lambda>info_handle found.
               Some (info_handle, if found then Inr () else Inl Generic))
           | FSXFSINFO_MODE_FILE_ENTRY_BY_PATH \<Rightarrow>
               (case option_file_entry_path options of
                  None \<Rightarrow> Some (info_handle, Inl Invalid_Value)
                | Some path \<Rightarrow>
                    info_handle_file_entry_fprint_by_path (sys_libbfio sys) il lib una info_handle (string_of_buffer path))
           | FSXFSINFO_MODE_FILE_SYSTEM_HIERARCHY \<Rightarrow>
               info_handle_file_system_hierarchy_fprint levels (sys_libbfio sys) il lib una info_handle
           | FSXFSINFO_MODE_VOLUME \<Rightarrow> info_handle_volume_fprint una info_handle))"

text \<open>An offset that is not a number is left at 0, with a message.\<close>

definition fsxfsinfo_prepare :: "'h info_system \<Rightarrow> info_options \<Rightarrow> 'h info_handle \<Rightarrow> 'h info_handle \<times> unit result" where
  "fsxfsinfo_prepare sys options info_handle =
     (case (case option_bodyfile options of
              None \<Rightarrow> (info_handle, Inr ())
            | Some name \<Rightarrow>
                info_handle_set_bodyfile (sys_bodyfile_opens sys) info_handle (Some (string_of_buffer name))) of
        (info_handle, Inl e) \<Rightarrow> (info_handle, Inl e)
      | (info_handle, Inr _) \<Rightarrow>
          (case option_volume_offset options of
             None \<Rightarrow> (info_handle, Inr ())
           | Some string \<Rightarrow>
               (case info_handle_set_volume_offset info_handle (string_of_buffer string) of
                  (info_handle, Inl (Undefined u)) \<Rightarrow> (info_handle, Inl (Undefined u))
                | (info_handle, _) \<Rightarrow> (info_handle, Inr ()))))"

text \<open>The run after the options were read. What was opened is freed at the end, whatever fails.\<close>

definition fsxfsinfo_run ::
    "nat \<Rightarrow> 'h info_system \<Rightarrow> 'm info_libraries \<Rightarrow> 's libfdata \<Rightarrow> libuna \<Rightarrow> info_options \<Rightarrow> u8 list \<Rightarrow> program_run" where
  "fsxfsinfo_run levels sys il lib una options source =
     (case info_handle_initialize None (option_calculate_md5 options) of
        Inl e \<Rightarrow> Some (Inr (EXIT_FAILURE, program_start sys, None))
      | Inr info_handle \<Rightarrow>
          (case fsxfsinfo_prepare sys options info_handle of
             (info_handle, Inl e) \<Rightarrow> program_failed sys info_handle e
           | (info_handle, Inr _) \<Rightarrow>
               (case info_handle_open_input (sys_libbfio sys) (sys_input sys) info_handle source of
                  (info_handle, Inl e) \<Rightarrow> program_failed sys info_handle e
                | (info_handle, Inr _) \<Rightarrow>
                    (case fsxfsinfo_print levels sys il lib una options info_handle of
                       None \<Rightarrow> None
                     | Some (info_handle, Inl e) \<Rightarrow> program_failed sys info_handle e
                     | Some (info_handle, Inr _) \<Rightarrow>
                         (case info_handle_close_input (sys_libbfio sys) info_handle of
                            (info_handle, Inl e) \<Rightarrow> program_failed sys info_handle e
                          | (info_handle, Inr _) \<Rightarrow>
                              (case info_handle_free (sys_libbfio sys) (sys_bodyfile_closes sys) (sys_input_freed sys)
                                      (Some info_handle) of
                                 Inl e \<Rightarrow> program_failed sys info_handle e
                               | Inr _ \<Rightarrow> program_exit sys info_handle EXIT_SUCCESS))))))"

definition fsxfsinfo_main ::
    "nat \<Rightarrow> 'h info_system \<Rightarrow> 'm info_libraries \<Rightarrow> 's libfdata \<Rightarrow> libuna \<Rightarrow> u8 list list \<Rightarrow> program_run" where
  "fsxfsinfo_main levels sys il lib una argument_values =
     (case options_loop (EXIT_FAILURE, usage_fprint) (fsxfsinfo_switch (sys_package_bugreport sys)) argument_values
             fsxfsinfo_options getopt_initial info_options_initial of
        Inl e \<Rightarrow> Some (Inl e)
      | Inr (st, Inl (status, output)) \<Rightarrow> Some (Inr (status, program_start sys @ output, None))
      | Inr (st, Inr options) \<Rightarrow>
          if go_optind st = length argument_values
          then Some (Inr (EXIT_FAILURE, program_start sys @ usage_fprint, None))
          else fsxfsinfo_run levels sys il lib una options (string_of_buffer (argument_values ! go_optind st)))"

subsection \<open>What the options mean\<close>

text \<open>The options that print something other than what is asked for, or to a file, are not among them.\<close>

definition options_plain :: "(int \<times> u8 list option) list \<Rightarrow> bool" where
  "options_plain options \<longleftrightarrow> (\<forall>(c, a) \<in> set options. c \<noteq> 0x42 \<and> c \<noteq> 0x68 \<and> c \<noteq> 0x56)"

definition requested_mode :: "(int \<times> u8 list option) list \<Rightarrow> FSXFSINFO_MODES" where
  "requested_mode options =
     last_value (\<lambda>c a. if c = 0x45 then Some FSXFSINFO_MODE_FILE_ENTRY_BY_IDENTIFIER
                       else if c = 0x46 then Some FSXFSINFO_MODE_FILE_ENTRY_BY_PATH
                       else if c = 0x48 then Some FSXFSINFO_MODE_FILE_SYSTEM_HIERARCHY else None)
       options FSXFSINFO_MODE_VOLUME"

definition fsxfsinfo_option_known :: "int \<Rightarrow> bool" where
  "fsxfsinfo_option_known c \<longleftrightarrow> c \<in> {0x42, 0x64, 0x45, 0x46, 0x68, 0x48, 0x6f, 0x76, 0x56}"

lemma option_kind_known: "option_kind fsxfsinfo_options c = Some b \<Longrightarrow> fsxfsinfo_option_known (sint c)"
  by (auto simp: option_kind_def search_character_def fsxfsinfo_options_def ascii_def string_of_buffer_def
      fsxfsinfo_option_known_def split: if_split_asm)

lemma group_options_known:
  "option_group_ok fsxfsinfo_options g \<Longrightarrow> \<forall>(c, a) \<in> set (group_options g). fsxfsinfo_option_known c"
  by (cases g) (auto simp: flag_options_def intro: option_kind_known)

lemma fsxfsinfo_options_meaning:
  assumes "options_plain options" and "\<forall>(c, a) \<in> set options. fsxfsinfo_option_known c"
  shows "\<exists>x. options_fold (fsxfsinfo_switch bug) options info_options_initial = Inr x \<and> option_bodyfile x = None \<and>
    option_mode x = requested_mode options \<and> option_volume_offset x = last_argument 0x6f options"
proof -
  have "\<exists>x'. fsxfsinfo_switch bug c a x = Inr x'" if "(c, a) \<in> set options" for c a x
    using that assms by (fastforce simp: options_plain_def fsxfsinfo_option_known_def fsxfsinfo_switch_def)
  then obtain x where x: "options_fold (fsxfsinfo_switch bug) options info_options_initial = Inr x"
    using options_fold_Inr [of options "fsxfsinfo_switch bug" info_options_initial] by auto
  have "option_bodyfile x = last_argument 0x42 options"
    by (rule options_fold_argument [OF _ x])
      (auto simp: fsxfsinfo_switch_def info_options_initial_def split: if_split_asm)
  moreover have "last_argument 0x42 options = None"
    using assms(1) unfolding options_plain_def last_argument_def last_value_def
    by (induction options) auto
  moreover have "option_volume_offset x = last_argument 0x6f options"
    by (rule options_fold_argument [OF _ x])
      (auto simp: fsxfsinfo_switch_def info_options_initial_def split: if_split_asm)
  moreover have "option_mode x = last_value (\<lambda>c a. if c = 0x45 then Some FSXFSINFO_MODE_FILE_ENTRY_BY_IDENTIFIER
      else if c = 0x46 then Some FSXFSINFO_MODE_FILE_ENTRY_BY_PATH
      else if c = 0x48 then Some FSXFSINFO_MODE_FILE_SYSTEM_HIERARCHY else None) options (option_mode info_options_initial)"
    by (rule options_fold_value [OF _ x]) (auto simp: fsxfsinfo_switch_def split: if_split_asm)
  ultimately show ?thesis using x by (simp add: requested_mode_def info_options_initial_def)
qed

lemma fsxfsinfo_prepare_offset:
  assumes "option_bodyfile options = None" and "n < 2 ^ 64" and "ih_volume_offset info_handle = 0"
    and "case option_volume_offset options of None \<Rightarrow> n = 0 | Some s \<Rightarrow> s = decimal_digits n @ [0]"
  shows "fsxfsinfo_prepare sys options info_handle = (info_handle\<lparr> ih_volume_offset := word_of_nat n \<rparr>, Inr ())"
proof -
  have "info_handle_set_volume_offset info_handle (decimal_digits n) =
      (info_handle\<lparr> ih_volume_offset := word_of_nat n \<rparr>, Inr ())"
    using decimal_offset_read [OF assms(2)]
    by (simp add: info_handle_set_volume_offset_def info_handle_system_string_copy_from_64_bit_in_decimal_def)
  then show ?thesis
    using assms by (cases info_handle) (auto simp: fsxfsinfo_prepare_def decimal_digits_buffer split: option.split_asm)
qed

text \<open>
  C23: The tool as a whole: for arguments that ask for the hierarchy, in any writing and order of the options and
  with a volume offset or without, and for a source in which there is a volume at that offset, the
  program succeeds and prints its directory tree, one line for every file.
\<close>

theorem fsxfsinfo_prints_hierarchy:
  fixes sys :: "'h info_system"
  assumes groups: "\<forall>g \<in> set groups. option_group_ok fsxfsinfo_options g" "options = concat (map group_options groups)"
    and asked: "options_plain options" "requested_mode options = FSXFSINFO_MODE_FILE_SYSTEM_HIERARCHY" "offset_given options n" "n < 2 ^ 64"
    and source: "source \<noteq> []" "hd source \<noteq> option_marker" "0 \<notin> set source"
    and volume: "sys_input sys source (word_of_nat n) = Inr h"
      "libfsxfs_volume_open_file_io_handle (sys_libbfio sys) volume_zero h 1 = (v, Inr ())"
      "snd (libfsxfs_volume_close (sys_libbfio sys) v) = Inr ()" "sys_input_freed sys = Inr ()"
    and una: "libuna_codec una encode valid" "libuna_names una (encoded_name encode valid)"
    and root: "libfsxfs_volume_get_root_directory (sys_libbfio sys) lib v = Inr (tree_entry t)"
    and t: "tree_stored lib encode valid t" "tree_levels t \<le> levels"
    and printable: "\<forall>(names, e) \<in> set (tree_nodes [] t). path_printable encode names"
  shows "fsxfsinfo_main levels sys il lib una (program # concat (map group_words groups) @ (source @ [0]) # others) =
    Some (Inr (EXIT_SUCCESS,
      ascii ''fsxfsinfo '' @ sys_version sys @ [newline, newline] @
      title @ ascii ''File system hierarchy:'' @ [newline] @
      concat (map (\<lambda>(names, e). rooted_path (printed_name encode) names @ [newline]) (tree_nodes [] t)) @ [newline],
      None))"
proof -
  let ?argv = "program # concat (map group_words groups) @ (source @ [0]) # others"
  have end0: "options_end ((source @ [0]) # others) = Some 0" using source(1,2) by (cases source) simp_all
  have known: "\<forall>(c, a) \<in> set options. fsxfsinfo_option_known c"
    using groups group_options_known by (fastforce simp: groups(2))
  obtain x where x: "options_fold (fsxfsinfo_switch (sys_package_bugreport sys)) options info_options_initial = Inr x"
    "option_bodyfile x = None" "option_mode x = FSXFSINFO_MODE_FILE_SYSTEM_HIERARCHY"
    "case option_volume_offset x of None \<Rightarrow> n = 0 | Some s \<Rightarrow> s = decimal_digits n @ [0]"
    using fsxfsinfo_options_meaning [OF asked(1) known, of "sys_package_bugreport sys"] asked(2,3)
    by (auto simp: offset_given_def)
  obtain st where st: "go_optind st + length ((source @ [0]) # others) = length ?argv"
    "options_loop (EXIT_FAILURE, usage_fprint) (fsxfsinfo_switch (sys_package_bugreport sys)) ?argv fsxfsinfo_options
       getopt_initial info_options_initial = Inr (st, Inr x)"
    using getopt_written [OF groups(1) end0 refl, of program] x(1)
      options_loop_end [where switch = "fsxfsinfo_switch (sys_package_bugreport sys)" and x = info_options_initial and
        invalid = "(EXIT_FAILURE, usage_fprint)"]
    unfolding groups(2) by fastforce
  have optind: "go_optind st < length ?argv" "?argv ! go_optind st = source @ [0]"
    using st(1) by (simp_all add: nth_Cons' nth_append)
  have buffer: "string_of_buffer (source @ [0]) = source"
    using source(3) by (rule string_of_buffer_terminated)
  have v: "vol_file_io_handle v \<noteq> None" "root_directory_known v"
    using volume_opened_loaded [OF volume(2)] by (auto intro: volume_loaded_root_directory_known)
  obtain v' where close: "libfsxfs_volume_close (sys_libbfio sys) v = (v', Inr ())" "vol_file_io_handle v' = None"
    using volume(3) v(1)
    by (cases "libfsxfs_volume_close (sys_libbfio sys) v")
      (auto simp: libfsxfs_volume_close_def Let_def split: if_split_asm)
  have id: "fsxfsinfo_identifier x = Inr (FSXFSINFO_MODE_FILE_SYSTEM_HIERARCHY, 0)"
    using x(3) by (simp add: fsxfsinfo_identifier_def)
  show ?thesis
    using st(2) optind volume(1,2,4) close
    by (simp add: hierarchy_printed [OF una _ _ v(2) root t printable]
        fsxfsinfo_prepare_offset [OF x(2) asked(4) _ x(4)] fsxfsinfo_main_def fsxfsinfo_run_def buffer info_handle_initialize_def info_handle_open_input_def
        libfsxfs_volume_initialize_def Let_def fsxfsinfo_print_def id info_handle_close_input_def info_handle_free_def
        libfsxfs_volume_free_def program_exit_def program_start_def fsxfstools_output_version_fprint_def
        print_notify_def tree_lines_def ascii_def)
qed

end
