(* ===== verification/Mount_Main.thy ===== *)
theory Mount_Main
  imports Tool_Options Mount_Paths
begin

text \<open>
  The mount tool as a program (\<open>fsxfstools/fsxfsmount.c\<close>), with the version 3 of FUSE: from its options to the loop
  of the FUSE library, which calls the functions of \<open>mount_fuse.c\<close> with the mount handle.
\<close>

subsection \<open>The options\<close>

record mount_options =
  option_extended_options :: "u8 list option"
  option_offset :: "u8 list option"
  option_foreground :: bool

definition mount_options_initial :: mount_options where
  "mount_options_initial = \<lparr> option_extended_options = None, option_offset = None, option_foreground = False \<rparr>"

definition mount_usage_fprint :: "u8 list" where
  "mount_usage_fprint =
     ascii ''Use fsxfsmount to mount a X File System (XFS) volume'' @ [newline, newline] @
     ascii ''Usage: fsxfsmount [ -o offset ] [ -X extended_options ]'' @ [newline] @
     ascii ''                  [ -hvV ] volume mount_point'' @ [newline, newline] @
     tabs 1 @ ascii ''volume:      a X File System (XFS) volume'' @ [newline, newline] @
     tabs 1 @ ascii ''mount_point: the directory to serve as mount point'' @ [newline, newline] @
     tabs 1 @ ascii ''-h:          shows this help'' @ [newline] @
     tabs 1 @ ascii ''-o:          specify the volume offset in bytes'' @ [newline] @
     tabs 1 @ ascii ''-v:          verbose output to stderr, while fsxfsmount will remain running in the'' @ [newline] @
     tabs 1 @ ascii ''             foreground'' @ [newline] @
     tabs 1 @ ascii ''-V:          print version'' @ [newline] @
     tabs 1 @ ascii ''-X:          extended options to pass to sub system'' @ [newline]"

definition fsxfsmount_options :: "u8 list" where
  "fsxfsmount_options = ascii ''ho:vVX:'' @ [0]"

definition fsxfsmount_switch ::
    "u8 list \<Rightarrow> int \<Rightarrow> u8 list option \<Rightarrow> mount_options \<Rightarrow> (exit_status \<times> u8 list) + mount_options" where
  "fsxfsmount_switch package_bugreport option optarg options =
     (if option = 0x68 then Inl (EXIT_SUCCESS, mount_usage_fprint)
      else if option = 0x6f then Inr (options\<lparr> option_offset := optarg \<rparr>)
      else if option = 0x76 then Inr (options\<lparr> option_foreground := True \<rparr>)
      else if option = 0x56 then Inl (EXIT_SUCCESS, fsxfstools_output_copyright_fprint package_bugreport)
      else if option = 0x58 then Inr (options\<lparr> option_extended_options := optarg \<rparr>)
      else Inl (EXIT_FAILURE, mount_usage_fprint))"

subsection \<open>The program\<close>

text \<open>
  What is asked of FUSE: \<open>fuse_new\<close> with the arguments and the handle, \<open>fuse_mount\<close> with the mount point, and whether
  arguments are added, the program goes to the background, and the loop ends without an error.
\<close>

record 'h fuse_library =
  fuse_opt_add_arg :: "u8 list list \<Rightarrow> u8 list \<Rightarrow> bool"
  fuse_new :: "u8 list list \<Rightarrow> 'h mount_handle \<Rightarrow> bool"
  fuse_mount :: "u8 list \<Rightarrow> bool"
  fuse_daemonize :: bool
  fuse_loop :: bool

record 'h mount_system =
  ms_libbfio :: "'h libbfio"
  ms_input :: "u8 list \<Rightarrow> u64 \<Rightarrow> 'h result"
  ms_clock :: "(u64 \<times> u64) option"
  ms_fuse :: "'h fuse_library"
  ms_version :: "u8 list"
  ms_package_bugreport :: "u8 list"

text \<open>
  A run gives the status, what is on the console and, when the loop of FUSE was run, the handle, the arguments and the
  mount point it was run with.
\<close>

type_synonym 'h mount_run = "(exit_status \<times> u8 list \<times> ('h mount_handle \<times> u8 list list \<times> u8 list) option) result"

definition mount_program_start :: "'h mount_system \<Rightarrow> u8 list" where
  "mount_program_start sys = fsxfstools_output_version_fprint (ms_version sys) (ascii ''fsxfsmount'')"

definition mount_program_failed :: "'h mount_system \<Rightarrow> error \<Rightarrow> 'h mount_run" where
  "mount_program_failed sys e =
     (case e of Undefined u \<Rightarrow> Inl (Undefined u) | _ \<Rightarrow> Inr (EXIT_FAILURE, mount_program_start sys, None))"

fun fuse_add_arguments :: "'h fuse_library \<Rightarrow> u8 list list \<Rightarrow> u8 list list \<Rightarrow> u8 list list option" where
  "fuse_add_arguments fuse arguments [] = Some arguments"
| "fuse_add_arguments fuse arguments (arg # args) =
     (if fuse_opt_add_arg fuse arguments arg then fuse_add_arguments fuse (arguments @ [arg]) args else None)"

definition fsxfsmount_serve ::
    "'h mount_system \<Rightarrow> mount_options \<Rightarrow> 'h mount_handle \<Rightarrow> u8 list \<Rightarrow> 'h mount_run" where
  "fsxfsmount_serve sys options mount_handle mount_point =
     (case fuse_add_arguments (ms_fuse sys) [ascii ''fsxfsmount'']
             (case option_extended_options options of
                None \<Rightarrow> [] | Some s \<Rightarrow> [[], ascii ''-o'', string_of_buffer s]) of
        None \<Rightarrow> mount_program_failed sys Generic
      | Some arguments \<Rightarrow>
          if \<not> fuse_new (ms_fuse sys) arguments mount_handle then mount_program_failed sys Generic
          else if \<not> fuse_mount (ms_fuse sys) mount_point then mount_program_failed sys Generic
          else if \<not> option_foreground options \<and> \<not> fuse_daemonize (ms_fuse sys) then mount_program_failed sys Generic
          else Inr (if fuse_loop (ms_fuse sys) then EXIT_SUCCESS else EXIT_FAILURE, mount_program_start sys,
                    Some (mount_handle, arguments, mount_point)))"

text \<open>Here, an offset that is not a number ends the program.\<close>

definition fsxfsmount_run ::
    "'h mount_system \<Rightarrow> mount_options \<Rightarrow> u8 list \<Rightarrow> u8 list \<Rightarrow> 'h mount_run" where
  "fsxfsmount_run sys options source mount_point =
     (case mount_handle_initialize (ms_clock sys) None of
        Inl e \<Rightarrow> mount_program_failed sys e
      | Inr mount_handle \<Rightarrow>
          (case (case option_offset options of
                   None \<Rightarrow> (mount_handle, Inr ())
                 | Some s \<Rightarrow> mount_handle_set_offset mount_handle (string_of_buffer s)) of
             (mount_handle, Inl e) \<Rightarrow> mount_program_failed sys e
           | (mount_handle, Inr _) \<Rightarrow>
               (case mount_handle_open (ms_libbfio sys) (ms_input sys) mount_handle source of
                  (mount_handle, Inl e) \<Rightarrow> mount_program_failed sys e
                | (mount_handle, Inr _) \<Rightarrow> fsxfsmount_serve sys options mount_handle mount_point)))"

definition fsxfsmount_main :: "'h mount_system \<Rightarrow> u8 list list \<Rightarrow> 'h mount_run" where
  "fsxfsmount_main sys argument_values =
     (case options_loop (EXIT_FAILURE, mount_usage_fprint) (fsxfsmount_switch (ms_package_bugreport sys)) argument_values
             fsxfsmount_options getopt_initial mount_options_initial of
        Inl e \<Rightarrow> Inl e
      | Inr (st, Inl (status, output)) \<Rightarrow> Inr (status, mount_program_start sys @ output, None)
      | Inr (st, Inr options) \<Rightarrow>
          let missing = Inr (EXIT_FAILURE, mount_program_start sys @ mount_usage_fprint, None) in
          if go_optind st = length argument_values then missing
          else if go_optind st + 1 = length argument_values then missing
          else fsxfsmount_run sys options (string_of_buffer (argument_values ! go_optind st))
            (string_of_buffer (argument_values ! (go_optind st + 1))))"

subsection \<open>What is served\<close>

definition fsxfsmount_option_known :: "int \<Rightarrow> bool" where
  "fsxfsmount_option_known c \<longleftrightarrow> c \<in> {0x68, 0x6f, 0x76, 0x56, 0x58}"

lemma mount_option_kind_known: "option_kind fsxfsmount_options c = Some b \<Longrightarrow> fsxfsmount_option_known (sint c)"
  by (auto simp: option_kind_def search_character_def fsxfsmount_options_def ascii_def string_of_buffer_def
      fsxfsmount_option_known_def split: if_split_asm)

lemma mount_group_options_known:
  "option_group_ok fsxfsmount_options g \<Longrightarrow> \<forall>(c, a) \<in> set (group_options g). fsxfsmount_option_known c"
  by (cases g) (auto simp: flag_options_def intro: mount_option_kind_known)

lemma fsxfsmount_options_meaning:
  assumes "\<forall>(c, a) \<in> set options. fsxfsmount_option_known c \<and> c \<noteq> 0x68 \<and> c \<noteq> 0x56"
  shows "\<exists>x. options_fold (fsxfsmount_switch bug) options mount_options_initial = Inr x \<and>
    option_extended_options x = last_argument 0x58 options \<and> option_offset x = last_argument 0x6f options"
proof -
  have "\<exists>x'. fsxfsmount_switch bug c a x = Inr x'" if "(c, a) \<in> set options" for c a x
    using that assms by (fastforce simp: fsxfsmount_option_known_def fsxfsmount_switch_def)
  then obtain x where x: "options_fold (fsxfsmount_switch bug) options mount_options_initial = Inr x"
    using options_fold_Inr [of options "fsxfsmount_switch bug" mount_options_initial] by auto
  have "option_extended_options x = last_argument 0x58 options" "option_offset x = last_argument 0x6f options"
    by (rule options_fold_argument [OF _ x];
        auto simp: fsxfsmount_switch_def mount_options_initial_def split: if_split_asm)+
  with x show ?thesis by blast
qed

definition fuse_ready :: "'h fuse_library \<Rightarrow> bool" where
  "fuse_ready fuse \<longleftrightarrow> (\<forall>args arg. fuse_opt_add_arg fuse args arg) \<and> (\<forall>args handle. fuse_new fuse args handle) \<and>
     (\<forall>mount_point. fuse_mount fuse mount_point) \<and> fuse_daemonize fuse \<and> fuse_loop fuse"

lemma fuse_ready_arguments: "fuse_ready fuse \<Longrightarrow> fuse_add_arguments fuse xs ys = Some (xs @ ys)"
  by (induction ys arbitrary: xs) (simp_all add: fuse_ready_def)

lemma fsxfsmount_run_offset:
  fixes sys :: "'h mount_system"
  assumes "case option_offset options of None \<Rightarrow> n = 0 | Some s \<Rightarrow> s = decimal_digits n @ [0]" and "n < 2 ^ 64"
    and "ms_clock sys \<noteq> None" and "ms_input sys source (word_of_nat n) = Inr h"
    and "libfsxfs_volume_open_file_io_handle (ms_libbfio sys) volume_zero h 1 = (v, Inr ())"
  shows "\<exists>mount_handle. fsxfsmount_run sys options source mount_point =
      fsxfsmount_serve sys options mount_handle mount_point \<and>
    mfs_fsxfs_volume (mh_file_system mount_handle) = Some v \<and> mh_volume_offset mount_handle = word_of_nat n"
proof -
  obtain mount_handle :: "'h mount_handle" where i: "mount_handle_initialize (ms_clock sys) None = Inr mount_handle"
    "mh_volume_offset mount_handle = 0"
    using assms(3) by (auto simp: mount_handle_initialize_def mount_file_system_initialize_def)
  have "(case option_offset options of None \<Rightarrow> (mount_handle, Inr ())
      | Some s \<Rightarrow> mount_handle_set_offset mount_handle (string_of_buffer s)) =
    (mount_handle\<lparr> mh_volume_offset := word_of_nat n \<rparr>, Inr ())"
    using assms(1,2) i(2) decimal_offset_read [of n]
    by (cases mount_handle) (auto simp: mount_handle_set_offset_def decimal_digits_buffer split: option.split_asm)
  then show ?thesis
    using assms(4,5) i(1)
    by (auto simp: fsxfsmount_run_def mount_handle_open_def libfsxfs_volume_initialize_def mount_file_system_set_volume_def)
qed

text \<open>
  C24: The tool as a whole: for a source in which there is a volume at the offset that the options give, FUSE is run
  with a handle that has this volume, open and with all that was read of it, on the mount point and with the
  extended options that were given last.
\<close>

theorem fsxfsmount_serves_volume:
  fixes sys :: "'h mount_system"
  assumes groups: "\<forall>g \<in> set groups. option_group_ok fsxfsmount_options g" "options = concat (map group_options groups)"
    and asked: "\<forall>(c, a) \<in> set options. c \<noteq> 0x68 \<and> c \<noteq> 0x56" "offset_given options n" "n < 2 ^ 64"
    and source: "source \<noteq> []" "hd source \<noteq> option_marker" "0 \<notin> set source" "0 \<notin> set mount_point"
    and volume: "ms_input sys source (word_of_nat n) = Inr h"
      "libfsxfs_volume_open_file_io_handle (ms_libbfio sys) volume_zero h 1 = (v, Inr ())"
    and fuse: "ms_clock sys \<noteq> None" "fuse_ready (ms_fuse sys)"
  shows "\<exists>mount_handle. fsxfsmount_main sys
        (program # concat (map group_words groups) @ [source @ [0], mount_point @ [0]]) =
      Inr (EXIT_SUCCESS, ascii ''fsxfsmount '' @ ms_version sys @ [newline, newline], Some (mount_handle,
        ascii ''fsxfsmount'' # (case last_argument 0x58 options of
          None \<Rightarrow> [] | Some s \<Rightarrow> [[], ascii ''-o'', string_of_buffer s]), mount_point)) \<and>
    mfs_fsxfs_volume (mh_file_system mount_handle) = Some v \<and> vol_file_io_handle v \<noteq> None \<and> volume_loaded v"
proof -
  let ?argv = "program # concat (map group_words groups) @ [source @ [0], mount_point @ [0]]"
  have end0: "options_end [source @ [0], mount_point @ [0]] = Some 0" using source(1,2) by (cases source) simp_all
  have "\<forall>(c, a) \<in> set options. fsxfsmount_option_known c \<and> c \<noteq> 0x68 \<and> c \<noteq> 0x56"
    using groups asked(1) mount_group_options_known by (fastforce simp: groups(2))
  then obtain x where x: "options_fold (fsxfsmount_switch (ms_package_bugreport sys)) options mount_options_initial = Inr x"
    "option_extended_options x = last_argument 0x58 options" "option_offset x = last_argument 0x6f options"
    using fsxfsmount_options_meaning by blast
  obtain st where st: "go_optind st + length [source @ [0], mount_point @ [0]] = length ?argv"
    "options_loop (EXIT_FAILURE, mount_usage_fprint) (fsxfsmount_switch (ms_package_bugreport sys)) ?argv
       fsxfsmount_options getopt_initial mount_options_initial = Inr (st, Inr x)"
    using getopt_written [OF groups(1) end0 refl, of program] x(1)
      options_loop_end [where switch = "fsxfsmount_switch (ms_package_bugreport sys)" and x = mount_options_initial and
        invalid = "(EXIT_FAILURE, mount_usage_fprint)"]
    unfolding groups(2) by fastforce
  have optind: "go_optind st + 1 < length ?argv" "?argv ! go_optind st = source @ [0]"
    "?argv ! (go_optind st + 1) = mount_point @ [0]"
    using st(1) by (simp_all add: nth_Cons' nth_append)
  obtain mount_handle where run: "fsxfsmount_run sys x source mount_point = fsxfsmount_serve sys x mount_handle mount_point"
    "mfs_fsxfs_volume (mh_file_system mount_handle) = Some v"
    using fsxfsmount_run_offset [OF _ asked(3) fuse(1) volume, of x mount_point] asked(2) x(3)
    by (auto simp: offset_given_def)
  have buffers: "string_of_buffer (source @ [0]) = source" "string_of_buffer (mount_point @ [0]) = mount_point"
    using source(3,4) by (simp_all add: string_of_buffer_terminated)
  have "fsxfsmount_main sys ?argv = fsxfsmount_serve sys x mount_handle mount_point"
    using st(2) optind run(1) by (simp add: fsxfsmount_main_def buffers Let_def)
  also have "\<dots> = Inr (EXIT_SUCCESS, ascii ''fsxfsmount '' @ ms_version sys @ [newline, newline], Some (mount_handle,
        ascii ''fsxfsmount'' # (case last_argument 0x58 options of
          None \<Rightarrow> [] | Some s \<Rightarrow> [[], ascii ''-o'', string_of_buffer s]), mount_point))"
    using fuse(2)
    by (simp add: fsxfsmount_serve_def fuse_ready_arguments x(2))
      (simp add: fuse_ready_def mount_program_start_def fsxfstools_output_version_fprint_def ascii_def)
  finally show ?thesis
    using run(2) volume_opened_loaded [OF volume(2)] by blast
qed

end
