(* ===== verification/Device_File.thy ===== *)
theory Device_File
  imports Volume Stream_Reading
begin

text \<open>
  The file of a device (\<open>FDXFSInfo/FDXFSFileDev.cpp\<close>): a handle of the \<open>libbfio\<close> library that gives a range of
  a file, from an offset on and of a size, or up to the end of the file with the size 0.
\<close>

subsection \<open>The file\<close>

text \<open>
  The file itself is read by the library, a parameter: \<open>'f\<close> is the type of its handles. A handle is returned as
  the call leaves it. The offset -1, the error return, is an error. A call that writes returns how many bytes
  of the buffer it has taken.
\<close>

record 'f libbfio_file =
  file_io_handle_initialize :: "'f result"
  file_io_handle_free :: "'f \<Rightarrow> unit result"
  file_io_handle_clone :: "'f \<Rightarrow> 'f result"
  file_io_handle_get_name_size :: "'f \<Rightarrow> nat result"
  file_io_handle_get_name :: "'f \<Rightarrow> nat \<Rightarrow> u8 list result"
  file_io_handle_set_name :: "'f \<Rightarrow> u8 list \<Rightarrow> 'f \<times> unit result"
  file_io_handle_get_name_size_wide :: "'f \<Rightarrow> nat result"
  file_io_handle_get_name_wide :: "'f \<Rightarrow> nat \<Rightarrow> u16 list result"
  file_io_handle_set_name_wide :: "'f \<Rightarrow> u16 list \<Rightarrow> 'f \<times> unit result"
  file_io_handle_open :: "'f \<Rightarrow> u32 \<Rightarrow> 'f \<times> unit result"
  file_io_handle_close :: "'f \<Rightarrow> 'f \<times> unit result"
  file_io_handle_read_buffer :: "'f \<Rightarrow> u64 \<Rightarrow> 'f \<times> u8 list result"
  file_io_handle_write_buffer :: "'f \<Rightarrow> u8 list \<Rightarrow> u64 \<Rightarrow> 'f \<times> nat result"
  file_io_handle_seek_offset :: "'f \<Rightarrow> u64 \<Rightarrow> nat \<Rightarrow> 'f \<times> u64 result"
  file_io_handle_exists :: "'f \<Rightarrow> bool result"
  file_io_handle_is_open :: "'f \<Rightarrow> bool result"
  file_io_handle_get_size :: "'f \<Rightarrow> u64 result"
  handle_initialize :: "unit result"

abbreviation (input) SEEK_SET :: nat where "SEEK_SET \<equiv> 0"
abbreviation (input) SEEK_CUR :: nat where "SEEK_CUR \<equiv> 1"
abbreviation (input) SEEK_END :: nat where "SEEK_END \<equiv> 2"

subsection \<open>The handle of a range\<close>

record 'f file_dev_handle =
  fd_file_io_handle :: 'f
  fd_range_offset :: u64
  fd_range_size :: u64

definition DeviceIO_Initialize :: "'f libbfio_file \<Rightarrow> 'f file_dev_handle option \<Rightarrow> 'f file_dev_handle result" where
  "DeviceIO_Initialize lib pointer =
     (case pointer of
        Some _ \<Rightarrow> Inl Value_Already_Set
      | None \<Rightarrow>
          bindE (file_io_handle_initialize lib) (\<lambda>file_io_handle.
          Inr \<lparr> fd_file_io_handle = file_io_handle, fd_range_offset = 0, fd_range_size = 0 \<rparr>))"

definition DeviceIO_Free :: "'f libbfio_file \<Rightarrow> 'f file_dev_handle option \<Rightarrow> unit result" where
  "DeviceIO_Free lib pointer =
     (case pointer of None \<Rightarrow> Inr () | Some dev \<Rightarrow> file_io_handle_free lib (fd_file_io_handle dev))"

definition DeviceIO_Clone ::
    "'f libbfio_file \<Rightarrow> 'f file_dev_handle option \<Rightarrow> 'f file_dev_handle option \<Rightarrow> 'f file_dev_handle option result" where
  "DeviceIO_Clone lib destination source =
     (if destination \<noteq> None then Inl Value_Already_Set else
      case source of
        None \<Rightarrow> Inr None
      | Some dev \<Rightarrow>
          bindE (file_io_handle_clone lib (fd_file_io_handle dev)) (\<lambda>file_io_handle.
          Inr (Some \<lparr> fd_file_io_handle = file_io_handle, fd_range_offset = fd_range_offset dev,
                      fd_range_size = fd_range_size dev \<rparr>)))"

text \<open>What changes the handle of the file leaves the range as it is.\<close>

definition with_device_file :: "('f \<Rightarrow> 'f \<times> 'a result) \<Rightarrow> 'f file_dev_handle \<Rightarrow> 'f file_dev_handle \<times> 'a result" where
  "with_device_file f dev =
     (case f (fd_file_io_handle dev) of (file_io_handle, r) \<Rightarrow> (dev\<lparr> fd_file_io_handle := file_io_handle \<rparr>, r))"

definition DeviceIO_GetNameSize :: "'f libbfio_file \<Rightarrow> 'f file_dev_handle \<Rightarrow> nat result" where
  "DeviceIO_GetNameSize lib dev = file_io_handle_get_name_size lib (fd_file_io_handle dev)"

definition DeviceIO_GetName :: "'f libbfio_file \<Rightarrow> 'f file_dev_handle \<Rightarrow> nat \<Rightarrow> u8 list result" where
  "DeviceIO_GetName lib dev name_size = file_io_handle_get_name lib (fd_file_io_handle dev) name_size"

definition DeviceIO_GetNameSizeWide :: "'f libbfio_file \<Rightarrow> 'f file_dev_handle \<Rightarrow> nat result" where
  "DeviceIO_GetNameSizeWide lib dev = file_io_handle_get_name_size_wide lib (fd_file_io_handle dev)"

definition DeviceIO_GetNameWide :: "'f libbfio_file \<Rightarrow> 'f file_dev_handle \<Rightarrow> nat \<Rightarrow> u16 list result" where
  "DeviceIO_GetNameWide lib dev name_size = file_io_handle_get_name_wide lib (fd_file_io_handle dev) name_size"

definition DeviceIO_SetNameWide ::
    "'f libbfio_file \<Rightarrow> 'f file_dev_handle \<Rightarrow> u16 list \<Rightarrow> 'f file_dev_handle \<times> unit result" where
  "DeviceIO_SetNameWide lib dev name = with_device_file (\<lambda>f. file_io_handle_set_name_wide lib f name) dev"

definition DeviceIO_SetName ::
    "'f libbfio_file \<Rightarrow> 'f file_dev_handle \<Rightarrow> u8 list \<Rightarrow> 'f file_dev_handle \<times> unit result" where
  "DeviceIO_SetName lib dev name = with_device_file (\<lambda>f. file_io_handle_set_name lib f name) dev"

definition DeviceIO_Get :: "'f file_dev_handle \<Rightarrow> u64 \<times> u64" where
  "DeviceIO_Get dev = (fd_range_offset dev, fd_range_size dev)"

definition DeviceIO_Set :: "'f file_dev_handle \<Rightarrow> u64 \<Rightarrow> u64 \<Rightarrow> 'f file_dev_handle \<times> unit result" where
  "DeviceIO_Set dev range_offset range_size =
     (if sint range_offset < 0 then (dev, Inl Value_Less_Than_Zero) else
      if unat range_size > INT64_MAX then (dev, Inl Value_Exceeds_Maximum) else
      (dev\<lparr> fd_range_offset := range_offset, fd_range_size := range_size \<rparr>, Inr ()))"

text \<open>The offset is compared as a signed number. A file whose range is refused stays open.\<close>

definition DeviceIO_Open ::
    "'f libbfio_file \<Rightarrow> 'f file_dev_handle \<Rightarrow> u32 \<Rightarrow> 'f file_dev_handle \<times> unit result" where
  "DeviceIO_Open lib dev access_flags =
     (case with_device_file (\<lambda>f. file_io_handle_open lib f access_flags) dev of
        (dev, Inl e) \<Rightarrow> (dev, Inl e)
      | (dev, Inr _) \<Rightarrow>
          (case file_io_handle_get_size lib (fd_file_io_handle dev) of
             Inl e \<Rightarrow> (dev, Inl e)
           | Inr file_size \<Rightarrow>
               if sint (fd_range_offset dev) \<ge> sint file_size then (dev, Inl Value_Out_Of_Bounds) else
               if fd_range_size dev > file_size - fd_range_offset dev then (dev, Inl Value_Out_Of_Bounds) else
               (case with_device_file (\<lambda>f. file_io_handle_seek_offset lib f (fd_range_offset dev) SEEK_SET) dev of
                  (dev, Inl e) \<Rightarrow> (dev, Inl e)
                | (dev, Inr _) \<Rightarrow> (dev, Inr ()))))"

definition DeviceIO_Close :: "'f libbfio_file \<Rightarrow> 'f file_dev_handle \<Rightarrow> 'f file_dev_handle \<times> unit result" where
  "DeviceIO_Close lib dev = with_device_file (file_io_handle_close lib) dev"

text \<open>
  The size that is read is the one asked for, or what the code computes as left in the range. The current offset
  and the sum are those of the file, the size that they are compared with is that of the range.
\<close>

definition device_transfer_size :: "'f file_dev_handle \<Rightarrow> u64 \<Rightarrow> u64 \<Rightarrow> u64 result" where
  "device_transfer_size dev file_offset buffer_size =
     (if sint file_offset < sint (fd_range_offset dev) then Inl Value_Out_Of_Bounds else
      if fd_range_size dev = 0 then Inr buffer_size else
      if file_offset + buffer_size \<ge> fd_range_size dev then Inr (fd_range_offset dev - file_offset) else Inr buffer_size)"

definition device_at_end :: "'f file_dev_handle \<Rightarrow> u64 \<Rightarrow> bool" where
  "device_at_end dev file_offset \<longleftrightarrow>
     sint file_offset \<ge> sint (fd_range_offset dev) \<and> fd_range_size dev \<noteq> 0 \<and> file_offset \<ge> fd_range_size dev"

definition DeviceIO_Read ::
    "'f libbfio_file \<Rightarrow> 'f file_dev_handle \<Rightarrow> u64 \<Rightarrow> 'f file_dev_handle \<times> u8 list result" where
  "DeviceIO_Read lib dev buffer_size =
     (case with_device_file (\<lambda>f. file_io_handle_seek_offset lib f 0 SEEK_CUR) dev of
        (dev, Inl e) \<Rightarrow> (dev, Inl e)
      | (dev, Inr file_offset) \<Rightarrow>
          if device_at_end dev file_offset then (dev, Inr []) else
          (case device_transfer_size dev file_offset buffer_size of
             Inl e \<Rightarrow> (dev, Inl e)
           | Inr transfer_size \<Rightarrow>
               (case with_device_file (\<lambda>f. file_io_handle_read_buffer lib f transfer_size) dev of
                  (dev, Inl e) \<Rightarrow> (dev, Inl e)
                | (dev, Inr bs) \<Rightarrow>
                    (dev, if length bs > unat buffer_size then Inl (Undefined Out_Of_Bounds_Write) else Inr bs))))"

definition DeviceIO_Write ::
    "'f libbfio_file \<Rightarrow> 'f file_dev_handle \<Rightarrow> u8 list \<Rightarrow> 'f file_dev_handle \<times> nat result" where
  "DeviceIO_Write lib dev buffer =
     (case with_device_file (\<lambda>f. file_io_handle_seek_offset lib f 0 SEEK_CUR) dev of
        (dev, Inl e) \<Rightarrow> (dev, Inl e)
      | (dev, Inr file_offset) \<Rightarrow>
          if device_at_end dev file_offset then (dev, Inr 0) else
          (case device_transfer_size dev file_offset (word_of_nat (length buffer)) of
             Inl e \<Rightarrow> (dev, Inl e)
           | Inr transfer_size \<Rightarrow>
               (case with_device_file (\<lambda>f. file_io_handle_write_buffer lib f buffer transfer_size) dev of
                  (dev, Inl e) \<Rightarrow> (dev, Inl e)
                | (dev, Inr n) \<Rightarrow>
                    (dev, if n > length buffer then Inl (Undefined Out_Of_Bounds_Read) else Inr n))))"

text \<open>The offset and how it is to be sought: from the start of the file, or from its end.\<close>

definition device_seek_target ::
    "'f libbfio_file \<Rightarrow> 'f file_dev_handle \<Rightarrow> u64 \<Rightarrow> nat \<Rightarrow> 'f file_dev_handle \<times> (u64 \<times> nat) result" where
  "device_seek_target lib dev offset whence =
     (if whence \<noteq> SEEK_CUR \<and> whence \<noteq> SEEK_END \<and> whence \<noteq> SEEK_SET then (dev, Inl Unsupported_Value) else
      if whence = SEEK_CUR then
        (case with_device_file (\<lambda>f. file_io_handle_seek_offset lib f 0 SEEK_CUR) dev of
           (dev, Inl e) \<Rightarrow> (dev, Inl e)
         | (dev, Inr file_offset) \<Rightarrow> (dev, Inr (offset + file_offset, SEEK_SET)))
      else if whence = SEEK_END then
        (if fd_range_size dev \<noteq> 0 then (dev, Inr (offset + fd_range_size dev, SEEK_SET))
         else (dev, Inr (offset, SEEK_END)))
      else (dev, Inr (offset + fd_range_offset dev, SEEK_SET)))"

definition DeviceIO_Seek ::
    "'f libbfio_file \<Rightarrow> 'f file_dev_handle \<Rightarrow> u64 \<Rightarrow> nat \<Rightarrow> 'f file_dev_handle \<times> u64 result" where
  "DeviceIO_Seek lib dev offset whence =
     (case device_seek_target lib dev offset whence of
        (dev, Inl e) \<Rightarrow> (dev, Inl e)
      | (dev, Inr (offset, whence)) \<Rightarrow>
          if whence = SEEK_SET \<and> sint offset < sint (fd_range_offset dev) then (dev, Inl Value_Out_Of_Bounds) else
          (case with_device_file (\<lambda>f. file_io_handle_seek_offset lib f offset whence) dev of
             (dev, Inl e) \<Rightarrow> (dev, Inl e)
           | (dev, Inr seek_offset) \<Rightarrow>
               if sint seek_offset < sint (fd_range_offset dev) then (dev, Inl Value_Out_Of_Bounds)
               else (dev, Inr (seek_offset - fd_range_offset dev))))"

definition DeviceIO_Exists :: "'f libbfio_file \<Rightarrow> 'f file_dev_handle \<Rightarrow> bool result" where
  "DeviceIO_Exists lib dev = file_io_handle_exists lib (fd_file_io_handle dev)"

definition DeviceIO_IsOpen :: "'f libbfio_file \<Rightarrow> 'f file_dev_handle \<Rightarrow> bool result" where
  "DeviceIO_IsOpen lib dev = file_io_handle_is_open lib (fd_file_io_handle dev)"

text \<open>
  The call that gets the size of the file is commented out: without a size of the range the offset is taken from
  what the variable of the caller holds, \<open>None\<close> when nothing was stored in it.
\<close>

definition DeviceIO_GetSize :: "'f file_dev_handle \<Rightarrow> u64 option \<Rightarrow> u64 result" where
  "DeviceIO_GetSize dev stored =
     (if fd_range_size dev = 0 then
        (case stored of None \<Rightarrow> Inl (Undefined Uninitialized_Read) | Some stored_size \<Rightarrow> Inr (stored_size - fd_range_offset dev))
      else Inr (fd_range_size dev))"

subsection \<open>The device as a file of the library\<close>

text \<open>
  The functions from \<open>file_dev_initialize\<close> on find the handle of the range in the handle of \<open>libbfio\<close> that was made of it; the
  latter is that of the range here. \<open>None\<close> is the null pointer.
\<close>

definition file_dev_initialize :: "'f libbfio_file \<Rightarrow> 'f file_dev_handle option \<Rightarrow> 'f file_dev_handle result" where
  "file_dev_initialize lib handle =
     (case handle of
        Some _ \<Rightarrow> Inl Value_Already_Set
      | None \<Rightarrow>
          bindE (DeviceIO_Initialize lib None) (\<lambda>file_range_io_handle.
          bindE (handle_initialize lib) (\<lambda>_. Inr file_range_io_handle)))"

definition on_handle :: "('d \<Rightarrow> 'a result) \<Rightarrow> 'd option \<Rightarrow> 'a result" where
  "on_handle f handle = (case handle of None \<Rightarrow> Inl Invalid_Value | Some dev \<Rightarrow> f dev)"

definition change_handle :: "('d \<Rightarrow> 'd \<times> unit result) \<Rightarrow> 'd option \<Rightarrow> 'd option \<times> unit result" where
  "change_handle f handle =
     (case handle of
        None \<Rightarrow> (None, Inl Invalid_Value)
      | Some dev \<Rightarrow> (case f dev of (dev, r) \<Rightarrow> (Some dev, r)))"

definition file_dev_get_name :: "'f libbfio_file \<Rightarrow> 'f file_dev_handle option \<Rightarrow> nat \<Rightarrow> u8 list result" where
  "file_dev_get_name lib handle name_size = on_handle (\<lambda>dev. DeviceIO_GetName lib dev name_size) handle"

definition file_dev_get_name_size :: "'f libbfio_file \<Rightarrow> 'f file_dev_handle option \<Rightarrow> nat result" where
  "file_dev_get_name_size lib handle = on_handle (DeviceIO_GetNameSize lib) handle"

definition file_dev_get_name_wide :: "'f libbfio_file \<Rightarrow> 'f file_dev_handle option \<Rightarrow> nat \<Rightarrow> u16 list result" where
  "file_dev_get_name_wide lib handle name_size = on_handle (\<lambda>dev. DeviceIO_GetNameWide lib dev name_size) handle"

definition file_dev_get_name_size_wide :: "'f libbfio_file \<Rightarrow> 'f file_dev_handle option \<Rightarrow> nat result" where
  "file_dev_get_name_size_wide lib handle = on_handle (DeviceIO_GetNameSizeWide lib) handle"

definition file_dev_get :: "'f file_dev_handle option \<Rightarrow> (u64 \<times> u64) result" where
  "file_dev_get handle = on_handle (\<lambda>dev. Inr (DeviceIO_Get dev)) handle"

definition file_dev_set ::
    "'f file_dev_handle option \<Rightarrow> u64 \<Rightarrow> u64 \<Rightarrow> 'f file_dev_handle option \<times> unit result" where
  "file_dev_set handle range_offset range_size =
     change_handle (\<lambda>dev. DeviceIO_Set dev range_offset range_size) handle"

definition file_dev_set_name ::
    "'f libbfio_file \<Rightarrow> 'f file_dev_handle option \<Rightarrow> u8 list \<Rightarrow> 'f file_dev_handle option \<times> unit result" where
  "file_dev_set_name lib handle name = change_handle (\<lambda>dev. DeviceIO_SetName lib dev name) handle"

definition file_dev_set_name_wide ::
    "'f libbfio_file \<Rightarrow> 'f file_dev_handle option \<Rightarrow> u16 list \<Rightarrow> 'f file_dev_handle option \<times> unit result" where
  "file_dev_set_name_wide lib handle name = change_handle (\<lambda>dev. DeviceIO_SetNameWide lib dev name) handle"

text \<open>The devices that were opened, by their labels. A device is entered before its handle is made.\<close>

type_synonym 'f block_devices = "u8 list \<rightharpoonup> 'f file_dev_handle option"

definition open_blockdev ::
    "'f libbfio_file \<Rightarrow> 'f block_devices \<Rightarrow> u8 list \<Rightarrow> 'f block_devices \<times> 'f file_dev_handle option option" where
  "open_blockdev lib file_devs label =
     (let bd = (case file_devs label of None \<Rightarrow> None | Some bd \<Rightarrow> bd);
          file_devs = file_devs(label \<mapsto> bd) in
      (case file_dev_initialize lib bd of
         Inl e \<Rightarrow> (file_devs, None)
       | Inr handle \<Rightarrow>
           (case file_dev_set_name lib (Some handle) label of
              (handle, Inl e) \<Rightarrow> (file_devs(label \<mapsto> handle), None)
            | (handle, Inr _) \<Rightarrow>
                (case file_dev_set handle 0 0 of
                   (handle, Inl e) \<Rightarrow> (file_devs(label \<mapsto> handle), None)
                 | (handle, Inr _) \<Rightarrow> (file_devs(label \<mapsto> handle), Some handle)))))"

text \<open>The library reads at an offset with a seek and a read of the handle that it was given.\<close>

definition device_read_at :: "'f libbfio_file \<Rightarrow> 'f file_dev_handle \<Rightarrow> file_io" where
  "device_read_at lib dev offset n =
     (case DeviceIO_Seek lib dev offset SEEK_SET of
        (dev, Inl e) \<Rightarrow> None
      | (dev, Inr _) \<Rightarrow>
          (case DeviceIO_Read lib dev (word_of_nat n) of (dev, Inl e) \<Rightarrow> None | (dev, Inr bs) \<Rightarrow> Some bs))"

definition device_libbfio :: "'f libbfio_file \<Rightarrow> 'f file_dev_handle libbfio" where
  "device_libbfio lib =
     \<lparr> libbfio_handle_is_open = (\<lambda>dev. case DeviceIO_IsOpen lib dev of Inl e \<Rightarrow> None | Inr b \<Rightarrow> Some b),
       libbfio_handle_open = (\<lambda>dev. case DeviceIO_Open lib dev 1 of (dev, Inl e) \<Rightarrow> None | (dev, Inr _) \<Rightarrow> Some dev),
       libbfio_handle_close = (\<lambda>dev. snd (DeviceIO_Close lib dev) = Inr ()),
       libbfio_handle_read = device_read_at lib \<rparr>"


subsection \<open>A range to the end of the file\<close>

text \<open>
  What the library is relied on: a file has contents, which reading and seeking do not change, and a position,
  and a size of more than the maximum is refused.
\<close>

definition libbfio_file_reads :: "'f libbfio_file \<Rightarrow> ('f \<Rightarrow> u8 list) \<Rightarrow> ('f \<Rightarrow> nat) \<Rightarrow> bool" where
  "libbfio_file_reads lib contents position \<longleftrightarrow>
     (\<forall>f. length (contents f) \<le> SSIZE_MAX \<and> position f \<le> SSIZE_MAX \<and>
       file_io_handle_get_size lib f = Inr (word_of_nat (length (contents f))) \<and>
       (\<forall>off. 0 \<le> sint off \<longrightarrow> (\<exists>f'. file_io_handle_seek_offset lib f off SEEK_SET = (f', Inr off) \<and>
          contents f' = contents f \<and> position f' = unat off)) \<and>
       (\<exists>f'. file_io_handle_seek_offset lib f 0 SEEK_CUR = (f', Inr (word_of_nat (position f))) \<and>
          contents f' = contents f \<and> position f' = position f) \<and>
       (\<forall>off. 0 \<le> int (length (contents f)) + sint off \<and> int (length (contents f)) + sint off \<le> int SSIZE_MAX \<longrightarrow>
          (\<exists>f'. file_io_handle_seek_offset lib f off SEEK_END = (f', Inr (word_of_nat (length (contents f)) + off)) \<and>
            contents f' = contents f \<and> position f' = nat (int (length (contents f)) + sint off))) \<and>
       (\<forall>n. unat n \<le> SSIZE_MAX \<longrightarrow>
          (\<exists>f'. file_io_handle_read_buffer lib f n = (f', Inr (take (unat n) (drop (position f) (contents f)))) \<and>
            contents f' = contents f \<and> position f' = min (position f + unat n) (max (position f) (length (contents f))))) \<and>
       (\<forall>n. unat n > SSIZE_MAX \<longrightarrow>
          (\<exists>f'. file_io_handle_read_buffer lib f n = (f', Inl Value_Exceeds_Maximum) \<and>
            contents f' = contents f \<and> position f' = position f)))"

lemma libbfio_file_readsD:
  assumes "libbfio_file_reads lib contents position"
  shows "length (contents f) \<le> SSIZE_MAX" and "position f \<le> SSIZE_MAX"
    and "file_io_handle_get_size lib f = Inr (word_of_nat (length (contents f)))"
    and "0 \<le> sint off \<Longrightarrow> \<exists>f'. file_io_handle_seek_offset lib f off SEEK_SET = (f', Inr off) \<and>
      contents f' = contents f \<and> position f' = unat off"
    and "\<exists>f'. file_io_handle_seek_offset lib f 0 SEEK_CUR = (f', Inr (word_of_nat (position f))) \<and>
      contents f' = contents f \<and> position f' = position f"
    and "0 \<le> int (length (contents f)) + sint off \<Longrightarrow> int (length (contents f)) + sint off \<le> int SSIZE_MAX \<Longrightarrow>
      \<exists>f'. file_io_handle_seek_offset lib f off SEEK_END = (f', Inr (word_of_nat (length (contents f)) + off)) \<and>
        contents f' = contents f \<and> position f' = nat (int (length (contents f)) + sint off)"
    and "unat n \<le> SSIZE_MAX \<Longrightarrow>
      \<exists>f'. file_io_handle_read_buffer lib f n = (f', Inr (take (unat n) (drop (position f) (contents f)))) \<and>
        contents f' = contents f \<and> position f' = min (position f + unat n) (max (position f) (length (contents f)))"
    and "unat n > SSIZE_MAX \<Longrightarrow> \<exists>f'. file_io_handle_read_buffer lib f n = (f', Inl Value_Exceeds_Maximum) \<and>
      contents f' = contents f \<and> position f' = position f"
  using assms unfolding libbfio_file_reads_def by blast+

text \<open>The number of a word that holds an offset.\<close>

lemma sint_offset: "0 \<le> i \<Longrightarrow> i \<le> int SSIZE_MAX \<Longrightarrow> sint (word_of_int i :: u64) = i"
  by (rule sint_word_of_int_64) simp_all

lemma sint_offset_nat: "n \<le> SSIZE_MAX \<Longrightarrow> sint (word_of_nat n :: u64) = int n"
  using sint_offset [of "int n"] by simp

lemma unat_offset_nat: "n \<le> SSIZE_MAX \<Longrightarrow> unat (word_of_nat n :: u64) = n"
  by (simp add: unat_of_nat)

lemma sint_nonneg_unat: "0 \<le> sint (w :: u64) \<Longrightarrow> sint w = int (unat w) \<and> unat w \<le> SSIZE_MAX"
  using sint_u64_nonneg [of w] sint_less [of w] by auto

subsection \<open>Calls\<close>

datatype device_call = Seek_Call u64 nat | Read_Call nat

fun device_calls :: "'f libbfio_file \<Rightarrow> 'f file_dev_handle \<Rightarrow> device_call list \<Rightarrow> (u64 + u8 list) result list" where
  "device_calls lib dev [] = []"
| "device_calls lib dev (Seek_Call offset whence # calls) =
     (case DeviceIO_Seek lib dev offset whence of (dev, r) \<Rightarrow> map_sum id Inl r # device_calls lib dev calls)"
| "device_calls lib dev (Read_Call n # calls) =
     (case DeviceIO_Read lib dev (word_of_nat n) of (dev, r) \<Rightarrow> map_sum id Inr r # device_calls lib dev calls)"

text \<open>The same calls of a file with contents and a position.\<close>

definition seek_target :: "u8 list \<Rightarrow> nat \<Rightarrow> u64 \<Rightarrow> nat \<Rightarrow> int" where
  "seek_target contents position offset whence =
     (if whence = SEEK_SET then 0 else if whence = SEEK_CUR then int position else int (length contents)) + sint offset"

fun file_calls :: "u8 list \<Rightarrow> nat \<Rightarrow> device_call list \<Rightarrow> (u64 + u8 list) result list" where
  "file_calls contents position [] = []"
| "file_calls contents position (Seek_Call offset whence # calls) =
     (let target = seek_target contents position offset whence in
      Inr (Inl (word_of_int target)) # file_calls contents (nat target) calls)"
| "file_calls contents position (Read_Call n # calls) =
     Inr (Inr (take n (drop position contents))) #
     file_calls contents (min (position + n) (max position (length contents))) calls"

text \<open>Calls that stay where a file can be, when it begins at an offset.\<close>

fun calls_inside :: "nat \<Rightarrow> u8 list \<Rightarrow> nat \<Rightarrow> device_call list \<Rightarrow> bool" where
  "calls_inside start contents position [] \<longleftrightarrow> True"
| "calls_inside start contents position (Seek_Call offset whence # calls) \<longleftrightarrow>
     (let target = seek_target contents position offset whence in
      whence \<le> SEEK_END \<and> 0 \<le> target \<and> int start + target \<le> int SSIZE_MAX \<and>
      calls_inside start contents (nat target) calls)"
| "calls_inside start contents position (Read_Call n # calls) \<longleftrightarrow>
     n \<le> SSIZE_MAX \<and> calls_inside start contents (min (position + n) (max position (length contents))) calls"

definition device_at :: "('f \<Rightarrow> u8 list) \<Rightarrow> ('f \<Rightarrow> nat) \<Rightarrow> 'f file_dev_handle \<Rightarrow> u8 list \<Rightarrow> nat \<Rightarrow> bool" where
  "device_at contents position dev file p \<longleftrightarrow>
     0 \<le> sint (fd_range_offset dev) \<and> fd_range_size dev = 0 \<and>
     contents (fd_file_io_handle dev) = file \<and> unat (fd_range_offset dev) \<le> length file \<and>
     position (fd_file_io_handle dev) = unat (fd_range_offset dev) + p"

lemma device_seek_at:
  assumes lib: "libbfio_file_reads lib contents position" and dev: "device_at contents position dev file p"
    and start: "start = unat (fd_range_offset dev)" and t: "t = seek_target (drop start file) p offset whence"
    and "whence \<le> SEEK_END" "0 \<le> t" "int start + t \<le> int SSIZE_MAX"
  shows "\<exists>dev'. DeviceIO_Seek lib dev offset whence = (dev', Inr (word_of_int t)) \<and>
    fd_range_offset dev' = fd_range_offset dev \<and> device_at contents position dev' file (nat t)"
proof -
  let ?f = "fd_file_io_handle dev" and ?ro = "fd_range_offset dev"
  define w where "w = (word_of_int (int start + t) :: u64)"
  note reads = libbfio_file_readsD [OF lib]
  have d: "0 \<le> sint ?ro" "fd_range_size dev = 0" "contents ?f = file" "start \<le> length file" "position ?f = start + p"
    using dev by (simp_all add: device_at_def start)
  have ro: "?ro = word_of_int (int start)" "sint ?ro = int start"
    using sint_nonneg_unat [OF d(1)] by (simp_all add: start)
  have w1: "sint w = int start + t" unfolding w_def using assms(6,7) by (intro sint_offset) simp_all
  then have "int (unat w) = int start + t" using sint_nonneg_unat [of w] assms(6) by linarith
  then have w2: "sint w = int start + t" "unat w = start + nat t" using w1 assms(6) by linarith+
  have sum: "offset + word_of_int i = w" if "sint offset + i = int start + t" for i
    unfolding w_def that [symmetric] by simp
  have sought: "\<exists>f'. file_io_handle_seek_offset lib f w SEEK_SET = (f', Inr w) \<and>
      contents f' = contents f \<and> position f' = start + nat t" for f
    using reads(4) [of w f] w2 assms(6) by simp
  have "\<exists>f'. DeviceIO_Seek lib dev offset whence = (dev\<lparr> fd_file_io_handle := f' \<rparr>, Inr (w - ?ro)) \<and>
    contents f' = file \<and> position f' = start + nat t"
  proof -
    consider "whence = SEEK_SET" | "whence = SEEK_CUR" | "whence = SEEK_END" using assms(5) by fastforce
    then show ?thesis
    proof cases
      case 1
      have "offset + ?ro = w" unfolding ro(1) by (rule sum) (simp add: t 1 seek_target_def)
      then show ?thesis
        using sought [of ?f] d w2 ro(2) assms(6)
        by (auto simp: DeviceIO_Seek_def device_seek_target_def with_device_file_def 1)
    next
      case 2
      obtain f1 where f1: "file_io_handle_seek_offset lib ?f 0 SEEK_CUR = (f1, Inr (word_of_int (int (start + p))))"
        "contents f1 = file" using reads(5) [of ?f] d by auto
      have "offset + word_of_int (int (start + p)) = w" by (rule sum) (simp add: t 2 seek_target_def)
      then show ?thesis
        using sought [of f1] f1 d w2 ro(2) assms(6)
        by (auto simp: DeviceIO_Seek_def device_seek_target_def with_device_file_def 2 simp del: of_nat_add)
    next
      case 3
      have l: "int (length file) + sint offset = int start + t" using d(4) by (simp add: t 3 seek_target_def)
      have "offset + word_of_int (int (length file)) = w" by (rule sum) (use l in simp)
      moreover obtain f1 where "file_io_handle_seek_offset lib ?f offset SEEK_END =
          (f1, Inr (word_of_int (int (length file)) + offset))"
        "contents f1 = file" "position f1 = nat (int (length file) + sint offset)"
        using reads(6) [of ?f offset] d(3) l assms(6,7) by auto
      moreover have "nat (int (length file) + sint offset) = start + nat t" using l assms(6) by simp
      ultimately show ?thesis
        using d w2 ro(2) assms(6)
        by (auto simp: DeviceIO_Seek_def device_seek_target_def with_device_file_def 3 add.commute)
    qed
  qed
  moreover have "w - ?ro = word_of_int t" unfolding ro(1) w_def by simp
  ultimately show ?thesis using d start by (auto simp: device_at_def)
qed

lemma device_read_at_position:
  assumes lib: "libbfio_file_reads lib contents position" and dev: "device_at contents position dev file p"
    and start: "start = unat (fd_range_offset dev)" and "n \<le> SSIZE_MAX"
  shows "\<exists>dev'. DeviceIO_Read lib dev (word_of_nat n) = (dev', Inr (take n (drop p (drop start file)))) \<and>
    fd_range_offset dev' = fd_range_offset dev \<and>
    device_at contents position dev' file (min (p + n) (max p (length file - start)))"
proof -
  let ?f = "fd_file_io_handle dev"
  note reads = libbfio_file_readsD [OF lib]
  have d: "0 \<le> sint (fd_range_offset dev)" "fd_range_size dev = 0" "contents ?f = file" "start \<le> length file"
    "position ?f = start + p"
    using dev by (simp_all add: device_at_def start)
  obtain f1 where f1: "file_io_handle_seek_offset lib ?f 0 SEEK_CUR = (f1, Inr (word_of_nat (start + p)))"
    "contents f1 = file" "position f1 = start + p" using reads(5) [of ?f] d by auto
  have "sint (word_of_nat (start + p) :: u64) = int (start + p)" using reads(2) [of ?f] d(5) by (intro sint_offset_nat) simp
  moreover have "sint (fd_range_offset dev) = int start" using sint_nonneg_unat [OF d(1)] start by simp
  moreover obtain f2 where "file_io_handle_read_buffer lib f1 (word_of_nat n) = (f2, Inr (take n (drop (start + p) file)))"
    "contents f2 = file" "position f2 = min (start + p + n) (max (start + p) (length file))"
    using reads(7) [of "word_of_nat n" f1] f1 unat_offset_nat [OF assms(4)] assms(4) by auto
  ultimately show ?thesis
    using d f1 start unat_offset_nat [OF assms(4)]
    by (auto simp: DeviceIO_Read_def with_device_file_def device_at_end_def device_transfer_size_def device_at_def
        add.commute min_def max_def)
qed

lemma device_calls_file:
  assumes lib: "libbfio_file_reads lib contents position"
  shows "device_at contents position dev file p \<Longrightarrow> start = unat (fd_range_offset dev) \<Longrightarrow>
    calls_inside start (drop start file) p calls \<Longrightarrow> device_calls lib dev calls = file_calls (drop start file) p calls"
proof (induction calls arbitrary: dev p)
  case (Cons call calls)
  note IH = Cons.IH and at = Cons.prems(1) and start = Cons.prems(2)
  show ?case
  proof (cases call)
    case (Seek_Call offset whence)
    let ?t = "seek_target (drop start file) p offset whence"
    obtain dev' where "DeviceIO_Seek lib dev offset whence = (dev', Inr (word_of_int ?t))"
      "fd_range_offset dev' = fd_range_offset dev" "device_at contents position dev' file (nat ?t)"
      using device_seek_at [OF lib at start refl, of whence offset] Cons.prems(3) Seek_Call by (auto simp: Let_def)
    with IH [of dev' "nat ?t"] Cons.prems(3) start Seek_Call show ?thesis by (simp add: Let_def)
  next
    case (Read_Call n)
    obtain dev' where "DeviceIO_Read lib dev (word_of_nat n) = (dev', Inr (take n (drop p (drop start file))))"
      "fd_range_offset dev' = fd_range_offset dev"
      "device_at contents position dev' file (min (p + n) (max p (length file - start)))"
      using device_read_at_position [OF lib at start, of n] Cons.prems(3) Read_Call by auto
    with IH [of dev'] Cons.prems(3) start Read_Call show ?thesis by simp
  qed
qed simp

lemma device_read_at_disk:
  assumes "libbfio_file_reads lib contents position" and "device_at contents position dev file p"
    and "start = unat (fd_range_offset dev)" and "unat offset + start \<le> SSIZE_MAX" and "n \<le> SSIZE_MAX"
  shows "device_read_at lib dev offset n = disk_io (drop start file) offset n"
proof -
  have "0 \<le> sint offset" using assms(4) by (simp add: sint_u64_nonneg)
  then have s: "sint offset = int (unat offset)" using sint_nonneg_unat by blast
  have t: "seek_target (drop start file) p offset SEEK_SET = int (unat offset)" by (simp add: seek_target_def s)
  obtain dev1 where dev1: "DeviceIO_Seek lib dev offset SEEK_SET = (dev1, Inr offset)"
    "fd_range_offset dev1 = fd_range_offset dev" "device_at contents position dev1 file (unat offset)"
    using device_seek_at [OF assms(1-3) t [symmetric]] assms(4) s by fastforce
  have "start = unat (fd_range_offset dev1)" by (simp add: dev1(2) assms(3))
  from device_read_at_position [OF assms(1) dev1(3) this assms(5)] dev1(1)
  show ?thesis by (auto simp: device_read_at_def disk_io_def)
qed

text \<open>
  C26: A device whose range goes up to the end of the file is the file from the offset on: any sequence of seeks
  and reads through it gives what it gives on a file with those contents, and so does a read at an offset, as the
  volume reads it.
\<close>

theorem device_is_partition:
  assumes "libbfio_file_reads lib contents position" and "device_at contents position dev file p"
    and "start = unat (fd_range_offset dev)" and "calls_inside start (drop start file) p calls"
    and "unat offset + start \<le> SSIZE_MAX" and "n \<le> SSIZE_MAX"
  shows "device_calls lib dev calls = file_calls (drop start file) p calls \<and>
    libbfio_handle_read (device_libbfio lib) dev offset n = disk_io (drop start file) offset n"
  using device_calls_file [OF assms(1-4)] device_read_at_disk [OF assms(1-3,5,6)] by (simp add: device_libbfio_def)

subsection \<open>A range with a size\<close>

text \<open>
  C30: The size of a range is treated as an offset in the file: where the range begins at an offset and has a size,
  a read that goes up to the size, counted from the start of the file, gives nothing or fails, so that the end of
  the range, and all of it when the size is not above the offset, cannot be read; and seeking its end gives the
  size less the offset.
\<close>

theorem bounded_device_misplaced:
  assumes lib: "libbfio_file_reads lib contents position"
    and range: "0 \<le> sint (fd_range_offset dev)" "start = unat (fd_range_offset dev)"
      "fd_range_size dev \<noteq> 0" "s = unat (fd_range_size dev)" "s \<le> SSIZE_MAX"
    and q: "position (fd_file_io_handle dev) = q" "start \<le> q" "q + n \<le> SSIZE_MAX"
    and c: "contents (fd_file_io_handle dev) = file"
  shows "snd (DeviceIO_Read lib dev (word_of_nat n)) =
      (if q \<ge> s then Inr []
       else if q + n \<ge> s then if q = start then Inr [] else Inl Value_Exceeds_Maximum
       else Inr (take n (drop q file))) \<and>
    snd (DeviceIO_Seek lib dev 0 SEEK_END) =
      (if s < start then Inl Value_Out_Of_Bounds else Inr (word_of_nat (s - start)))"
proof
  let ?f = "fd_file_io_handle dev" and ?q = "word_of_nat q :: u64" and ?n = "word_of_nat n :: u64"
  note reads = libbfio_file_readsD [OF lib]
  obtain f1 where f1: "file_io_handle_seek_offset lib ?f 0 SEEK_CUR = (f1, Inr ?q)" "contents f1 = file" "position f1 = q"
    using reads(5) [of ?f] q(1) c by auto
  have ro: "sint (fd_range_offset dev) = int start" "fd_range_offset dev = word_of_nat start"
    using sint_nonneg_unat [OF range(1)] range(2) by simp_all
  have u: "sint ?q = int q" "unat ?q = q" "unat ?n = n"
    using q(3) by (simp_all add: sint_offset_nat unat_offset_nat)
  have "unat (?q + ?n) = q + n" using unat_offset_nat [OF q(3)] by (simp only: of_nat_add)
  have at_end: "fd_range_size dev \<le> ?q \<longleftrightarrow> s \<le> q" "fd_range_size dev \<le> ?q + ?n \<longleftrightarrow> s \<le> q + n"
    using u range(4) \<open>unat (?q + ?n) = q + n\<close> by (simp_all add: word_le_nat_alt)
  have left: "unat (fd_range_offset dev - ?q) = (if q = start then 0 else 2 ^ 64 - (q - start))" if "q < s"
  proof (cases "q = start")
    case False
    have d: "0 < q - start" "q - start \<le> SSIZE_MAX" using False q(2,3) by simp_all
    have "word_of_nat (2 ^ 64 - (q - start)) = (word_of_nat (2 ^ 64) - word_of_nat (q - start) :: u64)"
      using d(2) by (intro of_nat_diff) simp
    then have "fd_range_offset dev - ?q = word_of_nat (2 ^ 64 - (q - start))" using q(2) ro(2) by (simp add: of_nat_diff)
    moreover have "unat (word_of_nat m :: u64) = m" if "m < 2 ^ 64" for m using that by (simp add: unat_of_nat)
    from this [of "2 ^ 64 - (q - start)"] d(1)
    have "unat (word_of_nat (2 ^ 64 - (q - start)) :: u64) = 2 ^ 64 - (q - start)" by simp
    ultimately show ?thesis using False by (simp only: if_False)
  qed (simp add: ro(2))
  have rest: "\<exists>f2. file_io_handle_read_buffer lib f1 (fd_range_offset dev - ?q) =
      (f2, if q = start then Inr [] else Inl Value_Exceeds_Maximum)" if "q < s"
  proof (cases "q = start")
    case True
    then show ?thesis using reads(7) [of "fd_range_offset dev - ?q" f1] left [OF that] by auto
  next
    case False
    then have "unat (fd_range_offset dev - ?q) > SSIZE_MAX" using left [OF that] q(2,3) by simp
    then show ?thesis using reads(8) [of "fd_range_offset dev - ?q" f1] False by auto
  qed
  have all: "\<exists>f2. file_io_handle_read_buffer lib f1 ?n = (f2, Inr (take n (drop q file)))"
    using reads(7) [of ?n f1] f1 u(3) q(3) by auto
  show "snd (DeviceIO_Read lib dev ?n) =
      (if q \<ge> s then Inr []
       else if q + n \<ge> s then if q = start then Inr [] else Inl Value_Exceeds_Maximum
       else Inr (take n (drop q file)))"
  proof (cases "s \<le> q")
    case True
    then show ?thesis
      using f1 ro(1) u(1) q(2) range(3) at_end
      by (simp add: DeviceIO_Read_def with_device_file_def device_at_end_def)
  next
    case False
    then show ?thesis
      using f1 ro(1) u(1,3) q(2) range(3) at_end rest all
      by (cases "s \<le> q + n")
        (auto simp: DeviceIO_Read_def with_device_file_def device_at_end_def device_transfer_size_def)
  qed
  have s: "sint (fd_range_size dev) = int s" "fd_range_size dev = word_of_nat s"
    using range(4,5) sint_nonneg_unat [of "fd_range_size dev"] by (simp_all add: sint_u64_nonneg)
  obtain f2 where "file_io_handle_seek_offset lib ?f (fd_range_size dev) SEEK_SET = (f2, Inr (fd_range_size dev))"
    using reads(4) [of "fd_range_size dev" ?f] s(1) by auto
  then show "snd (DeviceIO_Seek lib dev 0 SEEK_END) =
      (if s < start then Inl Value_Out_Of_Bounds else Inr (word_of_nat (s - start)))"
    using range(3) s ro
    by (simp add: DeviceIO_Seek_def device_seek_target_def with_device_file_def of_nat_diff)
qed

text \<open>A file in memory whose handle is its position, and one of the bytes from 0 to 31.\<close>

definition memory_position :: "u64 \<Rightarrow> nat" where
  "memory_position f = unat f mod 2 ^ 63"

definition memory_file :: "u8 list \<Rightarrow> u64 libbfio_file" where
  "memory_file contents =
     \<lparr> file_io_handle_initialize = Inr 0, file_io_handle_free = (\<lambda>f. Inr ()), file_io_handle_clone = Inr,
       file_io_handle_get_name_size = (\<lambda>f. Inr 1), file_io_handle_get_name = (\<lambda>f n. Inr [0]),
       file_io_handle_set_name = (\<lambda>f name. (f, Inr ())),
       file_io_handle_get_name_size_wide = (\<lambda>f. Inr 1), file_io_handle_get_name_wide = (\<lambda>f n. Inr [0]),
       file_io_handle_set_name_wide = (\<lambda>f name. (f, Inr ())),
       file_io_handle_open = (\<lambda>f flags. (0, Inr ())), file_io_handle_close = (\<lambda>f. (f, Inr ())),
       file_io_handle_read_buffer = (\<lambda>f n.
         if unat n \<le> SSIZE_MAX then
           (word_of_nat (min (memory_position f + unat n) (max (memory_position f) (length contents))),
            Inr (take (unat n) (drop (memory_position f) contents)))
         else (f, Inl Value_Exceeds_Maximum)),
       file_io_handle_write_buffer = (\<lambda>f buffer n. (f, Inl Unsupported_Value)),
       file_io_handle_seek_offset = (\<lambda>f off whence.
         if whence = SEEK_SET then (off, Inr off)
         else if whence = SEEK_CUR then (f, Inr (word_of_nat (memory_position f)))
         else (word_of_nat (length contents) + off, Inr (word_of_nat (length contents) + off))),
       file_io_handle_exists = (\<lambda>f. Inr True), file_io_handle_is_open = (\<lambda>f. Inr False),
       file_io_handle_get_size = (\<lambda>f. Inr (word_of_nat (length contents))), handle_initialize = Inr () \<rparr>"

lemma memory_position_le: "memory_position f \<le> SSIZE_MAX"
  using mod_less_divisor [of "2 ^ 63" "unat f"] by (simp add: memory_position_def)

lemma memory_position_nat: "n \<le> SSIZE_MAX \<Longrightarrow> memory_position (word_of_nat n) = n"
  by (simp add: memory_position_def unat_offset_nat)

lemma memory_file_reads:
  assumes "length contents \<le> SSIZE_MAX"
  shows "libbfio_file_reads (memory_file contents) (\<lambda>f. contents) memory_position"
proof -
  have set: "memory_position off = unat off" if "0 \<le> sint off" for off
    using that by (simp add: memory_position_def sint_u64_nonneg)
  have seek_end: "memory_position (word_of_nat (length contents) + off) = nat (int (length contents) + sint off)"
    if "0 \<le> int (length contents) + sint off" "int (length contents) + sint off \<le> int SSIZE_MAX" for off
  proof -
    have "word_of_nat (length contents) + off = word_of_int (int (length contents) + sint off)" by simp
    also have "\<dots> = word_of_nat (nat (int (length contents) + sint off))"
      using that(1) by (metis int_nat_eq of_int_of_nat_eq)
    finally show ?thesis
      using that memory_position_nat [of "nat (int (length contents) + sint off)"] by (simp add: nat_le_iff)
  qed
  have "memory_position (word_of_nat (min (memory_position f + n) (max (memory_position f) (length contents)))) =
      min (memory_position f + n) (max (memory_position f) (length contents))" for f n
    using memory_position_le [of f] assms by (intro memory_position_nat) simp
  then show ?thesis
    using set seek_end memory_position_le assms
    by (simp add: libbfio_file_reads_def memory_file_def)
qed

definition example_disk :: "u8 list" where
  "example_disk = map word_of_nat [0..<32]"

lemma example_disk_reads: "libbfio_file_reads (memory_file example_disk) (\<lambda>f. example_disk) memory_position"
  by (rule memory_file_reads) (simp add: example_disk_def)

lemma device_is_partition_witness:
  "device_calls (memory_file example_disk) \<lparr> fd_file_io_handle = 8, fd_range_offset = 8, fd_range_size = 0 \<rparr>
      [Seek_Call 20 SEEK_SET, Read_Call 2, Seek_Call (- 1) SEEK_END, Read_Call 4] =
    [Inr (Inl 20), Inr (Inr [28, 29]), Inr (Inl 23), Inr (Inr [31])]"
proof -
  let ?dev = "\<lparr> fd_file_io_handle = 8, fd_range_offset = 8, fd_range_size = 0 \<rparr> :: u64 file_dev_handle"
  let ?calls = "[Seek_Call 20 SEEK_SET, Read_Call 2, Seek_Call (- 1) SEEK_END, Read_Call 4]"
  have at: "device_at (\<lambda>f. example_disk) memory_position ?dev example_disk 0"
    by (simp add: device_at_def memory_position_def example_disk_def)
  have "calls_inside 8 (drop 8 example_disk) 0 ?calls"
    by (simp add: seek_target_def example_disk_def Let_def)
  then have "device_calls (memory_file example_disk) ?dev ?calls = file_calls (drop 8 example_disk) 0 ?calls"
    by (intro device_is_partition [OF example_disk_reads at, of _ _ 0 0, THEN conjunct1]) simp_all
  also have "\<dots> = [Inr (Inl 20), Inr (Inr [28, 29]), Inr (Inl 23), Inr (Inr [31])]"
    by (simp add: seek_target_def example_disk_def upt_rec Let_def)
  finally show ?thesis .
qed

lemma bounded_device_misplaced_witness:
  "snd (DeviceIO_Read (memory_file example_disk) \<lparr> fd_file_io_handle = 20, fd_range_offset = 8, fd_range_size = 16 \<rparr> 4) = Inr [] \<and>
   snd (DeviceIO_Seek (memory_file example_disk) \<lparr> fd_file_io_handle = 20, fd_range_offset = 8, fd_range_size = 16 \<rparr> 0 SEEK_END) = Inr 8"
proof -
  let ?dev = "\<lparr> fd_file_io_handle = 20, fd_range_offset = 8, fd_range_size = 16 \<rparr> :: u64 file_dev_handle"
  have p: "0 \<le> sint (fd_range_offset ?dev)" "8 = unat (fd_range_offset ?dev)" "fd_range_size ?dev \<noteq> 0"
    "16 = unat (fd_range_size ?dev)" "16 \<le> SSIZE_MAX" "memory_position (fd_file_io_handle ?dev) = 20" "8 \<le> (20 :: nat)"
    "20 + 4 \<le> SSIZE_MAX"
    by (simp_all add: memory_position_def)
  note r = bounded_device_misplaced [OF example_disk_reads p refl]
  have "(4 :: u64) = word_of_nat 4" by simp
  then show ?thesis
    using r by (simp only: if_True if_False) simp
qed

end
