(* ===== verification/Device_Session.thy ===== *)
theory Device_Session
  imports Device_File Info_Handle
begin

text \<open>
  A session with a device (\<open>FDXFSInfo/FDXFSHelper.cpp\<close> and the opening and closing of
  \<open>FDXFSInfo/FDXFSInfoHandle.cpp\<close>): a device is mounted by a label and then opened as a volume.
\<close>

subsection \<open>The handle of a volume\<close>

text \<open>
  The structure of the handle is that of the information tool. The object holds it by a pointer that is not
  cleared when it is freed. The handle of the input is shared with the device that it was taken from; nothing
  looks at the device again but for its presence, so that it is held by value.
\<close>

datatype 'a pointer = Null | Points_To 'a | Freed

type_synonym 'f xfsinfo_handle = "'f file_dev_handle info_handle"

definition xfsinfo_handle_zero :: "'f xfsinfo_handle" where
  "xfsinfo_handle_zero =
     \<lparr> ih_volume_offset = 0, ih_input_file_io_handle = None, ih_input_volume = None, ih_calculate_md5 = 0,
       ih_bodyfile_stream = None, ih_notify_stream = [], ih_abort = False \<rparr>"

text \<open>When it is initialized already, the structure is freed.\<close>

definition FDXFSInfoHandle_Initialize :: "'f xfsinfo_handle pointer \<Rightarrow> 'f xfsinfo_handle pointer \<times> unit result" where
  "FDXFSInfoHandle_Initialize pointer =
     (case pointer of
        Null \<Rightarrow> (Points_To xfsinfo_handle_zero, Inr ())
      | Points_To _ \<Rightarrow> (Freed, Inl Value_Already_Set)
      | Freed \<Rightarrow> (Freed, Inl (Undefined Use_After_Free)))"

text \<open>
  Not the structure but the member that points to it is freed, which was not allocated; with all that comes before,
  an error is thrown, and the same is freed after that.
\<close>

definition FDXFSInfoHandle_Finalize :: "'f xfsinfo_handle pointer \<Rightarrow> unit result" where
  "FDXFSInfoHandle_Finalize pointer =
     (case pointer of
        Null \<Rightarrow> Inr ()
      | Points_To _ \<Rightarrow> Inl (Undefined Invalid_Free)
      | Freed \<Rightarrow> Inl (Undefined Use_After_Free))"

definition FDXFSInfoHandle_Mount ::
    "'f libbfio_file \<Rightarrow> 'f xfsinfo_handle \<Rightarrow> u16 list \<Rightarrow> 'f xfsinfo_handle \<times> unit result" where
  "FDXFSInfoHandle_Mount lib info_handle filename =
     (case file_dev_set_name_wide lib (ih_input_file_io_handle info_handle) filename of
        (handle, Inl e) \<Rightarrow> (info_handle\<lparr> ih_input_file_io_handle := handle \<rparr>, Inl e)
      | (handle, Inr _) \<Rightarrow>
          (case file_dev_set handle (ih_volume_offset info_handle) 0 of
             (handle, r) \<Rightarrow> (info_handle\<lparr> ih_input_file_io_handle := handle \<rparr>, r)))"

definition FDXFSInfoHandle_Open ::
    "'f libbfio_file \<Rightarrow> 'f xfsinfo_handle pointer \<Rightarrow> u16 list \<Rightarrow> 'f xfsinfo_handle pointer \<times> unit result" where
  "FDXFSInfoHandle_Open lib pointer filename =
     (case pointer of
        Null \<Rightarrow> (Null, Inl Invalid_Value)
      | Freed \<Rightarrow> (Freed, Inl (Undefined Use_After_Free))
      | Points_To info_handle \<Rightarrow>
          let on_error = (\<lambda>info_handle e. (Points_To (info_handle\<lparr> ih_input_volume := None \<rparr>), Inl e)) in
          (case FDXFSInfoHandle_Mount lib info_handle filename of
             (info_handle, Inl e) \<Rightarrow> on_error info_handle e
           | (info_handle, Inr _) \<Rightarrow>
               (case libfsxfs_volume_initialize (ih_input_volume info_handle) of
                  Inl e \<Rightarrow> on_error info_handle e
                | Inr volume \<Rightarrow>
                    (case ih_input_file_io_handle info_handle of
                       None \<Rightarrow> on_error info_handle Invalid_Value
                     | Some handle \<Rightarrow>
                         (case libfsxfs_volume_open_file_io_handle (device_libbfio lib) volume handle 1 of
                            (volume, Inl e) \<Rightarrow> on_error info_handle e
                          | (volume, Inr _) \<Rightarrow>
                              (Points_To (info_handle\<lparr> ih_input_volume := Some volume \<rparr>), Inr ()))))))"

definition FDXFSInfoHandle_Close ::
    "'f libbfio_file \<Rightarrow> 'f xfsinfo_handle pointer \<Rightarrow> 'f xfsinfo_handle pointer \<times> unit result" where
  "FDXFSInfoHandle_Close lib pointer =
     (case pointer of
        Null \<Rightarrow> (Null, Inl Invalid_Value)
      | Freed \<Rightarrow> (Freed, Inl (Undefined Use_After_Free))
      | Points_To info_handle \<Rightarrow>
          (case ih_input_volume info_handle of
             None \<Rightarrow> (Points_To info_handle, Inr ())
           | Some volume \<Rightarrow>
               (case libfsxfs_volume_close (device_libbfio lib) volume of
                  (volume, r) \<Rightarrow> (Points_To (info_handle\<lparr> ih_input_volume := Some volume \<rparr>), r))))"

definition FDXFSInfoHandle_FindFirst ::
    "'f libbfio_file \<Rightarrow> 's libfdata \<Rightarrow> 'f xfsinfo_handle pointer \<Rightarrow> 's file_entry option result" where
  "FDXFSInfoHandle_FindFirst lib fdata pointer =
     (case pointer of
        Null \<Rightarrow> Inr None
      | Freed \<Rightarrow> Inl (Undefined Use_After_Free)
      | Points_To info_handle \<Rightarrow>
          (case ih_input_volume info_handle of
             None \<Rightarrow> Inr None
           | Some volume \<Rightarrow>
               (case libfsxfs_volume_get_root_directory (device_libbfio lib) fdata volume of
                  Inl (Undefined u) \<Rightarrow> Inl (Undefined u)
                | Inl _ \<Rightarrow> Inr None
                | Inr file_entry \<Rightarrow> Inr (Some file_entry))))"

subsection \<open>The helper\<close>

text \<open>
  Of the table of the mounted devices only the names are used, the entries are never set. The helper has no handle
  before it is initialized.
\<close>

record 'f xfs_helper =
  fh_block_dev :: "u8 list list"
  fh_source :: "u16 list"
  fh_mountpoint :: "u8 list"
  fh_xfs_info_handle :: "'f xfsinfo_handle pointer option"

definition xfs_helper_zero :: "'f xfs_helper" where
  "xfs_helper_zero = \<lparr> fh_block_dev = [], fh_source = [], fh_mountpoint = [], fh_xfs_info_handle = None \<rparr>"

text \<open>A call that returns \<open>TRUE\<close> or \<open>FALSE\<close>.\<close>

definition bool_result :: "unit result \<Rightarrow> bool result" where
  "bool_result r = (case r of Inr _ \<Rightarrow> Inr True | Inl (Undefined u) \<Rightarrow> Inl (Undefined u) | Inl _ \<Rightarrow> Inr False)"

definition FDXFSHelper_Initialize :: "'f xfs_helper \<Rightarrow> 'f xfs_helper \<times> bool result" where
  "FDXFSHelper_Initialize helper =
     (case FDXFSInfoHandle_Initialize Null of
        (pointer, r) \<Rightarrow> (helper\<lparr> fh_xfs_info_handle := Some pointer \<rparr>, bool_result r))"

text \<open>A label that is in the table already is followed by the size of the table. \<open>0x23\<close> is the number sign.\<close>

definition helper_mount_name :: "'f xfs_helper \<Rightarrow> u8 list \<Rightarrow> u8 list" where
  "helper_mount_name helper mount_point =
     (if mount_point \<in> set (fh_block_dev helper)
      then mount_point @ [0x23] @ decimal_digits (length (fh_block_dev helper)) else mount_point)"

definition FDXFSHelper_Mount ::
    "'f libbfio_file \<Rightarrow> 'f block_devices \<Rightarrow> 'f xfs_helper \<Rightarrow> u8 list
      \<Rightarrow> 'f block_devices \<times> 'f xfs_helper \<times> bool result" where
  "FDXFSHelper_Mount lib file_devs helper mount_point =
     (let name = helper_mount_name helper mount_point;
          helper = helper\<lparr> fh_mountpoint := [0x2f] @ name @ [0x2f] \<rparr> in
      (case open_blockdev lib file_devs mount_point of
         (file_devs, None) \<Rightarrow> (file_devs, helper, Inr False)
       | (file_devs, Some handle) \<Rightarrow>
           (case fh_xfs_info_handle helper of
              None \<Rightarrow> (file_devs, helper, Inl (Undefined Null_Dereference))
            | Some Null \<Rightarrow> (file_devs, helper, Inr False)
            | Some Freed \<Rightarrow> (file_devs, helper, Inl (Undefined Use_After_Free))
            | Some (Points_To info_handle) \<Rightarrow>
                (file_devs,
                 helper\<lparr> fh_block_dev := List.insert name (fh_block_dev helper),
                         fh_xfs_info_handle := Some (Points_To (info_handle\<lparr> ih_input_file_io_handle := handle \<rparr>)) \<rparr>,
                 Inr True))))"

definition FDXFSHelper_Unmount :: "u8 list \<Rightarrow> bool" where
  "FDXFSHelper_Unmount mount_point = False"

definition FDXFSHelper_IsMounted :: "'f xfs_helper \<Rightarrow> bool" where
  "FDXFSHelper_IsMounted helper \<longleftrightarrow> length (fh_block_dev helper) > 0"

definition FDXFSHelper_Open ::
    "'f libbfio_file \<Rightarrow> 'f xfs_helper \<Rightarrow> u16 list option \<Rightarrow> 'f xfs_helper \<times> bool result" where
  "FDXFSHelper_Open lib helper source =
     (case source of
        None \<Rightarrow> (helper, Inr False)
      | Some source \<Rightarrow>
          if fh_source helper \<noteq> [] then (helper, Inr True) else
          (case fh_xfs_info_handle helper of
             None \<Rightarrow> (helper, Inl (Undefined Null_Dereference))
           | Some pointer \<Rightarrow>
               (case FDXFSInfoHandle_Open lib pointer source of
                  (pointer, Inl e) \<Rightarrow> (helper\<lparr> fh_xfs_info_handle := Some pointer \<rparr>, bool_result (Inl e))
                | (pointer, Inr _) \<Rightarrow>
                    (helper\<lparr> fh_xfs_info_handle := Some pointer, fh_source := source \<rparr>, Inr True))))"

text \<open>What closing returns is not looked at, and the source is kept.\<close>

definition FDXFSHelper_Close :: "'f libbfio_file \<Rightarrow> 'f xfs_helper \<Rightarrow> 'f xfs_helper \<times> unit result" where
  "FDXFSHelper_Close lib helper =
     (case fh_xfs_info_handle helper of
        None \<Rightarrow> (helper, Inr ())
      | Some pointer \<Rightarrow>
          if fh_source helper = [] then (helper, Inr ()) else
          (case FDXFSInfoHandle_Close lib pointer of
             (pointer, r) \<Rightarrow>
               (helper\<lparr> fh_xfs_info_handle := Some pointer \<rparr>,
                case r of Inl (Undefined u) \<Rightarrow> Inl (Undefined u) | _ \<Rightarrow> Inr ())))"

subsection \<open>The states of a session\<close>

inductive helper_step ::
    "'f libbfio_file \<Rightarrow> 'f block_devices \<times> 'f xfs_helper \<Rightarrow> 'f block_devices \<times> 'f xfs_helper \<Rightarrow> bool" for lib where
  initialize: "FDXFSHelper_Initialize h = (h', r) \<Longrightarrow> helper_step lib (d, h) (d, h')"
| mount: "FDXFSHelper_Mount lib d h label = (d', h', r) \<Longrightarrow> fault_free r \<Longrightarrow> helper_step lib (d, h) (d', h')"
| open_source: "FDXFSHelper_Open lib h source = (h', r) \<Longrightarrow> fault_free r \<Longrightarrow> helper_step lib (d, h) (d, h')"
| close: "FDXFSHelper_Close lib h = (h', r) \<Longrightarrow> fault_free r \<Longrightarrow> helper_step lib (d, h) (d, h')"

inductive helper_reachable :: "'f libbfio_file \<Rightarrow> 'f block_devices \<times> 'f xfs_helper \<Rightarrow> bool" for lib where
  start: "helper_reachable lib (Map.empty, xfs_helper_zero)"
| step: "helper_reachable lib s \<Longrightarrow> helper_step lib s s' \<Longrightarrow> helper_reachable lib s'"

inductive_cases helper_stepE: "helper_step lib (d, h) (d', h')"

text \<open>A volume of the session is open or closed, and there is one only where a device was mounted.\<close>

definition helper_invariant :: "'f block_devices \<times> 'f xfs_helper \<Rightarrow> bool" where
  "helper_invariant s \<longleftrightarrow>
     (case fh_xfs_info_handle (snd s) of
        None \<Rightarrow> fh_block_dev (snd s) = [] \<and> fh_source (snd s) = []
      | Some (Points_To info_handle) \<Rightarrow>
          (\<forall>v. ih_input_volume info_handle = Some v \<longrightarrow> volume_consistent v \<and> ih_input_file_io_handle info_handle \<noteq> None) \<and>
          (ih_input_file_io_handle info_handle \<noteq> None \<longrightarrow> (\<exists>label dev. fst s label = Some (Some dev)))
      | _ \<Rightarrow> False)"

lemma open_blockdev_Some:
  assumes "open_blockdev lib d label = (d', r)"
  shows "(\<forall>l. l \<noteq> label \<longrightarrow> d' l = d l) \<and> (d label = Some (Some dev) \<longrightarrow> d' = d \<and> r = None) \<and>
    (\<forall>handle. r = Some handle \<longrightarrow> handle \<noteq> None \<and> d' label = Some handle)"
  using assms
  by (auto simp: open_blockdev_def file_dev_initialize_def file_dev_set_name_def file_dev_set_def change_handle_def Let_def
      map_upd_triv split: option.split_asm sum.split_asm prod.split_asm)

lemma open_blockdev_keeps: "open_blockdev lib d label = (d', r) \<Longrightarrow> d l = Some (Some dev) \<Longrightarrow> \<exists>dev'. d' l = Some (Some dev')"
  using open_blockdev_Some [of lib d label d' r] by (cases "l = label") auto

lemma change_handle_Inr: "change_handle f handle = (handle', Inr ()) \<Longrightarrow> handle \<noteq> None \<and> handle' \<noteq> None"
  by (auto simp: change_handle_def split: option.split_asm prod.split_asm)

lemma change_handle_None: "change_handle f handle = (handle', r) \<Longrightarrow> handle' = None \<longleftrightarrow> handle = None"
  by (auto simp: change_handle_def split: option.split_asm prod.split_asm)

lemma info_handle_mount_handle:
  "FDXFSInfoHandle_Mount lib info_handle filename = (info_handle', r) \<Longrightarrow>
    (ih_input_file_io_handle info_handle' = None \<longleftrightarrow> ih_input_file_io_handle info_handle = None) \<and>
    ih_input_volume info_handle' = ih_input_volume info_handle"
  by (auto simp: FDXFSInfoHandle_Mount_def file_dev_set_name_wide_def file_dev_set_def split: prod.split_asm sum.split_asm
      dest!: change_handle_None)

lemma info_handle_open_invariant:
  assumes "FDXFSInfoHandle_Open lib (Points_To info_handle) filename = (p, r)"
  shows "\<exists>info_handle'. p = Points_To info_handle' \<and>
    (ih_input_file_io_handle info_handle' = None \<longleftrightarrow> ih_input_file_io_handle info_handle = None) \<and>
    (\<forall>v. ih_input_volume info_handle' = Some v \<longrightarrow>
       volume_consistent v \<and> vol_file_io_handle v \<noteq> None \<and> ih_input_file_io_handle info_handle' \<noteq> None) \<and>
    (r = Inr () \<longrightarrow> ih_input_volume info_handle' \<noteq> None)"
proof -
  obtain info1 r1 where m: "FDXFSInfoHandle_Mount lib info_handle filename = (info1, r1)" by fastforce
  note i1 = info_handle_mount_handle [OF m]
  have z: "volume_consistent (volume_zero :: 'a file_dev_handle volume)"
    by (simp add: volume_consistent_def volume_empty_def volume_zero_def)
  have open_v: "volume_consistent v \<and> vol_file_io_handle v \<noteq> None"
    if "libfsxfs_volume_open_file_io_handle (device_libbfio lib) volume_zero h 1 = (v, Inr u)" for h v u
    using volume_open_handle_consistent [OF _ z] that by (metis unit.exhaust)
  show ?thesis
    using assms m i1
    by (auto simp: FDXFSInfoHandle_Open_def Let_def libfsxfs_volume_initialize_def allocate_structure_def
        split: sum.split_asm option.split_asm prod.split_asm dest!: open_v)
qed

lemma helper_step_invariant:
  assumes "helper_step lib s s'" and "helper_invariant s"
  shows "helper_invariant s'"
  using assms(1)
proof cases
  case (initialize h h' r d)
  then show ?thesis
    by (auto simp: FDXFSHelper_Initialize_def FDXFSInfoHandle_Initialize_def helper_invariant_def xfsinfo_handle_zero_def)
next
  case (mount d h label d' h' r)
  note keeps = open_blockdev_keeps [of lib d label d'] and some = open_blockdev_Some [of lib d label d']
  show ?thesis
    using mount assms(2) keeps some
    by (fastforce simp: FDXFSHelper_Mount_def helper_invariant_def Let_def
        split: prod.split_asm option.split_asm pointer.split_asm)
next
  case (open_source h source h' r d)
  show ?thesis
    using open_source assms(2) info_handle_open_invariant [of lib]
    by (fastforce simp: FDXFSHelper_Open_def helper_invariant_def
        split: option.split_asm if_split_asm prod.split_asm sum.split_asm pointer.split_asm)
next
  case (close h h' r d)
  have c: "volume_consistent v'" if "libfsxfs_volume_close (device_libbfio lib) v = (v', q)" "volume_consistent v" for v v' q
    using volume_step_consistent [OF volume_step.close [OF that(1), of "\<lambda>_ :: unit. Inl Generic"] that(2)] .
  show ?thesis
    using close assms(2) c
    by (fastforce simp: FDXFSHelper_Close_def FDXFSInfoHandle_Close_def helper_invariant_def
        split: option.split_asm if_split_asm prod.split_asm pointer.split_asm)
qed

lemma helper_reachable_invariant: "helper_reachable lib s \<Longrightarrow> helper_invariant s"
proof (induction rule: helper_reachable.induct)
  case start
  then show ?case by (simp add: helper_invariant_def xfs_helper_zero_def)
next
  case (step s s')
  then show ?case by (blast intro: helper_step_invariant)
qed

lemma helper_steps_keep_device:
  assumes "(helper_step lib)\<^sup>*\<^sup>* s s'" and "fst s label = Some (Some dev)"
  shows "\<exists>dev'. fst s' label = Some (Some dev')"
  using assms
proof (induction rule: rtranclp_induct)
  case (step y z)
  then obtain dev' where dev': "fst y label = Some (Some dev')" by blast
  show ?case
    using step.hyps(2)
  proof cases
    case (mount d h l d' h' r)
    then show ?thesis
      using dev' open_blockdev_keeps [of lib d l d' _ label dev']
      by (auto simp: FDXFSHelper_Mount_def Let_def split: prod.split_asm option.split_asm pointer.split_asm)
  qed (use dev' in auto)
qed blast

lemma mount_again_refused:
  assumes "d label = Some (Some dev)"
  shows "FDXFSHelper_Mount lib d h label =
    (d, h\<lparr> fh_mountpoint := [0x2f] @ helper_mount_name h label @ [0x2f] \<rparr>, Inr False)"
  using open_blockdev_Some [of lib d label _ _ dev] assms
  by (cases "open_blockdev lib d label") (auto simp: FDXFSHelper_Mount_def Let_def)

text \<open>
  C28: In every session the volume is open, with all that was read of it, or closed and empty, and belongs to a
  mounted device. A label that was mounted cannot be mounted again as long as the program runs, although the
  helper numbers the names of devices that have the same label.
\<close>

theorem device_session_states:
  assumes "helper_reachable lib (d, h)" and "FDXFSHelper_Mount lib d h label = (d1, h1, Inr True)"
    and "(helper_step lib)\<^sup>*\<^sup>* (d1, h1) (d2, h2)"
  shows "(\<exists>info_handle. fh_xfs_info_handle h2 = Some (Points_To info_handle) \<and>
      (\<forall>v. ih_input_volume info_handle = Some v \<longrightarrow>
        (if vol_file_io_handle v = None then volume_empty v else volume_loaded v) \<and>
        ih_input_file_io_handle info_handle \<noteq> None)) \<and>
    FDXFSHelper_Mount lib d2 h2 label =
      (d2, h2\<lparr> fh_mountpoint := [0x2f] @ helper_mount_name h2 label @ [0x2f] \<rparr>, Inr False)"
proof
  have "helper_step lib (d, h) (d1, h1)" using assms(2) by (rule helper_step.mount) simp
  then have r1: "helper_reachable lib (d1, h1)" by (rule helper_reachable.step [OF assms(1)])
  from assms(3) have "helper_reachable lib (d2, h2)"
    by (induction rule: rtranclp_induct) (use r1 in \<open>auto intro: helper_reachable.step\<close>)
  then have inv: "helper_invariant (d2, h2)" by (rule helper_reachable_invariant)
  obtain dev where dev: "d1 label = Some (Some dev)"
    using assms(2) open_blockdev_Some [of lib d label d1]
    by (fastforce simp: FDXFSHelper_Mount_def Let_def split: prod.split_asm option.split_asm pointer.split_asm)
  then obtain dev' where "d2 label = Some (Some dev')"
    using helper_steps_keep_device [OF assms(3)] by auto
  then show "FDXFSHelper_Mount lib d2 h2 label =
      (d2, h2\<lparr> fh_mountpoint := [0x2f] @ helper_mount_name h2 label @ [0x2f] \<rparr>, Inr False)"
    by (rule mount_again_refused)
  have "fh_xfs_info_handle h1 \<noteq> None"
    using assms(2) by (auto simp: FDXFSHelper_Mount_def Let_def split: prod.split_asm option.split_asm pointer.split_asm)
  with assms(3) have "fh_xfs_info_handle h2 \<noteq> None"
  proof (induction "(d2, h2)" arbitrary: d2 h2 rule: rtranclp_induct)
    case (step y)
    then show ?case
      by (cases y) (auto elim!: helper_stepE simp: FDXFSHelper_Initialize_def FDXFSHelper_Mount_def FDXFSHelper_Open_def
          FDXFSHelper_Close_def Let_def split: prod.split_asm option.split_asm pointer.split_asm if_split_asm sum.split_asm)
  qed
  then show "\<exists>info_handle. fh_xfs_info_handle h2 = Some (Points_To info_handle) \<and>
      (\<forall>v. ih_input_volume info_handle = Some v \<longrightarrow>
        (if vol_file_io_handle v = None then volume_empty v else volume_loaded v) \<and>
        ih_input_file_io_handle info_handle \<noteq> None)"
    using inv by (auto simp: helper_invariant_def volume_consistent_def split: option.split_asm pointer.split_asm)
qed

text \<open>
  C29: After a source was opened and closed, every source is opened successfully without being read: the volume
  stays closed and has no root directory.
\<close>

theorem closed_device_reopened:
  assumes "helper_reachable lib (d, h)" and "fh_source h = []"
    and "FDXFSHelper_Open lib h (Some source) = (h1, Inr True)" and "source \<noteq> []"
    and "FDXFSHelper_Close lib h1 = (h2, r)"
  shows "FDXFSHelper_Open lib h2 (Some source') = (h2, Inr True) \<and>
    (\<exists>p. fh_xfs_info_handle h2 = Some p \<and> FDXFSInfoHandle_FindFirst lib fdata p = Inr None)"
proof
  obtain p where p: "fh_xfs_info_handle h = Some p" "FDXFSInfoHandle_Open lib p source = (the (fh_xfs_info_handle h1), Inr ())"
    "fh_source h1 = source" "fh_xfs_info_handle h1 \<noteq> None"
    using assms(2-4)
    by (auto simp: FDXFSHelper_Open_def bool_result_def split: option.split_asm prod.split_asm sum.split_asm error.split_asm)
  obtain info_handle where "p = Points_To info_handle"
    using helper_reachable_invariant [OF assms(1)] p(1) by (auto simp: helper_invariant_def split: pointer.split_asm)
  from info_handle_open_invariant [OF p(2) [unfolded this]]
  obtain info1 v where v: "the (fh_xfs_info_handle h1) = Points_To info1" "ih_input_volume info1 = Some v"
    "vol_file_io_handle v \<noteq> None"
    by auto
  then have h1: "fh_xfs_info_handle h1 = Some (Points_To info1)" using p(4) by auto
  show "FDXFSHelper_Open lib h2 (Some source') = (h2, Inr True)"
    using assms(4,5) h1 p(3)
    by (auto simp: FDXFSHelper_Close_def FDXFSHelper_Open_def split: prod.split_asm)
  show "\<exists>p. fh_xfs_info_handle h2 = Some p \<and> FDXFSInfoHandle_FindFirst lib fdata p = Inr None"
    using assms(4,5) h1 p(3) v(2,3)
    by (auto simp: FDXFSHelper_Close_def FDXFSInfoHandle_Close_def FDXFSInfoHandle_FindFirst_def
        libfsxfs_volume_close_def libfsxfs_volume_get_root_directory_def Let_def split: prod.split_asm)
qed

subsection \<open>Example\<close>

text \<open>A file in memory as a device: it is mounted, and it is opened when there is a volume in it.\<close>

definition memory_device :: "u64 file_dev_handle" where
  "memory_device = \<lparr> fd_file_io_handle = 0, fd_range_offset = 0, fd_range_size = 0 \<rparr>"

definition initialized_helper :: "u64 xfs_helper" where
  "initialized_helper = xfs_helper_zero\<lparr> fh_xfs_info_handle := Some (Points_To xfsinfo_handle_zero) \<rparr>"

definition memory_mounted :: "u8 list \<Rightarrow> u64 xfs_helper" where
  "memory_mounted label =
     \<lparr> fh_block_dev = [label], fh_source = [], fh_mountpoint = [0x2f] @ label @ [0x2f],
       fh_xfs_info_handle = Some (Points_To (xfsinfo_handle_zero\<lparr> ih_input_file_io_handle := Some memory_device \<rparr>)) \<rparr>"

definition memory_opened :: "u8 list \<Rightarrow> u16 list \<Rightarrow> u64 file_dev_handle volume \<Rightarrow> u64 xfs_helper" where
  "memory_opened label source v = (memory_mounted label)
     \<lparr> fh_source := source,
       fh_xfs_info_handle := Some (Points_To (xfsinfo_handle_zero
         \<lparr> ih_input_file_io_handle := Some memory_device,
           ih_input_volume := Some (v\<lparr> vol_file_io_handle := Some memory_device,
             vol_file_io_handle_opened_in_library := True \<rparr>) \<rparr>)) \<rparr>"

lemma helper_initialize: "FDXFSHelper_Initialize xfs_helper_zero = (initialized_helper, Inr True)"
  by (simp add: FDXFSHelper_Initialize_def FDXFSInfoHandle_Initialize_def bool_result_def initialized_helper_def)

lemma memory_mount:
  "FDXFSHelper_Mount (memory_file contents) Map.empty initialized_helper label =
    ([label \<mapsto> Some memory_device], memory_mounted label, Inr True)"
  by (simp add: FDXFSHelper_Mount_def helper_mount_name_def open_blockdev_def file_dev_initialize_def DeviceIO_Initialize_def
      file_dev_set_name_def file_dev_set_def change_handle_def DeviceIO_SetName_def DeviceIO_Set_def with_device_file_def
      memory_file_def memory_device_def memory_mounted_def initialized_helper_def xfs_helper_zero_def Let_def)

lemma memory_device_read:
  assumes "length contents \<le> SSIZE_MAX" and "unat off \<le> SSIZE_MAX" and "n \<le> SSIZE_MAX"
  shows "device_read_at (memory_file contents) memory_device off n = disk_io contents off n"
proof -
  have at: "device_at (\<lambda>f. contents) memory_position memory_device contents 0"
    by (simp add: device_at_def memory_position_def memory_device_def)
  show ?thesis
    using device_read_at_disk [OF memory_file_reads [OF assms(1)] at, of 0 off n] assms(2,3) by (simp add: memory_device_def)
qed

lemma memory_open:
  assumes "contents \<noteq> []" "length contents \<le> SSIZE_MAX" and "vol_file_io_handle v = None"
    and "libfsxfs_internal_volume_open_read volume_zero (device_read_at (memory_file contents) memory_device) = (v, Inr ())"
  shows "FDXFSHelper_Open (memory_file contents) (memory_mounted label) (Some source) = (memory_opened label source v, Inr True)"
proof -
  note size = sint_offset_nat [OF assms(2)]
  have "DeviceIO_Open (memory_file contents) memory_device 1 = (memory_device, Inr ())"
    using assms(1) size by (simp add: DeviceIO_Open_def with_device_file_def memory_file_def memory_device_def)
  moreover have "DeviceIO_IsOpen (memory_file contents) memory_device = Inr False"
    by (simp add: DeviceIO_IsOpen_def memory_file_def)
  ultimately have "libfsxfs_volume_open_file_io_handle (device_libbfio (memory_file contents)) volume_zero memory_device 1 =
      (v\<lparr> vol_file_io_handle := Some memory_device, vol_file_io_handle_opened_in_library := True \<rparr>, Inr ())"
    using assms(3,4) by (simp add: libfsxfs_volume_open_file_io_handle_def device_libbfio_def volume_zero_def)
  then show ?thesis
    by (simp add: FDXFSHelper_Open_def FDXFSInfoHandle_Open_def FDXFSInfoHandle_Mount_def file_dev_set_name_wide_def
        file_dev_set_def change_handle_def DeviceIO_SetNameWide_def DeviceIO_Set_def with_device_file_def
        libfsxfs_volume_initialize_def memory_mounted_def memory_opened_def xfsinfo_handle_zero_def memory_device_def
        memory_file_def Let_def)
qed

text \<open>A device with the superblock of the example, mounted by the label \<open>a\<close> and opened as \<open>b\<close>.\<close>

definition example_device :: "u64 libbfio_file" where
  "example_device = memory_file (superblock_sector example_superblock)"

definition example_mounted :: "u64 block_devices \<times> u64 xfs_helper" where
  "example_mounted = ([[0x61] \<mapsto> Some memory_device], memory_mounted [0x61])"

lemma example_sector_length: "length (superblock_sector example_superblock) = 512"
proof -
  have "length (superblock_bytes example_superblock 0) = 208"
    using example_superblock_supported by (intro length_superblock_bytes) (simp add: superblock_supported_def)
  then show ?thesis by (simp add: superblock_sector_def)
qed

lemma example_mount:
  "FDXFSHelper_Mount example_device Map.empty initialized_helper [0x61] = (fst example_mounted, snd example_mounted, Inr True)"
  by (simp add: example_device_def example_mounted_def memory_mount)

lemma example_device_reachable:
  "helper_reachable example_device (Map.empty, initialized_helper)" "helper_reachable example_device example_mounted"
proof -
  have s: "helper_step example_device (Map.empty, xfs_helper_zero) (Map.empty, initialized_helper)"
    by (rule helper_step.initialize [OF helper_initialize])
  show i: "helper_reachable example_device (Map.empty, initialized_helper)"
    by (rule helper_reachable.step [OF helper_reachable.start s])
  have "helper_step example_device (Map.empty, initialized_helper) (fst example_mounted, snd example_mounted)"
    by (rule helper_step.mount [OF example_mount]) simp
  then show "helper_reachable example_device example_mounted"
    by (intro helper_reachable.step [OF i]) simp
qed

lemma device_session_states_witness:
  "FDXFSHelper_Mount example_device (fst example_mounted) (snd example_mounted) [0x61] =
    (fst example_mounted, snd example_mounted
       \<lparr> fh_mountpoint := [0x2f] @ helper_mount_name (snd example_mounted) [0x61] @ [0x2f] \<rparr>, Inr False)"
  using device_session_states [OF example_device_reachable(1) example_mount rtranclp.rtrancl_refl] by blast

lemma example_device_opens:
  "\<exists>h. FDXFSHelper_Open example_device (snd example_mounted) (Some [0x62]) = (h, Inr True)"
proof -
  have read: "device_read_at example_device memory_device off n = disk_io (superblock_sector example_superblock) off n"
    if "unat off \<le> SSIZE_MAX" "n \<le> SSIZE_MAX" for off n
    unfolding example_device_def using that by (intro memory_device_read) (simp_all add: example_sector_length)
  have "libfsxfs_internal_volume_open_read volume_zero (device_read_at example_device memory_device) =
      (example_volume :: u64 file_dev_handle volume, Inr ())"
    by (rule example_volume_open_read) (simp_all add: read disk_io_def example_sector_length read_buffer_at_offset_def)
  moreover have "vol_file_io_handle (example_volume :: u64 file_dev_handle volume) = None"
    by (simp add: example_volume_def volume_zero_def)
  moreover have "superblock_sector example_superblock \<noteq> []" using example_sector_length by auto
  ultimately show ?thesis
    using memory_open [of "superblock_sector example_superblock" example_volume "[0x61]" "[0x62]"]
    by (simp add: example_device_def example_mounted_def example_sector_length)
qed

lemma closed_device_reopened_witness:
  "\<exists>h1 h2. FDXFSHelper_Open example_device (snd example_mounted) (Some [0x62]) = (h1, Inr True) \<and>
    fst (FDXFSHelper_Close example_device h1) = h2 \<and>
    FDXFSHelper_Open example_device h2 (Some [0x63]) = (h2, Inr True) \<and>
    FDXFSInfoHandle_FindFirst example_device recording_libfdata (the (fh_xfs_info_handle h2)) = Inr None"
proof -
  obtain h1 where h1: "FDXFSHelper_Open example_device (snd example_mounted) (Some [0x62]) = (h1, Inr True)"
    using example_device_opens by blast
  obtain h2 r where h2: "FDXFSHelper_Close example_device h1 = (h2, r)" by fastforce
  have "helper_reachable example_device (fst example_mounted, snd example_mounted)" using example_device_reachable(2) by simp
  from closed_device_reopened [OF this _ h1 _ h2, of "[0x63]" recording_libfdata] h1 h2
  show ?thesis by (auto simp: example_mounted_def memory_mounted_def)
qed

end
