(* ===== verification/Device_Printing.thy ===== *)
theory Device_Printing
  imports Device_Session Info_Hierarchy
begin

text \<open>
  What the program of a device prints (the printing of \<open>FDXFSInfo/FDXFSInfoHandle.cpp\<close> and \<open>FDXFSHelper.cpp\<close>,
  and \<open>FDXFSInfo.cpp\<close>): the values of every file of the volume, with names in wide characters.
\<close>

subsection \<open>Names\<close>

text \<open>
  The functions of the libraries that give and take wide strings, the contents of memory that was allocated, and
  the multibyte characters that the format \<open>%ls\<close> writes for a wide string in the locale of the program.
\<close>

record wide_libraries =
  wl_copy :: "u16 unicode_copy"
  wl_write :: "u16 unicode_write"
  wl_name_size :: "u8 list \<Rightarrow> nat result"
  wl_name :: "nat \<Rightarrow> u8 list \<Rightarrow> u16 list result"
  wl_fresh :: "nat \<Rightarrow> u16 list"
  wl_date_time :: "u64 \<Rightarrow> u16 list result"
  wl_multibyte :: "u16 list \<Rightarrow> u8 list"

definition wide_string_of_buffer :: "u16 list \<Rightarrow> u16 list" where
  "wide_string_of_buffer buffer = takeWhile (\<lambda>c. c \<noteq> 0) buffer"

definition wide_format_string :: "wide_libraries \<Rightarrow> u16 list \<Rightarrow> u8 list result" where
  "wide_format_string wl buffer =
     (if 0 \<in> set buffer then Inr (wl_multibyte wl (wide_string_of_buffer buffer))
      else Inl (Undefined Out_Of_Bounds_Read))"

text \<open>Printing to a wide string fails when the text and its end do not fit.\<close>

definition wide_escape :: "u32 \<Rightarrow> u16 list" where
  "wide_escape c = map ucast ([ESCAPE_CHARACTER, 0x78] @ hex_padded 2 (unat c))"

definition wide_append_character :: "u16 unicode_write \<Rightarrow> nat \<Rightarrow> u32 \<Rightarrow> u16 list \<Rightarrow> u16 list result" where
  "wide_append_character write buffer_size c string =
     (if c \<le> 0x1f \<or> (0x7f \<le> c \<and> c \<le> 0x9f) then
        if length string > buffer_size then Inl (Undefined Out_Of_Bounds_Write)
        else if length string + length (wide_escape c) \<ge> buffer_size then Inl Generic
        else Inr (string @ wide_escape c)
      else write c buffer_size string)"

definition print_stream :: "u8 list \<Rightarrow> 'h info_handle \<Rightarrow> 'h info_handle" where
  "print_stream s info_handle =
     (if ih_bodyfile_stream info_handle \<noteq> None then print_bodyfile s info_handle else print_notify s info_handle)"

text \<open>A wide character has two bytes.\<close>

definition FDXFSInfoHandle_PrintNameValue ::
    "wide_libraries \<Rightarrow> 'h info_handle \<Rightarrow> u16 list \<Rightarrow> ('h, unit) printing" where
  "FDXFSInfoHandle_PrintNameValue wl info_handle value_string =
     (if length value_string > (SSIZE_MAX - 1) div 8 then Some (info_handle, Inl Value_Exceeds_Maximum) else
      let escaped_value_string_size = length value_string * 4 + 1 in
      (case name_escape_loop (wl_copy wl) (wide_append_character (wl_write wl) escaped_value_string_size) value_string 0 [] of
         None \<Rightarrow> None
       | Some (Inl e) \<Rightarrow> Some (info_handle, Inl e)
       | Some (Inr escaped) \<Rightarrow>
           if length escaped \<ge> escaped_value_string_size
           then Some (info_handle, Inl (Undefined Out_Of_Bounds_Write)) else
           Some (print_stream (wl_multibyte wl (wide_string_of_buffer escaped)) info_handle, Inr ())))"

definition optional_name_value_fprint ::
    "wide_libraries \<Rightarrow> 'h info_handle \<Rightarrow> u16 list option \<Rightarrow> ('h, unit) printing" where
  "optional_name_value_fprint wl info_handle value_string =
     (case value_string of
        None \<Rightarrow> Some (info_handle, Inr ())
      | Some value_string \<Rightarrow> FDXFSInfoHandle_PrintNameValue wl info_handle value_string)"

subsection \<open>The values of a file entry\<close>

definition FDXFSInfoHandle_PosixTimeInNanoSecondsValue_fprint ::
    "wide_libraries \<Rightarrow> 'h info_handle \<Rightarrow> u8 list \<Rightarrow> u64 \<Rightarrow> ('h, unit) printing" where
  "FDXFSInfoHandle_PosixTimeInNanoSecondsValue_fprint wl info_handle value_name value_64bit =
     Some
       (if value_64bit = 0
        then (print_notify (value_name @ ascii '': Not set (0)'' @ [newline]) info_handle, Inr ())
        else
          (case wl_date_time wl value_64bit of
             Inl e \<Rightarrow> (info_handle, Inl e)
           | Inr s \<Rightarrow>
               (print_notify (value_name @ ascii '': '' @ wl_multibyte wl s @ ascii ''Z'' @ [newline]) info_handle, Inr ())))"

definition wide_symbolic_link_target ::
    "'s libfdata \<Rightarrow> wide_libraries \<Rightarrow> 's file_entry \<Rightarrow> 's file_entry \<times> u16 list option result" where
  "wide_symbolic_link_target lib wl file_entry =
     (case libfsxfs_file_entry_get_utf16_symbolic_link_target_size lib (wl_name_size wl) file_entry of
        (file_entry, Inl e) \<Rightarrow> (file_entry, Inl e)
      | (file_entry, Inr None) \<Rightarrow> (file_entry, Inr None)
      | (file_entry, Inr (Some symbolic_link_target_size)) \<Rightarrow>
          (case libfsxfs_file_entry_get_utf16_symbolic_link_target lib (wl_name wl) file_entry
                  symbolic_link_target_size of
             (file_entry, Inl e) \<Rightarrow> (file_entry, Inl e)
           | (file_entry, Inr None) \<Rightarrow> (file_entry, Inl Get_Failed)
           | (file_entry, Inr (Some target)) \<Rightarrow>
               (file_entry, Inr (Some (target @ drop (length target) (wl_fresh wl symbolic_link_target_size))))))"

text \<open>
  The file entry goes on to be used after an error, so that it is given with the result, which is the return
  value 1 or -1.
\<close>

fun attribute_names_fprint ::
    "wide_libraries \<Rightarrow> nat \<Rightarrow> nat \<Rightarrow> 'h info_handle \<Rightarrow> 's file_entry \<Rightarrow> ('h, 's file_entry \<times> unit result) printing" where
  "attribute_names_fprint wl 0 extended_attribute_index info_handle file_entry =
     Some (info_handle, Inr (file_entry, Inr ()))"
| "attribute_names_fprint wl (Suc n) extended_attribute_index info_handle file_entry =
     (case libfsxfs_file_entry_get_extended_attribute_by_index file_entry (int extended_attribute_index) of
        (file_entry, Inl e) \<Rightarrow> Some (info_handle, Inr (file_entry, Inl e))
      | (file_entry, Inr attr) \<Rightarrow>
          (case libfsxfs_extended_attribute_get_utf16_name_size (wl_name_size wl) attr of
             Inl e \<Rightarrow> Some (info_handle, Inr (file_entry, Inl e))
           | Inr name_size \<Rightarrow>
               let info_handle = print_notify (tabs 2 @ ascii ''Attribute: '' @
                     decimal_digits (extended_attribute_index + 1) @ tabs 1 @ ascii '': '') info_handle in
               (case (if name_size > 0
                      then bindE (libfsxfs_extended_attribute_get_utf16_name (wl_name wl) attr name_size) (\<lambda>name.
                           wide_format_string wl (name @ drop (length name) (wl_fresh wl name_size)))
                      else Inr []) of
                  Inl e \<Rightarrow> Some (info_handle, Inr (file_entry, Inl e))
                | Inr name \<Rightarrow>
                    attribute_names_fprint wl n (extended_attribute_index + 1)
                      (print_notify (name @ [newline]) info_handle) file_entry)))"

definition extended_attributes_fprint ::
    "wide_libraries \<Rightarrow> 'h info_handle \<Rightarrow> 's file_entry \<Rightarrow> ('h, 's file_entry \<times> unit result) printing" where
  "extended_attributes_fprint wl info_handle file_entry =
     (case libfsxfs_file_entry_get_number_of_extended_attributes file_entry of
        (file_entry, Inl e) \<Rightarrow> Some (info_handle, Inr (file_entry, Inl e))
      | (file_entry, Inr n) \<Rightarrow>
          if n > 0 then
            attribute_names_fprint wl n 0
              (print_notify (tabs 1 @ ascii ''Extended attributes:'' @ [newline]) info_handle) file_entry
          else Some (info_handle, Inr (file_entry, Inr ())))"

definition name_line_fprint ::
    "wide_libraries \<Rightarrow> 'h info_handle \<Rightarrow> u16 list option \<Rightarrow> u16 list option \<Rightarrow> ('h, unit) printing" where
  "name_line_fprint wl info_handle path name =
     (case name of
        None \<Rightarrow> Some (info_handle, Inr ())
      | Some name \<Rightarrow>
          print_then (optional_name_value_fprint wl
              (print_notify (tabs 1 @ ascii ''Name'' @ tabs 3 @ ascii '': '') info_handle) path) (\<lambda>info_handle _.
          print_then (FDXFSInfoHandle_PrintNameValue wl info_handle name) (\<lambda>info_handle _.
          Some (print_notify [newline] info_handle, Inr ()))))"

text \<open>The values up to the extended attributes; those of them that are numbers are printed as in the information tool.\<close>

definition values_fprint ::
    "wide_libraries \<Rightarrow> 'h info_handle \<Rightarrow> 's file_entry \<Rightarrow> u16 list option \<Rightarrow> u16 list option \<Rightarrow> u16 list option
      \<Rightarrow> ('h, unit) printing" where
  "values_fprint wl info_handle file_entry path name symbolic_link_target =
     (let print_time = FDXFSInfoHandle_PosixTimeInNanoSecondsValue_fprint wl in
      print_then (name_line_fprint wl
          (print_notify (tabs 1 @ ascii ''Inode number'' @ tabs 2 @ ascii '': '' @
             decimal_digits (unat (libfsxfs_file_entry_get_inode_number file_entry)) @ [newline]) info_handle)
          path name) (\<lambda>info_handle _.
      print_then (print_time
          (print_notify (tabs 1 @ ascii ''Size'' @ tabs 3 @ ascii '': '' @
             decimal_digits (unat (libfsxfs_file_entry_get_size file_entry)) @ [newline]) info_handle)
          (tabs 1 @ ascii ''Modification time'' @ tabs 1)
          (libfsxfs_file_entry_get_modification_time file_entry)) (\<lambda>info_handle _.
      print_then (print_time info_handle (tabs 1 @ ascii ''Inode change time'' @ tabs 1)
          (libfsxfs_file_entry_get_inode_change_time file_entry)) (\<lambda>info_handle _.
      print_then (print_time info_handle (tabs 1 @ ascii ''Access time'' @ tabs 2)
          (libfsxfs_file_entry_get_access_time file_entry)) (\<lambda>info_handle _.
      print_then
          (case libfsxfs_file_entry_get_creation_time file_entry of
             None \<Rightarrow> Some (info_handle, Inr ())
           | Some creation_time \<Rightarrow>
               print_time info_handle (tabs 1 @ ascii ''Creation time'' @ tabs 2) creation_time) (\<lambda>info_handle _.
      let info_handle = info_numbers_fprint file_entry info_handle in
      (case symbolic_link_target of
         None \<Rightarrow> Some (info_handle, Inr ())
       | Some target \<Rightarrow>
           (case wide_format_string wl target of
              Inl e \<Rightarrow> Some (info_handle, Inl e)
            | Inr s \<Rightarrow>
                Some (print_notify (tabs 1 @ ascii ''Symbolic link target'' @ tabs 1 @ ascii '': '' @ s @ [newline])
                        info_handle, Inr ())))))))))"

text \<open>Nothing is printed to a bodyfile.\<close>

definition FDXFSInfoHandle_FileEntryValueWithName_fprint ::
    "'s libfdata \<Rightarrow> wide_libraries \<Rightarrow> 'h info_handle \<Rightarrow> 's file_entry \<Rightarrow> u16 list option \<Rightarrow> u16 list option
      \<Rightarrow> ('h, 's file_entry \<times> unit result) printing" where
  "FDXFSInfoHandle_FileEntryValueWithName_fprint lib wl info_handle file_entry path name =
     (case wide_symbolic_link_target lib wl file_entry of
        (file_entry, Inl e) \<Rightarrow> Some (info_handle, Inr (file_entry, Inl e))
      | (file_entry, Inr symbolic_link_target) \<Rightarrow>
          if ih_bodyfile_stream info_handle \<noteq> None then Some (info_handle, Inr (file_entry, Inr ())) else
          (case values_fprint wl info_handle file_entry path name symbolic_link_target of
             None \<Rightarrow> None
           | Some (info_handle, Inl e) \<Rightarrow> Some (info_handle, Inr (file_entry, Inl e))
           | Some (info_handle, Inr _) \<Rightarrow> extended_attributes_fprint wl info_handle file_entry))"

subsection \<open>The hierarchy of files\<close>

definition wide_entry_name :: "wide_libraries \<Rightarrow> 's file_entry \<Rightarrow> u16 list option result" where
  "wide_entry_name wl file_entry =
     bindE (libfsxfs_file_entry_get_utf16_name_size (wl_name_size wl) file_entry) (\<lambda>name_size.
     case name_size of
       None \<Rightarrow> Inr None
     | Some name_size \<Rightarrow>
         if name_size > 0 then
           bindE (libfsxfs_file_entry_get_utf16_name (wl_name wl) file_entry name_size) (\<lambda>name.
           case name of
             None \<Rightarrow> Inl Get_Failed
           | Some name \<Rightarrow> Inr (Some (take (name_size - 1) (name @ drop (length name) (wl_fresh wl name_size)))))
         else Inr None)"

text \<open>The wide strings are copied up to their end, what is left is filled with it.\<close>

definition wide_string_copy :: "u16 list \<Rightarrow> u16 list" where
  "wide_string_copy s = wide_string_of_buffer s @ replicate (length s - length (wide_string_of_buffer s)) 0"

definition wide_sub_path :: "u16 list \<Rightarrow> u16 list option \<Rightarrow> u16 list" where
  "wide_sub_path path name =
     (case name of
        None \<Rightarrow> wide_string_copy path
      | Some name \<Rightarrow> wide_string_copy path @ wide_string_copy name @ [LIBFSXFS_SEPARATOR])"

text \<open>Without a bodyfile it does not matter if the values of a file entry can be printed.\<close>

definition values_printed :: "'h info_handle \<Rightarrow> unit result \<Rightarrow> unit result" where
  "values_printed info_handle r =
     (case r of
        Inr _ \<Rightarrow> Inr ()
      | Inl (Undefined u) \<Rightarrow> Inl (Undefined u)
      | Inl e \<Rightarrow> if ih_bodyfile_stream info_handle \<noteq> None then Inl e else Inr ())"

fun FDXFSInfoHandle_FindNext ::
    "nat \<Rightarrow> 's libfdata \<Rightarrow> wide_libraries \<Rightarrow> 'h info_handle \<Rightarrow> 's file_entry \<Rightarrow> u16 list \<Rightarrow> ('h, unit) printing" where
  "FDXFSInfoHandle_FindNext 0 lib wl info_handle file_entry path = None"
| "FDXFSInfoHandle_FindNext (Suc levels) lib wl info_handle file_entry path =
     (if length path > SSIZE_MAX - 1 then Some (info_handle, Inl Value_Exceeds_Maximum) else
      case wide_entry_name wl file_entry of
        Inl e \<Rightarrow> Some (info_handle, Inl e)
      | Inr name \<Rightarrow>
          print_then (FDXFSInfoHandle_FileEntryValueWithName_fprint lib wl info_handle file_entry (Some path) name)
            (\<lambda>info_handle (file_entry, r).
          (case values_printed info_handle r of
             Inl e \<Rightarrow> Some (info_handle, Inl e)
           | Inr _ \<Rightarrow>
               (case libfsxfs_file_entry_get_number_of_sub_file_entries file_entry of
                  None \<Rightarrow> None
                | Some (file_entry, Inl e) \<Rightarrow> Some (info_handle, Inl e)
                | Some (file_entry, Inr number) \<Rightarrow>
                    hierarchy_sub_entries_fprint lib
                      (\<lambda>info_handle sub_file_entry.
                        FDXFSInfoHandle_FindNext levels lib wl info_handle sub_file_entry (wide_sub_path path name))
                      (case number of None \<Rightarrow> 0 | Some n \<Rightarrow> n) 0 info_handle file_entry))))"

text \<open>
  The methods get the handle by its pointer. They give the return value 1 or -1, as \<open>True\<close> or \<open>False\<close>, or
  throw an error.
\<close>

definition print_by_pointer ::
    "('f xfsinfo_handle \<Rightarrow> ('f file_dev_handle, unit) printing) \<Rightarrow> bool result \<Rightarrow> 'f xfsinfo_handle pointer
      \<Rightarrow> ('f xfsinfo_handle pointer \<times> bool result) option" where
  "print_by_pointer print without pointer =
     (case pointer of
        Null \<Rightarrow> Some (Null, without)
      | Freed \<Rightarrow> Some (Freed, Inl (Undefined Use_After_Free))
      | Points_To info_handle \<Rightarrow> map_option (\<lambda>(info_handle, r). (Points_To info_handle, bool_result r)) (print info_handle))"

definition console_fprint :: "u8 list \<Rightarrow> 'h info_handle \<Rightarrow> 'h info_handle" where
  "console_fprint s info_handle = (if ih_bodyfile_stream info_handle = None then print_notify s info_handle else info_handle)"

definition FDXFSInfoHandle_PrintFileSystemHierarchy ::
    "nat \<Rightarrow> 'f libbfio_file \<Rightarrow> 's libfdata \<Rightarrow> wide_libraries \<Rightarrow> 'f xfsinfo_handle pointer
      \<Rightarrow> ('f xfsinfo_handle pointer \<times> bool result) option" where
  "FDXFSInfoHandle_PrintFileSystemHierarchy levels dev lib wl =
     print_by_pointer
       (\<lambda>info_handle.
         let info_handle = console_fprint (title @ ascii ''File system hierarchy:'' @ [newline]) info_handle in
         (case bindE (info_volume info_handle) (libfsxfs_volume_get_root_directory (device_libbfio dev) lib) of
            Inl e \<Rightarrow> Some (info_handle, Inl e)
          | Inr file_entry \<Rightarrow>
              print_then (FDXFSInfoHandle_FindNext levels lib wl info_handle file_entry [LIBFSXFS_SEPARATOR])
                (\<lambda>info_handle _. Some (console_fprint [newline] info_handle, Inr ()))))
       (Inl Invalid_Value)"

definition FDXFSInfoHandle_FileEntry_fprint_by_identifier ::
    "'f libbfio_file \<Rightarrow> 's libfdata \<Rightarrow> wide_libraries \<Rightarrow> 'f xfsinfo_handle \<Rightarrow> u64
      \<Rightarrow> ('f file_dev_handle, bool) printing" where
  "FDXFSInfoHandle_FileEntry_fprint_by_identifier dev lib wl info_handle file_entry_identifier =
     (case bindE (info_volume info_handle)
             (\<lambda>volume. libfsxfs_volume_get_file_entry_by_inode (device_libbfio dev) lib volume file_entry_identifier) of
        Inl e \<Rightarrow>
          Some (print_notify (ascii ''Error reading file entry: '' @ decimal_digits (unat file_entry_identifier) @
                  [newline, newline]) info_handle, Inr False)
      | Inr file_entry \<Rightarrow>
          print_then (FDXFSInfoHandle_FileEntryValueWithName_fprint lib wl
              (print_notify (ascii ''File entry: '' @ decimal_digits (unat file_entry_identifier) @
                 ascii '' information:'' @ [newline]) info_handle) file_entry None None) (\<lambda>info_handle (file_entry, r).
          (case r of
             Inl e \<Rightarrow> Some (info_handle, Inl e)
           | Inr _ \<Rightarrow> Some (print_notify [newline] info_handle, Inr True))))"

text \<open>The number of file entries is never determined, it is 0.\<close>

fun file_entries_by_identifier_fprint ::
    "'f libbfio_file \<Rightarrow> 's libfdata \<Rightarrow> wide_libraries \<Rightarrow> nat \<Rightarrow> u64 \<Rightarrow> 'f xfsinfo_handle
      \<Rightarrow> ('f file_dev_handle, unit) printing" where
  "file_entries_by_identifier_fprint dev lib wl 0 file_entry_identifier info_handle = Some (info_handle, Inr ())"
| "file_entries_by_identifier_fprint dev lib wl (Suc n) file_entry_identifier info_handle =
     print_then (FDXFSInfoHandle_FileEntry_fprint_by_identifier dev lib wl info_handle file_entry_identifier)
       (\<lambda>info_handle found.
     if found then file_entries_by_identifier_fprint dev lib wl n (file_entry_identifier + 1) info_handle
     else Some (info_handle, Inl Generic))"

definition FDXFSInfoHandle_FileEntries_fprint ::
    "'f libbfio_file \<Rightarrow> 's libfdata \<Rightarrow> wide_libraries \<Rightarrow> 'f xfsinfo_handle \<Rightarrow> ('f file_dev_handle, unit) printing" where
  "FDXFSInfoHandle_FileEntries_fprint dev lib wl info_handle =
     file_entries_by_identifier_fprint dev lib wl 0 0 info_handle"

text \<open>The label is written to a string that is empty: only the end of the string has a place there.\<close>

definition volume_label_fprint :: "wide_libraries \<Rightarrow> 'h volume \<Rightarrow> u8 list result" where
  "volume_label_fprint wl volume =
     bindE (libfsxfs_volume_get_utf16_label_size (wl_name_size wl) volume) (\<lambda>value_string_size.
     if value_string_size > 0 then
       bindE (libfsxfs_volume_get_utf16_label (wl_name wl) volume value_string_size) (\<lambda>value.
       if value = [] \<or> value = [0] then Inr (wl_multibyte wl []) else Inl (Undefined Out_Of_Bounds_Write))
     else Inr [])"

definition FDXFSInfoHandle_PrintVolumeInfo ::
    "wide_libraries \<Rightarrow> 'f xfsinfo_handle pointer \<Rightarrow> ('f xfsinfo_handle pointer \<times> bool result) option" where
  "FDXFSInfoHandle_PrintVolumeInfo wl =
     print_by_pointer
       (\<lambda>info_handle.
         let info_handle = print_notify (title @ ascii ''Volume information:'' @ [newline]) info_handle in
         Some
           (case info_volume info_handle of
              Inl e \<Rightarrow> (info_handle, Inl e)
            | Inr volume \<Rightarrow>
                let info_handle = print_notify (tabs 1 @ ascii ''Format version'' @ tabs 3 @ ascii '': '' @
                      decimal_digits (unat (libfsxfs_volume_get_format_version volume)) @ [newline] @
                      tabs 1 @ ascii ''Label'' @ tabs 4 @ ascii '': '') info_handle in
                (case volume_label_fprint wl volume of
                   Inl e \<Rightarrow> (info_handle, Inl e)
                 | Inr label \<Rightarrow> (print_notify (label @ [newline, newline]) info_handle, Inr ()))))
       (Inr False)"

subsection \<open>The helper and the program\<close>

definition helper_by_pointer ::
    "('f xfsinfo_handle pointer \<Rightarrow> ('f xfsinfo_handle pointer \<times> bool result) option) \<Rightarrow> 'f xfs_helper
      \<Rightarrow> ('f xfs_helper \<times> bool result) option" where
  "helper_by_pointer f helper =
     (case fh_xfs_info_handle helper of
        None \<Rightarrow> Some (helper, Inl (Undefined Null_Dereference))
      | Some pointer \<Rightarrow>
          map_option (\<lambda>(pointer, r). (helper\<lparr> fh_xfs_info_handle := Some pointer \<rparr>, r)) (f pointer))"

text \<open>What printing returns is not looked at.\<close>

definition FDXFSHelper_PrintVolumeInfo ::
    "wide_libraries \<Rightarrow> 'f xfs_helper \<Rightarrow> ('f xfs_helper \<times> bool result) option" where
  "FDXFSHelper_PrintVolumeInfo wl =
     helper_by_pointer (\<lambda>pointer.
       case pointer of
         Null \<Rightarrow> Some (Null, Inl Invalid_Value)
       | _ \<Rightarrow> map_option (map_prod id (map_sum id (\<lambda>_. True))) (FDXFSInfoHandle_PrintVolumeInfo wl pointer))"

definition FDXFSHelper_PrintHierarchy ::
    "nat \<Rightarrow> 'f libbfio_file \<Rightarrow> 's libfdata \<Rightarrow> wide_libraries \<Rightarrow> 'f xfs_helper \<Rightarrow> ('f xfs_helper \<times> bool result) option" where
  "FDXFSHelper_PrintHierarchy levels dev lib wl =
     helper_by_pointer (FDXFSInfoHandle_PrintFileSystemHierarchy levels dev lib wl)"

definition FDXFSHelper_Dir ::
    "nat \<Rightarrow> 'f libbfio_file \<Rightarrow> 's libfdata \<Rightarrow> wide_libraries \<Rightarrow> 'f xfs_helper \<Rightarrow> ('f xfs_helper \<times> bool result) option" where
  "FDXFSHelper_Dir levels dev lib wl =
     helper_by_pointer (print_by_pointer
       (\<lambda>info_handle.
         let info_handle = console_fprint (title @ ascii ''File system hierarchy:'' @ [newline]) info_handle in
         (case FDXFSInfoHandle_FindFirst dev lib (Points_To info_handle) of
            Inl e \<Rightarrow> Some (info_handle, Inl e)
          | Inr None \<Rightarrow> Some (info_handle, Inl Get_Failed)
          | Inr (Some file_entry) \<Rightarrow>
              print_then (FDXFSInfoHandle_FindNext levels lib wl info_handle file_entry [LIBFSXFS_SEPARATOR])
                (\<lambda>info_handle _. Some (console_fprint [newline] info_handle, Inr ()))))
       (Inr False))"

text \<open>The program prints the hierarchy of the volume in the source, which is the first argument.\<close>

definition default_source :: "u16 list" where
  "default_source = map ucast (ascii ''G:'' @ [0x5c] @ ascii ''Evidences'' @ [0x5c] @ ascii ''Dumps'' @ [0x5c] @
     ascii ''XFSDump'' @ [0x5c] @ ascii ''xfs.raw'')"

definition FDXFSInfo_wmain ::
    "nat \<Rightarrow> 'f libbfio_file \<Rightarrow> 's libfdata \<Rightarrow> wide_libraries \<Rightarrow> u16 list list \<Rightarrow> ('f xfs_helper \<times> unit result) option" where
  "FDXFSInfo_wmain levels dev lib wl argument_values =
     (let filename = (if length argument_values > 1 then argument_values ! 1 else default_source) in
      (case FDXFSHelper_Initialize xfs_helper_zero of
         (helper, Inl e) \<Rightarrow> Some (helper, Inl e)
       | (helper, Inr False) \<Rightarrow> Some (helper, Inr ())
       | (helper, Inr True) \<Rightarrow>
           (case FDXFSHelper_Mount dev Map.empty helper (ascii ''xfs_mp'') of
              (file_devs, helper, Inl e) \<Rightarrow> Some (helper, Inl e)
            | (file_devs, helper, Inr False) \<Rightarrow> Some (helper, Inr ())
            | (file_devs, helper, Inr True) \<Rightarrow>
                (case FDXFSHelper_Open dev helper (Some filename) of
                   (helper, Inl e) \<Rightarrow> Some (helper, Inl e)
                 | (helper, Inr _) \<Rightarrow>
                     (case FDXFSHelper_PrintHierarchy levels dev lib wl helper of
                        None \<Rightarrow> None
                      | Some (helper, Inl e) \<Rightarrow> Some (helper, Inl e)
                      | Some (helper, Inr _) \<Rightarrow> Some (FDXFSHelper_Close dev helper))))))"

end
