(* ===== verification/Device_Hierarchy.thy ===== *)
theory Device_Hierarchy
  imports Device_Printing
begin

text \<open>
  What the program of a device prints for a volume: for every file of its directory tree the values, a directory
  before the files in it.
\<close>

subsection \<open>Printing that only depends on the file\<close>

text \<open>To the console, the same text is appended to whatever was printed before, with the same result.\<close>

definition prints_text :: "('h info_handle \<Rightarrow> ('h, 'a) printing) \<Rightarrow> u8 list \<Rightarrow> 'a result \<Rightarrow> bool" where
  "prints_text m s r \<longleftrightarrow> (\<forall>h. ih_bodyfile_stream h = None \<longrightarrow> m h = Some (print_notify s h, r))"

text \<open>The result is one with a property that is given.\<close>

definition prints_some :: "('h info_handle \<Rightarrow> ('h, 'a) printing) \<Rightarrow> ('a result \<Rightarrow> bool) \<Rightarrow> bool" where
  "prints_some m P \<longleftrightarrow> (\<exists>s r. prints_text m s r \<and> P r)"

named_theorems prints_intros \<open>rules for printing that only depends on the file\<close>

lemma print_notify_nothing [simp]: "print_notify [] h = h"
  by (simp add: print_notify_def)

lemma prints_text_notify: "prints_text (\<lambda>h. Some (print_notify s h, r)) s r"
  by (simp add: prints_text_def)

lemma prints_text_return: "prints_text (\<lambda>h. Some (h, r)) [] r"
  by (simp add: prints_text_def)

lemma prints_text_after: "prints_text m t r \<Longrightarrow> prints_text (\<lambda>h. m (print_notify s h)) (s @ t) r"
  by (simp add: prints_text_def)

lemma prints_text_then:
  "prints_text m s (Inr x) \<Longrightarrow> prints_text (\<lambda>h. f h x) t r \<Longrightarrow> prints_text (\<lambda>h. print_then (m h) f) (s @ t) r"
  by (simp add: prints_text_def)

lemma prints_some_return [prints_intros]: "P r \<Longrightarrow> prints_some (\<lambda>h. Some (h, r)) P"
  using prints_text_return unfolding prints_some_def by blast

lemma prints_some_notify [prints_intros]: "P r \<Longrightarrow> prints_some (\<lambda>h. Some (print_notify s h, r)) P"
  using prints_text_notify unfolding prints_some_def by blast

lemma prints_some_after: "prints_some m P \<Longrightarrow> prints_some (\<lambda>h. m (print_notify s h)) P"
  using prints_text_after unfolding prints_some_def by blast

lemma prints_some_then:
  assumes "prints_some m Q" and "\<And>x. Q (Inr x) \<Longrightarrow> prints_some (\<lambda>h. f h x) P" and "\<And>e. Q (Inl e) \<Longrightarrow> P (Inl e)"
  shows "prints_some (\<lambda>h. print_then (m h) f) P"
proof -
  obtain s r where m: "prints_text m s r" "Q r" using assms(1) unfolding prints_some_def by blast
  show ?thesis
  proof (cases r)
    case (Inl e)
    then have "prints_text (\<lambda>h. print_then (m h) f) s (Inl e)" using m(1) by (simp add: prints_text_def)
    then show ?thesis using assms(3) m(2) Inl unfolding prints_some_def by blast
  next
    case (Inr x)
    then show ?thesis
      using assms(2) [of x] m prints_text_then [of m s x f] unfolding prints_some_def by blast
  qed
qed

lemma prints_some_then_safe [prints_intros]:
  "prints_some m fault_free \<Longrightarrow> (\<And>x. prints_some (\<lambda>h. f h x) fault_free) \<Longrightarrow>
     prints_some (\<lambda>h. print_then (m h) f) fault_free"
  by (rule prints_some_then [where Q = fault_free]) simp_all

subsection \<open>Names\<close>

text \<open>
  What is relied on: the wide strings encode characters like the strings of the other tools, and the names
  that the file system stores are converted.
\<close>

definition wide_codec :: "wide_libraries \<Rightarrow> (u32 \<Rightarrow> u16 list) \<Rightarrow> (u32 \<Rightarrow> bool) \<Rightarrow> bool" where
  "wide_codec wl wencode valid \<longleftrightarrow>
     unicode_decodes (wl_copy wl) wencode valid \<and> unicode_writes (wl_write wl) wencode valid"

definition wide_names :: "wide_libraries \<Rightarrow> (u32 \<Rightarrow> u8 list) \<Rightarrow> (u32 \<Rightarrow> u16 list) \<Rightarrow> (u32 \<Rightarrow> bool) \<Rightarrow> bool" where
  "wide_names wl encode wencode valid \<longleftrightarrow>
     (\<forall>cs. name_valid valid cs \<longrightarrow>
        wl_name_size wl (encode_name encode cs) = Inr (length (encode_name wencode cs) + 1) \<and>
        wl_name wl (length (encode_name wencode cs) + 1) (encode_name encode cs) = Inr (encode_name wencode cs @ [0]))"

definition wide_units :: "(u32 \<Rightarrow> u16 list) \<Rightarrow> u32 \<Rightarrow> u16 list" where
  "wide_units wencode c = (if control_character c then wide_escape c else wencode c)"

lemma wide_escape_length: "control_character c \<Longrightarrow> length (wide_escape c) = 4"
  using control_character_length by (simp add: wide_escape_def)

lemma ucast_unit_nonzero: "b \<noteq> 0 \<Longrightarrow> (ucast (b :: u8) :: u16) \<noteq> 0"
  using unat_ucast_fits [of b, where 'b = 16] unat_bounds(1) [of b] by (auto simp: word_unat_eq_iff)

lemma wide_escape_no_end:
  assumes c: "control_character c"
  shows "0 \<notin> set (wide_escape c)"
proof -
  have "b \<noteq> 0" if "b \<in> set (hex_padded 2 (unat c))" for b
    using hex_padded_byte_printable [OF _ that] control_character_bound [OF c] by auto
  then have "ucast b \<noteq> (0 :: u16)" if "b \<in> set (hex_padded 2 (unat c))" for b
    using ucast_unit_nonzero that by blast
  then have "(0 :: u16) \<notin> ucast ` set (hex_padded 2 (unat c))" by auto
  then show ?thesis by (simp add: wide_escape_def)
qed

lemma wide_encode_no_end:
  fixes wencode :: "u32 \<Rightarrow> u16 list"
  assumes "unicode_writes write wencode valid" and "valid c" and "c \<noteq> 0"
  shows "0 \<notin> set (wencode c)"
proof (cases "c < 0x80")
  case True
  then have "unat (ucast c :: u16) = unat c" by (intro unat_ucast_fits) (simp add: word_less_nat_alt)
  then have "ucast c \<noteq> (0 :: u16)" using assms(3) by (auto simp: unsigned_eq_0_iff)
  with unicode_writesD(4) [OF assms(1) True] show ?thesis by simp
next
  case False
  then have "0x80 \<le> c" by simp
  from unicode_writesD(3) [OF assms(1,2) this, of 0] show ?thesis by auto
qed

definition wide_printable :: "(u32 \<Rightarrow> u16 list) \<Rightarrow> (u32 \<Rightarrow> bool) \<Rightarrow> u32 list \<Rightarrow> bool" where
  "wide_printable wencode valid cs \<longleftrightarrow>
     (\<forall>c \<in> set cs. valid c \<and> c \<noteq> 0) \<and> length (encode_name wencode cs) \<le> (SSIZE_MAX - 1) div 8"

lemma wide_name_no_end:
  assumes "wide_codec wl wencode valid" and "\<forall>c \<in> set cs. valid c \<and> c \<noteq> 0"
  shows "0 \<notin> set (encode_name wencode cs)" and "0 \<notin> set (encode_name (wide_units wencode) cs)"
  using assms wide_encode_no_end [of "wl_write wl" wencode valid] wide_escape_no_end
  by (auto simp: wide_codec_def encode_name_def wide_units_def split: if_split_asm)

lemma wide_string_no_end:
  assumes "0 \<notin> set s"
  shows "wide_string_of_buffer s = s" and "wide_string_of_buffer (s @ 0 # r) = s" and "wide_string_copy s = s"
proof -
  show e: "wide_string_of_buffer s = s" using assms by (auto simp: wide_string_of_buffer_def takeWhile_eq_all_conv)
  show "wide_string_of_buffer (s @ 0 # r) = s"
    using assms unfolding wide_string_of_buffer_def by (subst takeWhile_append2) auto
  show "wide_string_copy s = s" by (simp add: wide_string_copy_def e)
qed

lemma wide_name_printed:
  assumes codec: "wide_codec wl wencode valid" and cs: "wide_printable wencode valid cs"
  shows "prints_text (\<lambda>h. FDXFSInfoHandle_PrintNameValue wl h (encode_name wencode cs))
    (wl_multibyte wl (encode_name (wide_units wencode) cs)) (Inr ())"
proof -
  have d: "unicode_decodes (wl_copy wl) wencode valid" and w: "unicode_writes (wl_write wl) wencode valid"
    using codec by (simp_all add: wide_codec_def)
  have v: "\<forall>c \<in> set cs. valid c" "\<forall>c \<in> set cs. valid c \<and> c \<noteq> 0" using cs by (simp_all add: wide_printable_def)
  let ?n = "length (encode_name wencode cs) * 4"
  have u: "length (wide_units wencode c) \<le> 4 * length (wencode c)" if "valid c" for c
    using unicode_decodesD(1) [OF d that] wide_escape_length [of c] by (cases "wencode c") (simp_all add: wide_units_def)
  have l: "length (encode_name (wide_units wencode) cs) \<le> ?n"
    using v(1) by (induction cs) (use u in force)+
  have "wide_append_character (wl_write wl) (?n + 1) c s = Inr (s @ wide_units wencode c)"
    if "valid c" "length s + length (wide_units wencode c) \<le> ?n" for c s
    using that unicode_writesD(1) [OF w that(1), of s "?n + 1"]
    by (auto simp: wide_append_character_def wide_units_def control_character_def)
  from name_escape_loop_name [OF d this v(1), where pre = "[]" and s = "[]"] l
  have "name_escape_loop (wl_copy wl) (wide_append_character (wl_write wl) (?n + 1)) (encode_name wencode cs) 0 [] =
      Some (Inr (encode_name (wide_units wencode) cs))"
    by simp
  then show ?thesis
    using cs l wide_string_no_end(1) [OF wide_name_no_end(2) [OF codec v(2)]]
    by (simp add: prints_text_def FDXFSInfoHandle_PrintNameValue_def Let_def wide_printable_def print_stream_def not_le)
qed

subsection \<open>The values of a file\<close>

text \<open>What is relied on: a converted string has its end, and the library for times stays inside of its buffer.\<close>

definition wide_safe :: "wide_libraries \<Rightarrow> bool" where
  "wide_safe wl \<longleftrightarrow>
     (\<forall>n s t. wl_name wl n s = Inr t \<longrightarrow> 0 \<in> set t) \<and> (\<forall>v. fault_free (wl_date_time wl v))"

definition entry_safe :: "'s libfdata \<Rightarrow> 's file_entry \<Rightarrow> bool" where
  "entry_safe lib e \<longleftrightarrow> fault_free (snd (file_entry_symbolic_link_data lib e)) \<and> fault_free (attributes_of e)"

lemma prints_time [prints_intros]:
  assumes "wide_safe wl"
  shows "prints_some (\<lambda>h. FDXFSInfoHandle_PosixTimeInNanoSecondsValue_fprint wl h n v) fault_free"
    and "prints_some (\<lambda>h. FDXFSInfoHandle_PosixTimeInNanoSecondsValue_fprint wl (print_notify s h) n v) fault_free"
proof -
  have "fault_free (wl_date_time wl v)" using assms by (simp add: wide_safe_def)
  then show t: "prints_some (\<lambda>h. FDXFSInfoHandle_PosixTimeInNanoSecondsValue_fprint wl h n v) fault_free"
    unfolding FDXFSInfoHandle_PosixTimeInNanoSecondsValue_fprint_def
    by (cases "v = 0"; cases "wl_date_time wl v") (auto intro: prints_some_return prints_some_notify)
  show "prints_some (\<lambda>h. FDXFSInfoHandle_PosixTimeInNanoSecondsValue_fprint wl (print_notify s h) n v) fault_free"
    by (rule prints_some_after [OF t])
qed

definition wide_path :: "(u32 \<Rightarrow> u16 list) \<Rightarrow> u32 list list \<Rightarrow> u16 list" where
  "wide_path wencode names = parent_path (encode_name wencode) names"

definition wide_name :: "(u32 \<Rightarrow> u16 list) \<Rightarrow> u32 list list \<Rightarrow> u16 list option" where
  "wide_name wencode names = (if names = [] then None else Some (encode_name wencode (last names)))"

text \<open>The first lines of what is printed of a file: its number, its path and its size.\<close>

definition name_line :: "wide_libraries \<Rightarrow> (u32 \<Rightarrow> u16 list) \<Rightarrow> u32 list list \<Rightarrow> u8 list" where
  "name_line wl wencode names =
     (if names = [] then [] else tabs 1 @ ascii ''Name'' @ tabs 3 @ ascii '': '' @
        wl_multibyte wl (wide_path (wide_units wencode) names) @
        wl_multibyte wl (encode_name (wide_units wencode) (last names)) @ [newline])"

definition file_heading :: "wide_libraries \<Rightarrow> (u32 \<Rightarrow> u16 list) \<Rightarrow> u32 list list \<Rightarrow> 's file_entry \<Rightarrow> u8 list" where
  "file_heading wl wencode names e =
     tabs 1 @ ascii ''Inode number'' @ tabs 2 @ ascii '': '' @
       decimal_digits (unat (libfsxfs_file_entry_get_inode_number e)) @ [newline] @
     name_line wl wencode names @
     tabs 1 @ ascii ''Size'' @ tabs 3 @ ascii '': '' @
       decimal_digits (unat (libfsxfs_file_entry_get_size e)) @ [newline]"

definition names_printable :: "(u32 \<Rightarrow> u16 list) \<Rightarrow> u32 list list \<Rightarrow> bool" where
  "names_printable wencode names \<longleftrightarrow> length (rooted_path (encode_name wencode) names) \<le> (SSIZE_MAX - 1) div 8"

lemma wide_separator:
  assumes "wide_codec wl wencode valid"
  shows "wencode LIBFSXFS_SEPARATOR = [LIBFSXFS_SEPARATOR]" and "wide_units wencode LIBFSXFS_SEPARATOR = [LIBFSXFS_SEPARATOR]"
    and "valid LIBFSXFS_SEPARATOR"
  using assms unicode_writesD(4) [of "wl_write wl" wencode valid LIBFSXFS_SEPARATOR]
  by (simp_all add: wide_codec_def wide_units_def control_character_def)

lemma wide_path_encoded:
  assumes "wide_codec wl wencode valid"
  shows "wide_path wencode names = encode_name wencode (parent_path (\<lambda>cs. cs) names)"
    and "wide_path (wide_units wencode) names = encode_name (wide_units wencode) (parent_path (\<lambda>cs. cs) names)"
  using wide_separator [OF assms] by (simp_all add: wide_path_def encode_rooted_path(2))

lemma wide_path_printable:
  assumes codec: "wide_codec wl wencode valid" and names: "\<forall>cs \<in> set names. name_valid valid cs"
    and len: "names_printable wencode names"
  shows "wide_printable wencode valid (parent_path (\<lambda>cs. cs) names)"
    and "names \<noteq> [] \<Longrightarrow> wide_printable wencode valid (last names)"
proof -
  have "\<forall>cs \<in> set names. \<forall>c \<in> set cs. valid c \<and> c \<noteq> 0" using names by (auto simp: name_valid_def)
  moreover from this have "\<forall>c \<in> set (parent_path (\<lambda>cs. cs) names). valid c \<and> c \<noteq> 0"
    using wide_separator(3) [OF codec] by (intro parent_path_characters) simp_all
  ultimately show "wide_printable wencode valid (parent_path (\<lambda>cs. cs) names)"
    "names \<noteq> [] \<Longrightarrow> wide_printable wencode valid (last names)"
    using len rooted_path_parent [of "encode_name wencode" names] wide_path_encoded(1) [OF codec, of names]
    by (auto simp: wide_printable_def names_printable_def wide_path_def split: if_split_asm)
qed

lemma name_line_printed:
  assumes codec: "wide_codec wl wencode valid" and names: "\<forall>cs \<in> set names. name_valid valid cs"
    and len: "names_printable wencode names"
  shows "prints_text (\<lambda>h :: 'h info_handle. name_line_fprint wl h (Some (wide_path wencode names)) (wide_name wencode names))
    (name_line wl wencode names) (Inr ())"
proof (cases "names = []")
  case True
  then show ?thesis by (simp add: prints_text_def name_line_fprint_def wide_name_def name_line_def)
next
  case False
  have "prints_text (\<lambda>h :: 'h info_handle. FDXFSInfoHandle_PrintNameValue wl h (wide_path wencode names))
      (wl_multibyte wl (wide_path (wide_units wencode) names)) (Inr ())"
    unfolding wide_path_encoded [OF codec] by (rule wide_name_printed [OF codec wide_path_printable(1) [OF assms]])
  moreover have "prints_text (\<lambda>h :: 'h info_handle. FDXFSInfoHandle_PrintNameValue wl h (encode_name wencode (last names)))
      (wl_multibyte wl (encode_name (wide_units wencode) (last names))) (Inr ())"
    by (rule wide_name_printed [OF codec wide_path_printable(2) [OF assms False]])
  ultimately show ?thesis
    using False
    by (simp add: prints_text_def name_line_fprint_def wide_name_def name_line_def optional_name_value_fprint_def)
qed

text \<open>The values up to the extended attributes.\<close>

lemma values_printed_text:
  assumes codec: "wide_codec wl wencode valid" and names: "\<forall>cs \<in> set names. name_valid valid cs"
    and len: "names_printable wencode names" and wl: "wide_safe wl" and target: "\<forall>t. target = Some t \<longrightarrow> 0 \<in> set t"
  shows "\<exists>s r. prints_text (\<lambda>h :: 'h info_handle. values_fprint wl h e (Some (wide_path wencode names)) (wide_name wencode names) target)
    (file_heading wl wencode names e @ s) r \<and> fault_free r"
proof -
  let ?time = "FDXFSInfoHandle_PosixTimeInNanoSecondsValue_fprint wl"
  let ?size = "tabs 1 @ ascii ''Size'' @ tabs 3 @ ascii '': '' @ decimal_digits (unat (libfsxfs_file_entry_get_size e)) @ [newline]"
  define rest where "rest = (\<lambda>h :: 'h info_handle. print_then (?time h (tabs 1 @ ascii ''Modification time'' @ tabs 1)
          (libfsxfs_file_entry_get_modification_time e)) (\<lambda>h _.
      print_then (?time h (tabs 1 @ ascii ''Inode change time'' @ tabs 1) (libfsxfs_file_entry_get_inode_change_time e)) (\<lambda>h _.
      print_then (?time h (tabs 1 @ ascii ''Access time'' @ tabs 2) (libfsxfs_file_entry_get_access_time e)) (\<lambda>h _.
      print_then
          (case libfsxfs_file_entry_get_creation_time e of
             None \<Rightarrow> Some (h, Inr ())
           | Some creation_time \<Rightarrow> ?time h (tabs 1 @ ascii ''Creation time'' @ tabs 2) creation_time) (\<lambda>h _.
      let info_handle = info_numbers_fprint e h in
      (case target of
         None \<Rightarrow> Some (info_handle, Inr ())
       | Some target \<Rightarrow>
           (case wide_format_string wl target of
              Inl e \<Rightarrow> Some (info_handle, Inl e)
            | Inr s \<Rightarrow>
                Some (print_notify (tabs 1 @ ascii ''Symbolic link target'' @ tabs 1 @ ascii '': '' @ s @ [newline])
                        info_handle, Inr ()))))))))"
  have "prints_some (\<lambda>h :: 'h info_handle. case libfsxfs_file_entry_get_creation_time e of
             None \<Rightarrow> Some (h, Inr ())
           | Some creation_time \<Rightarrow> ?time h (tabs 1 @ ascii ''Creation time'' @ tabs 2) creation_time) fault_free"
    by (cases "libfsxfs_file_entry_get_creation_time e") (auto intro: prints_time(1) [OF wl] prints_some_return)
  moreover have "prints_some (\<lambda>h :: 'h info_handle. let info_handle = info_numbers_fprint e h in
      (case target of
         None \<Rightarrow> Some (info_handle, Inr ())
       | Some target \<Rightarrow>
           (case wide_format_string wl target of
              Inl e \<Rightarrow> Some (info_handle, Inl e)
            | Inr s \<Rightarrow>
                Some (print_notify (tabs 1 @ ascii ''Symbolic link target'' @ tabs 1 @ ascii '': '' @ s @ [newline])
                        info_handle, Inr ())))) fault_free"
    using target by (cases target) (auto simp: info_numbers_fprint_def Let_def wide_format_string_def intro: prints_some_notify)
  ultimately have "prints_some rest fault_free"
    unfolding rest_def by (intro prints_intros(3) prints_time(1) [OF wl])
  then obtain s r where r: "prints_text rest s r" "fault_free r" unfolding prints_some_def by blast
  have "prints_text (\<lambda>h. print_then (name_line_fprint wl h (Some (wide_path wencode names)) (wide_name wencode names))
      (\<lambda>h _. rest (print_notify ?size h))) (name_line wl wencode names @ ?size @ s) r"
    by (rule prints_text_then [OF name_line_printed [OF codec names len]]) (rule prints_text_after [OF r(1)])
  moreover have "values_fprint wl h e (Some (wide_path wencode names)) (wide_name wencode names) target =
      print_then (name_line_fprint wl (print_notify (tabs 1 @ ascii ''Inode number'' @ tabs 2 @ ascii '': '' @
        decimal_digits (unat (libfsxfs_file_entry_get_inode_number e)) @ [newline]) h)
          (Some (wide_path wencode names)) (wide_name wencode names)) (\<lambda>h _. rest (print_notify ?size h))" for h
    unfolding rest_def values_fprint_def Let_def by (rule refl)
  ultimately show ?thesis
    using r(2) by (intro exI [of _ s] exI [of _ r]) (simp add: prints_text_def file_heading_def)
qed

text \<open>The file entry is left in a state that gives the same answers.\<close>

definition entry_result :: "'s file_entry \<Rightarrow> ('s file_entry \<times> unit result) result \<Rightarrow> bool" where
  "entry_result e0 r \<longleftrightarrow> (\<exists>e q. r = Inr (e, q) \<and> file_entry_consistent e0 e \<and> fault_free q)"

lemma entry_result_simps [simp]:
  "entry_result e0 (Inr (e, q)) \<longleftrightarrow> file_entry_consistent e0 e \<and> fault_free q"
  "\<not> entry_result e0 (Inl x)"
  by (simp_all add: entry_result_def)

lemma fault_free_convert_name [simp]: "fault_free (convert_name convert name)"
  by (auto simp: convert_name_def split: option.split sum.split)

lemma wide_name_terminated: "wide_safe wl \<Longrightarrow> convert_name (wl_name wl n) s = Inr t \<Longrightarrow> 0 \<in> set t"
  by (auto simp: convert_name_def wide_safe_def split: option.split_asm sum.split_asm)

lemma fault_free_array_entry: "fault_free (array_get_entry_by_index xs i)"
  by (auto simp: array_get_entry_by_index_def split: option.split)

lemma wide_format_safe: "0 \<in> set s \<Longrightarrow> fault_free (wide_format_string wl s)"
  by (simp add: wide_format_string_def)

lemma attribute_by_index_safe:
  assumes c: "file_entry_consistent e0 e" and a: "fault_free (attributes_of e0)"
    and r: "libfsxfs_file_entry_get_extended_attribute_by_index e i = (e', r)"
  shows "file_entry_consistent e0 e'" and "fault_free r"
proof -
  show "file_entry_consistent e0 e'"
    using r c by (auto simp: libfsxfs_file_entry_get_extended_attribute_by_index_def
        dest: file_entry_extended_attributes_keeps split: prod.split_asm sum.split_asm)
  show "fault_free r"
    using r a file_entry_attributes_answer [OF c] fault_free_array_entry
    by (auto simp: libfsxfs_file_entry_get_extended_attribute_by_index_def file_entry_extended_attribute_def
        libfsxfs_extended_attribute_initialize_def intro!: fault_free_bindE split: prod.split_asm sum.split_asm)
qed

lemma attribute_names_printed:
  assumes wl: "wide_safe wl" and a: "fault_free (attributes_of e0)"
  shows "file_entry_consistent e0 e \<Longrightarrow>
    prints_some (\<lambda>h :: 'h info_handle. attribute_names_fprint wl n i h e) (entry_result e0)"
proof (induction n arbitrary: i e)
  case 0
  then show ?case by (auto intro: prints_some_return)
next
  case (Suc n)
  obtain e1 r where r: "libfsxfs_file_entry_get_extended_attribute_by_index e (int i) = (e1, r)" by fastforce
  note s = attribute_by_index_safe [OF Suc.prems a r]
  show ?case
  proof (cases "\<exists>attr name_size. r = Inr attr \<and> libfsxfs_extended_attribute_get_utf16_name_size (wl_name_size wl) attr = Inr name_size")
    case False
    have f: "fault_free (libfsxfs_extended_attribute_get_utf16_name_size (wl_name_size wl) attr)" for attr :: "'a extended_attribute"
      by (simp add: libfsxfs_extended_attribute_get_utf16_name_size_def libfsxfs_attribute_values_get_utf16_name_size_def)
    show ?thesis
    proof (cases r)
      case (Inl x)
      then show ?thesis using r s by (auto intro: prints_some_return)
    next
      case (Inr attr)
      then obtain x where "libfsxfs_extended_attribute_get_utf16_name_size (wl_name_size wl) attr = Inl x"
        using False by (cases "libfsxfs_extended_attribute_get_utf16_name_size (wl_name_size wl) attr") auto
      then show ?thesis using r s Inr f [of attr] by (auto intro: prints_some_return)
    qed
  next
    case True
    then obtain attr name_size where attr: "r = Inr attr"
      "libfsxfs_extended_attribute_get_utf16_name_size (wl_name_size wl) attr = Inr name_size" by blast
    let ?name = "if name_size > 0
        then bindE (libfsxfs_extended_attribute_get_utf16_name (wl_name wl) attr name_size) (\<lambda>name.
             wide_format_string wl (name @ drop (length name) (wl_fresh wl name_size)))
        else Inr []"
    have "0 \<in> set name" if "libfsxfs_extended_attribute_get_utf16_name (wl_name wl) attr name_size = Inr name" for name
      using that wide_name_terminated [OF wl]
      by (simp add: libfsxfs_extended_attribute_get_utf16_name_def libfsxfs_attribute_values_get_utf16_name_def)
    then have f: "fault_free ?name"
      by (auto intro!: fault_free_bindE wide_format_safe
          simp: libfsxfs_extended_attribute_get_utf16_name_def libfsxfs_attribute_values_get_utf16_name_def)
    show ?thesis
    proof (cases ?name)
      case (Inl x)
      then show ?thesis using r s attr f by (simp add: Let_def prints_some_notify)
    next
      case (Inr name)
      have "prints_some (\<lambda>h :: 'h info_handle. attribute_names_fprint wl n (i + 1) (print_notify t h) e1) (entry_result e0)" for t
        by (rule prints_some_after [OF Suc.IH [OF s(1)]])
      then show ?thesis using r attr Inr by (simp add: Let_def)
    qed
  qed
qed

lemma extended_attributes_printed:
  assumes wl: "wide_safe wl" and a: "fault_free (attributes_of e0)" and c: "file_entry_consistent e0 e"
  shows "prints_some (\<lambda>h :: 'h info_handle. extended_attributes_fprint wl h e) (entry_result e0)"
proof -
  obtain e1 r where r: "libfsxfs_file_entry_get_number_of_extended_attributes e = (e1, r)" by fastforce
  have c1: "file_entry_consistent e0 e1"
    using r c by (auto simp: libfsxfs_file_entry_get_number_of_extended_attributes_def
        dest: file_entry_extended_attributes_keeps split: prod.split_asm sum.split_asm)
  have f: "fault_free r"
    using r a file_entry_attributes_answer [OF c]
    by (auto simp: libfsxfs_file_entry_get_number_of_extended_attributes_def array_get_number_of_entries_def
        split: prod.split_asm sum.split_asm)
  show ?thesis
  proof (cases "\<exists>n. r = Inr n \<and> n > 0")
    case True
    then show ?thesis
      using r prints_some_after [OF attribute_names_printed [OF wl a c1]] by (auto simp: extended_attributes_fprint_def)
  next
    case False
    then show ?thesis
      using r c1 f by (cases r) (auto simp: extended_attributes_fprint_def intro: prints_some_return)
  qed
qed

lemma fault_free_link_target:
  "fault_free (snd (file_entry_symbolic_link_data lib e)) \<Longrightarrow> fault_free (snd (file_entry_symbolic_link_target lib convert e))"
  by (auto simp: file_entry_symbolic_link_target_def intro!: fault_free_bindE split: prod.split sum.split option.split)

lemma link_target_again:
  "file_entry_symbolic_link_target lib convert e = (e', Inr (Some t)) \<Longrightarrow> fault_free (snd (file_entry_symbolic_link_data lib e'))"
  by (auto simp: file_entry_symbolic_link_target_def file_entry_symbolic_link_data_def [of lib e']
      split: prod.split_asm sum.split_asm option.split_asm)

lemma wide_symbolic_link_target_safe:
  assumes c: "file_entry_consistent e0 e" and wl: "wide_safe wl" and s: "entry_safe lib e"
    and r: "wide_symbolic_link_target lib wl e = (e', r)"
  shows "file_entry_consistent e0 e'" and "same_values e e'" and "fault_free r"
    and "r = Inr (Some t) \<Longrightarrow> 0 \<in> set t"
proof -
  note defs = wide_symbolic_link_target_def libfsxfs_file_entry_get_utf16_symbolic_link_target_size_def
    libfsxfs_file_entry_get_utf16_symbolic_link_target_def
  show "file_entry_consistent e0 e'"
    using r c by (auto simp: defs dest!: file_entry_symbolic_link_target_keeps [OF c]
        dest: file_entry_symbolic_link_target_keeps split: prod.split_asm sum.split_asm option.split_asm)
  show "same_values e e'"
    using r by (auto simp: defs file_entry_symbolic_link_target_def split: prod.split_asm sum.split_asm option.split_asm
        dest!: file_entry_symbolic_link_data_same intro: same_values_trans)
  show "fault_free r"
  proof -
    obtain e1 q where q: "file_entry_symbolic_link_target lib (wl_name_size wl) e = (e1, q)" by fastforce
    have f: "fault_free q" using fault_free_link_target [of lib e "wl_name_size wl"] s q by (simp add: entry_safe_def)
    show ?thesis
    proof (cases "\<exists>n. q = Inr (Some n)")
      case False
      then show ?thesis using r q f by (auto simp: defs split: sum.split_asm option.split_asm)
    next
      case True
      then obtain n where n: "q = Inr (Some n)" by blast
      have "fault_free (snd (file_entry_symbolic_link_target lib (wl_name wl n) e1))"
        by (rule fault_free_link_target) (rule link_target_again [OF q [unfolded n]])
      then show ?thesis
        using r q n by (auto simp: defs split: prod.split_asm sum.split_asm option.split_asm)
    qed
  qed
  show "0 \<in> set t" if "r = Inr (Some t)"
    using r that wl by (auto simp: defs file_entry_symbolic_link_target_def
        dest!: wide_name_terminated split: prod.split_asm sum.split_asm option.split_asm)
qed

text \<open>The target of a symbolic link is read before anything is printed.\<close>

definition link_readable :: "'s libfdata \<Rightarrow> wide_libraries \<Rightarrow> 's file_entry \<Rightarrow> bool" where
  "link_readable lib wl e \<longleftrightarrow> (case snd (wide_symbolic_link_target lib wl e) of Inl x \<Rightarrow> False | Inr target \<Rightarrow> True)"

definition text_of_file ::
    "'s libfdata \<Rightarrow> wide_libraries \<Rightarrow> (u32 \<Rightarrow> u16 list) \<Rightarrow> u32 list list \<Rightarrow> 's file_entry \<Rightarrow> u8 list \<Rightarrow> bool" where
  "text_of_file lib wl wencode names e s \<longleftrightarrow>
     (if link_readable lib wl e then \<exists>t. s = file_heading wl wencode names e @ t else s = [])"

lemma file_values_printed:
  assumes codec: "wide_codec wl wencode valid" and names: "\<forall>cs \<in> set names. name_valid valid cs"
    and len: "names_printable wencode names" and wl: "wide_safe wl"
    and c: "file_entry_consistent e e" and s: "entry_safe lib e"
  shows "\<exists>s r. prints_text (\<lambda>h :: 'h info_handle. FDXFSInfoHandle_FileEntryValueWithName_fprint lib wl h e
      (Some (wide_path wencode names)) (wide_name wencode names)) s r \<and> entry_result e r \<and> text_of_file lib wl wencode names e s"
proof -
  obtain e1 q where q: "wide_symbolic_link_target lib wl e = (e1, q)" by fastforce
  note t = wide_symbolic_link_target_safe [OF c wl s q]
  show ?thesis
  proof (cases q)
    case (Inl x)
    then have "prints_text (\<lambda>h :: 'h info_handle. FDXFSInfoHandle_FileEntryValueWithName_fprint lib wl h e
      (Some (wide_path wencode names)) (wide_name wencode names)) [] (Inr (e1, Inl x))"
      using q by (simp add: prints_text_def FDXFSInfoHandle_FileEntryValueWithName_fprint_def)
    then show ?thesis using q Inl t by (fastforce simp: text_of_file_def link_readable_def)
  next
    case (Inr target)
    have h: "file_heading wl wencode names e1 = file_heading wl wencode names e"
      using t(2) by (simp add: file_heading_def same_values_def libfsxfs_file_entry_get_inode_number_def libfsxfs_file_entry_get_size_def)
    have "\<forall>b. target = Some b \<longrightarrow> 0 \<in> set b" using t(4) Inr by blast
    from values_printed_text [OF codec names len wl this, of e1]
    obtain v r where v: "prints_text (\<lambda>h :: 'h info_handle. values_fprint wl h e1 (Some (wide_path wencode names))
        (wide_name wencode names) target) (file_heading wl wencode names e @ v) r" "fault_free r"
      unfolding h by blast
    have a: "fault_free (attributes_of e)" using s by (simp add: entry_safe_def)
    obtain w p where w: "prints_text (\<lambda>h :: 'h info_handle. extended_attributes_fprint wl h e1) w p" "entry_result e p"
      using extended_attributes_printed [OF wl a t(1)] unfolding prints_some_def by blast
    have rd: "link_readable lib wl e" using q Inr by (simp add: link_readable_def)
    show ?thesis
    proof (cases r)
      case (Inl x)
      then have "prints_text (\<lambda>h :: 'h info_handle. FDXFSInfoHandle_FileEntryValueWithName_fprint lib wl h e
        (Some (wide_path wencode names)) (wide_name wencode names)) (file_heading wl wencode names e @ v) (Inr (e1, Inl x))"
        using q Inr v(1) by (simp add: prints_text_def FDXFSInfoHandle_FileEntryValueWithName_fprint_def)
      then show ?thesis using Inl t(1) v(2) rd unfolding text_of_file_def by fastforce
    next
      case (Inr u)
      then have "prints_text (\<lambda>h :: 'h info_handle. FDXFSInfoHandle_FileEntryValueWithName_fprint lib wl h e
        (Some (wide_path wencode names)) (wide_name wencode names)) (file_heading wl wencode names e @ v @ w) p"
        using q \<open>q = Inr target\<close> v(1) w(1) by (simp add: prints_text_def FDXFSInfoHandle_FileEntryValueWithName_fprint_def)
      then show ?thesis using w(2) rd unfolding text_of_file_def by fastforce
    qed
  qed
qed

subsection \<open>The walk prints every file\<close>

lemma consistent_sub_entries:
  assumes c: "file_entry_consistent e e" "file_entry_consistent e e'"
    and n: "libfsxfs_file_entry_get_number_of_sub_file_entries e = Some (e1, Inr k)"
  shows "\<exists>e1'. libfsxfs_file_entry_get_number_of_sub_file_entries e' = Some (e1', Inr k) \<and>
    (\<forall>i s. libfsxfs_file_entry_get_sub_file_entry_by_index lib e1 i = Some (e1, Inr s) \<longrightarrow>
       libfsxfs_file_entry_get_sub_file_entry_by_index lib e1' i = Some (e1', Inr s))"
proof -
  obtain d where d: "directory_of e = Some (Inr d)" "e1 = e\<lparr> fe_directory := d \<rparr>"
    using n file_entry_directory_answer [OF c(1)]
    by (auto simp: libfsxfs_file_entry_get_number_of_sub_file_entries_def split: option.split_asm sum.split_asm)
  let ?e1' = "e'\<lparr> fe_directory := d \<rparr>"
  have dirs: "file_entry_directory e = Some (e1, Inr ())" "file_entry_directory e' = Some (?e1', Inr ())"
    using d file_entry_directory_answer [OF c(1)] file_entry_directory_answer [OF c(2)] by simp_all
  have "file_entry_consistent e ?e1'" by (rule file_entry_directory_keeps [OF c(2) dirs(2)])
  from file_entry_directory_answer [OF this] have d1: "file_entry_directory ?e1' = Some (?e1', Inr ())"
    using d(1) by simp
  have "file_entry_consistent e e1" by (rule file_entry_directory_keeps [OF c(1) dirs(1)])
  from file_entry_directory_answer [OF this] have d0: "file_entry_directory e1 = Some (e1, Inr ())" using d by simp
  have "file_entry_fixed e' = file_entry_fixed e" using c(2) by (simp add: file_entry_consistent_def)
  note f = file_entry_fixed_eqD [OF this]
  have "file_entry_sub_file_entry lib ?e1' i = file_entry_sub_file_entry lib e1 i" for i
    by (simp add: file_entry_sub_file_entry_def d(2) f split: option.split)
  then show ?thesis
    using n dirs d0 d1 d(2)
    by (intro exI [of _ ?e1']) (auto simp: libfsxfs_file_entry_get_number_of_sub_file_entries_def
        libfsxfs_file_entry_get_sub_file_entry_by_index_def)
qed

text \<open>
  A file is printed as \<open>T\<close> says, and its file entry goes on to give the same answers.
\<close>

definition values_print ::
    "'s libfdata \<Rightarrow> wide_libraries \<Rightarrow> (u32 \<Rightarrow> u16 list) \<Rightarrow> u32 list list \<Rightarrow> 's file_entry \<Rightarrow> u8 list
      \<Rightarrow> ('h info_handle \<Rightarrow> bool)" where
  "values_print lib wl wencode names e s h \<longleftrightarrow>
     (\<exists>r. FDXFSInfoHandle_FileEntryValueWithName_fprint lib wl h e (Some (wide_path wencode names)) (wide_name wencode names) =
        Some (print_notify s h, r) \<and> entry_result e r)"

lemma values_printed_console: "ih_bodyfile_stream h = None \<Longrightarrow> fault_free q \<Longrightarrow> values_printed h q = Inr ()"
  by (auto simp: values_printed_def split: sum.split error.split)

lemma wide_entry_name_named:
  assumes "wide_names wl encode wencode valid" and "entry_named encode valid names e"
  shows "wide_entry_name wl e = Inr (wide_name wencode names)"
proof (cases "names = []")
  case True
  then show ?thesis
    using assms(2)
    by (simp add: entry_named_def wide_entry_name_def libfsxfs_file_entry_get_utf16_name_size_def File_Entry.file_entry_name_def
        wide_name_def)
next
  case False
  then obtain entry where entry: "fe_directory_entry e = Some entry"
    "directory_entry_name_bytes entry = encode_name encode (last names)" "name_valid valid (last names)"
    using assms(2) by (auto simp: entry_named_def)
  then show ?thesis
    using False assms(1)
    by (simp add: wide_names_def wide_entry_name_def libfsxfs_file_entry_get_utf16_name_size_def File_Entry.file_entry_name_def
        libfsxfs_file_entry_get_utf16_name_def libfsxfs_directory_entry_get_utf16_name_size_def
        libfsxfs_directory_entry_get_utf16_name_def convert_name_def wide_name_def)
qed

lemma wide_sub_path_names:
  assumes codec: "wide_codec wl wencode valid" and names: "\<forall>cs \<in> set names. name_valid valid cs"
  shows "wide_sub_path (wide_path wencode names) (wide_name wencode names) = wide_path wencode (names @ [cs])"
proof -
  have v: "\<forall>cs \<in> set names. \<forall>c \<in> set cs. valid c \<and> c \<noteq> 0" using names by (auto simp: name_valid_def)
  then have "\<forall>c \<in> set (parent_path (\<lambda>cs. cs) names). valid c \<and> c \<noteq> 0"
    using wide_separator(3) [OF codec] by (intro parent_path_characters) simp_all
  then have p: "wide_string_copy (wide_path wencode names) = wide_path wencode names"
    unfolding wide_path_encoded(1) [OF codec] by (intro wide_string_no_end(3) wide_name_no_end(1) [OF codec])
  have "wide_string_copy (encode_name wencode (last names)) = encode_name wencode (last names)" if "names \<noteq> []"
    using v last_in_set [OF that] by (intro wide_string_no_end(3) wide_name_no_end(1) [OF codec]) blast
  then show ?thesis
    using p parent_path_snoc [of "encode_name wencode" names cs] rooted_path_parent [of "encode_name wencode" names]
    by (auto simp: wide_sub_path_def wide_name_def wide_path_def, simp add: parent_path_def)
qed

lemma find_next_prints_nodes:
  fixes t :: "'s file_tree" and h :: "'h info_handle"
  assumes codec: "wide_codec wl wencode valid" and wn: "wide_names wl encode wencode valid"
  shows "tree_stored lib encode valid t \<Longrightarrow> entry_initialized lib (tree_entry t) \<Longrightarrow>
    entry_named encode valid names (tree_entry t) \<Longrightarrow> tree_levels t \<le> levels \<Longrightarrow>
    \<forall>(names, e) \<in> set (tree_nodes names t). names_printable wencode names \<and>
      (\<forall>h :: 'h info_handle. ih_bodyfile_stream h = None \<longrightarrow> values_print lib wl wencode names e (T names e) h) \<Longrightarrow>
    ih_bodyfile_stream h = None \<Longrightarrow>
    FDXFSInfoHandle_FindNext levels lib wl h (tree_entry t) (wide_path wencode names) =
      Some (print_notify (concat (map (\<lambda>(names, e). T names e) (tree_nodes names t))) h, Inr ())"
proof (induction names t arbitrary: levels h rule: tree_nodes.induct)
  case (1 names cs e ts)
  note stored = 1(2) and init = 1(3) [simplified] and named = 1(4) [simplified] and printable = 1(6) and h = 1(7)
  obtain l where l: "levels = Suc l" "foldr max (map tree_levels ts) 0 \<le> l" using 1(5) by (cases levels) auto
  have names: "\<forall>cs \<in> set names. name_valid valid cs" using named by (simp add: entry_named_def)
  have p: "names_printable wencode names" "values_print lib wl wencode names e (T names e) h" using printable h by auto
  have len: "\<not> length (wide_path wencode names) > SSIZE_MAX - 1"
    using p(1) rooted_path_parent [of "encode_name wencode" names] by (simp add: names_printable_def wide_path_def)
  note n = wide_entry_name_named [OF wn named]
  note c = entry_initialized_consistent [OF init]
  obtain e' q where f: "FDXFSInfoHandle_FileEntryValueWithName_fprint lib wl h e (Some (wide_path wencode names))
      (wide_name wencode names) = Some (print_notify (T names e) h, Inr (e', q))"
    "file_entry_consistent e e'" "fault_free q"
    using p(2) by (auto simp: values_print_def entry_result_def)
  obtain e0 k where e0: "libfsxfs_file_entry_get_number_of_sub_file_entries e = Some (e0, Inr k)"
    "(case k of None \<Rightarrow> 0 | Some n \<Rightarrow> n) = length ts"
    and subs0: "\<And>i. i < length ts \<Longrightarrow> libfsxfs_file_entry_get_sub_file_entry_by_index lib e0 (int i) =
        Some (e0, Inr (tree_entry (ts ! i))) \<and> name_valid valid (tree_name (ts ! i)) \<and> entry_initialized lib (tree_entry (ts ! i)) \<and>
      (\<exists>entry. fe_directory_entry (tree_entry (ts ! i)) = Some entry \<and>
         directory_entry_name_bytes entry = encode_name encode (tree_name (ts ! i)))"
    using tree_stored_directory [OF stored init] by blast
  obtain e1 where e1: "libfsxfs_file_entry_get_number_of_sub_file_entries e' = Some (e1, Inr k)"
    and subs: "\<And>i. i < length ts \<Longrightarrow> libfsxfs_file_entry_get_sub_file_entry_by_index lib e1 (int i) =
        Some (e1, Inr (tree_entry (ts ! i)))"
    using consistent_sub_entries [OF c f(2) e0(1), of lib] subs0 by blast
  define print where "print = (\<lambda>(h :: 'h info_handle) s. FDXFSInfoHandle_FindNext l lib wl h s
      (wide_sub_path (wide_path wencode names) (wide_name wencode names)))"
  define U where "U = (\<lambda>t. concat (map (\<lambda>(names, e). T names e) (tree_nodes (names @ [tree_name t]) t)))"
  have print: "print h' (tree_entry t) = Some (print_notify (U t) h', Inr ())"
    if t: "t \<in> set ts" "ih_bodyfile_stream h' = None" for t h'
  proof -
    obtain i where i: "i < length ts" "t = ts ! i" using t(1) by (auto simp: in_set_conv_nth)
    show ?thesis
      unfolding print_def U_def wide_sub_path_names [OF codec names, of "tree_name t"]
    proof (rule 1(1) [OF t(1)])
      show "tree_stored lib encode valid t" using stored t(1) by simp
      show "tree_levels t \<le> l" using tree_levels_le [OF t(1)] l(2) by simp
      show "entry_named encode valid (names @ [tree_name t]) (tree_entry t)"
        using names subs0 [OF i(1)] by (auto simp: entry_named_def i(2))
      show "\<forall>(names, e) \<in> set (tree_nodes (names @ [tree_name t]) t). names_printable wencode names \<and>
          (\<forall>h :: 'h info_handle. ih_bodyfile_stream h = None \<longrightarrow> values_print lib wl wencode names e (T names e) h)"
        using printable t(1) by auto
    qed (use subs0 [OF i(1)] i(2) t(2) in simp_all)
  qed
  have "hierarchy_sub_entries_fprint lib print (length ts) 0 (print_notify (T names e) h) e1 =
      Some (print_notify (concat (map U ts)) (print_notify (T names e) h), Inr ())"
    using sub_entries_fprint_all [of ts lib e1 0 print] subs print h by simp
  moreover have "concat (map (\<lambda>(names, e). T names e) (concat (map f ts))) =
      concat (map (\<lambda>t. concat (map (\<lambda>(names, e). T names e) (f t))) ts)" for f :: "'s file_tree \<Rightarrow> (u32 list list \<times> 's file_entry) list"
    by (induction ts) simp_all
  ultimately show ?case
    using len n f(1) e0(2) e1 l(1) h by (simp add: values_printed_console f(3) print_def U_def)
qed

lemma tree_nodes_initialized:
  "tree_stored lib encode valid t \<Longrightarrow> entry_initialized lib (tree_entry t) \<Longrightarrow> \<forall>cs \<in> set names. name_valid valid cs \<Longrightarrow>
    (ns, e) \<in> set (tree_nodes names t) \<Longrightarrow> (\<forall>cs \<in> set ns. name_valid valid cs) \<and> entry_initialized lib e"
proof (induction names t rule: tree_nodes.induct)
  case (1 names cs d ts)
  show ?case
  proof (cases "(ns, e) = (names, d)")
    case False
    then obtain u where u: "u \<in> set ts" "(ns, e) \<in> set (tree_nodes (names @ [tree_name u]) u)" using 1(5) by auto
    then obtain i where i: "i < length ts" "u = ts ! i" by (metis in_set_conv_nth)
    have "name_valid valid (tree_name u)" "entry_initialized lib (tree_entry u)"
      using tree_stored_directory [OF 1(2)] 1(3) i by auto
    then show ?thesis using 1(1) [OF u(1)] 1(2,4) u by auto
  qed (use 1 in simp)
qed

subsection \<open>The files of a volume\<close>

text \<open>
  What is undefined in C comes up only when a name of a short form table of attributes reaches past the end of the
  table (\<open>attributes_table_out_of_bounds_read\<close>). The attributes in blocks and the targets of links are read inside
  their buffers, whatever the volume contains, as long as reading with \<open>libfdata\<close> itself is free of it; the handles
  that it reads from are (\<open>buffer_handle_read_correct\<close>).
\<close>

definition libfdata_read_safe :: "'s libfdata \<Rightarrow> bool" where
  "libfdata_read_safe lib \<longleftrightarrow> (\<forall>s fio n off. fault_free (snd (libfdata_stream_read_buffer_at_offset lib s fio n off)))"

lemma recording_libfdata_read_safe: "libfdata_read_safe recording_libfdata"
  by (simp add: libfdata_read_safe_def recording_libfdata_def recording_read_def split: option.split)

definition attributes_inside :: "inode \<Rightarrow> bool" where
  "attributes_inside inode \<longleftrightarrow>
     (in_attributes_fork_type inode = 1 \<longrightarrow>
       (\<forall>d. in_inline_attributes_data inode = Some d \<longrightarrow> table_names_inside (take (unat (in_attributes_fork_size inode)) d)))"

lemma attributes_get_safe:
  assumes "io_valid io" and "get_existing_inode fs io fio n = Inr inode" and "attributes_inside inode"
  shows "fault_free (libfsxfs_attributes_get_from_inode io fio inode xs)"
proof -
  have size: "unat (in_attributes_fork_size inode) \<le> length d" if "in_inline_attributes_data inode = Some d" for d
    using get_existing_inode_inline_attributes_ok [OF assms(2)] that by (simp add: inode_inline_attributes_ok_def)
  have "fault_free (libfsxfs_attributes_table_read_data table (take (unat (in_attributes_fork_size inode)) d) xs)"
    if "in_attributes_fork_type inode = 1" "in_inline_attributes_data inode = Some d" for d table
    using assms(3) that by (intro attributes_table_names_inside) (simp add: attributes_inside_def)
  then show ?thesis
    using size attributes_tree_memory_safe [OF io_validD(1) [OF assms(1)]]
    by (auto simp: libfsxfs_attributes_get_from_inode_def libfsxfs_attributes_table_initialize_def allocate_structure_def
        get_bytes_def intro!: safe_intros split: option.split prod.split)
qed

lemma symbolic_link_data_safe:
  assumes "libfdata_read_safe lib"
  shows "fault_free (snd (file_entry_symbolic_link_data lib e))"
proof -
  have "fault_free r" if "libfdata_stream_read_buffer_at_offset lib s fio n off = (s', r)" for s fio n off s' r
    using assms that unfolding libfdata_read_safe_def by (metis snd_conv)
  then show ?thesis
    by (fastforce simp: file_entry_symbolic_link_data_def libfsxfs_internal_file_entry_get_symbolic_link_data_def Let_def
        split: option.split prod.split sum.split)
qed

lemma volume_entry_safe:
  assumes "volume_loaded v" and "entry_of_volume bf lib v e" and "libfdata_read_safe lib" and "attributes_inside (fe_inode e)"
  shows "entry_safe lib e"
proof -
  obtain fs fio where v: "volume_sources bf v = Inr (fs, fio)" using assms(2) by (auto simp: entry_of_volume_def)
  note f = entry_of_volume_fields [OF v assms(2)]
  have "io_valid (vol_io_handle v)" using assms(1) by (auto simp: volume_loaded_def)
  then show ?thesis
    using attributes_get_safe [OF _ f(4) assms(4)] symbolic_link_data_safe [OF assms(3)] f(1,2)
    by (simp add: entry_safe_def attributes_of_def)
qed

lemma tree_nodes_of_volume:
  "tree_stored lib encode valid t \<Longrightarrow> entry_of_volume bf lib v (tree_entry t) \<Longrightarrow>
    (ns, e) \<in> set (tree_nodes names t) \<Longrightarrow> entry_of_volume bf lib v e"
proof (induction names t rule: tree_nodes.induct)
  case (1 names cs d ts)
  show ?case
  proof (cases "(ns, e) = (names, d)")
    case False
    then obtain u where u: "u \<in> set ts" "(ns, e) \<in> set (tree_nodes (names @ [tree_name u]) u)" using 1(4) by auto
    then obtain i where i: "i < length ts" "u = ts ! i" by (metis in_set_conv_nth)
    obtain fs fio where v: "volume_sources bf v = Inr (fs, fio)" using 1(3) by (auto simp: entry_of_volume_def)
    have d: "entry_of_volume bf lib v d" using 1(3) by simp
    note f = entry_of_volume_fields [OF v d]
    have init: "entry_initialized lib d" using d unfolding entry_of_volume_def entry_initialized_def by blast
    obtain e1 where "libfsxfs_file_entry_get_sub_file_entry_by_index lib d (int i) = Some (e1, Inr (tree_entry u))"
      using tree_stored_directory [OF 1(2) init] i by blast
    from file_entry_sub_file_entry_Inr [OF this entry_initialized_consistent [OF init]]
    have "entry_of_volume bf lib v (tree_entry u)" using entry_of_volumeI [OF v] by (auto simp: f)
    then show ?thesis using 1(1) [OF u(1)] 1(2) u by auto
  qed (use 1 in simp)
qed

subsection \<open>The program\<close>

definition helper_volume :: "'f xfs_helper \<Rightarrow> 'f file_dev_handle volume option" where
  "helper_volume helper =
     (case fh_xfs_info_handle helper of Some (Points_To info_handle) \<Rightarrow> ih_input_volume info_handle | _ \<Rightarrow> None)"

definition helper_output :: "'f xfs_helper \<Rightarrow> u8 list" where
  "helper_output helper =
     (case fh_xfs_info_handle helper of Some (Points_To info_handle) \<Rightarrow> ih_notify_stream info_handle | _ \<Rightarrow> [])"

lemma info_handle_open_streams:
  assumes "FDXFSInfoHandle_Open lib (Points_To info_handle) filename = (Points_To info_handle', r)"
  shows "ih_notify_stream info_handle' = ih_notify_stream info_handle \<and> ih_bodyfile_stream info_handle' = ih_bodyfile_stream info_handle"
proof -
  obtain info1 r1 where m: "FDXFSInfoHandle_Mount lib info_handle filename = (info1, r1)" by fastforce
  then have "ih_notify_stream info1 = ih_notify_stream info_handle \<and> ih_bodyfile_stream info1 = ih_bodyfile_stream info_handle"
    by (auto simp: FDXFSInfoHandle_Mount_def split: prod.split_asm sum.split_asm)
  then show ?thesis
    using assms m by (auto simp: FDXFSInfoHandle_Open_def Let_def split: sum.split_asm option.split_asm prod.split_asm)
qed

lemma helper_opened:
  assumes mounted: "FDXFSHelper_Mount dev Map.empty (fst (FDXFSHelper_Initialize xfs_helper_zero)) label = (devs, helper1, Inr True)"
    and opened: "FDXFSHelper_Open dev helper1 (Some source) = (helper2, Inr True)"
  shows "\<exists>info_handle v. fh_xfs_info_handle helper2 = Some (Points_To info_handle) \<and> ih_input_volume info_handle = Some v \<and>
    volume_loaded v \<and> ih_notify_stream info_handle = [] \<and> ih_bodyfile_stream info_handle = None"
proof -
  obtain h1 where h1: "fh_xfs_info_handle helper1 = Some (Points_To h1)" "ih_notify_stream h1 = []" "ih_bodyfile_stream h1 = None"
    "fh_source helper1 = []"
    using mounted
    by (auto simp: FDXFSHelper_Mount_def FDXFSHelper_Initialize_def FDXFSInfoHandle_Initialize_def xfsinfo_handle_zero_def
        xfs_helper_zero_def Let_def split: prod.split_asm option.split_asm)
  obtain p r where o: "FDXFSInfoHandle_Open dev (Points_To h1) source = (p, r)" by fastforce
  from info_handle_open_invariant [OF o] obtain h2 where h2: "p = Points_To h2"
    "\<forall>v. ih_input_volume h2 = Some v \<longrightarrow> volume_consistent v \<and> vol_file_io_handle v \<noteq> None"
    "r = Inr () \<longrightarrow> ih_input_volume h2 \<noteq> None"
    by blast
  have "r = Inr ()" "fh_xfs_info_handle helper2 = Some (Points_To h2)"
    using opened o h1 h2(1)
    by (auto simp: FDXFSHelper_Open_def bool_result_def split: sum.split_asm error.split_asm)
  then show ?thesis
    using h2(2,3) info_handle_open_streams [OF o [unfolded h2(1)]] h1(2,3) by (auto simp: volume_consistent_def)
qed

lemma helper_close_output:
  assumes "fh_xfs_info_handle helper = Some (Points_To info_handle)"
  shows "helper_output (fst (FDXFSHelper_Close dev helper)) = ih_notify_stream info_handle \<and>
    snd (FDXFSHelper_Close dev helper) = Inr ()"
  using assms
  by (auto simp: FDXFSHelper_Close_def FDXFSInfoHandle_Close_def libfsxfs_volume_close_def helper_output_def Let_def
      split: option.split)

text \<open>
  C27: The program of a device: when the device is mounted and the source is opened as a volume, it prints every file
  of the directory tree, a directory before the files in it. For each of them there is what the file alone is
  printed as, its number, its path and its size before all other values. A file whose link cannot be read is left
  out, and what else cannot be read of a file ends its values, not the program. Two things are asked of the files:
  that the length of their paths does not overflow the size of a buffer, and that no name in a short form table of
  attributes reaches past the end of that table, which the code would read out of bounds; the code has no
  defined behaviour then, and nothing is said about it.
\<close>

theorem FDXFSInfo_prints_files:
  fixes dev :: "'f libbfio_file"
  assumes wl: "wide_codec wl wencode valid" "wide_names wl encode wencode valid" "wide_safe wl"
    and lib: "libfdata_read_safe lib"
    and mounted: "FDXFSHelper_Mount dev Map.empty (fst (FDXFSHelper_Initialize xfs_helper_zero)) (ascii ''xfs_mp'') =
      (devs, helper1, Inr True)"
    and opened: "FDXFSHelper_Open dev helper1 (Some source) = (helper2, Inr True)"
    and root: "helper_volume helper2 = Some v" "libfsxfs_volume_get_root_directory (device_libbfio dev) lib v = Inr (tree_entry t)"
    and t: "tree_stored lib encode valid t" "tree_levels t \<le> levels"
    and files: "\<forall>(names, e) \<in> set (tree_nodes [] t). names_printable wencode names \<and> attributes_inside (fe_inode e)"
  shows "\<exists>helper texts. FDXFSInfo_wmain levels dev lib wl [program, source] = Some (helper, Inr ()) \<and>
    helper_output helper = title @ ascii ''File system hierarchy:'' @ [newline] @ concat texts @ [newline] \<and>
    list_all2 (\<lambda>(names, e) s. text_of_file lib wl wencode names e s \<and>
      (\<forall>h :: 'f xfsinfo_handle. ih_bodyfile_stream h = None \<longrightarrow> values_print lib wl wencode names e s h)) (tree_nodes [] t) texts"
proof -
  obtain info_handle where h: "fh_xfs_info_handle helper2 = Some (Points_To info_handle)" "ih_input_volume info_handle = Some v"
    "volume_loaded v" "ih_notify_stream info_handle = []" "ih_bodyfile_stream info_handle = None"
    using helper_opened [OF mounted opened] root(1) by (auto simp: helper_volume_def)
  note r = root_directory_found [OF volume_loaded_root_directory_known [OF h(3)] root(2)]
  define Q where "Q = (\<lambda>names e s. text_of_file lib wl wencode names e s \<and>
    (\<forall>h :: 'f xfsinfo_handle. ih_bodyfile_stream h = None \<longrightarrow> values_print lib wl wencode names e s h))"
  define T where "T = (\<lambda>names e. SOME s. Q names e s)"
  have Q: "Q names e (T names e)" if n: "(names, e) \<in> set (tree_nodes [] t)" for names e
  proof -
    have v: "\<forall>cs \<in> set names. name_valid valid cs" "entry_initialized lib e"
      using tree_nodes_initialized [OF t(1) r(2) _ n] by auto
    have "entry_of_volume (device_libbfio dev) lib v (tree_entry t)"
      using root(2) by (auto simp: libfsxfs_volume_get_root_directory_def intro: entry_of_volumeI split: option.split_asm)
    from tree_nodes_of_volume [OF t(1) this n] have f: "names_printable wencode names" "entry_safe lib e"
      using files n volume_entry_safe [OF h(3) _ lib] by auto
    have "\<exists>s r. prints_text (\<lambda>h :: 'f xfsinfo_handle. FDXFSInfoHandle_FileEntryValueWithName_fprint lib wl h e
        (Some (wide_path wencode names)) (wide_name wencode names)) s r \<and> entry_result e r \<and> text_of_file lib wl wencode names e s"
      by (rule file_values_printed [OF wl(1) v(1) f(1) wl(3) entry_initialized_consistent [OF v(2)] f(2)])
    then have "\<exists>s. Q names e s" unfolding Q_def values_print_def prints_text_def by blast
    then show ?thesis unfolding T_def by (rule someI_ex)
  qed
  have "entry_named encode valid [] (tree_entry t)" using r(3) by (simp add: entry_named_def)
  moreover have "\<forall>(names, e) \<in> set (tree_nodes [] t). names_printable wencode names \<and>
      (\<forall>h :: 'f xfsinfo_handle. ih_bodyfile_stream h = None \<longrightarrow> values_print lib wl wencode names e (T names e) h)"
    using files Q by (fastforce simp: Q_def)
  ultimately have walk: "FDXFSInfoHandle_FindNext levels lib wl h' (tree_entry t) [LIBFSXFS_SEPARATOR] =
      Some (print_notify (concat (map (\<lambda>(names, e). T names e) (tree_nodes [] t))) h', Inr ())"
    if "ih_bodyfile_stream h' = None" for h' :: "'f xfsinfo_handle"
    using find_next_prints_nodes [OF wl(1,2) t(1) r(2) _ t(2), of "[]" T h'] that by (simp add: wide_path_def parent_path_def)
  define out where "out = title @ ascii ''File system hierarchy:'' @ [newline] @
    concat (map (\<lambda>(names, e). T names e) (tree_nodes [] t)) @ [newline]"
  have p: "FDXFSHelper_PrintHierarchy levels dev lib wl helper2 =
      Some (helper2\<lparr> fh_xfs_info_handle := Some (Points_To (print_notify out info_handle)) \<rparr>, Inr True)"
    using h root(2) walk
    by (simp add: FDXFSHelper_PrintHierarchy_def helper_by_pointer_def FDXFSInfoHandle_PrintFileSystemHierarchy_def
        print_by_pointer_def console_fprint_def info_volume_def Let_def bool_result_def out_def)
  let ?helper3 = "helper2\<lparr> fh_xfs_info_handle := Some (Points_To (print_notify out info_handle)) \<rparr>"
  obtain helper q where close: "FDXFSHelper_Close dev ?helper3 = (helper, q)" by fastforce
  have "helper_output helper = out" "q = Inr ()"
    using helper_close_output [of ?helper3 "print_notify out info_handle" dev] h(4) close by (simp_all add: print_notify_def)
  moreover have "FDXFSInfo_wmain levels dev lib wl [program, source] = Some (helper, q)"
    using mounted opened p close
    by (simp add: FDXFSInfo_wmain_def FDXFSHelper_Initialize_def FDXFSInfoHandle_Initialize_def bool_result_def Let_def)
  moreover have "list_all2 (\<lambda>(names, e) s. Q names e s) (tree_nodes [] t) (map (\<lambda>(names, e). T names e) (tree_nodes [] t))"
    using Q by (auto simp: list_all2_map2 intro!: list.rel_refl_strong)
  ultimately show ?thesis unfolding Q_def out_def by blast
qed

end
