(* ===== verification/Example_Image.thy ===== *)
theory Example_Image
  imports Info_Main Mount_Main Device_Hierarchy
begin

text \<open>
  The image of a whole volume, with a file \<open>a\<close> of five bytes in its root directory, and the three programs run on it.
\<close>

subsection \<open>The image\<close>

definition image_superblock :: superblock where
  "image_superblock = superblock_zero
     \<lparr> sb_block_size := 512, sb_number_of_blocks := 64, sb_root_directory_inode_number := 0x41,
       sb_allocation_group_size := 64, sb_number_of_allocation_groups := 1,
       sb_format_version := 4, sb_feature_flags := 0xb4a0, sb_sector_size := 512,
       sb_inode_size := 256, sb_directory_block_size := 512,
       sb_number_of_relative_block_number_bits := 6,
       sb_number_of_relative_inode_number_bits := 7 \<rparr>"

text \<open>The inode information names the block 4 as the root of the tree, a leaf with the inodes from 0x40 on.\<close>

definition image_inode_information :: "u8 list" where
  "image_inode_information =
     [0x58, 0x41, 0x47, 0x49, 0, 0, 0, 1] @ replicate 12 0 @ [0, 0, 0, 4, 0, 0, 0, 1] @ replicate 4 0 @
     [0, 0, 0, 0x40] @ replicate 476 0"

definition image_leaf :: "u8 list" where
  "image_leaf = example_leaf_block @ replicate 480 0"

definition image_bytes :: "u8 list" where
  "image_bytes = superblock_sector image_superblock @ replicate 512 0 @ image_inode_information @ replicate 512 0 @
     image_leaf @ replicate 14080 0 @ example_directory_inode @ example_inode_data"

lemma image_superblock_supported: "superblock_supported image_superblock"
proof -
  have "\<exists>k<32. 512 = 2 ^ k * (512 :: nat)" by (intro exI [of _ 0]) simp
  then show ?thesis
    by (simp add: superblock_supported_def image_superblock_def superblock_zero_def supported_feature_flags_def)
qed

lemma image_lengths:
  "length (superblock_sector image_superblock) = 512" "length image_inode_information = 512" "length image_leaf = 512"
  "length example_directory_inode = 256" "length example_inode_data = 256"
proof -
  have "length (superblock_bytes image_superblock 0) = 208"
    using image_superblock_supported by (intro length_superblock_bytes) (simp add: superblock_supported_def)
  then show "length (superblock_sector image_superblock) = 512" by (simp add: superblock_sector_def)
qed (simp_all add: image_inode_information_def image_leaf_def example_leaf_block_def example_directory_inode_def
    example_inode_data_def)

lemma image_reads:
  "disk_io image_bytes 0 512 = Some (superblock_sector image_superblock)"
  "disk_io image_bytes 1024 512 = Some image_inode_information"
  "disk_io image_bytes 2048 512 = Some image_leaf"
  "disk_io image_bytes 16640 256 = Some example_directory_inode"
  "disk_io image_bytes 16896 256 = Some example_inode_data"
  by (simp_all add: disk_io_def image_bytes_def image_lengths)

text \<open>The proofs need of a file that it reads these parts of the image.\<close>

definition image_file :: "file_io \<Rightarrow> bool" where
  "image_file fio \<longleftrightarrow>
     fio 0 512 = Some (superblock_sector image_superblock) \<and> fio 1024 512 = Some image_inode_information \<and>
     fio 2048 512 = Some image_leaf \<and> fio 16640 256 = Some example_directory_inode \<and>
     fio 16896 256 = Some example_inode_data"

lemma image_fileD:
  assumes "image_file fio"
  shows "fio 0 512 = Some (superblock_sector image_superblock)" "fio 1024 512 = Some image_inode_information"
    "fio 2048 512 = Some image_leaf" "fio 16640 256 = Some example_directory_inode" "fio 16896 256 = Some example_inode_data"
  using assms by (simp_all add: image_file_def)

lemma image_file_disk: "image_file (disk_io image_bytes)"
  by (simp add: image_file_def image_reads)

definition image_file_system :: file_system where
  "image_file_system =
     \<lparr> fs_inode_btree = \<lparr> ib_inode_information_array =
         [\<lparr> ii_inode_btree_root_block_number = 4, ii_inode_btree_depth = 1, ii_last_allocated_chunk = 0x40 \<rparr>] \<rparr>,
       fs_root_directory_inode_number = 0x41 \<rparr>"

abbreviation (input) image_io :: io_handle where
  "image_io \<equiv> io_handle_set_superblock io_handle_zero image_superblock"

definition image_volume :: "'h volume" where
  "image_volume = volume_zero
     \<lparr> vol_superblock := Some image_superblock, vol_file_system := Some image_file_system, vol_io_handle := image_io \<rparr>"

lemma image_io_fields:
  "io_format_version image_io = 4" "io_block_size image_io = 512" "io_allocation_group_size image_io = 64"
  "io_inode_size image_io = 256" "io_number_of_relative_inode_number_bits image_io = 7"
  "io_number_of_relative_block_number_bits image_io = 6" "io_secondary_feature_flags image_io = 0"
  by (simp_all add: io_handle_set_superblock_def image_superblock_def superblock_zero_def)

lemma image_opens_read:
  assumes fio: "image_file fio"
  shows "libfsxfs_internal_volume_open_read volume_zero fio = (image_volume :: 'h volume, Inr ())"
proof -
  have sb: "bindE (libfsxfs_superblock_initialize None) (\<lambda>sb. libfsxfs_superblock_read_file_io_handle sb fio 0) =
      Inr image_superblock"
    by (rule superblock_sector_read [OF image_superblock_supported]) (simp_all add: image_fileD [OF fio], simp add: image_superblock_def)
  have s: "sb_sector_size image_superblock = 512" "sb_root_directory_inode_number image_superblock = 0x41"
    "sb_number_of_allocation_groups image_superblock = 1"
    by (simp_all add: image_superblock_def)
  have i: "libfsxfs_file_system_read_inode_information
      \<lparr> fs_inode_btree = \<lparr> ib_inode_information_array = [] \<rparr>, fs_root_directory_inode_number = 0x41 \<rparr>
      image_io fio 1024 = Inr image_file_system"
    by (simp add: libfsxfs_file_system_read_inode_information_def libfsxfs_inode_btree_read_inode_information_def
        libfsxfs_inode_information_initialize_def libfsxfs_inode_information_read_file_io_handle_def
        read_buffer_at_offset_def image_fileD [OF fio] image_lengths libfsxfs_inode_information_read_data_def
        inode_information_data_size_def image_io_fields, simp add: image_inode_information_def be_word_def image_file_system_def)
  have "volume_read_allocation_group fio volume_zero 0 = (image_volume :: 'h volume, Inr 0x8000)"
    unfolding volume_read_allocation_group_def sb
    by (simp add: volume_keep_superblock_def volume_zero_def Let_def s i image_io_fields file_system_initialize_Inr
        image_volume_def)
  then have "volume_read_allocation_groups fio volume_zero 0 0 = (image_volume :: 'h volume, Inr 1)"
    by (simp add: volume_read_allocation_groups.simps volume_number_of_allocation_groups_def image_volume_def s)
  then show ?thesis
    by (simp add: libfsxfs_internal_volume_open_read_def volume_number_of_allocation_groups_def image_volume_def s volume_zero_def)
qed

subsection \<open>The files in it\<close>

lemma image_inode_offset:
  assumes fio: "image_file fio" and "n = 0x41 \<or> n = 0x42"
  shows "libfsxfs_inode_btree_get_inode_by_number (fs_inode_btree image_file_system) image_io fio n =
    Inr (Some (n * 256))"
proof -
  have "disk_tree image_io fio 0 4 (Chunks [0x40])"
    by (rule disk_leaf [where data = image_leaf, OF _ _ refl])
      (simp_all add: inode_node_block_def image_io_fields image_fileD [OF fio] image_lengths image_leaf_def example_leaf_block_def
        inode_btree_signature_def btree_header_data_size_def node_level_def node_count_def leaf_chunk_def be_word_def)
  then have "libfsxfs_inode_btree_get_inode_from_node image_io fio 0 4 n 0 =
      Inr (tree_member (Chunks [0x40]) (unat n))"
    using inode_btree_lookup [of image_io "fio" 0 4 "Chunks [0x40]" 0 1000 0 n] by simp
  then show ?thesis
    using assms
    by (auto simp: libfsxfs_inode_btree_get_inode_by_number_def image_file_system_def image_io_fields Let_def)
qed

lemma image_inode:
  assumes fio: "image_file fio" and n: "n = 0x41 \<or> n = 0x42"
    and d: "d = (if n = 0x41 then example_directory_inode else example_inode_data)"
    and j: "libfsxfs_inode_read_data (inode_zero\<lparr> in_data_size := 256, in_data := d \<rparr>) d = Inr j"
    and t: "in_fork_type j = 1" "in_attributes_fork_type j = 1"
  shows "\<exists>inode. get_existing_inode image_file_system image_io fio n = Inr inode \<and>
    in_file_mode inode = in_file_mode j \<and> in_fork_type inode = 1 \<and> in_size inode = in_size j \<and>
    in_inline_data inode = Some (drop (unat (in_data_fork_offset j)) (in_data j)) \<and>
    in_attributes_fork_type inode = 1 \<and> in_attributes_fork_size inode = in_attributes_fork_size j \<and>
    (in_attributes_fork_size j > 0 \<longrightarrow>
       in_inline_attributes_data inode = Some (drop (unat (in_attributes_fork_offset j)) (in_data j)))"
proof -
  have "fio (n * 256) 256 = Some d" "length d = 256" using n d by (auto simp: image_fileD [OF fio] image_lengths)
  moreover have "n \<noteq> 0" "n \<le> 0xffffffff" using n by auto
  ultimately show ?thesis
    using inline_inode_exists [where fio = "fio", OF image_inode_offset [OF fio n] _ _ _ _ _ _ j t]
    by (simp add: image_io_fields)
qed

lemma image_root_inode:
  assumes fio: "image_file fio"
  shows "\<exists>inode. get_existing_inode image_file_system image_io fio 0x41 = Inr inode \<and>
     in_file_mode inode = 0x41ed \<and> in_fork_type inode = 1 \<and> in_size inode = 14 \<and>
     in_inline_data inode = Some (drop 100 example_directory_inode) \<and>
     in_attributes_fork_type inode = 1 \<and> in_attributes_fork_size inode = 0"
proof -
  have "\<exists>j. libfsxfs_inode_read_data (inode_zero\<lparr> in_data_size := 256, in_data := example_directory_inode \<rparr>)
        example_directory_inode = Inr j \<and> in_attributes_fork_type j = 1 \<and>
     in_data j = example_directory_inode \<and> in_file_mode j = 0x41ed \<and> in_fork_type j = 1 \<and>
     in_size j = 14 \<and> in_data_fork_offset j = 100 \<and> in_attributes_fork_size j = 0"
    by (simp add: example_directory_inode_def libfsxfs_inode_read_data_def inode_core_size_def
        inode_read_core_def inode_read_creation_time_def inode_set_forks_def be_word_def
        inode_zero_def inode_signed_time_def inode_unsigned_time_def nth_append Let_def)
  then show ?thesis using image_inode [OF fio, of "0x41"] by fastforce
qed

text \<open>What is needed of the file entries: they have no target of a link, and no names in their table of attributes.\<close>

definition image_entry :: "u64 \<Rightarrow> u64 \<Rightarrow> stream_record file_entry \<Rightarrow> bool" where
  "image_entry n k e \<longleftrightarrow>
     fe_inode_number e = n \<and> fe_data_size e = k \<and> file_type (fe_inode e) \<noteq> LIBFSXFS_FILE_TYPE_SYMBOLIC_LINK \<and>
     fe_symbolic_link_data e = None \<and> attributes_inside (fe_inode e)"

lemma image_no_attributes: "in_attributes_fork_size inode = 0 \<Longrightarrow> attributes_inside inode"
  by (simp add: attributes_inside_def table_names_inside_def)

lemma image_zero_attributes:
  assumes "in_attributes_fork_size inode = 92" and "in_inline_attributes_data inode = Some (drop 164 example_inode_data)"
  shows "attributes_inside inode"
proof -
  have "drop 164 example_inode_data ! 2 = 0" by (simp add: example_inode_data_def nth_append)
  then show ?thesis using assms by (simp add: attributes_inside_def table_names_inside_def)
qed

lemma image_entry_printed:
  assumes "image_entry n k e"
  shows "attributes_inside (fe_inode e)" and "link_readable lib wl e"
    and "libfsxfs_file_entry_get_inode_number e = n" and "libfsxfs_file_entry_get_size e = k"
  using assms
  by (simp_all add: image_entry_def link_readable_def wide_symbolic_link_target_def
      libfsxfs_file_entry_get_utf16_symbolic_link_target_size_def file_entry_symbolic_link_target_def
      file_entry_symbolic_link_data_def libfsxfs_internal_file_entry_get_symbolic_link_data_def
      libfsxfs_file_entry_get_inode_number_def libfsxfs_file_entry_get_size_def)

lemma image_root_entry:
  fixes h :: 'h
  assumes fio: "image_file fio" and read: "libbfio_handle_read bf h = fio"
  shows "\<exists>d. libfsxfs_volume_get_root_directory bf recording_libfdata
       (image_volume\<lparr> vol_file_io_handle := Some h, vol_file_io_handle_opened_in_library := b \<rparr>) = Inr d \<and>
     fe_io_handle d = image_io \<and> fe_file_io_handle d = fio \<and> fe_file_system d = image_file_system \<and>
     directory_of d = Some (Inr (Some \<lparr> dir_entries_array = [example_listed_entry] \<rparr>)) \<and> image_entry 0x41 0 d"
proof -
  obtain inode where i: "get_existing_inode image_file_system image_io fio 0x41 = Inr inode"
    "in_file_mode inode = 0x41ed" "in_fork_type inode = 1" "in_size inode = 14"
    "in_inline_data inode = Some (drop 100 example_directory_inode)"
    "in_attributes_fork_type inode = 1" "in_attributes_fork_size inode = 0"
    using image_root_inode [OF fio] by blast
  let ?d = "\<lparr> fe_io_handle = image_io, fe_file_io_handle = fio,
      fe_file_system = image_file_system, fe_inode_number = 0x41, fe_inode = inode, fe_directory_entry = None,
      fe_extended_attributes_array = None, fe_directory = None, fe_data_size = 0,
      fe_data_stream = None, fe_symbolic_link_data = None \<rparr> :: stream_record file_entry"
  have "libfsxfs_file_entry_initialize recording_libfdata None image_io fio image_file_system 0x41 inode None =
      Inr ?d"
    by (simp add: libfsxfs_file_entry_initialize_def file_type_def i(2))
  then have r: "libfsxfs_volume_get_root_directory bf recording_libfdata
      (image_volume\<lparr> vol_file_io_handle := Some h, vol_file_io_handle_opened_in_library := b \<rparr>) = Inr ?d"
    using read i(1)
    by (simp add: libfsxfs_volume_get_root_directory_def volume_sources_def image_volume_def image_superblock_def)
  have b: "get_bytes (drop 100 example_directory_inode) 0 14 =
      Inr [1, 0, 0, 0, 0, 0x41, 1, 0, 0, 0x61, 0, 0, 0, 0x42]"
    by (simp add: get_bytes_def example_directory_inode_def)
  have "directory_of ?d = Some (Inr (Some \<lparr> dir_entries_array = [example_listed_entry] \<rparr>))"
    by (simp add: directory_of_def file_type_def i libfsxfs_directory_read_file_io_handle_def image_io_fields
        has_file_type_def b libfsxfs_directory_table_initialize_def libfsxfs_directory_table_read_data_def
        libfsxfs_directory_table_header_initialize_def libfsxfs_directory_table_header_read_data_def
        directory_table_header_zero_def directory_table_read_entries.simps Let_def be_word_def
        libfsxfs_directory_entry_initialize_def directory_entry_zero_def example_listed_entry_def)
  moreover have "image_entry 0x41 0 ?d"
    using i(2) image_no_attributes [OF i(7)] by (simp add: image_entry_def file_type_def attributes_of_def)
  ultimately show ?thesis using r by (intro exI [of _ ?d]) simp
qed

lemma image_file_entry:
  assumes fio: "image_file fio"
  shows "\<exists>inode s. get_existing_inode image_file_system image_io fio 0x42 = Inr inode \<and>
     libfsxfs_file_entry_initialize recording_libfdata None image_io fio image_file_system 0x42 inode
       (Some example_listed_entry) = Inr s \<and> directory_of s = Some (Inr None) \<and> image_entry 0x42 5 s"
proof -
  have "\<exists>j. libfsxfs_inode_read_data (inode_zero\<lparr> in_data_size := 256, in_data := example_inode_data \<rparr>)
        example_inode_data = Inr j \<and> in_attributes_fork_type j = 1 \<and> in_fork_type j = 1 \<and> in_size j = 5 \<and>
     in_file_mode j = 0x81a4 \<and> in_attributes_fork_size j = 92 \<and> in_attributes_fork_offset j = 164 \<and>
     in_data j = example_inode_data"
    by (simp add: example_inode_data_def libfsxfs_inode_read_data_def inode_core_size_def
        inode_read_core_def inode_read_creation_time_def inode_set_forks_def be_word_def
        inode_zero_def inode_signed_time_def inode_unsigned_time_def nth_append Let_def)
  then obtain inode data where i: "get_existing_inode image_file_system image_io fio 0x42 = Inr inode"
    "in_fork_type inode = 1" "in_size inode = 5" "in_inline_data inode = Some data" "in_file_mode inode = 0x81a4"
    "in_attributes_fork_type inode = 1" "in_attributes_fork_size inode = 92"
    "in_inline_attributes_data inode = Some (drop 164 example_inode_data)"
    using image_inode [OF fio, of "0x42"] by fastforce
  then show ?thesis
    using image_zero_attributes [OF i(7,8)]
    by (auto simp: image_entry_def attributes_of_def libfsxfs_file_entry_initialize_def libfsxfs_data_stream_initialize_def Let_def
        libfsxfs_data_stream_initialize_from_data_def libfsxfs_buffer_data_handle_initialize_def
        libfsxfs_inode_get_data_size_def file_type_def recording_libfdata_def directory_of_def)
qed

lemma image_tree:
  fixes h :: 'h
  assumes fio: "image_file fio" and read: "libbfio_handle_read bf h = fio" and valid: "valid 0x61"
  shows "\<exists>d s. libfsxfs_volume_get_root_directory bf recording_libfdata
       (image_volume\<lparr> vol_file_io_handle := Some h, vol_file_io_handle_opened_in_library := b \<rparr>) = Inr d \<and>
     tree_stored recording_libfdata utf8_units valid (File_Tree [] d [File_Tree [0x61] s []]) \<and>
     image_entry 0x41 0 d \<and> image_entry 0x42 5 s"
proof -
  obtain d where d: "libfsxfs_volume_get_root_directory bf recording_libfdata
       (image_volume\<lparr> vol_file_io_handle := Some h, vol_file_io_handle_opened_in_library := b \<rparr>) = Inr d"
    "fe_io_handle d = image_io" "fe_file_io_handle d = fio" "fe_file_system d = image_file_system"
    "directory_of d = Some (Inr (Some \<lparr> dir_entries_array = [example_listed_entry] \<rparr>))" "image_entry 0x41 0 d"
    using image_root_entry [OF fio read] by blast
  obtain inode s where s: "get_existing_inode image_file_system image_io fio 0x42 = Inr inode"
    "libfsxfs_file_entry_initialize recording_libfdata None image_io fio image_file_system 0x42 inode
       (Some example_listed_entry) = Inr s" "directory_of s = Some (Inr None)" "image_entry 0x42 5 s"
    using image_file_entry [OF fio] by blast
  have utf8: "utf8_units 0x61 = [0x61]" by (simp add: utf8_units_def)
  have "de_inode_number example_listed_entry = 0x42" by (simp add: example_listed_entry_def)
  then have "directory_lists recording_libfdata utf8_units valid d \<lparr> dir_entries_array = [example_listed_entry] \<rparr>
      [File_Tree [0x61] s []]"
    using s(1,2) d(2-4) utf8 valid
    by (simp add: directory_lists_def example_listed_name name_valid_def
        file_entry_sub_file_entry_def libfsxfs_directory_get_entry_by_index_def array_get_entry_by_index_def
        libfsxfs_directory_entry_clone_def)
  with d(1,5,6) s(3,4) show ?thesis by auto
qed

subsection \<open>The tools\<close>

text \<open>The image is at the offset 4096 of a disk. The arguments are \<open>-v -o4096 -H disk\<close>.\<close>

definition image_system :: "unit info_system" where
  "image_system =
     \<lparr> sys_libbfio = \<lparr> libbfio_handle_is_open = (\<lambda>h. Some False), libbfio_handle_open = Some,
         libbfio_handle_close = (\<lambda>h. True), libbfio_handle_read = (\<lambda>h. disk_io image_bytes) \<rparr>,
       sys_input = (\<lambda>name offset. if offset = 4096 then Inr () else Inl Open_Failed),
       sys_bodyfile_opens = (\<lambda>name. True), sys_bodyfile_closes = True, sys_input_freed = Inr (),
       sys_version = ascii ''20240101'', sys_package_bugreport = [] \<rparr>"

lemma image_system_opens:
  "libfsxfs_volume_open_file_io_handle (sys_libbfio image_system) volume_zero () 1 =
     (image_volume\<lparr> vol_file_io_handle := Some (), vol_file_io_handle_opened_in_library := True \<rparr>, Inr ())"
  using image_opens_read [OF image_file_disk, where 'h = unit]
  by (simp add: libfsxfs_volume_open_file_io_handle_def image_system_def volume_zero_def image_volume_def)

lemma fsxfsinfo_prints_hierarchy_witness:
  "fsxfsinfo_main 2 image_system (example_info_libraries :: u8 list info_libraries) recording_libfdata example_libuna
     [ascii ''fsxfsinfo'' @ [0], ascii ''-v'' @ [0], ascii ''-o4096'' @ [0], ascii ''-H'' @ [0], ascii ''disk'' @ [0]] =
   Some (Inr (EXIT_SUCCESS, ascii ''fsxfsinfo 20240101'' @ [newline, newline] @ title @ ascii ''File system hierarchy:'' @
     [newline, 0x2f, newline, 0x2f, 0x61, newline, newline], None))"
proof -
  let ?groups = "[Flags (ascii ''v''), Attached [] 0x6f (ascii ''4096''), Flags (ascii ''H'')]"
  let ?options = "[(0x76, None), (0x6f, Some (ascii ''4096'' @ [0])), (0x48, None)] :: (int \<times> u8 list option) list"
  let ?v = "image_volume\<lparr> vol_file_io_handle := Some (), vol_file_io_handle_opened_in_library := True \<rparr>"
  have groups: "\<forall>g \<in> set ?groups. option_group_ok fsxfsinfo_options g" "?options = concat (map group_options ?groups)"
    by (simp_all add: option_kind_def search_character_def string_of_buffer_def ascii_def fsxfsinfo_options_def
        flag_options_def)
  have digits: "ascii ''4096'' = decimal_digits 4096" by (simp add: ascii_def decimal_digits.simps)
  have asked: "options_plain ?options" "requested_mode ?options = FSXFSINFO_MODE_FILE_SYSTEM_HIERARCHY"
    "offset_given ?options 4096"
    by (simp_all add: options_plain_def requested_mode_def last_value_def offset_given_def last_argument_def digits)
  have source: "ascii ''disk'' \<noteq> []" "hd (ascii ''disk'') \<noteq> option_marker" "0 \<notin> set (ascii ''disk'')" by (simp_all add: ascii_def)
  have volume: "sys_input image_system (ascii ''disk'') (word_of_nat 4096) = Inr ()"
    "snd (libfsxfs_volume_close (sys_libbfio image_system) ?v) = Inr ()" "sys_input_freed image_system = Inr ()"
    by (simp_all add: image_system_def libfsxfs_volume_close_def)
  obtain d s where d: "libfsxfs_volume_get_root_directory (sys_libbfio image_system) recording_libfdata ?v =
      Inr (tree_entry (File_Tree [] d [File_Tree [0x61] s []]))"
    "tree_stored recording_libfdata utf8_units utf8_valid (File_Tree [] d [File_Tree [0x61] s []])"
    using image_tree [OF image_file_disk, of "sys_libbfio image_system" "()" utf8_valid True]
    by (auto simp: image_system_def utf8_valid_def)
  have l: "tree_levels (File_Tree [] d [File_Tree [0x61] s []]) \<le> 2" by simp
  have p: "\<forall>(names, e) \<in> set (tree_nodes [] (File_Tree [] d [File_Tree [0x61] s []])). path_printable utf8_units names"
    by (simp add: path_printable_def example_mounted_paths)
  have "rooted_path (printed_name utf8_units) [] = [0x2f]" "rooted_path (printed_name utf8_units) [[0x61]] = [0x2f, 0x61]"
    by (simp_all add: rooted_path_def printed_units_def control_character_def utf8_units_def)
  then show ?thesis
    using fsxfsinfo_prints_hierarchy [OF groups asked _ source volume(1) image_system_opens volume(2,3)
        example_libuna_codec example_libuna_names d l p, of example_info_libraries "ascii ''fsxfsinfo'' @ [0]" "[]"]
    by (simp add: example_mounted_paths image_system_def ascii_def)
qed

text \<open>The arguments are \<open>-o 4096 -Xro disk mnt\<close>.\<close>

definition image_mount_system :: "unit mount_system" where
  "image_mount_system =
     \<lparr> ms_libbfio = sys_libbfio image_system, ms_input = sys_input image_system, ms_clock = Some (0, 0),
       ms_fuse = \<lparr> fuse_opt_add_arg = (\<lambda>args arg. True), fuse_new = (\<lambda>args handle. True),
         fuse_mount = (\<lambda>mount_point. True), fuse_daemonize = True, fuse_loop = True \<rparr>,
       ms_version = ascii ''20240101'', ms_package_bugreport = [] \<rparr>"

lemma fsxfsmount_serves_volume_witness:
  "\<exists>mount_handle v. fsxfsmount_main image_mount_system
       [ascii ''fsxfsmount'' @ [0], ascii ''-o'' @ [0], ascii ''4096'' @ [0], ascii ''-Xro'' @ [0], ascii ''disk'' @ [0],
        ascii ''mnt'' @ [0]] =
     Inr (EXIT_SUCCESS, ascii ''fsxfsmount 20240101'' @ [newline, newline], Some (mount_handle,
       [ascii ''fsxfsmount'', [], ascii ''-o'', ascii ''ro''], ascii ''mnt'')) \<and>
     mfs_fsxfs_volume (mh_file_system mount_handle) = Some v \<and> vol_superblock v = Some image_superblock"
proof -
  let ?groups = "[Separate [] 0x6f (ascii ''4096''), Attached [] 0x58 (ascii ''ro'')]"
  let ?options = "[(0x6f, Some (ascii ''4096'' @ [0])), (0x58, Some (ascii ''ro'' @ [0]))] :: (int \<times> u8 list option) list"
  have groups: "\<forall>g \<in> set ?groups. option_group_ok fsxfsmount_options g" "?options = concat (map group_options ?groups)"
    by (simp_all add: option_kind_def search_character_def string_of_buffer_def ascii_def fsxfsmount_options_def
        flag_options_def)
  have digits: "ascii ''4096'' = decimal_digits 4096" by (simp add: ascii_def decimal_digits.simps)
  have asked: "\<forall>(c, a) \<in> set ?options. c \<noteq> 0x68 \<and> c \<noteq> 0x56" "offset_given ?options 4096"
    by (simp_all add: offset_given_def last_argument_def last_value_def digits)
  have source: "ascii ''disk'' \<noteq> []" "hd (ascii ''disk'') \<noteq> option_marker" "0 \<notin> set (ascii ''disk'')"
    "0 \<notin> set (ascii ''mnt'')" by (simp_all add: ascii_def)
  have volume: "ms_input image_mount_system (ascii ''disk'') (word_of_nat 4096) = Inr ()"
    "libfsxfs_volume_open_file_io_handle (ms_libbfio image_mount_system) volume_zero () 1 =
       (image_volume\<lparr> vol_file_io_handle := Some (), vol_file_io_handle_opened_in_library := True \<rparr>, Inr ())"
    using image_system_opens by (simp_all add: image_mount_system_def) (simp add: image_system_def)
  have fuse: "ms_clock image_mount_system \<noteq> None" "fuse_ready (ms_fuse image_mount_system)"
    by (simp_all add: image_mount_system_def fuse_ready_def)
  have "last_argument 0x58 ?options = Some (ascii ''ro'' @ [0])" by (simp add: last_argument_def last_value_def)
  moreover have "string_of_buffer (ascii ''ro'' @ [0]) = ascii ''ro''"
    by (rule string_of_buffer_terminated) (simp add: ascii_def)
  ultimately show ?thesis
    using fsxfsmount_serves_volume [OF groups asked _ source volume fuse, of "ascii ''fsxfsmount'' @ [0]"]
    by (auto simp: image_mount_system_def image_volume_def ascii_def)
qed

subsection \<open>The program of a device\<close>

text \<open>Wide characters of the basic plane; the program runs in a locale whose characters have one byte.\<close>

definition ucs2_valid :: "u32 \<Rightarrow> bool" where
  "ucs2_valid c \<longleftrightarrow> c < 0x10000"

definition ucs2_units :: "u32 \<Rightarrow> u16 list" where
  "ucs2_units c = [ucast c]"

fun utf8_to_ucs2 :: "nat \<Rightarrow> u8 list \<Rightarrow> nat \<Rightarrow> u16 list" where
  "utf8_to_ucs2 0 s i = []"
| "utf8_to_ucs2 (Suc n) s i =
     (if i < length s then (case utf8_copy s i of Inl e \<Rightarrow> [] | Inr (c, j) \<Rightarrow> ucast c # utf8_to_ucs2 n s j) else [])"

definition image_wide :: wide_libraries where
  "image_wide =
     \<lparr> wl_copy = (\<lambda>s i. if i < length s then Inr (ucast (s ! i), i + 1) else Inl Value_Out_Of_Bounds),
       wl_write = (\<lambda>c n s. if \<not> ucs2_valid c then Inl Unsupported_Value
         else if length s + 1 \<le> n then Inr (s @ ucs2_units c) else Inl Value_Out_Of_Bounds),
       wl_name_size = (\<lambda>s. Inr (length (utf8_to_ucs2 (length s) s 0) + 1)),
       wl_name = (\<lambda>n s. Inr (utf8_to_ucs2 (length s) s 0 @ [0])),
       wl_fresh = (\<lambda>n. replicate n 0xffff),
       wl_date_time = (\<lambda>time. Inr (map ucast (ascii ''1970-01-01T00:00:00.000000001''))),
       wl_multibyte = map ucast \<rparr>"

lemma ucs2_round: "ucs2_valid c \<Longrightarrow> ucast (ucast c :: u16) = c"
proof -
  assume "ucs2_valid c"
  then have "unat c < 2 ^ 16" by (simp add: ucs2_valid_def word_less_nat_alt)
  then have "unat (ucast c :: u16) = unat c" by (intro unat_ucast_fits) simp
  moreover from this have "unat (ucast (ucast c :: u16) :: u32) = unat (ucast c :: u16)"
    using \<open>unat c < 2 ^ 16\<close> by (intro unat_ucast_fits) simp
  ultimately show ?thesis by (simp add: word_unat_eq_iff)
qed

lemma image_wide_codec: "wide_codec image_wide ucs2_units ucs2_valid"
proof -
  have "unicode_decodes (wl_copy image_wide) ucs2_units ucs2_valid"
    by (simp add: unicode_decodes_def image_wide_def ucs2_units_def ucs2_round nth_append, simp add: ucs2_valid_def)
  moreover have "0x80 \<le> (ucast c :: u16)" if "ucs2_valid c" "0x80 \<le> c" for c
  proof -
    have "unat (ucast c :: u16) = unat c"
      using that(1) by (intro unat_ucast_fits) (simp add: ucs2_valid_def word_less_nat_alt)
    then show ?thesis using that(2) by (simp add: word_le_nat_alt)
  qed
  then have "unicode_writes (wl_write image_wide) ucs2_units ucs2_valid"
    by (auto simp: unicode_writes_def image_wide_def ucs2_units_def) (auto simp: ucs2_valid_def word_less_nat_alt)
  ultimately show ?thesis by (simp add: wide_codec_def)
qed

lemma utf8_to_ucs2_name:
  "\<forall>c \<in> set cs. ucs2_valid c \<Longrightarrow> length cs \<le> n \<Longrightarrow>
    utf8_to_ucs2 n (pre @ encode_name utf8_units cs) (length pre) = encode_name ucs2_units cs"
proof (induction cs arbitrary: n pre)
  case Nil
  then show ?case by (cases n) simp_all
next
  case (Cons c cs)
  obtain m where m: "n = Suc m" using Cons.prems(2) by (cases n) auto
  have v: "utf8_valid c" using Cons.prems(1) by (simp add: ucs2_valid_def utf8_valid_def word_less_nat_alt)
  have "utf8_to_ucs2 m ((pre @ utf8_units c) @ encode_name utf8_units cs) (length (pre @ utf8_units c)) = encode_name ucs2_units cs"
    using Cons.prems m by (intro Cons.IH) simp_all
  then show ?case
    using unicode_decodesD(1,2) [OF utf8_decodes v] m by (simp add: ucs2_units_def [of c])
qed

lemma image_wide_names: "wide_names image_wide utf8_units ucs2_units ucs2_valid"
proof -
  have "utf8_to_ucs2 (length (encode_name utf8_units cs)) (encode_name utf8_units cs) 0 = encode_name ucs2_units cs"
    if "name_valid ucs2_valid cs" for cs
  proof -
    have v: "\<forall>c \<in> set cs. ucs2_valid c" using that by (simp add: name_valid_def)
    have "length cs \<le> length (encode_name utf8_units cs)"
    proof (induction cs)
      case (Cons c cs)
      have "utf8_units c \<noteq> []" by (simp add: utf8_units_def Let_def)
      then show ?case using Cons by (cases "utf8_units c") simp_all
    qed simp
    then show ?thesis using utf8_to_ucs2_name [OF v, of _ "[]"] by simp
  qed
  then show ?thesis by (simp add: wide_names_def image_wide_def)
qed

lemma image_wide_safe: "wide_safe image_wide"
  by (simp add: wide_safe_def image_wide_def)

lemma image_length: "length image_bytes = 17152"
  by (simp add: image_bytes_def image_lengths)

text \<open>The names of the root and of \<open>/a\<close> and how they are printed.\<close>

lemma image_names:
  "names_printable ucs2_units []" "names_printable ucs2_units [[0x61]]"
  "name_line image_wide ucs2_units [] = []"
  "name_line image_wide ucs2_units [[0x61]] = tabs 1 @ ascii ''Name'' @ tabs 3 @ ascii '': '' @ [0x2f, 0x61, newline]"
  by (simp_all add: names_printable_def rooted_path_def name_line_def wide_path_def parent_path_def ucs2_units_def
      wide_units_def control_character_def image_wide_def)

lemma image_device_opens:
  defines "dev \<equiv> memory_file image_bytes"
  shows "image_file (device_read_at dev memory_device)"
    and "FDXFSHelper_Open dev (memory_mounted label) (Some source) = (memory_opened label source image_volume, Inr True)"
proof -
  show fio: "image_file (device_read_at dev memory_device)"
    unfolding image_file_def dev_def by (simp add: memory_device_read image_length image_reads)
  show "FDXFSHelper_Open dev (memory_mounted label) (Some source) = (memory_opened label source image_volume, Inr True)"
    using image_opens_read [OF fio] image_length unfolding dev_def
    by (intro memory_open) (auto simp: image_volume_def volume_zero_def)
qed

text \<open>The device is read by \<open>FDXFSInfo\<close>: of both files the number, the name and the size begin what is printed.\<close>

definition image_file_number :: "u8 list \<Rightarrow> u8 list" where
  "image_file_number digits = tabs 1 @ ascii ''Inode number'' @ tabs 2 @ ascii '': '' @ digits @ [newline]"

definition image_file_size :: "u8 list \<Rightarrow> u8 list" where
  "image_file_size digits = tabs 1 @ ascii ''Size'' @ tabs 3 @ ascii '': '' @ digits @ [newline]"

lemma FDXFSInfo_prints_files_witness:
  "\<exists>helper more more'. FDXFSInfo_wmain 2 (memory_file image_bytes) recording_libfdata image_wide
       [map ucast (ascii ''FDXFSInfo''), map ucast (ascii ''disk'')] = Some (helper, Inr ()) \<and>
     helper_output helper = title @ ascii ''File system hierarchy:'' @ [newline] @
       image_file_number (ascii ''65'') @ image_file_size (ascii ''0'') @ more @
       image_file_number (ascii ''66'') @ tabs 1 @ ascii ''Name'' @ tabs 3 @ ascii '': /a'' @ [newline] @
         image_file_size (ascii ''5'') @ more' @ [newline]"
proof -
  let ?dev = "memory_file image_bytes" and ?program = "map ucast (ascii ''FDXFSInfo'') :: u16 list"
    and ?source = "map ucast (ascii ''disk'') :: u16 list"
  let ?v = "image_volume\<lparr> vol_file_io_handle := Some memory_device, vol_file_io_handle_opened_in_library := True \<rparr>"
  have fio: "libbfio_handle_read (device_libbfio ?dev) memory_device = device_read_at ?dev memory_device"
    by (simp add: device_libbfio_def)
  have "ucs2_valid 0x61" by (simp add: ucs2_valid_def)
  with image_tree [OF image_device_opens(1) fio, of ucs2_valid True]
  obtain d s where d: "libfsxfs_volume_get_root_directory (device_libbfio ?dev) recording_libfdata ?v =
      Inr (tree_entry (File_Tree [] d [File_Tree [0x61] s []]))"
    "tree_stored recording_libfdata utf8_units ucs2_valid (File_Tree [] d [File_Tree [0x61] s []])"
    "image_entry 0x41 0 d" "image_entry 0x42 5 s"
    by auto
  have mounted: "FDXFSHelper_Mount ?dev Map.empty (fst (FDXFSHelper_Initialize xfs_helper_zero)) (ascii ''xfs_mp'') =
      ([ascii ''xfs_mp'' \<mapsto> Some memory_device], memory_mounted (ascii ''xfs_mp''), Inr True)"
    by (simp add: helper_initialize memory_mount)
  have v: "helper_volume (memory_opened label ?source image_volume) = Some ?v" for label
    by (simp add: helper_volume_def memory_opened_def)
  have l: "tree_levels (File_Tree [] d [File_Tree [0x61] s []]) \<le> 2" by simp
  note safe = image_entry_printed [OF d(3)] image_entry_printed [OF d(4)]
  have files: "\<forall>(names, e) \<in> set (tree_nodes [] (File_Tree [] d [File_Tree [0x61] s []])).
      names_printable ucs2_units names \<and> attributes_inside (fe_inode e)"
    using safe by (simp add: image_names)
  have digits: "decimal_digits 65 = ascii ''65''" "decimal_digits 66 = ascii ''66''" "decimal_digits 0 = ascii ''0''"
    "decimal_digits 5 = ascii ''5''"
    by (simp_all add: decimal_digits.simps ascii_def)
  have name: "ascii ''Name'' @ tabs 3 @ ascii '': '' @ [0x2f, 0x61, newline] = ascii ''Name'' @ tabs 3 @ ascii '': /a'' @ [newline]"
    by (simp add: ascii_def)
  obtain helper texts where r: "FDXFSInfo_wmain 2 ?dev recording_libfdata image_wide [?program, ?source] = Some (helper, Inr ())"
    "helper_output helper = title @ ascii ''File system hierarchy:'' @ [newline] @ concat texts @ [newline]"
    "list_all2 (\<lambda>(names, e) t. text_of_file recording_libfdata image_wide ucs2_units names e t)
       [([], d), ([[0x61]], s)] texts"
    using FDXFSInfo_prints_files [OF image_wide_codec image_wide_names image_wide_safe recording_libfdata_read_safe mounted image_device_opens(2) v d(1,2) l files,
        of ?program]
    by (auto intro: list_all2_mono)
  from r(3) obtain more more' where
    "texts = [file_heading image_wide ucs2_units [] d @ more, file_heading image_wide ucs2_units [[0x61]] s @ more']"
    using safe by (auto simp: list_all2_Cons1 text_of_file_def)
  then show ?thesis
    using r(1,2) safe
    by (intro exI [of _ helper] exI [of _ more] exI [of _ more'])
      (simp add: file_heading_def image_names digits name image_file_number_def image_file_size_def)
qed

end
