(* ===== verification/Spec2Isabelle.thy ===== *)
theory Spec2Isabelle
  imports Volume_Session Volume_Paths Attributes_Tree Mount_Fuse_Attributes Volume_Signature Example_Image
begin

text \<open>
  libfsxfs reads XFS file systems. This development models the library, the C files under
  \<open>src/libfsxfs\<close>, and of the tools under \<open>src/fsxfstools\<close> the one that shows a file system as a directory
  and the one that prints what is in it, as definitions that compute, and proves what makes them correct: that no input makes
  the code read outside of a buffer, that what it answers is what the file system stores, and where
  it falls short of that, how exactly.

  \<^bold>\<open>The program.\<close> A volume (\<open>libfsxfs_volume.c\<close>) opens a file through the \<open>libbfio\<close> library, reads
  the superblock, fills the IO handle with the sizes that every other part needs, and reads for
  every allocation group where its inodes are. A caller then asks the volume for a file entry, by
  path, by inode number or for the root directory. The file system finds the inode of a number in
  the inode B+ tree of its allocation group, and walks a path along the directories. The inode
  holds the data of a file in line, as extents, or as the root of an extent B+ tree, and likewise
  its extended attributes. The file entry reads the data through a stream of the \<open>libfdata\<close> library
  that it makes of the extents. The mount tool keeps such a volume; it escapes the names of a directory
  when it lists them (\<open>mount_path_string.c\<close>), and finds a path of escaped names again by undoing
  that and looking the path up in the volume (\<open>mount_handle.c\<close>, \<open>mount_file_system.c\<close>). The callbacks
  that FUSE calls (\<open>mount_fuse.c\<close>) open such paths, keep the file entry in a file handle, and answer with what
  is read from it. The information tool (\<open>info_handle.c\<close>) prints the volume, a file entry, or all of them along
  the directories from the root on, each as a line of a table when it writes a bodyfile. The program under
  \<open>src/FDXFSInfo\<close> puts a device, a range of a file (\<open>FDXFSFileDev.cpp\<close>), below the volume, and keeps the devices
  that are mounted and the one that is open (\<open>FDXFSHelper.cpp\<close>).

  \<^bold>\<open>The theories.\<close> In the order in which they build on each other, with the files of \<open>src/libfsxfs\<close>:

    \<^item> \<open>Prelude\<close>: the C integer types, the result of a call, its sequencing, and what it means for
      a call to be free of undefined behaviour.
    \<^item> \<open>Byte_Stream\<close>: the macros of \<open>common/byte_stream.h\<close> that the library uses, and the interface
      \<open>structure_reader\<close> of a function that reads a structure of fixed size from a buffer.
    \<^item> \<open>IO_Handle\<close>: \<open>libfsxfs_io_handle.c\<close> and the translation of block numbers to file offsets.
    \<^item> \<open>Superblock\<close>: \<open>libfsxfs_superblock.c\<close>.
    \<^item> \<open>Btree_Block\<close>: \<open>libfsxfs_btree_header.c\<close>, \<open>libfsxfs_btree_block.c\<close>.
    \<^item> \<open>Inode_Btree\<close>: \<open>libfsxfs_inode_information.c\<close>, \<open>libfsxfs_inode_btree_record.c\<close>,
      \<open>libfsxfs_inode_btree.c\<close>.
    \<^item> \<open>Extent\<close>: \<open>libfsxfs_extent.c\<close>, \<open>libfsxfs_extents.c\<close>, \<open>libfsxfs_extent_list.c\<close>.
    \<^item> \<open>Extent_Btree\<close>: \<open>libfsxfs_extent_btree.c\<close>.
    \<^item> \<open>Inode\<close>: \<open>libfsxfs_inode.c\<close>.
    \<^item> \<open>Directory_Table\<close>: \<open>libfsxfs_directory_entry.c\<close>, \<open>libfsxfs_directory_table_header.c\<close>,
      \<open>libfsxfs_directory_table.c\<close>.
    \<^item> \<open>Block_Directory\<close>: \<open>libfsxfs_block_directory_header.c\<close>, \<open>libfsxfs_block_directory_footer.c\<close>,
      \<open>libfsxfs_block_directory.c\<close>.
    \<^item> \<open>Directory\<close>: \<open>libfsxfs_directory.c\<close>.
    \<^item> \<open>File_System_Block\<close>: \<open>libfsxfs_file_system_block_header.c\<close>, \<open>libfsxfs_file_system_block.c\<close>.
    \<^item> \<open>Attributes_Table\<close>: \<open>libfsxfs_attribute_values.c\<close>, \<open>libfsxfs_attributes_table_header.c\<close>,
      \<open>libfsxfs_attributes_table.c\<close>.
    \<^item> \<open>Attributes\<close>: \<open>libfsxfs_attributes_leaf_block_header.c\<close>, \<open>libfsxfs_attributes.c\<close>;
      \<open>Attributes_Tree\<close> is its abstract view.
    \<^item> \<open>Data_Stream\<close>: \<open>libfsxfs_data_stream.c\<close>, \<open>libfsxfs_buffer_data_handle.c\<close>,
      \<open>libfsxfs_block_data_handle.c\<close>; \<open>Stream_Reading\<close> is what a stream then contains.
    \<^item> \<open>Attribute_Stream\<close>: the stream of the value of an attribute, of \<open>libfsxfs_attributes.c\<close>.
    \<^item> \<open>Extended_Attribute\<close>: \<open>libfsxfs_extended_attribute.c\<close>.
    \<^item> \<open>File_System\<close>: \<open>libfsxfs_file_system.c\<close>.
    \<^item> \<open>Volume\<close>: opening and closing, of \<open>libfsxfs_volume.c\<close>; \<open>Volume_Entries\<close>: what an open
      volume answers; \<open>Volume_Signature\<close>: \<open>libfsxfs_support.c\<close>, the test whether a file is a volume.
    \<^item> \<open>File_Entry\<close>: \<open>libfsxfs_file_entry.c\<close>; \<open>File_Entry_States\<close> and \<open>File_Entry_Data\<close> are what its
      operations keep and what is read through it.
    \<^item> \<open>Volume_Paths\<close>: a listed file entry and the path that leads to it.
    \<^item> \<open>Volume_Session\<close> and this theory: the volume with the file entries that it hands out.

  and of \<open>src/fsxfstools\<close>:

    \<^item> \<open>Mount_Path_String\<close>: \<open>mount_path_string.c\<close>; \<open>Utf8\<close> is the encoding of its paths.
    \<^item> \<open>Mount_File_System\<close>: \<open>mount_file_system.c\<close>, \<open>mount_file_entry.c\<close>.
    \<^item> \<open>Mount_Handle\<close>: \<open>mount_handle.c\<close>; \<open>Mount_Paths\<close> is how its paths relate to those of the volume.
    \<^item> \<open>Mount_Fuse\<close>: \<open>mount_fuse.c\<close>; \<open>Mount_Fuse_Files\<close>, \<open>Mount_Fuse_Listing\<close> and \<open>Mount_Fuse_Attributes\<close> are
      what a process sees through it.
    \<^item> \<open>Text_Output\<close>: how numbers, times (as C prints a \<open>double\<close>) and, with \<open>digest_hash.c\<close>, hashes are printed.
    \<^item> \<open>Info_Handle\<close>, \<open>Info_Printing\<close>: \<open>info_handle.c\<close>. What is written to a stream is kept with the handle.
      \<open>Info_Names\<close>, \<open>Info_Bodyfile\<close> and \<open>Info_Hierarchy\<close> are what its output says.
    \<^item> \<open>Tool_Options\<close>: \<open>fsxfstools_getopt.c\<close> and the loop over the options; \<open>Info_Main\<close>: \<open>fsxfsinfo.c\<close>;
      \<open>Mount_Main\<close>: \<open>fsxfsmount.c\<close>; \<open>Example_Image\<close>: these programs and that of a device run on the image of a
      volume.

  and of \<open>src/FDXFSInfo\<close>:

    \<^item> \<open>Device_File\<close>: \<open>FDXFSFileDev.cpp\<close>.
    \<^item> \<open>Device_Session\<close>: \<open>FDXFSHelper.cpp\<close>, and the opening and closing of \<open>FDXFSInfoHandle.cpp\<close>.
    \<^item> \<open>Device_Printing\<close>: the printing of \<open>FDXFSInfoHandle.cpp\<close> with wide strings, and \<open>FDXFSInfo.cpp\<close>, the program;
      \<open>Device_Hierarchy\<close> is what it prints.

  \<^bold>\<open>How the code is rendered.\<close> A structure is a record with the fields of the structure, named with a
  prefix; a function keeps its name; a helper that a function inlines, a loop above all, has a name
  of its own. Integers keep their width as words, so that they wrap around where those of the
  code do; \<open>size_t\<close>, where only sizes of buffers are stored in it, and the array indexes are
  natural or integer numbers. A call that returns 1 or fails is a value of \<open>result\<close>: \<open>Inr\<close> with what it
  determines, or \<open>Inl\<close> with the error code that was set first. A read outside of a buffer and
  a shift by the width or more are undefined in C: they are the errors \<open>Undefined\<close>, and \<open>fault_free\<close>
  says that a call does not end with one. A call that returns 0 for \<open>not found\<close> has an optional
  value as its result. A function that changes a structure returns the structure as it leaves it;
  where a caller can go on with a structure after a failure, as with the volume and the file entry,
  it is returned along with the error. A file is a function from an offset and a size to the
  bytes that are read, or none.

  \<^bold>\<open>Parameters.\<close> The opening and closing of \<open>libbfio\<close> is the record \<open>libbfio\<close>, the streams of \<open>libfdata\<close> are
  the record \<open>libfdata\<close>, and the comparison and conversion of names of \<open>libuna\<close> are functions. What is
  relied on is said where it is used: \<open>libfdata_reads\<close>, \<open>libfdata_safe\<close>, \<open>libfdata_read_safe\<close>,
  \<open>unicode_advances\<close>, and for the mount tool, where the functions of \<open>libuna\<close> are the record \<open>libuna\<close>, \<open>unicode_writes\<close>, \<open>unicode_appends\<close>,
  \<open>libuna_codec\<close> and \<open>libuna_names\<close>. The functions of \<open>Utf8\<close> satisfy them, and the
  stream \<open>recording_libfdata\<close> satisfies what is relied on. The hash of \<open>libhmac\<close> and the conversion
  of a time to a string of \<open>libfdatetime\<close> are the record \<open>info_libraries\<close> (\<open>libhmac_md5\<close>). The
  file below a device is the record \<open>libbfio_file\<close>
  (\<open>libbfio_file_reads\<close>, which \<open>memory_file\<close> satisfies), the conversions to wide strings and of those to the
  console are the record \<open>wide_libraries\<close> (\<open>wide_codec\<close>, \<open>wide_names\<close>, \<open>wide_safe\<close>, which \<open>image_wide\<close>
  satisfies), and what the programs ask of the system and of FUSE are the
  records \<open>info_system\<close> and \<open>mount_system\<close>. The arrays and lists of \<open>libcdata\<close>
  are lists.

  \<^bold>\<open>Recursion and loops.\<close> The code bounds the recursion into B+ trees and attribute blocks by
  256 levels; the functions of the model end because 300 less the depth decreases. Loops over a counter
  or an offset end by what is left. Some loops may not end in the code, those over the blocks of an
  extent, over the characters of a path or of a name to escape, and over the segments of an attribute value:
  there \<open>None\<close> is the result of a run that never ends, and it is proved when they end. The walk of the
  information tool along the directories, and that of the program of a device, has no limit of its own;
  the model has a number of levels, with \<open>None\<close>
  when it is exceeded, and it is enough that it is that of the directory tree.

  \<^bold>\<open>What is shown.\<close> The sections after the definitions of a component hold its lemmas.

    \<^item> Memory safety: the rules \<open>safe_intros\<close> carry \<open>fault_free\<close> through the calls, up to opening a volume and
      using all that it hands out (\<open>session_memory_safe\<close>). What is shown not to be memory safe
      is the reading of the short form table of attributes (\<open>attributes_table_out_of_bounds_read\<close>), when a name in it
      reaches past its end; without that it is (\<open>attributes_table_names_inside\<close>).
    \<^item> Refinement: the lookup of an inode decides membership in the tree that is stored on the disk
      (\<open>disk_tree\<close>), the extents are those of the leaves (\<open>disk_extents\<close>), the attributes are those of the
      stored tree, the lookup of a path is the walk along its names, and what is read from a file
      is what its extents store.
    \<^item> Round trips: what the on-disk form of a superblock, an extent, a directory, or a table of
      attributes says is what is read from it.
    \<^item> Invariants: of the volume, of the file entry, of the extents and of the handles, over the
      steps \<open>volume_step\<close>, \<open>file_entry_step\<close>, \<open>buffer_step\<close>, \<open>fuse_step\<close> and \<open>helper_step\<close>.
    \<^item> The composition: every file entry that is listed is found again, in the volume by the path and by the
      inode number, and in the mounted directory by the escaped path; a process that opens that path reads the
      bytes that the inode stores (\<open>mounted_file_reads_stored_data\<close>).
    \<^item> Devices: a device whose range goes to the end of a file is that part of the file (\<open>device_is_partition\<close>),
      and the volume on it is open or closed (\<open>device_session_states\<close>).
    \<^item> The programs: options are read as they are written (\<open>getopt_roundtrip\<close>), and from the arguments to the output the
      tools do what their parts do (\<open>fsxfsinfo_prints_hierarchy\<close>, \<open>fsxfsmount_serves_volume\<close>), as does the program
      of a device (\<open>FDXFSInfo_prints_files\<close>). The rules \<open>prints_intros\<close> carry through a sequence of prints that what
      each appends depends on the file only.
    \<^item> Output: the printed hierarchy is the directory tree (\<open>hierarchy_prints_tree\<close>), and what the columns of a
      line are and when they can be told apart (\<open>bodyfile_line\<close>).
    \<^item> Errors: what the code does on the inputs where it does not do what it means to.

  \<^bold>\<open>Interfaces.\<close> \<open>structure_reader\<close> is the contract of the ten readers of fixed structures: too little
  data is refused, and enough data is never read beyond its end. \<open>directory_lookup\<close> is what the walk
  along a path needs of the lookup of a name, in either encoding.

  \<^bold>\<open>Not modelled.\<close> The checks for null pointers and the failures of memory allocation; the debug
  output; the locks, whose operations are taken one after the other. That a file entry is valid only as
  long as the volume and an attribute only as long as the file entry: they hold by value what the
  code points to. The wrappers around other libraries (\<open>libfsxfs_error.c\<close>, \<open>libfsxfs_notify.c\<close>,
  \<open>libfsxfs_debug.c\<close>). Of the tools, what talks to the system: the callbacks of Dokan for Windows
  (\<open>mount_dokan.c\<close>), the messages about errors, the settings of the output and the handlers of signals. The Python
  bindings \<open>src/pyfsxfs\<close> hand what they are asked to the library; they and the tests are left out.
\<close>

section \<open>A session with a volume\<close>

text \<open>
  C1: Nothing that a volume and its file entries are asked reads outside of a buffer or shifts out
  of range, whatever the file contains: not opening it, in whatever state the volume is, and, once
  it was opened, not the lookup of the root directory, of an inode number or of a path, nor the
  listing of any file entry that is handed out, by a lookup or as the entry of another one, in
  any state that it reaches by being listed and read.
\<close>

theorem session_memory_safe:
  assumes "volume_reachable bf create v" and "libfdata_safe lib"
    and "unicode_advances (snd u8)" and "unicode_advances (snd u16)"
  shows "fault_free (snd (libfsxfs_volume_open_file_io_handle bf v h flags)) \<and>
    fault_free (libfsxfs_volume_get_root_directory bf lib v) \<and>
    fault_free (libfsxfs_volume_get_file_entry_by_inode bf lib v n) \<and>
    (\<forall>r. libfsxfs_volume_get_file_entry_by_utf8_path bf lib (fst u8) (snd u8) v path8 = Some r \<longrightarrow> fault_free r) \<and>
    (\<forall>r. libfsxfs_volume_get_file_entry_by_utf16_path bf lib (fst u16) (snd u16) v path16 = Some r \<longrightarrow> fault_free r) \<and>
    (\<forall>e e1. volume_file_entry bf lib u8 u16 v e \<and> file_entry_reachable lib e e1 \<longrightarrow>
       (\<forall>e2 r. libfsxfs_file_entry_get_number_of_sub_file_entries e1 = Some (e2, r) \<longrightarrow> fault_free r) \<and>
       (\<forall>i e2 r. libfsxfs_file_entry_get_sub_file_entry_by_index lib e1 i = Some (e2, r) \<longrightarrow> fault_free r))"
  by (intro conjI allI impI volume_open_safe volume_get_safe [OF assms(1,2)])
    (erule volume_path_safe [OF assms] conjE listing_safe [OF assms(1,2)], (assumption+)?)+

text \<open>A Unicode library for strings of characters of one unit.\<close>

definition example_utf8 :: "u8 name_compare \<times> u8 unicode_copy" where
  "example_utf8 = (example_compare, example_copy)"

definition example_utf16 :: "u16 name_compare \<times> u16 unicode_copy" where
  "example_utf16 = (\<lambda>s t. if s = map ucast t then Compare_Equal else Compare_Less, \<lambda>s i. Inr (ucast (s ! i), i + 1))"

lemma session_memory_safe_witness:
  "fault_free (libfsxfs_volume_get_root_directory example_libbfio recording_libfdata
     (example_volume\<lparr> vol_file_io_handle := Some () \<rparr>))"
proof -
  have "unicode_advances (snd example_utf8)" "unicode_advances (snd example_utf16)"
    by (simp_all add: unicode_advances_def example_utf8_def example_utf16_def example_copy_def)
  from session_memory_safe [OF example_volume_reachable recording_libfdata_safe this] show ?thesis by blast
qed

text \<open>
  C31: A file entry is the same however it was found: the inode number of every file entry that a
  volume hands out, from its root, an inode number or a path, or by listing directories from there
  on, leads back to it, with the same inode and the same data, only without the name.
\<close>

theorem session_entry_by_its_number:
  assumes "volume_file_entry bf lib u8 u16 v e"
  shows "libfsxfs_volume_get_file_entry_by_inode bf lib v (libfsxfs_file_entry_get_inode_number e) =
    Inr (e\<lparr> fe_directory_entry := None \<rparr>)"
  using assms by (rule volume_file_entry_again)

lemma session_entry_by_its_number_witness:
  "\<exists>e. volume_file_entry example_session_libbfio recording_libfdata example_utf8 example_utf16 example_session_volume e \<and>
     fe_inode_number e = 0x41 \<and>
     libfsxfs_volume_get_file_entry_by_inode example_session_libbfio recording_libfdata example_session_volume 0x41 =
       Inr (e\<lparr> fe_directory_entry := None \<rparr>)"
proof -
  obtain inode e where e: "get_existing_inode example_file_system example_path_io example_path_file 0x41 = Inr inode"
    "libfsxfs_file_entry_initialize recording_libfdata None example_path_io example_path_file
       example_file_system 0x41 inode None = Inr e"
    using example_file_entry by blast
  then have "libfsxfs_volume_get_root_directory example_session_libbfio recording_libfdata example_session_volume = Inr e"
    by (simp add: libfsxfs_volume_get_root_directory_def example_session_volume_def example_session_libbfio_def
        volume_sources_def)
  then have v: "volume_file_entry example_session_libbfio recording_libfdata example_utf8 example_utf16 example_session_volume e"
    by (rule volume_file_entry.root)
  with session_entry_by_its_number [OF v] file_entry_initialize_number [OF e(2)] show ?thesis
    by (auto simp: libfsxfs_file_entry_get_inode_number_def)
qed

end
